(* ===== verification/Prelude.thy ===== *)
theory Prelude
  imports Main "HOL-Library.Word" "HOL-Library.List_Lexorder"
begin

text \<open>
  Shared vocabulary of the development: Rust's \<open>Result\<close> as a sum type, checked
  machine arithmetic on words, big-endian byte strings, and key-ordered tables
  (the part of redb's table contract the stores rely on).
\<close>

named_theorems result_simps \<open>characterisations of successful fallible computations\<close>
named_theorems checked_simps \<open>checked word arithmetic read through \<open>unat\<close>\<close>
named_theorems codec_simps \<open>byte-string encoders and decoders\<close>

type_synonym byte = "8 word"
type_synonym bytes = "8 word list"
type_synonym u8 = "8 word"
type_synonym u16 = "16 word"
type_synonym u32 = "32 word"
type_synonym u64 = "64 word"
type_synonym ('e, 'a) result = "'e + 'a"

abbreviation Ok :: "'a \<Rightarrow> ('e, 'a) result" where
  "Ok \<equiv> Inr"

abbreviation Err :: "'e \<Rightarrow> ('e, 'a) result" where
  "Err \<equiv> Inl"


section \<open>Fallible computations\<close>

text \<open>The question-mark operator: an error ends the computation, a value is passed on.\<close>

definition rbind :: "('e, 'a) result \<Rightarrow> ('a \<Rightarrow> ('e, 'b) result) \<Rightarrow> ('e, 'b) result" where
  "rbind m f = (case m of Inl e \<Rightarrow> Inl e | Inr x \<Rightarrow> f x)"

definition ok_or :: "'a option \<Rightarrow> 'e \<Rightarrow> ('e, 'a) result" where
  "ok_or x e = (case x of None \<Rightarrow> Err e | Some v \<Rightarrow> Ok v)"

definition ensure :: "bool \<Rightarrow> 'e \<Rightarrow> ('e, unit) result" where
  "ensure c e = (if c then Ok () else Err e)"

definition map_err :: "('e \<Rightarrow> 'f) \<Rightarrow> ('e, 'a) result \<Rightarrow> ('f, 'a) result" where
  "map_err g m = (case m of Inl e \<Rightarrow> Err (g e) | Inr x \<Rightarrow> Ok x)"

definition is_ok :: "('e, 'a) result \<Rightarrow> bool" where
  "is_ok m = (case m of Inl _ \<Rightarrow> False | Inr _ \<Rightarrow> True)"

text \<open>A \<open>for\<close> loop whose body may return early with an error.\<close>

fun rfold :: "('a \<Rightarrow> 's \<Rightarrow> ('e, 's) result) \<Rightarrow> 'a list \<Rightarrow> 's \<Rightarrow> ('e, 's) result" where
  "rfold f [] s = Ok s"
| "rfold f (x # xs) s = rbind (f x s) (rfold f xs)"

text \<open>\<open>iter().map(f).collect::<Result<Vec<_>, _>>()\<close>.\<close>

fun rmap :: "('a \<Rightarrow> ('e, 'b) result) \<Rightarrow> 'a list \<Rightarrow> ('e, 'b list) result" where
  "rmap f [] = Ok []"
| "rmap f (x # xs) = rbind (f x) (\<lambda>y. rbind (rmap f xs) (\<lambda>ys. Ok (y # ys)))"


text \<open>\<open>slice::get\<close>.\<close>

definition list_get :: "'a list \<Rightarrow> nat \<Rightarrow> 'a option" where
  "list_get xs i = (if i < length xs then Some (xs ! i) else None)"


section \<open>Checked machine arithmetic\<close>

definition checked_add :: "'a::len word \<Rightarrow> 'a word \<Rightarrow> 'a word option" where
  "checked_add x y = (if unat x + unat y < 2 ^ LENGTH('a) then Some (x + y) else None)"

definition checked_sub :: "'a::len word \<Rightarrow> 'a word \<Rightarrow> 'a word option" where
  "checked_sub x y = (if y \<le> x then Some (x - y) else None)"

definition checked_mul :: "'a::len word \<Rightarrow> 'a word \<Rightarrow> 'a word option" where
  "checked_mul x y = (if unat x * unat y < 2 ^ LENGTH('a) then Some (x * y) else None)"

text \<open>\<open>T::try_from\<close> of a wider unsigned value.\<close>

definition try_from_nat :: "nat \<Rightarrow> 'a::len word option" where
  "try_from_nat n = (if n < 2 ^ LENGTH('a) then Some (of_nat n) else None)"


text \<open>The number of 64-bit values, kept opaque in amount arithmetic.\<close>

definition u64_limit :: nat where
  "u64_limit = 2 ^ 64"


section \<open>Big-endian byte strings\<close>

fun be_bytes :: "nat \<Rightarrow> nat \<Rightarrow> bytes" where
  "be_bytes 0 x = []"
| "be_bytes (Suc n) x = be_bytes n (x div 256) @ [of_nat (x mod 256)]"

fun be_nat :: "bytes \<Rightarrow> nat" where
  "be_nat [] = 0"
| "be_nat (b # bs) = unat b * 256 ^ length bs + be_nat bs"

definition u16_be :: "u16 \<Rightarrow> bytes" where
  "u16_be w = be_bytes 2 (unat w)"

definition u32_be :: "u32 \<Rightarrow> bytes" where
  "u32_be w = be_bytes 4 (unat w)"

definition u64_be :: "u64 \<Rightarrow> bytes" where
  "u64_be w = be_bytes 8 (unat w)"

definition u32_from_be :: "bytes \<Rightarrow> u32" where
  "u32_from_be bs = of_nat (be_nat bs)"

definition u64_from_be :: "bytes \<Rightarrow> u64" where
  "u64_from_be bs = of_nat (be_nat bs)"


text \<open>The bytes of an ASCII literal.\<close>

definition str_bytes :: "string \<Rightarrow> bytes" where
  "str_bytes s = map (\<lambda>c. of_nat (of_char c)) s"


section \<open>Key-ordered tables\<close>

text \<open>
  A redb table is a finite map whose iteration follows the key order.  The model
  keeps it as an association list with strictly increasing keys.
\<close>

type_synonym ('k, 'v) table = "('k \<times> 'v) list"

fun tbl_insert :: "'k::linorder \<Rightarrow> 'v \<Rightarrow> ('k, 'v) table \<Rightarrow> ('k, 'v) table" where
  "tbl_insert k v [] = [(k, v)]"
| "tbl_insert k v ((k', v') # t) =
     (if k < k' then (k, v) # (k', v') # t
      else if k = k' then (k, v) # t
      else (k', v') # tbl_insert k v t)"

definition tbl_remove :: "'k \<Rightarrow> ('k, 'v) table \<Rightarrow> ('k, 'v) table" where
  "tbl_remove k t = filter (\<lambda>e. fst e \<noteq> k) t"

definition tbl_get :: "('k, 'v) table \<Rightarrow> 'k \<Rightarrow> 'v option" where
  "tbl_get t k = map_of t k"

definition tbl_keys :: "('k, 'v) table \<Rightarrow> 'k list" where
  "tbl_keys t = map fst t"

definition tbl_ok :: "('k::linorder, 'v) table \<Rightarrow> bool" where
  "tbl_ok t = sorted_wrt (<) (map fst t)"


section \<open>Step systems\<close>

text \<open>States reached from an initial one by labelled steps.\<close>

inductive reachable :: "('s \<Rightarrow> bool) \<Rightarrow> ('s \<Rightarrow> 'l \<Rightarrow> 's \<Rightarrow> bool) \<Rightarrow> 's \<Rightarrow> bool"
  for init step where
  reachable_init: "init s \<Longrightarrow> reachable init step s"
| reachable_step: "reachable init step s \<Longrightarrow> step s l s' \<Longrightarrow> reachable init step s'"


section \<open>Lemmas on fallible computations\<close>

lemma rbind_Ok [simp]: "rbind (Ok x) f = f x"
  by (simp add: rbind_def)

lemma rbind_Err [simp]: "rbind (Err e) f = Err e"
  by (simp add: rbind_def)

lemma rbind_eq_Ok [result_simps]:
  "rbind m f = Ok y \<longleftrightarrow> (\<exists>x. m = Ok x \<and> f x = Ok y)"
  by (cases m) simp_all

lemma rbind_eq_Err:
  "rbind m f = Err e \<longleftrightarrow> m = Err e \<or> (\<exists>x. m = Ok x \<and> f x = Err e)"
  by (cases m) simp_all

lemma rbind_assoc: "rbind (rbind m f) g = rbind m (\<lambda>x. rbind (f x) g)"
  by (cases m) simp_all

lemma ok_or_simps [simp]:
  "ok_or (Some v) e = Ok v"
  "ok_or None e = Err e"
  by (simp_all add: ok_or_def)

lemma ok_or_eq_Ok [result_simps]: "ok_or x e = Ok v \<longleftrightarrow> x = Some v"
  by (cases x) simp_all

lemma ok_or_eq_Err: "ok_or x e = Err e' \<longleftrightarrow> x = None \<and> e' = e"
  by (cases x) auto

lemma ensure_simps [simp]:
  "ensure True e = Ok ()"
  "ensure False e = Err e"
  by (simp_all add: ensure_def)

lemma ensure_eq_Ok [result_simps]: "ensure c e = Ok u \<longleftrightarrow> c"
  by (simp add: ensure_def)

lemma ensure_eq_Err: "ensure c e = Err e' \<longleftrightarrow> \<not> c \<and> e' = e"
  by (auto simp: ensure_def)

lemma map_err_simps [simp]:
  "map_err g (Ok x) = Ok x"
  "map_err g (Err e) = Err (g e)"
  by (simp_all add: map_err_def)

lemma map_err_eq_Ok [result_simps]: "map_err g m = Ok y \<longleftrightarrow> m = Ok y"
  by (cases m) simp_all

lemma is_ok_simps [simp]:
  "is_ok (Ok x)"
  "\<not> is_ok (Err e)"
  by (simp_all add: is_ok_def)

lemma is_ok_iff: "is_ok m \<longleftrightarrow> (\<exists>x. m = Ok x)"
  by (cases m) simp_all

lemma is_ok_rbind: "is_ok (rbind m f) \<longleftrightarrow> (\<exists>x. m = Ok x \<and> is_ok (f x))"
  by (cases m) simp_all

lemma if_Err_eq_Ok [result_simps]:
  "((if c then Err e else m) = Ok y) \<longleftrightarrow> \<not> c \<and> m = Ok y"
  "((if c then m else Err e) = Ok y) \<longleftrightarrow> c \<and> m = Ok y"
  by auto

lemma list_get_eq_Some [result_simps]: "list_get xs i = Some x \<longleftrightarrow> i < length xs \<and> xs ! i = x"
  by (auto simp: list_get_def)

lemma rfold_append:
  "rfold f (xs @ ys) s = rbind (rfold f xs s) (rfold f ys)"
proof (induction xs arbitrary: s)
  case (Cons x xs)
  then show ?case by (cases "f x s") simp_all
qed simp

lemma rfold_invariant:
  assumes "rfold f xs s = Ok s'" and "P s"
    and "\<And>x a b. x \<in> set xs \<Longrightarrow> P a \<Longrightarrow> f x a = Ok b \<Longrightarrow> P b"
  shows "P s'"
  using assms
proof (induction xs arbitrary: s)
  case (Cons x xs)
  then show ?case by (cases "f x s") auto
qed simp

lemma rmap_eq_Ok:
  "rmap f xs = Ok ys \<longleftrightarrow> list_all2 (\<lambda>x y. f x = Ok y) xs ys"
proof (induction xs arbitrary: ys)
  case (Cons x xs)
  then show ?case
    by (cases ys) (auto simp: rbind_eq_Ok)
qed auto

lemma rmap_length: "rmap f xs = Ok ys \<Longrightarrow> length ys = length xs"
  by (auto simp: rmap_eq_Ok dest: list_all2_lengthD)


section \<open>Lemmas on checked arithmetic\<close>

lemma unat_less_pow: "unat (w :: 'a::len word) < 2 ^ LENGTH('a)"
  by (rule unsigned_less)

lemma checked_add_eq_Some [checked_simps]:
  "checked_add (x :: 'a::len word) y = Some z \<longleftrightarrow>
     unat z = unat x + unat y"
proof -
  have "unat (x + y) = unat x + unat y" if "unat x + unat y < 2 ^ LENGTH('a)"
    using that by (simp add: unat_word_ariths)
  then show ?thesis
    by (auto simp: checked_add_def word_unat_eq_iff) (metis unat_less_pow)
qed

lemma checked_sub_eq_Some [checked_simps]:
  "checked_sub (x :: 'a::len word) y = Some z \<longleftrightarrow>
     unat y \<le> unat x \<and> unat z = unat x - unat y"
  by (auto simp: checked_sub_def word_le_nat_alt word_unat_eq_iff unat_sub)

lemma checked_mul_eq_Some [checked_simps]:
  "checked_mul (x :: 'a::len word) y = Some z \<longleftrightarrow>
     unat z = unat x * unat y"
proof -
  have "unat (x * y) = unat x * unat y" if "unat x * unat y < 2 ^ LENGTH('a)"
    using that by (simp add: unat_word_ariths)
  then show ?thesis
    by (auto simp: checked_mul_def word_unat_eq_iff) (metis unat_less_pow)
qed

lemma checked_add_eq_None:
  "checked_add (x :: 'a::len word) y = None \<longleftrightarrow> 2 ^ LENGTH('a) \<le> unat x + unat y"
  by (auto simp: checked_add_def)

lemma checked_sub_eq_None: "checked_sub x y = None \<longleftrightarrow> x < y"
  by (auto simp: checked_sub_def)

lemma checked_mul_eq_None:
  "checked_mul (x :: 'a::len word) y = None \<longleftrightarrow> 2 ^ LENGTH('a) \<le> unat x * unat y"
  by (auto simp: checked_mul_def)

lemma try_from_nat_eq_Some [checked_simps]:
  "(try_from_nat n :: 'a::len word option) = Some w \<longleftrightarrow> unat w = n"
proof -
  have "unat (of_nat n :: 'a word) = n" if "n < 2 ^ LENGTH('a)"
    using that by (simp add: unat_of_nat take_bit_nat_eq_self)
  then show ?thesis
    using unat_less_pow [of w] by (auto simp: try_from_nat_def word_unat_eq_iff)
qed

lemma try_from_nat_unat [simp]: "try_from_nat (unat w) = Some w"
  by (simp add: try_from_nat_eq_Some)


lemma unat_u64_limit [simp]: "unat (c :: u64) < u64_limit"
  using unat_less_pow [of c] by (simp add: u64_limit_def)

lemma fits_u64: "(\<exists>c :: u64. unat c = n) \<longleftrightarrow> n < u64_limit"
proof
  show "n < u64_limit \<Longrightarrow> \<exists>c :: u64. unat c = n"
    by (intro exI [of _ "of_nat n"]) (simp add: unat_of_nat take_bit_nat_eq_self u64_limit_def)
  show "\<exists>c :: u64. unat c = n \<Longrightarrow> n < u64_limit" by auto
qed

lemma u64_ex: "n < u64_limit \<Longrightarrow> \<exists>c :: u64. unat c = n"
  by (simp add: fits_u64)


section \<open>Lemmas on byte strings\<close>

lemma length_be_bytes [simp]: "length (be_bytes n x) = n"
  by (induction n arbitrary: x) simp_all

lemma be_nat_append:
  "be_nat (xs @ ys) = be_nat xs * 256 ^ length ys + be_nat ys"
  by (induction xs) (simp_all add: algebra_simps power_add)

lemma unat_byte_less: "unat (b :: byte) < 256"
  using unat_less_pow [of b] by simp

lemma be_nat_bound: "be_nat bs < 256 ^ length bs"
proof (induction bs)
  case (Cons b bs)
  have "unat b * 256 ^ length bs + be_nat bs < (unat b + 1) * 256 ^ length bs"
    using Cons by simp
  also have "\<dots> \<le> 256 * 256 ^ length bs"
    using unat_byte_less [of b] by (intro mult_right_mono) simp_all
  finally show ?case by simp
qed simp

lemma be_nat_be_bytes: "be_nat (be_bytes n x) = x mod 256 ^ n"
proof (induction n arbitrary: x)
  case (Suc n)
  have "x mod 256 ^ Suc n = (x div 256 mod 256 ^ n) * 256 + x mod 256"
    by (simp add: mod_mult2_eq)
  then show ?case
    using Suc by (simp add: be_nat_append unat_of_nat take_bit_eq_mod)
qed simp

lemma be_nat_inject:
  assumes "length xs = length ys"
  shows "be_nat xs = be_nat ys \<longleftrightarrow> xs = ys"
  using assms
proof (induction xs ys rule: list_induct2)
  case (Cons x xs y ys)
  have "unat x = unat y \<and> be_nat xs = be_nat ys"
    if *: "unat x * 256 ^ length ys + be_nat xs = unat y * 256 ^ length ys + be_nat ys"
  proof -
    have "(unat x * 256 ^ length ys + be_nat xs) div 256 ^ length ys = unat x"
      "(unat y * 256 ^ length ys + be_nat ys) div 256 ^ length ys = unat y"
      using be_nat_bound [of xs] be_nat_bound [of ys] Cons.hyps by simp_all
    with * show ?thesis by auto
  qed
  with Cons show ?case by (auto simp: word_unat_eq_iff)
qed simp

lemma be_bytes_be_nat:
  assumes "length bs = n"
  shows "be_bytes n (be_nat bs) = bs"
proof -
  have "be_nat (be_bytes n (be_nat bs)) = be_nat bs"
    using be_nat_bound [of bs] assms by (simp add: be_nat_be_bytes)
  then show ?thesis using assms by (simp add: be_nat_inject)
qed

lemma be_nat_less_iff:
  assumes "length xs = length ys"
  shows "be_nat xs < be_nat ys \<longleftrightarrow> xs < ys"
  using assms
proof (induction xs ys rule: list_induct2)
  case (Cons x xs y ys)
  have bx: "be_nat xs < 256 ^ length ys" and by': "be_nat ys < 256 ^ length ys"
    using be_nat_bound [of xs] be_nat_bound [of ys] Cons.hyps by simp_all
  consider "unat x < unat y" | "unat x = unat y" | "unat y < unat x" by linarith
  then show ?case
  proof cases
    case 1
    have "unat x * 256 ^ length ys + be_nat xs < (unat x + 1) * 256 ^ length ys"
      using bx by simp
    also have "\<dots> \<le> unat y * 256 ^ length ys" using 1 by (intro mult_right_mono) simp_all
    finally show ?thesis using 1 Cons.hyps by (simp add: word_less_nat_alt)
  next
    case 2
    then show ?thesis using Cons by (simp add: word_unat_eq_iff word_less_nat_alt)
  next
    case 3
    have "unat y * 256 ^ length ys + be_nat ys < (unat y + 1) * 256 ^ length ys"
      using by' by simp
    also have "\<dots> \<le> unat x * 256 ^ length ys" using 3 by (intro mult_right_mono) simp_all
    finally show ?thesis using 3 Cons.hyps by (auto simp: word_less_nat_alt)
  qed
qed simp

lemma be_lengths [simp]:
  "length (u16_be a) = 2" "length (u32_be b) = 4" "length (u64_be c) = 8"
  by (simp_all add: u16_be_def u32_be_def u64_be_def)

lemma u32_from_be_u32_be [simp, codec_simps]: "u32_from_be (u32_be w) = w"
  using unat_less_pow [of w] by (simp add: u32_from_be_def u32_be_def be_nat_be_bytes)

lemma u64_from_be_u64_be [simp, codec_simps]: "u64_from_be (u64_be w) = w"
  using unat_less_pow [of w] by (simp add: u64_from_be_def u64_be_def be_nat_be_bytes)

lemma u32_be_u32_from_be [codec_simps]: "length bs = 4 \<Longrightarrow> u32_be (u32_from_be bs) = bs"
  using be_nat_bound [of bs]
  by (simp add: u32_from_be_def u32_be_def unat_of_nat take_bit_eq_mod be_bytes_be_nat)

lemma u64_be_u64_from_be [codec_simps]: "length bs = 8 \<Longrightarrow> u64_be (u64_from_be bs) = bs"
  using be_nat_bound [of bs]
  by (simp add: u64_from_be_def u64_be_def unat_of_nat take_bit_eq_mod be_bytes_be_nat)

lemma u32_be_inject [simp]: "u32_be v = u32_be w \<longleftrightarrow> v = w"
  using u32_from_be_u32_be by metis

lemma u64_be_inject [simp]: "u64_be v = u64_be w \<longleftrightarrow> v = w"
  using u64_from_be_u64_be by metis

lemma u32_be_less [simp]: "u32_be v < u32_be w \<longleftrightarrow> v < w"
  using be_nat_less_iff [of "u32_be v" "u32_be w"] unat_less_pow [of v] unat_less_pow [of w]
  by (simp add: u32_be_def be_nat_be_bytes word_less_nat_alt)

lemma u64_be_less [simp]: "u64_be v < u64_be w \<longleftrightarrow> v < w"
  using be_nat_less_iff [of "u64_be v" "u64_be w"] unat_less_pow [of v] unat_less_pow [of w]
  by (simp add: u64_be_def be_nat_be_bytes word_less_nat_alt)

text \<open>Concatenated fixed-width fields compare field by field.\<close>

lemma append_less_fixed:
  fixes xs :: "'a::linorder list"
  assumes "length xs = length xs'"
  shows "xs @ ys < xs' @ ys' \<longleftrightarrow> xs < xs' \<or> xs = xs' \<and> ys < ys'"
  using assms by (induction xs xs' rule: list_induct2) auto


section \<open>Invariants of step systems\<close>

locale invariant_system =
  fixes init :: "'s \<Rightarrow> bool"
    and step :: "'s \<Rightarrow> 'l \<Rightarrow> 's \<Rightarrow> bool"
    and inv :: "'s \<Rightarrow> bool"
  assumes init_inv: "init s \<Longrightarrow> inv s"
    and step_inv: "inv s \<Longrightarrow> step s l s' \<Longrightarrow> inv s'"
begin

lemma reachable_inv: "reachable init step s \<Longrightarrow> inv s"
  by (induction rule: reachable.induct) (auto intro: init_inv step_inv)

end


section \<open>The table interface\<close>

text \<open>
  What the stores rely on: point reads after a write or a removal, and iteration
  in strictly increasing key order over exactly the stored entries.
\<close>

locale ordered_table =
  fixes get :: "'t \<Rightarrow> 'k::linorder \<Rightarrow> 'v option"
    and insert' :: "'k \<Rightarrow> 'v \<Rightarrow> 't \<Rightarrow> 't"
    and remove' :: "'k \<Rightarrow> 't \<Rightarrow> 't"
    and entries :: "'t \<Rightarrow> ('k \<times> 'v) list"
    and ok :: "'t \<Rightarrow> bool"
  assumes get_insert: "get (insert' k v t) k' = (if k' = k then Some v else get t k')"
    and get_remove: "get (remove' k t) k' = (if k' = k then None else get t k')"
    and ok_insert: "ok t \<Longrightarrow> ok (insert' k v t)"
    and ok_remove: "ok t \<Longrightarrow> ok (remove' k t)"
    and entries_get: "ok t \<Longrightarrow> (k, v) \<in> set (entries t) \<longleftrightarrow> get t k = Some v"
    and entries_sorted: "ok t \<Longrightarrow> sorted_wrt (<) (map fst (entries t))"
begin

lemma entries_distinct: "ok t \<Longrightarrow> distinct (map fst (entries t))"
  using entries_sorted strict_sorted_iff by blast

lemma entries_insert:
  assumes "ok t"
  shows "set (entries (insert' k v t)) = insert (k, v) {e \<in> set (entries t). fst e \<noteq> k}"
  using assms entries_get [OF assms] entries_get [OF ok_insert [OF assms]]
  by (auto simp: get_insert split: if_splits)

lemma entries_remove:
  assumes "ok t"
  shows "set (entries (remove' k t)) = {e \<in> set (entries t). fst e \<noteq> k}"
  using assms entries_get [OF assms] entries_get [OF ok_remove [OF assms]]
  by (auto simp: get_remove split: if_splits)

lemma entries_extensional:
  assumes "ok t" "ok u" "\<And>k. get t k = get u k"
  shows "entries t = entries u"
proof -
  have sets: "set (entries t) = set (entries u)"
    using entries_get [OF assms(1)] entries_get [OF assms(2)] assms(3) by auto
  then have "map fst (entries t) = map fst (entries u)"
    using assms(1,2) by (intro strict_sorted_equal entries_sorted) simp_all
  moreover have "snd e = snd e'" if "e \<in> set (entries t)" "e' \<in> set (entries u)" "fst e = fst e'" for e e'
  proof -
    have "get t (fst e) = Some (snd e)" "get u (fst e') = Some (snd e')"
      using that(1,2) by (simp_all add: assms(1,2) flip: entries_get)
    then show ?thesis using that assms(3) by simp
  qed
  ultimately show ?thesis
    by (auto simp: list_eq_iff_nth_eq prod_eq_iff)
qed

end

lemma tbl_get_insert [simp]:
  "tbl_get (tbl_insert k v t) k' = (if k' = k then Some v else tbl_get t k')"
  by (induction k v t rule: tbl_insert.induct) (auto simp: tbl_get_def)

lemma tbl_get_remove [simp]:
  "tbl_get (tbl_remove k t) k' = (if k' = k then None else tbl_get t k')"
  by (induction t) (auto simp: tbl_get_def tbl_remove_def)

lemma set_keys_tbl_insert [simp]:
  "fst ` set (tbl_insert k v t) = insert k (fst ` set t)"
  by (induction k v t rule: tbl_insert.induct) auto

lemma tbl_ok_Nil [simp]: "tbl_ok []"
  by (simp add: tbl_ok_def)

lemma tbl_ok_insert [simp]: "tbl_ok t \<Longrightarrow> tbl_ok (tbl_insert k v t)"
  by (induction k v t rule: tbl_insert.induct)
    (auto simp: tbl_ok_def)

lemma tbl_ok_remove [simp]: "tbl_ok t \<Longrightarrow> tbl_ok (tbl_remove k t)"
  by (simp add: tbl_ok_def tbl_remove_def sorted_wrt_map sorted_wrt_filter)

lemma tbl_entries_get: "tbl_ok t \<Longrightarrow> (k, v) \<in> set t \<longleftrightarrow> tbl_get t k = Some v"
  by (auto simp: tbl_ok_def tbl_get_def strict_sorted_iff map_of_eq_Some_iff)

interpretation tbl: ordered_table tbl_get tbl_insert tbl_remove "\<lambda>t. t" tbl_ok
  by unfold_locales (simp_all add: tbl_entries_get, simp add: tbl_ok_def)

end
