(* ===== verification/Domain_Types.thy ===== *)
theory Domain_Types
  imports Prelude
begin

text \<open>
  The shared domain types of \<open>crates/deadcat-types/src/lib.rs\<close>: outpoints and
  contract identities, chain positions, event cursors, market parameters and the
  materialized market state, with the fixed-width big-endian keys under which the
  stores index them.  Hashes and identifiers are byte strings; the lemmas that
  need their 32-byte width say so.
\<close>

type_synonym txid = bytes
type_synonym asset_id = bytes

text \<open>An Elements outpoint, ordered as \<open>#[derive(Ord)]\<close> orders it: txid, then vout.\<close>

datatype OutPoint = OutPoint (txid: txid) (vout: u32)

instantiation OutPoint :: linorder
begin

definition less_eq_OutPoint :: "OutPoint \<Rightarrow> OutPoint \<Rightarrow> bool" where
  "less_eq_OutPoint a b \<longleftrightarrow> txid a < txid b \<or> txid a = txid b \<and> vout a \<le> vout b"

definition less_OutPoint :: "OutPoint \<Rightarrow> OutPoint \<Rightarrow> bool" where
  "less_OutPoint a b \<longleftrightarrow> txid a < txid b \<or> txid a = txid b \<and> vout a < vout b"

instance
  by standard (auto simp: less_eq_OutPoint_def less_OutPoint_def OutPoint.expand)

end

text \<open>\<open>ContractId\<close> is a transparent wrapper of the creation-anchor outpoint.\<close>

datatype ContractId = ContractId (creation_anchor: OutPoint)

definition outpoint_fixed_key :: "OutPoint \<Rightarrow> bytes" where
  "outpoint_fixed_key p = txid p @ u32_be (vout p)"

definition contract_fixed_key :: "ContractId \<Rightarrow> bytes" where
  "contract_fixed_key c = txid (creation_anchor c) @ u32_be (vout (creation_anchor c))"

record ChainPosition =
  block_height :: u32
  tx_index :: u32

definition position_fixed_key :: "ChainPosition \<Rightarrow> bytes" where
  "position_fixed_key p = u32_be (block_height p) @ u32_be (tx_index p)"

text \<open>The derived lexicographic order on chain positions.\<close>

definition position_less :: "ChainPosition \<Rightarrow> ChainPosition \<Rightarrow> bool" where
  "position_less p q \<longleftrightarrow>
     block_height p < block_height q \<or> block_height p = block_height q \<and> tx_index p < tx_index q"

record ChainAnchor =
  height :: u32
  hash :: bytes

record EventCursor =
  epoch :: bytes
  sequence :: u64

definition cursor_fixed_key :: "EventCursor \<Rightarrow> bytes" where
  "cursor_fixed_key c = epoch c @ u64_be (sequence c)"

definition cursor_less :: "EventCursor \<Rightarrow> EventCursor \<Rightarrow> bool" where
  "cursor_less c d \<longleftrightarrow> epoch c < epoch d \<or> epoch c = epoch d \<and> sequence c < sequence d"

record BinaryMarketParams =
  oracle_public_key :: bytes
  collateral_asset_id :: asset_id
  yes_token_asset_id :: asset_id
  no_token_asset_id :: asset_id
  yes_reissuance_token_id :: asset_id
  no_reissuance_token_id :: asset_id
  base_payout :: u64
  expiry_height :: u32

definition params_collateral_per_pair :: "BinaryMarketParams \<Rightarrow> u64 option" where
  "params_collateral_per_pair p = checked_mul (base_payout p) 2"

datatype BinaryMarketState =
    Trading (outstanding_pairs: u64)
  | ResolvedYes (collateral_unredeemed: u64)
  | ResolvedNo (collateral_unredeemed: u64)
  | Expired (collateral_unredeemed: u64)

datatype LiquidNetwork = Liquid | LiquidTestnet | ElementsRegtest

record ChainIdentity =
  network :: LiquidNetwork
  chain_genesis_hash :: bytes

text \<open>The v1 contract family, its descriptors and the declarations a package carries.\<close>

datatype ContractKind = BinaryMarketV1

datatype ContractDescriptor = DescriptorBinaryMarketV1 (descriptor_params: BinaryMarketParams)

record ContractDeclaration =
  declared_contract :: ContractId
  descriptor :: ContractDescriptor

record ContractPackage =
  format_version :: u16
  package_chain :: ChainIdentity
  package_roots :: "ContractId list"
  package_declarations :: "ContractDeclaration list"

definition CONTRACT_PACKAGE_FORMAT_VERSION :: u16 where
  "CONTRACT_PACKAGE_FORMAT_VERSION = 1"

definition MAX_CONTRACT_PACKAGE_DECLARATIONS :: nat where
  "MAX_CONTRACT_PACKAGE_DECLARATIONS = 64"

definition MAX_CONTRACT_PACKAGE_ROOTS :: nat where
  "MAX_CONTRACT_PACKAGE_ROOTS = 16"

datatype ContractSyncState = CatchingUp (synced_through: ChainAnchor) | Ready (synced_through: ChainAnchor)

record RecoveryHintLocation =
  location_position :: ChainPosition
  output_index :: u32


section \<open>Fixed keys are injective and order preserving\<close>

lemma outpoint_fixed_key_inject [simp]: "outpoint_fixed_key p = outpoint_fixed_key q \<longleftrightarrow> p = q"
  by (auto simp: outpoint_fixed_key_def OutPoint.expand)

lemma outpoint_fixed_key_less:
  assumes "length (txid p) = length (txid q)"
  shows "outpoint_fixed_key p < outpoint_fixed_key q \<longleftrightarrow> p < q"
  using assms by (simp add: outpoint_fixed_key_def append_less_fixed less_OutPoint_def)

lemma length_outpoint_fixed_key [simp]:
  "length (outpoint_fixed_key p) = length (txid p) + 4"
  by (simp add: outpoint_fixed_key_def)

lemma contract_fixed_key_outpoint:
  "contract_fixed_key c = outpoint_fixed_key (creation_anchor c)"
  by (simp add: contract_fixed_key_def outpoint_fixed_key_def)

lemma contract_fixed_key_inject [simp]: "contract_fixed_key c = contract_fixed_key d \<longleftrightarrow> c = d"
  by (auto simp: contract_fixed_key_outpoint ContractId.expand)

lemma position_fixed_key_less:
  "position_fixed_key p < position_fixed_key q \<longleftrightarrow> position_less p q"
  by (simp add: position_fixed_key_def append_less_fixed position_less_def)

lemma position_fixed_key_inject:
  "position_fixed_key p = position_fixed_key q \<longleftrightarrow>
     block_height p = block_height q \<and> tx_index p = tx_index q"
  by (simp add: position_fixed_key_def)

lemma cursor_fixed_key_less:
  assumes "length (epoch c) = length (epoch d)"
  shows "cursor_fixed_key c < cursor_fixed_key d \<longleftrightarrow> cursor_less c d"
  using assms by (simp add: cursor_fixed_key_def append_less_fixed cursor_less_def)

end
