(* ===== verification/Elements_Tx.thy ===== *)
theory Elements_Tx
  imports Domain_Types
begin

text \<open>
  The transaction vocabulary of the \<open>elements\<close> crate, as far as the sources
  pattern-match on it: explicit, confidential and null assets, values and nonces,
  outputs, inputs with their issuance data, and transactions.  Only data is fixed
  here.  What the crate computes (commitments, issuance identifiers, transaction
  ids, sequence finality, signature verification) is left open: the components
  take it as an argument of type \<open>elements_ops\<close> or \<open>secp_ops\<close>.
\<close>

datatype Asset = AssetNull | AssetExplicit asset_id | AssetConfidential bytes

datatype Value = ValueNull | ValueExplicit u64 | ValueConfidential bytes

datatype Nonce = NonceNull | NonceExplicit bytes | NonceConfidential bytes

record TxOutWitness =
  surjection_proof :: "bytes option"
  rangeproof :: "bytes option"

definition default_txout_witness :: TxOutWitness where
  "default_txout_witness = \<lparr>surjection_proof = None, rangeproof = None\<rparr>"

record TxOut =
  out_asset :: Asset
  out_value :: Value
  out_nonce :: Nonce
  script_pubkey :: bytes
  out_witness :: TxOutWitness

text \<open>The opening of a confidential output: asset, amount and both blinding factors.\<close>

record TxOutSecrets =
  secret_asset :: asset_id
  secret_asset_bf :: bytes
  secret_value :: u64
  secret_value_bf :: bytes

record AssetIssuance =
  asset_blinding_nonce :: bytes
  asset_entropy :: bytes
  issuance_value :: Value
  inflation_keys :: Value

record TxIn =
  previous_output :: OutPoint
  is_pegin :: bool
  script_sig :: bytes
  input_sequence :: u32
  asset_issuance :: AssetIssuance
  script_witness :: "bytes list"

datatype LockTime = LockBlocks u32 | LockSeconds u32

record Transaction =
  tx_version :: u32
  lock_time :: LockTime
  tx_input :: "TxIn list"
  tx_output :: "TxOut list"

text \<open>Library functions of the \<open>elements\<close> crate that the covenant interpreter calls.\<close>

record elements_ops =
  has_issuance :: "TxIn \<Rightarrow> bool"
  issuance_ids :: "TxIn \<Rightarrow> asset_id \<times> asset_id"
  transaction_txid :: "Transaction \<Rightarrow> txid"
  sequence_is_final :: "u32 \<Rightarrow> bool"
  tweak_from_inner :: "bytes \<Rightarrow> bytes option"

text \<open>
  Library functions of \<open>secp256k1-zkp\<close>: scalar parsing of the two blinding
  factors, and the Pedersen commitments to an asset tag and to an amount.
\<close>

record secp_ops =
  abf_from_slice :: "bytes \<Rightarrow> bytes option"
  vbf_from_slice :: "bytes \<Rightarrow> bytes option"
  asset_commitment :: "asset_id \<Rightarrow> bytes \<Rightarrow> bytes"
  value_commitment :: "u64 \<Rightarrow> bytes \<Rightarrow> bytes \<Rightarrow> bytes"

text \<open>Rust's \<open>Iterator::position\<close>.\<close>

fun list_position :: "('a \<Rightarrow> bool) \<Rightarrow> 'a list \<Rightarrow> nat option" where
  "list_position P [] = None"
| "list_position P (x # xs) = (if P x then Some 0 else map_option Suc (list_position P xs))"

definition is_block_height :: "LockTime \<Rightarrow> bool" where
  "is_block_height l = (case l of LockBlocks _ \<Rightarrow> True | LockSeconds _ \<Rightarrow> False)"

definition to_consensus_u32 :: "LockTime \<Rightarrow> u32" where
  "to_consensus_u32 l = (case l of LockBlocks h \<Rightarrow> h | LockSeconds s \<Rightarrow> s)"

lemma list_position_eq_Some:
  "list_position P xs = Some i \<longleftrightarrow>
     i < length xs \<and> P (xs ! i) \<and> (\<forall>j < i. \<not> P (xs ! j))"
proof (induction xs arbitrary: i)
  case (Cons x xs)
  show ?case
    by (cases i) (auto simp: Cons.IH less_Suc_eq_0_disj nth_Cons split: nat.splits)
qed simp

lemma list_position_distinct:
  assumes "distinct xs" "i < length xs"
  shows "list_position (\<lambda>y. y = xs ! i) xs = Some i"
  using assms by (auto simp: list_position_eq_Some nth_eq_iff_index_eq)

end
