(* ===== verification/Recovery_Codec.thy ===== *)
theory Recovery_Codec
  imports Elements_Tx
begin

unbundle bit_operations_syntax

text \<open>
  The byte-exact OP_RETURN recovery payloads of
  \<open>crates/deadcat-contracts/src/recovery.rs\<close>: the canonical push script, the
  zero-value policy-asset output that carries it, and the market hint codec.
\<close>

definition MARKET_V1_TAG :: u8 where
  "MARKET_V1_TAG = 0x10"

definition BASE_PAYOUTS :: "u64 list" where
  "BASE_PAYOUTS =
     [100, 200, 500, 1000, 2000, 5000, 10000, 20000, 50000, 100000, 200000, 500000,
      1000000, 2000000, 5000000, 10000000]"

definition MARKET_KNOWN_PAYLOAD_LEN :: nat where
  "MARKET_KNOWN_PAYLOAD_LEN = 38"

definition MARKET_EXOTIC_PAYLOAD_LEN :: nat where
  "MARKET_EXOTIC_PAYLOAD_LEN = 70"

definition MAX_RECOVERY_PAYLOAD_LEN :: nat where
  "MAX_RECOVERY_PAYLOAD_LEN = MARKET_EXOTIC_PAYLOAD_LEN"

datatype RecoveryError =
    UnknownTag u8
  | InvalidLength nat
  | InvalidBasePayout
  | ReservedCollateralIndex u8
  | CollateralLengthMismatch u8
  | InvalidAssetId
  | InvalidExpiryHeight u32
  | InvalidPayloadLength nat
  | InvalidRecoveryScript
  | InvalidRecoveryOutput

definition recovery_script :: "bytes \<Rightarrow> (RecoveryError, bytes) result" where
  "recovery_script payload =
     (if payload = [] \<or> length payload > MAX_RECOVERY_PAYLOAD_LEN
      then Err (InvalidPayloadLength (length payload))
      else Ok (0x6a # of_nat (length payload) # payload))"

definition parse_recovery_script :: "bytes \<Rightarrow> (RecoveryError, bytes) result" where
  "parse_recovery_script script =
     (if length script < 3 \<or> script ! 0 \<noteq> 0x6a then Err InvalidRecoveryScript
      else let payload_len = unat (script ! 1) in
        if payload_len = 0 \<or> payload_len > MAX_RECOVERY_PAYLOAD_LEN
             \<or> length script \<noteq> payload_len + 2
        then Err InvalidRecoveryScript
        else Ok (drop 2 script))"

definition recovery_txout :: "asset_id \<Rightarrow> bytes \<Rightarrow> (RecoveryError, TxOut) result" where
  "recovery_txout policy_asset payload =
     rbind (recovery_script payload) (\<lambda>script.
       Ok \<lparr>out_asset = AssetExplicit policy_asset, out_value = ValueExplicit 0,
           out_nonce = NonceNull, script_pubkey = script,
           out_witness = default_txout_witness\<rparr>)"

definition validate_recovery_txout :: "TxOut \<Rightarrow> asset_id \<Rightarrow> (RecoveryError, bytes) result" where
  "validate_recovery_txout txout policy_asset =
     (if out_asset txout \<noteq> AssetExplicit policy_asset
         \<or> out_value txout \<noteq> ValueExplicit 0
         \<or> out_nonce txout \<noteq> NonceNull
         \<or> out_witness txout \<noteq> default_txout_witness
      then Err InvalidRecoveryOutput
      else parse_recovery_script (script_pubkey txout))"

datatype MarketCollateral = PolicyAsset | LiquidMainnetUsdt | CollateralAsset asset_id

record MarketRecoveryHint =
  hint_oracle_public_key :: bytes
  hint_collateral :: MarketCollateral
  hint_base_payout :: u64
  hint_expiry_height :: u32

definition validate_expiry_height :: "u32 \<Rightarrow> (RecoveryError, unit) result" where
  "validate_expiry_height h =
     (if h = 0 \<or> h \<ge> 500000000 then Err (InvalidExpiryHeight h) else Ok ())"

definition hint_encode :: "MarketRecoveryHint \<Rightarrow> (RecoveryError, bytes) result" where
  "hint_encode hint =
     rbind (validate_expiry_height (hint_expiry_height hint)) (\<lambda>_.
     rbind (ok_or (list_position (\<lambda>c. c = hint_base_payout hint) BASE_PAYOUTS) InvalidBasePayout)
       (\<lambda>index.
     let payout_index = of_nat index :: u8;
         (collateral_index, asset) =
           (case hint_collateral hint of
              PolicyAsset \<Rightarrow> (0 :: u8, None)
            | LiquidMainnetUsdt \<Rightarrow> (1, None)
            | CollateralAsset a \<Rightarrow> (15, Some a))
     in Ok ([MARKET_V1_TAG] @ hint_oracle_public_key hint
            @ [push_bit 4 collateral_index OR payout_index]
            @ u32_be (hint_expiry_height hint)
            @ (case asset of None \<Rightarrow> [] | Some a \<Rightarrow> a))))"

text \<open>
  \<open>AssetId::from_slice\<close> accepts exactly the 32-byte slices; here the slice always has
  that length.
\<close>

definition decode_collateral :: "u8 \<Rightarrow> bytes \<Rightarrow> (RecoveryError, MarketCollateral) result" where
  "decode_collateral collateral_index payload =
     (if collateral_index = 0 \<and> length payload = MARKET_KNOWN_PAYLOAD_LEN then Ok PolicyAsset
      else if collateral_index = 1 \<and> length payload = MARKET_KNOWN_PAYLOAD_LEN
        then Ok LiquidMainnetUsdt
      else if collateral_index = 15 \<and> length payload = MARKET_EXOTIC_PAYLOAD_LEN then
        (let slice = take 32 (drop 38 payload) in
         if length slice = 32 then Ok (CollateralAsset slice) else Err InvalidAssetId)
      else if 2 \<le> collateral_index \<and> collateral_index \<le> 14
        then Err (ReservedCollateralIndex collateral_index)
      else Err (CollateralLengthMismatch collateral_index))"

definition hint_decode :: "bytes \<Rightarrow> (RecoveryError, MarketRecoveryHint) result" where
  "hint_decode payload =
     (if length payload \<noteq> MARKET_KNOWN_PAYLOAD_LEN \<and> length payload \<noteq> MARKET_EXOTIC_PAYLOAD_LEN
      then Err (InvalidLength (length payload))
      else if payload ! 0 \<noteq> MARKET_V1_TAG then Err (UnknownTag (payload ! 0))
      else
        let oracle = take 32 (drop 1 payload);
            collateral_index = drop_bit 4 (payload ! 33);
            payout_index = unat (payload ! 33 AND 0x0f);
            expiry = u32_from_be (take 4 (drop 34 payload))
        in rbind (validate_expiry_height expiry) (\<lambda>_.
           rbind (decode_collateral collateral_index payload) (\<lambda>collateral.
           Ok \<lparr>hint_oracle_public_key = oracle, hint_collateral = collateral,
               hint_base_payout = BASE_PAYOUTS ! payout_index,
               hint_expiry_height = expiry\<rparr>)))"

text \<open>The widths the Rust types fix: 32-byte key, 32-byte asset identifier.\<close>

definition hint_wf :: "MarketRecoveryHint \<Rightarrow> bool" where
  "hint_wf hint \<longleftrightarrow>
     length (hint_oracle_public_key hint) = 32 \<and>
     (case hint_collateral hint of CollateralAsset a \<Rightarrow> length a = 32 | _ \<Rightarrow> True)"


text \<open>The high nibble and the trailing bytes that stand for a collateral choice.\<close>

definition collateral_nibble :: "MarketCollateral \<Rightarrow> u8" where
  "collateral_nibble c = (case c of PolicyAsset \<Rightarrow> 0 | LiquidMainnetUsdt \<Rightarrow> 1 | CollateralAsset _ \<Rightarrow> 15)"

definition collateral_suffix :: "MarketCollateral \<Rightarrow> bytes" where
  "collateral_suffix c = (case c of CollateralAsset a \<Rightarrow> a | _ \<Rightarrow> [])"


section \<open>The push script and the recovery output\<close>

lemmas recovery_lens =
  MARKET_KNOWN_PAYLOAD_LEN_def MARKET_EXOTIC_PAYLOAD_LEN_def MAX_RECOVERY_PAYLOAD_LEN_def

lemma parse_recovery_script_iff:
  "parse_recovery_script s = Ok p \<longleftrightarrow> recovery_script p = Ok s"
proof
  assume s: "parse_recovery_script s = Ok p"
  then obtain a b p' where [simp]: "s = a # b # p'"
    by (cases s rule: remdups_adj.cases) (auto simp: parse_recovery_script_def)
  show "recovery_script p = Ok s"
    using s by (auto simp: parse_recovery_script_def recovery_script_def Let_def
        recovery_lens split: if_splits)
next
  assume "recovery_script p = Ok s"
  then show "parse_recovery_script s = Ok p"
    by (auto simp: parse_recovery_script_def recovery_script_def Let_def recovery_lens
        unat_of_nat take_bit_eq_mod split: if_splits)
qed

lemma validate_recovery_txout_iff:
  "validate_recovery_txout t a = Ok p \<longleftrightarrow> recovery_txout a p = Ok t"
  by (auto simp: validate_recovery_txout_def recovery_txout_def result_simps
      parse_recovery_script_iff)



section \<open>The market hint codec\<close>

lemma nibbles_join: "push_bit 4 (drop_bit 4 b) OR (b AND 0x0f) = (b :: u8)"
proof -
  have "push_bit 4 (drop_bit 4 b) OR (b AND mask 4) = b"
    by (rule bit_eqI) (auto simp: bit_simps)
  then show ?thesis by (simp add: mask_eq_exp_minus_1)
qed

lemma nibbles_split:
  assumes "c < 16" "p < 16"
  shows "drop_bit 4 (push_bit 4 c OR p) = (c :: u8)"
    and "(push_bit 4 c OR p) AND 0x0f = (p :: u8)"
proof -
  have c: "take_bit 4 c = c" and p: "take_bit 4 p = p"
    using assms by (simp_all add: word_less_nat_alt word_unat_eq_iff unsigned_take_bit_eq
        take_bit_nat_eq_self)
  have pb: "\<not> bit p n" if "4 \<le> n" for n
    using p that by (metis bit_take_bit_iff not_less)
  have cb: "\<not> bit c n" if "4 \<le> n" for n
    using c that by (metis bit_take_bit_iff not_less)
  show "drop_bit 4 (push_bit 4 c OR p) = c"
    by (rule bit_eqI) (use pb cb in \<open>auto simp: bit_simps not_less [symmetric]\<close>)
  have "(push_bit 4 c OR p) AND mask 4 = p"
    by (rule bit_eqI) (use pb in \<open>auto simp: bit_simps not_less [symmetric]\<close>)
  then show "(push_bit 4 c OR p) AND 0x0f = p" by (simp add: mask_eq_exp_minus_1)
qed

lemma BASE_PAYOUTS_facts [simp]:
  "length BASE_PAYOUTS = 16" "distinct BASE_PAYOUTS"
  by (simp_all add: BASE_PAYOUTS_def)

lemma payout_index_less:
  "list_position (\<lambda>c. c = v) BASE_PAYOUTS = Some i \<Longrightarrow> i < 16 \<and> BASE_PAYOUTS ! i = v"
  by (simp add: list_position_eq_Some)

lemma hint_encode_eq:
  "hint_encode h =
     rbind (validate_expiry_height (hint_expiry_height h)) (\<lambda>_.
     rbind (ok_or (list_position (\<lambda>c. c = hint_base_payout h) BASE_PAYOUTS) InvalidBasePayout) (\<lambda>i.
     Ok ([MARKET_V1_TAG] @ hint_oracle_public_key h
         @ [push_bit 4 (collateral_nibble (hint_collateral h)) OR of_nat i]
         @ u32_be (hint_expiry_height h) @ collateral_suffix (hint_collateral h))))"
  by (cases "hint_collateral h")
    (simp_all add: hint_encode_def collateral_nibble_def collateral_suffix_def)

lemma payload_split:
  assumes "38 \<le> length p"
  shows "p = [p ! 0] @ take 32 (drop 1 p) @ [p ! 33] @ take 4 (drop 34 p) @ drop 38 p"
proof -
  have "p = take 1 p @ take 32 (drop 1 p) @ take 1 (drop 33 p) @ take 4 (drop 34 p) @ drop 38 p"
    using append_take_drop_id [of 1 p] append_take_drop_id [of 32 "drop 1 p"]
      append_take_drop_id [of 1 "drop 33 p"] append_take_drop_id [of 4 "drop 34 p"]
    by simp
  moreover have "take 1 p = [p ! 0]" using assms by (cases p) auto
  moreover have "take 1 (drop 33 p) = [p ! 33]"
    using assms by (simp add: take_Suc_conv_app_nth)
  ultimately show ?thesis by metis
qed

lemma decode_collateral_iff:
  assumes "c < 16" "length p = MARKET_KNOWN_PAYLOAD_LEN \<or> length p = MARKET_EXOTIC_PAYLOAD_LEN"
  shows "decode_collateral c p = Ok m \<longleftrightarrow>
    c = collateral_nibble m \<and> drop 38 p = collateral_suffix m \<and>
    (case m of CollateralAsset a \<Rightarrow> length a = 32 | _ \<Rightarrow> True)"
  using assms by (cases m)
    (auto simp: decode_collateral_def collateral_nibble_def collateral_suffix_def Let_def
      recovery_lens split: if_splits)

lemma hint_encode_decode:
  assumes wf: "hint_wf h" and enc: "hint_encode h = Ok p"
  shows "hint_decode p = Ok h"
proof -
  obtain i where ex: "validate_expiry_height (hint_expiry_height h) = Ok ()"
    and i: "i < 16" "BASE_PAYOUTS ! i = hint_base_payout h"
    and p: "p = MARKET_V1_TAG # hint_oracle_public_key h
         @ (push_bit 4 (collateral_nibble (hint_collateral h)) OR of_nat i)
         # u32_be (hint_expiry_height h) @ collateral_suffix (hint_collateral h)"
    using enc by (auto simp: hint_encode_eq result_simps dest: payout_index_less)
  have len: "length p = MARKET_KNOWN_PAYLOAD_LEN \<or> length p = MARKET_EXOTIC_PAYLOAD_LEN"
    using wf by (cases "hint_collateral h")
      (auto simp: p hint_wf_def collateral_suffix_def recovery_lens)
  have parts: "p ! 0 = MARKET_V1_TAG" "take 32 (drop 1 p) = hint_oracle_public_key h"
    "p ! 33 = push_bit 4 (collateral_nibble (hint_collateral h)) OR of_nat i"
    "take 4 (drop 34 p) = u32_be (hint_expiry_height h)"
    "drop 38 p = collateral_suffix (hint_collateral h)"
    using wf by (simp_all add: p hint_wf_def nth_append)
  have nib: "collateral_nibble m < 16" for m
    by (cases m) (simp_all add: collateral_nibble_def)
  have i16: "(of_nat i :: u8) < 16" "unat (of_nat i :: u8) = i"
    using i by (simp_all add: word_less_nat_alt unat_of_nat take_bit_eq_mod)
  have "decode_collateral (collateral_nibble (hint_collateral h)) p = Ok (hint_collateral h)"
    using wf by (auto simp: decode_collateral_iff [OF nib len] parts hint_wf_def)
  moreover have "drop_bit 4 (p ! 33) = collateral_nibble (hint_collateral h)"
    "unat (p ! 33 AND 0x0f) = i"
    using nibbles_split [OF nib i16(1)] by (simp_all only: parts i16)
  ultimately show ?thesis
    using len ex i by (simp add: hint_decode_def parts(1,4) parts(2) [simplified] recovery_lens)
qed

lemma hint_decode_encode:
  assumes dec: "hint_decode p = Ok h"
  shows "hint_wf h \<and> hint_encode h = Ok p"
proof -
  have len: "length p = MARKET_KNOWN_PAYLOAD_LEN \<or> length p = MARKET_EXOTIC_PAYLOAD_LEN"
    and tag: "p ! 0 = MARKET_V1_TAG"
    and ex: "validate_expiry_height (u32_from_be (take 4 (drop 34 p))) = Ok ()"
    and col: "decode_collateral (drop_bit 4 (p ! 33)) p = Ok (hint_collateral h)"
    and fields: "hint_oracle_public_key h = take 32 (drop 1 p)"
      "hint_base_payout h = BASE_PAYOUTS ! unat (p ! 33 AND 0x0f)"
      "hint_expiry_height h = u32_from_be (take 4 (drop 34 p))"
    using dec by (auto simp: hint_decode_def Let_def result_simps split: if_splits)
  have len38: "38 \<le> length p" using len by (auto simp: recovery_lens)
  have "drop_bit 4 (p ! 33) < 16" "unat (p ! 33 AND 0x0f) < 16"
    using unat_less_pow [of "p ! 33"] word_and_le1 [of "p ! 33" "0x0f"]
    by (simp_all add: word_less_nat_alt word_le_nat_alt unsigned_drop_bit_eq
        drop_bit_eq_div [where 'a = nat] take_bit_nat_eq_self)
  note nib = this
  note col' = col [unfolded decode_collateral_iff [OF nib(1) len]]
  have pos: "list_position (\<lambda>c. c = hint_base_payout h) BASE_PAYOUTS = Some (unat (p ! 33 AND 0x0f))"
    using nib by (simp add: fields list_position_distinct)
  have "hint_wf h" using col' len38 by (simp add: hint_wf_def fields)
  moreover have "hint_encode h =
      Ok ([p ! 0] @ take 32 (drop 1 p) @ [p ! 33] @ take 4 (drop 34 p) @ drop 38 p)"
    using col' ex pos len38 tag nibbles_join [of "p ! 33"]
    by (simp add: hint_encode_eq fields u32_be_u32_from_be)
  ultimately show ?thesis
    by (simp only: payload_split [OF len38, symmetric] simp_thms)
qed

text \<open>C14.  The market hint codec is canonical: a payload decodes to a hint exactly when the
  hint has the widths its type fixes and encodes to that very payload.  Hence decoding
  inverts encoding, re-encoding reproduces the payload byte for byte, and the sixteen
  denominations, the reserved collateral indices and the height range are enforced on
  both sides.\<close>

theorem hint_codec_canonical:
  "hint_decode p = Ok h \<longleftrightarrow> hint_wf h \<and> hint_encode h = Ok p"
  using hint_encode_decode hint_decode_encode by blast

text \<open>C15.  A transaction output is accepted as the recovery output of a payload exactly when
  it is the output that \<open>recovery_txout\<close> builds for it: explicit policy asset, zero value, null
  nonce, no proofs, and the single direct push; every other encoding is rejected.\<close>

theorem recovery_output_canonical:
  "validate_recovery_txout t policy = Ok p \<longleftrightarrow> recovery_txout policy p = Ok t"
  by (rule validate_recovery_txout_iff)

end
