(* ===== verification/Market_Layout.thy ===== *)
theory Market_Layout
  imports Recovery_Codec
begin

text \<open>
  The transaction-shape half of \<open>crates/deadcat-contracts/src/binary_market.rs\<close>:
  covenant slots and their storage words, protocol paths, coordinator and input roles,
  layouts, and the checked witness facade with its nested \<open>Either\<close> encoding.
\<close>

section \<open>Slots and paths\<close>

definition BINARY_MARKET_STORAGE_VERSION :: u8 where
  "BINARY_MARKET_STORAGE_VERSION = 0x01"

datatype BinaryMarketSlot =
    SlotDormantYesRt
  | SlotDormantNoRt
  | SlotUnresolvedYesRt
  | SlotUnresolvedNoRt
  | SlotUnresolvedCollateral
  | SlotResolvedYesCollateral
  | SlotResolvedNoCollateral
  | SlotExpiredCollateral

definition slot_tag :: "BinaryMarketSlot \<Rightarrow> u8" where
  "slot_tag s = (case s of
       SlotDormantYesRt \<Rightarrow> 0 | SlotDormantNoRt \<Rightarrow> 1
     | SlotUnresolvedYesRt \<Rightarrow> 2 | SlotUnresolvedNoRt \<Rightarrow> 3
     | SlotUnresolvedCollateral \<Rightarrow> 4 | SlotResolvedYesCollateral \<Rightarrow> 5
     | SlotResolvedNoCollateral \<Rightarrow> 6 | SlotExpiredCollateral \<Rightarrow> 7)"

definition storage_word :: "BinaryMarketSlot \<Rightarrow> bytes" where
  "storage_word s = (replicate 32 0)[30 := BINARY_MARKET_STORAGE_VERSION, 31 := slot_tag s]"

datatype BinaryMarketSlotError = NonzeroReservedBytes | UnsupportedVersion u8 | UnknownSlot u8

definition slot_try_from :: "u8 \<Rightarrow> (BinaryMarketSlotError, BinaryMarketSlot) result" where
  "slot_try_from tag =
     (if tag = 0 then Ok SlotDormantYesRt else if tag = 1 then Ok SlotDormantNoRt
      else if tag = 2 then Ok SlotUnresolvedYesRt else if tag = 3 then Ok SlotUnresolvedNoRt
      else if tag = 4 then Ok SlotUnresolvedCollateral
      else if tag = 5 then Ok SlotResolvedYesCollateral
      else if tag = 6 then Ok SlotResolvedNoCollateral
      else if tag = 7 then Ok SlotExpiredCollateral else Err (UnknownSlot tag))"

definition from_storage_word :: "bytes \<Rightarrow> (BinaryMarketSlotError, BinaryMarketSlot) result" where
  "from_storage_word word =
     (if take 30 word \<noteq> replicate 30 0 then Err NonzeroReservedBytes
      else if word ! 30 \<noteq> BINARY_MARKET_STORAGE_VERSION then Err (UnsupportedVersion (word ! 30))
      else slot_try_from (word ! 31))"

datatype BinaryMarketOperation = OpIssue | OpCancel | OpResolve | OpExpire | OpRedeem

datatype BinaryMarketPath =
    InitialIssuance
  | SubsequentIssuance
  | PartialCancellation
  | FullCancellation
  | ActiveResolution
  | DormantResolution
  | ActiveExpiry
  | DormantExpiry
  | ResolvedRedemption
  | ExpiryRedemption

definition path_tag :: "BinaryMarketPath \<Rightarrow> u8" where
  "path_tag p = (case p of
       InitialIssuance \<Rightarrow> 0 | SubsequentIssuance \<Rightarrow> 1 | PartialCancellation \<Rightarrow> 2
     | FullCancellation \<Rightarrow> 3 | ActiveResolution \<Rightarrow> 4 | DormantResolution \<Rightarrow> 5
     | ActiveExpiry \<Rightarrow> 6 | DormantExpiry \<Rightarrow> 7 | ResolvedRedemption \<Rightarrow> 8 | ExpiryRedemption \<Rightarrow> 9)"

definition path_operation :: "BinaryMarketPath \<Rightarrow> BinaryMarketOperation" where
  "path_operation p = (case p of
       InitialIssuance \<Rightarrow> OpIssue | SubsequentIssuance \<Rightarrow> OpIssue
     | PartialCancellation \<Rightarrow> OpCancel | FullCancellation \<Rightarrow> OpCancel
     | ActiveResolution \<Rightarrow> OpResolve | DormantResolution \<Rightarrow> OpResolve
     | ActiveExpiry \<Rightarrow> OpExpire | DormantExpiry \<Rightarrow> OpExpire
     | ResolvedRedemption \<Rightarrow> OpRedeem | ExpiryRedemption \<Rightarrow> OpRedeem)"

datatype BinaryMarketPathError = UnknownPathTag u8

definition path_try_from :: "u8 \<Rightarrow> (BinaryMarketPathError, BinaryMarketPath) result" where
  "path_try_from tag =
     (if tag = 0 then Ok InitialIssuance else if tag = 1 then Ok SubsequentIssuance
      else if tag = 2 then Ok PartialCancellation else if tag = 3 then Ok FullCancellation
      else if tag = 4 then Ok ActiveResolution else if tag = 5 then Ok DormantResolution
      else if tag = 6 then Ok ActiveExpiry else if tag = 7 then Ok DormantExpiry
      else if tag = 8 then Ok ResolvedRedemption else if tag = 9 then Ok ExpiryRedemption
      else Err (UnknownPathTag tag))"


section \<open>Actions, phases and transitions\<close>

datatype BinaryOutcome = OutcomeYes | OutcomeNo

datatype BinaryMarketAction =
    Issue u64
  | Cancel u64
  | Resolve BinaryOutcome
  | Expire
  | Redeem BinaryOutcome u64

definition action_kind :: "BinaryMarketAction \<Rightarrow> BinaryMarketOperation" where
  "action_kind a = (case a of
       Issue _ \<Rightarrow> OpIssue | Cancel _ \<Rightarrow> OpCancel | Resolve _ \<Rightarrow> OpResolve
     | Expire \<Rightarrow> OpExpire | Redeem _ _ \<Rightarrow> OpRedeem)"

datatype BinaryMarketPhase = PhaseTrading | PhaseResolvedYes | PhaseResolvedNo | PhaseExpired

definition state_phase :: "BinaryMarketState \<Rightarrow> BinaryMarketPhase" where
  "state_phase st = (case st of
       Trading _ \<Rightarrow> PhaseTrading | ResolvedYes _ \<Rightarrow> PhaseResolvedYes
     | ResolvedNo _ \<Rightarrow> PhaseResolvedNo | Expired _ \<Rightarrow> PhaseExpired)"

datatype BinaryMarketTransition =
    Issued (issued_pairs: u64) (collateral_locked: u64)
  | Cancelled (cancelled_pairs: u64) (cancel_released: u64) (cancel_full: bool)
  | Resolved (resolved_outcome: BinaryOutcome) (resolve_retained: u64)
  | ExpiredTransition (expire_retained: u64)
  | Redeemed (redeemed_outcome: BinaryOutcome) (redeemed_tokens: u64) (redeem_released: u64)
      (redeem_complete: bool)

definition transition_operation :: "BinaryMarketTransition \<Rightarrow> BinaryMarketOperation" where
  "transition_operation t = (case t of
       Issued _ _ \<Rightarrow> OpIssue | Cancelled _ _ _ \<Rightarrow> OpCancel | Resolved _ _ \<Rightarrow> OpResolve
     | ExpiredTransition _ \<Rightarrow> OpExpire | Redeemed _ _ _ _ \<Rightarrow> OpRedeem)"

record AppliedBinaryMarketTransition =
  old_state :: BinaryMarketState
  new_state :: BinaryMarketState
  transition :: BinaryMarketTransition


section \<open>Roles and layouts\<close>

datatype BinaryMarketCoordinatorRole =
    CoordDormantYesRt
  | CoordUnresolvedYesRt
  | CoordResolvedYesCollateral
  | CoordResolvedNoCollateral
  | CoordExpiredCollateral

definition coordinator_slot :: "BinaryMarketCoordinatorRole \<Rightarrow> BinaryMarketSlot" where
  "coordinator_slot r = (case r of
       CoordDormantYesRt \<Rightarrow> SlotDormantYesRt
     | CoordUnresolvedYesRt \<Rightarrow> SlotUnresolvedYesRt
     | CoordResolvedYesCollateral \<Rightarrow> SlotResolvedYesCollateral
     | CoordResolvedNoCollateral \<Rightarrow> SlotResolvedNoCollateral
     | CoordExpiredCollateral \<Rightarrow> SlotExpiredCollateral)"

definition coordinator_for_state :: "BinaryMarketState \<Rightarrow> BinaryMarketCoordinatorRole" where
  "coordinator_for_state st = (case st of
       Trading n \<Rightarrow> if n = 0 then CoordDormantYesRt else CoordUnresolvedYesRt
     | ResolvedYes _ \<Rightarrow> CoordResolvedYesCollateral
     | ResolvedNo _ \<Rightarrow> CoordResolvedNoCollateral
     | Expired _ \<Rightarrow> CoordExpiredCollateral)"

datatype BinaryMarketInputRole =
    DormantYesCoordinator
  | DormantNoFollower
  | UnresolvedYesCoordinator
  | UnresolvedNoFollower
  | UnresolvedCollateralFollower
  | ResolvedYesCoordinator
  | ResolvedNoCoordinator
  | ExpiredCoordinator

datatype BinaryMarketLayoutError =
    FollowerCannotCoordinate BinaryMarketSlot
  | MissingCancellationShape
  | UnexpectedCancellationShape BinaryMarketOperation
  | InvalidCoordinatorOperation BinaryMarketCoordinatorRole BinaryMarketOperation
  | OldStateMismatch
  | TransitionActionMismatch
  | MissingResolutionAuthorization
  | UnexpectedResolutionAuthorization BinaryMarketOperation
  | InputRoleNotInLayout BinaryMarketPath BinaryMarketInputRole
  | ActionLayoutMismatch BinaryMarketPath BinaryMarketOperation

definition coordinator_try_from ::
    "BinaryMarketSlot \<Rightarrow> (BinaryMarketLayoutError, BinaryMarketCoordinatorRole) result" where
  "coordinator_try_from slot = (case slot of
       SlotDormantYesRt \<Rightarrow> Ok CoordDormantYesRt
     | SlotUnresolvedYesRt \<Rightarrow> Ok CoordUnresolvedYesRt
     | SlotResolvedYesCollateral \<Rightarrow> Ok CoordResolvedYesCollateral
     | SlotResolvedNoCollateral \<Rightarrow> Ok CoordResolvedNoCollateral
     | SlotExpiredCollateral \<Rightarrow> Ok CoordExpiredCollateral
     | _ \<Rightarrow> Err (FollowerCannotCoordinate slot))"

definition role_slot :: "BinaryMarketInputRole \<Rightarrow> BinaryMarketSlot" where
  "role_slot r = (case r of
       DormantYesCoordinator \<Rightarrow> SlotDormantYesRt
     | DormantNoFollower \<Rightarrow> SlotDormantNoRt
     | UnresolvedYesCoordinator \<Rightarrow> SlotUnresolvedYesRt
     | UnresolvedNoFollower \<Rightarrow> SlotUnresolvedNoRt
     | UnresolvedCollateralFollower \<Rightarrow> SlotUnresolvedCollateral
     | ResolvedYesCoordinator \<Rightarrow> SlotResolvedYesCollateral
     | ResolvedNoCoordinator \<Rightarrow> SlotResolvedNoCollateral
     | ExpiredCoordinator \<Rightarrow> SlotExpiredCollateral)"

definition role_coordinator_role :: "BinaryMarketInputRole \<Rightarrow> BinaryMarketCoordinatorRole" where
  "role_coordinator_role r = (case r of
       DormantYesCoordinator \<Rightarrow> CoordDormantYesRt
     | DormantNoFollower \<Rightarrow> CoordDormantYesRt
     | UnresolvedYesCoordinator \<Rightarrow> CoordUnresolvedYesRt
     | UnresolvedNoFollower \<Rightarrow> CoordUnresolvedYesRt
     | UnresolvedCollateralFollower \<Rightarrow> CoordUnresolvedYesRt
     | ResolvedYesCoordinator \<Rightarrow> CoordResolvedYesCollateral
     | ResolvedNoCoordinator \<Rightarrow> CoordResolvedNoCollateral
     | ExpiredCoordinator \<Rightarrow> CoordExpiredCollateral)"

definition is_coordinator :: "BinaryMarketInputRole \<Rightarrow> bool" where
  "is_coordinator r = (case r of
       DormantYesCoordinator \<Rightarrow> True | UnresolvedYesCoordinator \<Rightarrow> True
     | ResolvedYesCoordinator \<Rightarrow> True | ResolvedNoCoordinator \<Rightarrow> True
     | ExpiredCoordinator \<Rightarrow> True | _ \<Rightarrow> False)"

definition role_from_slot :: "BinaryMarketSlot \<Rightarrow> BinaryMarketInputRole" where
  "role_from_slot s = (case s of
       SlotDormantYesRt \<Rightarrow> DormantYesCoordinator
     | SlotDormantNoRt \<Rightarrow> DormantNoFollower
     | SlotUnresolvedYesRt \<Rightarrow> UnresolvedYesCoordinator
     | SlotUnresolvedNoRt \<Rightarrow> UnresolvedNoFollower
     | SlotUnresolvedCollateral \<Rightarrow> UnresolvedCollateralFollower
     | SlotResolvedYesCollateral \<Rightarrow> ResolvedYesCoordinator
     | SlotResolvedNoCollateral \<Rightarrow> ResolvedNoCoordinator
     | SlotExpiredCollateral \<Rightarrow> ExpiredCoordinator)"

definition role_try_from :: "u8 \<Rightarrow> (BinaryMarketSlotError, BinaryMarketInputRole) result" where
  "role_try_from tag = rbind (slot_try_from tag) (\<lambda>s. Ok (role_from_slot s))"

definition coordinator_input_role :: "BinaryMarketCoordinatorRole \<Rightarrow> BinaryMarketInputRole" where
  "coordinator_input_role r = (case r of
       CoordDormantYesRt \<Rightarrow> DormantYesCoordinator
     | CoordUnresolvedYesRt \<Rightarrow> UnresolvedYesCoordinator
     | CoordResolvedYesCollateral \<Rightarrow> ResolvedYesCoordinator
     | CoordResolvedNoCollateral \<Rightarrow> ResolvedNoCoordinator
     | CoordExpiredCollateral \<Rightarrow> ExpiredCoordinator)"

record BinaryMarketLayout =
  layout_path :: BinaryMarketPath
  layout_coordinator :: BinaryMarketCoordinatorRole

definition layout_operation :: "BinaryMarketLayout \<Rightarrow> BinaryMarketOperation" where
  "layout_operation l = path_operation (layout_path l)"

text \<open>The match on (coordinator, operation, cancellation shape) inside \<open>for_operation\<close>.\<close>

fun path_for ::
    "BinaryMarketCoordinatorRole \<Rightarrow> BinaryMarketOperation \<Rightarrow> bool option \<Rightarrow> BinaryMarketPath option"
where
  "path_for CoordDormantYesRt OpIssue None = Some InitialIssuance"
| "path_for CoordUnresolvedYesRt OpIssue None = Some SubsequentIssuance"
| "path_for CoordUnresolvedYesRt OpCancel (Some False) = Some PartialCancellation"
| "path_for CoordUnresolvedYesRt OpCancel (Some True) = Some FullCancellation"
| "path_for CoordUnresolvedYesRt OpResolve None = Some ActiveResolution"
| "path_for CoordDormantYesRt OpResolve None = Some DormantResolution"
| "path_for CoordUnresolvedYesRt OpExpire None = Some ActiveExpiry"
| "path_for CoordDormantYesRt OpExpire None = Some DormantExpiry"
| "path_for CoordResolvedYesCollateral OpRedeem None = Some ResolvedRedemption"
| "path_for CoordResolvedNoCollateral OpRedeem None = Some ResolvedRedemption"
| "path_for CoordExpiredCollateral OpRedeem None = Some ExpiryRedemption"
| "path_for _ _ _ = None"

definition layout_for_operation ::
    "BinaryMarketCoordinatorRole \<Rightarrow> BinaryMarketOperation \<Rightarrow> bool option \<Rightarrow>
     (BinaryMarketLayoutError, BinaryMarketLayout) result" where
  "layout_for_operation coordinator operation full =
     (if operation = OpCancel \<and> full = None then Err MissingCancellationShape
      else if operation \<noteq> OpCancel \<and> full \<noteq> None
        then Err (UnexpectedCancellationShape operation)
      else (case path_for coordinator operation full of
          None \<Rightarrow> Err (InvalidCoordinatorOperation coordinator operation)
        | Some path \<Rightarrow> Ok \<lparr>layout_path = path, layout_coordinator = coordinator\<rparr>))"

fun transition_matches_action :: "BinaryMarketTransition \<Rightarrow> BinaryMarketAction \<Rightarrow> bool" where
  "transition_matches_action (Issued left _) (Issue pairs) = (left = pairs)"
| "transition_matches_action (Cancelled left _ _) (Cancel pairs) = (left = pairs)"
| "transition_matches_action (Resolved left _) (Resolve outcome) = (left = outcome)"
| "transition_matches_action (ExpiredTransition _) Expire = True"
| "transition_matches_action (Redeemed left_outcome left_tokens _ _) (Redeem outcome tokens) =
     (left_outcome = outcome \<and> left_tokens = tokens)"
| "transition_matches_action _ _ = False"

definition layout_for_transition ::
    "BinaryMarketState \<Rightarrow> BinaryMarketAction \<Rightarrow> AppliedBinaryMarketTransition \<Rightarrow>
     (BinaryMarketLayoutError, BinaryMarketLayout) result" where
  "layout_for_transition before action applied =
     (if old_state applied \<noteq> before then Err OldStateMismatch
      else if \<not> transition_matches_action (transition applied) action
        then Err TransitionActionMismatch
      else layout_for_operation (coordinator_for_state before) (action_kind action)
        (case transition applied of Cancelled _ _ full \<Rightarrow> Some full | _ \<Rightarrow> None))"

definition layout_input_roles :: "BinaryMarketLayout \<Rightarrow> BinaryMarketInputRole list" where
  "layout_input_roles l = (case layout_coordinator l of
       CoordDormantYesRt \<Rightarrow> [DormantYesCoordinator, DormantNoFollower]
     | CoordUnresolvedYesRt \<Rightarrow>
         [UnresolvedYesCoordinator, UnresolvedNoFollower, UnresolvedCollateralFollower]
     | CoordResolvedYesCollateral \<Rightarrow> [ResolvedYesCoordinator]
     | CoordResolvedNoCollateral \<Rightarrow> [ResolvedNoCoordinator]
     | CoordExpiredCollateral \<Rightarrow> [ExpiredCoordinator])"

definition layout_input_role ::
    "BinaryMarketLayout \<Rightarrow> BinaryMarketSlot \<Rightarrow>
     (BinaryMarketLayoutError, BinaryMarketInputRole) result" where
  "layout_input_role l slot =
     (let role = role_from_slot slot in
      if role \<in> set (layout_input_roles l) then Ok role
      else Err (InputRoleNotInLayout (layout_path l) role))"


section \<open>Coordinator actions and the witness facade\<close>

record BinaryMarketResolution =
  resolution_outcome :: BinaryOutcome
  resolution_signature :: bytes

datatype BinaryMarketCoordinatorAction =
    CoordIssue (output_base: u32)
  | CoordCancel (output_base: u32)
  | CoordResolve (output_base: u32) (coord_resolution: BinaryMarketResolution)
  | CoordExpire (output_base: u32)
  | CoordRedeem (output_base: u32)

definition coordinator_action_for_layout ::
    "BinaryMarketLayout \<Rightarrow> u32 \<Rightarrow> BinaryMarketResolution option \<Rightarrow>
     (BinaryMarketLayoutError, BinaryMarketCoordinatorAction) result" where
  "coordinator_action_for_layout layout base resolution =
     (case (layout_operation layout, resolution) of
        (OpIssue, None) \<Rightarrow> Ok (CoordIssue base)
      | (OpCancel, None) \<Rightarrow> Ok (CoordCancel base)
      | (OpResolve, Some r) \<Rightarrow> Ok (CoordResolve base r)
      | (OpExpire, None) \<Rightarrow> Ok (CoordExpire base)
      | (OpRedeem, None) \<Rightarrow> Ok (CoordRedeem base)
      | (OpResolve, None) \<Rightarrow> Err MissingResolutionAuthorization
      | (operation, Some _) \<Rightarrow> Err (UnexpectedResolutionAuthorization operation))"

definition coordinator_action_operation ::
    "BinaryMarketCoordinatorAction \<Rightarrow> BinaryMarketOperation" where
  "coordinator_action_operation a = (case a of
       CoordIssue _ \<Rightarrow> OpIssue | CoordCancel _ \<Rightarrow> OpCancel | CoordResolve _ _ \<Rightarrow> OpResolve
     | CoordExpire _ \<Rightarrow> OpExpire | CoordRedeem _ \<Rightarrow> OpRedeem)"

type_synonym GeneratedBinaryMarketAction =
  "(u32 + u32) + ((u32 \<times> bool \<times> bytes) + (u32 + u32))"

definition action_generated :: "BinaryMarketCoordinatorAction \<Rightarrow> GeneratedBinaryMarketAction" where
  "action_generated a = (case a of
       CoordIssue base \<Rightarrow> Inl (Inl base)
     | CoordCancel base \<Rightarrow> Inl (Inr base)
     | CoordResolve base r \<Rightarrow>
         Inr (Inl (base, resolution_outcome r = OutcomeYes, resolution_signature r))
     | CoordExpire base \<Rightarrow> Inr (Inr (Inl base))
     | CoordRedeem base \<Rightarrow> Inr (Inr (Inr base)))"

record BinaryMarketWitness =
  witness_slot :: BinaryMarketSlot
  witness_action :: BinaryMarketCoordinatorAction

definition witness_new ::
    "BinaryMarketLayout \<Rightarrow> BinaryMarketInputRole \<Rightarrow> BinaryMarketCoordinatorAction \<Rightarrow>
     (BinaryMarketLayoutError, BinaryMarketWitness) result" where
  "witness_new layout input_role action =
     (if input_role \<notin> set (layout_input_roles layout)
      then Err (InputRoleNotInLayout (layout_path layout) input_role)
      else if coordinator_action_operation action \<noteq> layout_operation layout
      then Err (ActionLayoutMismatch (layout_path layout) (coordinator_action_operation action))
      else Ok \<lparr>witness_slot = role_slot input_role, witness_action = action\<rparr>)"

definition witness_for_slot ::
    "BinaryMarketLayout \<Rightarrow> BinaryMarketSlot \<Rightarrow> BinaryMarketCoordinatorAction \<Rightarrow>
     (BinaryMarketLayoutError, BinaryMarketWitness) result" where
  "witness_for_slot layout slot action =
     rbind (layout_input_role layout slot) (\<lambda>role. witness_new layout role action)"

text \<open>The values handed to the generated Simplicity witness type.\<close>

definition witness_values :: "BinaryMarketWitness \<Rightarrow> u8 \<times> GeneratedBinaryMarketAction" where
  "witness_values w = (slot_tag (witness_slot w), action_generated (witness_action w))"


section \<open>Tags and storage words\<close>

lemma outcome_neq [simp]:
  "w \<noteq> OutcomeYes \<longleftrightarrow> w = OutcomeNo" "w \<noteq> OutcomeNo \<longleftrightarrow> w = OutcomeYes"
  by (cases w; simp)+

lemma slot_tag_inject [simp]: "slot_tag s = slot_tag t \<longleftrightarrow> s = t"
  by (cases s; cases t) (simp_all add: slot_tag_def)

lemma slot_try_from_iff: "slot_try_from tag = Ok s \<longleftrightarrow> tag = slot_tag s"
  by (cases s) (auto simp: slot_try_from_def slot_tag_def)

lemma path_try_from_iff: "path_try_from tag = Ok p \<longleftrightarrow> tag = path_tag p"
  by (cases p) (auto simp: path_try_from_def path_tag_def)

lemma storage_word_eq: "storage_word s = replicate 30 0 @ [BINARY_MARKET_STORAGE_VERSION, slot_tag s]"
proof -
  have "replicate 32 (0 :: u8) = replicate 30 0 @ [0, 0]"
    using replicate_add [of 30 2 "0 :: u8"] by (simp add: numeral_2_eq_2)
  then show ?thesis by (simp add: storage_word_def list_update_append)
qed

lemma storage_word_split:
  assumes "length w = 32"
  shows "w = take 30 w @ [w ! 30, w ! 31]"
proof -
  have "drop 30 w = [w ! 30, w ! 31]"
    using assms by (simp add: list_eq_iff_nth_eq less_Suc_eq numeral_2_eq_2 nth_Cons split: nat.split)
  then show ?thesis by (metis append_take_drop_id)
qed

text \<open>C13.  The storage word of a slot is canonical: a 32-byte word decodes to a slot
  exactly when it is that slot's own word, so decoding inverts encoding and no second
  word is accepted for any slot.\<close>

theorem storage_word_canonical:
  "length w = 32 \<and> from_storage_word w = Ok s \<longleftrightarrow> w = storage_word s"
proof
  assume "length w = 32 \<and> from_storage_word w = Ok s"
  then show "w = storage_word s"
    using storage_word_split [of w]
    by (simp add: from_storage_word_def result_simps slot_try_from_iff storage_word_eq
        split: if_splits)
next
  assume "w = storage_word s"
  then show "length w = 32 \<and> from_storage_word w = Ok s"
    by (simp add: storage_word_eq from_storage_word_def slot_try_from_iff nth_append)
qed


section \<open>Layouts and roles\<close>

lemma role_from_slot_inverse [simp]:
  "role_slot (role_from_slot s) = s" "role_from_slot (role_slot r) = r"
  by (cases s; simp add: role_slot_def role_from_slot_def)
    (cases r; simp add: role_slot_def role_from_slot_def)

lemma coordinator_try_from_iff:
  "coordinator_try_from s = Ok r \<longleftrightarrow> coordinator_slot r = s"
  by (cases s; cases r) (simp_all add: coordinator_try_from_def coordinator_slot_def)

lemma layout_for_operation_Ok:
  "layout_for_operation c op full = Ok l \<longleftrightarrow>
     path_for c op full = Some (layout_path l) \<and> layout_coordinator l = c"
  by (cases op; cases c; cases full; cases l)
    (auto simp: layout_for_operation_def split: option.splits bool.splits)

lemma path_for_cancel [simp]:
  "path_for CoordUnresolvedYesRt OpCancel (Some full) =
     Some (if full then FullCancellation else PartialCancellation)"
  by (cases full) simp_all

lemma path_for_operation: "path_for c op full = Some p \<Longrightarrow> path_operation p = op"
  by (induction c op full rule: path_for.induct) (auto simp: path_operation_def)

end
