(* ===== verification/Market_Economics.thy ===== *)
theory Market_Economics
  imports Market_Layout
begin

text \<open>
  The economics state machine of \<open>crates/deadcat-contracts/src/binary_market.rs\<close>
  (\<open>BinaryMarketEconomics\<close>): checked 64-bit payout arithmetic, state validation and
  the five operations.  An unbounded specification of the market and a ledger of
  outstanding outcome tokens state what the machine promises.
\<close>

datatype BinaryMarketError =
    EconInvalidBasePayout u64
  | ZeroQuantity BinaryMarketOperation
  | InvalidState BinaryMarketOperation BinaryMarketPhase
  | OutstandingPairsOverflow u64 u64
  | AmountOverflow u64 u64
  | CancellationExceedsOutstanding u64 u64
  | LosingOutcome BinaryOutcome BinaryOutcome
  | RedemptionExceedsCollateral u64 u64
  | InvalidStateAmount BinaryMarketPhase u64 u64

record BinaryMarketEconomics =
  econ_base_payout :: u64
  econ_collateral_per_pair :: u64

definition economics_new :: "u64 \<Rightarrow> (BinaryMarketError, BinaryMarketEconomics) result" where
  "economics_new payout =
     (if payout \<notin> set BASE_PAYOUTS then Err (EconInvalidBasePayout payout)
      else rbind (ok_or (checked_mul payout 2) (AmountOverflow payout 2)) (\<lambda>per_pair.
        Ok \<lparr>econ_base_payout = payout, econ_collateral_per_pair = per_pair\<rparr>))"

definition checked_payout :: "u64 \<Rightarrow> u64 \<Rightarrow> (BinaryMarketError, u64) result" where
  "checked_payout amount unit_payout =
     ok_or (checked_mul amount unit_payout) (AmountOverflow amount unit_payout)"

definition require_nonzero :: "BinaryMarketOperation \<Rightarrow> u64 \<Rightarrow> (BinaryMarketError, unit) result" where
  "require_nonzero operation quantity =
     (if quantity = 0 then Err (ZeroQuantity operation) else Ok ())"

definition invalid_state :: "BinaryMarketOperation \<Rightarrow> BinaryMarketState \<Rightarrow> BinaryMarketError" where
  "invalid_state operation st = InvalidState operation (state_phase st)"

definition require_winner :: "BinaryOutcome \<Rightarrow> BinaryOutcome \<Rightarrow> (BinaryMarketError, unit) result" where
  "require_winner winning attempted =
     (if winning \<noteq> attempted then Err (LosingOutcome winning attempted) else Ok ())"

definition collateral_for_pairs ::
    "BinaryMarketEconomics \<Rightarrow> u64 \<Rightarrow> (BinaryMarketError, u64) result" where
  "collateral_for_pairs e pairs = checked_payout pairs (econ_collateral_per_pair e)"

definition validate_state ::
    "BinaryMarketEconomics \<Rightarrow> BinaryMarketState \<Rightarrow> (BinaryMarketError, unit) result" where
  "validate_state e st = (case st of
       Trading pairs \<Rightarrow> rbind (collateral_for_pairs e pairs) (\<lambda>_. Ok ())
     | ResolvedYes c \<Rightarrow>
         if c mod econ_collateral_per_pair e \<noteq> 0
         then Err (InvalidStateAmount (state_phase st) c (econ_collateral_per_pair e)) else Ok ()
     | ResolvedNo c \<Rightarrow>
         if c mod econ_collateral_per_pair e \<noteq> 0
         then Err (InvalidStateAmount (state_phase st) c (econ_collateral_per_pair e)) else Ok ()
     | Expired c \<Rightarrow>
         if c mod econ_base_payout e \<noteq> 0
         then Err (InvalidStateAmount PhaseExpired c (econ_base_payout e)) else Ok ())"

definition economics_issue ::
    "BinaryMarketEconomics \<Rightarrow> BinaryMarketState \<Rightarrow> u64 \<Rightarrow>
     (BinaryMarketError, AppliedBinaryMarketTransition) result" where
  "economics_issue e st pairs =
     rbind (require_nonzero OpIssue pairs) (\<lambda>_.
     case st of
       Trading outstanding \<Rightarrow>
         rbind (ok_or (checked_add outstanding pairs) (OutstandingPairsOverflow outstanding pairs))
           (\<lambda>next_pairs.
         rbind (collateral_for_pairs e next_pairs) (\<lambda>_.
         rbind (collateral_for_pairs e pairs) (\<lambda>locked.
         Ok \<lparr>old_state = st, new_state = Trading next_pairs, transition = Issued pairs locked\<rparr>)))
     | _ \<Rightarrow> Err (invalid_state OpIssue st))"

definition economics_cancel ::
    "BinaryMarketEconomics \<Rightarrow> BinaryMarketState \<Rightarrow> u64 \<Rightarrow>
     (BinaryMarketError, AppliedBinaryMarketTransition) result" where
  "economics_cancel e st pairs =
     rbind (require_nonzero OpCancel pairs) (\<lambda>_.
     case st of
       Trading outstanding \<Rightarrow>
         rbind (ok_or (checked_sub outstanding pairs)
             (CancellationExceedsOutstanding pairs outstanding)) (\<lambda>remaining.
         rbind (collateral_for_pairs e remaining) (\<lambda>_.
         rbind (collateral_for_pairs e pairs) (\<lambda>released.
         Ok \<lparr>old_state = st, new_state = Trading remaining,
             transition = Cancelled pairs released (remaining = 0)\<rparr>)))
     | _ \<Rightarrow> Err (invalid_state OpCancel st))"

definition economics_resolve ::
    "BinaryMarketEconomics \<Rightarrow> BinaryMarketState \<Rightarrow> BinaryOutcome \<Rightarrow>
     (BinaryMarketError, AppliedBinaryMarketTransition) result" where
  "economics_resolve e st outcome = (case st of
       Trading outstanding \<Rightarrow>
         rbind (collateral_for_pairs e outstanding) (\<lambda>retained.
         Ok \<lparr>old_state = st,
             new_state = (case outcome of
                 OutcomeYes \<Rightarrow> ResolvedYes retained | OutcomeNo \<Rightarrow> ResolvedNo retained),
             transition = Resolved outcome retained\<rparr>)
     | _ \<Rightarrow> Err (invalid_state OpResolve st))"

definition economics_expire ::
    "BinaryMarketEconomics \<Rightarrow> BinaryMarketState \<Rightarrow>
     (BinaryMarketError, AppliedBinaryMarketTransition) result" where
  "economics_expire e st = (case st of
       Trading outstanding \<Rightarrow>
         rbind (collateral_for_pairs e outstanding) (\<lambda>retained.
         Ok \<lparr>old_state = st, new_state = Expired retained,
             transition = ExpiredTransition retained\<rparr>)
     | _ \<Rightarrow> Err (invalid_state OpExpire st))"

datatype TerminalStateConstructor = TerminalYes | TerminalNo | TerminalExpired

definition with_collateral :: "TerminalStateConstructor \<Rightarrow> u64 \<Rightarrow> BinaryMarketState" where
  "with_collateral k c = (case k of
       TerminalYes \<Rightarrow> ResolvedYes c | TerminalNo \<Rightarrow> ResolvedNo c | TerminalExpired \<Rightarrow> Expired c)"

definition economics_redeem ::
    "BinaryMarketEconomics \<Rightarrow> BinaryMarketState \<Rightarrow> BinaryOutcome \<Rightarrow> u64 \<Rightarrow>
     (BinaryMarketError, AppliedBinaryMarketTransition) result" where
  "economics_redeem e st outcome tokens =
     rbind (require_nonzero OpRedeem tokens) (\<lambda>_.
     rbind (case st of
         ResolvedYes c \<Rightarrow>
           rbind (require_winner OutcomeYes outcome) (\<lambda>_.
             Ok (c, econ_collateral_per_pair e, TerminalYes))
       | ResolvedNo c \<Rightarrow>
           rbind (require_winner OutcomeNo outcome) (\<lambda>_.
             Ok (c, econ_collateral_per_pair e, TerminalNo))
       | Expired c \<Rightarrow> Ok (c, econ_base_payout e, TerminalExpired)
       | Trading _ \<Rightarrow> Err (invalid_state OpRedeem st)) (\<lambda>(collateral, unit_payout, constructor).
     rbind (checked_payout tokens unit_payout) (\<lambda>released.
     rbind (ok_or (checked_sub collateral released)
         (RedemptionExceedsCollateral released collateral)) (\<lambda>remaining.
     Ok \<lparr>old_state = st, new_state = with_collateral constructor remaining,
         transition = Redeemed outcome tokens released (remaining = 0)\<rparr>))))"

definition economics_apply ::
    "BinaryMarketEconomics \<Rightarrow> BinaryMarketState \<Rightarrow> BinaryMarketAction \<Rightarrow>
     (BinaryMarketError, AppliedBinaryMarketTransition) result" where
  "economics_apply e st action =
     rbind (validate_state e st) (\<lambda>_.
     case action of
       Issue pairs \<Rightarrow> economics_issue e st pairs
     | Cancel pairs \<Rightarrow> economics_cancel e st pairs
     | Resolve outcome \<Rightarrow> economics_resolve e st outcome
     | Expire \<Rightarrow> economics_expire e st
     | Redeem outcome tokens \<Rightarrow> economics_redeem e st outcome tokens)"


section \<open>Unbounded specification\<close>

text \<open>
  The market as the protocol describes it, over natural numbers: \<open>b\<close> is the base
  payout, a pair is backed by \<open>2 * b\<close>, a winning token pays \<open>2 * b\<close> and any token of
  an expired market pays \<open>b\<close>.
\<close>

datatype market_view =
    MTrading nat
  | MResolved BinaryOutcome nat
  | MExpired nat

fun view :: "BinaryMarketState \<Rightarrow> market_view" where
  "view (Trading n) = MTrading (unat n)"
| "view (ResolvedYes c) = MResolved OutcomeYes (unat c)"
| "view (ResolvedNo c) = MResolved OutcomeNo (unat c)"
| "view (Expired c) = MExpired (unat c)"

definition pair_payout :: "nat \<Rightarrow> nat" where
  "pair_payout b = 2 * b"

fun spec_step :: "nat \<Rightarrow> market_view \<Rightarrow> BinaryMarketAction \<Rightarrow> market_view option" where
  "spec_step b (MTrading p) (Issue n) =
     (if n = 0 then None else Some (MTrading (p + unat n)))"
| "spec_step b (MTrading p) (Cancel n) =
     (if n = 0 \<or> p < unat n then None else Some (MTrading (p - unat n)))"
| "spec_step b (MTrading p) (Resolve w) = Some (MResolved w (p * pair_payout b))"
| "spec_step b (MTrading p) Expire = Some (MExpired (p * pair_payout b))"
| "spec_step b (MResolved w c) (Redeem v n) =
     (if n = 0 \<or> v \<noteq> w \<or> c < unat n * pair_payout b then None
      else Some (MResolved w (c - unat n * pair_payout b)))"
| "spec_step b (MExpired c) (Redeem v n) =
     (if n = 0 \<or> c < unat n * b then None else Some (MExpired (c - unat n * b)))"
| "spec_step b _ _ = None"

fun spec_collateral :: "nat \<Rightarrow> market_view \<Rightarrow> nat" where
  "spec_collateral b (MTrading p) = p * pair_payout b"
| "spec_collateral b (MResolved _ c) = c"
| "spec_collateral b (MExpired c) = c"

text \<open>Well-formed views: whole payout units, and an amount that a 64-bit output can hold.\<close>

fun spec_valid :: "nat \<Rightarrow> market_view \<Rightarrow> bool" where
  "spec_valid b (MTrading p) \<longleftrightarrow> p * pair_payout b < u64_limit"
| "spec_valid b (MResolved _ c) \<longleftrightarrow> pair_payout b dvd c \<and> c < u64_limit"
| "spec_valid b (MExpired c) \<longleftrightarrow> b dvd c \<and> c < u64_limit"

text \<open>Collateral moved into or out of the covenant by a transition.\<close>

fun collateral_in :: "BinaryMarketTransition \<Rightarrow> nat" where
  "collateral_in (Issued _ locked) = unat locked"
| "collateral_in _ = 0"

fun collateral_out :: "BinaryMarketTransition \<Rightarrow> nat" where
  "collateral_out (Cancelled _ released _) = unat released"
| "collateral_out (Redeemed _ _ released _) = unat released"
| "collateral_out _ = 0"


section \<open>A ledger of outstanding tokens\<close>

text \<open>
  The covenant burns real tokens on cancellation and redemption; the economics only
  sees quantities.  The ledger adds the outstanding supplies, so that a step can be
  taken only with tokens that exist.
\<close>

record token_ledger =
  ledger_state :: BinaryMarketState
  yes_supply :: nat
  no_supply :: nat

definition burnable :: "token_ledger \<Rightarrow> BinaryMarketAction \<Rightarrow> bool" where
  "burnable l a = (case a of
       Cancel n \<Rightarrow> unat n \<le> yes_supply l \<and> unat n \<le> no_supply l
     | Redeem OutcomeYes n \<Rightarrow> unat n \<le> yes_supply l
     | Redeem OutcomeNo n \<Rightarrow> unat n \<le> no_supply l
     | _ \<Rightarrow> True)"

definition mint_and_burn :: "BinaryMarketAction \<Rightarrow> nat \<times> nat \<Rightarrow> nat \<times> nat" where
  "mint_and_burn a yn = (case (a, yn) of
       (Issue n, (y, m)) \<Rightarrow> (y + unat n, m + unat n)
     | (Cancel n, (y, m)) \<Rightarrow> (y - unat n, m - unat n)
     | (Redeem OutcomeYes n, (y, m)) \<Rightarrow> (y - unat n, m)
     | (Redeem OutcomeNo n, (y, m)) \<Rightarrow> (y, m - unat n)
     | (_, yn) \<Rightarrow> yn)"

inductive ledger_step ::
    "BinaryMarketEconomics \<Rightarrow> token_ledger \<Rightarrow> BinaryMarketAction \<Rightarrow> token_ledger \<Rightarrow> bool"
  for e where
  ledger_stepI:
    "economics_apply e (ledger_state l) a = Ok ap \<Longrightarrow> burnable l a \<Longrightarrow>
     mint_and_burn a (yes_supply l, no_supply l) = (y, n) \<Longrightarrow>
     ledger_step e l a \<lparr>ledger_state = new_state ap, yes_supply = y, no_supply = n\<rparr>"

definition new_ledger :: token_ledger where
  "new_ledger = \<lparr>ledger_state = Trading 0, yes_supply = 0, no_supply = 0\<rparr>"

inductive_cases ledger_stepE: "ledger_step e l a l'"

fun backed :: "nat \<Rightarrow> market_view \<Rightarrow> nat \<Rightarrow> nat \<Rightarrow> bool" where
  "backed b (MTrading p) y n \<longleftrightarrow> y = p \<and> n = p"
| "backed b (MResolved w c) y n \<longleftrightarrow>
     c = (case w of OutcomeYes \<Rightarrow> y | OutcomeNo \<Rightarrow> n) * pair_payout b"
| "backed b (MExpired c) y n \<longleftrightarrow> c = (y + n) * b"


text \<open>The invariant of the ledger: a valid state whose collateral pays every live token.\<close>

definition solvent :: "u64 \<Rightarrow> BinaryMarketEconomics \<Rightarrow> token_ledger \<Rightarrow> bool" where
  "solvent v e l \<longleftrightarrow> economics_new v = Ok e \<and>
     spec_valid (unat v) (view (ledger_state l)) \<and>
     backed (unat v) (view (ledger_state l)) (yes_supply l) (no_supply l)"

definition redeemable :: "token_ledger \<Rightarrow> BinaryOutcome \<Rightarrow> nat" where
  "redeemable l w = (case ledger_state l of
       Trading _ \<Rightarrow> 0
     | ResolvedYes _ \<Rightarrow> (case w of OutcomeYes \<Rightarrow> yes_supply l | OutcomeNo \<Rightarrow> 0)
     | ResolvedNo _ \<Rightarrow> (case w of OutcomeYes \<Rightarrow> 0 | OutcomeNo \<Rightarrow> no_supply l)
     | Expired _ \<Rightarrow> (case w of OutcomeYes \<Rightarrow> yes_supply l | OutcomeNo \<Rightarrow> no_supply l))"


section \<open>The machine refines the specification\<close>

lemma base_payout_range:
  "v \<in> set BASE_PAYOUTS \<Longrightarrow> 0 < unat v \<and> 0 < pair_payout (unat v) \<and> pair_payout (unat v) < u64_limit"
  by (auto simp: BASE_PAYOUTS_def pair_payout_def u64_limit_def)

lemma economics_new_Ok:
  "economics_new v = Ok e \<longleftrightarrow>
     v \<in> set BASE_PAYOUTS \<and> econ_base_payout e = v \<and> unat (econ_collateral_per_pair e) = pair_payout (unat v)"
  by (cases e) (auto simp: economics_new_def result_simps checked_simps pair_payout_def mult.commute)

lemma economics_new_total: "v \<in> set BASE_PAYOUTS \<Longrightarrow> \<exists>e. economics_new v = Ok e"
  using base_payout_range [of v]
  by (auto simp: economics_new_def checked_mul_def pair_payout_def u64_limit_def mult.commute)

lemma collateral_for_pairs_Ok:
  assumes "economics_new v = Ok e"
  shows "collateral_for_pairs e p = Ok c \<longleftrightarrow> unat c = unat p * pair_payout (unat v)"
  using assms
  by (simp add: collateral_for_pairs_def checked_payout_def result_simps checked_simps economics_new_Ok)

lemma validate_state_Ok:
  assumes "economics_new v = Ok e"
  shows "validate_state e st = Ok () \<longleftrightarrow> spec_valid (unat v) (view st)"
proof -
  have cpp: "unat (econ_collateral_per_pair e) = pair_payout (unat v)" and bp: "econ_base_payout e = v"
    using assms by (simp_all add: economics_new_Ok)
  have m: "c mod d = 0 \<longleftrightarrow> unat d dvd unat c" for c d :: u64
    by (simp add: word_unat_eq_iff unat_mod dvd_eq_mod_eq_0)
  show ?thesis
    by (cases st) (auto simp: validate_state_def result_simps collateral_for_pairs_Ok [OF assms]
        m cpp bp fits_u64 simp flip: dvd_eq_mod_eq_0)
qed

text \<open>Successful operations, with every amount read as a natural number.\<close>

lemma issue_Ok:
  assumes "economics_new v = Ok e"
  shows "economics_issue e st n = Ok ap \<longleftrightarrow>
    (\<exists>p q l. st = Trading p \<and> n \<noteq> 0 \<and> unat q = unat p + unat n \<and>
       unat q * pair_payout (unat v) < u64_limit \<and> unat l = unat n * pair_payout (unat v) \<and>
       ap = \<lparr>old_state = st, new_state = Trading q, transition = Issued n l\<rparr>)"
  by (cases st) (auto simp: economics_issue_def require_nonzero_def result_simps checked_simps
      collateral_for_pairs_Ok [OF assms] fits_u64)

lemma cancel_Ok:
  assumes "economics_new v = Ok e"
  shows "economics_cancel e st n = Ok ap \<longleftrightarrow>
    (\<exists>p r l. st = Trading p \<and> n \<noteq> 0 \<and> unat n \<le> unat p \<and> unat r = unat p - unat n \<and>
       unat r * pair_payout (unat v) < u64_limit \<and> unat l = unat n * pair_payout (unat v) \<and>
       ap = \<lparr>old_state = st, new_state = Trading r, transition = Cancelled n l (r = 0)\<rparr>)"
  by (cases st) (auto simp: economics_cancel_def require_nonzero_def result_simps checked_simps
      collateral_for_pairs_Ok [OF assms] fits_u64)

lemma resolve_Ok:
  assumes "economics_new v = Ok e"
  shows "economics_resolve e st w = Ok ap \<longleftrightarrow>
    (\<exists>p c. st = Trading p \<and> unat c = unat p * pair_payout (unat v) \<and>
       ap = \<lparr>old_state = st,
             new_state = (case w of OutcomeYes \<Rightarrow> ResolvedYes c | OutcomeNo \<Rightarrow> ResolvedNo c),
             transition = Resolved w c\<rparr>)"
  by (cases st) (auto simp: economics_resolve_def result_simps collateral_for_pairs_Ok [OF assms])

lemma expire_Ok:
  assumes "economics_new v = Ok e"
  shows "economics_expire e st = Ok ap \<longleftrightarrow>
    (\<exists>p c. st = Trading p \<and> unat c = unat p * pair_payout (unat v) \<and>
       ap = \<lparr>old_state = st, new_state = Expired c, transition = ExpiredTransition c\<rparr>)"
  by (cases st) (auto simp: economics_expire_def result_simps collateral_for_pairs_Ok [OF assms])

lemma redeem_Ok:
  assumes "economics_new v = Ok e"
  shows "economics_redeem e st w n = Ok ap \<longleftrightarrow>
    (\<exists>c x r. n \<noteq> 0 \<and> unat x \<le> unat c \<and> unat r = unat c - unat x \<and>
       (st = ResolvedYes c \<and> w = OutcomeYes \<and> unat x = unat n * pair_payout (unat v) \<and>
          new_state ap = ResolvedYes r \<or>
        st = ResolvedNo c \<and> w = OutcomeNo \<and> unat x = unat n * pair_payout (unat v) \<and>
          new_state ap = ResolvedNo r \<or>
        st = Expired c \<and> unat x = unat n * unat v \<and> new_state ap = Expired r) \<and>
       old_state ap = st \<and> transition ap = Redeemed w n x (r = 0))"
  using assms
  by (cases st; cases ap) (auto simp: economics_redeem_def require_nonzero_def require_winner_def
      checked_payout_def with_collateral_def result_simps checked_simps economics_new_Ok)

lemmas op_Ok = issue_Ok cancel_Ok resolve_Ok expire_Ok redeem_Ok

lemma apply_Ok:
  assumes "economics_new v = Ok e"
  shows "economics_apply e st a = Ok ap \<longleftrightarrow>
    spec_valid (unat v) (view st) \<and>
    (case a of
       Issue n \<Rightarrow> economics_issue e st n = Ok ap
     | Cancel n \<Rightarrow> economics_cancel e st n = Ok ap
     | Resolve w \<Rightarrow> economics_resolve e st w = Ok ap
     | Expire \<Rightarrow> economics_expire e st = Ok ap
     | Redeem w n \<Rightarrow> economics_redeem e st w n = Ok ap)"
  by (cases a) (auto simp: economics_apply_def result_simps validate_state_Ok [OF assms, symmetric])

lemma pair_payout_dvd: "b dvd x * pair_payout b"
  by (simp add: pair_payout_def)

lemma u64_amount: "unat (c :: u64) = n \<Longrightarrow> n < u64_limit"
  by auto

lemma apply_sound:
  assumes new: "economics_new v = Ok e" and ap: "economics_apply e st a = Ok ap"
  shows "spec_step (unat v) (view st) a = Some (view (new_state ap)) \<and>
    spec_valid (unat v) (view st) \<and> spec_valid (unat v) (view (new_state ap)) \<and>
    old_state ap = st \<and> transition_matches_action (transition ap) a"
proof -
  show ?thesis
    using ap unfolding apply_Ok [OF new]
    by (cases a; cases "st") (auto simp: op_Ok [OF new] unat_eq_0 pair_payout_dvd
        dest: u64_amount split: BinaryOutcome.split intro!: dvd_diff_nat)
qed

lemma amount_bound: "0 < b \<Longrightarrow> (x :: nat) * pair_payout b < k \<Longrightarrow> x < k"
  by (rule le_less_trans [of x "x * pair_payout b"]) (simp_all add: pair_payout_def)

lemma apply_complete_trading:
  assumes new: "economics_new v = Ok e" and valid: "spec_valid (unat v) (view (Trading p))"
    and step: "spec_step (unat v) (view (Trading p)) a = Some w" and w: "spec_valid (unat v) w"
  shows "\<exists>ap. economics_apply e (Trading p) a = Ok ap"
proof -
  have v: "0 < unat v" using new base_payout_range by (simp add: economics_new_Ok)
  have total: "unat p * pair_payout (unat v) < u64_limit" using valid by simp
  then obtain c :: u64 where c: "unat c = unat p * pair_payout (unat v)" using u64_ex by blast
  show ?thesis
  proof (cases a)
    case (Issue n)
    have nz: "n \<noteq> 0" and le: "(unat p + unat n) * pair_payout (unat v) < u64_limit"
      using step w Issue by (auto split: if_splits)
    then have "unat p + unat n < u64_limit" "unat n * pair_payout (unat v) < u64_limit"
      using amount_bound [OF v le] by (simp_all add: algebra_simps)
    then obtain q l :: u64 where "unat q = unat p + unat n" "unat l = unat n * pair_payout (unat v)"
      using u64_ex by metis
    with nz le total show ?thesis
      by (intro exI [of _ "\<lparr>old_state = Trading p, new_state = Trading q, transition = Issued n l\<rparr>"])
        (simp add: Issue apply_Ok [OF new] issue_Ok [OF new])
  next
    case (Cancel n)
    have nz: "n \<noteq> 0" and le: "unat n \<le> unat p" using step Cancel by (auto split: if_splits)
    have "unat n * pair_payout (unat v) \<le> unat p * pair_payout (unat v)"
      "(unat p - unat n) * pair_payout (unat v) \<le> unat p * pair_payout (unat v)"
      using le by (intro mult_right_mono; simp)+
    then have "(unat p - unat n) * pair_payout (unat v) < u64_limit" "unat n * pair_payout (unat v) < u64_limit"
      using total by linarith+
    moreover from this obtain r l :: u64
      where "unat r = unat p - unat n" "unat l = unat n * pair_payout (unat v)"
      using u64_ex amount_bound [OF v] by metis
    ultimately show ?thesis
      using nz le total
      by (intro exI [of _ "\<lparr>old_state = Trading p, new_state = Trading r,
            transition = Cancelled n l (r = 0)\<rparr>"])
        (simp add: Cancel apply_Ok [OF new] cancel_Ok [OF new])
  qed (use c total step in \<open>auto simp: apply_Ok [OF new] resolve_Ok [OF new] expire_Ok [OF new]\<close>)
qed

lemma apply_complete_terminal:
  assumes new: "economics_new v = Ok e" and valid: "spec_valid (unat v) (view st)"
    and st: "st = ResolvedYes c \<or> st = ResolvedNo c \<or> st = Expired c"
    and step: "spec_step (unat v) (view st) a = Some w"
  shows "\<exists>ap. economics_apply e st a = Ok ap"
proof -
  obtain o' n where a: "a = Redeem o' n" using step st by (cases a) auto
  define pay where "pay = unat n * (case st of Expired _ \<Rightarrow> unat v | _ \<Rightarrow> pair_payout (unat v))"
  have "pay \<le> unat c" using step st a by (auto simp: pay_def split: if_splits)
  moreover have "pay < u64_limit" "unat c - pay < u64_limit"
    using \<open>pay \<le> unat c\<close> unat_u64_limit [of c] by linarith+
  then obtain x r :: u64 where "unat x = pay" "unat r = unat c - pay"
    using u64_ex by metis
  ultimately show ?thesis
    using step st a valid unfolding apply_Ok [OF new] a
    by (auto simp: pay_def redeem_Ok [OF new] split: if_splits
        intro!: exI [of _ "\<lparr>old_state = st, new_state = (case st of ResolvedYes _ \<Rightarrow> ResolvedYes r
            | ResolvedNo _ \<Rightarrow> ResolvedNo r | _ \<Rightarrow> Expired r),
            transition = Redeemed o' n x (r = 0)\<rparr>"])
qed

text \<open>C2.  The 64-bit machine is an exact implementation of the unbounded market: an
  operation succeeds with a given successor exactly when the current state is well
  formed, the specification allows the step to that successor, and the successor still
  fits 64-bit amounts.  Every other combination is an error.\<close>

theorem economics_refines_spec:
  assumes "economics_new v = Ok e"
  shows "(\<exists>ap. economics_apply e st a = Ok ap \<and> view (new_state ap) = w) \<longleftrightarrow>
    spec_valid (unat v) (view st) \<and> spec_step (unat v) (view st) a = Some w \<and>
    spec_valid (unat v) w"
proof (intro iffI)
  assume "\<exists>ap. economics_apply e st a = Ok ap \<and> view (new_state ap) = w"
  then show "spec_valid (unat v) (view st) \<and> spec_step (unat v) (view st) a = Some w \<and>
      spec_valid (unat v) w"
    using apply_sound [OF assms] by blast
next
  assume *: "spec_valid (unat v) (view st) \<and> spec_step (unat v) (view st) a = Some w \<and>
      spec_valid (unat v) w"
  then have "\<exists>ap. economics_apply e st a = Ok ap"
    using apply_complete_trading [OF assms] apply_complete_terminal [OF assms]
    by (cases st) blast+
  then show "\<exists>ap. economics_apply e st a = Ok ap \<and> view (new_state ap) = w"
    using apply_sound [OF assms] * by (metis option.inject)
qed

theorem economics_refines_spec_witness:
  "(\<exists>ap. economics_apply \<lparr>econ_base_payout = 100, econ_collateral_per_pair = 200\<rparr>
        (Trading 3) (Cancel 2) = Ok ap \<and> view (new_state ap) = MTrading 1) \<longleftrightarrow>
    spec_valid (unat (100 :: u64)) (view (Trading 3)) \<and>
    spec_step (unat (100 :: u64)) (view (Trading 3)) (Cancel 2) = Some (MTrading 1) \<and>
    spec_valid (unat (100 :: u64)) (MTrading 1)"
proof -
  have "economics_new 100 = Ok \<lparr>econ_base_payout = 100, econ_collateral_per_pair = 200\<rparr>"
    by (simp add: economics_new_def BASE_PAYOUTS_def checked_mul_def)
  then show ?thesis by (rule economics_refines_spec)
qed


section \<open>Conservation, round trip and phases\<close>

lemma u64_unat_eqI: "unat (a :: u64) = unat b \<Longrightarrow> a = b"
  by (simp add: word_unat_eq_iff)

text \<open>C3.  Collateral is conserved by every operation: what the covenant holds afterwards,
  plus what was paid out, is what it held before plus what was locked.  The released
  amounts are exactly the payout of the burned quantity.\<close>

theorem collateral_conserved:
  assumes "economics_new v = Ok e" "economics_apply e st a = Ok ap"
  shows "spec_collateral (unat v) (view (new_state ap)) + collateral_out (transition ap) =
    spec_collateral (unat v) (view st) + collateral_in (transition ap)"
  using assms(2) unfolding apply_Ok [OF assms(1)]
  by (cases a; cases st) (auto simp: op_Ok [OF assms(1)] algebra_simps diff_mult_distrib
      split: BinaryOutcome.splits)

theorem collateral_conserved_witness:
  "spec_collateral 100 (view (ResolvedYes 400)) +
     collateral_out (Redeemed OutcomeYes 1 200 False) =
   spec_collateral 100 (view (ResolvedYes 600)) + collateral_in (Redeemed OutcomeYes 1 200 False)"
proof -
  have new: "economics_new 100 = Ok \<lparr>econ_base_payout = 100, econ_collateral_per_pair = 200\<rparr>"
    by (simp add: economics_new_def BASE_PAYOUTS_def checked_mul_def)
  have "economics_apply \<lparr>econ_base_payout = 100, econ_collateral_per_pair = 200\<rparr>
      (ResolvedYes 600) (Redeem OutcomeYes 1) =
      Ok \<lparr>old_state = ResolvedYes 600, new_state = ResolvedYes 400,
          transition = Redeemed OutcomeYes 1 200 False\<rparr>"
    by (simp add: economics_apply_def validate_state_def economics_redeem_def require_nonzero_def
        require_winner_def checked_payout_def checked_mul_def checked_sub_def with_collateral_def)
  from collateral_conserved [OF new this] show ?thesis by simp
qed

text \<open>C4.  Issuance is reversible: cancelling the pairs just issued succeeds, restores the
  previous state and releases exactly the collateral that was locked.\<close>

theorem issue_cancel_roundtrip:
  assumes new: "economics_new v = Ok e" and iss: "economics_apply e st (Issue n) = Ok ap"
  shows "\<exists>ap'. economics_apply e (new_state ap) (Cancel n) = Ok ap' \<and> new_state ap' = st \<and>
    cancel_released (transition ap') = collateral_locked (transition ap)"
proof -
  obtain p q l where *: "st = Trading p" "n \<noteq> 0" "unat q = unat p + unat n"
    "unat q * pair_payout (unat v) < u64_limit" "unat l = unat n * pair_payout (unat v)"
    "ap = \<lparr>old_state = st, new_state = Trading q, transition = Issued n l\<rparr>"
    and valid: "spec_valid (unat v) (view st)"
    using iss by (auto simp: apply_Ok [OF new] issue_Ok [OF new])
  then have "economics_apply e (new_state ap) (Cancel n) =
      Ok \<lparr>old_state = Trading q, new_state = Trading p, transition = Cancelled n l (p = 0)\<rparr>"
    by (simp add: apply_Ok [OF new] cancel_Ok [OF new])
  with * show ?thesis by simp
qed

theorem issue_cancel_roundtrip_witness:
  "\<exists>ap'. economics_apply \<lparr>econ_base_payout = 100, econ_collateral_per_pair = 200\<rparr>
      (Trading 5) (Cancel 3) = Ok ap' \<and> new_state ap' = Trading 2 \<and>
      cancel_released (transition ap') = 600"
proof -
  have new: "economics_new 100 = Ok \<lparr>econ_base_payout = 100, econ_collateral_per_pair = 200\<rparr>"
    by (simp add: economics_new_def BASE_PAYOUTS_def checked_mul_def)
  have "economics_apply \<lparr>econ_base_payout = 100, econ_collateral_per_pair = 200\<rparr>
      (Trading 2) (Issue 3) =
      Ok \<lparr>old_state = Trading 2, new_state = Trading 5, transition = Issued 3 600\<rparr>"
    by (simp add: economics_apply_def validate_state_def economics_issue_def require_nonzero_def
        collateral_for_pairs_def checked_payout_def checked_mul_def checked_add_def)
  from issue_cancel_roundtrip [OF new this] show ?thesis by simp
qed


section \<open>Solvency\<close>

lemma solvent_step:
  assumes "solvent v e l" "ledger_step e l a l'"
  shows "solvent v e l'"
  using assms(2)
proof (rule ledger_stepE)
  fix ap y n
  assume ap: "economics_apply e (ledger_state l) a = Ok ap" and burn: "burnable l a"
    and mint: "mint_and_burn a (yes_supply l, no_supply l) = (y, n)"
    and l': "l' = \<lparr>ledger_state = new_state ap, yes_supply = y, no_supply = n\<rparr>"
  have new: "economics_new v = Ok e" and bk: "backed (unat v) (view (ledger_state l)) (yes_supply l) (no_supply l)"
    using assms(1) by (simp_all add: solvent_def)
  have step: "spec_step (unat v) (view (ledger_state l)) a = Some (view (new_state ap))"
    and valid: "spec_valid (unat v) (view (new_state ap))"
    using apply_sound [OF new ap] by simp_all
  have "backed (unat v) (view (new_state ap)) y n"
    using step bk burn mint
    by (cases "ledger_state l"; cases a)
      (auto simp: burnable_def mint_and_burn_def diff_mult_distrib pair_payout_def algebra_simps
        split: if_splits BinaryOutcome.splits dest!: sym [of _ "view (new_state ap)"])
  with new valid show ?thesis by (simp add: solvent_def l')
qed

interpretation ledger: invariant_system
  "\<lambda>l. economics_new v = Ok e \<and> l = new_ledger" "ledger_step e" "solvent v e" for v e
  by (unfold_locales, simp add: solvent_def new_ledger_def u64_limit_def, erule (1) solvent_step)

lemma solvent_redemption:
  assumes sol: "solvent v e l" and n: "0 < unat n" "unat n \<le> redeemable l w"
  shows "\<exists>ap. economics_apply e (ledger_state l) (Redeem w n) = Ok ap \<and>
    unat (redeem_released (transition ap)) =
      unat n * (case ledger_state l of Expired _ \<Rightarrow> unat v | _ \<Rightarrow> pair_payout (unat v))"
proof -
  have new: "economics_new v = Ok e" and valid: "spec_valid (unat v) (view (ledger_state l))"
    using sol by (simp_all add: solvent_def)
  obtain c where c: "ledger_state l = ResolvedYes c \<or> ledger_state l = ResolvedNo c \<or>
      ledger_state l = Expired c"
    using n by (cases "ledger_state l") (auto simp: redeemable_def)
  have "\<exists>m. spec_step (unat v) (view (ledger_state l)) (Redeem w n) = Some m"
    using sol n c by (auto simp: solvent_def redeemable_def not_less unat_eq_0
        split: BinaryOutcome.splits)
  then obtain ap where ap: "economics_apply e (ledger_state l) (Redeem w n) = Ok ap"
    using apply_complete_terminal [OF new valid c] by blast
  then have "unat (redeem_released (transition ap)) =
      unat n * (case ledger_state l of Expired _ \<Rightarrow> unat v | _ \<Rightarrow> pair_payout (unat v))"
    by (auto simp: apply_Ok [OF new] redeem_Ok [OF new])
  with ap show ?thesis by blast
qed

text \<open>C1.  Solvency: in every state a market can reach from creation, when only tokens that
  exist are burned, every outstanding winning token (and every outstanding token of an
  expired market) can still be redeemed, in any quantity up to its supply, for its full
  payout.  Redemption never runs out of collateral and never overflows.\<close>

theorem reachable_redemption_pays:
  assumes "economics_new v = Ok e"
    and "reachable (\<lambda>l. economics_new v = Ok e \<and> l = new_ledger) (ledger_step e) l"
    and "0 < unat n" "unat n \<le> redeemable l w"
  shows "\<exists>ap. economics_apply e (ledger_state l) (Redeem w n) = Ok ap \<and>
    unat (redeem_released (transition ap)) =
      unat n * (case ledger_state l of Expired _ \<Rightarrow> unat v | _ \<Rightarrow> pair_payout (unat v))"
  using assms by (intro solvent_redemption ledger.reachable_inv)

theorem reachable_redemption_pays_witness:
  "\<exists>ap. economics_apply \<lparr>econ_base_payout = 100, econ_collateral_per_pair = 200\<rparr>
       (Expired 600) (Redeem OutcomeNo 3) = Ok ap \<and>
     unat (redeem_released (transition ap)) = 3 * 100"
proof -
  let ?e = "\<lparr>econ_base_payout = 100, econ_collateral_per_pair = 200\<rparr>"
  let ?l1 = "\<lparr>ledger_state = Trading 3, yes_supply = 3, no_supply = 3\<rparr>"
  let ?l2 = "\<lparr>ledger_state = Expired 600, yes_supply = 3, no_supply = 3\<rparr>"
  let ?reach = "reachable (\<lambda>l. economics_new 100 = Ok ?e \<and> l = new_ledger) (ledger_step ?e)"
  have new: "economics_new 100 = Ok ?e"
    by (simp add: economics_new_def BASE_PAYOUTS_def checked_mul_def)
  have "economics_apply ?e (Trading 0) (Issue 3) =
      Ok \<lparr>old_state = Trading 0, new_state = Trading 3, transition = Issued 3 600\<rparr>"
    by (simp add: economics_apply_def validate_state_def economics_issue_def require_nonzero_def
        collateral_for_pairs_def checked_payout_def checked_mul_def checked_add_def)
  then have s1: "ledger_step ?e new_ledger (Issue 3) ?l1"
    using ledger_stepI [of ?e new_ledger "Issue 3"
        "\<lparr>old_state = Trading 0, new_state = Trading 3, transition = Issued 3 600\<rparr>" 3 3]
    by (simp add: new_ledger_def burnable_def mint_and_burn_def)
  have "economics_apply ?e (Trading 3) Expire =
      Ok \<lparr>old_state = Trading 3, new_state = Expired 600, transition = ExpiredTransition 600\<rparr>"
    by (simp add: economics_apply_def validate_state_def economics_expire_def
        collateral_for_pairs_def checked_payout_def checked_mul_def)
  then have s2: "ledger_step ?e ?l1 Expire ?l2"
    using ledger_stepI [of ?e ?l1 Expire "\<lparr>old_state = Trading 3, new_state = Expired 600,
        transition = ExpiredTransition 600\<rparr>" 3 3] by (simp add: burnable_def mint_and_burn_def)
  have "?reach new_ledger" by (rule reachable_init) (simp add: new)
  then have "?reach ?l1" by (rule reachable_step) (rule s1)
  then have "?reach ?l2" by (rule reachable_step) (rule s2)
  from reachable_redemption_pays [OF new this, of 3 OutcomeNo] show ?thesis
    by (simp add: redeemable_def)
qed


section \<open>Layouts of applied transitions\<close>

text \<open>C5.  Every applied transition has a layout.  Its operation and coordinator are those of
  the action and of the old state, the full-cancellation shape is chosen exactly when no
  pair is left, and its input window starts with the one coordinator, followed only by
  followers of that coordinator.\<close>

theorem applied_transition_layout:
  assumes "economics_new v = Ok e" "economics_apply e st a = Ok ap"
  shows "\<exists>l h t. layout_for_transition st a ap = Ok l \<and>
    layout_operation l = action_kind a \<and>
    layout_coordinator l = coordinator_for_state st \<and>
    (layout_path l = FullCancellation \<longleftrightarrow> action_kind a = OpCancel \<and> new_state ap = Trading 0) \<and>
    layout_input_roles l = h # t \<and> is_coordinator h \<and>
    (\<forall>r \<in> set t. \<not> is_coordinator r \<and> role_coordinator_role r = role_coordinator_role h)"
proof -
  let ?full = "case transition ap of Cancelled _ _ full \<Rightarrow> Some full | _ \<Rightarrow> None"
  have "\<exists>q. path_for (coordinator_for_state st) (action_kind a) ?full = Some q"
    using assms(2) unfolding apply_Ok [OF assms(1)]
    by (cases a; cases st) (auto simp: op_Ok [OF assms(1)] coordinator_for_state_def
        action_kind_def unat_eq_0 split: bool.split)
  then obtain q where q: "path_for (coordinator_for_state st) (action_kind a) ?full = Some q" ..
  define l where "l = \<lparr>layout_path = q, layout_coordinator = coordinator_for_state st\<rparr>"
  have c: "layout_coordinator l = coordinator_for_state st"
    and p: "path_for (coordinator_for_state st) (action_kind a) ?full = Some (layout_path l)"
    by (simp_all add: l_def q)
  have l: "layout_for_transition st a ap = Ok l"
    using apply_sound [OF assms] c p
    by (simp add: layout_for_transition_def layout_for_operation_Ok)
  have "layout_path l = FullCancellation \<longleftrightarrow> action_kind a = OpCancel \<and> new_state ap = Trading 0"
    using assms(2) p unfolding apply_Ok [OF assms(1)]
    by (cases a; cases st) (auto simp: op_Ok [OF assms(1)] coordinator_for_state_def
        action_kind_def split: bool.splits if_splits)
  moreover have "\<exists>h t. layout_input_roles l = h # t \<and> is_coordinator h \<and>
    (\<forall>r \<in> set t. \<not> is_coordinator r \<and> role_coordinator_role r = role_coordinator_role h)"
    by (cases "layout_coordinator l")
      (simp_all add: layout_input_roles_def is_coordinator_def role_coordinator_role_def)
  ultimately show ?thesis
    using l c path_for_operation [OF p] by (auto simp: layout_operation_def)
qed

theorem applied_transition_layout_witness:
  "\<exists>l h t. layout_for_transition (Trading 3) (Cancel 3)
      \<lparr>old_state = Trading 3, new_state = Trading 0, transition = Cancelled 3 600 True\<rparr> = Ok l \<and>
    layout_path l = FullCancellation \<and> layout_input_roles l = h # t \<and> is_coordinator h"
proof -
  have new: "economics_new 100 = Ok \<lparr>econ_base_payout = 100, econ_collateral_per_pair = 200\<rparr>"
    by (simp add: economics_new_def BASE_PAYOUTS_def checked_mul_def)
  have "economics_apply \<lparr>econ_base_payout = 100, econ_collateral_per_pair = 200\<rparr>
      (Trading 3) (Cancel 3) =
      Ok \<lparr>old_state = Trading 3, new_state = Trading 0, transition = Cancelled 3 600 True\<rparr>"
    by (simp add: economics_apply_def validate_state_def economics_cancel_def require_nonzero_def
        collateral_for_pairs_def checked_payout_def checked_mul_def checked_sub_def)
  from applied_transition_layout [OF new this] show ?thesis
    by (auto simp: action_kind_def)
qed

end
