(* ===== verification/Rt_Schedule.thy ===== *)
theory Rt_Schedule
  imports Elements_Tx
begin

text \<open>
  The public A/B blinding schedule of the reissuance tokens,
  \<open>crates/deadcat-contracts/src/rt.rs\<close>: big-endian schoolbook arithmetic modulo the
  secp256k1 group order, the four public factor sets, and the inference of the live
  side from on-chain commitments.  The Pedersen commitments themselves belong to
  \<open>secp256k1-zkp\<close> and enter as \<open>secp_ops\<close>; the tagged hash takes SHA-256 as an argument.
\<close>

definition SECP256K1_ORDER :: bytes where
  "SECP256K1_ORDER =
    [0xff, 0xff, 0xff, 0xff, 0xff, 0xff, 0xff, 0xff, 0xff, 0xff, 0xff, 0xff, 0xff, 0xff, 0xff, 0xfe,
     0xba, 0xae, 0xdc, 0xe6, 0xaf, 0x48, 0xa0, 0x3b, 0xbf, 0xd2, 0x5e, 0x8c, 0xd0, 0x36, 0x41, 0x41]"

definition ABF_A :: bytes where
  "ABF_A = replicate 32 1"

definition ABF_B :: bytes where
  "ABF_B = replicate 32 2"

definition YES_CBF :: bytes where
  "YES_CBF = replicate 32 3"

record RtFactors =
  abf :: bytes
  vbf :: bytes
  cbf :: bytes

datatype RtLeg = YesLeg | NoLeg

datatype RtSide = SideA | SideB

definition side_flip :: "RtSide \<Rightarrow> RtSide" where
  "side_flip s = (case s of SideA \<Rightarrow> SideB | SideB \<Rightarrow> SideA)"

definition side_abf :: "RtSide \<Rightarrow> bytes" where
  "side_abf s = (case s of SideA \<Rightarrow> ABF_A | SideB \<Rightarrow> ABF_B)"

datatype RtCommitmentError = InvalidAssetBlindingFactor | InvalidValueBlindingFactor

definition commitments ::
    "secp_ops \<Rightarrow> asset_id \<Rightarrow> RtFactors \<Rightarrow> (RtCommitmentError, Asset \<times> Value) result" where
  "commitments secp asset factors =
     rbind (ok_or (abf_from_slice secp (abf factors)) InvalidAssetBlindingFactor) (\<lambda>a.
     rbind (ok_or (vbf_from_slice secp (vbf factors)) InvalidValueBlindingFactor) (\<lambda>v.
     let generator = asset_commitment secp asset a in
     Ok (AssetConfidential generator, ValueConfidential (value_commitment secp 1 generator v))))"

definition tagged_hash :: "(bytes \<Rightarrow> bytes) \<Rightarrow> bytes \<Rightarrow> bytes \<Rightarrow> bytes" where
  "tagged_hash sha256 tag message =
     (let tag_hash = sha256 tag in sha256 (tag_hash @ tag_hash @ message))"

text \<open>\<open>compare(..) != Ordering::Less\<close> on equal-width byte strings.\<close>

definition cmp_not_less :: "bytes \<Rightarrow> bytes \<Rightarrow> bool" where
  "cmp_not_less left right \<longleftrightarrow> \<not> left < right"

text \<open>One iteration of the borrow loop, run from the last index to the first.\<close>

definition subtract_step :: "byte \<times> byte \<Rightarrow> int \<times> bytes \<Rightarrow> int \<times> bytes" where
  "subtract_step lr st =
     (let v = uint (fst lr) - uint (snd lr) - fst st in
      if v < 0 then (1, of_int (v + 256) # snd st) else (0, of_int v # snd st))"

definition subtract_same_width :: "bytes \<Rightarrow> bytes \<Rightarrow> bool \<times> bytes" where
  "subtract_same_width left right =
     (let (borrow, out) = foldr subtract_step (zip left right) (0, []) in (borrow \<noteq> 0, out))"

definition reduce_scalar :: "bytes \<Rightarrow> bytes" where
  "reduce_scalar v =
     (if cmp_not_less v SECP256K1_ORDER then snd (subtract_same_width v SECP256K1_ORDER) else v)"

definition hash_to_scalar :: "(bytes \<Rightarrow> bytes) \<Rightarrow> bytes \<Rightarrow> bytes \<Rightarrow> bytes" where
  "hash_to_scalar sha256 domain message = reduce_scalar (tagged_hash sha256 domain message)"

text \<open>The carry loop of the addition: sixteen-bit sums, low byte out, high byte carried.\<close>

definition add_step :: "byte \<times> byte \<Rightarrow> nat \<times> bytes \<Rightarrow> nat \<times> bytes" where
  "add_step lr st =
     (let word = unat (fst lr) + unat (snd lr) + fst st in
      (word div 256, of_nat (word mod 256) # snd st))"

definition add_mod_order :: "bytes \<Rightarrow> bytes \<Rightarrow> bytes" where
  "add_mod_order left right =
     (let (carry, low) = foldr add_step (zip (reduce_scalar left) (reduce_scalar right)) (0, []);
          sum = of_nat carry # low;
          order = 0 # SECP256K1_ORDER;
          sum = (if cmp_not_less sum order then snd (subtract_same_width sum order) else sum)
      in tl sum)"

definition subtract_mod_order :: "bytes \<Rightarrow> bytes \<Rightarrow> bytes" where
  "subtract_mod_order left right =
     (let left = reduce_scalar left; right = reduce_scalar right in
      if cmp_not_less left right then snd (subtract_same_width left right)
      else let difference = snd (subtract_same_width right left) in
        snd (subtract_same_width SECP256K1_ORDER difference))"

definition no_cbf :: bytes where
  "no_cbf = subtract_mod_order (replicate 32 0) YES_CBF"

definition leg_cbf :: "RtLeg \<Rightarrow> bytes" where
  "leg_cbf leg = (case leg of YesLeg \<Rightarrow> YES_CBF | NoLeg \<Rightarrow> no_cbf)"

definition rt_factors :: "RtLeg \<Rightarrow> RtSide \<Rightarrow> RtFactors" where
  "rt_factors leg side =
     (let a = side_abf side; c = leg_cbf leg in
      \<lparr>abf = a, vbf = subtract_mod_order c a, cbf = c\<rparr>)"

datatype SideInferenceError =
    SideCommitment RtCommitmentError
  | UnknownCommitment
  | AmbiguousCommitment

definition infer_side ::
    "secp_ops \<Rightarrow> RtLeg \<Rightarrow> asset_id \<Rightarrow> Asset \<Rightarrow> Value \<Rightarrow> (SideInferenceError, RtSide) result" where
  "infer_side secp leg asset_id asset amount =
     rbind (map_err SideCommitment (commitments secp asset_id (rt_factors leg SideA))) (\<lambda>a.
     rbind (map_err SideCommitment (commitments secp asset_id (rt_factors leg SideB))) (\<lambda>b.
     if (asset, amount) = a \<and> (asset, amount) \<noteq> b then Ok SideA
     else if (asset, amount) \<noteq> a \<and> (asset, amount) = b then Ok SideB
     else if (asset, amount) \<noteq> a \<and> (asset, amount) \<noteq> b then Err UnknownCommitment
     else Err AmbiguousCommitment))"

text \<open>The group order as a number.\<close>

abbreviation secp_order :: nat where
  "secp_order \<equiv> be_nat SECP256K1_ORDER"


section \<open>Schoolbook arithmetic\<close>

lemma uint_byte_range: "0 \<le> uint (b :: byte)" "uint (b :: byte) < 256"
  using uint_bounded [of b] by simp_all

lemma subtract_step_spec:
  assumes "0 \<le> b" "b \<le> 1"
  shows "\<exists>b' d. subtract_step (x, y) (b, out) = (b', d # out) \<and> (b' = 0 \<or> b' = 1) \<and>
    uint d = uint x - uint y - b + 256 * b'"
proof -
  let ?v = "uint x - uint y - b"
  have rng: "-256 \<le> ?v" "?v < 256"
    using assms uint_byte_range [of x] uint_byte_range [of y] by linarith+
  have byte: "uint (of_int z :: byte) = z" if "0 \<le> z" "z < 256" for z
    using that by (simp add: uint_word_of_int)
  show ?thesis
  proof (cases "?v < 0")
    case True
    then have "uint (of_int (?v + 256) :: byte) = ?v + 256" using rng by (intro byte) linarith+
    with True show ?thesis by (simp only: subtract_step_def Let_def fst_conv snd_conv if_True) auto
  next
    case False
    then have "uint (of_int ?v :: byte) = ?v" using rng by (intro byte) linarith+
    with False show ?thesis by (simp only: subtract_step_def Let_def fst_conv snd_conv if_False) auto
  qed
qed

lemma subtract_loop:
  assumes "length l = length r"
  shows "let (b, out) = foldr subtract_step (zip l r) (0, []) in
    length out = length l \<and> (b = 0 \<or> b = 1) \<and>
    int (be_nat out) = int (be_nat l) - int (be_nat r) + b * 256 ^ length l"
  using assms
proof (induction l r rule: list_induct2)
  case (Cons x l y r)
  obtain b out where bo: "foldr subtract_step (zip l r) (0, []) = (b, out)" by fastforce
  have b: "0 \<le> b" "b \<le> 1" and len: "length out = length r" "length l = length r"
    and eq: "int (be_nat out) = int (be_nat l) - int (be_nat r) + b * 256 ^ length r"
    using Cons bo by auto
  obtain b' d where st: "subtract_step (x, y) (b, out) = (b', d # out)" "b' = 0 \<or> b' = 1"
    "uint d = uint x - uint y - b + 256 * b'"
    using subtract_step_spec [OF b] by blast
  show ?case
    using st(2) len eq by (simp add: bo st(1,3) algebra_simps)
qed simp

lemma subtract_same_width_correct:
  assumes "length l = length r" "be_nat r \<le> be_nat l"
  shows "length (snd (subtract_same_width l r)) = length l"
    and "be_nat (snd (subtract_same_width l r)) = be_nat l - be_nat r"
    and "\<not> fst (subtract_same_width l r)"
proof -
  obtain b out where bo: "foldr subtract_step (zip l r) (0, []) = (b, out)" by fastforce
  have len: "length out = length l" and b: "b = 0 \<or> b = 1"
    and eq: "int (be_nat out) = int (be_nat l) - int (be_nat r) + b * 256 ^ length l"
    using subtract_loop [OF assms(1)] bo by auto
  have "be_nat out < 256 ^ length l" using be_nat_bound [of out] len by simp
  then have "int (be_nat out) < 256 ^ length l"
    by (metis of_nat_less_iff of_nat_numeral of_nat_power)
  then have "b \<noteq> 1" using eq assms(2) by auto
  with b have "b = 0" by simp
  then show "length (snd (subtract_same_width l r)) = length l"
    "be_nat (snd (subtract_same_width l r)) = be_nat l - be_nat r"
    "\<not> fst (subtract_same_width l r)"
    using eq len assms(2) by (simp_all add: subtract_same_width_def bo)
qed

lemma add_step_spec:
  assumes "c \<le> 1"
  shows "\<exists>c' d. add_step (x, y) (c, out) = (c', d # out) \<and> c' \<le> 1 \<and>
    unat d + 256 * c' = unat x + unat y + c"
proof -
  let ?w = "unat x + unat y + c"
  have "?w div 256 \<le> 1" using assms unat_byte_less [of x] unat_byte_less [of y] by auto
  moreover have "unat (of_nat (?w mod 256) :: byte) + 256 * (?w div 256) = ?w"
    by (simp add: unat_of_nat take_bit_eq_mod)
  ultimately show ?thesis unfolding add_step_def Let_def fst_conv snd_conv by blast
qed

lemma add_loop:
  assumes "length l = length r"
  shows "let (c, out) = foldr add_step (zip l r) (0, []) in
    length out = length l \<and> c \<le> 1 \<and> be_nat out + c * 256 ^ length l = be_nat l + be_nat r"
  using assms
proof (induction l r rule: list_induct2)
  case (Cons x l y r)
  obtain c out where co: "foldr add_step (zip l r) (0, []) = (c, out)" by fastforce
  have c: "c \<le> 1" and len: "length out = length r" "length l = length r"
    and eq: "be_nat out + c * 256 ^ length r = be_nat l + be_nat r"
    using Cons co by auto
  obtain c' d where st: "add_step (x, y) (c, out) = (c', d # out)" "c' \<le> 1"
    and d: "unat d + 256 * c' = unat x + unat y + c"
    using add_step_spec [OF c] by blast
  have "(unat d + 256 * c') * 256 ^ length r = (unat x + unat y + c) * 256 ^ length r"
    using d by simp
  then show ?case
    using st(2) len eq by (simp add: co st(1) algebra_simps)
qed simp

lemma cmp_not_less_iff:
  "length l = length r \<Longrightarrow> cmp_not_less l r \<longleftrightarrow> be_nat r \<le> be_nat l"
  by (simp add: cmp_not_less_def be_nat_less_iff [symmetric] not_less)


section \<open>Arithmetic modulo the group order\<close>

lemma length_order [simp]: "length SECP256K1_ORDER = 32"
  by (simp add: SECP256K1_ORDER_def)

lemma secp_order_value:
  "secp_order = 115792089237316195423570985008687907852837564279074904382605163141518161494337"
  by (simp add: SECP256K1_ORDER_def)

lemma secp_order_bounds: "256 ^ 32 < 2 * secp_order" "secp_order < 256 ^ 32" "0 < secp_order"
  by (simp_all add: secp_order_value)

lemma mod_once: "(a :: nat) < 2 * m \<Longrightarrow> a mod m = (if m \<le> a then a - m else a)"
  by (simp add: le_mod_geq)

lemma reduce_scalar_correct:
  assumes "length v = 32"
  shows "length (reduce_scalar v) = 32" and "be_nat (reduce_scalar v) = be_nat v mod secp_order"
proof -
  have "be_nat v < 2 * secp_order"
    using be_nat_bound [of v] assms secp_order_bounds(1) by simp
  then show "length (reduce_scalar v) = 32" "be_nat (reduce_scalar v) = be_nat v mod secp_order"
    using assms subtract_same_width_correct [of v SECP256K1_ORDER]
    by (auto simp: reduce_scalar_def cmp_not_less_iff mod_once)
qed

lemma be_nat_tl:
  assumes "length xs = Suc n" "be_nat xs < 256 ^ n"
  shows "length (tl xs) = n \<and> be_nat (tl xs) = be_nat xs"
proof (cases xs)
  case (Cons x ys)
  have "unat x = 0"
  proof (rule ccontr)
    assume "unat x \<noteq> 0"
    then have "1 * 256 ^ n \<le> unat x * 256 ^ n" by (intro mult_right_mono) simp_all
    also have "\<dots> \<le> be_nat xs" using assms Cons by simp
    finally show False using assms(2) by simp
  qed
  then show ?thesis using assms Cons by simp
qed (use assms in simp)

lemma add_mod_order_correct:
  assumes "length l = 32" "length r = 32"
  shows "length (add_mod_order l r) = 32 \<and>
    be_nat (add_mod_order l r) = (be_nat l + be_nat r) mod secp_order"
proof -
  let ?l = "reduce_scalar l" and ?r = "reduce_scalar r"
  note red = reduce_scalar_correct [OF assms(1)] reduce_scalar_correct [OF assms(2)]
  obtain c low where cl: "foldr add_step (zip ?l ?r) (0, []) = (c, low)" by fastforce
  have len: "length low = 32" and c: "c \<le> 1"
    and tot: "be_nat low + c * 256 ^ 32 = be_nat ?l + be_nat ?r"
    using add_loop [of ?l ?r] cl red by auto
  define s where "s = (of_nat c :: byte) # low"
  have s: "length s = 33" "be_nat s = be_nat ?l + be_nat ?r"
  proof -
    have "unat (of_nat c :: byte) = c" using c by (simp add: unat_of_nat take_bit_eq_mod)
    then show "length s = 33" "be_nat s = be_nat ?l + be_nat ?r"
      using len tot by (simp_all add: s_def)
  qed
  have small: "be_nat s < 2 * secp_order"
    using secp_order_bounds(3) by (simp add: s red add_less_le_mono mult_2)
  have modeq: "be_nat s mod secp_order = (be_nat l + be_nat r) mod secp_order"
    by (simp add: s red mod_add_eq)
  define t where "t = (if cmp_not_less s (0 # SECP256K1_ORDER)
      then snd (subtract_same_width s (0 # SECP256K1_ORDER)) else s)"
  have t: "length t = Suc 32" "be_nat t = be_nat s mod secp_order"
    using s(1) small subtract_same_width_correct [of s "0 # SECP256K1_ORDER"]
    by (auto simp: t_def cmp_not_less_iff mod_once)
  moreover have "be_nat t < 256 ^ 32"
    unfolding t(2) by (rule order_less_trans [OF mod_less_divisor]) (rule secp_order_bounds)+
  moreover have "add_mod_order l r = tl t"
    by (simp add: add_mod_order_def cl Let_def t_def s_def)
  ultimately show ?thesis using be_nat_tl [of t 32] modeq by simp
qed

lemma subtract_mod_order_correct:
  assumes "length l = 32" "length r = 32"
  shows "length (subtract_mod_order l r) = 32 \<and>
    int (be_nat (subtract_mod_order l r)) = (int (be_nat l) - int (be_nat r)) mod int secp_order"
proof -
  let ?l = "reduce_scalar l" and ?r = "reduce_scalar r"
  note red = reduce_scalar_correct [OF assms(1)] reduce_scalar_correct [OF assms(2)]
  have lt: "be_nat ?l < secp_order" "be_nat ?r < secp_order"
    using secp_order_bounds(3) by (simp_all add: red)
  have modeq: "(int (be_nat ?l) - int (be_nat ?r)) mod int secp_order
      = (int (be_nat l) - int (be_nat r)) mod int secp_order"
    by (simp add: red zmod_int mod_diff_eq)
  show ?thesis
  proof (cases "be_nat ?r \<le> be_nat ?l")
    case True
    then have "(int (be_nat ?l) - int (be_nat ?r)) mod int secp_order
        = int (be_nat ?l) - int (be_nat ?r)"
      using lt by (intro mod_pos_pos_trivial) auto
    then show ?thesis
      using subtract_same_width_correct [of ?l ?r] True red
      by (simp add: subtract_mod_order_def cmp_not_less_iff of_nat_diff flip: modeq)
  next
    case False
    note sub = subtract_same_width_correct [of ?r ?l]
    have "length (snd (subtract_same_width ?r ?l)) = 32"
      "be_nat (snd (subtract_same_width ?r ?l)) = be_nat ?r - be_nat ?l"
      using sub False red by simp_all
    moreover have "(int (be_nat ?l) - int (be_nat ?r)) mod int secp_order
        = int (be_nat ?l) - int (be_nat ?r) + int secp_order"
      using False lt mod_pos_pos_trivial
        [of "int (be_nat ?l) - int (be_nat ?r) + int secp_order" "int secp_order"] by simp
    ultimately show ?thesis
      using False lt red subtract_same_width_correct
        [of SECP256K1_ORDER "snd (subtract_same_width ?r ?l)"]
      by (simp add: subtract_mod_order_def cmp_not_less_iff of_nat_diff flip: modeq)
  qed
qed


section \<open>The schedule\<close>

lemma side_flip_involution [simp]: "side_flip (side_flip s) = s"
  by (cases s) (simp_all add: side_flip_def)

lemma side_flip_neq [simp]: "side_flip s \<noteq> s" "s \<noteq> side_flip s"
  by (cases s; simp add: side_flip_def)+

lemma schedule_lengths [simp]:
  "length (side_abf s) = 32" "length (leg_cbf leg) = 32" "length YES_CBF = 32"
proof -
  show "length YES_CBF = 32" by (simp add: YES_CBF_def)
  then show "length (leg_cbf leg) = 32"
    using subtract_mod_order_correct [of "replicate 32 0" YES_CBF]
    by (cases leg) (simp_all add: leg_cbf_def no_cbf_def)
  show "length (side_abf s) = 32" by (cases s) (simp_all add: side_abf_def ABF_A_def ABF_B_def)
qed

lemma be_nat_zeros [simp]: "be_nat (replicate n 0) = 0"
  by (induction n) simp_all

lemma add_subtract_mod_order:
  assumes "length a = 32" "length c = 32" "be_nat c < secp_order"
  shows "add_mod_order a (subtract_mod_order c a) = c"
proof -
  have "int (be_nat (add_mod_order a (subtract_mod_order c a))) = int (be_nat c)"
    using assms subtract_mod_order_correct [of c a] add_mod_order_correct [of a "subtract_mod_order c a"]
    by (simp add: zmod_int mod_add_right_eq)
  then show ?thesis
    using assms add_mod_order_correct [of a "subtract_mod_order c a"]
      subtract_mod_order_correct [of c a]
      be_nat_inject [of "add_mod_order a (subtract_mod_order c a)" c]
    by simp
qed

lemma leg_cbf_reduced: "be_nat (leg_cbf leg) < secp_order"
proof (cases leg)
  case NoLeg
  have "int (be_nat no_cbf) = (0 - int (be_nat YES_CBF)) mod int secp_order"
    using subtract_mod_order_correct [of "replicate 32 0" YES_CBF] by (simp add: no_cbf_def)
  then have "int (be_nat no_cbf) < int secp_order"
    using secp_order_bounds(3) by simp
  then show ?thesis by (simp add: NoLeg leg_cbf_def)
next
  case YesLeg
  have yes: "YES_CBF = 3 # replicate 31 3" by (simp add: YES_CBF_def flip: replicate_Suc)
  have "be_nat YES_CBF = unat (3 :: byte) * 256 ^ length (replicate 31 (3 :: byte))
      + be_nat (replicate 31 3)"
    by (simp only: yes be_nat.simps)
  then show ?thesis
    using be_nat_bound [of "replicate 31 3"] by (simp add: YesLeg leg_cbf_def secp_order_value)
qed

text \<open>C16.  The byte-wise borrow and carry loops compute arithmetic modulo the secp256k1 group
  order: on 32-byte inputs, reduced or not, the results are 32 bytes wide and equal the
  sum, the difference and the remainder of the numbers they encode.\<close>

theorem mod_order_arithmetic:
  assumes "length l = 32" "length r = 32"
  shows "length (add_mod_order l r) = 32 \<and> length (subtract_mod_order l r) = 32 \<and>
    be_nat (add_mod_order l r) = (be_nat l + be_nat r) mod secp_order \<and>
    int (be_nat (subtract_mod_order l r)) = (int (be_nat l) - int (be_nat r)) mod int secp_order \<and>
    be_nat (reduce_scalar l) = be_nat l mod secp_order"
  using add_mod_order_correct [OF assms] subtract_mod_order_correct [OF assms]
    reduce_scalar_correct [OF assms(1)] by simp

theorem mod_order_arithmetic_witness:
  "length (add_mod_order SECP256K1_ORDER ABF_A) = 32 \<and>
   be_nat (add_mod_order SECP256K1_ORDER ABF_A) = be_nat ABF_A mod secp_order \<and>
   be_nat (reduce_scalar SECP256K1_ORDER) = 0"
  using mod_order_arithmetic [of SECP256K1_ORDER ABF_A] by (simp add: ABF_A_def)

text \<open>C17.  In every public factor set the asset and value blinding factors add up,
  modulo the group order, to the leg's commitment blinding factor, and the YES and NO
  commitment factors cancel: two one-unit reissuance-token outputs on the same side
  balance without a confidential change output.\<close>

theorem rt_factors_balance:
  "add_mod_order (abf (rt_factors leg side)) (vbf (rt_factors leg side)) = leg_cbf leg \<and>
   add_mod_order (leg_cbf YesLeg) (leg_cbf NoLeg) = replicate 32 0"
proof
  show "add_mod_order (abf (rt_factors leg side)) (vbf (rt_factors leg side)) = leg_cbf leg"
    by (simp add: rt_factors_def Let_def add_subtract_mod_order leg_cbf_reduced)
  show "add_mod_order (leg_cbf YesLeg) (leg_cbf NoLeg) = replicate 32 0"
    using secp_order_bounds(3) by (simp add: leg_cbf_def no_cbf_def add_subtract_mod_order)
qed

text \<open>C18.  Side inference answers a side exactly when the on-chain pair is that side's
  public commitment and differs from the commitment of the opposite side; it never
  guesses between colliding or unknown commitments.\<close>

theorem infer_side_iff:
  "infer_side secp leg asset_id asset amount = Ok side \<longleftrightarrow>
     commitments secp asset_id (rt_factors leg side) = Ok (asset, amount) \<and>
     (\<exists>other. commitments secp asset_id (rt_factors leg (side_flip side)) = Ok other \<and>
        other \<noteq> (asset, amount))"
  by (cases side; cases "commitments secp asset_id (rt_factors leg SideA)";
      cases "commitments secp asset_id (rt_factors leg SideB)")
    (auto simp: infer_side_def side_flip_def)

end
