(* ===== verification/Market_Compiled.thy ===== *)
theory Market_Compiled
  imports Market_Economics Rt_Schedule
begin

unbundle bit_operations_syntax

text \<open>
  Compilation of the canonical covenant, \<open>crates/deadcat-contracts/src/binary_market/compiled.rs\<close>,
  and the oracle message of \<open>market_crypto.rs\<close>.  The SimplicityHL compiler, the Taproot builder
  and key parsing belong to libraries and enter as \<open>compile_ops\<close>; parameter validation, the
  program arguments, the storage leaf and the eight-slot table are modelled.
\<close>

definition oracle_protocol_byte :: "BinaryOutcome \<Rightarrow> u8" where
  "oracle_protocol_byte w = (case w of OutcomeYes \<Rightarrow> 0x01 | OutcomeNo \<Rightarrow> 0x00)"

definition market_id :: "(bytes \<Rightarrow> bytes) \<Rightarrow> asset_id \<Rightarrow> asset_id \<Rightarrow> bytes" where
  "market_id sha256 yes_token no_token = sha256 (yes_token @ no_token)"

definition oracle_message :: "(bytes \<Rightarrow> bytes) \<Rightarrow> asset_id \<Rightarrow> asset_id \<Rightarrow> BinaryOutcome \<Rightarrow> bytes" where
  "oracle_message sha256 yes_token no_token outcome =
     tagged_hash sha256 (str_bytes ''deadcat/oracle_attestation'')
       (market_id sha256 yes_token no_token @ [oracle_protocol_byte outcome])"

definition NUMS_INTERNAL_KEY :: bytes where
  "NUMS_INTERNAL_KEY =
    [0x50, 0x92, 0x9b, 0x74, 0xc1, 0xa0, 0x49, 0x54, 0xb7, 0x8b, 0x4b, 0x60, 0x35, 0xe9, 0x7a, 0x5e,
     0x07, 0x8a, 0x5a, 0x0f, 0x28, 0xec, 0x96, 0xd5, 0x47, 0xbf, 0xee, 0x9a, 0xce, 0x80, 0x3a, 0xc0]"

record CompressedCommitment =
  parity :: bool
  x_coordinate :: bytes

record RtCommitmentArguments =
  asset_a :: CompressedCommitment
  asset_b :: CompressedCommitment
  rt_value :: CompressedCommitment

record BinaryMarketArguments =
  arg_oracle_public_key :: bytes
  arg_oracle_message_yes :: bytes
  arg_oracle_message_no :: bytes
  arg_collateral_asset_id :: bytes
  arg_yes_token_asset_id :: bytes
  arg_no_token_asset_id :: bytes
  arg_yes_reissuance_token_id :: bytes
  arg_no_reissuance_token_id :: bytes
  arg_base_payout :: u64
  arg_expiry_height :: u32
  arg_yes_rt :: RtCommitmentArguments
  arg_no_rt :: RtCommitmentArguments

text \<open>Library functions used by the compilation.\<close>

record 'p compile_ops =
  template_instantiate :: "BinaryMarketArguments \<Rightarrow> 'p option"
  template_analyzed :: bool
  program_cmr :: "'p \<Rightarrow> bytes"
  xonly_from_slice :: "bytes \<Rightarrow> bytes option"
  taproot_spend_info :: "bytes \<Rightarrow> bytes \<Rightarrow> bytes \<Rightarrow> (bytes option \<times> bytes) option"

datatype CompiledBinaryMarketError =
    CompiledInvalidBasePayout u64
  | CompiledInvalidExpiryHeight u32
  | InvalidOraclePublicKey
  | DuplicateAssetIds
  | TemplateCompilation
  | ArgumentInstantiation
  | TaprootFailed
  | MissingControlBlock
  | InvalidNumsInternalKey
  | SlotCountInvariant
  | CompiledRtCommitment RtCommitmentError
  | ExplicitRtCommitment
  | InconsistentRtValueCommitment

record CompiledBinaryMarketSlot =
  compiled_slot_slot :: BinaryMarketSlot
  compiled_slot_storage_word :: bytes
  compiled_slot_script :: bytes
  compiled_slot_control_block :: bytes

record CompiledBinaryMarket =
  compiled_params :: BinaryMarketParams
  compiled_cmr :: bytes
  compiled_slots :: "CompiledBinaryMarketSlot list"

definition validate_params ::
    "'p compile_ops \<Rightarrow> BinaryMarketParams \<Rightarrow> (CompiledBinaryMarketError, unit) result" where
  "validate_params ops params =
     rbind (map_err (\<lambda>_. CompiledInvalidBasePayout (base_payout params))
         (economics_new (base_payout params))) (\<lambda>_.
     if \<not> (1 \<le> expiry_height params \<and> expiry_height params < 500000000)
     then Err (CompiledInvalidExpiryHeight (expiry_height params))
     else rbind (ok_or (xonly_from_slice ops (oracle_public_key params)) InvalidOraclePublicKey) (\<lambda>_.
       let assets = [collateral_asset_id params, yes_token_asset_id params, no_token_asset_id params,
             yes_reissuance_token_id params, no_reissuance_token_id params]
       in if card (set assets) \<noteq> length assets then Err DuplicateAssetIds else Ok ()))"

definition compress_serialized :: "bytes \<Rightarrow> CompressedCommitment" where
  "compress_serialized serialized =
     \<lparr>parity = (serialized ! 0 AND 1 \<noteq> 0), x_coordinate = drop 1 serialized\<rparr>"

definition compress_asset :: "Asset \<Rightarrow> (CompiledBinaryMarketError, CompressedCommitment) result" where
  "compress_asset a = (case a of
       AssetConfidential c \<Rightarrow> Ok (compress_serialized c) | _ \<Rightarrow> Err ExplicitRtCommitment)"

definition compress_value :: "Value \<Rightarrow> (CompiledBinaryMarketError, CompressedCommitment) result" where
  "compress_value v = (case v of
       ValueConfidential c \<Rightarrow> Ok (compress_serialized c) | _ \<Rightarrow> Err ExplicitRtCommitment)"

definition rt_commitment_arguments ::
    "secp_ops \<Rightarrow> asset_id \<Rightarrow> RtLeg \<Rightarrow> (CompiledBinaryMarketError, RtCommitmentArguments) result" where
  "rt_commitment_arguments secp asset leg =
     rbind (map_err CompiledRtCommitment (commitments secp asset (rt_factors leg SideA))) (\<lambda>(a, va).
     rbind (map_err CompiledRtCommitment (commitments secp asset (rt_factors leg SideB))) (\<lambda>(b, vb).
     rbind (compress_asset a) (\<lambda>ca.
     rbind (compress_asset b) (\<lambda>cb.
     rbind (compress_value va) (\<lambda>cva.
     rbind (compress_value vb) (\<lambda>cvb.
     if cva \<noteq> cvb then Err InconsistentRtValueCommitment
     else Ok \<lparr>asset_a = ca, asset_b = cb, rt_value = cva\<rparr>))))))"

definition contract_arguments ::
    "secp_ops \<Rightarrow> (bytes \<Rightarrow> bytes) \<Rightarrow> BinaryMarketParams \<Rightarrow>
     (CompiledBinaryMarketError, BinaryMarketArguments) result" where
  "contract_arguments secp sha256 params =
     rbind (rt_commitment_arguments secp (yes_reissuance_token_id params) YesLeg) (\<lambda>yes.
     rbind (rt_commitment_arguments secp (no_reissuance_token_id params) NoLeg) (\<lambda>no.
     Ok \<lparr>arg_oracle_public_key = oracle_public_key params,
         arg_oracle_message_yes =
           oracle_message sha256 (yes_token_asset_id params) (no_token_asset_id params) OutcomeYes,
         arg_oracle_message_no =
           oracle_message sha256 (yes_token_asset_id params) (no_token_asset_id params) OutcomeNo,
         arg_collateral_asset_id = collateral_asset_id params,
         arg_yes_token_asset_id = yes_token_asset_id params,
         arg_no_token_asset_id = no_token_asset_id params,
         arg_yes_reissuance_token_id = yes_reissuance_token_id params,
         arg_no_reissuance_token_id = no_reissuance_token_id params,
         arg_base_payout = base_payout params,
         arg_expiry_height = expiry_height params,
         arg_yes_rt = yes, arg_no_rt = no\<rparr>))"

definition tap_data_hash :: "(bytes \<Rightarrow> bytes) \<Rightarrow> bytes \<Rightarrow> bytes" where
  "tap_data_hash sha256 payload =
     (let tag = sha256 (str_bytes ''TapData'') in sha256 (tag @ tag @ payload))"

definition compile_slot ::
    "'p compile_ops \<Rightarrow> (bytes \<Rightarrow> bytes) \<Rightarrow> BinaryMarketSlot \<Rightarrow> bytes \<Rightarrow> bytes \<Rightarrow>
     (CompiledBinaryMarketError, CompiledBinaryMarketSlot) result" where
  "compile_slot ops sha256 slot program_leaf_script internal_key =
     (let word = storage_word slot in
      rbind (ok_or (taproot_spend_info ops program_leaf_script (tap_data_hash sha256 word) internal_key)
          TaprootFailed) (\<lambda>(cb, script).
      rbind (ok_or cb MissingControlBlock) (\<lambda>block.
      Ok \<lparr>compiled_slot_slot = slot, compiled_slot_storage_word = word,
          compiled_slot_script = script, compiled_slot_control_block = block\<rparr>)))"

definition slot_all :: "BinaryMarketSlot list" where
  "slot_all =
     [SlotDormantYesRt, SlotDormantNoRt, SlotUnresolvedYesRt, SlotUnresolvedNoRt,
      SlotUnresolvedCollateral, SlotResolvedYesCollateral, SlotResolvedNoCollateral,
      SlotExpiredCollateral]"

definition compiled_new ::
    "'p compile_ops \<Rightarrow> secp_ops \<Rightarrow> (bytes \<Rightarrow> bytes) \<Rightarrow> BinaryMarketParams \<Rightarrow>
     (CompiledBinaryMarketError, CompiledBinaryMarket) result" where
  "compiled_new ops secp sha256 params =
     rbind (validate_params ops params) (\<lambda>_.
     rbind (contract_arguments secp sha256 params) (\<lambda>arguments.
     rbind (ensure (template_analyzed ops) TemplateCompilation) (\<lambda>_.
     rbind (ok_or (template_instantiate ops arguments) ArgumentInstantiation) (\<lambda>program.
     let cmr = program_cmr ops program in
     rbind (ok_or (xonly_from_slice ops NUMS_INTERNAL_KEY) InvalidNumsInternalKey) (\<lambda>key.
     rbind (rmap (\<lambda>slot. compile_slot ops sha256 slot cmr key) slot_all) (\<lambda>materialized.
     if length materialized \<noteq> 8 then Err SlotCountInvariant
     else Ok \<lparr>compiled_params = params, compiled_cmr = cmr, compiled_slots = materialized\<rparr>))))))"

definition compiled_slot :: "CompiledBinaryMarket \<Rightarrow> BinaryMarketSlot \<Rightarrow> CompiledBinaryMarketSlot" where
  "compiled_slot c slot = compiled_slots c ! unat (slot_tag slot)"


section \<open>What a compiled market guarantees\<close>

lemma slot_all_index: "slot_all ! unat (slot_tag s) = s" "unat (slot_tag s) < length slot_all"
  by (cases s; simp add: slot_all_def slot_tag_def)+

lemma distinct_iff_card: "card (set xs) = length xs \<longleftrightarrow> distinct xs"
  using card_distinct distinct_card by blast

lemma validate_params_Ok:
  "validate_params ops p = Ok () \<longleftrightarrow>
     base_payout p \<in> set BASE_PAYOUTS \<and> 1 \<le> expiry_height p \<and> expiry_height p < 500000000 \<and>
     xonly_from_slice ops (oracle_public_key p) \<noteq> None \<and>
     distinct [collateral_asset_id p, yes_token_asset_id p, no_token_asset_id p,
       yes_reissuance_token_id p, no_reissuance_token_id p]"
proof -
  have "(\<exists>e. economics_new (base_payout p) = Ok e) \<longleftrightarrow> base_payout p \<in> set BASE_PAYOUTS"
    using economics_new_total economics_new_Ok by blast
  then show ?thesis
    unfolding validate_params_def Let_def distinct_iff_card [symmetric]
    by (auto simp: result_simps simp del: card_set)
qed

lemma compile_slot_fields:
  "compile_slot ops sha256 s leaf key = Ok x \<Longrightarrow>
     compiled_slot_slot x = s \<and> compiled_slot_storage_word x = storage_word s"
  by (auto simp: compile_slot_def Let_def result_simps)

text \<open>C11.  A market compiles only from valid parameters (canonical denomination, height below the
  time-lock threshold, a parseable oracle key, five pairwise distinct assets), and looking up
  any of the eight slots by its tag yields that slot's own Taproot output, committed to its
  own storage word and to the market's program.\<close>

theorem compiled_market_slots:
  assumes "compiled_new ops secp sha256 p = Ok c"
  shows "validate_params ops p = Ok () \<and> compiled_params c = p \<and>
    length (compiled_slots c) = 8 \<and>
    (\<exists>key. xonly_from_slice ops NUMS_INTERNAL_KEY = Some key \<and>
       compile_slot ops sha256 s (compiled_cmr c) key = Ok (compiled_slot c s)) \<and>
    compiled_slot_slot (compiled_slot c s) = s \<and>
    compiled_slot_storage_word (compiled_slot c s) = storage_word s"
proof -
  obtain key where key: "xonly_from_slice ops NUMS_INTERNAL_KEY = Some key"
    and slots: "rmap (\<lambda>slot. compile_slot ops sha256 slot (compiled_cmr c) key) slot_all
      = Ok (compiled_slots c)"
    and rest: "validate_params ops p = Ok ()" "compiled_params c = p" "length (compiled_slots c) = 8"
    using assms by (auto simp: compiled_new_def Let_def result_simps)
  have comp: "compile_slot ops sha256 s (compiled_cmr c) key = Ok (compiled_slot c s)"
    using slots slot_all_index [of s]
    by (auto simp: rmap_eq_Ok compiled_slot_def list_all2_conv_all_nth)
  with key rest show ?thesis using compile_slot_fields [OF comp] by blast
qed

theorem compiled_market_slots_witness:
  "\<exists>c. compiled_new
      \<lparr>template_instantiate = \<lambda>_. Some (), template_analyzed = True, program_cmr = \<lambda>_. [7],
       xonly_from_slice = Some, taproot_spend_info = \<lambda>leaf word key. Some (Some word, leaf @ word)\<rparr>
      \<lparr>abf_from_slice = Some, vbf_from_slice = Some, asset_commitment = \<lambda>a f. 10 # f,
       value_commitment = \<lambda>_ _ _. [8, 1]\<rparr>
      (\<lambda>bs. take 32 bs)
      \<lparr>oracle_public_key = [9], collateral_asset_id = [1], yes_token_asset_id = [2],
       no_token_asset_id = [3], yes_reissuance_token_id = [4], no_reissuance_token_id = [5],
       base_payout = 1000, expiry_height = 250000\<rparr> = Ok c \<and>
    compiled_slot_slot (compiled_slot c SlotExpiredCollateral) = SlotExpiredCollateral"
proof -
  let ?ops = "\<lparr>template_instantiate = \<lambda>_. Some (), template_analyzed = True, program_cmr = \<lambda>_. [7],
       xonly_from_slice = Some, taproot_spend_info = \<lambda>leaf word key. Some (Some word, leaf @ word)\<rparr>"
  let ?secp = "\<lparr>abf_from_slice = Some, vbf_from_slice = Some, asset_commitment = \<lambda>a f. 10 # f,
       value_commitment = \<lambda>_ _ _. [8, 1]\<rparr>"
  let ?p = "\<lparr>oracle_public_key = [9], collateral_asset_id = [1], yes_token_asset_id = [2],
       no_token_asset_id = [3], yes_reissuance_token_id = [4], no_reissuance_token_id = [5],
       base_payout = 1000, expiry_height = 250000\<rparr>"
  have "validate_params ?ops ?p = Ok ()"
    by (simp add: validate_params_Ok BASE_PAYOUTS_def)
  then have "\<exists>c. compiled_new ?ops ?secp (\<lambda>bs. take 32 bs) ?p = Ok c"
    by (simp add: compiled_new_def contract_arguments_def rt_commitment_arguments_def
        commitments_def compress_asset_def compress_value_def compile_slot_def slot_all_def Let_def)
  then obtain c where c: "compiled_new ?ops ?secp (\<lambda>bs. take 32 bs) ?p = Ok c" ..
  from compiled_market_slots [OF c, of SlotExpiredCollateral] c show ?thesis by blast
qed

end
