(* ===== verification/Simplicity_Witness.thy ===== *)
theory Simplicity_Witness
  imports Market_Compiled
begin

unbundle bit_operations_syntax

text \<open>
  Finalized Simplicity spends and the decoding of the market witness:
  \<open>crates/deadcat-contracts/src/finalized_spend.rs\<close>, the witness decoding of
  \<open>interpret.rs\<close>, and the value decoders of \<open>interpret/binary_market.rs\<close>.  The
  Simplicity library (program decoding, Merkle roots, budget padding, values) is an
  argument of type \<open>simplicity_ops\<close>.
\<close>

section \<open>The Simplicity library\<close>

text \<open>Simplicity types: unit, sums and products; a word type is a balanced product of bits.\<close>

datatype SimTy = TyUnit | TySum SimTy SimTy | TyProd SimTy SimTy

fun ty_word :: "nat \<Rightarrow> SimTy" where
  "ty_word 0 = TySum TyUnit TyUnit"
| "ty_word (Suc n) = TyProd (ty_word n) (ty_word n)"

record ('n, 'v) simplicity_ops =
  redeem_decode :: "bytes \<Rightarrow> bytes \<Rightarrow> 'n option"
  node_cmr :: "'n \<Rightarrow> bytes"
  node_witness_values :: "'n \<Rightarrow> 'v list"
  control_block_from_slice :: "bytes \<Rightarrow> bytes option"
  cost_padding :: "'n \<Rightarrow> bytes list \<Rightarrow> bytes option"
  budget_valid :: "'n \<Rightarrow> bytes list \<Rightarrow> bool"
  serialized_len :: "bytes list \<Rightarrow> nat"
  value_ty :: "'v \<Rightarrow> SimTy"
  as_left :: "'v \<Rightarrow> 'v option"
  as_right :: "'v \<Rightarrow> 'v option"
  as_product :: "'v \<Rightarrow> ('v \<times> 'v) option"
  to_word :: "'v \<Rightarrow> bool list option"


section \<open>Finalized spends\<close>

definition CORE_STACK_ITEMS :: nat where
  "CORE_STACK_ITEMS = 4"

definition TAPROOT_ANNEX_TAG :: u8 where
  "TAPROOT_ANNEX_TAG = 0x50"

datatype FinalizedSimplicitySpendError =
    CoreStackShape nat
  | WitnessStackShape nat
  | InvalidAnnex
  | CmrLength nat
  | DecodeFailed
  | SpendCmrMismatch
  | InvalidControlBlock
  | NonCanonicalAnnex "nat option" "nat option"
  | InsufficientBudget

record FinalizedSimplicitySpendSizes =
  witness_bytes :: nat
  program_bytes :: nat
  control_block_bytes :: nat
  annex_bytes :: nat
  core_stack_bytes :: nat
  stack_bytes :: nat

text \<open>The resource bounds are a function of the node and are not stored a second time.\<close>

record 'n FinalizedSimplicitySpend =
  witness_stack :: "bytes list"
  redeem_node :: 'n
  spend_cmr :: bytes
  control_block :: bytes
  encoded_sizes :: FinalizedSimplicitySpendSizes

definition validate_witness_shape ::
    "bytes list \<Rightarrow> (FinalizedSimplicitySpendError, unit) result" where
  "validate_witness_shape stack =
     (if length stack = CORE_STACK_ITEMS then Ok ()
      else if length stack = CORE_STACK_ITEMS + 1 then
        (if list_get (stack ! CORE_STACK_ITEMS) 0 = Some TAPROOT_ANNEX_TAG then Ok ()
         else Err InvalidAnnex)
      else Err (WitnessStackShape (length stack)))"

definition decode_core_stack ::
    "('n, 'v) simplicity_ops \<Rightarrow> bytes list \<Rightarrow>
     (FinalizedSimplicitySpendError, 'n \<times> bytes \<times> bytes) result" where
  "decode_core_stack simp core =
     (if length core \<noteq> CORE_STACK_ITEMS then Err (CoreStackShape (length core))
      else if length (core ! 2) \<noteq> 32 then Err (CmrLength (length (core ! 2)))
      else
        rbind (ok_or (control_block_from_slice simp (core ! 3)) InvalidControlBlock) (\<lambda>cb.
        rbind (ok_or (redeem_decode simp (core ! 1) (core ! 0)) DecodeFailed) (\<lambda>node.
        if node_cmr simp node \<noteq> core ! 2 then Err SpendCmrMismatch
        else Ok (node, core ! 2, cb))))"

definition spend_from_decoded ::
    "('n, 'v) simplicity_ops \<Rightarrow> bytes list \<Rightarrow> 'n \<Rightarrow> bytes \<Rightarrow> bytes \<Rightarrow>
     (FinalizedSimplicitySpendError, 'n FinalizedSimplicitySpend) result" where
  "spend_from_decoded simp stack node cmr cb =
     rbind (validate_witness_shape stack) (\<lambda>_.
     let core = take CORE_STACK_ITEMS stack;
         expected = cost_padding simp node core;
         actual = list_get stack CORE_STACK_ITEMS
     in if expected \<noteq> actual
        then Err (NonCanonicalAnnex (map_option length expected) (map_option length actual))
        else if \<not> budget_valid simp node stack then Err InsufficientBudget
        else Ok \<lparr>witness_stack = stack, redeem_node = node, spend_cmr = cmr, control_block = cb,
          encoded_sizes =
            \<lparr>witness_bytes = length (stack ! 0), program_bytes = length (stack ! 1),
             control_block_bytes = length (stack ! 3),
             annex_bytes = (case actual of None \<Rightarrow> 0 | Some a \<Rightarrow> length a),
             core_stack_bytes = serialized_len simp core, stack_bytes = serialized_len simp stack\<rparr>\<rparr>)"

definition spend_from_core_stack ::
    "('n, 'v) simplicity_ops \<Rightarrow> bytes list \<Rightarrow>
     (FinalizedSimplicitySpendError, 'n FinalizedSimplicitySpend) result" where
  "spend_from_core_stack simp core =
     rbind (decode_core_stack simp core) (\<lambda>(node, cmr, cb).
     let stack = (case cost_padding simp node core of None \<Rightarrow> core | Some annex \<Rightarrow> core @ [annex])
     in spend_from_decoded simp stack node cmr cb)"

definition spend_from_witness_stack ::
    "('n, 'v) simplicity_ops \<Rightarrow> bytes list \<Rightarrow>
     (FinalizedSimplicitySpendError, 'n FinalizedSimplicitySpend) result" where
  "spend_from_witness_stack simp stack =
     rbind (validate_witness_shape stack) (\<lambda>_.
     rbind (decode_core_stack simp (take CORE_STACK_ITEMS stack)) (\<lambda>(node, cmr, cb).
     spend_from_decoded simp stack node cmr cb))"


section \<open>Decoding the market witness\<close>

text \<open>
  \<open>InterpretError\<close> of \<open>interpret.rs\<close>.  \<open>IndexPanic\<close> stands for an out-of-bounds slice access, which
  in the source is a panic and not a value of the enum.
\<close>

datatype InterpretError =
    NotCovenantSpend
  | InvalidTrackedOutput string
  | UnexpectedKeySpend
  | FinalizedSpend FinalizedSimplicitySpendError
  | CmrMismatch
  | MissingWitness string
  | Inconsistent string
  | BinaryEconomics BinaryMarketError
  | BinaryLayout BinaryMarketLayoutError
  | BinaryCompilation CompiledBinaryMarketError
  | IndexOverflow
  | IndexPanic

record ('n, 'v) DecodedSimplicityWitness =
  finalized_spend :: "'n FinalizedSimplicitySpend"
  decoded_values :: "'v list"

definition decode_simplicity_witness ::
    "('n, 'v) simplicity_ops \<Rightarrow> bytes list \<Rightarrow>
     (InterpretError, ('n, 'v) DecodedSimplicityWitness) result" where
  "decode_simplicity_witness simp stack =
     rbind (map_err FinalizedSpend (spend_from_witness_stack simp stack)) (\<lambda>spend.
     Ok \<lparr>finalized_spend = spend,
         decoded_values = node_witness_values simp (redeem_node spend)\<rparr>)"

definition resolve_action_payload_type :: SimTy where
  "resolve_action_payload_type = TyProd (ty_word 5) (TyProd (ty_word 0) (ty_word 9))"

definition market_action_types :: "SimTy list" where
  "market_action_types =
     [TySum (TySum (ty_word 5) TyUnit) TyUnit,
      TySum (TySum TyUnit (ty_word 5)) TyUnit,
      TySum TyUnit (TySum resolve_action_payload_type TyUnit),
      TySum TyUnit (TySum TyUnit (TySum (ty_word 5) TyUnit)),
      TySum TyUnit (TySum TyUnit (TySum TyUnit (ty_word 5)))]"

text \<open>Bits are written most significant first into a zeroed byte array.\<close>

definition bits_to_bytes :: "nat \<Rightarrow> bool list \<Rightarrow> bytes" where
  "bits_to_bytes n bits =
     fold (\<lambda>(index, bit) out.
         if bit then out[index div 8 := out ! (index div 8) OR push_bit (7 - index mod 8) 1] else out)
       (enumerate 0 bits) (replicate n 0)"

definition word_bytes :: "('n, 'v) simplicity_ops \<Rightarrow> nat \<Rightarrow> 'v \<Rightarrow> bytes option" where
  "word_bytes simp n v =
     (case to_word simp v of
        None \<Rightarrow> None
      | Some bits \<Rightarrow> if length bits \<noteq> n * 8 then None else Some (bits_to_bytes n bits))"

definition decode_u8 :: "('n, 'v) simplicity_ops \<Rightarrow> 'v \<Rightarrow> (InterpretError, u8) result" where
  "decode_u8 simp v =
     (case word_bytes simp 1 v of
        Some bs \<Rightarrow> Ok (of_nat (be_nat bs))
      | None \<Rightarrow> Err (Inconsistent ''malformed u8 witness value''))"

definition decode_u32 :: "('n, 'v) simplicity_ops \<Rightarrow> 'v \<Rightarrow> (InterpretError, u32) result" where
  "decode_u32 simp v =
     (case word_bytes simp 4 v of
        Some bs \<Rightarrow> Ok (u32_from_be bs)
      | None \<Rightarrow> Err (Inconsistent ''malformed u32 witness value''))"

definition decode_bool :: "('n, 'v) simplicity_ops \<Rightarrow> 'v \<Rightarrow> (InterpretError, bool) result" where
  "decode_bool simp v =
     (case to_word simp v of
        Some [b] \<Rightarrow> Ok b
      | _ \<Rightarrow> Err (Inconsistent ''malformed bool witness value''))"

definition decode_signature :: "('n, 'v) simplicity_ops \<Rightarrow> 'v \<Rightarrow> (InterpretError, bytes) result" where
  "decode_signature simp v =
     ok_or (word_bytes simp 64 v) (Inconsistent ''malformed Signature witness value'')"

definition decode_resolve ::
    "('n, 'v) simplicity_ops \<Rightarrow> 'v \<Rightarrow> (InterpretError, BinaryMarketCoordinatorAction) result" where
  "decode_resolve simp resolve =
     rbind (ok_or (as_product simp resolve)
         (Inconsistent ''malformed Resolve ACTION payload'')) (\<lambda>(base, rest).
     rbind (ok_or (as_product simp rest)
         (Inconsistent ''malformed Resolve ACTION payload'')) (\<lambda>(yes, signature).
     rbind (decode_bool simp yes) (\<lambda>is_yes.
     rbind (decode_u32 simp base) (\<lambda>output.
     rbind (decode_signature simp signature) (\<lambda>sig.
     Ok (CoordResolve output
       \<lparr>resolution_outcome = (if is_yes then OutcomeYes else OutcomeNo),
        resolution_signature = sig\<rparr>))))))"

definition decode_market_action ::
    "('n, 'v) simplicity_ops \<Rightarrow> 'v \<Rightarrow> (InterpretError, BinaryMarketCoordinatorAction) result" where
  "decode_market_action simp v =
     (let malformed = Inconsistent ''malformed ACTION sum branch'' in
      if value_ty simp v \<notin> set market_action_types
      then Err (Inconsistent ''ACTION has the wrong structural type'')
      else (case as_left simp v of
        Some issue_or_cancel \<Rightarrow>
          (case as_left simp issue_or_cancel of
             Some issue \<Rightarrow> rbind (decode_u32 simp issue) (\<lambda>b. Ok (CoordIssue b))
           | None \<Rightarrow>
               rbind (ok_or (as_right simp issue_or_cancel) malformed) (\<lambda>cancel.
               rbind (decode_u32 simp cancel) (\<lambda>b. Ok (CoordCancel b))))
      | None \<Rightarrow>
          rbind (ok_or (as_right simp v) malformed) (\<lambda>resolve_or_terminal.
          case as_left simp resolve_or_terminal of
            Some resolve \<Rightarrow> decode_resolve simp resolve
          | None \<Rightarrow>
              rbind (ok_or (as_right simp resolve_or_terminal) malformed) (\<lambda>expire_or_redeem.
              case as_left simp expire_or_redeem of
                Some expire \<Rightarrow> rbind (decode_u32 simp expire) (\<lambda>b. Ok (CoordExpire b))
              | None \<Rightarrow>
                  rbind (ok_or (as_right simp expire_or_redeem) malformed) (\<lambda>redeem.
                  rbind (decode_u32 simp redeem) (\<lambda>b. Ok (CoordRedeem b)))))))"

text \<open>One iteration of the loop over the decoded witness values.\<close>

definition decode_witness_step ::
    "('n, 'v) simplicity_ops \<Rightarrow> 'v \<Rightarrow> u8 option \<times> BinaryMarketCoordinatorAction option \<Rightarrow>
     (InterpretError, u8 option \<times> BinaryMarketCoordinatorAction option) result" where
  "decode_witness_step simp v st =
     (if value_ty simp v = ty_word 3 then
        rbind (decode_u8 simp v) (\<lambda>slot.
        if fst st \<noteq> None then Err (Inconsistent ''duplicate SLOT witness'')
        else Ok (Some slot, snd st))
      else if value_ty simp v \<in> set market_action_types then
        rbind (decode_market_action simp v) (\<lambda>action.
        if snd st \<noteq> None then Err (Inconsistent ''duplicate ACTION witness'')
        else Ok (fst st, Some action))
      else Err (Inconsistent ''unexpected binary-market witness value type''))"

definition decode_market_witness_values ::
    "('n, 'v) simplicity_ops \<Rightarrow> 'v list \<Rightarrow> BinaryMarketSlot \<Rightarrow>
     (InterpretError, BinaryMarketCoordinatorAction) result" where
  "decode_market_witness_values simp vs expected_slot =
     rbind (rfold (decode_witness_step simp) vs (None, None)) (\<lambda>(slot, action).
     rbind (ok_or slot (MissingWitness ''SLOT'')) (\<lambda>s.
     if s \<noteq> slot_tag expected_slot
     then Err (Inconsistent ''SLOT does not match authenticated market slot'')
     else ok_or action (MissingWitness ''ACTION'')))"


section \<open>Canonical finalized spends\<close>

lemma take_core: "length core = CORE_STACK_ITEMS \<Longrightarrow> take CORE_STACK_ITEMS (core @ xs) = core"
  by simp

text \<open>C12.  A spend built from its four core items parses back from its own witness stack, and a
  stack parses only if it is what the builder produces for its first four items: the annex
  is present exactly when padding is required and is exactly that padding.\<close>

theorem finalized_spend_canonical:
  "spend_from_witness_stack simp stack = Ok spend \<longleftrightarrow>
     (\<exists>core. length core = CORE_STACK_ITEMS \<and> spend_from_core_stack simp core = Ok spend \<and>
        witness_stack spend = stack)"
proof
  assume "spend_from_witness_stack simp stack = Ok spend"
  then obtain node cmr cb where dec: "decode_core_stack simp (take CORE_STACK_ITEMS stack) = Ok (node, cmr, cb)"
    and fin: "spend_from_decoded simp stack node cmr cb = Ok spend"
    and shape: "validate_witness_shape stack = Ok ()"
    by (auto simp: spend_from_witness_stack_def result_simps)
  let ?core = "take CORE_STACK_ITEMS stack"
  have len: "length ?core = CORE_STACK_ITEMS"
    using shape by (auto simp: validate_witness_shape_def split: if_splits)
  have pad: "cost_padding simp node ?core = list_get stack CORE_STACK_ITEMS"
    and ws: "witness_stack spend = stack"
    using fin by (auto simp: spend_from_decoded_def Let_def result_simps split: if_splits)
  have "(case list_get stack CORE_STACK_ITEMS of None \<Rightarrow> ?core | Some annex \<Rightarrow> ?core @ [annex]) = stack"
    using shape
    by (auto simp: validate_witness_shape_def list_get_def take_Suc_conv_app_nth [symmetric]
        split: if_splits)
  then have "spend_from_core_stack simp ?core = Ok spend"
    using dec fin pad by (simp add: spend_from_core_stack_def)
  with len ws show "\<exists>core. length core = CORE_STACK_ITEMS \<and>
      spend_from_core_stack simp core = Ok spend \<and> witness_stack spend = stack" by blast
next
  assume "\<exists>core. length core = CORE_STACK_ITEMS \<and> spend_from_core_stack simp core = Ok spend \<and>
    witness_stack spend = stack"
  then obtain core where len: "length core = CORE_STACK_ITEMS"
    and fin: "spend_from_core_stack simp core = Ok spend" and ws: "witness_stack spend = stack" by blast
  from fin obtain node cmr cb where dec: "decode_core_stack simp core = Ok (node, cmr, cb)"
    and fin': "spend_from_decoded simp (case cost_padding simp node core of None \<Rightarrow> core
      | Some annex \<Rightarrow> core @ [annex]) node cmr cb = Ok spend"
    by (auto simp: spend_from_core_stack_def result_simps)
  then have stack: "stack = (case cost_padding simp node core of None \<Rightarrow> core
      | Some annex \<Rightarrow> core @ [annex])"
    using ws by (auto simp: spend_from_decoded_def Let_def result_simps split: if_splits)
  then have "take CORE_STACK_ITEMS stack = core" using len by (auto split: option.splits)
  moreover have "validate_witness_shape stack = Ok ()"
    using fin' stack by (auto simp: spend_from_decoded_def result_simps)
  ultimately show "spend_from_witness_stack simp stack = Ok spend"
    using dec fin' stack by (simp add: spend_from_witness_stack_def)
qed

end
