(* ===== verification/Market_Interpreter.thy ===== *)
theory Market_Interpreter
  imports Simplicity_Witness
begin

text \<open>
  The confirmed-spend interpreter, \<open>crates/deadcat-contracts/src/interpret.rs\<close> and
  \<open>interpret/binary_market.rs\<close>: given the materialized state, the live covenant outputs and
  a transaction, it reconstructs the market action from the transaction alone, applies the
  economics, and checks every covenant output against the new state.
\<close>

record TrackedContractOutput =
  outpoint :: OutPoint
  txout :: TxOut

record BinaryMarketLiveOutputs =
  yes_rt :: "TrackedContractOutput option"
  no_rt :: "TrackedContractOutput option"
  collateral :: "TrackedContractOutput option"

record BinaryMarketContinuation =
  cont_slot :: BinaryMarketSlot
  cont_output :: TrackedContractOutput

record BinaryMarketInterpretation =
  interp_path :: BinaryMarketPath
  interp_action :: BinaryMarketAction
  interp_before :: BinaryMarketState
  interp_after :: BinaryMarketState
  interp_transition :: BinaryMarketTransition
  interp_input_base :: u32
  interp_output_base :: u32
  spent_outpoints :: "OutPoint list"
  continuations :: "BinaryMarketContinuation list"

record BinaryMarketRtSides =
  side_yes :: "RtSide option"
  side_no :: "RtSide option"

text \<open>The libraries the interpreter calls, and the Schnorr verification of the oracle.\<close>

record ('n, 'v) interpreter_env =
  env_secp :: secp_ops
  env_elements :: elements_ops
  env_simplicity :: "('n, 'v) simplicity_ops"
  env_sha256 :: "bytes \<Rightarrow> bytes"
  env_xonly_from_slice :: "bytes \<Rightarrow> bytes option"
  env_signature_from_slice :: "bytes \<Rightarrow> bytes option"
  env_verify_schnorr :: "bytes \<Rightarrow> bytes \<Rightarrow> bytes \<Rightarrow> bool"


section \<open>Transaction access\<close>

definition locate_input :: "Transaction \<Rightarrow> OutPoint \<Rightarrow> (InterpretError, nat) result" where
  "locate_input tx p =
     (case map fst (filter (\<lambda>(i, inp). previous_output inp = p) (enumerate 0 (tx_input tx))) of
        [] \<Rightarrow> Err NotCovenantSpend
      | [index] \<Rightarrow> Ok index
      | _ \<Rightarrow> Err (Inconsistent ''tracked outpoint appears more than once''))"

definition output_at :: "Transaction \<Rightarrow> u32 \<Rightarrow> (InterpretError, TxOut) result" where
  "output_at tx index =
     ok_or (list_get (tx_output tx) (unat index)) (Inconsistent ''output index out of bounds'')"

text \<open>\<open>transaction.input[index]\<close>: an index outside the vector panics.\<close>

definition input_index :: "Transaction \<Rightarrow> nat \<Rightarrow> (InterpretError, TxIn) result" where
  "input_index tx i = ok_or (list_get (tx_input tx) i) IndexPanic"

definition add_index :: "u32 \<Rightarrow> u32 \<Rightarrow> (InterpretError, u32) result" where
  "add_index index offset = ok_or (checked_add index offset) IndexOverflow"

definition explicit_asset_value :: "TxOut \<Rightarrow> (asset_id \<times> u64) option" where
  "explicit_asset_value o' =
     (case (out_asset o', out_value o') of
        (AssetExplicit a, ValueExplicit v) \<Rightarrow> Some (a, v)
      | _ \<Rightarrow> None)"

definition check_input :: "Transaction \<Rightarrow> u32 \<Rightarrow> OutPoint \<Rightarrow> (InterpretError, unit) result" where
  "check_input tx index expected =
     (if map_option previous_output (list_get (tx_input tx) (unat index)) \<noteq> Some expected
      then Err (Inconsistent ''input window'') else Ok ())"


section \<open>Live outputs\<close>

definition check_live_slot ::
    "CompiledBinaryMarket \<Rightarrow> TrackedContractOutput option \<Rightarrow> BinaryMarketSlot \<Rightarrow>
     (InterpretError, unit) result" where
  "check_live_slot compiled output slot =
     rbind (ok_or output (InvalidTrackedOutput ''missing slot output'')) (\<lambda>o'.
     if script_pubkey (txout o') \<noteq> compiled_slot_script (compiled_slot compiled slot)
     then Err (InvalidTrackedOutput ''slot script mismatch'') else Ok ())"

definition check_explicit_live ::
    "TrackedContractOutput option \<Rightarrow> asset_id \<Rightarrow> u64 \<Rightarrow> (InterpretError, unit) result" where
  "check_explicit_live output asset amount =
     rbind (ok_or output (InvalidTrackedOutput ''missing explicit output'')) (\<lambda>o'.
     if explicit_asset_value (txout o') \<noteq> Some (asset, amount)
     then Err (InvalidTrackedOutput ''explicit asset/value mismatch'') else Ok ())"

definition check_confidential_rt ::
    "TrackedContractOutput option \<Rightarrow> (InterpretError, unit) result" where
  "check_confidential_rt output =
     rbind (ok_or output (InvalidTrackedOutput ''missing RT output'')) (\<lambda>o'.
     case (out_asset (txout o'), out_value (txout o')) of
       (AssetConfidential _, ValueConfidential _) \<Rightarrow> Ok ()
     | _ \<Rightarrow> Err (InvalidTrackedOutput ''RT output is not confidential''))"

definition validate_live_terminal ::
    "CompiledBinaryMarket \<Rightarrow> BinaryMarketParams \<Rightarrow> BinaryMarketLiveOutputs \<Rightarrow> string \<Rightarrow>
     BinaryMarketSlot \<Rightarrow> u64 \<Rightarrow> (InterpretError, unit) result" where
  "validate_live_terminal compiled params live reason slot amount =
     (if yes_rt live \<noteq> None \<or> no_rt live \<noteq> None then Err (InvalidTrackedOutput reason)
      else rbind (check_live_slot compiled (collateral live) slot) (\<lambda>_.
        check_explicit_live (collateral live) (collateral_asset_id params) amount))"

definition validate_live_outputs ::
    "CompiledBinaryMarket \<Rightarrow> BinaryMarketParams \<Rightarrow> BinaryMarketState \<Rightarrow> BinaryMarketLiveOutputs \<Rightarrow>
     (InterpretError, unit) result" where
  "validate_live_outputs compiled params st live =
     rbind (map_err BinaryEconomics (economics_new (base_payout params))) (\<lambda>economics.
     rbind (map_err BinaryEconomics (validate_state economics st)) (\<lambda>_.
     case st of
       Trading pairs \<Rightarrow>
         if pairs = 0 then
           rbind (check_live_slot compiled (yes_rt live) SlotDormantYesRt) (\<lambda>_.
           rbind (check_live_slot compiled (no_rt live) SlotDormantNoRt) (\<lambda>_.
           rbind (check_confidential_rt (yes_rt live)) (\<lambda>_.
           rbind (check_confidential_rt (no_rt live)) (\<lambda>_.
           if collateral live \<noteq> None
           then Err (InvalidTrackedOutput ''dormant market has collateral'') else Ok ()))))
         else
           rbind (check_live_slot compiled (yes_rt live) SlotUnresolvedYesRt) (\<lambda>_.
           rbind (check_live_slot compiled (no_rt live) SlotUnresolvedNoRt) (\<lambda>_.
           rbind (check_confidential_rt (yes_rt live)) (\<lambda>_.
           rbind (check_confidential_rt (no_rt live)) (\<lambda>_.
           rbind (check_live_slot compiled (collateral live) SlotUnresolvedCollateral) (\<lambda>_.
           rbind (map_err BinaryEconomics (collateral_for_pairs economics pairs)) (\<lambda>expected.
           check_explicit_live (collateral live) (collateral_asset_id params) expected))))))
     | ResolvedYes c \<Rightarrow> validate_live_terminal compiled params live
         ''resolved market still tracks RTs'' SlotResolvedYesCollateral c
     | ResolvedNo c \<Rightarrow> validate_live_terminal compiled params live
         ''resolved market still tracks RTs'' SlotResolvedNoCollateral c
     | Expired c \<Rightarrow> validate_live_terminal compiled params live
         ''expired market still tracks RTs'' SlotExpiredCollateral c))"

definition infer_live_rt_sides ::
    "secp_ops \<Rightarrow> BinaryMarketParams \<Rightarrow> BinaryMarketState \<Rightarrow> BinaryMarketLiveOutputs \<Rightarrow>
     (InterpretError, BinaryMarketRtSides) result" where
  "infer_live_rt_sides secp params st live =
     (case st of
        Trading _ \<Rightarrow>
          rbind (ok_or (yes_rt live) (InvalidTrackedOutput ''missing YES RT'')) (\<lambda>yes.
          rbind (ok_or (no_rt live) (InvalidTrackedOutput ''missing NO RT'')) (\<lambda>no.
          rbind (map_err
              (\<lambda>_. InvalidTrackedOutput ''YES RT commitment is not a recognized A/B side'')
              (infer_side secp YesLeg (yes_reissuance_token_id params)
                (out_asset (txout yes)) (out_value (txout yes)))) (\<lambda>yes_side.
          rbind (map_err
              (\<lambda>_. InvalidTrackedOutput ''NO RT commitment is not a recognized A/B side'')
              (infer_side secp NoLeg (no_reissuance_token_id params)
                (out_asset (txout no)) (out_value (txout no)))) (\<lambda>no_side.
          if yes_side \<noteq> no_side then Err (InvalidTrackedOutput ''YES and NO RT sides disagree'')
          else Ok \<lparr>side_yes = Some yes_side, side_no = Some no_side\<rparr>))))
      | _ \<Rightarrow> Ok \<lparr>side_yes = None, side_no = None\<rparr>)"

definition opposite_side_factors ::
    "RtLeg \<Rightarrow> TrackedContractOutput option \<Rightarrow> RtSide option \<Rightarrow>
     (InterpretError, RtFactors option) result" where
  "opposite_side_factors leg live side =
     (case (live, side) of
        (Some _, Some s) \<Rightarrow> Ok (Some (rt_factors leg (side_flip s)))
      | (None, None) \<Rightarrow> Ok None
      | _ \<Rightarrow> Err (InvalidTrackedOutput ''RT output and inferred side disagree''))"


section \<open>Burns, issuance and lock time\<close>

definition token_burn_amount :: "Transaction \<Rightarrow> u32 \<Rightarrow> asset_id \<Rightarrow> (InterpretError, u64) result" where
  "token_burn_amount tx index asset =
     rbind (output_at tx index) (\<lambda>o'.
     case explicit_asset_value o' of
       None \<Rightarrow> Err (Inconsistent ''token burn not explicit'')
     | Some (actual, amount) \<Rightarrow>
         if actual \<noteq> asset \<or> amount = 0 \<or> script_pubkey o' \<noteq> [0x6a]
         then Err (Inconsistent ''token burn'') else Ok amount)"

definition check_token_burn ::
    "Transaction \<Rightarrow> u32 \<Rightarrow> asset_id \<Rightarrow> u64 \<Rightarrow> (InterpretError, unit) result" where
  "check_token_burn tx index asset amount =
     rbind (token_burn_amount tx index asset) (\<lambda>burned.
     if burned \<noteq> amount then Err (Inconsistent ''token burn amount'') else Ok ())"

definition cancellation_is_full ::
    "BinaryMarketParams \<Rightarrow> Transaction \<Rightarrow> u32 \<Rightarrow> (InterpretError, bool) result" where
  "cancellation_is_full params tx base =
     rbind (add_index base 2) (\<lambda>discriminator_index.
     rbind (output_at tx discriminator_index) (\<lambda>discriminator.
     case explicit_asset_value discriminator of
       None \<Rightarrow> Err (Inconsistent ''cancellation discriminator output not explicit'')
     | Some (asset, _) \<Rightarrow>
         if asset = collateral_asset_id params then Ok False
         else rbind (token_burn_amount tx discriminator_index (yes_token_asset_id params)) (\<lambda>_. Ok True)))"

definition redemption_details ::
    "BinaryMarketParams \<Rightarrow> BinaryMarketState \<Rightarrow> Transaction \<Rightarrow> u32 \<Rightarrow>
     (InterpretError, bool \<times> u64) result" where
  "redemption_details params before tx base =
     rbind (output_at tx base) (\<lambda>first_output.
     case explicit_asset_value first_output of
       None \<Rightarrow> Err (Inconsistent ''redemption discriminator output not explicit'')
     | Some (first_asset, _) \<Rightarrow>
         rbind (if first_asset = collateral_asset_id params then add_index base 1 else Ok base)
           (\<lambda>burn_index.
         rbind (case before of
             ResolvedYes _ \<Rightarrow> Ok True
           | ResolvedNo _ \<Rightarrow> Ok False
           | Expired _ \<Rightarrow>
               rbind (output_at tx burn_index) (\<lambda>burn.
               case explicit_asset_value burn of
                 None \<Rightarrow> Err (Inconsistent ''redemption burn not explicit'')
               | Some (asset, _) \<Rightarrow>
                   if asset = yes_token_asset_id params then Ok True
                   else if asset = no_token_asset_id params then Ok False
                   else Err (Inconsistent ''redemption burn has unknown token asset''))
           | Trading _ \<Rightarrow> Err (Inconsistent ''redemption phase'')) (\<lambda>outcome_yes.
         let burn_asset = (if outcome_yes then yes_token_asset_id params else no_token_asset_id params)
         in rbind (token_burn_amount tx burn_index burn_asset) (\<lambda>tokens.
            Ok (outcome_yes, tokens)))))"

definition verify_oracle_signature ::
    "('n, 'v) interpreter_env \<Rightarrow> BinaryMarketParams \<Rightarrow> bool \<Rightarrow> bytes \<Rightarrow> bool" where
  "verify_oracle_signature env params outcome_yes sig_bytes =
     (case env_xonly_from_slice env (oracle_public_key params) of
        None \<Rightarrow> False
      | Some key \<Rightarrow>
          (case env_signature_from_slice env sig_bytes of
             None \<Rightarrow> False
           | Some signature \<Rightarrow>
               env_verify_schnorr env signature
                 (oracle_message (env_sha256 env) (yes_token_asset_id params)
                   (no_token_asset_id params) (if outcome_yes then OutcomeYes else OutcomeNo)) key))"

definition issuance_amount ::
    "elements_ops \<Rightarrow> Transaction \<Rightarrow> u32 \<Rightarrow> asset_id \<Rightarrow> asset_id \<Rightarrow> bytes \<Rightarrow>
     (InterpretError, u64) result" where
  "issuance_amount el tx index expected_asset expected_rt nonce_abf =
     rbind (ok_or (list_get (tx_input tx) (unat index)) (Inconsistent ''issuance input index'')) (\<lambda>inp.
     rbind (ok_or (tweak_from_inner el nonce_abf)
         (Inconsistent ''invalid public RT nonce factor'')) (\<lambda>expected_nonce.
     if \<not> has_issuance el inp \<or> issuance_ids el inp \<noteq> (expected_asset, expected_rt)
        \<or> inflation_keys (asset_issuance inp) \<noteq> ValueNull
        \<or> asset_blinding_nonce (asset_issuance inp) \<noteq> expected_nonce
     then Err (Inconsistent ''issuance identity'')
     else (case issuance_value (asset_issuance inp) of
         ValueExplicit amount \<Rightarrow> Ok amount
       | _ \<Rightarrow> Err (Inconsistent ''issuance amount is not explicit''))))"

definition check_expiry_lock :: "elements_ops \<Rightarrow> Transaction \<Rightarrow> u32 \<Rightarrow> (InterpretError, unit) result" where
  "check_expiry_lock el tx expiry =
     (let locktime = lock_time tx;
          has_nonfinal = list_ex (\<lambda>inp. \<not> sequence_is_final el (input_sequence inp)) (tx_input tx)
      in if \<not> is_block_height locktime \<or> to_consensus_u32 locktime < expiry \<or> \<not> has_nonfinal
         then Err (Inconsistent ''expiry locktime'') else Ok ())"


section \<open>The input window\<close>

definition live_for_slot ::
    "BinaryMarketLiveOutputs \<Rightarrow> BinaryMarketSlot \<Rightarrow> TrackedContractOutput option" where
  "live_for_slot live slot = (case slot of
       SlotDormantYesRt \<Rightarrow> yes_rt live | SlotUnresolvedYesRt \<Rightarrow> yes_rt live
     | SlotDormantNoRt \<Rightarrow> no_rt live | SlotUnresolvedNoRt \<Rightarrow> no_rt live
     | _ \<Rightarrow> collateral live)"

definition verify_role_input ::
    "BinaryMarketLiveOutputs \<Rightarrow> Transaction \<Rightarrow> u32 \<Rightarrow> nat \<times> BinaryMarketInputRole \<Rightarrow> OutPoint list \<Rightarrow>
     (InterpretError, OutPoint list) result" where
  "verify_role_input live tx base offset_role spent =
     rbind (ok_or (live_for_slot live (role_slot (snd offset_role)))
         (InvalidTrackedOutput ''missing input role output'')) (\<lambda>tracked.
     rbind (ok_or (try_from_nat (fst offset_role)) IndexOverflow) (\<lambda>offset.
     rbind (add_index base offset) (\<lambda>index.
     rbind (check_input tx index (outpoint tracked)) (\<lambda>_.
     Ok (spent @ [outpoint tracked])))))"

definition no_issuance_at ::
    "elements_ops \<Rightarrow> Transaction \<Rightarrow> u32 \<Rightarrow> string \<Rightarrow> (InterpretError, unit) result" where
  "no_issuance_at el tx index reason =
     rbind (input_index tx (unat index)) (\<lambda>inp.
     if has_issuance el inp then Err (Inconsistent reason) else Ok ())"

definition verify_dormant_inputs ::
    "elements_ops \<Rightarrow> BinaryMarketPath \<Rightarrow> BinaryMarketState \<Rightarrow> BinaryMarketLiveOutputs \<Rightarrow>
     Transaction \<Rightarrow> u32 \<Rightarrow> (InterpretError, unit) result" where
  "verify_dormant_inputs el path before live tx base =
     (if before \<noteq> Trading 0 then Err (Inconsistent ''dormant input state'')
      else
        rbind (ok_or (yes_rt live) (InvalidTrackedOutput ''missing YES RT'')) (\<lambda>yes.
        rbind (ok_or (no_rt live) (InvalidTrackedOutput ''missing NO RT'')) (\<lambda>no.
        if txid (outpoint yes) \<noteq> txid (outpoint no)
        then Err (Inconsistent ''dormant siblings have different txids'')
        else if path = InitialIssuance then Ok ()
        else
          rbind (no_issuance_at el tx base ''issuance on dormant terminal path'') (\<lambda>_.
          rbind (add_index base 1) (\<lambda>next.
          no_issuance_at el tx next ''issuance on dormant terminal path'')))))"

definition siblings_consecutive ::
    "OutPoint \<Rightarrow> OutPoint \<Rightarrow> OutPoint \<Rightarrow> (InterpretError, unit) result" where
  "siblings_consecutive yes no coll =
     (if txid no \<noteq> txid yes \<or> txid coll \<noteq> txid yes
      then Err (Inconsistent ''unresolved siblings are not consecutive'')
      else
        rbind (ok_or (checked_add (vout yes) 1) (Inconsistent ''sibling vout overflow'')) (\<lambda>v1.
        if vout no \<noteq> v1 then Err (Inconsistent ''unresolved siblings are not consecutive'')
        else
          rbind (ok_or (checked_add (vout yes) 2) (Inconsistent ''sibling vout overflow'')) (\<lambda>v2.
          if vout coll \<noteq> v2 then Err (Inconsistent ''unresolved siblings are not consecutive'')
          else Ok ())))"

definition verify_unresolved_inputs ::
    "elements_ops \<Rightarrow> BinaryMarketPath \<Rightarrow> BinaryMarketState \<Rightarrow> BinaryMarketLiveOutputs \<Rightarrow>
     Transaction \<Rightarrow> u32 \<Rightarrow> (InterpretError, unit) result" where
  "verify_unresolved_inputs el path before live tx base =
     (if \<not> (case before of Trading n \<Rightarrow> n > 0 | _ \<Rightarrow> False)
      then Err (Inconsistent ''active input state'')
      else
        rbind (ok_or (yes_rt live) (InvalidTrackedOutput ''missing YES RT'')) (\<lambda>yes.
        rbind (ok_or (no_rt live) (InvalidTrackedOutput ''missing NO RT'')) (\<lambda>no.
        rbind (ok_or (collateral live) (InvalidTrackedOutput ''missing collateral'')) (\<lambda>coll.
        rbind (siblings_consecutive (outpoint yes) (outpoint no) (outpoint coll)) (\<lambda>_.
        rbind (add_index base 1) (\<lambda>i1.
        rbind (add_index base 2) (\<lambda>i2.
        rbind (if path = SubsequentIssuance then Ok ()
            else rfold (\<lambda>index _. no_issuance_at el tx index ''issuance on non-issuance path'')
              [base, i1, i2] ()) (\<lambda>_.
        if path = SubsequentIssuance
        then no_issuance_at el tx i2 ''collateral input carries issuance''
        else Ok ()))))))))"

definition verify_input_group ::
    "elements_ops \<Rightarrow> BinaryMarketLayout \<Rightarrow> BinaryMarketState \<Rightarrow> BinaryMarketLiveOutputs \<Rightarrow>
     Transaction \<Rightarrow> u32 \<Rightarrow> (InterpretError, OutPoint list) result" where
  "verify_input_group el layout before live tx base =
     rbind (rfold (verify_role_input live tx base) (enumerate 0 (layout_input_roles layout)) [])
       (\<lambda>spent.
     case layout_coordinator layout of
       CoordDormantYesRt \<Rightarrow>
         rbind (verify_dormant_inputs el (layout_path layout) before live tx base) (\<lambda>_. Ok spent)
     | CoordUnresolvedYesRt \<Rightarrow>
         rbind (verify_unresolved_inputs el (layout_path layout) before live tx base) (\<lambda>_. Ok spent)
     | _ \<Rightarrow> rbind (no_issuance_at el tx base ''issuance on redemption'') (\<lambda>_. Ok spent))"


section \<open>Continuations and terminal outputs\<close>

definition continuation ::
    "elements_ops \<Rightarrow> Transaction \<Rightarrow> u32 \<Rightarrow> BinaryMarketSlot \<Rightarrow> TxOut \<Rightarrow> BinaryMarketContinuation" where
  "continuation el tx index slot o' =
     \<lparr>cont_slot = slot,
      cont_output = \<lparr>outpoint = OutPoint (transaction_txid el tx) index, txout = o'\<rparr>\<rparr>"

definition push_rt_continuation ::
    "('n, 'v) interpreter_env \<Rightarrow> CompiledBinaryMarket \<Rightarrow> Transaction \<Rightarrow> u32 \<Rightarrow> BinaryMarketSlot \<Rightarrow>
     asset_id \<Rightarrow> RtFactors \<Rightarrow> BinaryMarketContinuation list \<Rightarrow>
     (InterpretError, BinaryMarketContinuation list) result" where
  "push_rt_continuation env compiled tx index slot asset factors out =
     rbind (output_at tx index) (\<lambda>o'.
     rbind (map_err (\<lambda>_. Inconsistent ''invalid RT continuation factors'')
         (commitments (env_secp env) asset factors)) (\<lambda>expected.
     if script_pubkey o' \<noteq> compiled_slot_script (compiled_slot compiled slot)
        \<or> (out_asset o', out_value o') \<noteq> expected
     then Err (Inconsistent ''RT continuation'')
     else Ok (out @ [continuation (env_elements env) tx index slot o'])))"

definition push_collateral_continuation ::
    "('n, 'v) interpreter_env \<Rightarrow> CompiledBinaryMarket \<Rightarrow> Transaction \<Rightarrow> u32 \<Rightarrow> BinaryMarketSlot \<Rightarrow>
     asset_id \<Rightarrow> u64 \<Rightarrow> BinaryMarketContinuation list \<Rightarrow>
     (InterpretError, BinaryMarketContinuation list) result" where
  "push_collateral_continuation env compiled tx index slot asset amount out =
     rbind (output_at tx index) (\<lambda>o'.
     if script_pubkey o' \<noteq> compiled_slot_script (compiled_slot compiled slot)
        \<or> explicit_asset_value o' \<noteq> Some (asset, amount)
     then Err (Inconsistent ''collateral continuation'')
     else Ok (out @ [continuation (env_elements env) tx index slot o']))"

definition check_rt_burn ::
    "secp_ops \<Rightarrow> Transaction \<Rightarrow> u32 \<Rightarrow> asset_id \<Rightarrow> RtFactors \<Rightarrow> (InterpretError, unit) result" where
  "check_rt_burn secp tx index asset factors =
     rbind (output_at tx index) (\<lambda>o'.
     rbind (map_err (\<lambda>_. Inconsistent ''invalid RT burn factors'')
         (commitments secp asset factors)) (\<lambda>expected.
     if script_pubkey o' \<noteq> [0x6a] \<or> (out_asset o', out_value o') \<noteq> expected
     then Err (Inconsistent ''RT burn'') else Ok ()))"

definition trading_collateral ::
    "BinaryMarketState \<Rightarrow> BinaryMarketParams \<Rightarrow> (InterpretError, u64) result" where
  "trading_collateral st params = (case st of
       Trading pairs \<Rightarrow>
         rbind (map_err BinaryEconomics (economics_new (base_payout params))) (\<lambda>e.
         map_err BinaryEconomics (collateral_for_pairs e pairs))
     | _ \<Rightarrow> Err (Inconsistent ''expected trading state''))"

definition terminal_collateral :: "BinaryMarketState \<Rightarrow> (BinaryMarketSlot \<times> u64) option" where
  "terminal_collateral st = (case st of
       ResolvedYes c \<Rightarrow> Some (SlotResolvedYesCollateral, c)
     | ResolvedNo c \<Rightarrow> Some (SlotResolvedNoCollateral, c)
     | Expired c \<Rightarrow> Some (SlotExpiredCollateral, c)
     | Trading _ \<Rightarrow> None)"

definition terminal_slot_amount ::
    "BinaryMarketState \<Rightarrow> (InterpretError, BinaryMarketSlot \<times> u64) result" where
  "terminal_slot_amount st =
     ok_or (terminal_collateral st) (Inconsistent ''expected terminal collateral'')"

definition action_outcome :: "BinaryMarketTransition \<Rightarrow> (InterpretError, BinaryOutcome) result" where
  "action_outcome t = (case t of
       Redeemed outcome _ _ _ \<Rightarrow> Ok outcome
     | _ \<Rightarrow> Err (Inconsistent ''expected redemption transition''))"

text \<open>The YES then NO reissuance-token continuations shared by issuance and cancellation.\<close>

definition push_rt_pair ::
    "('n, 'v) interpreter_env \<Rightarrow> CompiledBinaryMarket \<Rightarrow> BinaryMarketParams \<Rightarrow> Transaction \<Rightarrow> u32 \<Rightarrow>
     BinaryMarketSlot \<Rightarrow> BinaryMarketSlot \<Rightarrow> RtFactors option \<Rightarrow> RtFactors option \<Rightarrow>
     (InterpretError, BinaryMarketContinuation list) result" where
  "push_rt_pair env compiled params tx base yes_slot no_slot yes_factors no_factors =
     rbind (ok_or yes_factors (InvalidTrackedOutput ''missing inferred YES RT side'')) (\<lambda>yf.
     rbind (push_rt_continuation env compiled tx base yes_slot (yes_reissuance_token_id params) yf [])
       (\<lambda>out.
     rbind (add_index base 1) (\<lambda>i1.
     rbind (ok_or no_factors (InvalidTrackedOutput ''missing inferred NO RT side'')) (\<lambda>nf.
     push_rt_continuation env compiled tx i1 no_slot (no_reissuance_token_id params) nf out))))"

text \<open>The YES then NO reissuance-token burns shared by resolution and expiry.\<close>

definition check_rt_pair_burn ::
    "secp_ops \<Rightarrow> BinaryMarketParams \<Rightarrow> Transaction \<Rightarrow> u32 \<Rightarrow> RtFactors option \<Rightarrow> RtFactors option \<Rightarrow>
     (InterpretError, unit) result" where
  "check_rt_pair_burn secp params tx base yes_factors no_factors =
     rbind (ok_or yes_factors (InvalidTrackedOutput ''missing inferred YES RT side'')) (\<lambda>yf.
     rbind (check_rt_burn secp tx base (yes_reissuance_token_id params) yf) (\<lambda>_.
     rbind (add_index base 1) (\<lambda>i1.
     rbind (ok_or no_factors (InvalidTrackedOutput ''missing inferred NO RT side'')) (\<lambda>nf.
     check_rt_burn secp tx i1 (no_reissuance_token_id params) nf))))"

definition verify_outputs ::
    "('n, 'v) interpreter_env \<Rightarrow> BinaryMarketParams \<Rightarrow> CompiledBinaryMarket \<Rightarrow> Transaction \<Rightarrow>
     BinaryMarketLayout \<Rightarrow> BinaryMarketState \<Rightarrow> BinaryMarketLiveOutputs \<Rightarrow> BinaryMarketRtSides \<Rightarrow>
     AppliedBinaryMarketTransition \<Rightarrow> u32 \<Rightarrow> u64 \<Rightarrow>
     (InterpretError, BinaryMarketContinuation list) result" where
  "verify_outputs env params compiled tx layout before live sides applied base tokens =
     (let secp = env_secp env; asset = collateral_asset_id params in
      rbind (opposite_side_factors YesLeg (yes_rt live) (side_yes sides)) (\<lambda>yes_c.
      rbind (opposite_side_factors NoLeg (no_rt live) (side_no sides)) (\<lambda>no_c.
      let issuance = rbind (push_rt_pair env compiled params tx base
              SlotUnresolvedYesRt SlotUnresolvedNoRt yes_c no_c) (\<lambda>out.
            rbind (trading_collateral (new_state applied) params) (\<lambda>amount.
            rbind (add_index base 2) (\<lambda>i2.
            push_collateral_continuation env compiled tx i2 SlotUnresolvedCollateral asset amount out)))
      in case layout_path layout of
        InitialIssuance \<Rightarrow> issuance
      | SubsequentIssuance \<Rightarrow> issuance
      | PartialCancellation \<Rightarrow>
          rbind (push_rt_pair env compiled params tx base
              SlotUnresolvedYesRt SlotUnresolvedNoRt yes_c no_c) (\<lambda>out.
          rbind (trading_collateral (new_state applied) params) (\<lambda>amount.
          if amount = 0 then Err (Inconsistent ''partial cancellation drained market'')
          else rbind (add_index base 2) (\<lambda>i2.
            push_collateral_continuation env compiled tx i2 SlotUnresolvedCollateral asset amount out)))
      | FullCancellation \<Rightarrow>
          if new_state applied \<noteq> Trading 0
          then Err (Inconsistent ''full cancellation left pairs'')
          else push_rt_pair env compiled params tx base SlotDormantYesRt SlotDormantNoRt yes_c no_c
      | ActiveResolution \<Rightarrow>
          rbind (check_rt_pair_burn secp params tx base yes_c no_c) (\<lambda>_.
          rbind (terminal_slot_amount (new_state applied)) (\<lambda>(slot, amount).
          rbind (add_index base 2) (\<lambda>i2.
          push_collateral_continuation env compiled tx i2 slot asset amount [])))
      | DormantResolution \<Rightarrow>
          rbind (check_rt_pair_burn secp params tx base yes_c no_c) (\<lambda>_.
          if before \<noteq> Trading 0 then Err (Inconsistent ''dormant resolution state'') else Ok [])
      | ActiveExpiry \<Rightarrow>
          rbind (check_rt_pair_burn secp params tx base yes_c no_c) (\<lambda>_.
          rbind (terminal_slot_amount (new_state applied)) (\<lambda>(_, amount).
          rbind (add_index base 2) (\<lambda>i2.
          push_collateral_continuation env compiled tx i2 SlotExpiredCollateral asset amount [])))
      | DormantExpiry \<Rightarrow>
          rbind (check_rt_pair_burn secp params tx base yes_c no_c) (\<lambda>_. Ok [])
      | _ \<Rightarrow>
          if tokens = 0 then Err (Inconsistent ''zero redemption'')
          else rbind (action_outcome (transition applied)) (\<lambda>outcome.
            let burn_asset = (case outcome of
                  OutcomeYes \<Rightarrow> yes_token_asset_id params | OutcomeNo \<Rightarrow> no_token_asset_id params);
                burn_only = rbind (check_token_burn tx base burn_asset tokens) (\<lambda>_. Ok [])
            in case terminal_collateral (new_state applied) of
                Some (slot, remaining) \<Rightarrow>
                  if remaining > 0 then
                    rbind (push_collateral_continuation env compiled tx base slot asset remaining [])
                      (\<lambda>out.
                    rbind (add_index base 1) (\<lambda>i1.
                    rbind (check_token_burn tx i1 burn_asset tokens) (\<lambda>_. Ok out)))
                  else burn_only
              | None \<Rightarrow> burn_only))))"


section \<open>The interpreter\<close>

definition interpret_issuance ::
    "('n, 'v) interpreter_env \<Rightarrow> BinaryMarketParams \<Rightarrow> BinaryMarketRtSides \<Rightarrow> Transaction \<Rightarrow> u32 \<Rightarrow>
     (InterpretError, BinaryMarketAction) result" where
  "interpret_issuance env params sides tx input_base =
     rbind (ok_or (side_yes sides) (InvalidTrackedOutput ''missing inferred YES RT side'')) (\<lambda>yes_side.
     rbind (ok_or (side_no sides) (InvalidTrackedOutput ''missing inferred NO RT side'')) (\<lambda>no_side.
     rbind (issuance_amount (env_elements env) tx input_base (yes_token_asset_id params)
         (yes_reissuance_token_id params) (abf (rt_factors YesLeg yes_side))) (\<lambda>yes.
     rbind (add_index input_base 1) (\<lambda>i1.
     rbind (issuance_amount (env_elements env) tx i1 (no_token_asset_id params)
         (no_reissuance_token_id params) (abf (rt_factors NoLeg no_side))) (\<lambda>no.
     if yes = 0 \<or> yes \<noteq> no then Err (Inconsistent ''unequal or zero issuance'')
     else Ok (Issue yes))))))"

definition interpret_cancellation ::
    "BinaryMarketParams \<Rightarrow> Transaction \<Rightarrow> u32 \<Rightarrow> u32 \<Rightarrow> u32 \<Rightarrow>
     (InterpretError, BinaryMarketAction) result" where
  "interpret_cancellation params tx out_base yes_offset no_offset =
     rbind (add_index out_base yes_offset) (\<lambda>yi.
     rbind (token_burn_amount tx yi (yes_token_asset_id params)) (\<lambda>pairs.
     rbind (add_index out_base no_offset) (\<lambda>ni.
     rbind (check_token_burn tx ni (no_token_asset_id params) pairs) (\<lambda>_.
     Ok (Cancel pairs)))))"

text \<open>The action that \<open>interpret_decoded_action\<close> reconstructs on each protocol path.\<close>

definition interpret_action ::
    "('n, 'v) interpreter_env \<Rightarrow> BinaryMarketParams \<Rightarrow> BinaryMarketState \<Rightarrow> BinaryMarketRtSides \<Rightarrow>
     Transaction \<Rightarrow> BinaryMarketPath \<Rightarrow> u32 \<Rightarrow> u32 \<Rightarrow> bool \<Rightarrow> u64 \<Rightarrow>
     (InterpretError, BinaryMarketAction) result" where
  "interpret_action env params before sides tx path input_base out_base outcome_yes tokens =
     (let outcome = (if outcome_yes then OutcomeYes else OutcomeNo) in case path of
        InitialIssuance \<Rightarrow> interpret_issuance env params sides tx input_base
      | SubsequentIssuance \<Rightarrow> interpret_issuance env params sides tx input_base
      | PartialCancellation \<Rightarrow> interpret_cancellation params tx out_base 3 4
      | FullCancellation \<Rightarrow> interpret_cancellation params tx out_base 2 3
      | ActiveResolution \<Rightarrow> Ok (Resolve outcome)
      | DormantResolution \<Rightarrow> Ok (Resolve outcome)
      | ActiveExpiry \<Rightarrow>
          rbind (check_expiry_lock (env_elements env) tx (expiry_height params)) (\<lambda>_. Ok Expire)
      | DormantExpiry \<Rightarrow>
          rbind (check_expiry_lock (env_elements env) tx (expiry_height params)) (\<lambda>_. Ok Expire)
      | ResolvedRedemption \<Rightarrow> (case before of
            ResolvedYes _ \<Rightarrow> Ok (Redeem OutcomeYes tokens)
          | ResolvedNo _ \<Rightarrow> Ok (Redeem OutcomeNo tokens)
          | _ \<Rightarrow> Err (Inconsistent ''resolved redemption phase''))
      | ExpiryRedemption \<Rightarrow> Ok (Redeem outcome tokens))"

definition interpret_decoded_action ::
    "('n, 'v) interpreter_env \<Rightarrow> BinaryMarketParams \<Rightarrow> BinaryMarketEconomics \<Rightarrow> CompiledBinaryMarket \<Rightarrow>
     BinaryMarketState \<Rightarrow> BinaryMarketLiveOutputs \<Rightarrow> BinaryMarketRtSides \<Rightarrow> Transaction \<Rightarrow>
     BinaryMarketLayout \<Rightarrow> u32 \<Rightarrow> u32 \<Rightarrow> bool \<Rightarrow> u64 \<Rightarrow>
     (InterpretError, BinaryMarketInterpretation) result" where
  "interpret_decoded_action env params economics compiled before live sides tx layout
       input_base out_base outcome_yes tokens =
     rbind (verify_input_group (env_elements env) layout before live tx input_base) (\<lambda>spent.
     rbind (interpret_action env params before sides tx (layout_path layout) input_base out_base
         outcome_yes tokens) (\<lambda>action.
     rbind (map_err BinaryEconomics (economics_apply economics before action)) (\<lambda>applied.
     rbind (verify_outputs env params compiled tx layout before live sides applied out_base tokens)
       (\<lambda>conts.
     Ok \<lparr>interp_path = layout_path layout, interp_action = action, interp_before = before,
         interp_after = new_state applied, interp_transition = transition applied,
         interp_input_base = input_base, interp_output_base = out_base,
         spent_outpoints = spent, continuations = conts\<rparr>))))"

text \<open>A two-item stack whose last item carries the annex tag is a key-path spend with annex.\<close>

definition key_path_items :: "bytes list \<Rightarrow> nat" where
  "key_path_items stack =
     (if length stack = 2 \<and> list_get (last stack) 0 = Some 0x50 then 1 else length stack)"

definition interpret_binary_market_spend_with_compiled ::
    "('n, 'v) interpreter_env \<Rightarrow> CompiledBinaryMarket \<Rightarrow> BinaryMarketState \<Rightarrow>
     BinaryMarketLiveOutputs \<Rightarrow> Transaction \<Rightarrow> (InterpretError, BinaryMarketInterpretation) result" where
  "interpret_binary_market_spend_with_compiled env compiled before live tx =
     (let params = compiled_params compiled in
      rbind (validate_live_outputs compiled params before live) (\<lambda>_.
      rbind (ok_or (case before of Trading _ \<Rightarrow> yes_rt live | _ \<Rightarrow> collateral live)
          (InvalidTrackedOutput ''missing primary live output'')) (\<lambda>head.
      rbind (locate_input tx (outpoint head)) (\<lambda>head_index.
      rbind (ok_or (try_from_nat head_index) IndexOverflow) (\<lambda>input_base.
      rbind (input_index tx head_index) (\<lambda>head_input.
      let stack = script_witness head_input in
      if key_path_items stack = 1 then Err UnexpectedKeySpend
      else rbind (decode_simplicity_witness (env_simplicity env) stack) (\<lambda>decoded.
      if spend_cmr (finalized_spend decoded) \<noteq> compiled_cmr compiled then Err CmrMismatch
      else
        let expected_slot = coordinator_slot (coordinator_for_state before) in
        if control_block (finalized_spend decoded)
             \<noteq> compiled_slot_control_block (compiled_slot compiled expected_slot)
        then Err (Inconsistent ''market control block mismatch'')
        else
          rbind (decode_market_witness_values (env_simplicity env) (decoded_values decoded) expected_slot)
            (\<lambda>operation.
          rbind (infer_live_rt_sides (env_secp env) params before live) (\<lambda>sides.
          rbind (case operation of
              CoordCancel base \<Rightarrow>
                rbind (cancellation_is_full params tx base) (\<lambda>full. Ok (Some full))
            | _ \<Rightarrow> Ok None) (\<lambda>full.
          rbind (map_err BinaryLayout (coordinator_try_from expected_slot)) (\<lambda>coordinator.
          rbind (map_err BinaryLayout (layout_for_operation coordinator
              (coordinator_action_operation operation) full)) (\<lambda>layout.
          rbind (case operation of
              CoordResolve _ resolution \<Rightarrow>
                let yes = (resolution_outcome resolution = OutcomeYes) in
                if \<not> verify_oracle_signature env params yes (resolution_signature resolution)
                then Err (Inconsistent ''invalid oracle signature'') else Ok (yes, 0)
            | CoordRedeem base \<Rightarrow> redemption_details params before tx base
            | _ \<Rightarrow> Ok (False, 0)) (\<lambda>(outcome_yes, tokens).
          rbind (map_err BinaryEconomics (economics_new (base_payout params))) (\<lambda>economics.
          interpret_decoded_action env params economics compiled before live sides tx layout
            input_base (output_base operation) outcome_yes tokens))))))))))))))"

definition interpret_binary_market_spend ::
    "('n, 'v) interpreter_env \<Rightarrow> 'p compile_ops \<Rightarrow> BinaryMarketParams \<Rightarrow> BinaryMarketState \<Rightarrow>
     BinaryMarketLiveOutputs \<Rightarrow> Transaction \<Rightarrow> (InterpretError, BinaryMarketInterpretation) result" where
  "interpret_binary_market_spend env ops params before live tx =
     rbind (map_err BinaryCompilation
         (compiled_new ops (env_secp env) (env_sha256 env) params)) (\<lambda>compiled.
     interpret_binary_market_spend_with_compiled env compiled before live tx)"

text \<open>The client's view of the next live outputs (\<open>crates/deadcat-client/src/validation.rs\<close>).\<close>

definition set_live ::
    "BinaryMarketContinuation \<Rightarrow> BinaryMarketLiveOutputs \<Rightarrow> BinaryMarketLiveOutputs" where
  "set_live c live = (case cont_slot c of
       SlotDormantYesRt \<Rightarrow> live\<lparr>yes_rt := Some (cont_output c)\<rparr>
     | SlotUnresolvedYesRt \<Rightarrow> live\<lparr>yes_rt := Some (cont_output c)\<rparr>
     | SlotDormantNoRt \<Rightarrow> live\<lparr>no_rt := Some (cont_output c)\<rparr>
     | SlotUnresolvedNoRt \<Rightarrow> live\<lparr>no_rt := Some (cont_output c)\<rparr>
     | _ \<Rightarrow> live\<lparr>collateral := Some (cont_output c)\<rparr>)"

definition live_from_market_continuations ::
    "BinaryMarketContinuation list \<Rightarrow> BinaryMarketLiveOutputs" where
  "live_from_market_continuations conts =
     fold set_live conts \<lparr>yes_rt = None, no_rt = None, collateral = None\<rparr>"

end
