(* ===== verification/Interpreter_Example.thy ===== *)
theory Interpreter_Example
  imports Market_Interpreter
begin

text \<open>
  A concrete market and an initial issuance of five pairs that the interpreter accepts.  The
  libraries are instantiated by small functions that satisfy their contracts: commitments
  are injective in the blinding factor, the redeem node carries two witness values (the slot
  tag and the \<open>Issue\<close> branch of the action sum), and an issuance is recognised by
  its non-null amount.
\<close>

definition ex_params :: BinaryMarketParams where
  "ex_params = \<lparr>oracle_public_key = [9], collateral_asset_id = [1], yes_token_asset_id = [2],
     no_token_asset_id = [3], yes_reissuance_token_id = [2, 0], no_reissuance_token_id = [3, 0],
     base_payout = 100, expiry_height = 1000\<rparr>"

definition ex_compiled :: CompiledBinaryMarket where
  "ex_compiled = \<lparr>compiled_params = ex_params, compiled_cmr = replicate 32 7,
     compiled_slots = map (\<lambda>s. \<lparr>compiled_slot_slot = s, compiled_slot_storage_word = [],
       compiled_slot_script = [slot_tag s], compiled_slot_control_block = [slot_tag s, 1]\<rparr>)
       slot_all\<rparr>"

definition ex_secp :: secp_ops where
  "ex_secp = \<lparr>abf_from_slice = Some, vbf_from_slice = Some, asset_commitment = (\<lambda>_ f. f),
     value_commitment = (\<lambda>_ g _. g)\<rparr>"

definition ex_elements :: elements_ops where
  "ex_elements = \<lparr>has_issuance = (\<lambda>i. issuance_value (asset_issuance i) \<noteq> ValueNull),
     issuance_ids = (\<lambda>i. (asset_entropy (asset_issuance i), asset_entropy (asset_issuance i) @ [0])),
     transaction_txid = (\<lambda>_. [99]), sequence_is_final = (\<lambda>s. s = - 1), tweak_from_inner = Some\<rparr>"

text \<open>Witness values: 0 is the slot, 4 the action, 2 its left branch and 3 the output base.\<close>

definition ex_simplicity :: "(unit, nat) simplicity_ops" where
  "ex_simplicity = \<lparr>redeem_decode = (\<lambda>_ _. Some ()), node_cmr = (\<lambda>_. replicate 32 7),
     node_witness_values = (\<lambda>_. [0, 4]), control_block_from_slice = Some,
     cost_padding = (\<lambda>_ _. None), budget_valid = (\<lambda>_ _. True), serialized_len = (\<lambda>_. 0),
     value_ty = (\<lambda>v. if v = 0 then ty_word 3 else TySum (TySum (ty_word 5) TyUnit) TyUnit),
     as_left = (\<lambda>v. if v = 4 then Some 2 else if v = 2 then Some 3 else None),
     as_right = (\<lambda>_. None), as_product = (\<lambda>_. None),
     to_word = (\<lambda>v. if v = 0 then Some (replicate 8 False)
       else if v = 3 then Some (replicate 32 False) else None)\<rparr>"

definition ex_env :: "(unit, nat) interpreter_env" where
  "ex_env = \<lparr>env_secp = ex_secp, env_elements = ex_elements, env_simplicity = ex_simplicity,
     env_sha256 = id, env_xonly_from_slice = Some, env_signature_from_slice = Some,
     env_verify_schnorr = (\<lambda>_ _ _. False)\<rparr>"

definition ex_rt_output :: "bytes \<Rightarrow> bytes \<Rightarrow> TxOut" where
  "ex_rt_output script factor = \<lparr>out_asset = AssetConfidential factor, out_value = ValueConfidential factor,
     out_nonce = NonceNull, script_pubkey = script, out_witness = default_txout_witness\<rparr>"

definition ex_live :: BinaryMarketLiveOutputs where
  "ex_live = \<lparr>
     yes_rt = Some \<lparr>outpoint = OutPoint [5] 0, txout = ex_rt_output [slot_tag SlotDormantYesRt] ABF_A\<rparr>,
     no_rt = Some \<lparr>outpoint = OutPoint [5] 1, txout = ex_rt_output [slot_tag SlotDormantNoRt] ABF_A\<rparr>,
     collateral = None\<rparr>"

definition ex_input :: "u32 \<Rightarrow> bytes \<Rightarrow> TxIn" where
  "ex_input k token = \<lparr>previous_output = OutPoint [5] k, is_pegin = False, script_sig = [],
     input_sequence = 0, asset_issuance = \<lparr>asset_blinding_nonce = ABF_A, asset_entropy = token,
       issuance_value = ValueExplicit 5, inflation_keys = ValueNull\<rparr>,
     script_witness = [[], [], replicate 32 7, [slot_tag SlotDormantYesRt, 1]]\<rparr>"

definition ex_tx :: Transaction where
  "ex_tx = \<lparr>tx_version = 2, lock_time = LockBlocks 0, tx_input = [ex_input 0 [2], ex_input 1 [3]],
     tx_output = [ex_rt_output [slot_tag SlotUnresolvedYesRt] ABF_B,
       ex_rt_output [slot_tag SlotUnresolvedNoRt] ABF_B,
       \<lparr>out_asset = AssetExplicit [1], out_value = ValueExplicit 1000, out_nonce = NonceNull,
        script_pubkey = [slot_tag SlotUnresolvedCollateral], out_witness = default_txout_witness\<rparr>]\<rparr>"

definition ex_result :: BinaryMarketInterpretation where
  "ex_result = \<lparr>interp_path = InitialIssuance, interp_action = Issue 5,
     interp_before = Trading 0, interp_after = Trading 5,
     interp_transition = Issued 5 1000, interp_input_base = 0, interp_output_base = 0,
     spent_outpoints = [OutPoint [5] 0, OutPoint [5] 1],
     continuations = [
       \<lparr>cont_slot = SlotUnresolvedYesRt, cont_output = \<lparr>outpoint = OutPoint [99] 0,
          txout = ex_rt_output [slot_tag SlotUnresolvedYesRt] ABF_B\<rparr>\<rparr>,
       \<lparr>cont_slot = SlotUnresolvedNoRt, cont_output = \<lparr>outpoint = OutPoint [99] 1,
          txout = ex_rt_output [slot_tag SlotUnresolvedNoRt] ABF_B\<rparr>\<rparr>,
       \<lparr>cont_slot = SlotUnresolvedCollateral, cont_output = \<lparr>outpoint = OutPoint [99] 2,
          txout = tx_output ex_tx ! 2\<rparr>\<rparr>]\<rparr>"

lemma ex_slots [simp]:
  "compiled_slot_script (compiled_slot ex_compiled s) = [slot_tag s]"
  "compiled_slot_control_block (compiled_slot ex_compiled s) = [slot_tag s, 1]"
  by (cases s; simp add: compiled_slot_def ex_compiled_def slot_all_def slot_tag_def)+

lemma ex_economics [simp]:
  "economics_new 100 = Ok \<lparr>econ_base_payout = 100, econ_collateral_per_pair = 200\<rparr>"
  by (simp add: economics_new_def BASE_PAYOUTS_def checked_mul_def)

lemma ex_sides [simp]:
  "infer_side ex_secp leg t (AssetConfidential ABF_A) (ValueConfidential ABF_A) = Ok SideA"
  "infer_side ex_secp leg t (AssetConfidential ABF_B) (ValueConfidential ABF_B) = Ok SideB"
  by (simp_all add: infer_side_def commitments_def ex_secp_def rt_factors_def Let_def side_abf_def
      ABF_A_def ABF_B_def)

lemma bits_to_bytes_zero [simp]: "bits_to_bytes n (replicate m False) = replicate n 0"
proof -
  have "fold (\<lambda>(index, bit) out. if bit then out[index div 8 := out ! (index div 8) OR
      push_bit (7 - index mod 8) 1] else out) (enumerate k (replicate m False)) out = out"
    for k and out :: bytes
    by (induction m arbitrary: k) simp_all
  then show ?thesis by (simp add: bits_to_bytes_def)
qed

lemma ex_decoded [simp]:
  "decode_market_witness_values ex_simplicity [0, 4] SlotDormantYesRt = Ok (CoordIssue 0)"
proof -
  have "TySum (TySum (ty_word 5) TyUnit) TyUnit \<noteq> ty_word 3" by (simp add: numeral_eq_Suc)
  then show ?thesis
    by (simp add: decode_market_witness_values_def decode_witness_step_def decode_market_action_def
        market_action_types_def decode_u8_def decode_u32_def word_bytes_def ex_simplicity_def
        slot_tag_def u32_from_be_def)
qed

lemma ex_finalized [simp]:
  "decode_simplicity_witness ex_simplicity (script_witness (ex_input k token)) =
     Ok \<lparr>finalized_spend = \<lparr>witness_stack = script_witness (ex_input k token),
       redeem_node = (), spend_cmr = replicate 32 7, control_block = [slot_tag SlotDormantYesRt, 1],
       encoded_sizes = \<lparr>witness_bytes = 0, program_bytes = 0, control_block_bytes = 2,
         annex_bytes = 0, core_stack_bytes = 0, stack_bytes = 0\<rparr>\<rparr>, decoded_values = [0, 4]\<rparr>"
  by (simp add: decode_simplicity_witness_def spend_from_witness_stack_def ex_input_def Let_def
      validate_witness_shape_def decode_core_stack_def spend_from_decoded_def ex_simplicity_def
      CORE_STACK_ITEMS_def list_get_def)

lemma ex_live_valid [simp]: "validate_live_outputs ex_compiled ex_params (Trading 0) ex_live = Ok ()"
  by (simp add: validate_live_outputs_def ex_params_def validate_state_def collateral_for_pairs_def
      checked_payout_def checked_mul_def check_live_slot_def
      check_confidential_rt_def ex_live_def ex_rt_output_def)

lemma ex_live_sides [simp]:
  "infer_live_rt_sides ex_secp ex_params (Trading 0) ex_live = Ok \<lparr>side_yes = Some SideA, side_no = Some SideA\<rparr>"
  by (simp add: infer_live_rt_sides_def ex_live_def ex_rt_output_def)

lemma ex_located [simp]: "locate_input ex_tx (OutPoint [5] 0) = Ok 0"
  by (simp add: locate_input_def ex_tx_def ex_input_def)

abbreviation ex_layout :: BinaryMarketLayout where
  "ex_layout \<equiv> \<lparr>layout_path = InitialIssuance, layout_coordinator = CoordDormantYesRt\<rparr>"

lemma ex_input_group [simp]:
  "verify_input_group ex_elements ex_layout (Trading 0) ex_live ex_tx 0 =
     Ok [OutPoint [5] 0, OutPoint [5] 1]"
  by (simp add: verify_input_group_def layout_input_roles_def verify_role_input_def
      live_for_slot_def role_slot_def try_from_nat_def add_index_def checked_add_def check_input_def
      verify_dormant_inputs_def ex_live_def ex_tx_def ex_input_def list_get_def)

lemma ex_action [simp]:
  "interpret_action ex_env ex_params (Trading 0) \<lparr>side_yes = Some SideA, side_no = Some SideA\<rparr> ex_tx
     InitialIssuance 0 0 False 0 = Ok (Issue 5)"
  by (simp add: interpret_action_def interpret_issuance_def issuance_amount_def ex_env_def
      ex_elements_def ex_params_def ex_tx_def ex_input_def add_index_def checked_add_def list_get_def
      rt_factors_def Let_def side_abf_def)

lemma ex_applied [simp]:
  "economics_apply \<lparr>econ_base_payout = 100, econ_collateral_per_pair = 200\<rparr> (Trading 0) (Issue 5) =
     Ok \<lparr>old_state = Trading 0, new_state = Trading 5, transition = Issued 5 1000\<rparr>"
  by (simp add: economics_apply_def economics_issue_def collateral_for_pairs_def validate_state_def
      checked_payout_def checked_mul_def checked_add_def require_nonzero_def)

lemma ex_outputs [simp]:
  "verify_outputs ex_env ex_params ex_compiled ex_tx ex_layout (Trading 0) ex_live
     \<lparr>side_yes = Some SideA, side_no = Some SideA\<rparr>
     \<lparr>old_state = Trading 0, new_state = Trading 5, transition = Issued 5 1000\<rparr> 0 0 =
   Ok (continuations ex_result)"
  by (simp add: verify_outputs_def opposite_side_factors_def push_rt_pair_def
      push_rt_continuation_def push_collateral_continuation_def trading_collateral_def
      collateral_for_pairs_def checked_payout_def checked_mul_def checked_add_def add_index_def
      output_at_def list_get_def continuation_def commitments_def ex_env_def ex_secp_def
      ex_elements_def ex_params_def ex_live_def ex_tx_def ex_result_def ex_rt_output_def
      rt_factors_def Let_def side_abf_def side_flip_def explicit_asset_value_def)

lemma ex_interpreted:
  "interpret_binary_market_spend_with_compiled ex_env ex_compiled (Trading 0) ex_live ex_tx = Ok ex_result"
proof -
  have head: "yes_rt ex_live = Some \<lparr>outpoint = OutPoint [5] 0,
      txout = ex_rt_output [slot_tag SlotDormantYesRt] ABF_A\<rparr>" by (simp add: ex_live_def)
  have inp: "input_index ex_tx 0 = Ok (ex_input 0 [2])"
    by (simp add: input_index_def list_get_def ex_tx_def)
  have stack: "key_path_items (script_witness (ex_input 0 [2])) = 4"
    by (simp add: key_path_items_def ex_input_def)
  have env: "env_simplicity ex_env = ex_simplicity" "env_secp ex_env = ex_secp"
    "env_elements ex_env = ex_elements" "compiled_params ex_compiled = ex_params"
    "compiled_cmr ex_compiled = replicate 32 7" "base_payout ex_params = 100"
    by (simp_all add: ex_env_def ex_compiled_def ex_params_def)
  show ?thesis
    apply (simp add: interpret_binary_market_spend_with_compiled_def env head inp stack Let_def
        try_from_nat_def coordinator_for_state_def coordinator_slot_def coordinator_try_from_def
        layout_for_operation_def coordinator_action_operation_def interpret_decoded_action_def)
    by (simp add: ex_result_def)
qed

end
