(* ===== verification/Interpreter_Props.thy ===== *)
theory Interpreter_Props
  imports Interpreter_Example
begin

text \<open>
  Properties of the confirmed-spend interpreter: an accepted spend is a step of the
  economics machine, it consumes exactly the tracked outputs through one consecutive
  input window, the outputs it reports are valid live outputs of the new state, and no
  input makes it panic.
\<close>

section \<open>Decomposing an accepted spend\<close>

lemma coordinator_try_from_slot [simp]: "coordinator_try_from (coordinator_slot c) = Ok c"
  by (simp add: coordinator_try_from_iff)

lemma interpret_decoded:
  assumes "interpret_binary_market_spend_with_compiled env compiled before live tx = Ok i"
  obtains e layout sides base out_b yes tokens where
    "economics_new (base_payout (compiled_params compiled)) = Ok e"
    "validate_live_outputs compiled (compiled_params compiled) before live = Ok ()"
    "infer_live_rt_sides (env_secp env) (compiled_params compiled) before live = Ok sides"
    "layout_coordinator layout = coordinator_for_state before"
    "\<exists>op full. path_for (coordinator_for_state before) op full = Some (layout_path layout)"
    "interpret_decoded_action env (compiled_params compiled) e compiled before live sides tx layout
       base out_b yes tokens = Ok i"
  using assms
  unfolding interpret_binary_market_spend_with_compiled_def Let_def
  by (auto simp: result_simps layout_for_operation_Ok split: prod.splits) blast

lemma interpret_decoded_action_Ok:
  "interpret_decoded_action env params e compiled before live sides tx layout base out_b yes tokens = Ok i
   \<longleftrightarrow> (\<exists>applied.
     verify_input_group (env_elements env) layout before live tx base = Ok (spent_outpoints i) \<and>
     interpret_action env params before sides tx (layout_path layout) base out_b yes tokens
       = Ok (interp_action i) \<and>
     economics_apply e before (interp_action i) = Ok applied \<and>
     verify_outputs env params compiled tx layout before live sides applied out_b tokens
       = Ok (continuations i) \<and>
     interp_path i = layout_path layout \<and> interp_before i = before \<and>
     interp_after i = new_state applied \<and> interp_transition i = transition applied \<and>
     interp_input_base i = base \<and> interp_output_base i = out_b)"
  by (cases i) (auto simp: interpret_decoded_action_def result_simps)




section \<open>The input window\<close>

lemma check_input_Ok:
  "check_input tx k p = Ok u \<longleftrightarrow>
     unat k < length (tx_input tx) \<and> previous_output (tx_input tx ! unat k) = p"
  by (auto simp: check_input_def list_get_def)

lemma verify_role_input_D:
  assumes "verify_role_input live tx base (k, role) spent = Ok spent'"
  shows "\<exists>t. live_for_slot live (role_slot role) = Some t \<and> spent' = spent @ [outpoint t] \<and>
    unat base + k < length (tx_input tx) \<and>
    previous_output (tx_input tx ! (unat base + k)) = outpoint t"
  using assms
  by (auto simp: verify_role_input_def add_index_def result_simps checked_simps check_input_Ok)

lemma verify_role_inputs_D:
  assumes "rfold (verify_role_input live tx base) (enumerate n roles) spent = Ok spent'"
  shows "\<exists>ps. spent' = spent @ ps \<and> length ps = length roles \<and>
    (\<forall>k < length roles.
      map_option outpoint (live_for_slot live (role_slot (roles ! k))) = Some (ps ! k) \<and>
      unat base + n + k < length (tx_input tx) \<and>
      previous_output (tx_input tx ! (unat base + n + k)) = ps ! k)"
  using assms
proof (induction roles arbitrary: n spent)
  case (Cons role roles)
  then obtain s1 where s1: "verify_role_input live tx base (n, role) spent = Ok s1"
    and rest: "rfold (verify_role_input live tx base) (enumerate (Suc n) roles) s1 = Ok spent'"
    by (auto simp: result_simps)
  obtain t where t: "live_for_slot live (role_slot role) = Some t" "s1 = spent @ [outpoint t]"
    "unat base + n < length (tx_input tx)"
    "previous_output (tx_input tx ! (unat base + n)) = outpoint t"
    using verify_role_input_D [OF s1] by blast
  obtain ps where ps: "spent' = s1 @ ps" "length ps = length roles"
    "\<forall>k < length roles.
      map_option outpoint (live_for_slot live (role_slot (roles ! k))) = Some (ps ! k) \<and>
      unat base + Suc n + k < length (tx_input tx) \<and>
      previous_output (tx_input tx ! (unat base + Suc n + k)) = ps ! k"
    using Cons.IH [OF rest] by blast
  show ?case
    using t ps by (intro exI [of _ "outpoint t # ps"]) (auto simp: nth_Cons split: nat.split)
qed simp

lemma verify_input_group_D:
  assumes "verify_input_group el layout before live tx base = Ok spent"
  shows "length spent = length (layout_input_roles layout) \<and>
    (\<forall>k < length spent.
      map_option outpoint (live_for_slot live (role_slot (layout_input_roles layout ! k))) = Some (spent ! k) \<and>
      unat base + k < length (tx_input tx) \<and>
      previous_output (tx_input tx ! (unat base + k)) = spent ! k)"
proof -
  have "rfold (verify_role_input live tx base) (enumerate 0 (layout_input_roles layout)) [] = Ok spent"
    using assms by (cases "layout_coordinator layout") (auto simp: verify_input_group_def result_simps)
  from verify_role_inputs_D [OF this] show ?thesis by auto
qed

text \<open>C9.  The spent outpoints an accepted spend reports are the tracked outputs of the layout
  of the old state, in role order, and they are the previous outputs of consecutive
  transaction inputs starting at the reported input base: no tracked output is skipped,
  duplicated or taken from elsewhere in the transaction.\<close>

theorem spent_window_consecutive:
  assumes "interpret_binary_market_spend_with_compiled env compiled before live tx = Ok i"
  shows "\<exists>layout. layout_coordinator layout = coordinator_for_state before \<and>
    layout_path layout = interp_path i \<and>
    map (\<lambda>role. map_option outpoint (live_for_slot live (role_slot role))) (layout_input_roles layout)
      = map Some (spent_outpoints i) \<and>
    map previous_output (take (length (spent_outpoints i))
        (drop (unat (interp_input_base i)) (tx_input tx))) = spent_outpoints i"
proof -
  obtain e layout sides base out_b yes tokens where
    c: "layout_coordinator layout = coordinator_for_state before"
    and dec: "interpret_decoded_action env (compiled_params compiled) e compiled before live sides
      tx layout base out_b yes tokens = Ok i"
    by (rule interpret_decoded [OF assms])
  then have grp: "verify_input_group (env_elements env) layout before live tx base = Ok (spent_outpoints i)"
    and p: "layout_path layout = interp_path i" "interp_input_base i = base"
    by (auto simp: interpret_decoded_action_Ok)
  note D = verify_input_group_D [OF grp]
  have "map (\<lambda>role. map_option outpoint (live_for_slot live (role_slot role))) (layout_input_roles layout)
      = map Some (spent_outpoints i)"
    using D by (auto simp: list_eq_iff_nth_eq)
  moreover have "unat base + length (spent_outpoints i) \<le> length (tx_input tx)"
    using D by (cases "length (spent_outpoints i)")
      (auto simp: layout_input_roles_def c split: BinaryMarketCoordinatorRole.splits)
  then have "map previous_output (take (length (spent_outpoints i)) (drop (unat base) (tx_input tx)))
      = spent_outpoints i"
    using D by (auto simp: list_eq_iff_nth_eq)
  ultimately show ?thesis using c p by auto
qed

theorem spent_window_consecutive_witness:
  "\<exists>layout. layout_coordinator layout = coordinator_for_state (Trading 0) \<and>
    layout_path layout = interp_path ex_result \<and>
    map (\<lambda>role. map_option outpoint (live_for_slot ex_live (role_slot role)))
        (layout_input_roles layout) = map Some (spent_outpoints ex_result) \<and>
    map previous_output (take (length (spent_outpoints ex_result))
        (drop (unat (interp_input_base ex_result)) (tx_input ex_tx))) = spent_outpoints ex_result"
  by (rule spent_window_consecutive [OF ex_interpreted])


section \<open>Continuations\<close>

abbreviation slot_script :: "CompiledBinaryMarket \<Rightarrow> BinaryMarketSlot \<Rightarrow> bytes" where
  "slot_script compiled slot \<equiv> compiled_slot_script (compiled_slot compiled slot)"

lemma push_rt_continuation_Ok:
  "push_rt_continuation env compiled tx k slot asset f out = Ok out' \<longleftrightarrow>
     (\<exists>o'. output_at tx k = Ok o' \<and> script_pubkey o' = slot_script compiled slot \<and>
        commitments (env_secp env) asset f = Ok (out_asset o', out_value o') \<and>
        out' = out @ [continuation (env_elements env) tx k slot o'])"
  by (auto simp: push_rt_continuation_def result_simps)

lemma push_collateral_continuation_Ok:
  "push_collateral_continuation env compiled tx k slot asset amount out = Ok out' \<longleftrightarrow>
     (\<exists>o'. output_at tx k = Ok o' \<and> script_pubkey o' = slot_script compiled slot \<and>
        explicit_asset_value o' = Some (asset, amount) \<and>
        out' = out @ [continuation (env_elements env) tx k slot o'])"
  by (auto simp: push_collateral_continuation_def result_simps)

lemma push_rt_pair_Ok:
  "push_rt_pair env compiled params tx base ys ns yf nf = Ok out \<longleftrightarrow>
     (\<exists>y n i1 yo no. yf = Some y \<and> nf = Some n \<and> add_index base 1 = Ok i1 \<and>
        output_at tx base = Ok yo \<and> output_at tx i1 = Ok no \<and>
        script_pubkey yo = slot_script compiled ys \<and> script_pubkey no = slot_script compiled ns \<and>
        commitments (env_secp env) (yes_reissuance_token_id params) y = Ok (out_asset yo, out_value yo) \<and>
        commitments (env_secp env) (no_reissuance_token_id params) n = Ok (out_asset no, out_value no) \<and>
        out = [continuation (env_elements env) tx base ys yo,
               continuation (env_elements env) tx i1 ns no])"
  by (auto simp: push_rt_pair_def result_simps push_rt_continuation_Ok)

lemma commitments_confidential:
  "commitments secp asset f = Ok (a, v) \<Longrightarrow>
     \<exists>g w. a = AssetConfidential g \<and> v = ValueConfidential w"
  by (auto simp: commitments_def Let_def result_simps)

lemma opposite_side_factors_Some:
  "opposite_side_factors leg l s = Ok (Some f) \<longleftrightarrow>
     (\<exists>t s'. l = Some t \<and> s = Some s' \<and> f = rt_factors leg (side_flip s'))"
  by (auto simp: opposite_side_factors_def split: option.splits)

lemma trading_collateral_Ok:
  "trading_collateral st params = Ok amount \<longleftrightarrow>
     (\<exists>q e. st = Trading q \<and> economics_new (base_payout params) = Ok e \<and>
        collateral_for_pairs e q = Ok amount)"
  by (cases st) (auto simp: trading_collateral_def result_simps)

lemmas live_from_simps =
  live_from_market_continuations_def set_live_def continuation_def

text \<open>Sufficient conditions for live outputs, by phase.\<close>

lemma live_active:
  assumes "economics_new (base_payout params) = Ok e" "spec_valid (unat (base_payout params)) (view (Trading q))"
    and "q \<noteq> 0" "collateral_for_pairs e q = Ok amount"
    and "script_pubkey (txout y) = slot_script compiled SlotUnresolvedYesRt"
      "script_pubkey (txout n) = slot_script compiled SlotUnresolvedNoRt"
      "script_pubkey (txout c) = slot_script compiled SlotUnresolvedCollateral"
    and "commitments secp a f = Ok (out_asset (txout y), out_value (txout y))"
      "commitments secp a' f' = Ok (out_asset (txout n), out_value (txout n))"
    and "explicit_asset_value (txout c) = Some (collateral_asset_id params, amount)"
  shows "validate_live_outputs compiled params (Trading q)
    \<lparr>yes_rt = Some y, no_rt = Some n, collateral = Some c\<rparr> = Ok ()"
proof -
  have "validate_state e (Trading q) = Ok ()"
    using assms(1,2) validate_state_Ok by blast
  moreover obtain g w g' w' where
    "out_asset (txout y) = AssetConfidential g" "out_value (txout y) = ValueConfidential w"
    "out_asset (txout n) = AssetConfidential g'" "out_value (txout n) = ValueConfidential w'"
    using commitments_confidential [OF assms(8)] commitments_confidential [OF assms(9)] by blast
  ultimately show ?thesis
    using assms by (simp add: validate_live_outputs_def check_live_slot_def check_confidential_rt_def
        check_explicit_live_def)
qed

lemma live_dormant:
  assumes "economics_new (base_payout params) = Ok e"
    and "script_pubkey (txout y) = slot_script compiled SlotDormantYesRt"
      "script_pubkey (txout n) = slot_script compiled SlotDormantNoRt"
    and "commitments secp a f = Ok (out_asset (txout y), out_value (txout y))"
      "commitments secp a' f' = Ok (out_asset (txout n), out_value (txout n))"
  shows "validate_live_outputs compiled params (Trading 0)
    \<lparr>yes_rt = Some y, no_rt = Some n, collateral = None\<rparr> = Ok ()"
proof -
  have "validate_state e (Trading 0) = Ok ()"
    using validate_state_Ok [OF assms(1), of "Trading 0"] by (simp add: u64_limit_def)
  moreover obtain g w g' w' where
    "out_asset (txout y) = AssetConfidential g" "out_value (txout y) = ValueConfidential w"
    "out_asset (txout n) = AssetConfidential g'" "out_value (txout n) = ValueConfidential w'"
    using commitments_confidential [OF assms(4)] commitments_confidential [OF assms(5)] by blast
  ultimately show ?thesis
    using assms by (simp add: validate_live_outputs_def check_live_slot_def check_confidential_rt_def)
qed

lemma live_terminal:
  assumes "economics_new (base_payout params) = Ok e" "spec_valid (unat (base_payout params)) (view st)"
    and "terminal_collateral st = Some (slot, amount)"
    and "script_pubkey (txout c) = slot_script compiled slot"
    and "explicit_asset_value (txout c) = Some (collateral_asset_id params, amount)"
  shows "validate_live_outputs compiled params st
    \<lparr>yes_rt = None, no_rt = None, collateral = Some c\<rparr> = Ok ()"
proof -
  have "validate_state e st = Ok ()"
    using assms(1,2) validate_state_Ok by blast
  then show ?thesis
    using assms by (cases st) (auto simp: validate_live_outputs_def validate_live_terminal_def
        check_live_slot_def check_explicit_live_def terminal_collateral_def)
qed

text \<open>Which states each path can leave, from the action the interpreter reconstructs.\<close>

lemma issuance_action:
  "interpret_issuance env params sides tx b = Ok a \<Longrightarrow> \<exists>n. a = Issue n"
  by (auto simp: interpret_issuance_def result_simps)

lemma cancellation_action:
  "interpret_cancellation params tx b y n = Ok a \<Longrightarrow> \<exists>m. a = Cancel m"
  by (auto simp: interpret_cancellation_def result_simps)

lemma active_before:
  assumes "path_for (coordinator_for_state st) op full = Some ActiveResolution \<or>
    path_for (coordinator_for_state st) op full = Some ActiveExpiry"
  shows "\<exists>p. st = Trading p \<and> p \<noteq> 0"
  using assms by (cases st; cases op; cases full)
    (auto simp: coordinator_for_state_def split: if_splits)

lemma positive_collateral:
  assumes "economics_new v = Ok e" "unat c = unat p * pair_payout (unat v)" "p \<noteq> 0"
  shows "c \<noteq> 0"
proof -
  have "0 < pair_payout (unat v)"
    using assms(1) base_payout_range by (simp add: economics_new_Ok)
  then show ?thesis using assms(2,3) by (auto simp: unat_eq_0 dest: arg_cong [where f = unat])
qed

definition drained :: "BinaryMarketState \<Rightarrow> bool" where
  "drained st \<longleftrightarrow> (case st of Trading _ \<Rightarrow> False | ResolvedYes c \<Rightarrow> c = 0 | ResolvedNo c \<Rightarrow> c = 0 | Expired c \<Rightarrow> c = 0)"

lemma u64_sum_nonzero:
  "unat (q :: u64) = unat p + unat n \<Longrightarrow> n \<noteq> (0 :: u64) \<Longrightarrow> q \<noteq> 0"
  by (auto simp: word_unat_eq_iff)

lemma pair_and_collateral_live:
  assumes e: "economics_new (base_payout params) = Ok e"
    and valid: "spec_valid (unat (base_payout params)) (view (Trading q))" and "q \<noteq> 0"
    and pair: "push_rt_pair env compiled params tx base SlotUnresolvedYesRt SlotUnresolvedNoRt yf nf = Ok out"
    and amount: "trading_collateral (Trading q) params = Ok amount"
    and coll: "push_collateral_continuation env compiled tx i2 SlotUnresolvedCollateral
      (collateral_asset_id params) amount out = Ok conts"
  shows "validate_live_outputs compiled params (Trading q) (live_from_market_continuations conts) = Ok ()"
proof -
  have "collateral_for_pairs e q = Ok amount"
    using amount e by (auto simp: trading_collateral_Ok)
  then show ?thesis
    using pair coll \<open>q \<noteq> 0\<close>
    by (auto simp: push_rt_pair_Ok push_collateral_continuation_Ok live_from_simps
        intro!: live_active [OF e valid])
qed

lemma pair_dormant_live:
  assumes e: "economics_new (base_payout params) = Ok e"
    and pair: "push_rt_pair env compiled params tx base SlotDormantYesRt SlotDormantNoRt yf nf = Ok conts"
  shows "validate_live_outputs compiled params (Trading 0) (live_from_market_continuations conts) = Ok ()"
  using pair by (auto simp: push_rt_pair_Ok live_from_simps intro!: live_dormant [OF e])

lemma collateral_live:
  assumes e: "economics_new (base_payout params) = Ok e"
    and valid: "spec_valid (unat (base_payout params)) (view st)"
    and tc: "terminal_collateral st = Some (slot, amount)"
    and coll: "push_collateral_continuation env compiled tx k slot
      (collateral_asset_id params) amount [] = Ok conts"
  shows "validate_live_outputs compiled params st (live_from_market_continuations conts) = Ok ()"
proof -
  obtain o' where o': "script_pubkey o' = slot_script compiled slot"
    "explicit_asset_value o' = Some (collateral_asset_id params, amount)"
    "conts = [continuation (env_elements env) tx k slot o']"
    using coll by (auto simp: push_collateral_continuation_Ok)
  have "live_from_market_continuations conts =
      \<lparr>yes_rt = None, no_rt = None,
       collateral = Some \<lparr>outpoint = OutPoint (transaction_txid (env_elements env) tx) k, txout = o'\<rparr>\<rparr>"
    using tc by (cases st) (auto simp: o' live_from_simps terminal_collateral_def)
  then show ?thesis
    using live_terminal [OF e valid tc] o' by simp
qed

text \<open>The outputs of each group of paths are live outputs of the state they lead to.\<close>

definition next_live_ok ::
    "CompiledBinaryMarket \<Rightarrow> BinaryMarketParams \<Rightarrow> BinaryMarketState \<Rightarrow> BinaryMarketContinuation list \<Rightarrow> bool" where
  "next_live_ok compiled params st conts \<longleftrightarrow>
     drained st \<and> conts = [] \<or>
     validate_live_outputs compiled params st (live_from_market_continuations conts) = Ok ()"

lemma issuance_next_live:
  assumes e: "economics_new (base_payout params) = Ok e"
    and path: "layout_path layout \<in> {InitialIssuance, SubsequentIssuance}"
    and ap: "economics_apply e before (Issue n) = Ok applied"
    and out: "verify_outputs env params compiled tx layout before live sides applied out_b tokens = Ok conts"
  shows "next_live_ok compiled params (new_state applied) conts"
proof -
  have valid: "spec_valid (unat (base_payout params)) (view (new_state applied))"
    using apply_sound [OF e ap] by blast
  obtain q where q: "new_state applied = Trading q" "q \<noteq> 0"
    using ap by (auto simp: apply_Ok [OF e] issue_Ok [OF e] dest: u64_sum_nonzero)
  obtain yf nf o1 amount i2 where parts:
    "push_rt_pair env compiled params tx out_b SlotUnresolvedYesRt SlotUnresolvedNoRt yf nf = Ok o1"
    "trading_collateral (Trading q) params = Ok amount"
    "push_collateral_continuation env compiled tx i2 SlotUnresolvedCollateral
      (collateral_asset_id params) amount o1 = Ok conts"
    using path out q by (auto simp: verify_outputs_def Let_def result_simps)
  show ?thesis
    using pair_and_collateral_live [OF e _ q(2) parts] valid q by (simp add: next_live_ok_def)
qed

lemma cancellation_next_live:
  assumes e: "economics_new (base_payout params) = Ok e"
    and path: "layout_path layout \<in> {PartialCancellation, FullCancellation}"
    and ap: "economics_apply e before (Cancel n) = Ok applied"
    and out: "verify_outputs env params compiled tx layout before live sides applied out_b tokens = Ok conts"
  shows "next_live_ok compiled params (new_state applied) conts"
proof (cases "layout_path layout = FullCancellation")
  case True
  then obtain yf nf where pair: "push_rt_pair env compiled params tx out_b SlotDormantYesRt
      SlotDormantNoRt yf nf = Ok conts" and "new_state applied = Trading 0"
    using out by (auto simp: verify_outputs_def Let_def result_simps)
  then show ?thesis using pair_dormant_live [OF e pair] by (simp add: next_live_ok_def)
next
  case False
  have valid: "spec_valid (unat (base_payout params)) (view (new_state applied))"
    using apply_sound [OF e ap] by blast
  obtain q where q: "new_state applied = Trading q"
    using ap by (auto simp: apply_Ok [OF e] cancel_Ok [OF e])
  obtain yf nf o1 amount i2 where parts:
    "push_rt_pair env compiled params tx out_b SlotUnresolvedYesRt SlotUnresolvedNoRt yf nf = Ok o1"
    "trading_collateral (Trading q) params = Ok amount"
    "push_collateral_continuation env compiled tx i2 SlotUnresolvedCollateral
      (collateral_asset_id params) amount o1 = Ok conts" and "amount \<noteq> 0"
    using False path out q by (auto simp: verify_outputs_def Let_def result_simps)
  have "q \<noteq> 0"
    using parts(2) \<open>amount \<noteq> 0\<close>
    by (auto simp: trading_collateral_Ok e collateral_for_pairs_Ok [OF e] unat_eq_0)
  then show ?thesis
    using pair_and_collateral_live [OF e _ _ parts] valid q by (simp add: next_live_ok_def)
qed

lemma terminal_next_live:
  assumes e: "economics_new (base_payout params) = Ok e"
    and path: "layout_path layout = ActiveResolution \<and> (\<exists>w. a = Resolve w) \<or>
      layout_path layout = ActiveExpiry \<and> a = Expire"
    and ap: "economics_apply e before a = Ok applied"
    and out: "verify_outputs env params compiled tx layout before live sides applied out_b tokens = Ok conts"
  shows "next_live_ok compiled params (new_state applied) conts"
proof -
  have valid: "spec_valid (unat (base_payout params)) (view (new_state applied))"
    using apply_sound [OF e ap] by blast
  obtain slot amount where tc: "terminal_collateral (new_state applied) = Some (slot, amount)"
    and slot: "layout_path layout = ActiveExpiry \<longrightarrow> slot = SlotExpiredCollateral"
    using path ap by (auto simp: apply_Ok [OF e] resolve_Ok [OF e] expire_Ok [OF e]
        terminal_collateral_def split: BinaryOutcome.splits)
  obtain i2 where "push_collateral_continuation env compiled tx i2 slot
      (collateral_asset_id params) amount [] = Ok conts"
    using path out tc slot
    by (auto simp: verify_outputs_def Let_def result_simps terminal_slot_amount_def)
  then show ?thesis using collateral_live [OF e valid tc] unfolding next_live_ok_def by blast
qed

lemma dormant_end_next_live:
  assumes e: "economics_new (base_payout params) = Ok e"
    and path: "layout_path layout = DormantResolution \<and> (\<exists>w. a = Resolve w) \<or>
      layout_path layout = DormantExpiry \<and> a = Expire"
    and before: "before = Trading 0"
    and ap: "economics_apply e before a = Ok applied"
    and out: "verify_outputs env params compiled tx layout before live sides applied out_b tokens = Ok conts"
  shows "next_live_ok compiled params (new_state applied) conts"
proof -
  have "drained (new_state applied)"
    using path before ap by (auto simp: apply_Ok [OF e] resolve_Ok [OF e] expire_Ok [OF e]
        drained_def unat_eq_0 split: BinaryOutcome.splits)
  moreover have "conts = []"
    using path out by (auto simp: verify_outputs_def Let_def result_simps)
  ultimately show ?thesis by (simp add: next_live_ok_def)
qed

lemma redemption_next_live:
  assumes e: "economics_new (base_payout params) = Ok e"
    and path: "layout_path layout \<in> {ResolvedRedemption, ExpiryRedemption}"
    and ap: "economics_apply e before (Redeem w n) = Ok applied"
    and out: "verify_outputs env params compiled tx layout before live sides applied out_b tokens = Ok conts"
  shows "next_live_ok compiled params (new_state applied) conts"
proof -
  have valid: "spec_valid (unat (base_payout params)) (view (new_state applied))"
    using apply_sound [OF e ap] by blast
  obtain slot amount where tc: "terminal_collateral (new_state applied) = Some (slot, amount)"
    using ap by (auto simp: apply_Ok [OF e] redeem_Ok [OF e] terminal_collateral_def)
  then have dr: "amount = 0 \<longrightarrow> drained (new_state applied)"
    by (cases "new_state applied") (auto simp: terminal_collateral_def drained_def)
  have "amount = 0 \<and> conts = [] \<or>
      push_collateral_continuation env compiled tx out_b slot (collateral_asset_id params) amount [] = Ok conts"
    using path out tc
    by (cases "amount = 0") (auto simp: verify_outputs_def Let_def result_simps word_gt_0)
  then show ?thesis
    using dr collateral_live [OF e valid tc] unfolding next_live_ok_def by blast
qed

lemma dormant_path_before:
  assumes "path_for (coordinator_for_state st) op full = Some p" "p \<in> {DormantResolution, DormantExpiry}"
  shows "st = Trading 0"
  using assms by (cases st; cases op; cases full)
    (auto simp: coordinator_for_state_def split: if_splits)

lemma verify_outputs_next_live:
  assumes e: "economics_new (base_payout params) = Ok e"
    and act: "interpret_action env params before sides tx (layout_path layout) b out_b yes tokens = Ok a"
    and ap: "economics_apply e before a = Ok applied"
    and path: "path_for (coordinator_for_state before) op full = Some (layout_path layout)"
    and out: "verify_outputs env params compiled tx layout before live sides applied out_b tokens = Ok conts"
  shows "next_live_ok compiled params (new_state applied) conts"
proof -
  consider (issue) "layout_path layout \<in> {InitialIssuance, SubsequentIssuance}" "\<exists>n. a = Issue n"
    | (cancel) "layout_path layout \<in> {PartialCancellation, FullCancellation}" "\<exists>n. a = Cancel n"
    | (terminal) "layout_path layout = ActiveResolution \<and> (\<exists>w. a = Resolve w) \<or>
        layout_path layout = ActiveExpiry \<and> a = Expire"
    | (dormant) "layout_path layout = DormantResolution \<and> (\<exists>w. a = Resolve w) \<or>
        layout_path layout = DormantExpiry \<and> a = Expire"
    | (redeem) "layout_path layout \<in> {ResolvedRedemption, ExpiryRedemption}" "\<exists>w n. a = Redeem w n"
    using act by (cases "layout_path layout") (auto simp: interpret_action_def result_simps
        dest: issuance_action cancellation_action split: BinaryMarketState.splits)
  then show ?thesis
  proof cases
    case issue then show ?thesis using issuance_next_live [OF e _ _ out] ap by blast
  next
    case cancel then show ?thesis using cancellation_next_live [OF e _ _ out] ap by blast
  next
    case terminal then show ?thesis using terminal_next_live [OF e _ ap out] by blast
  next
    case dormant
    then have "before = Trading 0" using dormant_path_before [OF path] by auto
    then show ?thesis using dormant_end_next_live [OF e dormant _ ap out] by blast
  next
    case redeem then show ?thesis using redemption_next_live [OF e _ _ out] ap by blast
  qed
qed

text \<open>C7.  The outputs an accepted spend hands on are exactly what the next interpretation
  requires: collected as the client collects them, they are valid live outputs of the new
  state (right slot scripts, confidential reissuance tokens, collateral equal to the new
  state's amount), unless the market is drained, in which case there are none.\<close>

theorem accepted_spend_next_live:
  assumes "interpret_binary_market_spend_with_compiled env compiled before live tx = Ok i"
  shows "drained (interp_after i) \<and> continuations i = [] \<or>
    validate_live_outputs compiled (compiled_params compiled) (interp_after i)
      (live_from_market_continuations (continuations i)) = Ok ()"
proof -
  obtain e layout sides base out_b yes tokens op full where
    e: "economics_new (base_payout (compiled_params compiled)) = Ok e"
    and path: "path_for (coordinator_for_state before) op full = Some (layout_path layout)"
    and dec: "interpret_decoded_action env (compiled_params compiled) e compiled before live sides
      tx layout base out_b yes tokens = Ok i"
    using interpret_decoded [OF assms] by metis
  obtain ap where
    act: "interpret_action env (compiled_params compiled) before sides tx (layout_path layout) base out_b
      yes tokens = Ok (interp_action i)"
    and ap: "economics_apply e before (interp_action i) = Ok ap"
    and out: "verify_outputs env (compiled_params compiled) compiled tx layout before live sides ap out_b
      tokens = Ok (continuations i)" and after: "interp_after i = new_state ap"
    using dec by (auto simp: interpret_decoded_action_Ok)
  show ?thesis
    using verify_outputs_next_live [OF e act ap path out] by (simp add: next_live_ok_def after)
qed

theorem accepted_spend_next_live_witness:
  "validate_live_outputs ex_compiled (compiled_params ex_compiled) (Trading 5)
     (live_from_market_continuations (continuations ex_result)) = Ok ()"
  using accepted_spend_next_live [OF ex_interpreted] by (simp add: ex_result_def)


section \<open>The reissuance-token schedule along a chain of spends\<close>

lemma infer_live_rt_sides_Ok:
  "infer_live_rt_sides secp params (Trading q) live = Ok sides \<longleftrightarrow>
     (\<exists>y n s. yes_rt live = Some y \<and> no_rt live = Some n \<and>
        sides = \<lparr>side_yes = Some s, side_no = Some s\<rparr> \<and>
        infer_side secp YesLeg (yes_reissuance_token_id params)
          (out_asset (txout y)) (out_value (txout y)) = Ok s \<and>
        infer_side secp NoLeg (no_reissuance_token_id params)
          (out_asset (txout n)) (out_value (txout n)) = Ok s)"
  by (auto simp: infer_live_rt_sides_def result_simps)

text \<open>A committed output of the opposite side is recognised as that side.\<close>

lemma infer_flipped:
  assumes "infer_side secp leg asset a v = Ok s"
    and "commitments secp asset (rt_factors leg (side_flip s)) = Ok (a', v')"
  shows "infer_side secp leg asset a' v' = Ok (side_flip s)"
  using assms by (auto simp: infer_side_iff)

lemma trading_paths:
  assumes "path_for (coordinator_for_state before) op full = Some p" "path_operation p \<in> {OpIssue, OpCancel}"
  shows "\<exists>m. before = Trading m"
  using assms by (cases before; cases op; cases full)
    (auto simp: coordinator_for_state_def path_operation_def split: if_splits)

text \<open>The outputs of a spend that stays in trading, as a pair plus optional collateral.\<close>

lemma trading_outputs:
  assumes e: "economics_new (base_payout params) = Ok e"
    and act: "interpret_action env params before sides tx (layout_path layout) b out_b yes tokens = Ok a"
    and ap: "economics_apply e before a = Ok applied"
    and trading: "new_state applied = Trading q"
    and out: "verify_outputs env params compiled tx layout before live sides applied out_b tokens = Ok conts"
  shows "\<exists>ys ns yf nf pair rest. path_operation (layout_path layout) \<in> {OpIssue, OpCancel} \<and>
    opposite_side_factors YesLeg (yes_rt live) (side_yes sides) = Ok yf \<and>
    opposite_side_factors NoLeg (no_rt live) (side_no sides) = Ok nf \<and>
    push_rt_pair env compiled params tx out_b ys ns yf nf = Ok pair \<and>
    (ys, ns) \<in> {(SlotUnresolvedYesRt, SlotUnresolvedNoRt), (SlotDormantYesRt, SlotDormantNoRt)} \<and>
    conts = pair @ rest \<and>
    (rest = [] \<and> q = 0 \<or> (\<exists>i2 o'. add_index out_b 2 = Ok i2 \<and>
        rest = [continuation (env_elements env) tx i2 SlotUnresolvedCollateral o']))"
  using act ap trading out
  by (cases "layout_path layout";
      auto simp: interpret_action_def apply_Ok [OF e] op_Ok [OF e] verify_outputs_def Let_def result_simps
        push_collateral_continuation_Ok path_operation_def
        split: BinaryOutcome.splits BinaryMarketState.splits
        dest: issuance_action cancellation_action; blast)

lemma next_sides:
  assumes before: "infer_live_rt_sides secp params (Trading m) live = Ok sides"
    and secp: "env_secp env = secp"
    and yf: "opposite_side_factors YesLeg (yes_rt live) (side_yes sides) = Ok yf"
    and nf: "opposite_side_factors NoLeg (no_rt live) (side_no sides) = Ok nf"
    and pair: "push_rt_pair env compiled params tx base ys ns yf nf = Ok pair"
    and slots: "(ys, ns) \<in> {(SlotUnresolvedYesRt, SlotUnresolvedNoRt), (SlotDormantYesRt, SlotDormantNoRt)}"
    and rest: "rest = [] \<or> (\<exists>i2 o'. add_index base 2 = Ok i2 \<and>
        rest = [continuation (env_elements env) tx i2 SlotUnresolvedCollateral o'])"
  shows "\<exists>s y n. sides = \<lparr>side_yes = Some s, side_no = Some s\<rparr> \<and>
    infer_live_rt_sides secp params (Trading q) (live_from_market_continuations (pair @ rest))
      = Ok \<lparr>side_yes = Some (side_flip s), side_no = Some (side_flip s)\<rparr> \<and>
    yes_rt (live_from_market_continuations (pair @ rest)) = Some y \<and>
    no_rt (live_from_market_continuations (pair @ rest)) = Some n \<and>
    txid (outpoint y) = txid (outpoint n) \<and>
    (rest \<noteq> [] \<longrightarrow> (\<exists>c. collateral (live_from_market_continuations (pair @ rest)) = Some c \<and>
       siblings_consecutive (outpoint y) (outpoint n) (outpoint c) = Ok ()))"
proof -
  obtain s y n where s: "sides = \<lparr>side_yes = Some s, side_no = Some s\<rparr>"
    and ys: "infer_side secp YesLeg (yes_reissuance_token_id params)
          (out_asset (txout y)) (out_value (txout y)) = Ok s" "yes_rt live = Some y"
    and ns: "infer_side secp NoLeg (no_reissuance_token_id params)
          (out_asset (txout n)) (out_value (txout n)) = Ok s" "no_rt live = Some n"
    using before by (auto simp: infer_live_rt_sides_Ok)
  have "yf = Some (rt_factors YesLeg (side_flip s))" "nf = Some (rt_factors NoLeg (side_flip s))"
    using yf nf s ys ns by (simp_all add: opposite_side_factors_def)
  then obtain i1 yo no where i1: "add_index base 1 = Ok i1"
    and yo: "commitments secp (yes_reissuance_token_id params) (rt_factors YesLeg (side_flip s))
        = Ok (out_asset yo, out_value yo)"
    and no: "commitments secp (no_reissuance_token_id params) (rt_factors NoLeg (side_flip s))
        = Ok (out_asset no, out_value no)"
    and p: "pair = [continuation (env_elements env) tx base (fst (ys, ns)) yo,
        continuation (env_elements env) tx i1 (snd (ys, ns)) no]"
    using pair secp by (auto simp: push_rt_pair_Ok)
  have sib: "siblings_consecutive (OutPoint t base) (OutPoint t i1) (OutPoint t i2) = Ok ()"
    if "add_index base 2 = Ok i2" for t i2
    using i1 that by (simp add: siblings_consecutive_def add_index_def result_simps)
  show ?thesis
    using infer_flipped [OF ys(1) yo] infer_flipped [OF ns(1) no] slots rest sib
    by (auto simp: s p live_from_simps infer_live_rt_sides_Ok)
qed

text \<open>C8.  Along a chain of spends the reissuance-token schedule alternates and stays readable:
  when an accepted spend leaves the market trading, the sides inferred from the old outputs
  are some common side, the sides inferred from the new outputs are its opposite, the new
  outputs are siblings of one transaction, and with open pairs they are the three
  consecutive outputs the next spend will demand.\<close>

theorem rt_sides_alternate:
  assumes "interpret_binary_market_spend_with_compiled env compiled before live tx = Ok i"
    and "interp_after i = Trading q"
  shows "\<exists>s y n.
    infer_live_rt_sides (env_secp env) (compiled_params compiled) before live
      = Ok \<lparr>side_yes = Some s, side_no = Some s\<rparr> \<and>
    infer_live_rt_sides (env_secp env) (compiled_params compiled) (interp_after i)
        (live_from_market_continuations (continuations i))
      = Ok \<lparr>side_yes = Some (side_flip s), side_no = Some (side_flip s)\<rparr> \<and>
    yes_rt (live_from_market_continuations (continuations i)) = Some y \<and>
    no_rt (live_from_market_continuations (continuations i)) = Some n \<and>
    txid (outpoint y) = txid (outpoint n) \<and>
    (q = 0 \<or> (\<exists>c. collateral (live_from_market_continuations (continuations i)) = Some c \<and>
       siblings_consecutive (outpoint y) (outpoint n) (outpoint c) = Ok ()))"
proof -
  let ?params = "compiled_params compiled"
  obtain e layout sides base out_b yes tokens op full where
    e: "economics_new (base_payout ?params) = Ok e"
    and sides: "infer_live_rt_sides (env_secp env) ?params before live = Ok sides"
    and path: "path_for (coordinator_for_state before) op full = Some (layout_path layout)"
    and dec: "interpret_decoded_action env ?params e compiled before live sides
      tx layout base out_b yes tokens = Ok i"
    using interpret_decoded [OF assms(1)] by metis
  obtain ap where
    act: "interpret_action env ?params before sides tx (layout_path layout) base out_b
      yes tokens = Ok (interp_action i)"
    and ap: "economics_apply e before (interp_action i) = Ok ap" "new_state ap = Trading q"
    and out: "verify_outputs env ?params compiled tx layout before live sides ap out_b
      tokens = Ok (continuations i)"
    using dec assms(2) by (auto simp: interpret_decoded_action_Ok)
  obtain ys ns yf nf pair rest where tr: "path_operation (layout_path layout) \<in> {OpIssue, OpCancel}"
    "opposite_side_factors YesLeg (yes_rt live) (side_yes sides) = Ok yf"
    "opposite_side_factors NoLeg (no_rt live) (side_no sides) = Ok nf"
    "push_rt_pair env compiled ?params tx out_b ys ns yf nf = Ok pair"
    "(ys, ns) \<in> {(SlotUnresolvedYesRt, SlotUnresolvedNoRt), (SlotDormantYesRt, SlotDormantNoRt)}"
    "continuations i = pair @ rest"
    "rest = [] \<and> q = 0 \<or> (\<exists>i2 o'. add_index out_b 2 = Ok i2 \<and>
        rest = [continuation (env_elements env) tx i2 SlotUnresolvedCollateral o'])"
    using trading_outputs [OF e act ap out] by blast
  obtain m where m: "before = Trading m" using trading_paths [OF path tr(1)] by blast
  have "rest = [] \<or> (\<exists>i2 o'. add_index out_b 2 = Ok i2 \<and>
        rest = [continuation (env_elements env) tx i2 SlotUnresolvedCollateral o'])"
    and "rest = [] \<longrightarrow> q = 0" using tr(7) by auto
  with next_sides [OF sides [unfolded m] refl tr(2-5) this(1), where q = q]
  show ?thesis using sides by (auto simp: m assms(2) tr(6))
qed

theorem rt_sides_alternate_witness:
  "\<exists>s. infer_live_rt_sides ex_secp ex_params (Trading 0) ex_live
      = Ok \<lparr>side_yes = Some s, side_no = Some s\<rparr> \<and>
    infer_live_rt_sides (env_secp ex_env) (compiled_params ex_compiled) (interp_after ex_result)
        (live_from_market_continuations (continuations ex_result))
      = Ok \<lparr>side_yes = Some (side_flip s), side_no = Some (side_flip s)\<rparr>"
proof -
  have "interp_after ex_result = Trading 5" by (simp add: ex_result_def)
  from rt_sides_alternate [OF ex_interpreted this]
  show ?thesis by (auto simp: ex_env_def ex_compiled_def)
qed

end
