(* ===== verification/Interpreter_Panic.thy ===== *)
theory Interpreter_Panic
  imports Interpreter_Props
begin

text \<open>
  Absence of panics in the confirmed-spend interpreter: the only unchecked slice accesses
  are \<open>transaction.input[..]\<close>, and every one of them follows a check that the index is in
  range.
\<close>

named_theorems no_panic \<open>operations that never index out of bounds\<close>

abbreviation panic_free :: "(InterpretError, 'a) result \<Rightarrow> bool" where
  "panic_free m \<equiv> m \<noteq> Err IndexPanic"

lemma panic_free_rbind [simp]:
  "rbind m f = Err IndexPanic \<longleftrightarrow> m = Err IndexPanic \<or> (\<exists>x. m = Ok x \<and> f x = Err IndexPanic)"
  by (cases m) auto

lemma panic_free_basic [no_panic]:
  "panic_free (Ok x)"
  "e \<noteq> IndexPanic \<Longrightarrow> panic_free (ok_or v e)"
  "(\<And>e. g e \<noteq> IndexPanic) \<Longrightarrow> panic_free (map_err g m)"
  by (auto simp: ok_or_eq_Err map_err_def split: sum.splits)

lemma panic_free_rfold:
  assumes "\<And>x s. x \<in> set xs \<Longrightarrow> panic_free (f x s)"
  shows "panic_free (rfold f xs s)"
  using assms by (induction xs arbitrary: s) auto

lemma panic_free_access [no_panic]:
  "panic_free (add_index i k)"
  "panic_free (output_at tx i)"
  "panic_free (check_input tx i p)"
  "panic_free (locate_input tx p)"
  by (auto simp: add_index_def output_at_def check_input_def locate_input_def no_panic
      split: list.splits)

lemma panic_free_decoders [no_panic]:
  "panic_free (decode_u8 simp v)"
  "panic_free (decode_u32 simp v)"
  "panic_free (decode_bool simp v)"
  "panic_free (decode_signature simp v)"
  by (auto simp: decode_u8_def decode_u32_def decode_bool_def decode_signature_def no_panic
      split: option.splits list.splits)

lemma panic_free_resolve [no_panic]: "panic_free (decode_resolve simp v)"
  by (auto simp: decode_resolve_def no_panic)

lemma panic_free_action [no_panic]: "panic_free (decode_market_action simp v)"
  by (auto simp: decode_market_action_def Let_def no_panic split: option.splits)

lemma panic_free_witness [no_panic]: "panic_free (decode_market_witness_values simp vs s)"
proof -
  have "panic_free (decode_witness_step simp v st)" for v st
    by (auto simp: decode_witness_step_def no_panic)
  then show ?thesis
    by (auto simp: decode_market_witness_values_def no_panic intro!: panic_free_rfold)
qed

lemma panic_free_live [no_panic]:
  "panic_free (check_live_slot c o' s)"
  "panic_free (check_explicit_live o' a v)"
  "panic_free (check_confidential_rt o')"
  by (auto simp: check_live_slot_def check_explicit_live_def check_confidential_rt_def no_panic
      split: Asset.splits Value.splits)

lemma panic_free_validate [no_panic]: "panic_free (validate_live_outputs c p st live)"
  by (cases st) (auto simp: validate_live_outputs_def validate_live_terminal_def no_panic)

lemma panic_free_sides [no_panic]:
  "panic_free (infer_live_rt_sides secp p st live)"
  "panic_free (opposite_side_factors leg t s)"
  by (auto simp: infer_live_rt_sides_def opposite_side_factors_def no_panic
      split: BinaryMarketState.splits option.splits)

lemma panic_free_burns [no_panic]:
  "panic_free (token_burn_amount tx i a)"
  "panic_free (check_rt_burn secp tx i a f)"
  by (auto simp: token_burn_amount_def check_rt_burn_def no_panic split: option.splits)

lemma panic_free_burn_check [no_panic]: "panic_free (check_token_burn tx i a v)"
  by (auto simp: check_token_burn_def no_panic)

lemma panic_free_shape [no_panic]:
  "panic_free (cancellation_is_full p tx b)"
  "panic_free (redemption_details p st tx b)"
  by (auto simp: cancellation_is_full_def redemption_details_def Let_def no_panic
      split: option.splits BinaryMarketState.splits)

lemma panic_free_issuance [no_panic]: "panic_free (issuance_amount el tx i a r n)"
  by (auto simp: issuance_amount_def no_panic split: Value.splits)

lemma panic_free_interpret_action [no_panic]:
  "panic_free (interpret_action env p st sides tx path i b y t)"
  by (cases path) (auto simp: interpret_action_def interpret_issuance_def interpret_cancellation_def
      check_expiry_lock_def Let_def no_panic split: BinaryMarketState.splits)

lemma panic_free_push [no_panic]:
  "panic_free (push_rt_continuation env c tx i s a f out)"
  "panic_free (push_collateral_continuation env c tx i s a v out)"
  by (auto simp: push_rt_continuation_def push_collateral_continuation_def no_panic)

lemma panic_free_outputs [no_panic]:
  "panic_free (verify_outputs env p c tx layout st live sides ap b t)"
proof -
  have pair: "panic_free (push_rt_pair env c p tx b ys ns yf nf)"
    "panic_free (check_rt_pair_burn (env_secp env) p tx b yf nf)" for ys ns yf nf
    by (auto simp: push_rt_pair_def check_rt_pair_burn_def no_panic)
  have amounts: "panic_free (trading_collateral (new_state ap) p)"
    "panic_free (terminal_slot_amount (new_state ap))" "panic_free (action_outcome (transition ap))"
    by (auto simp: trading_collateral_def terminal_slot_amount_def action_outcome_def no_panic
        split: BinaryMarketState.splits BinaryMarketTransition.splits)
  show ?thesis
    by (cases "layout_path layout")
      (auto simp: verify_outputs_def Let_def no_panic pair amounts split: option.splits)
qed


section \<open>Unchecked input accesses\<close>










end
