(* ===== verification/Effects.thy ===== *)
theory Effects
  imports Prelude
begin

text \<open>
  Stateful fallible operations: a computation takes a world and returns its result together with
  the changed world, which is kept when the result is an error.
\<close>

text \<open>
  The outcome of a redb commit.  A failed commit is ambiguous: the transaction may or may not
  have become durable.
\<close>

datatype commit_result = Committed | CommitFailed (applied: bool)

type_synonym ('w, 'e, 'a) op = "'w \<Rightarrow> ('e, 'a) result \<times> 'w"

definition op_bind :: "('w, 'e, 'a) op \<Rightarrow> ('a \<Rightarrow> ('w, 'e, 'b) op) \<Rightarrow> ('w, 'e, 'b) op" where
  "op_bind m f w = (case m w of (Inl e, w') \<Rightarrow> (Err e, w') | (Inr a, w') \<Rightarrow> f a w')"

definition op_result :: "('e, 'a) result \<Rightarrow> ('w, 'e, 'a) op" where
  "op_result r w = (r, w)"

definition op_map_err :: "('e \<Rightarrow> 'f) \<Rightarrow> ('w, 'e, 'a) op \<Rightarrow> ('w, 'f, 'a) op" where
  "op_map_err f m w = (case m w of (r, w') \<Rightarrow> (map_err f r, w'))"

named_theorems op_simps \<open>inversion of stateful operations\<close>

lemma op_bind_eq_Ok [op_simps]:
  "op_bind m f w = (Ok b, w'') \<longleftrightarrow> (\<exists>a w'. m w = (Ok a, w') \<and> f a w' = (Ok b, w''))"
  by (auto simp: op_bind_def split: prod.splits sum.splits)

lemma op_bind_eq_Err [op_simps]:
  "op_bind m f w = (Err e, w'') \<longleftrightarrow>
     m w = (Err e, w'') \<or> (\<exists>a w'. m w = (Ok a, w') \<and> f a w' = (Err e, w''))"
  by (auto simp: op_bind_def split: prod.splits sum.splits)

lemma op_bind_result [simp]:
  "op_bind (op_result (Ok a)) f w = f a w" "op_bind (op_result (Err e)) f w = (Err e, w)"
  by (simp_all add: op_bind_def op_result_def)

lemma op_result_eq [op_simps]: "op_result r w = (r', w') \<longleftrightarrow> r = r' \<and> w' = w"
  by (auto simp: op_result_def)

lemma op_map_err_eq_Ok [op_simps]: "op_map_err f m w = (Ok a, w') \<longleftrightarrow> m w = (Ok a, w')"
  by (auto simp: op_map_err_def map_err_eq_Ok split: prod.splits)

text \<open>An invariant of the world that every step of a sequence keeps.\<close>

definition op_keeps :: "('w \<Rightarrow> bool) \<Rightarrow> ('w, 'e, 'a) op \<Rightarrow> bool" where
  "op_keeps I m \<longleftrightarrow> (\<forall>w. I w \<longrightarrow> I (snd (m w)))"

lemma op_keepsD: "op_keeps I m \<Longrightarrow> I w \<Longrightarrow> m w = (r, w') \<Longrightarrow> I w'"
  by (metis op_keeps_def snd_conv)

lemma op_keeps_result [intro]: "op_keeps I (op_result r)"
  by (simp add: op_keeps_def op_result_def)

lemma op_keeps_map_err [intro]: "op_keeps I m \<Longrightarrow> op_keeps I (op_map_err f m)"
  by (simp add: op_keeps_def op_map_err_def split_beta)

lemma op_keeps_bind [intro]:
  assumes "op_keeps I m" "\<And>a. op_keeps I (f a)"
  shows "op_keeps I (op_bind m f)"
  unfolding op_keeps_def
proof (intro allI impI)
  fix w assume "I w"
  then have "I (snd (m w))" using assms(1) by (simp add: op_keeps_def)
  then show "I (snd (op_bind m f w))"
    using assms(2) by (cases "m w"; cases "fst (m w)") (auto simp: op_bind_def op_keeps_def)
qed

end
