(* ===== verification/Rfq_Model.thy ===== *)
theory Rfq_Model
  imports Elements_Tx
begin

text \<open>
  The domain model of the request-for-quote provider (\<open>crates/deadcat-rfq-provider/src/model.rs\<close>):
  provider identity, inventory items, fee policy, transaction fees, reservation plans and the
  states of reservations and inventory.  Fixed 32-byte identifiers are byte strings and
  \<open>UnixMillis\<close> is its \<open>u64\<close>.  \<open>XOnlyPublicKey\<close> values are their 32-byte serialization.
\<close>

unbundle bit_operations_syntax

type_synonym fixed_id = bytes
type_synonym unix_millis = u64

definition MAX_RESERVATION_INPUTS :: nat where
  "MAX_RESERVATION_INPUTS = 64"

definition MAX_SETTLEMENT_BYTES :: nat where
  "MAX_SETTLEMENT_BYTES = 1000000"

record ProviderIdentity =
  provider :: fixed_id
  genesis_hash :: bytes
  identity_policy_asset :: asset_id

record InventoryItem =
  item_outpoint :: OutPoint
  item_asset :: asset_id
  item_amount :: u64
  item_wallet_locator :: bytes
  item_internal_key :: bytes
  item_binding :: fixed_id

datatype FeeSizeMetric = RegularVbytes | DiscountVbytes

record FeePolicy =
  policy_asset :: asset_id
  minimum_sats_per_kvb :: u64
  minimum_absolute_fee :: u64
  maximum_transaction_weight :: u64
  size_metric :: FeeSizeMetric

record TransactionFee =
  fee_policy_asset :: asset_id
  fee_amount :: u64
  fee_weight :: u64
  regular_vsize :: u64
  discount_vsize :: u64

record ReservationPlan =
  plan_owner :: fixed_id
  plan_idempotency_key :: fixed_id
  plan_request_digest :: fixed_id
  plan_quote_commitment :: fixed_id
  plan_outpoints :: "OutPoint list"
  plan_accept_before :: unix_millis
  plan_fee_policy :: FeePolicy

record ReservationAccess =
  access_reservation_id :: fixed_id
  access_owner :: fixed_id

datatype ReleaseReason = ReasonExpired | ClientCancelled | ProviderRejected

datatype ReservationState =
    StateReserved
  | StateReleased ReleaseReason unix_millis
  | StateCommitted fixed_id unix_millis
  | StateSigned fixed_id fixed_id unix_millis unix_millis

record ReservationView =
  view_id :: fixed_id
  view_owner :: fixed_id
  view_quote_commitment :: fixed_id
  view_outpoints :: "OutPoint list"
  view_created_at :: unix_millis
  view_accept_before :: unix_millis
  view_fee_policy :: FeePolicy
  view_state :: ReservationState

datatype InventoryState =
    Available
  | InvReserved fixed_id
  | InvCommitted fixed_id fixed_id

record InventoryView =
  view_item :: InventoryItem
  view_inventory_state :: InventoryState

record SigningTarget =
  target_outpoint :: OutPoint
  target_wallet_locator :: bytes
  target_internal_key :: bytes
  target_inventory_binding :: fixed_id

record SigningJob =
  job_reservation_id :: fixed_id
  job_commitment :: fixed_id
  job_pre_sign_payload :: bytes
  job_fee :: TransactionFee
  job_targets :: "SigningTarget list"

record SignedArtifact =
  signed_reservation_id :: fixed_id
  signed_commitment :: fixed_id
  signed_digest :: fixed_id
  signed_bytes :: bytes

datatype RecoveryAction =
    SignCommittedExact SigningJob
  | ReplaySignedExact SignedArtifact

datatype ModelError =
    InvalidInventoryOutpoint OutPoint
  | ZeroInventoryAmount
  | InvalidWalletKeyLocator
  | ZeroMinimumFeeRate
  | ZeroMaximumTransactionWeight
  | ZeroTransactionSize
  | InconsistentTransactionSize u64 u64 u64
  | EmptyReservation
  | TooManyReservationInputs nat nat
  | DuplicateReservationOutpoint OutPoint

datatype FeePolicyViolation =
    FeeWrongPolicyAsset asset_id asset_id
  | TransactionOverweight u64 u64
  | RequiredFeeOverflow
  | FeeBelowMinimum u64 u64

definition wallet_key_locator_new :: "bytes \<Rightarrow> (ModelError, bytes) result" where
  "wallet_key_locator_new bs =
     (if bs = replicate 32 0 then Err InvalidWalletKeyLocator else Ok bs)"

text \<open>\<open>OutPoint::is_null\<close> of the \<open>elements\<close> crate, and the issuance and peg-in flag bits.\<close>

definition outpoint_is_null :: "OutPoint \<Rightarrow> bool" where
  "outpoint_is_null p \<longleftrightarrow> p = OutPoint (replicate 32 0) 0xffffffff"

definition invalid_outpoint :: "OutPoint \<Rightarrow> bool" where
  "invalid_outpoint p \<longleftrightarrow> outpoint_is_null p \<or> vout p AND 0xc0000000 \<noteq> 0"

definition inventory_item_new ::
    "OutPoint \<Rightarrow> asset_id \<Rightarrow> u64 \<Rightarrow> bytes \<Rightarrow> bytes \<Rightarrow> fixed_id \<Rightarrow> (ModelError, InventoryItem) result" where
  "inventory_item_new p asset amount locator key binding =
     (if invalid_outpoint p then Err (InvalidInventoryOutpoint p)
      else if amount = 0 then Err ZeroInventoryAmount
      else Ok \<lparr>item_outpoint = p, item_asset = asset, item_amount = amount,
        item_wallet_locator = locator, item_internal_key = key, item_binding = binding\<rparr>)"

definition fee_policy_new ::
    "asset_id \<Rightarrow> u64 \<Rightarrow> u64 \<Rightarrow> u64 \<Rightarrow> FeeSizeMetric \<Rightarrow> (ModelError, FeePolicy) result" where
  "fee_policy_new asset rate absolute weight metric =
     (if rate = 0 then Err ZeroMinimumFeeRate
      else if weight = 0 then Err ZeroMaximumTransactionWeight
      else Ok \<lparr>policy_asset = asset, minimum_sats_per_kvb = rate, minimum_absolute_fee = absolute,
        maximum_transaction_weight = weight, size_metric = metric\<rparr>)"

definition policy_vsize :: "FeePolicy \<Rightarrow> TransactionFee \<Rightarrow> u64" where
  "policy_vsize policy tx = (case size_metric policy of
       RegularVbytes \<Rightarrow> regular_vsize tx | DiscountVbytes \<Rightarrow> discount_vsize tx)"

text \<open>The intermediate products are 128-bit values.\<close>

definition required_fee :: "FeePolicy \<Rightarrow> TransactionFee \<Rightarrow> (FeePolicyViolation, u64) result" where
  "required_fee policy tx =
     (if fee_policy_asset tx \<noteq> policy_asset policy
      then Err (FeeWrongPolicyAsset (policy_asset policy) (fee_policy_asset tx))
      else if fee_weight tx > maximum_transaction_weight policy
      then Err (TransactionOverweight (maximum_transaction_weight policy) (fee_weight tx))
      else
        rbind (ok_or (checked_mul (ucast (minimum_sats_per_kvb policy) :: 128 word)
            (ucast (policy_vsize policy tx))) RequiredFeeOverflow) (\<lambda>numerator.
        rbind (ok_or (checked_add numerator 999) RequiredFeeOverflow) (\<lambda>rounded.
        rbind (ok_or (try_from_nat (unat (rounded div 1000)) :: u64 option) RequiredFeeOverflow)
          (\<lambda>rate_fee.
        Ok (max (minimum_absolute_fee policy) rate_fee)))))"

definition fee_policy_validate :: "FeePolicy \<Rightarrow> TransactionFee \<Rightarrow> (FeePolicyViolation, unit) result" where
  "fee_policy_validate policy tx =
     rbind (required_fee policy tx) (\<lambda>required.
     if fee_amount tx < required then Err (FeeBelowMinimum required (fee_amount tx)) else Ok ())"

definition transaction_fee_new ::
    "asset_id \<Rightarrow> u64 \<Rightarrow> u64 \<Rightarrow> u64 \<Rightarrow> u64 \<Rightarrow> (ModelError, TransactionFee) result" where
  "transaction_fee_new asset amount weight regular discount =
     (if weight = 0 \<or> regular = 0 \<or> discount = 0 then Err ZeroTransactionSize
      else
        let expected = weight div 4 + (if weight mod 4 = 0 then 0 else 1) in
        if regular \<noteq> expected \<or> discount > regular
        then Err (InconsistentTransactionSize weight regular discount)
        else Ok \<lparr>fee_policy_asset = asset, fee_amount = amount, fee_weight = weight,
          regular_vsize = regular, discount_vsize = discount\<rparr>)"

text \<open>\<open>windows(2).find_map(..)\<close>: the first element equal to its successor.\<close>

fun adjacent_duplicate :: "'a list \<Rightarrow> 'a option" where
  "adjacent_duplicate (x # y # xs) = (if x = y then Some x else adjacent_duplicate (y # xs))"
| "adjacent_duplicate _ = None"

definition plan_with_request_digest ::
    "fixed_id \<Rightarrow> fixed_id \<Rightarrow> fixed_id \<Rightarrow> fixed_id \<Rightarrow> OutPoint list \<Rightarrow> unix_millis \<Rightarrow> FeePolicy \<Rightarrow>
     (ModelError, ReservationPlan) result" where
  "plan_with_request_digest owner key digest commitment outpoints accept_before policy =
     (if outpoints = [] then Err EmptyReservation
      else if length outpoints > MAX_RESERVATION_INPUTS
      then Err (TooManyReservationInputs MAX_RESERVATION_INPUTS (length outpoints))
      else
        let sorted_outpoints = sort outpoints in
        case adjacent_duplicate sorted_outpoints of
          Some duplicate \<Rightarrow> Err (DuplicateReservationOutpoint duplicate)
        | None \<Rightarrow> Ok \<lparr>plan_owner = owner, plan_idempotency_key = key, plan_request_digest = digest,
            plan_quote_commitment = commitment, plan_outpoints = sorted_outpoints,
            plan_accept_before = accept_before, plan_fee_policy = policy\<rparr>)"


section \<open>The fee floor\<close>

lemma unat_ucast_128 [simp]: "unat (ucast (x :: u64) :: 128 word) = unat x"
  using unat_less_pow [of x] by (simp add: unsigned_ucast_eq take_bit_nat_eq_self)

lemma u64_product_fits: "unat (x :: u64) * unat (y :: u64) + 999 < 2 ^ 128"
proof -
  have "unat x \<le> 2 ^ 64 - 1" "unat y \<le> 2 ^ 64 - 1"
    using unat_less_pow [of x] unat_less_pow [of y] by simp_all
  then have "unat x * unat y \<le> (2 ^ 64 - 1) * (2 ^ 64 - 1)" by (rule mult_le_mono)
  then show ?thesis by simp
qed

lemma required_fee_eq:
  "required_fee policy tx =
     (if fee_policy_asset tx \<noteq> policy_asset policy
      then Err (FeeWrongPolicyAsset (policy_asset policy) (fee_policy_asset tx))
      else if fee_weight tx > maximum_transaction_weight policy
      then Err (TransactionOverweight (maximum_transaction_weight policy) (fee_weight tx))
      else rbind (ok_or (try_from_nat ((unat (minimum_sats_per_kvb policy) *
          unat (policy_vsize policy tx) + 999) div 1000)) RequiredFeeOverflow)
        (\<lambda>rate_fee. Ok (max (minimum_absolute_fee policy) rate_fee)))"
proof -
  let ?n = "unat (minimum_sats_per_kvb policy) * unat (policy_vsize policy tx)"
  have fits: "?n + 999 < 2 ^ 128" by (rule u64_product_fits)
  then obtain p where p: "checked_mul (ucast (minimum_sats_per_kvb policy) :: 128 word)
      (ucast (policy_vsize policy tx)) = Some p" "unat p = ?n"
    by (cases "checked_mul (ucast (minimum_sats_per_kvb policy) :: 128 word)
        (ucast (policy_vsize policy tx))") (auto simp: checked_mul_eq_None checked_simps)
  obtain r where r: "checked_add p 999 = Some r" "unat r = ?n + 999"
    using fits p(2) by (cases "checked_add p 999") (auto simp: checked_add_eq_None checked_simps)
  show ?thesis using p r by (simp add: required_fee_def unat_div)
qed

text \<open>C19.  A transaction meets the provider's fee policy exactly when it pays in the policy
  asset, is not overweight, and its fee is at least both the absolute floor and the rate floor:
  the 128-bit ceiling division neither overflows nor rounds the floor down, and a required fee
  beyond 64 bits is never accepted.\<close>

theorem fee_policy_exact:
  "fee_policy_validate policy tx = Ok () \<longleftrightarrow>
     fee_policy_asset tx = policy_asset policy \<and>
     fee_weight tx \<le> maximum_transaction_weight policy \<and>
     minimum_absolute_fee policy \<le> fee_amount tx \<and>
     unat (minimum_sats_per_kvb policy) * unat (policy_vsize policy tx) \<le> 1000 * unat (fee_amount tx)"
proof -
  let ?n = "unat (minimum_sats_per_kvb policy) * unat (policy_vsize policy tx)"
  have ceil: "(?n + 999) div 1000 \<le> a \<longleftrightarrow> ?n \<le> 1000 * a" for a :: nat by linarith
  show ?thesis
  proof (cases "try_from_nat ((?n + 999) div 1000) :: u64 option")
    case None
    then have "2 ^ 64 \<le> (?n + 999) div 1000" by (simp add: try_from_nat_def split: if_splits)
    then have "\<not> ?n \<le> 1000 * unat (fee_amount tx)"
      using unat_less_pow [of "fee_amount tx"] ceil [of "unat (fee_amount tx)"] by simp
    then show ?thesis using None by (auto simp: fee_policy_validate_def required_fee_eq)
  next
    case (Some f)
    then have "unat f = (?n + 999) div 1000" by (simp add: checked_simps)
    then have "f \<le> fee_amount tx \<longleftrightarrow> ?n \<le> 1000 * unat (fee_amount tx)"
      using ceil by (simp add: word_le_nat_alt)
    then show ?thesis using Some
      by (auto simp: fee_policy_validate_def required_fee_eq not_less less_max_iff_disj)
  qed
qed

end
