(* ===== verification/Rfq_Quote.thy ===== *)
theory Rfq_Quote
  imports Rfq_Model
begin

text \<open>
  Firm quotes (\<open>crates/deadcat-rfq-provider/src/quote.rs\<close>): requests and their validation, the
  directed-pair catalog, rational pricing with exact integer rounding, the symbolic transaction
  contribution, the draft check and the quote commitment.  Postcard encoding, SHA-256 and
  \<open>Script::is_provably_unspendable\<close> are parameters (\<open>quote_ops\<close>).  Public keys are their
  serialization.
\<close>

section \<open>Requests\<close>

definition DEFAULT_MAX_QUOTE_INPUTS :: nat where
  "DEFAULT_MAX_QUOTE_INPUTS = 8"

definition DEFAULT_QUOTE_LIFETIME_MILLIS :: u64 where
  "DEFAULT_QUOTE_LIFETIME_MILLIS = 30000"

definition DEFAULT_MAX_LIVE_QUOTES_PER_OWNER :: nat where
  "DEFAULT_MAX_LIVE_QUOTES_PER_OWNER = 4"

definition DEFAULT_SELECTION_SEARCH_NODE_BUDGET :: nat where
  "DEFAULT_SELECTION_SEARCH_NODE_BUDGET = 250000"

definition MAX_QUOTE_RECIPIENT_SCRIPT_BYTES :: nat where
  "MAX_QUOTE_RECIPIENT_SCRIPT_BYTES = 10000"

record QuoteContext =
  context_chain :: ChainIdentity
  context_market :: ContractId
  context_policy_asset :: asset_id

record AssetAmount =
  aa_asset :: asset_id
  aa_amount :: u64

record QuoteRecipient =
  recipient_script :: bytes
  recipient_blinding_key :: bytes

datatype QuoteKind =
    ExactIn AssetAmount asset_id u64
  | ExactOut asset_id u64 AssetAmount

record FirmQuoteRequest =
  request_context :: QuoteContext
  request_kind :: QuoteKind
  request_recipient :: QuoteRecipient
  maximum_input_asset_venue_fee :: u64

datatype QuoteModelError = ZeroAmount | SameAssetPair | InvalidRecipientScript | ZeroRate

datatype QuoteAdmissionError =
    MarketNotConfigured
  | PairNotConfigured
  | FillOutsideConfiguredRange
  | VenueFeeLimitExceeded
  | InvalidPricingDecision
  | FeeConsumesInput
  | MinimumOutputNotMet
  | MaximumInputExceeded
  | QuoteAmountOverflow
  | RoundedAmountIsZero
  | InsufficientInventory
  | InventoryTooFragmented
  | SelectionSearchBudgetExceeded
  | TooManyProviderInputs
  | MissingChangeDestination
  | ReusedProviderDestination
  | InvalidDerivedQuote

text \<open>\<open>From<QuoteModelError> for QuoteAdmissionError\<close>.\<close>

definition admission_of_model :: "QuoteModelError \<Rightarrow> QuoteAdmissionError" where
  "admission_of_model e = (case e of ZeroAmount \<Rightarrow> RoundedAmountIsZero | _ \<Rightarrow> InvalidDerivedQuote)"

definition asset_amount_new :: "asset_id \<Rightarrow> u64 \<Rightarrow> (QuoteModelError, AssetAmount) result" where
  "asset_amount_new asset amount =
     (if amount = 0 then Err ZeroAmount else Ok \<lparr>aa_asset = asset, aa_amount = amount\<rparr>)"

definition recipient_validate ::
    "(bytes \<Rightarrow> bool) \<Rightarrow> QuoteRecipient \<Rightarrow> (QuoteModelError, unit) result" where
  "recipient_validate unspendable r =
     (if recipient_script r = [] \<or> unspendable (recipient_script r)
         \<or> length (recipient_script r) > MAX_QUOTE_RECIPIENT_SCRIPT_BYTES
      then Err InvalidRecipientScript else Ok ())"

definition kind_bounds :: "QuoteKind \<Rightarrow> asset_id \<times> u64 \<times> asset_id \<times> u64" where
  "kind_bounds k = (case k of
       ExactIn inp output_asset minimum_output \<Rightarrow> (aa_asset inp, aa_amount inp, output_asset, minimum_output)
     | ExactOut input_asset maximum_input out \<Rightarrow> (input_asset, maximum_input, aa_asset out, aa_amount out))"

definition kind_validate :: "QuoteKind \<Rightarrow> (QuoteModelError, QuoteKind) result" where
  "kind_validate k =
     (case kind_bounds k of (input_asset, input_bound, output_asset, output_bound) \<Rightarrow>
        if input_asset = output_asset then Err SameAssetPair
        else if input_bound = 0 \<or> output_bound = 0 then Err ZeroAmount
        else Ok k)"

definition kind_pair :: "QuoteKind \<Rightarrow> asset_id \<times> asset_id" where
  "kind_pair k = (case k of
       ExactIn inp output_asset _ \<Rightarrow> (aa_asset inp, output_asset)
     | ExactOut input_asset _ out \<Rightarrow> (input_asset, aa_asset out))"

definition firm_quote_request_new ::
    "(bytes \<Rightarrow> bool) \<Rightarrow> QuoteContext \<Rightarrow> QuoteKind \<Rightarrow> QuoteRecipient \<Rightarrow> u64 \<Rightarrow>
     (QuoteModelError, FirmQuoteRequest) result" where
  "firm_quote_request_new unspendable context kind recipient fee =
     rbind (recipient_validate unspendable recipient) (\<lambda>_.
     rbind (kind_validate kind) (\<lambda>k.
     Ok \<lparr>request_context = context, request_kind = k, request_recipient = recipient,
       maximum_input_asset_venue_fee = fee\<rparr>))"

definition request_validate ::
    "(bytes \<Rightarrow> bool) \<Rightarrow> FirmQuoteRequest \<Rightarrow> (QuoteAdmissionError, unit) result" where
  "request_validate unspendable request =
     rbind (map_err admission_of_model (kind_validate (request_kind request))) (\<lambda>_.
     map_err admission_of_model (recipient_validate unspendable (request_recipient request)))"


section \<open>Configuration\<close>

record BinaryMarketAssets =
  assets_collateral :: asset_id
  assets_yes :: asset_id
  assets_no :: asset_id

record AmountRange =
  range_minimum :: u64
  range_maximum :: u64

record PairLimits =
  limits_input :: AmountRange
  limits_output :: AmountRange
  maximum_provider_inputs :: nat
  minimum_positive_change :: u64
  selection_search_node_budget :: nat

record PairRule =
  rule_input_asset :: asset_id
  rule_output_asset :: asset_id
  rule_limits :: PairLimits

record MarketQuoteConfig =
  config_context :: QuoteContext
  config_assets :: BinaryMarketAssets
  config_pairs :: "PairRule list"

datatype QuoteConfigurationError =
    MarketAssetsNotDistinct
  | InvalidMarketId ContractId
  | NoEnabledPairs
  | NoMarkets
  | InvalidAmountRange u64 u64
  | InvalidProviderInputLimit nat nat
  | UnsupportedPair asset_id asset_id
  | DuplicatePair asset_id asset_id
  | DuplicateMarket ContractId
  | ConfigWrongGenesis
  | ConfigWrongPolicyAsset
  | ZeroQuoteLifetime
  | ZeroLiveQuoteLimit
  | ZeroSelectionSearchNodeBudget
  | OwnerLimitExceedsGlobal

definition market_assets_new ::
    "asset_id \<Rightarrow> asset_id \<Rightarrow> asset_id \<Rightarrow> (QuoteConfigurationError, BinaryMarketAssets) result" where
  "market_assets_new coll yes no =
     (if coll = yes \<or> coll = no \<or> yes = no then Err MarketAssetsNotDistinct
      else Ok \<lparr>assets_collateral = coll, assets_yes = yes, assets_no = no\<rparr>)"

definition assets_contains :: "BinaryMarketAssets \<Rightarrow> asset_id \<Rightarrow> bool" where
  "assets_contains m a \<longleftrightarrow> a = assets_collateral m \<or> a = assets_yes m \<or> a = assets_no m"

definition is_launch_pair :: "BinaryMarketAssets \<Rightarrow> asset_id \<Rightarrow> asset_id \<Rightarrow> bool" where
  "is_launch_pair m input output \<longleftrightarrow>
     assets_contains m input \<and> assets_contains m output \<and> input \<noteq> output
     \<and> (input = assets_collateral m \<or> output = assets_collateral m)"

definition amount_range_new :: "u64 \<Rightarrow> u64 \<Rightarrow> (QuoteConfigurationError, AmountRange) result" where
  "amount_range_new lo hi =
     (if lo = 0 \<or> lo > hi then Err (InvalidAmountRange lo hi)
      else Ok \<lparr>range_minimum = lo, range_maximum = hi\<rparr>)"

definition range_contains :: "AmountRange \<Rightarrow> u64 \<Rightarrow> bool" where
  "range_contains r a \<longleftrightarrow> range_minimum r \<le> a \<and> a \<le> range_maximum r"

definition pair_limits_new ::
    "AmountRange \<Rightarrow> AmountRange \<Rightarrow> nat \<Rightarrow> u64 \<Rightarrow> (QuoteConfigurationError, PairLimits) result" where
  "pair_limits_new input output max_inputs min_change =
     (if max_inputs = 0 \<or> max_inputs > MAX_RESERVATION_INPUTS
      then Err (InvalidProviderInputLimit max_inputs MAX_RESERVATION_INPUTS)
      else Ok \<lparr>limits_input = input, limits_output = output, maximum_provider_inputs = max_inputs,
        minimum_positive_change = min_change,
        selection_search_node_budget = DEFAULT_SELECTION_SEARCH_NODE_BUDGET\<rparr>)"

definition launch_default :: "AmountRange \<Rightarrow> AmountRange \<Rightarrow> PairLimits" where
  "launch_default input output =
     \<lparr>limits_input = input, limits_output = output,
      maximum_provider_inputs = DEFAULT_MAX_QUOTE_INPUTS, minimum_positive_change = 0,
      selection_search_node_budget = DEFAULT_SELECTION_SEARCH_NODE_BUDGET\<rparr>"

definition with_selection_search_node_budget ::
    "PairLimits \<Rightarrow> nat \<Rightarrow> (QuoteConfigurationError, PairLimits) result" where
  "with_selection_search_node_budget limits budget =
     (if budget = 0 then Err ZeroSelectionSearchNodeBudget
      else Ok (limits\<lparr>selection_search_node_budget := budget\<rparr>))"

definition pair_key :: "PairRule \<Rightarrow> asset_id \<times> asset_id" where
  "pair_key rule = (rule_input_asset rule, rule_output_asset rule)"

text \<open>One iteration of the rule loop: the state is the set of pairs already seen.\<close>

definition check_pair_rule ::
    "BinaryMarketAssets \<Rightarrow> PairRule \<Rightarrow> (asset_id \<times> asset_id) set \<Rightarrow>
     (QuoteConfigurationError, (asset_id \<times> asset_id) set) result" where
  "check_pair_rule assets rule seen =
     (if \<not> is_launch_pair assets (rule_input_asset rule) (rule_output_asset rule)
      then Err (UnsupportedPair (rule_input_asset rule) (rule_output_asset rule))
      else if pair_key rule \<in> seen
      then Err (DuplicatePair (rule_input_asset rule) (rule_output_asset rule))
      else Ok (insert (pair_key rule) seen))"

definition sort_pairs :: "PairRule list \<Rightarrow> PairRule list" where
  "sort_pairs pairs = sort_key rule_input_asset (sort_key rule_output_asset pairs)"

definition market_config_new ::
    "QuoteContext \<Rightarrow> BinaryMarketAssets \<Rightarrow> PairRule list \<Rightarrow>
     (QuoteConfigurationError, MarketQuoteConfig) result" where
  "market_config_new context assets pairs =
     (if invalid_outpoint (creation_anchor (context_market context))
      then Err (InvalidMarketId (context_market context))
      else if pairs = [] then Err NoEnabledPairs
      else
        let sorted_pairs = sort_pairs pairs in
        rbind (rfold (check_pair_rule assets) sorted_pairs {}) (\<lambda>_.
        Ok \<lparr>config_context = context, config_assets = assets, config_pairs = sorted_pairs\<rparr>))"

definition check_market ::
    "ProviderIdentity \<Rightarrow> MarketQuoteConfig \<Rightarrow> ContractId option \<Rightarrow>
     (QuoteConfigurationError, ContractId option) result" where
  "check_market identity market previous =
     (let context = config_context market in
      if chain_genesis_hash (context_chain context) \<noteq> genesis_hash identity then Err ConfigWrongGenesis
      else if context_policy_asset context \<noteq> identity_policy_asset identity
      then Err ConfigWrongPolicyAsset
      else if previous = Some (context_market context)
      then Err (DuplicateMarket (context_market context))
      else Ok (Some (context_market context)))"

definition catalog_new ::
    "ProviderIdentity \<Rightarrow> MarketQuoteConfig list \<Rightarrow>
     (QuoteConfigurationError, MarketQuoteConfig list) result" where
  "catalog_new identity markets =
     (if markets = [] then Err NoMarkets
      else
        let sorted_markets =
              sort_key (\<lambda>m. creation_anchor (context_market (config_context m))) markets in
        rbind (rfold (check_market identity) sorted_markets None) (\<lambda>_. Ok sorted_markets))"

definition catalog_resolve ::
    "MarketQuoteConfig list \<Rightarrow> QuoteContext \<Rightarrow> asset_id \<Rightarrow> asset_id \<Rightarrow>
     (QuoteAdmissionError, MarketQuoteConfig \<times> PairRule) result" where
  "catalog_resolve markets context input output =
     rbind (ok_or (find (\<lambda>m. config_context m = context) markets) MarketNotConfigured) (\<lambda>market.
     rbind (ok_or (find (\<lambda>r. rule_input_asset r = input \<and> rule_output_asset r = output)
         (config_pairs market)) PairNotConfigured) (\<lambda>rule.
     Ok (market, rule)))"

record QuoteEnginePolicy =
  quote_lifetime_millis :: u64
  maximum_live_quotes_per_owner :: nat
  maximum_live_quotes_global :: nat
  engine_fee_policy :: FeePolicy

definition engine_policy_new ::
    "u64 \<Rightarrow> nat \<Rightarrow> nat \<Rightarrow> FeePolicy \<Rightarrow> (QuoteConfigurationError, QuoteEnginePolicy) result" where
  "engine_policy_new lifetime per_owner global policy =
     (if lifetime = 0 then Err ZeroQuoteLifetime
      else if per_owner = 0 \<or> global = 0 then Err ZeroLiveQuoteLimit
      else if per_owner > global then Err OwnerLimitExceedsGlobal
      else Ok \<lparr>quote_lifetime_millis = lifetime, maximum_live_quotes_per_owner = per_owner,
        maximum_live_quotes_global = global, engine_fee_policy = policy\<rparr>)"

definition engine_policy_launch_default :: "FeePolicy \<Rightarrow> QuoteEnginePolicy" where
  "engine_policy_launch_default policy =
     \<lparr>quote_lifetime_millis = DEFAULT_QUOTE_LIFETIME_MILLIS,
      maximum_live_quotes_per_owner = DEFAULT_MAX_LIVE_QUOTES_PER_OWNER,
      maximum_live_quotes_global = 1024, engine_fee_policy = policy\<rparr>"


section \<open>Pricing\<close>

record InventorySummary =
  balances :: "AssetAmount list"

definition summary_amount :: "InventorySummary \<Rightarrow> asset_id \<Rightarrow> u64" where
  "summary_amount s asset =
     (case find (\<lambda>b. aa_asset b = asset) (balances s) of None \<Rightarrow> 0 | Some b \<Rightarrow> aa_amount b)"

record RationalRate =
  numerator :: u64
  denominator :: u64

text \<open>The Euclidean loop of \<open>gcd\<close>; the remainder strictly decreases.\<close>

function gcd_u64 :: "u64 \<Rightarrow> u64 \<Rightarrow> u64" where
  "gcd_u64 left right = (if right = 0 then left else gcd_u64 right (left mod right))"
  by pat_completeness auto

termination gcd_u64
proof (relation "measure (\<lambda>(_, right). unat right)")
  fix left right :: u64
  assume "right \<noteq> 0"
  then have "0 < unat right" by (simp add: unat_gt_0)
  then show "((right, left mod right), left, right) \<in> measure (\<lambda>(_, right). unat right)"
    by (simp add: unat_mod)
qed simp

definition rational_rate_new :: "u64 \<Rightarrow> u64 \<Rightarrow> (QuoteModelError, RationalRate) result" where
  "rational_rate_new n d =
     (if n = 0 \<or> d = 0 then Err ZeroRate
      else let divisor = gcd_u64 n d in
        Ok \<lparr>numerator = n div divisor, denominator = d div divisor\<rparr>)"

record PricingDecision =
  pricing_rate :: RationalRate
  pricing_venue_fee :: u64
  pricing_policy_id :: fixed_id
  pricing_revision :: u64

datatype PricingSide = SideExactIn AssetAmount | SideExactOut AssetAmount

record PricingRequest =
  pricing_context :: QuoteContext
  pricing_input_asset :: asset_id
  pricing_output_asset :: asset_id
  pricing_side :: PricingSide
  pricing_inventory :: InventorySummary

definition pricing_validate :: "PricingDecision \<Rightarrow> (QuoteAdmissionError, unit) result" where
  "pricing_validate p =
     (if numerator (pricing_rate p) = 0 \<or> denominator (pricing_rate p) = 0
      then Err InvalidPricingDecision
      else if gcd_u64 (numerator (pricing_rate p)) (denominator (pricing_rate p)) \<noteq> 1
      then Err InvalidPricingDecision
      else Ok ())"

record StaticRateRule =
  rate_market :: ContractId
  rate_input_asset :: asset_id
  rate_output_asset :: asset_id
  rate_rate :: RationalRate

record StaticRationalPricing =
  static_rules :: "StaticRateRule list"
  static_policy_id :: fixed_id
  static_revision :: u64

datatype StaticPricingError =
    NoRates
  | DuplicateRate ContractId asset_id asset_id
  | RateNotConfigured
  | PricingCommitment

definition static_price ::
    "StaticRationalPricing \<Rightarrow> PricingRequest \<Rightarrow> (StaticPricingError, PricingDecision) result" where
  "static_price policy request =
     rbind (ok_or (find (\<lambda>r. rate_market r = context_market (pricing_context request)
           \<and> rate_input_asset r = pricing_input_asset request
           \<and> rate_output_asset r = pricing_output_asset request) (static_rules policy))
         RateNotConfigured) (\<lambda>rule.
     Ok \<lparr>pricing_rate = rate_rate rule, pricing_venue_fee = 0,
       pricing_policy_id = static_policy_id policy, pricing_revision = static_revision policy\<rparr>)"

record QuoteExecution =
  execution_input :: AssetAmount
  execution_output :: AssetAmount
  execution_venue_fee :: u64

text \<open>The product of two 64-bit values is computed at 128 bits, where it does not wrap.\<close>

definition multiply_divide_floor :: "u64 \<Rightarrow> u64 \<Rightarrow> u64 \<Rightarrow> (QuoteAdmissionError, u64) result" where
  "multiply_divide_floor v multiplier divisor =
     (let quotient = (ucast v * ucast multiplier :: 128 word) div ucast divisor in
      rbind (ok_or (try_from_nat (unat quotient)) QuoteAmountOverflow) (\<lambda>q.
      if q = 0 then Err RoundedAmountIsZero else Ok q))"

definition multiply_divide_ceil :: "u64 \<Rightarrow> u64 \<Rightarrow> u64 \<Rightarrow> (QuoteAdmissionError, u64) result" where
  "multiply_divide_ceil v multiplier divisor =
     (let product = (ucast v * ucast multiplier :: 128 word);
          quotient = product div ucast divisor + (if product mod ucast divisor = 0 then 0 else 1) in
      rbind (ok_or (try_from_nat (unat quotient)) QuoteAmountOverflow) (\<lambda>q.
      if q = 0 then Err RoundedAmountIsZero else Ok q))"

definition nonzero_sub :: "u64 \<Rightarrow> u64 \<Rightarrow> u64 option" where
  "nonzero_sub a b = (case checked_sub a b of
       Some d \<Rightarrow> if d \<noteq> 0 then Some d else None | None \<Rightarrow> None)"

definition execution_amounts ::
    "QuoteKind \<Rightarrow> PricingDecision \<Rightarrow> (QuoteAdmissionError, AssetAmount \<times> AssetAmount) result" where
  "execution_amounts kind pricing =
     (let fee = pricing_venue_fee pricing; rate = pricing_rate pricing in
      case kind of
        ExactIn inp output_asset minimum_output \<Rightarrow>
          rbind (ok_or (nonzero_sub (aa_amount inp) fee) FeeConsumesInput) (\<lambda>priced_input.
          rbind (multiply_divide_floor priced_input (numerator rate) (denominator rate)) (\<lambda>output_amount.
          if output_amount < minimum_output then Err MinimumOutputNotMet
          else rbind (map_err admission_of_model (asset_amount_new output_asset output_amount)) (\<lambda>out.
            Ok (inp, out))))
      | ExactOut input_asset maximum_input out \<Rightarrow>
          rbind (multiply_divide_ceil (aa_amount out) (denominator rate) (numerator rate)) (\<lambda>priced_input.
          rbind (ok_or (checked_add priced_input fee) QuoteAmountOverflow) (\<lambda>gross_input.
          if gross_input > maximum_input then Err MaximumInputExceeded
          else rbind (map_err admission_of_model (asset_amount_new input_asset gross_input)) (\<lambda>inp.
            Ok (inp, out)))))"

definition calculate_execution ::
    "(bytes \<Rightarrow> bool) \<Rightarrow> FirmQuoteRequest \<Rightarrow> PricingDecision \<Rightarrow> PairLimits \<Rightarrow>
     (QuoteAdmissionError, QuoteExecution) result" where
  "calculate_execution unspendable request pricing limits =
     rbind (request_validate unspendable request) (\<lambda>_.
     rbind (pricing_validate pricing) (\<lambda>_.
     if pricing_venue_fee pricing > maximum_input_asset_venue_fee request
     then Err VenueFeeLimitExceeded
     else rbind (execution_amounts (request_kind request) pricing) (\<lambda>(inp, out).
       if \<not> range_contains (limits_input limits) (aa_amount inp)
          \<or> \<not> range_contains (limits_output limits) (aa_amount out)
       then Err FillOutsideConfiguredRange
       else Ok \<lparr>execution_input = inp, execution_output = out,
         execution_venue_fee = pricing_venue_fee pricing\<rparr>)))"


section \<open>Contribution and draft\<close>

datatype QuoteBlinderRole = TakerPaymentInput | ProviderInput u16

datatype QuoteOutputRole = ProviderPayment | TakerReceive | ProviderChange

record QuotedProviderInput =
  qinput_id :: u16
  qinput_outpoint :: OutPoint
  qinput_witness_utxo :: TxOut
  qinput_binding :: fixed_id

record QuotedOutput =
  qoutput_id :: u16
  qoutput_role :: QuoteOutputRole
  qoutput_asset :: asset_id
  qoutput_amount :: u64
  qoutput_destination :: QuoteRecipient
  qoutput_blinder :: QuoteBlinderRole

record QuoteContribution =
  contribution_inputs :: "QuotedProviderInput list"
  contribution_outputs :: "QuotedOutput list"

record QuoteSnapshotEvidence =
  evidence_anchor_hash :: bytes
  evidence_anchor_height :: u32
  evidence_commitment :: fixed_id
  evidence_allocation_revision :: u64
  evidence_eligible_commitment :: fixed_id

record WalletOwnedOutput =
  owned_txout :: TxOut
  owned_opening :: TxOutSecrets
  owned_item :: InventoryItem

record ConfidentialDestination =
  dest_script_pubkey :: bytes
  dest_blinding_public_key :: bytes
  dest_internal_key :: bytes
  dest_wallet_locator :: bytes

record DestinationRecovery =
  recovery_internal_key :: bytes
  recovery_wallet_locator :: bytes

definition recipient_of_destination :: "ConfidentialDestination \<Rightarrow> QuoteRecipient" where
  "recipient_of_destination d =
     \<lparr>recipient_script = dest_script_pubkey d, recipient_blinding_key = dest_blinding_public_key d\<rparr>"

definition recovery_of_destination :: "ConfidentialDestination \<Rightarrow> DestinationRecovery" where
  "recovery_of_destination d =
     \<lparr>recovery_internal_key = dest_internal_key d, recovery_wallet_locator = dest_wallet_locator d\<rparr>"

definition quoted_input ::
    "nat \<times> WalletOwnedOutput \<Rightarrow> (QuoteAdmissionError, QuotedProviderInput) result" where
  "quoted_input e =
     rbind (ok_or (try_from_nat (fst e + 1)) TooManyProviderInputs) (\<lambda>id.
     Ok \<lparr>qinput_id = id, qinput_outpoint = item_outpoint (owned_item (snd e)),
       qinput_witness_utxo = owned_txout (snd e), qinput_binding = item_binding (owned_item (snd e))\<rparr>)"

definition quote_contribution ::
    "WalletOwnedOutput list \<Rightarrow> QuoteExecution \<Rightarrow> QuoteRecipient \<Rightarrow> ConfidentialDestination \<Rightarrow>
     ConfidentialDestination option \<Rightarrow> u64 \<Rightarrow> (QuoteAdmissionError, QuoteContribution) result" where
  "quote_contribution selected execution recipient provider_receive provider_change change =
     rbind (rmap quoted_input (enumerate 0 selected)) (\<lambda>inputs.
     rbind (ok_or (list_get inputs 0) InsufficientInventory) (\<lambda>first.
     let provider_blinder = ProviderInput (qinput_id first);
         payment = \<lparr>qoutput_id = 1, qoutput_role = ProviderPayment,
           qoutput_asset = aa_asset (execution_input execution),
           qoutput_amount = aa_amount (execution_input execution),
           qoutput_destination = recipient_of_destination provider_receive,
           qoutput_blinder = TakerPaymentInput\<rparr>;
         receive = \<lparr>qoutput_id = 2, qoutput_role = TakerReceive,
           qoutput_asset = aa_asset (execution_output execution),
           qoutput_amount = aa_amount (execution_output execution),
           qoutput_destination = recipient, qoutput_blinder = provider_blinder\<rparr>
     in if change = 0 then Ok \<lparr>contribution_inputs = inputs, contribution_outputs = [payment, receive]\<rparr>
        else rbind (ok_or provider_change MissingChangeDestination) (\<lambda>destination.
          Ok \<lparr>contribution_inputs = inputs, contribution_outputs = [payment, receive,
            \<lparr>qoutput_id = 3, qoutput_role = ProviderChange,
             qoutput_asset = aa_asset (execution_output execution), qoutput_amount = change,
             qoutput_destination = recipient_of_destination destination,
             qoutput_blinder = provider_blinder\<rparr>]\<rparr>)))"

record FirmQuoteDraft =
  draft_request :: FirmQuoteRequest
  draft_execution :: QuoteExecution
  draft_pricing :: PricingDecision
  draft_snapshot :: QuoteSnapshotEvidence
  draft_contribution :: QuoteContribution
  draft_receive_recovery :: DestinationRecovery
  draft_change_recovery :: "DestinationRecovery option"
  draft_selected_asset :: asset_id
  draft_selected_amount :: u64

definition selected_outpoints :: "FirmQuoteDraft \<Rightarrow> OutPoint list" where
  "selected_outpoints d = map qinput_outpoint (contribution_inputs (draft_contribution d))"

text \<open>The loop that checks the quote-local input identifiers \<open>1, 2, \<dots>\<close>.\<close>

definition check_input_id ::
    "nat \<times> QuotedProviderInput \<Rightarrow> unit \<Rightarrow> (QuoteAdmissionError, unit) result" where
  "check_input_id e _ =
     rbind (ok_or (try_from_nat (fst e + 1)) InvalidDerivedQuote) (\<lambda>id.
     ensure (qinput_id (snd e) = id) InvalidDerivedQuote)"

definition draft_validate ::
    "(bytes \<Rightarrow> bool) \<Rightarrow> FirmQuoteDraft \<Rightarrow> (QuoteAdmissionError, unit) result" where
  "draft_validate unspendable d =
     rbind (request_validate unspendable (draft_request d)) (\<lambda>_.
     rbind (pricing_validate (draft_pricing d)) (\<lambda>_.
     let execution = draft_execution d;
         inputs = contribution_inputs (draft_contribution d);
         outputs = contribution_outputs (draft_contribution d) in
     rbind (ensure (draft_selected_amount d \<noteq> 0
         \<and> draft_selected_asset d = aa_asset (execution_output execution)) InvalidDerivedQuote) (\<lambda>_.
     rbind (ok_or (checked_sub (draft_selected_amount d) (aa_amount (execution_output execution)))
         InvalidDerivedQuote) (\<lambda>change.
     rbind (ensure (inputs \<noteq> [] \<and> length inputs \<le> MAX_RESERVATION_INPUTS) InvalidDerivedQuote) (\<lambda>_.
     rbind (rfold check_input_id (enumerate 0 inputs) ()) (\<lambda>_.
     rbind (ensure (length outputs = (if change = 0 then 2 else 3)) InvalidDerivedQuote) (\<lambda>_.
     let provider_blinder = ProviderInput (qinput_id (inputs ! 0)) in
     rbind (ensure (qoutput_id (outputs ! 0) = 1 \<and> qoutput_role (outputs ! 0) = ProviderPayment
         \<and> qoutput_asset (outputs ! 0) = aa_asset (execution_input execution)
         \<and> qoutput_amount (outputs ! 0) = aa_amount (execution_input execution)
         \<and> qoutput_blinder (outputs ! 0) = TakerPaymentInput
         \<and> qoutput_id (outputs ! 1) = 2 \<and> qoutput_role (outputs ! 1) = TakerReceive
         \<and> qoutput_asset (outputs ! 1) = aa_asset (execution_output execution)
         \<and> qoutput_amount (outputs ! 1) = aa_amount (execution_output execution)
         \<and> qoutput_destination (outputs ! 1) = request_recipient (draft_request d)
         \<and> qoutput_blinder (outputs ! 1) = provider_blinder) InvalidDerivedQuote) (\<lambda>_.
     ensure (change = 0 \<or> qoutput_id (outputs ! 2) = 3 \<and> qoutput_role (outputs ! 2) = ProviderChange
         \<and> qoutput_asset (outputs ! 2) = draft_selected_asset d
         \<and> qoutput_amount (outputs ! 2) = change
         \<and> qoutput_blinder (outputs ! 2) = provider_blinder) InvalidDerivedQuote))))))))"

end
