(* ===== verification/Rfq_Commitment.thy ===== *)
theory Rfq_Commitment
  imports Rfq_Quote
begin

text \<open>
  Digests of the quote protocol (\<open>quote.rs\<close>, from \<open>quote_request_digest\<close> on): the semantic
  request digest, the recovery-metadata commitment and the quote commitment over the complete
  transcript.  Postcard encoding and SHA-256 are parameters; an encoding failure is \<open>None\<close>
  (\<open>ProviderError::Codec\<close> in the source).
\<close>

datatype StoredQuoteKindV1 =
    StoredExactIn asset_id u64 asset_id u64
  | StoredExactOut asset_id u64 asset_id u64

record StoredQuoteRequestV1 =
  sqr_provider :: fixed_id
  sqr_genesis_hash :: bytes
  sqr_provider_policy_asset :: asset_id
  sqr_owner :: fixed_id
  sqr_idempotency_key :: fixed_id
  sqr_network :: LiquidNetwork
  sqr_market :: OutPoint
  sqr_policy_asset :: asset_id
  sqr_kind :: StoredQuoteKindV1
  sqr_recipient_script :: bytes
  sqr_recipient_blinding_key :: bytes
  sqr_maximum_input_asset_venue_fee :: u64

record StoredRecoveryMetadataV1 =
  srm_provider :: fixed_id
  srm_genesis_hash :: bytes
  srm_policy_asset :: asset_id
  srm_reservation_id :: fixed_id
  srm_receive_internal_key :: bytes
  srm_receive_wallet_locator :: bytes
  srm_change_internal_key :: "bytes option"
  srm_change_wallet_locator :: "bytes option"

record StoredStaticRateV1 =
  ssr_market :: OutPoint
  ssr_input_asset :: asset_id
  ssr_output_asset :: asset_id
  ssr_numerator :: u64
  ssr_denominator :: u64

record StoredQuotedInputV1 =
  sqi_id :: u16
  sqi_outpoint :: OutPoint
  sqi_witness_utxo :: TxOut
  sqi_inventory_binding :: fixed_id

record StoredQuotedOutputV1 =
  sqo_id :: u16
  sqo_role :: u8
  sqo_asset :: asset_id
  sqo_amount :: u64
  sqo_script_pubkey :: bytes
  sqo_blinding_public_key :: bytes
  sqo_blinder_kind :: u8
  sqo_blinder_input :: u16

text \<open>
  The transcript in field order; consecutive fields that come from one source value are
  kept as that value: the execution, the rate, the fee policy and the snapshot evidence.
\<close>

datatype StoredQuoteTranscriptV1 = QuoteTranscript
  (sqt_request_digest: fixed_id) (sqt_owner: fixed_id) (sqt_idempotency_key: fixed_id)
  (sqt_reservation_id: fixed_id) (sqt_provider: ProviderIdentity)
  (sqt_request: StoredQuoteRequestV1) (sqt_execution: QuoteExecution) (sqt_pricing: PricingDecision)
  (sqt_snapshot: QuoteSnapshotEvidence) (sqt_inputs: "StoredQuotedInputV1 list")
  (sqt_outputs: "StoredQuotedOutputV1 list") (sqt_created_at: unix_millis)
  (sqt_accept_before: unix_millis) (sqt_fee_policy: FeePolicy) (sqt_recovery_commitment: fixed_id)

record FirmQuote =
  quote_reservation_id :: fixed_id
  quote_provider :: ProviderIdentity
  quote_request :: FirmQuoteRequest
  quote_execution :: QuoteExecution
  quote_pricing :: PricingDecision
  quote_snapshot :: QuoteSnapshotEvidence
  quote_contribution_of :: QuoteContribution
  quote_created_at :: unix_millis
  quote_accept_before :: unix_millis
  quote_fee_policy :: FeePolicy
  quote_recovery_commitment :: fixed_id
  quote_commitment :: fixed_id

record quote_ops =
  script_unspendable :: "bytes \<Rightarrow> bool"
  rfq_sha256 :: "bytes \<Rightarrow> bytes"
  postcard_quote_request :: "StoredQuoteRequestV1 \<Rightarrow> bytes option"
  postcard_quote_transcript :: "StoredQuoteTranscriptV1 \<Rightarrow> bytes option"
  postcard_recovery_metadata :: "StoredRecoveryMetadataV1 \<Rightarrow> bytes option"
  postcard_static_pricing :: "u64 \<Rightarrow> StoredStaticRateV1 list \<Rightarrow> bytes option"

definition QUOTE_REQUEST_DOMAIN :: bytes where
  "QUOTE_REQUEST_DOMAIN = str_bytes ''deadcat/rfq/firm-quote-request/v1''"

definition QUOTE_DOMAIN :: bytes where
  "QUOTE_DOMAIN = str_bytes ''deadcat/rfq/firm-quote/v1''"

definition RECOVERY_METADATA_DOMAIN :: bytes where
  "RECOVERY_METADATA_DOMAIN = str_bytes ''deadcat/rfq/recovery-metadata/v1''"

definition STATIC_PRICING_DOMAIN :: bytes where
  "STATIC_PRICING_DOMAIN = str_bytes ''deadcat/rfq/static-rational-pricing/v1''"

definition domain_digest :: "(bytes \<Rightarrow> bytes) \<Rightarrow> bytes \<Rightarrow> bytes option \<Rightarrow> bytes option" where
  "domain_digest sha domain encoding = (case encoding of
       None \<Rightarrow> None
     | Some encoded \<Rightarrow> Some (sha (domain @ u64_be (of_nat (length encoded)) @ encoded)))"

definition stored_quote_kind :: "QuoteKind \<Rightarrow> StoredQuoteKindV1" where
  "stored_quote_kind k = (case k of
       ExactIn inp output_asset minimum_output \<Rightarrow>
         StoredExactIn (aa_asset inp) (aa_amount inp) output_asset minimum_output
     | ExactOut input_asset maximum_input out \<Rightarrow>
         StoredExactOut input_asset maximum_input (aa_asset out) (aa_amount out))"

definition stored_quote_request ::
    "ProviderIdentity \<Rightarrow> fixed_id \<Rightarrow> fixed_id \<Rightarrow> FirmQuoteRequest \<Rightarrow> StoredQuoteRequestV1" where
  "stored_quote_request p owner key request =
     (let context = request_context request in
      \<lparr>sqr_provider = provider p, sqr_genesis_hash = genesis_hash p,
       sqr_provider_policy_asset = identity_policy_asset p, sqr_owner = owner,
       sqr_idempotency_key = key, sqr_network = network (context_chain context),
       sqr_market = creation_anchor (context_market context),
       sqr_policy_asset = context_policy_asset context, sqr_kind = stored_quote_kind (request_kind request),
       sqr_recipient_script = recipient_script (request_recipient request),
       sqr_recipient_blinding_key = recipient_blinding_key (request_recipient request),
       sqr_maximum_input_asset_venue_fee = maximum_input_asset_venue_fee request\<rparr>)"

definition stored_quoted_input :: "QuotedProviderInput \<Rightarrow> StoredQuotedInputV1" where
  "stored_quoted_input i =
     \<lparr>sqi_id = qinput_id i, sqi_outpoint = qinput_outpoint i, sqi_witness_utxo = qinput_witness_utxo i,
      sqi_inventory_binding = qinput_binding i\<rparr>"

definition stored_quoted_output :: "QuotedOutput \<Rightarrow> StoredQuotedOutputV1" where
  "stored_quoted_output q =
     \<lparr>sqo_id = qoutput_id q,
      sqo_role = (case qoutput_role q of ProviderPayment \<Rightarrow> 0 | TakerReceive \<Rightarrow> 1 | ProviderChange \<Rightarrow> 2),
      sqo_asset = qoutput_asset q, sqo_amount = qoutput_amount q,
      sqo_script_pubkey = recipient_script (qoutput_destination q),
      sqo_blinding_public_key = recipient_blinding_key (qoutput_destination q),
      sqo_blinder_kind = (case qoutput_blinder q of TakerPaymentInput \<Rightarrow> 0 | ProviderInput _ \<Rightarrow> 1),
      sqo_blinder_input = (case qoutput_blinder q of TakerPaymentInput \<Rightarrow> 0 | ProviderInput k \<Rightarrow> k)\<rparr>"

definition stored_quote_transcript ::
    "fixed_id \<Rightarrow> fixed_id \<Rightarrow> fixed_id \<Rightarrow> FirmQuote \<Rightarrow> StoredQuoteTranscriptV1" where
  "stored_quote_transcript owner key request_digest q =
     QuoteTranscript request_digest owner key (quote_reservation_id q) (quote_provider q)
       (stored_quote_request (quote_provider q) owner key (quote_request q))
       (quote_execution q) (quote_pricing q) (quote_snapshot q)
       (map stored_quoted_input (contribution_inputs (quote_contribution_of q)))
       (map stored_quoted_output (contribution_outputs (quote_contribution_of q)))
       (quote_created_at q) (quote_accept_before q) (quote_fee_policy q) (quote_recovery_commitment q)"

definition quote_request_digest ::
    "quote_ops \<Rightarrow> ProviderIdentity \<Rightarrow> fixed_id \<Rightarrow> fixed_id \<Rightarrow> FirmQuoteRequest \<Rightarrow> bytes option" where
  "quote_request_digest ops p owner key request =
     domain_digest (rfq_sha256 ops) QUOTE_REQUEST_DOMAIN
       (postcard_quote_request ops (stored_quote_request p owner key request))"

definition recovery_metadata_commitment ::
    "quote_ops \<Rightarrow> ProviderIdentity \<Rightarrow> fixed_id \<Rightarrow> DestinationRecovery \<Rightarrow> bytes option \<Rightarrow> bytes option \<Rightarrow>
     bytes option" where
  "recovery_metadata_commitment ops p reservation_id receive change_key change_locator =
     domain_digest (rfq_sha256 ops) RECOVERY_METADATA_DOMAIN
       (postcard_recovery_metadata ops
         \<lparr>srm_provider = provider p, srm_genesis_hash = genesis_hash p,
          srm_policy_asset = identity_policy_asset p, srm_reservation_id = reservation_id,
          srm_receive_internal_key = recovery_internal_key receive,
          srm_receive_wallet_locator = recovery_wallet_locator receive,
          srm_change_internal_key = change_key, srm_change_wallet_locator = change_locator\<rparr>)"

definition recompute_quote_commitment ::
    "quote_ops \<Rightarrow> fixed_id \<Rightarrow> fixed_id \<Rightarrow> fixed_id \<Rightarrow> FirmQuote \<Rightarrow> bytes option" where
  "recompute_quote_commitment ops owner key request_digest q =
     domain_digest (rfq_sha256 ops) QUOTE_DOMAIN
       (postcard_quote_transcript ops (stored_quote_transcript owner key request_digest q))"

definition finalize_quote ::
    "quote_ops \<Rightarrow> ProviderIdentity \<Rightarrow> fixed_id \<Rightarrow> fixed_id \<Rightarrow> fixed_id \<Rightarrow> fixed_id \<Rightarrow> FirmQuoteDraft \<Rightarrow>
     unix_millis \<Rightarrow> unix_millis \<Rightarrow> FeePolicy \<Rightarrow> FirmQuote option" where
  "finalize_quote ops p owner key request_digest reservation_id draft created accept policy =
     (case recovery_metadata_commitment ops p reservation_id (draft_receive_recovery draft)
         (map_option recovery_internal_key (draft_change_recovery draft))
         (map_option recovery_wallet_locator (draft_change_recovery draft)) of
        None \<Rightarrow> None
      | Some recovery \<Rightarrow>
          let quote = \<lparr>quote_reservation_id = reservation_id, quote_provider = p,
                quote_request = draft_request draft, quote_execution = draft_execution draft,
                quote_pricing = draft_pricing draft, quote_snapshot = draft_snapshot draft,
                quote_contribution_of = draft_contribution draft, quote_created_at = created,
                quote_accept_before = accept, quote_fee_policy = policy,
                quote_recovery_commitment = recovery, quote_commitment = replicate 32 0\<rparr>
          in case domain_digest (rfq_sha256 ops) QUOTE_DOMAIN
              (postcard_quote_transcript ops (stored_quote_transcript owner key request_digest quote)) of
            None \<Rightarrow> None
          | Some commitment \<Rightarrow> Some (quote\<lparr>quote_commitment := commitment\<rparr>))"

definition static_rate_key :: "StaticRateRule \<Rightarrow> bytes \<times> asset_id \<times> asset_id" where
  "static_rate_key r = (contract_fixed_key (rate_market r), rate_input_asset r, rate_output_asset r)"

definition sort_rates :: "StaticRateRule list \<Rightarrow> StaticRateRule list" where
  "sort_rates rules =
     sort_key (\<lambda>r. contract_fixed_key (rate_market r))
       (sort_key rate_input_asset (sort_key rate_output_asset rules))"

fun duplicate_rate :: "StaticRateRule list \<Rightarrow> StaticRateRule option" where
  "duplicate_rate (r # r' # rs) =
     (if static_rate_key r = static_rate_key r' then Some r else duplicate_rate (r' # rs))"
| "duplicate_rate _ = None"

definition stored_static_rate :: "StaticRateRule \<Rightarrow> StoredStaticRateV1" where
  "stored_static_rate r =
     \<lparr>ssr_market = creation_anchor (rate_market r), ssr_input_asset = rate_input_asset r,
      ssr_output_asset = rate_output_asset r, ssr_numerator = numerator (rate_rate r),
      ssr_denominator = denominator (rate_rate r)\<rparr>"

definition static_pricing_new ::
    "quote_ops \<Rightarrow> StaticRateRule list \<Rightarrow> u64 \<Rightarrow> (StaticPricingError, StaticRationalPricing) result" where
  "static_pricing_new ops rules revision =
     (if rules = [] then Err NoRates
      else
        let sorted_rules = sort_rates rules in
        case duplicate_rate sorted_rules of
          Some d \<Rightarrow> Err (DuplicateRate (rate_market d) (rate_input_asset d) (rate_output_asset d))
        | None \<Rightarrow>
            rbind (ok_or (domain_digest (rfq_sha256 ops) STATIC_PRICING_DOMAIN
                (postcard_static_pricing ops revision (map stored_static_rate sorted_rules)))
              PricingCommitment) (\<lambda>policy_id.
            Ok \<lparr>static_rules = sorted_rules, static_policy_id = policy_id, static_revision = revision\<rparr>))"


section \<open>Self-consistency of quote commitments\<close>

text \<open>The transcript does not depend on the commitment it determines.\<close>

lemma transcript_commitment [simp]:
  "stored_quote_transcript owner key d (q\<lparr>quote_commitment := c\<rparr>) = stored_quote_transcript owner key d q"
  by (simp add: stored_quote_transcript_def)

lemma finalize_quote_fields:
  assumes "finalize_quote ops p owner key d rid draft created accept policy = Some q"
  shows "quote_reservation_id q = rid" "quote_provider q = p" "quote_request q = draft_request draft"
    "quote_execution q = draft_execution draft" "quote_pricing q = draft_pricing draft"
    "quote_snapshot q = draft_snapshot draft" "quote_contribution_of q = draft_contribution draft"
    "quote_created_at q = created" "quote_accept_before q = accept" "quote_fee_policy q = policy"
    "recovery_metadata_commitment ops p rid (draft_receive_recovery draft)
       (map_option recovery_internal_key (draft_change_recovery draft))
       (map_option recovery_wallet_locator (draft_change_recovery draft)) =
     Some (quote_recovery_commitment q)"
    "recompute_quote_commitment ops owner key d q = Some (quote_commitment q)"
  using assms
  by (auto simp: finalize_quote_def recompute_quote_commitment_def stored_quote_transcript_def
      Let_def split: option.splits)

end
