(* ===== verification/Rfq_Records.thy ===== *)
theory Rfq_Records
  imports Rfq_Commitment
begin

text \<open>
  The durable records of the reservation store (\<open>crates/deadcat-rfq-provider/src/store.rs\<close>) and
  the wallet bindings they commit to (\<open>wallet.rs\<close>).  A stored struct whose fields are exactly those
  of its domain struct is that record; its \<open>to_domain\<close> re-runs the validating constructor.
  \<open>CorruptState\<close> carries no text: the messages are diagnostics only.
\<close>

section \<open>Third-party operations\<close>

type_synonym StoredProviderIdentity = ProviderIdentity
type_synonym StoredInventoryItem = InventoryItem
type_synonym StoredFeePolicy = FeePolicy
type_synonym StoredTransactionFee = TransactionFee
type_synonym StoredSigningTarget = SigningTarget
type_synonym StoredReleaseReason = ReleaseReason

datatype (plugins only: code) StoredRequestFingerprint = RequestFingerprint
  (fingerprint_identity: StoredProviderIdentity) (fingerprint_owner: fixed_id)
  (fingerprint_key: fixed_id) (fingerprint_semantic_digest: fixed_id)
  (fingerprint_quote_commitment: fixed_id) (fingerprint_outpoints: "OutPoint list")
  (fingerprint_accept_before: unix_millis) (fingerprint_fee_policy: StoredFeePolicy)

datatype (plugins only: code) StoredSigningTranscript = SigningTranscript
  (transcript_request_digest: fixed_id) (transcript_reservation_id: fixed_id)
  (transcript_outpoints: "OutPoint list") (transcript_quote_commitment: fixed_id)
  (transcript_fee_policy: StoredFeePolicy) (transcript_fee: StoredTransactionFee)
  (transcript_targets: "StoredSigningTarget list") (transcript_payload: bytes)

record store_ops =
  quote_ops_of :: quote_ops
  xonly_valid :: "bytes \<Rightarrow> bool"
  p2tr_script :: "bytes \<Rightarrow> bytes"
  serialize_outpoint :: "OutPoint \<Rightarrow> bytes"
  serialize_txout :: "TxOut \<Rightarrow> bytes"
  serialize_txout_witness :: "TxOutWitness \<Rightarrow> bytes"
  postcard_fingerprint :: "StoredRequestFingerprint \<Rightarrow> bytes option"
  postcard_transcript :: "StoredSigningTranscript \<Rightarrow> bytes option"

abbreviation store_sha :: "store_ops \<Rightarrow> bytes \<Rightarrow> bytes" where
  "store_sha ops \<equiv> rfq_sha256 (quote_ops_of ops)"


section \<open>Wallet bindings\<close>

definition OUTPUT_BINDING_DOMAIN :: bytes where
  "OUTPUT_BINDING_DOMAIN = str_bytes ''deadcat/rfq/wallet-owned-output/v1''"

definition hash_frame :: "bytes \<Rightarrow> bytes" where
  "hash_frame bs =
     u64_be (if length bs < 2 ^ 64 then of_nat (length bs) else - 1) @ bs"

definition output_binding ::
    "store_ops \<Rightarrow> OutPoint \<Rightarrow> TxOut \<Rightarrow> asset_id \<Rightarrow> u64 \<Rightarrow> bytes \<Rightarrow> bytes \<Rightarrow> fixed_id" where
  "output_binding ops outpoint txout asset amount internal_key wallet_locator =
     store_sha ops (concat (map hash_frame
       [OUTPUT_BINDING_DOMAIN, serialize_outpoint ops outpoint, serialize_txout ops txout,
        serialize_txout_witness ops (out_witness txout), asset, u64_be amount, internal_key,
        wallet_locator]))"

definition recompute_inventory_binding :: "store_ops \<Rightarrow> InventoryItem \<Rightarrow> TxOut \<Rightarrow> fixed_id" where
  "recompute_inventory_binding ops item txout =
     output_binding ops (item_outpoint item) txout (item_asset item) (item_amount item)
       (item_internal_key item) (item_wallet_locator item)"


section \<open>Errors\<close>

datatype (plugins only: code) ProviderError =
    CommitError
  | DatabaseRequiresReopen
  | CodecError
  | CorruptSchemaVersion
  | SchemaMismatch u32 u32
  | MissingMetadata string
  | ProviderIdentityMismatch ProviderIdentity ProviderIdentity
  | EmptyRecord
  | RecordVersionMismatch u8 u8
  | TrailingRecordBytes nat
  | CorruptTimeHighWatermark
  | ClockRegression unix_millis unix_millis
  | InventorySnapshotObservedInFuture unix_millis unix_millis
  | InventorySnapshotStale unix_millis unix_millis u64
  | CorruptAuditSequence
  | AuditSequenceOverflow
  | CorruptAllocationRevision
  | AllocationRevisionOverflow
  | CorruptExpirationKey nat
  | CorruptState
  | WrongPolicyAsset asset_id asset_id
  | UnknownInventory OutPoint
  | InventoryMetadataConflict OutPoint
  | DuplicateInventoryOutpoint OutPoint
  | OutpointUnavailable OutPoint InventoryState
  | IdempotencyConflict fixed_id fixed_id
  | FirmQuoteRequestDigestMismatch
  | FirmQuoteSnapshotMismatch
  | EligibleInventoryChanged
  | FirmQuoteInventoryMismatch OutPoint
  | FirmQuoteDraftInvalid
  | ReservationIdCollision fixed_id
  | ReservationDeadlineElapsed unix_millis unix_millis
  | QuoteDeadlineOverflow
  | LiveQuoteCountOverflow
  | OwnerLiveQuoteLimit fixed_id nat
  | GlobalLiveQuoteLimit nat
  | ReservationNotFound fixed_id
  | ReservationOwnerMismatch fixed_id
  | ReservationAlreadyReleased fixed_id
  | PointOfNoReturn fixed_id
  | ValidatedIntentBindingMismatch fixed_id
  | DifferentSigningIntent fixed_id
  | EmptySettlementPayload
  | SettlementPayloadTooLarge nat nat
  | SigningIntentNotCommitted fixed_id
  | SigningCommitmentMismatch fixed_id fixed_id fixed_id
  | SigningJobBindingMismatch fixed_id
  | SignedArtifactBindingMismatch fixed_id
  | DifferentSignedArtifact fixed_id
  | FeePolicyError FeePolicyViolation



section \<open>Stored records\<close>

definition corrupt :: "('e, 'a) result \<Rightarrow> (ProviderError, 'a) result" where
  "corrupt m = map_err (\<lambda>_. CorruptState) m"

definition codec :: "'a option \<Rightarrow> (ProviderError, 'a) result" where
  "codec x = ok_or x CodecError"

record StoredSigningIntent =
  intent_commitment :: fixed_id
  intent_pre_sign_payload :: bytes
  intent_fee :: StoredTransactionFee
  intent_committed_at :: u64
  intent_targets :: "StoredSigningTarget list"

record StoredSignedArtifact =
  artifact_digest :: fixed_id
  artifact_bytes :: bytes
  artifact_signed_at :: u64

datatype StoredReservationState =
    StReserved
  | StReleased StoredReleaseReason u64
  | StCommitted StoredSigningIntent
  | StSigned StoredSigningIntent StoredSignedArtifact

record StoredFirmQuote =
  sfq_request :: FirmQuoteRequest
  sfq_execution :: QuoteExecution
  sfq_pricing :: PricingDecision
  sfq_snapshot :: QuoteSnapshotEvidence
  sfq_contribution :: QuoteContribution
  sfq_receive_internal_key :: bytes
  sfq_receive_wallet_locator :: bytes
  sfq_change_internal_key :: "bytes option"
  sfq_change_wallet_locator :: "bytes option"
  sfq_selected_asset :: asset_id
  sfq_selected_amount :: u64

record StoredReservation =
  res_id :: fixed_id
  res_owner :: fixed_id
  res_idempotency_key :: fixed_id
  res_semantic_request_digest :: fixed_id
  res_request_digest :: fixed_id
  res_quote_commitment :: fixed_id
  res_quote :: "StoredFirmQuote option"
  res_outpoints :: "OutPoint list"
  res_created_at :: u64
  res_accept_before :: u64
  res_fee_policy :: StoredFeePolicy
  res_state :: StoredReservationState

record StoredRequestBinding =
  binding_reservation_id :: fixed_id
  binding_semantic_request_digest :: fixed_id
  binding_request_digest :: fixed_id

datatype StoredAllocation =
    AllocReserved fixed_id
  | AllocCommitted fixed_id fixed_id

datatype StoredAuditEvent =
    InventoryImported OutPoint
  | ReservationCreated fixed_id "OutPoint list"
  | ReservationReleased fixed_id StoredReleaseReason
  | SigningCommitted fixed_id fixed_id
  | SignedArtifactStored fixed_id fixed_id

record StoredAuditEntry =
  entry_sequence :: u64
  entry_at :: u64
  entry_event :: StoredAuditEvent

record FirmQuoteOutcome =
  outcome_quote :: FirmQuote
  outcome_reservation :: ReservationView
  outcome_created :: bool

definition allocation_view :: "StoredAllocation \<Rightarrow> InventoryState" where
  "allocation_view a = (case a of
       AllocReserved id' \<Rightarrow> InvReserved id'
     | AllocCommitted id' commitment \<Rightarrow> InvCommitted id' commitment)"

definition stored_inventory_to_domain ::
    "store_ops \<Rightarrow> StoredInventoryItem \<Rightarrow> (ProviderError, InventoryItem) result" where
  "stored_inventory_to_domain ops item =
     rbind (corrupt (wallet_key_locator_new (item_wallet_locator item))) (\<lambda>locator.
     rbind (ensure (xonly_valid ops (item_internal_key item)) CorruptState) (\<lambda>_.
     corrupt (inventory_item_new (item_outpoint item) (item_asset item) (item_amount item) locator
       (item_internal_key item) (item_binding item))))"

definition stored_fee_policy_to_domain :: "StoredFeePolicy \<Rightarrow> (ProviderError, FeePolicy) result" where
  "stored_fee_policy_to_domain p =
     corrupt (fee_policy_new (policy_asset p) (minimum_sats_per_kvb p) (minimum_absolute_fee p)
       (maximum_transaction_weight p) (size_metric p))"

definition stored_fee_to_domain :: "StoredTransactionFee \<Rightarrow> (ProviderError, TransactionFee) result" where
  "stored_fee_to_domain f =
     corrupt (transaction_fee_new (fee_policy_asset f) (fee_amount f) (fee_weight f)
       (regular_vsize f) (discount_vsize f))"

definition target_from_inventory :: "StoredInventoryItem \<Rightarrow> StoredSigningTarget" where
  "target_from_inventory item =
     \<lparr>target_outpoint = item_outpoint item, target_wallet_locator = item_wallet_locator item,
      target_internal_key = item_internal_key item, target_inventory_binding = item_binding item\<rparr>"

definition target_to_domain ::
    "store_ops \<Rightarrow> StoredSigningTarget \<Rightarrow> (ProviderError, SigningTarget) result" where
  "target_to_domain ops t =
     rbind (corrupt (wallet_key_locator_new (target_wallet_locator t))) (\<lambda>locator.
     rbind (ensure (xonly_valid ops (target_internal_key t)) CorruptState) (\<lambda>_.
     Ok \<lparr>target_outpoint = target_outpoint t, target_wallet_locator = locator,
       target_internal_key = target_internal_key t,
       target_inventory_binding = target_inventory_binding t\<rparr>))"


section \<open>Digests\<close>

definition RESERVATION_ID_DOMAIN :: bytes where
  "RESERVATION_ID_DOMAIN = str_bytes ''deadcat/rfq/reservation-id/v1''"

definition REQUEST_DOMAIN :: bytes where
  "REQUEST_DOMAIN = str_bytes ''deadcat/rfq/reservation-request/v1''"

definition SIGNING_DOMAIN :: bytes where
  "SIGNING_DOMAIN = str_bytes ''deadcat/rfq/signing-transcript/v1''"

definition SIGNED_ARTIFACT_DOMAIN :: bytes where
  "SIGNED_ARTIFACT_DOMAIN = str_bytes ''deadcat/rfq/signed-artifact/v1''"

definition derive_reservation_id :: "store_ops \<Rightarrow> fixed_id \<Rightarrow> fixed_id \<Rightarrow> fixed_id" where
  "derive_reservation_id ops owner key = store_sha ops (RESERVATION_ID_DOMAIN @ owner @ key)"

definition signed_artifact_digest :: "store_ops \<Rightarrow> fixed_id \<Rightarrow> bytes \<Rightarrow> fixed_id" where
  "signed_artifact_digest ops commitment bs =
     store_sha ops (SIGNED_ARTIFACT_DOMAIN @ commitment @ u64_be (of_nat (length bs)) @ bs)"

definition plan_request_digest_of ::
    "store_ops \<Rightarrow> ProviderIdentity \<Rightarrow> ReservationPlan \<Rightarrow> (ProviderError, fixed_id) result" where
  "plan_request_digest_of ops identity plan =
     codec (domain_digest (store_sha ops) REQUEST_DOMAIN (postcard_fingerprint ops
       (RequestFingerprint identity (plan_owner plan) (plan_idempotency_key plan)
         (plan_request_digest plan) (plan_quote_commitment plan) (plan_outpoints plan)
         (plan_accept_before plan) (plan_fee_policy plan))))"

definition stored_request_digest ::
    "store_ops \<Rightarrow> ProviderIdentity \<Rightarrow> StoredReservation \<Rightarrow> (ProviderError, fixed_id) result" where
  "stored_request_digest ops identity r =
     codec (domain_digest (store_sha ops) REQUEST_DOMAIN (postcard_fingerprint ops
       (RequestFingerprint identity (res_owner r) (res_idempotency_key r)
         (res_semantic_request_digest r) (res_quote_commitment r) (res_outpoints r)
         (res_accept_before r) (res_fee_policy r))))"

definition signing_commitment ::
    "store_ops \<Rightarrow> StoredReservation \<Rightarrow> bytes \<Rightarrow> TransactionFee \<Rightarrow> StoredSigningTarget list \<Rightarrow>
     (ProviderError, fixed_id) result" where
  "signing_commitment ops r payload fee targets =
     codec (domain_digest (store_sha ops) SIGNING_DOMAIN (postcard_transcript ops
       (SigningTranscript (res_request_digest r) (res_id r) (res_outpoints r)
         (res_quote_commitment r) (res_fee_policy r) fee targets payload)))"

definition validate_settlement_bytes :: "bytes \<Rightarrow> (ProviderError, unit) result" where
  "validate_settlement_bytes bs =
     (if bs = [] then Err EmptySettlementPayload
      else if length bs > MAX_SETTLEMENT_BYTES
      then Err (SettlementPayloadTooLarge MAX_SETTLEMENT_BYTES (length bs))
      else Ok ())"



section \<open>Decoding into domain values\<close>

definition intent_to_job ::
    "store_ops \<Rightarrow> StoredSigningIntent \<Rightarrow> fixed_id \<Rightarrow> (ProviderError, SigningJob) result" where
  "intent_to_job ops intent reservation_id =
     rbind (corrupt (validate_settlement_bytes (intent_pre_sign_payload intent))) (\<lambda>_.
     rbind (stored_fee_to_domain (intent_fee intent)) (\<lambda>fee.
     rbind (rmap (target_to_domain ops) (intent_targets intent)) (\<lambda>targets.
     Ok \<lparr>job_reservation_id = reservation_id, job_commitment = intent_commitment intent,
       job_pre_sign_payload = intent_pre_sign_payload intent, job_fee = fee, job_targets = targets\<rparr>)))"

definition artifact_to_domain ::
    "store_ops \<Rightarrow> StoredSignedArtifact \<Rightarrow> fixed_id \<Rightarrow> fixed_id \<Rightarrow> (ProviderError, SignedArtifact) result" where
  "artifact_to_domain ops artifact reservation_id commitment =
     rbind (corrupt (validate_settlement_bytes (artifact_bytes artifact))) (\<lambda>_.
     rbind (ensure (signed_artifact_digest ops commitment (artifact_bytes artifact) = artifact_digest artifact)
       CorruptState) (\<lambda>_.
     Ok \<lparr>signed_reservation_id = reservation_id, signed_commitment = commitment,
       signed_digest = artifact_digest artifact, signed_bytes = artifact_bytes artifact\<rparr>))"

definition validate_intent ::
    "store_ops \<Rightarrow> StoredReservation \<Rightarrow> FeePolicy \<Rightarrow> StoredSigningIntent \<Rightarrow> (ProviderError, unit) result" where
  "validate_intent ops r policy intent =
     rbind (corrupt (validate_settlement_bytes (intent_pre_sign_payload intent))) (\<lambda>_.
     rbind (stored_fee_to_domain (intent_fee intent)) (\<lambda>fee.
     rbind (corrupt (fee_policy_validate policy fee)) (\<lambda>_.
     rbind (ensure (map target_outpoint (intent_targets intent) = res_outpoints r) CorruptState) (\<lambda>_.
     rbind (rmap (target_to_domain ops) (intent_targets intent)) (\<lambda>_.
     rbind (signing_commitment ops r (intent_pre_sign_payload intent) fee (intent_targets intent)) (\<lambda>expected.
     ensure (expected = intent_commitment intent) CorruptState))))))"

definition reservation_validate :: "store_ops \<Rightarrow> StoredReservation \<Rightarrow> (ProviderError, unit) result" where
  "reservation_validate ops r =
     rbind (ensure (res_id r = derive_reservation_id ops (res_owner r) (res_idempotency_key r)) CorruptState) (\<lambda>_.
     rbind (ensure (res_outpoints r \<noteq> [] \<and> length (res_outpoints r) \<le> MAX_RESERVATION_INPUTS) CorruptState) (\<lambda>_.
     rbind (ensure (res_accept_before r > res_created_at r) CorruptState) (\<lambda>_.
     rbind (ensure (list_all (\<lambda>p. \<not> invalid_outpoint p) (res_outpoints r)) CorruptState) (\<lambda>_.
     rbind (ensure (sorted_wrt (<) (res_outpoints r)) CorruptState) (\<lambda>_.
     rbind (stored_fee_policy_to_domain (res_fee_policy r)) (\<lambda>policy.
     rbind (ensure (res_quote r \<noteq> None \<or> res_semantic_request_digest r = res_quote_commitment r) CorruptState) (\<lambda>_.
     rbind (case res_state r of
         StCommitted intent \<Rightarrow> validate_intent ops r policy intent
       | StSigned intent _ \<Rightarrow> validate_intent ops r policy intent
       | _ \<Rightarrow> Ok ()) (\<lambda>_.
     case res_state r of
       StSigned intent artifact \<Rightarrow>
         rbind (artifact_to_domain ops artifact (res_id r) (intent_commitment intent)) (\<lambda>_. Ok ())
     | _ \<Rightarrow> Ok ()))))))))"

definition state_view :: "StoredReservationState \<Rightarrow> ReservationState" where
  "state_view s = (case s of
       StReserved \<Rightarrow> StateReserved
     | StReleased reason at \<Rightarrow> StateReleased reason at
     | StCommitted intent \<Rightarrow> StateCommitted (intent_commitment intent) (intent_committed_at intent)
     | StSigned intent artifact \<Rightarrow> StateSigned (intent_commitment intent) (artifact_digest artifact)
         (intent_committed_at intent) (artifact_signed_at artifact))"

definition reservation_to_view :: "store_ops \<Rightarrow> StoredReservation \<Rightarrow> (ProviderError, ReservationView) result" where
  "reservation_to_view ops r =
     rbind (reservation_validate ops r) (\<lambda>_.
     rbind (stored_fee_policy_to_domain (res_fee_policy r)) (\<lambda>policy.
     Ok \<lparr>view_id = res_id r, view_owner = res_owner r, view_quote_commitment = res_quote_commitment r,
       view_outpoints = res_outpoints r, view_created_at = res_created_at r,
       view_accept_before = res_accept_before r, view_fee_policy = policy,
       view_state = state_view (res_state r)\<rparr>))"


section \<open>Stored firm quotes\<close>

definition stored_quote_from_domain :: "FirmQuote \<Rightarrow> FirmQuoteDraft \<Rightarrow> StoredFirmQuote" where
  "stored_quote_from_domain q draft =
     \<lparr>sfq_request = quote_request q, sfq_execution = quote_execution q, sfq_pricing = quote_pricing q,
      sfq_snapshot = quote_snapshot q, sfq_contribution = quote_contribution_of q,
      sfq_receive_internal_key = recovery_internal_key (draft_receive_recovery draft),
      sfq_receive_wallet_locator = recovery_wallet_locator (draft_receive_recovery draft),
      sfq_change_internal_key = map_option recovery_internal_key (draft_change_recovery draft),
      sfq_change_wallet_locator = map_option recovery_wallet_locator (draft_change_recovery draft),
      sfq_selected_asset = draft_selected_asset draft,
      sfq_selected_amount = draft_selected_amount draft\<rparr>"

definition confidential_utxo :: "TxOut \<Rightarrow> bool" where
  "confidential_utxo t \<longleftrightarrow>
     (case out_asset t of AssetConfidential _ \<Rightarrow> True | _ \<Rightarrow> False) \<and>
     (case out_value t of ValueConfidential _ \<Rightarrow> True | _ \<Rightarrow> False) \<and>
     (case out_nonce t of NonceConfidential _ \<Rightarrow> True | _ \<Rightarrow> False) \<and>
     surjection_proof (out_witness t) \<noteq> None \<and> rangeproof (out_witness t) \<noteq> None"

definition check_quoted_input :: "nat \<times> QuotedProviderInput \<Rightarrow> unit \<Rightarrow> (ProviderError, unit) result" where
  "check_quoted_input e _ =
     rbind (ok_or (try_from_nat (fst e + 1)) CorruptState) (\<lambda>expected_id.
     ensure (qinput_id (snd e) = expected_id \<and> confidential_utxo (qinput_witness_utxo (snd e))) CorruptState)"

definition check_quoted_output ::
    "QuoteBlinderRole \<Rightarrow> nat \<times> QuotedOutput \<times> QuoteOutputRole \<Rightarrow> unit \<Rightarrow> (ProviderError, unit) result" where
  "check_quoted_output provider_blinder e _ =
     (let (index, output', role) = e;
          blinder = (if role = ProviderPayment then TakerPaymentInput else provider_blinder) in
      ensure (qoutput_id output' = of_nat (index + 1) \<and> qoutput_role output' = role
        \<and> qoutput_amount output' \<noteq> 0 \<and> qoutput_blinder output' = blinder) CorruptState)"

definition validate_firm_quote_shape :: "FirmQuote \<Rightarrow> (ProviderError, unit) result" where
  "validate_firm_quote_shape q =
     (let inputs = contribution_inputs (quote_contribution_of q);
          outputs = contribution_outputs (quote_contribution_of q);
          execution = quote_execution q in
      rbind (ensure (inputs \<noteq> [] \<and> length inputs \<le> MAX_RESERVATION_INPUTS) CorruptState) (\<lambda>_.
      rbind (rfold check_quoted_input (enumerate 0 inputs) ()) (\<lambda>_.
      rbind (if length outputs = 2 then Ok [ProviderPayment, TakerReceive]
             else if length outputs = 3 then Ok [ProviderPayment, TakerReceive, ProviderChange]
             else Err CorruptState) (\<lambda>expected_roles.
      rbind (rfold (check_quoted_output (ProviderInput (qinput_id (inputs ! 0))))
          (enumerate 0 (zip outputs expected_roles)) ()) (\<lambda>_.
      ensure (qoutput_asset (outputs ! 0) = aa_asset (execution_input execution)
        \<and> qoutput_amount (outputs ! 0) = aa_amount (execution_input execution)
        \<and> qoutput_asset (outputs ! 1) = aa_asset (execution_output execution)
        \<and> qoutput_amount (outputs ! 1) = aa_amount (execution_output execution)
        \<and> qoutput_destination (outputs ! 1) = request_recipient (quote_request q)
        \<and> execution_venue_fee execution = pricing_venue_fee (quote_pricing q)) CorruptState)))))"


text \<open>The persisted execution is the one the request and the rate determine.\<close>

definition check_persisted_exact_in ::
    "StoredFirmQuote \<Rightarrow> AssetAmount \<Rightarrow> asset_id \<Rightarrow> u64 \<Rightarrow> (ProviderError, unit) result" where
  "check_persisted_exact_in q inp output_asset minimum_output =
     rbind (ensure (aa_amount inp \<noteq> 0 \<and> minimum_output \<noteq> 0) CorruptState) (\<lambda>_.
     rbind (ok_or (nonzero_sub (aa_amount inp) (pricing_venue_fee (sfq_pricing q))) CorruptState) (\<lambda>priced_input.
     rbind (ok_or (checked_mul (ucast priced_input :: 128 word)
         (ucast (numerator (pricing_rate (sfq_pricing q))))) CorruptState) (\<lambda>product.
     rbind (ok_or (try_from_nat (unat (product div ucast (denominator (pricing_rate (sfq_pricing q)))))
         :: u64 option) CorruptState) (\<lambda>out.
     ensure (out \<noteq> 0 \<and> out \<ge> minimum_output \<and> execution_input (sfq_execution q) = inp
       \<and> aa_asset (execution_output (sfq_execution q)) = output_asset
       \<and> aa_amount (execution_output (sfq_execution q)) = out) CorruptState))))"

definition check_persisted_exact_out ::
    "StoredFirmQuote \<Rightarrow> asset_id \<Rightarrow> u64 \<Rightarrow> AssetAmount \<Rightarrow> (ProviderError, unit) result" where
  "check_persisted_exact_out q input_asset maximum_input out =
     rbind (ensure (maximum_input \<noteq> 0 \<and> aa_amount out \<noteq> 0) CorruptState) (\<lambda>_.
     let product = (ucast (aa_amount out) * ucast (denominator (pricing_rate (sfq_pricing q))) :: 128 word);
         divisor = ucast (numerator (pricing_rate (sfq_pricing q))) in
     rbind (ensure (divisor \<noteq> 0) CorruptState) (\<lambda>_.
     let priced_input = product div divisor + (if product mod divisor = 0 then 0 else 1) in
     rbind (ok_or (Option.bind (try_from_nat (unat priced_input))
         (\<lambda>amount. checked_add amount (pricing_venue_fee (sfq_pricing q)))) CorruptState) (\<lambda>gross_input.
     ensure (gross_input \<noteq> 0 \<and> gross_input \<le> maximum_input
       \<and> aa_asset (execution_input (sfq_execution q)) = input_asset
       \<and> aa_amount (execution_input (sfq_execution q)) = gross_input
       \<and> execution_output (sfq_execution q) = out) CorruptState)))"

definition check_persisted_execution :: "StoredFirmQuote \<Rightarrow> (ProviderError, unit) result" where
  "check_persisted_execution q = (case request_kind (sfq_request q) of
       ExactIn inp output_asset minimum_output \<Rightarrow> check_persisted_exact_in q inp output_asset minimum_output
     | ExactOut input_asset maximum_input out \<Rightarrow> check_persisted_exact_out q input_asset maximum_input out)"

definition change_outputs_of :: "FirmQuote \<Rightarrow> QuotedOutput list" where
  "change_outputs_of q =
     filter (\<lambda>o'. qoutput_role o' = ProviderChange) (contribution_outputs (quote_contribution_of q))"

definition check_change_recovery :: "store_ops \<Rightarrow> StoredFirmQuote \<Rightarrow> FirmQuote \<Rightarrow> (ProviderError, unit) result" where
  "check_change_recovery ops q quote =
     (case (sfq_change_wallet_locator q, sfq_change_internal_key q) of
        (Some locator, Some key) \<Rightarrow>
          rbind (corrupt (wallet_key_locator_new locator)) (\<lambda>_.
          rbind (ensure (xonly_valid ops key) CorruptState) (\<lambda>_.
          rbind (ok_or (list_get (change_outputs_of quote) 0) CorruptState) (\<lambda>change.
          ensure (recipient_script (qoutput_destination change) = p2tr_script ops key) CorruptState)))
      | _ \<Rightarrow> Ok ())"

definition stored_quote_validate ::
    "store_ops \<Rightarrow> StoredFirmQuote \<Rightarrow> ProviderIdentity \<Rightarrow> StoredReservation \<Rightarrow> FirmQuote \<Rightarrow>
     (ProviderError, unit) result" where
  "stored_quote_validate ops q identity r quote =
     (let context = request_context (sfq_request q);
          script = recipient_script (request_recipient (sfq_request q));
          rate = pricing_rate (sfq_pricing q);
          outputs = contribution_outputs (quote_contribution_of quote) in
      rbind (ensure (chain_genesis_hash (context_chain context) = genesis_hash identity
          \<and> context_policy_asset context = identity_policy_asset identity
          \<and> \<not> outpoint_is_null (creation_anchor (context_market context))) CorruptState) (\<lambda>_.
      rbind (codec (quote_request_digest (quote_ops_of ops) identity (res_owner r)
          (res_idempotency_key r) (sfq_request q))) (\<lambda>digest.
      rbind (ensure (digest = res_semantic_request_digest r) CorruptState) (\<lambda>_.
      rbind (ensure (map qinput_outpoint (contribution_inputs (quote_contribution_of quote)) = res_outpoints r)
          CorruptState) (\<lambda>_.
      rbind (validate_firm_quote_shape quote) (\<lambda>_.
      rbind (corrupt (rational_rate_new (numerator rate) (denominator rate))) (\<lambda>normalized.
      rbind (ensure (normalized = rate) CorruptState) (\<lambda>_.
      rbind (ensure (fst (kind_pair (request_kind (sfq_request q))) \<noteq> snd (kind_pair (request_kind (sfq_request q)))
          \<and> aa_asset (execution_input (sfq_execution q)) = fst (kind_pair (request_kind (sfq_request q)))
          \<and> aa_asset (execution_output (sfq_execution q)) = snd (kind_pair (request_kind (sfq_request q))))
          CorruptState) (\<lambda>_.
      rbind (ensure (script \<noteq> [] \<and> \<not> script_unspendable (quote_ops_of ops) script
          \<and> length script \<le> MAX_QUOTE_RECIPIENT_SCRIPT_BYTES) CorruptState) (\<lambda>_.
      rbind (ensure (sfq_selected_amount q \<noteq> 0
          \<and> sfq_selected_asset q = aa_asset (execution_output (quote_execution quote))) CorruptState) (\<lambda>_.
      rbind (check_persisted_execution q) (\<lambda>_.
      rbind (ensure (execution_venue_fee (sfq_execution q) \<le> maximum_input_asset_venue_fee (sfq_request q))
          CorruptState) (\<lambda>_.
      rbind (ok_or (checked_sub (sfq_selected_amount q) (aa_amount (execution_output (quote_execution quote))))
          CorruptState) (\<lambda>change.
      rbind (ensure (if change = 0 then change_outputs_of quote = []
          else (case change_outputs_of quote of
              [o'] \<Rightarrow> qoutput_asset o' = sfq_selected_asset q \<and> qoutput_amount o' = change
            | _ \<Rightarrow> False)) CorruptState) (\<lambda>_.
      rbind (ensure ((sfq_change_internal_key q \<noteq> None \<and> sfq_change_wallet_locator q \<noteq> None) = (change \<noteq> 0)
          \<and> (sfq_change_internal_key q \<noteq> None) = (sfq_change_wallet_locator q \<noteq> None)) CorruptState) (\<lambda>_.
      rbind (corrupt (wallet_key_locator_new (sfq_receive_wallet_locator q))) (\<lambda>_.
      rbind (ensure (xonly_valid ops (sfq_receive_internal_key q)) CorruptState) (\<lambda>_.
      rbind (ok_or (find (\<lambda>o'. qoutput_role o' = ProviderPayment) outputs) CorruptState) (\<lambda>payment.
      rbind (ensure (recipient_script (qoutput_destination payment) = p2tr_script ops (sfq_receive_internal_key q))
          CorruptState) (\<lambda>_.
      check_change_recovery ops q quote))))))))))))))))))))"

definition stored_quote_to_domain ::
    "store_ops \<Rightarrow> StoredFirmQuote \<Rightarrow> ProviderIdentity \<Rightarrow> StoredReservation \<Rightarrow> (ProviderError, FirmQuote) result" where
  "stored_quote_to_domain ops q identity r =
     rbind (stored_fee_policy_to_domain (res_fee_policy r)) (\<lambda>policy.
     rbind (codec (recovery_metadata_commitment (quote_ops_of ops) identity (res_id r)
         \<lparr>recovery_internal_key = sfq_receive_internal_key q,
          recovery_wallet_locator = sfq_receive_wallet_locator q\<rparr>
         (sfq_change_internal_key q) (sfq_change_wallet_locator q))) (\<lambda>recovery.
     let quote = \<lparr>quote_reservation_id = res_id r, quote_provider = identity,
           quote_request = sfq_request q, quote_execution = sfq_execution q,
           quote_pricing = sfq_pricing q, quote_snapshot = sfq_snapshot q,
           quote_contribution_of = sfq_contribution q, quote_created_at = res_created_at r,
           quote_accept_before = res_accept_before r, quote_fee_policy = policy,
           quote_recovery_commitment = recovery, quote_commitment = res_quote_commitment r\<rparr> in
     rbind (codec (recompute_quote_commitment (quote_ops_of ops) (res_owner r) (res_idempotency_key r)
         (res_semantic_request_digest r) quote)) (\<lambda>expected.
     rbind (ensure (expected = quote_commitment quote) CorruptState) (\<lambda>_.
     rbind (stored_quote_validate ops q identity r quote) (\<lambda>_. Ok quote)))))"

definition to_firm_quote_outcome ::
    "store_ops \<Rightarrow> StoredReservation \<Rightarrow> ProviderIdentity \<Rightarrow> bool \<Rightarrow> (ProviderError, FirmQuoteOutcome) result" where
  "to_firm_quote_outcome ops r identity created =
     rbind (ok_or (res_quote r) CorruptState) (\<lambda>stored.
     rbind (stored_quote_to_domain ops stored identity r) (\<lambda>quote.
     rbind (reservation_to_view ops r) (\<lambda>view.
     Ok \<lparr>outcome_quote = quote, outcome_reservation = view, outcome_created = created\<rparr>)))"


section \<open>Validation does not read the state\<close>

lemma signing_commitment_state [simp]:
  "signing_commitment ops (r\<lparr>res_state := s\<rparr>) = signing_commitment ops r"
  by (intro ext) (simp add: signing_commitment_def)

lemma stored_request_digest_state [simp]:
  "stored_request_digest ops identity (r\<lparr>res_state := s\<rparr>) = stored_request_digest ops identity r"
  by (simp add: stored_request_digest_def)

lemma validate_intent_state [simp]:
  "validate_intent ops (r\<lparr>res_state := s\<rparr>) = validate_intent ops r"
  by (intro ext) (simp add: validate_intent_def)

lemma stored_quote_to_domain_state [simp]:
  "stored_quote_to_domain ops q identity (r\<lparr>res_state := s\<rparr>) = stored_quote_to_domain ops q identity r"
  by (simp add: stored_quote_to_domain_def stored_quote_validate_def)

end
