(* ===== verification/Rfq_Wallet.thy ===== *)
theory Rfq_Wallet
  imports Rfq_Selection Rfq_Records
begin

text \<open>
  The wallet boundary (\<open>crates/deadcat-rfq-provider/src/wallet.rs\<close>): authentication of discovered
  outputs, canonical inventory snapshots, settlement destinations, and the shape of signatures.
  Commitments, rangeproof verification and signature encoding are library calls and stay
  parameters (\<open>wallet_ops\<close>).
\<close>

section \<open>Errors and data\<close>

datatype SchnorrSighashType =
    SighashDefault | SighashAll | SighashNone | SighashSingle
  | SighashAllPlusAnyoneCanPay | SighashNonePlusAnyoneCanPay | SighashSinglePlusAnyoneCanPay
  | SighashReserved

record SchnorrSig =
  schnorr_sig :: bytes
  schnorr_hash_ty :: SchnorrSighashType

datatype WalletBoundaryError =
    BoundaryModel ModelError
  | NonConfidentialAsset
  | NonConfidentialValue
  | NonConfidentialNonce
  | MissingSurjectionProof
  | MissingRangeproof
  | NotExactTreeLessP2tr
  | AssetOpeningMismatch
  | ValueOpeningMismatch
  | InvalidRangeproof
  | OpeningOutsideProvenRange
  | DuplicateSnapshotOutpoint OutPoint
  | NonExplicitSighashAll OutPoint SchnorrSighashType
  | InvalidSighashAllEncoding OutPoint
  | SignatureCountMismatch nat nat
  | SignatureTargetMismatch nat OutPoint OutPoint

text \<open>Library calls: the rangeproof check returns the proven half-open range.\<close>

record wallet_ops =
  wallet_store_ops :: store_ops
  wallet_secp :: secp_ops
  rangeproof_verify :: "bytes \<Rightarrow> bytes \<Rightarrow> bytes \<Rightarrow> bytes \<Rightarrow> (u64 \<times> u64) option"
  schnorr_to_vec :: "SchnorrSig \<Rightarrow> bytes"
  sighash_all_byte :: u8

definition P2TR_SIGHASH_ALL_SIGNATURE_BYTES :: nat where
  "P2TR_SIGHASH_ALL_SIGNATURE_BYTES = 65"

definition SNAPSHOT_COMMITMENT_DOMAIN :: bytes where
  "SNAPSHOT_COMMITMENT_DOMAIN = str_bytes ''deadcat/rfq/inventory-snapshot/v1''"

record WalletScanAnchor =
  scan_block_hash :: bytes
  scan_block_height :: u32

record InventorySnapshot =
  snapshot_identity :: ProviderIdentity
  snapshot_anchor :: WalletScanAnchor
  snapshot_outputs :: "WalletOwnedOutput list"
  snapshot_committed :: fixed_id

datatype DestinationPurpose = SettlementReceive | SettlementChange

record ProviderInputSignature =
  signature_outpoint :: OutPoint
  signature_value :: SchnorrSig
  signature_serialized :: bytes

record SigningResponse =
  response_commitment :: fixed_id
  response_signatures :: "ProviderInputSignature list"


section \<open>Discovered outputs\<close>

definition wallet_owned_output_new ::
    "wallet_ops \<Rightarrow> OutPoint \<Rightarrow> TxOut \<Rightarrow> TxOutSecrets \<Rightarrow> bytes \<Rightarrow> bytes \<Rightarrow>
     (WalletBoundaryError, WalletOwnedOutput) result" where
  "wallet_owned_output_new ops outpoint txout opening internal_key wallet_locator =
     (if invalid_outpoint outpoint then Err (BoundaryModel (InvalidInventoryOutpoint outpoint))
      else if secret_value opening = 0 then Err (BoundaryModel ZeroInventoryAmount)
      else case out_asset txout of
        AssetConfidential asset_generator \<Rightarrow>
     (case out_value txout of
        ValueConfidential commitment \<Rightarrow>
     (case out_nonce txout of
        NonceConfidential _ \<Rightarrow>
      if surjection_proof (out_witness txout) = None then Err MissingSurjectionProof
      else rbind (ok_or (rangeproof (out_witness txout)) MissingRangeproof) (\<lambda>proof.
      if script_pubkey txout \<noteq> p2tr_script (wallet_store_ops ops) internal_key then Err NotExactTreeLessP2tr
      else
        let expected_generator =
              asset_commitment (wallet_secp ops) (secret_asset opening) (secret_asset_bf opening) in
        if asset_generator \<noteq> expected_generator then Err AssetOpeningMismatch
        else if commitment \<noteq> value_commitment (wallet_secp ops) (secret_value opening) expected_generator
            (secret_value_bf opening) then Err ValueOpeningMismatch
        else rbind (ok_or (rangeproof_verify ops proof commitment (script_pubkey txout) asset_generator)
            InvalidRangeproof) (\<lambda>(lo, hi).
        if \<not> (lo \<le> secret_value opening \<and> secret_value opening < hi) then Err OpeningOutsideProvenRange
        else
          let binding = output_binding (wallet_store_ops ops) outpoint txout (secret_asset opening)
                (secret_value opening) internal_key wallet_locator in
          rbind (map_err BoundaryModel (inventory_item_new outpoint (secret_asset opening) (secret_value opening)
              wallet_locator internal_key binding)) (\<lambda>item.
          Ok \<lparr>owned_txout = txout, owned_opening = opening, owned_item = item\<rparr>)))
      | _ \<Rightarrow> Err NonConfidentialNonce)
      | _ \<Rightarrow> Err NonConfidentialValue)
      | _ \<Rightarrow> Err NonConfidentialAsset)"


section \<open>Snapshots\<close>

definition snapshot_commitment ::
    "store_ops \<Rightarrow> ProviderIdentity \<Rightarrow> WalletScanAnchor \<Rightarrow> WalletOwnedOutput list \<Rightarrow> fixed_id" where
  "snapshot_commitment ops identity anchor outputs =
     store_sha ops (concat (map hash_frame
       ([SNAPSHOT_COMMITMENT_DOMAIN, provider identity, genesis_hash identity, identity_policy_asset identity,
         scan_block_hash anchor, u32_be (scan_block_height anchor),
         u64_be (if length outputs < 2 ^ 64 then of_nat (length outputs) else - 1)] @
        concat (map (\<lambda>o'. [serialize_outpoint ops (out_outpoint o'), item_binding (owned_item o')]) outputs))))"

definition snapshot_new ::
    "store_ops \<Rightarrow> ProviderIdentity \<Rightarrow> WalletScanAnchor \<Rightarrow> WalletOwnedOutput list \<Rightarrow>
     (WalletBoundaryError, InventorySnapshot) result" where
  "snapshot_new ops identity anchor outputs =
     (let outputs = sort_key out_outpoint outputs in
      case adjacent_duplicate (map out_outpoint outputs) of
        Some duplicate \<Rightarrow> Err (DuplicateSnapshotOutpoint duplicate)
      | None \<Rightarrow> Ok \<lparr>snapshot_identity = identity, snapshot_anchor = anchor, snapshot_outputs = outputs,
          snapshot_committed = snapshot_commitment ops identity anchor outputs\<rparr>)"


section \<open>Destinations and signatures\<close>

definition confidential_destination_new ::
    "store_ops \<Rightarrow> bytes \<Rightarrow> bytes \<Rightarrow> bytes \<Rightarrow> bytes \<Rightarrow> (WalletBoundaryError, ConfidentialDestination) result" where
  "confidential_destination_new ops script blinding_public_key internal_key wallet_locator =
     (if script \<noteq> p2tr_script ops internal_key then Err NotExactTreeLessP2tr
      else Ok \<lparr>dest_script_pubkey = script, dest_blinding_public_key = blinding_public_key,
        dest_internal_key = internal_key, dest_wallet_locator = wallet_locator\<rparr>)"

definition provider_input_signature_new ::
    "wallet_ops \<Rightarrow> OutPoint \<Rightarrow> SchnorrSig \<Rightarrow> (WalletBoundaryError, ProviderInputSignature) result" where
  "provider_input_signature_new ops outpoint sig =
     (if schnorr_hash_ty sig \<noteq> SighashAll then Err (NonExplicitSighashAll outpoint (schnorr_hash_ty sig))
      else
        let serialized = schnorr_to_vec ops sig in
        if length serialized \<noteq> P2TR_SIGHASH_ALL_SIGNATURE_BYTES then Err (InvalidSighashAllEncoding outpoint)
        else if serialized ! (P2TR_SIGHASH_ALL_SIGNATURE_BYTES - 1) \<noteq> sighash_all_byte ops
        then Err (InvalidSighashAllEncoding outpoint)
        else Ok \<lparr>signature_outpoint = outpoint, signature_value = sig, signature_serialized = serialized\<rparr>)"

text \<open>One iteration of the target loop.\<close>

definition check_signature_target ::
    "nat \<times> SigningTarget \<times> ProviderInputSignature \<Rightarrow> unit \<Rightarrow> (WalletBoundaryError, unit) result" where
  "check_signature_target e _ = (case e of (index, target, sig) \<Rightarrow>
     ensure (target_outpoint target = signature_outpoint sig)
       (SignatureTargetMismatch index (target_outpoint target) (signature_outpoint sig)))"

definition signing_response_new ::
    "SigningJob \<Rightarrow> ProviderInputSignature list \<Rightarrow> (WalletBoundaryError, SigningResponse) result" where
  "signing_response_new job signatures =
     (if length signatures \<noteq> length (job_targets job)
      then Err (SignatureCountMismatch (length (job_targets job)) (length signatures))
      else rbind (rfold check_signature_target (enumerate 0 (zip (job_targets job) signatures)) ()) (\<lambda>_.
        Ok \<lparr>response_commitment = job_commitment job, response_signatures = signatures\<rparr>))"


section \<open>Lemmas\<close>

text \<open>An authenticated output opens its commitments and carries the binding of its public data.\<close>

lemma wallet_owned_output_Ok:
  assumes "wallet_owned_output_new ops outpoint txout opening internal_key wallet_locator = Ok out"
  shows "out_outpoint out = outpoint" "owned_txout out = txout" "item_amount (owned_item out) = secret_value opening"
    "secret_value opening \<noteq> 0" "item_asset (owned_item out) = secret_asset opening"
    "item_binding (owned_item out) = recompute_inventory_binding (wallet_store_ops ops) (owned_item out) txout"
    "out_asset txout = AssetConfidential (asset_commitment (wallet_secp ops) (secret_asset opening) (secret_asset_bf opening))"
    "script_pubkey txout = p2tr_script (wallet_store_ops ops) internal_key"
  using assms
  by (auto simp: wallet_owned_output_new_def inventory_item_new_def recompute_inventory_binding_def Let_def result_simps
      split: if_splits Asset.splits Value.splits Nonce.splits prod.splits)

lemma adjacent_duplicate_None:
  fixes xs :: "'a::linorder list"
  assumes "sorted xs"
  shows "adjacent_duplicate xs = None \<longleftrightarrow> sorted_wrt (<) xs"
  using assms by (induction xs rule: adjacent_duplicate.induct) (auto simp: less_le)

lemma snapshot_sorted:
  assumes "snapshot_new ops identity anchor outputs = Ok snapshot"
  shows "sorted_wrt (<) (map out_outpoint (snapshot_outputs snapshot))" "set (snapshot_outputs snapshot) = set outputs"
    "snapshot_identity snapshot = identity"
  using assms
  by (auto simp: snapshot_new_def Let_def adjacent_duplicate_None split: option.splits)

text \<open>Two scans that return the same outputs in another order give the same snapshot.\<close>

lemma sort_key_perm:
  assumes "mset xs = mset ys"
  shows "map f (sort_key f xs) = map f (sort_key f ys)"
proof -
  have "mset (map f (sort_key f xs)) = mset (map f (sort_key f ys))" using assms by simp
  then show ?thesis by (metis properties_for_sort sort_key_simps sorted_sort_key)
qed

lemma snapshot_order_independent:
  assumes "mset outputs = mset outputs'"
  shows "snapshot_new ops identity anchor outputs = snapshot_new ops identity anchor outputs'"
proof (cases "adjacent_duplicate (map out_outpoint (sort_key out_outpoint outputs))")
  case None
  then have "sorted_wrt (<) (map out_outpoint (sort_key out_outpoint outputs))" by (simp add: adjacent_duplicate_None)
  then have "inj_on out_outpoint (set outputs)"
    by (auto simp: strict_sorted_iff distinct_map)
  then have "sort_key out_outpoint outputs = sort_key out_outpoint outputs'"
    using mset_eq_setD [OF assms] sort_key_perm [OF assms, of out_outpoint]
      inj_on_map_eq_map [of out_outpoint "sort_key out_outpoint outputs" "sort_key out_outpoint outputs'"]
    by simp
  then show ?thesis by (simp add: snapshot_new_def Let_def)
next
  case (Some p)
  then show ?thesis using sort_key_perm [OF assms, of out_outpoint] by (simp add: snapshot_new_def Let_def)
qed

end
