(* ===== verification/Rfq_Store.thy ===== *)
theory Rfq_Store
  imports Rfq_Records Effects
begin

text \<open>
  The reservation book of \<open>crates/deadcat-rfq-provider/src/store.rs\<close>.  The database holds the
  tables with their byte keys; table values are the decoded records and the numeric metadata are
  their stored bytes.  A write transaction is a function on the database: \<open>Err\<close> aborts it, and
  \<open>Ok (db, r)\<close> commits \<open>db\<close> and returns \<open>r\<close>, which may itself be an error.  The outcome of every
  redb commit is an input, so an ambiguous commit is a step of the model.
\<close>

section \<open>Keys and framing\<close>

definition SCHEMA_VERSION :: u32 where
  "SCHEMA_VERSION = 1"

definition MAX_EXPIRATION_BATCH :: nat where
  "MAX_EXPIRATION_BATCH = 256"

definition RECORD_VERSION :: u8 where
  "RECORD_VERSION = 1"

text \<open>The version framing of a record over the codec's \<open>to_allocvec\<close> and \<open>take_from_bytes\<close>.\<close>

definition encode_record :: "('a \<Rightarrow> bytes option) \<Rightarrow> 'a \<Rightarrow> (ProviderError, bytes) result" where
  "encode_record to_allocvec v = rbind (codec (to_allocvec v)) (\<lambda>payload. Ok (RECORD_VERSION # payload))"

definition decode_record ::
    "(bytes \<Rightarrow> ('a \<times> bytes) option) \<Rightarrow> bytes \<Rightarrow> (ProviderError, 'a) result" where
  "decode_record take_from_bytes bs = (case bs of
       [] \<Rightarrow> Err EmptyRecord
     | version # payload \<Rightarrow>
         if version \<noteq> RECORD_VERSION then Err (RecordVersionMismatch RECORD_VERSION version)
         else rbind (codec (take_from_bytes payload)) (\<lambda>(v, trailing).
           if trailing \<noteq> [] then Err (TrailingRecordBytes (length trailing)) else Ok v))"

definition decode_u32 :: "bytes \<Rightarrow> u32 option" where
  "decode_u32 bs = (if length bs = 4 then Some (u32_from_be bs) else None)"

definition decode_u64 :: "bytes \<Rightarrow> u64 option" where
  "decode_u64 bs = (if length bs = 8 then Some (u64_from_be bs) else None)"

definition outpoint_key :: "OutPoint \<Rightarrow> bytes" where
  "outpoint_key p = txid p @ u32_be (vout p)"

definition request_key :: "fixed_id \<Rightarrow> fixed_id \<Rightarrow> bytes" where
  "request_key owner key = owner @ key"

definition live_quote_key :: "unix_millis \<Rightarrow> fixed_id \<Rightarrow> fixed_id \<Rightarrow> bytes" where
  "live_quote_key deadline owner reservation_id = u64_be deadline @ owner @ reservation_id"

definition decode_table_key :: "nat \<Rightarrow> bytes \<Rightarrow> (ProviderError, bytes) result" where
  "decode_table_key n bs = rbind (ensure (length bs = n) CorruptState) (\<lambda>_. Ok bs)"

definition decode_live_quote_key ::
    "bytes \<Rightarrow> (ProviderError, unix_millis \<times> fixed_id \<times> fixed_id) result" where
  "decode_live_quote_key bs =
     rbind (decode_table_key 72 bs) (\<lambda>encoded.
     Ok (u64_from_be (take 8 encoded), take 32 (drop 8 encoded), drop 40 encoded))"

definition expiration_key :: "unix_millis \<Rightarrow> fixed_id \<Rightarrow> bytes" where
  "expiration_key deadline reservation_id = u64_be deadline @ reservation_id"

definition decode_expiration_key :: "bytes \<Rightarrow> (ProviderError, unix_millis \<times> fixed_id) result" where
  "decode_expiration_key bs =
     rbind (ensure (length bs = 40) (CorruptExpirationKey (length bs))) (\<lambda>_.
     Ok (u64_from_be (take 8 bs), drop 8 bs))"


section \<open>Database and transactions\<close>

record Database =
  meta_schema :: "bytes option"
  meta_identity :: "StoredProviderIdentity option"
  meta_last_time :: "bytes option"
  meta_audit_sequence :: "bytes option"
  meta_allocation_revision :: "bytes option"
  inventory_tbl :: "(bytes, StoredInventoryItem) table"
  allocations_tbl :: "(bytes, StoredAllocation) table"
  reservations_tbl :: "(bytes, StoredReservation) table"
  request_keys_tbl :: "(bytes, StoredRequestBinding) table"
  expirations_tbl :: "(bytes, bytes) table"
  live_quotes_tbl :: "(bytes, bytes) table"
  audit_tbl :: "(u64, StoredAuditEntry) table"

record ReservationBook =
  database :: Database
  book_identity :: ProviderIdentity
  poisoned :: bool

type_synonym 'a txn = "(ProviderError, Database \<times> (ProviderError, 'a) result) result"

abbreviation commit_ok :: "Database \<Rightarrow> 'a \<Rightarrow> 'a txn" where
  "commit_ok db v \<equiv> Ok (db, Ok v)"

abbreviation commit_err :: "Database \<Rightarrow> ProviderError \<Rightarrow> 'a txn" where
  "commit_err db e \<equiv> Ok (db, Err e)"

definition commit_write ::
    "commit_result \<Rightarrow> Database \<Rightarrow> ReservationBook \<Rightarrow> (ProviderError, unit) result \<times> ReservationBook" where
  "commit_write outcome db book = (case outcome of
       Committed \<Rightarrow> (Ok (), book\<lparr>database := db\<rparr>)
     | CommitFailed durable \<Rightarrow>
         (Err CommitError, book\<lparr>database := (if durable then db else database book), poisoned := True\<rparr>))"

definition ensure_healthy :: "ReservationBook \<Rightarrow> (ProviderError, unit) result" where
  "ensure_healthy book = ensure (\<not> poisoned book) DatabaseRequiresReopen"

definition observe_time :: "Database \<Rightarrow> unix_millis \<Rightarrow> (ProviderError, Database) result" where
  "observe_time db now =
     rbind (case meta_last_time db of
         None \<Rightarrow> Ok ()
       | Some bs \<Rightarrow>
           rbind (ok_or (decode_u64 bs) CorruptTimeHighWatermark) (\<lambda>previous.
           ensure (now \<ge> previous) (ClockRegression previous now))) (\<lambda>_.
     Ok (db\<lparr>meta_last_time := Some (u64_be now)\<rparr>))"

text \<open>
  \<open>begin_timed_write\<close> followed by the operation's body and its commit.  The observed time is
  committed on its own before the body runs.
\<close>

definition run_timed ::
    "commit_result \<Rightarrow> commit_result \<Rightarrow> unix_millis \<Rightarrow> (unix_millis \<Rightarrow> Database \<Rightarrow> 'a txn) \<Rightarrow> ReservationBook \<Rightarrow>
     (ProviderError, 'a) result \<times> ReservationBook" where
  "run_timed observed committed now body book =
     (case rbind (ensure_healthy book) (\<lambda>_. observe_time (database book) now) of
        Inl e \<Rightarrow> (Err e, book)
      | Inr db \<Rightarrow>
          (case commit_write observed db book of
             (Inl e, book') \<Rightarrow> (Err e, book')
           | (Inr _, book') \<Rightarrow>
               (case body now (database book') of
                  Inl e \<Rightarrow> (Err e, book')
                | Inr (db', r) \<Rightarrow>
                    (case commit_write committed db' book' of
                       (Inl e, book'') \<Rightarrow> (Err e, book'')
                     | (Inr _, book'') \<Rightarrow> (r, book'')))))"

text \<open>A read transaction.\<close>

definition run_read ::
    "(Database \<Rightarrow> (ProviderError, 'a) result) \<Rightarrow> ReservationBook \<Rightarrow> (ProviderError, 'a) result" where
  "run_read body book = rbind (ensure_healthy book) (\<lambda>_. body (database book))"


section \<open>Shared steps\<close>

definition AUDIT_SEQUENCE_KEY :: string where
  "AUDIT_SEQUENCE_KEY = ''audit_sequence''"

definition ALLOCATION_REVISION_KEY :: string where
  "ALLOCATION_REVISION_KEY = ''allocation_revision''"

definition append_audit ::
    "unix_millis \<Rightarrow> StoredAuditEvent \<Rightarrow> Database \<Rightarrow> (ProviderError, Database) result" where
  "append_audit at event db =
     rbind (ok_or (meta_audit_sequence db) (MissingMetadata AUDIT_SEQUENCE_KEY)) (\<lambda>bs.
     rbind (ok_or (decode_u64 bs) CorruptAuditSequence) (\<lambda>current.
     rbind (ok_or (checked_add current 1) AuditSequenceOverflow) (\<lambda>sequence.
     Ok (db\<lparr>meta_audit_sequence := Some (u64_be sequence),
       audit_tbl := tbl_insert sequence
         \<lparr>entry_sequence = sequence, entry_at = at, entry_event = event\<rparr> (audit_tbl db)\<rparr>))))"

definition allocation_revision :: "Database \<Rightarrow> (ProviderError, u64) result" where
  "allocation_revision db =
     rbind (ok_or (meta_allocation_revision db) (MissingMetadata ALLOCATION_REVISION_KEY)) (\<lambda>bs.
     ok_or (decode_u64 bs) CorruptAllocationRevision)"

definition advance_allocation_revision :: "Database \<Rightarrow> (ProviderError, Database) result" where
  "advance_allocation_revision db =
     rbind (allocation_revision db) (\<lambda>current.
     rbind (ok_or (checked_add current 1) AllocationRevisionOverflow) (\<lambda>n.
     Ok (db\<lparr>meta_allocation_revision := Some (u64_be n)\<rparr>)))"

definition read_reservation ::
    "store_ops \<Rightarrow> Database \<Rightarrow> fixed_id \<Rightarrow> (ProviderError, StoredReservation option) result" where
  "read_reservation ops db reservation_id = (case tbl_get (reservations_tbl db) reservation_id of
       None \<Rightarrow> Ok None
     | Some r \<Rightarrow>
         rbind (ensure (res_id r = reservation_id) CorruptState) (\<lambda>_.
         rbind (reservation_validate ops r) (\<lambda>_. Ok (Some r))))"

definition require_reservation ::
    "store_ops \<Rightarrow> Database \<Rightarrow> fixed_id \<Rightarrow> ProviderError \<Rightarrow> (ProviderError, StoredReservation) result" where
  "require_reservation ops db reservation_id missing =
     rbind (read_reservation ops db reservation_id) (\<lambda>found. ok_or found missing)"

definition require_authorized_reservation ::
    "store_ops \<Rightarrow> Database \<Rightarrow> ReservationAccess \<Rightarrow> (ProviderError, StoredReservation) result" where
  "require_authorized_reservation ops db access =
     rbind (require_reservation ops db (access_reservation_id access)
         (ReservationNotFound (access_reservation_id access))) (\<lambda>r.
     rbind (ensure (res_owner r = access_owner access)
         (ReservationOwnerMismatch (access_reservation_id access))) (\<lambda>_. Ok r))"

definition remove_live_quote_index ::
    "StoredReservation \<Rightarrow> Database \<Rightarrow> (ProviderError, Database) result" where
  "remove_live_quote_index r db =
     (let key = live_quote_key (res_accept_before r) (res_owner r) (res_id r);
          removed = (tbl_get (live_quotes_tbl db) key \<noteq> None) in
      rbind (ensure (removed = (res_quote r \<noteq> None)) CorruptState) (\<lambda>_.
      Ok (db\<lparr>live_quotes_tbl := tbl_remove key (live_quotes_tbl db)\<rparr>)))"

definition remove_expiration :: "StoredReservation \<Rightarrow> Database \<Rightarrow> (ProviderError, Database) result" where
  "remove_expiration r db =
     (let key = expiration_key (res_accept_before r) (res_id r) in
      rbind (ensure (tbl_get (expirations_tbl db) key \<noteq> None) CorruptState) (\<lambda>_.
      Ok (db\<lparr>expirations_tbl := tbl_remove key (expirations_tbl db)\<rparr>)))"

definition check_reserved_allocations :: "StoredReservation \<Rightarrow> Database \<Rightarrow> (ProviderError, unit) result" where
  "check_reserved_allocations r db =
     rfold (\<lambda>p _. ensure (tbl_get (allocations_tbl db) (outpoint_key p) = Some (AllocReserved (res_id r)))
       CorruptState) (res_outpoints r) ()"

definition set_allocations :: "StoredAllocation \<Rightarrow> OutPoint list \<Rightarrow> Database \<Rightarrow> Database" where
  "set_allocations a outpoints db =
     fold (\<lambda>p d. d\<lparr>allocations_tbl := tbl_insert (outpoint_key p) a (allocations_tbl d)\<rparr>) outpoints db"

definition remove_allocations :: "OutPoint list \<Rightarrow> Database \<Rightarrow> Database" where
  "remove_allocations outpoints db =
     fold (\<lambda>p d. d\<lparr>allocations_tbl := tbl_remove (outpoint_key p) (allocations_tbl d)\<rparr>) outpoints db"

definition write_reservation :: "StoredReservation \<Rightarrow> Database \<Rightarrow> Database" where
  "write_reservation r db = db\<lparr>reservations_tbl := tbl_insert (res_id r) r (reservations_tbl db)\<rparr>"

text \<open>Returns the database and the updated record.\<close>

definition release_reserved ::
    "StoredReservation \<Rightarrow> ReleaseReason \<Rightarrow> unix_millis \<Rightarrow> Database \<Rightarrow>
     (ProviderError, Database \<times> StoredReservation) result" where
  "release_reserved r reason at db =
     rbind (ensure (res_state r = StReserved) (PointOfNoReturn (res_id r))) (\<lambda>_.
     rbind (check_reserved_allocations r db) (\<lambda>_.
     rbind (advance_allocation_revision (remove_allocations (res_outpoints r) db)) (\<lambda>db1.
     rbind (remove_expiration r db1) (\<lambda>db2.
     rbind (remove_live_quote_index r db2) (\<lambda>db3.
     let r' = r\<lparr>res_state := StReleased reason at\<rparr> in
     rbind (append_audit at (ReservationReleased (res_id r) reason) (write_reservation r' db3)) (\<lambda>db4.
     Ok (db4, r')))))))"



section \<open>Inventory\<close>

fun first_duplicate :: "OutPoint list \<Rightarrow> OutPoint set \<Rightarrow> OutPoint option" where
  "first_duplicate [] seen = None"
| "first_duplicate (p # ps) seen = (if p \<in> seen then Some p else first_duplicate ps (insert p seen))"

definition plan_import ::
    "Database \<Rightarrow> InventoryItem \<Rightarrow> (bytes \<times> StoredInventoryItem) list \<Rightarrow>
     (ProviderError, (bytes \<times> StoredInventoryItem) list) result" where
  "plan_import db item pending =
     (let key = outpoint_key (item_outpoint item) in
      case tbl_get (inventory_tbl db) key of
        Some existing \<Rightarrow>
          if existing \<noteq> item then Err (InventoryMetadataConflict (item_outpoint item)) else Ok pending
      | None \<Rightarrow> Ok (pending @ [(key, item)]))"

definition import_one ::
    "unix_millis \<Rightarrow> bytes \<times> StoredInventoryItem \<Rightarrow> Database \<Rightarrow> (ProviderError, Database) result" where
  "import_one now e db =
     append_audit now (InventoryImported (item_outpoint (snd e)))
       (db\<lparr>inventory_tbl := tbl_insert (fst e) (snd e) (inventory_tbl db)\<rparr>)"

definition import_body :: "InventoryItem list \<Rightarrow> unix_millis \<Rightarrow> Database \<Rightarrow> nat txn" where
  "import_body items now db =
     rbind (rfold (plan_import db) items []) (\<lambda>pending.
     rbind (rfold (import_one now) pending db) (\<lambda>db'.
     commit_ok db' (length pending)))"

definition import_inventory_batch ::
    "commit_result \<Rightarrow> commit_result \<Rightarrow> unix_millis \<Rightarrow> InventoryItem list \<Rightarrow> ReservationBook \<Rightarrow>
     (ProviderError, nat) result \<times> ReservationBook" where
  "import_inventory_batch observed committed now items book =
     (case first_duplicate (map item_outpoint items) {} of
        Some p \<Rightarrow> (Err (DuplicateInventoryOutpoint p), book)
      | None \<Rightarrow> run_timed observed committed now (import_body items) book)"

definition inventory_state_at :: "Database \<Rightarrow> bytes \<Rightarrow> InventoryState" where
  "inventory_state_at db key = (case tbl_get (allocations_tbl db) key of
       None \<Rightarrow> Available | Some a \<Rightarrow> allocation_view a)"

definition inventory ::
    "store_ops \<Rightarrow> OutPoint \<Rightarrow> ReservationBook \<Rightarrow> (ProviderError, InventoryView option) result" where
  "inventory ops p = run_read (\<lambda>db. case tbl_get (inventory_tbl db) (outpoint_key p) of
       None \<Rightarrow> Ok None
     | Some item \<Rightarrow>
         rbind (stored_inventory_to_domain ops item) (\<lambda>domain.
         Ok (Some \<lparr>view_item = domain, view_inventory_state = inventory_state_at db (outpoint_key p)\<rparr>)))"

definition lookup_inventory ::
    "store_ops \<Rightarrow> Database \<Rightarrow> OutPoint \<Rightarrow> (ProviderError, InventoryView) result" where
  "lookup_inventory ops db p =
     rbind (ok_or (tbl_get (inventory_tbl db) (outpoint_key p)) CorruptState) (\<lambda>item.
     rbind (stored_inventory_to_domain ops item) (\<lambda>domain.
     rbind (ensure (item_outpoint domain = p) CorruptState) (\<lambda>_.
     Ok \<lparr>view_item = domain, view_inventory_state = inventory_state_at db (outpoint_key p)\<rparr>)))"

definition inventory_state_for ::
    "store_ops \<Rightarrow> OutPoint list \<Rightarrow> ReservationBook \<Rightarrow> (ProviderError, InventoryView list \<times> u64) result" where
  "inventory_state_for ops outpoints =
     run_read (\<lambda>db.
     rbind (ensure (sorted_wrt (<) outpoints) CorruptState) (\<lambda>_.
     rbind (rmap (lookup_inventory ops db) outpoints) (\<lambda>views.
     rbind (allocation_revision db) (\<lambda>revision.
     Ok (views, revision)))))"


section \<open>Expiry\<close>

text \<open>The scan of the expiration index: oldest deadline first, up to the first future deadline.\<close>

fun collect_due ::
    "(bytes, bytes) table \<Rightarrow> unix_millis \<Rightarrow> nat \<Rightarrow> (ProviderError, (unix_millis \<times> fixed_id) list) result" where
  "collect_due [] now limit = Ok []"
| "collect_due ((key, _) # entries) now limit =
     (if limit = 0 then Ok []
      else rbind (decode_expiration_key key) (\<lambda>(deadline, reservation_id).
        if deadline > now then Ok []
        else rbind (collect_due entries now (limit - 1)) (\<lambda>rest.
          Ok ((deadline, reservation_id) # rest))))"

definition expire_one ::
    "store_ops \<Rightarrow> unix_millis \<Rightarrow> unix_millis \<times> fixed_id \<Rightarrow> Database \<Rightarrow> (ProviderError, Database) result" where
  "expire_one ops now due db =
     rbind (require_reservation ops db (snd due) CorruptState) (\<lambda>r.
     rbind (ensure (res_accept_before r = fst due) CorruptState) (\<lambda>_.
     rbind (ensure (res_state r = StReserved \<and> res_accept_before r \<le> now) CorruptState) (\<lambda>_.
     rbind (release_reserved r ReasonExpired now db) (\<lambda>(db', _). Ok db'))))"

definition expire_due_in_write ::
    "store_ops \<Rightarrow> unix_millis \<Rightarrow> nat \<Rightarrow> Database \<Rightarrow> (ProviderError, Database \<times> fixed_id list) result" where
  "expire_due_in_write ops now limit db =
     (if limit = 0 then Ok (db, [])
      else
        rbind (collect_due (expirations_tbl db) now limit) (\<lambda>due.
        rbind (rfold (expire_one ops now) due db) (\<lambda>db'.
        Ok (db', map snd due))))"

definition expire_due_body :: "store_ops \<Rightarrow> nat \<Rightarrow> unix_millis \<Rightarrow> Database \<Rightarrow> fixed_id list txn" where
  "expire_due_body ops limit now db =
     rbind (expire_due_in_write ops now (min limit MAX_EXPIRATION_BATCH) db) (\<lambda>(db', expired).
     commit_ok db' expired)"

definition expire_due ::
    "store_ops \<Rightarrow> commit_result \<Rightarrow> commit_result \<Rightarrow> unix_millis \<Rightarrow> nat \<Rightarrow> ReservationBook \<Rightarrow>
     (ProviderError, fixed_id list) result \<times> ReservationBook" where
  "expire_due ops observed committed now limit book =
     (if limit = 0 then (Ok [], book)
      else run_timed observed committed now (expire_due_body ops limit) book)"


section \<open>Quote admission\<close>

definition read_request_binding :: "Database \<Rightarrow> fixed_id \<Rightarrow> fixed_id \<Rightarrow> StoredRequestBinding option" where
  "read_request_binding db owner key = tbl_get (request_keys_tbl db) (request_key owner key)"

definition replay_binding_in_write ::
    "store_ops \<Rightarrow> StoredRequestBinding \<Rightarrow> unix_millis \<Rightarrow> Database \<Rightarrow>
     (ProviderError, Database \<times> StoredReservation) result" where
  "replay_binding_in_write ops binding now db =
     rbind (require_reservation ops db (binding_reservation_id binding) CorruptState) (\<lambda>r.
     rbind (ensure (res_id r = binding_reservation_id binding
         \<and> res_semantic_request_digest r = binding_semantic_request_digest binding
         \<and> res_request_digest r = binding_request_digest binding) CorruptState) (\<lambda>_.
     if res_state r = StReserved \<and> now \<ge> res_accept_before r
     then release_reserved r ReasonExpired now db
     else Ok (db, r)))"

text \<open>The replay shared by preflight, replay and reservation.\<close>

definition replay_request ::
    "store_ops \<Rightarrow> ProviderIdentity \<Rightarrow> fixed_id \<Rightarrow> fixed_id \<Rightarrow> fixed_id \<Rightarrow> StoredRequestBinding \<Rightarrow> unix_millis \<Rightarrow>
     Database \<Rightarrow> (ProviderError, Database \<times> FirmQuoteOutcome) result" where
  "replay_request ops identity owner key digest binding now db =
     rbind (ensure (binding_semantic_request_digest binding = digest) (IdempotencyConflict owner key)) (\<lambda>_.
     rbind (replay_binding_in_write ops binding now db) (\<lambda>(db', r).
     rbind (to_firm_quote_outcome ops r identity False) (\<lambda>outcome.
     Ok (db', outcome))))"

text \<open>The counting loop over the live index from the first future deadline on.\<close>

fun count_live ::
    "fixed_id \<Rightarrow> QuoteEnginePolicy \<Rightarrow> unix_millis \<Rightarrow> (bytes, bytes) table \<Rightarrow> nat \<Rightarrow> nat \<Rightarrow> (ProviderError, unit) result" where
  "count_live owner policy now [] global_live owner_live = Ok ()"
| "count_live owner policy now ((key, v) # entries) global_live owner_live =
     rbind (decode_live_quote_key key) (\<lambda>(deadline, indexed_owner, _).
     rbind (ensure (deadline > now \<and> v = []) CorruptState) (\<lambda>_.
     rbind (ensure (global_live + 1 < 2 ^ 64) LiveQuoteCountOverflow) (\<lambda>_.
     rbind (if indexed_owner = owner then
         rbind (ensure (owner_live + 1 < 2 ^ 64) LiveQuoteCountOverflow) (\<lambda>_.
         rbind (ensure (owner_live + 1 < maximum_live_quotes_per_owner policy)
           (OwnerLiveQuoteLimit owner (maximum_live_quotes_per_owner policy))) (\<lambda>_.
         Ok (owner_live + 1)))
       else Ok owner_live) (\<lambda>owner_live'.
     rbind (ensure (global_live + 1 < maximum_live_quotes_global policy)
       (GlobalLiveQuoteLimit (maximum_live_quotes_global policy))) (\<lambda>_.
     count_live owner policy now entries (global_live + 1) owner_live')))))"

definition enforce_live_quote_limits ::
    "fixed_id \<Rightarrow> QuoteEnginePolicy \<Rightarrow> unix_millis \<Rightarrow> Database \<Rightarrow> (ProviderError, unit) result" where
  "enforce_live_quote_limits owner policy now db = (case checked_add now 1 of
       None \<Rightarrow> Ok ()
     | Some first_deadline \<Rightarrow>
         count_live owner policy now
           (dropWhile (\<lambda>e. fst e < live_quote_key first_deadline (replicate 32 0) (replicate 32 0))
             (live_quotes_tbl db)) 0 0)"

definition is_live_limit :: "ProviderError \<Rightarrow> bool" where
  "is_live_limit e = (case e of
       OwnerLiveQuoteLimit _ _ \<Rightarrow> True | GlobalLiveQuoteLimit _ \<Rightarrow> True | _ \<Rightarrow> False)"

definition preflight_body ::
    "store_ops \<Rightarrow> ProviderIdentity \<Rightarrow> fixed_id \<Rightarrow> fixed_id \<Rightarrow> fixed_id \<Rightarrow> QuoteEnginePolicy \<Rightarrow> unix_millis \<Rightarrow> Database \<Rightarrow>
     FirmQuoteOutcome option txn" where
  "preflight_body ops identity owner key digest policy now db =
     (case read_request_binding db owner key of
        Some binding \<Rightarrow>
          rbind (replay_request ops identity owner key digest binding now db) (\<lambda>(db', outcome).
          commit_ok db' (Some outcome))
      | None \<Rightarrow>
          rbind (expire_due_in_write ops now MAX_EXPIRATION_BATCH db) (\<lambda>(db', _).
          case enforce_live_quote_limits owner policy now db' of
            Inr _ \<Rightarrow> commit_ok db' None
          | Inl e \<Rightarrow> if is_live_limit e then commit_err db' e else Err e))"

definition preflight_firm_quote ::
    "store_ops \<Rightarrow> commit_result \<Rightarrow> commit_result \<Rightarrow> unix_millis \<Rightarrow> fixed_id \<Rightarrow> fixed_id \<Rightarrow> fixed_id \<Rightarrow>
     QuoteEnginePolicy \<Rightarrow> ReservationBook \<Rightarrow> (ProviderError, FirmQuoteOutcome option) result \<times> ReservationBook" where
  "preflight_firm_quote ops observed committed now owner key digest policy book =
     run_timed observed committed now (preflight_body ops (book_identity book) owner key digest policy) book"

definition replay_body ::
    "store_ops \<Rightarrow> ProviderIdentity \<Rightarrow> fixed_id \<Rightarrow> fixed_id \<Rightarrow> fixed_id \<Rightarrow> unix_millis \<Rightarrow> Database \<Rightarrow>
     FirmQuoteOutcome option txn" where
  "replay_body ops identity owner key digest now db =
     (case read_request_binding db owner key of
        None \<Rightarrow> commit_ok db None
      | Some binding \<Rightarrow>
          rbind (replay_request ops identity owner key digest binding now db) (\<lambda>(db', outcome).
          commit_ok db' (Some outcome)))"

definition replay_firm_quote ::
    "store_ops \<Rightarrow> commit_result \<Rightarrow> commit_result \<Rightarrow> unix_millis \<Rightarrow> fixed_id \<Rightarrow> fixed_id \<Rightarrow> fixed_id \<Rightarrow>
     ReservationBook \<Rightarrow> (ProviderError, FirmQuoteOutcome option) result \<times> ReservationBook" where
  "replay_firm_quote ops observed committed now owner key digest book =
     run_timed observed committed now (replay_body ops (book_identity book) owner key digest) book"



section \<open>Reservation\<close>

definition binding_of :: "StoredReservation \<Rightarrow> StoredRequestBinding" where
  "binding_of r =
     \<lparr>binding_reservation_id = res_id r, binding_semantic_request_digest = res_semantic_request_digest r,
      binding_request_digest = res_request_digest r\<rparr>"

definition persist_new_reservation ::
    "StoredReservation \<Rightarrow> Database \<Rightarrow> (ProviderError, Database) result" where
  "persist_new_reservation r db =
     (let db1 = write_reservation r db;
          db2 = db1\<lparr>request_keys_tbl :=
            tbl_insert (request_key (res_owner r) (res_idempotency_key r)) (binding_of r) (request_keys_tbl db1)\<rparr>;
          db3 = set_allocations (AllocReserved (res_id r)) (res_outpoints r) db2 in
      rbind (advance_allocation_revision db3) (\<lambda>db4.
      let db5 = db4\<lparr>expirations_tbl :=
            tbl_insert (expiration_key (res_accept_before r) (res_id r)) [] (expirations_tbl db4)\<rparr>;
          db6 = db5\<lparr>live_quotes_tbl :=
            tbl_insert (live_quote_key (res_accept_before r) (res_owner r) (res_id r)) [] (live_quotes_tbl db5)\<rparr> in
      append_audit (res_created_at r) (ReservationCreated (res_id r) (res_outpoints r)) db6))"

definition check_selected_outpoint ::
    "FirmQuoteDraft \<Rightarrow> Database \<Rightarrow> OutPoint \<Rightarrow> unit \<Rightarrow> (ProviderError, unit) result" where
  "check_selected_outpoint draft db p _ =
     rbind (ok_or (tbl_get (inventory_tbl db) (outpoint_key p)) (UnknownInventory p)) (\<lambda>item.
     rbind (ok_or (find (\<lambda>i. qinput_outpoint i = p) (contribution_inputs (draft_contribution draft)))
         (FirmQuoteInventoryMismatch p)) (\<lambda>quoted.
     rbind (ensure (item_asset item = draft_selected_asset draft \<and> item_binding item = qinput_binding quoted)
         (FirmQuoteInventoryMismatch p)) (\<lambda>_.
     case tbl_get (allocations_tbl db) (outpoint_key p) of
       Some a \<Rightarrow> Err (OutpointUnavailable p (allocation_view a))
     | None \<Rightarrow> Ok ())))"

definition validate_selected_input ::
    "store_ops \<Rightarrow> StoredFirmQuote \<Rightarrow> Database \<Rightarrow> QuotedProviderInput \<Rightarrow> u64 \<Rightarrow> (ProviderError, u64) result" where
  "validate_selected_input ops quote db inp acc =
     rbind (ok_or (tbl_get (inventory_tbl db) (outpoint_key (qinput_outpoint inp)))
         (UnknownInventory (qinput_outpoint inp))) (\<lambda>item.
     rbind (stored_inventory_to_domain ops item) (\<lambda>domain.
     rbind (ensure (item_asset item = sfq_selected_asset quote \<and> item_binding item = qinput_binding inp
         \<and> recompute_inventory_binding ops domain (qinput_witness_utxo inp) = qinput_binding inp)
         (FirmQuoteInventoryMismatch (qinput_outpoint inp))) (\<lambda>_.
     ok_or (checked_add acc (item_amount item)) FirmQuoteDraftInvalid)))"

definition new_reservation ::
    "fixed_id \<Rightarrow> fixed_id \<Rightarrow> fixed_id \<Rightarrow> fixed_id \<Rightarrow> FirmQuote \<Rightarrow> FirmQuoteDraft \<Rightarrow> ReservationPlan \<Rightarrow> fixed_id \<Rightarrow>
     unix_millis \<Rightarrow> unix_millis \<Rightarrow> FeePolicy \<Rightarrow> StoredReservation" where
  "new_reservation reservation_id owner key digest quote draft plan request_digest now accept_before policy =
     \<lparr>res_id = reservation_id, res_owner = owner, res_idempotency_key = key,
      res_semantic_request_digest = digest, res_request_digest = request_digest,
      res_quote_commitment = quote_commitment quote,
      res_quote = Some (stored_quote_from_domain quote draft), res_outpoints = plan_outpoints plan,
      res_created_at = now, res_accept_before = accept_before,
      res_fee_policy = policy, res_state = StReserved\<rparr>"

text \<open>From the finalized quote to the persisted reservation.\<close>

definition reserve_finalized ::
    "store_ops \<Rightarrow> ProviderIdentity \<Rightarrow> fixed_id \<Rightarrow> fixed_id \<Rightarrow> fixed_id \<Rightarrow> fixed_id \<Rightarrow> FirmQuoteDraft \<Rightarrow>
     QuoteEnginePolicy \<Rightarrow> unix_millis \<Rightarrow> unix_millis \<Rightarrow> Database \<Rightarrow> FirmQuoteOutcome txn" where
  "reserve_finalized ops identity owner key digest reservation_id draft policy now accept_before db =
     rbind (codec (finalize_quote (quote_ops_of ops) identity owner key digest reservation_id draft now
         accept_before (engine_fee_policy policy))) (\<lambda>quote.
     rbind (corrupt (plan_with_request_digest owner key digest (quote_commitment quote)
         (selected_outpoints draft) accept_before (engine_fee_policy policy))) (\<lambda>plan.
     rbind (plan_request_digest_of ops identity plan) (\<lambda>request_digest.
     let r = new_reservation reservation_id owner key digest quote draft plan request_digest now
           accept_before (engine_fee_policy policy) in
     rbind (reservation_validate ops r) (\<lambda>_.
     rbind (ok_or (res_quote r) FirmQuoteDraftInvalid) (\<lambda>persisted.
     rbind (stored_quote_to_domain ops persisted identity r) (\<lambda>validated.
     rbind (rfold (validate_selected_input ops persisted db)
         (contribution_inputs (quote_contribution_of validated)) 0) (\<lambda>amount.
     rbind (ensure (amount = sfq_selected_amount persisted) FirmQuoteDraftInvalid) (\<lambda>_.
     rbind (persist_new_reservation r db) (\<lambda>db'.
     rbind (reservation_to_view ops r) (\<lambda>view.
     commit_ok db' \<lparr>outcome_quote = quote, outcome_reservation = view, outcome_created = True\<rparr>))))))))))"

definition reserve_body ::
    "store_ops \<Rightarrow> ProviderIdentity \<Rightarrow> fixed_id \<Rightarrow> fixed_id \<Rightarrow> fixed_id \<Rightarrow> FirmQuoteDraft \<Rightarrow> QuoteEnginePolicy \<Rightarrow>
     unix_millis \<Rightarrow> u64 \<Rightarrow> unix_millis \<Rightarrow> Database \<Rightarrow> FirmQuoteOutcome txn" where
  "reserve_body ops identity owner key digest draft policy observed_at maximum_age now db =
     (let reservation_id = derive_reservation_id ops owner key in
      case read_request_binding db owner key of
        Some binding \<Rightarrow>
          rbind (replay_request ops identity owner key digest binding now db) (\<lambda>(db', outcome).
          commit_ok db' outcome)
      | None \<Rightarrow>
          if now < observed_at then commit_err db (InventorySnapshotObservedInFuture observed_at now)
          else if now - observed_at \<ge> maximum_age
          then commit_err db (InventorySnapshotStale observed_at now maximum_age)
          else
            rbind (allocation_revision db) (\<lambda>revision.
            rbind (ensure (revision = evidence_allocation_revision (draft_snapshot draft))
                EligibleInventoryChanged) (\<lambda>_.
            rbind (ok_or (checked_add now (quote_lifetime_millis policy)) QuoteDeadlineOverflow) (\<lambda>accept_before.
            rbind (codec (quote_request_digest (quote_ops_of ops) identity owner key (draft_request draft))) (\<lambda>derived.
            rbind (ensure (derived = digest) FirmQuoteRequestDigestMismatch) (\<lambda>_.
            rbind (read_reservation ops db reservation_id) (\<lambda>existing.
            rbind (ensure (existing = None) (ReservationIdCollision reservation_id)) (\<lambda>_.
            rbind (rfold (check_selected_outpoint draft db) (selected_outpoints draft) ()) (\<lambda>_.
            case enforce_live_quote_limits owner policy now db of
              Inl e \<Rightarrow> if is_live_limit e then commit_err db e else Err e
            | Inr _ \<Rightarrow>
                reserve_finalized ops identity owner key digest reservation_id draft policy now
                  accept_before db)))))))))"

definition reserve_firm_quote_from_snapshot ::
    "store_ops \<Rightarrow> commit_result \<Rightarrow> commit_result \<Rightarrow> unix_millis \<Rightarrow> fixed_id \<Rightarrow> fixed_id \<Rightarrow> fixed_id \<Rightarrow>
     FirmQuoteDraft \<Rightarrow> QuoteEnginePolicy \<Rightarrow> unix_millis \<Rightarrow> u64 \<Rightarrow> ReservationBook \<Rightarrow>
     (ProviderError, FirmQuoteOutcome) result \<times> ReservationBook" where
  "reserve_firm_quote_from_snapshot ops observed committed now owner key digest draft policy observed_at
       maximum_age book =
     (if policy_asset (engine_fee_policy policy) \<noteq> identity_policy_asset (book_identity book)
      then (Err (WrongPolicyAsset (identity_policy_asset (book_identity book))
          (policy_asset (engine_fee_policy policy))), book)
      else run_timed observed committed now
        (reserve_body ops (book_identity book) owner key digest draft policy observed_at maximum_age) book)"


section \<open>Release\<close>

definition cancel_body :: "store_ops \<Rightarrow> ReservationAccess \<Rightarrow> unix_millis \<Rightarrow> Database \<Rightarrow> bool txn" where
  "cancel_body ops access now db =
     rbind (require_authorized_reservation ops db access) (\<lambda>r.
     case res_state r of
       StReserved \<Rightarrow>
         let reason = (if now \<ge> res_accept_before r then ReasonExpired else ClientCancelled) in
         rbind (release_reserved r reason now db) (\<lambda>(db', _). commit_ok db' True)
     | StReleased reason _ \<Rightarrow>
         if reason = ClientCancelled then commit_ok db False
         else Err (ReservationAlreadyReleased (res_id r))
     | _ \<Rightarrow> Err (PointOfNoReturn (res_id r)))"

definition cancel ::
    "store_ops \<Rightarrow> commit_result \<Rightarrow> commit_result \<Rightarrow> unix_millis \<Rightarrow> ReservationAccess \<Rightarrow> ReservationBook \<Rightarrow>
     (ProviderError, bool) result \<times> ReservationBook" where
  "cancel ops observed committed now access = run_timed observed committed now (cancel_body ops access)"

definition reject_body :: "store_ops \<Rightarrow> fixed_id \<Rightarrow> unix_millis \<Rightarrow> Database \<Rightarrow> bool txn" where
  "reject_body ops reservation_id now db =
     rbind (require_reservation ops db reservation_id (ReservationNotFound reservation_id)) (\<lambda>r.
     case res_state r of
       StReserved \<Rightarrow>
         let reason = (if now \<ge> res_accept_before r then ReasonExpired else ProviderRejected) in
         rbind (release_reserved r reason now db) (\<lambda>(db', _). commit_ok db' True)
     | StReleased _ _ \<Rightarrow> commit_ok db False
     | _ \<Rightarrow> Err (PointOfNoReturn reservation_id))"

definition reject_uncommitted ::
    "store_ops \<Rightarrow> commit_result \<Rightarrow> commit_result \<Rightarrow> unix_millis \<Rightarrow> fixed_id \<Rightarrow> ReservationBook \<Rightarrow>
     (ProviderError, bool) result \<times> ReservationBook" where
  "reject_uncommitted ops observed committed now reservation_id =
     run_timed observed committed now (reject_body ops reservation_id)"



section \<open>Signing commitment\<close>

datatype CommitOutcome =
    NewlyCommitted SigningJob
  | AlreadyCommitted SigningJob
  | AlreadySigned SignedArtifact

definition signing_target_for ::
    "store_ops \<Rightarrow> Database \<Rightarrow> OutPoint \<Rightarrow> (ProviderError, StoredSigningTarget) result" where
  "signing_target_for ops db p =
     rbind (ok_or (tbl_get (inventory_tbl db) (outpoint_key p)) CorruptState) (\<lambda>item.
     rbind (stored_inventory_to_domain ops item) (\<lambda>_.
     Ok (target_from_inventory item)))"

definition signing_targets_for_reservation ::
    "store_ops \<Rightarrow> Database \<Rightarrow> StoredReservation \<Rightarrow> (ProviderError, StoredSigningTarget list) result" where
  "signing_targets_for_reservation ops db r = rmap (signing_target_for ops db) (res_outpoints r)"

definition check_same_intent ::
    "store_ops \<Rightarrow> StoredReservation \<Rightarrow> StoredSigningIntent \<Rightarrow> bytes \<Rightarrow> TransactionFee \<Rightarrow>
     (ProviderError, fixed_id) result" where
  "check_same_intent ops r intent payload fee =
     rbind (signing_commitment ops r payload fee (intent_targets intent)) (\<lambda>proposed.
     rbind (ensure (intent_commitment intent = proposed \<and> intent_pre_sign_payload intent = payload
         \<and> intent_fee intent = fee) (DifferentSigningIntent (res_id r))) (\<lambda>_.
     Ok proposed))"

definition commit_reserved ::
    "store_ops \<Rightarrow> StoredReservation \<Rightarrow> bytes \<Rightarrow> TransactionFee \<Rightarrow> unix_millis \<Rightarrow> Database \<Rightarrow> CommitOutcome txn" where
  "commit_reserved ops r payload fee now db =
     rbind (stored_fee_policy_to_domain (res_fee_policy r)) (\<lambda>policy.
     rbind (map_err FeePolicyError (fee_policy_validate policy fee)) (\<lambda>_.
     rbind (signing_targets_for_reservation ops db r) (\<lambda>targets.
     rbind (signing_commitment ops r payload fee targets) (\<lambda>commitment.
     rbind (check_reserved_allocations r db) (\<lambda>_.
     let intent = \<lparr>intent_commitment = commitment, intent_pre_sign_payload = payload,
           intent_fee = fee, intent_committed_at = now, intent_targets = targets\<rparr> in
     rbind (advance_allocation_revision
         (set_allocations (AllocCommitted (res_id r) commitment) (res_outpoints r) db)) (\<lambda>db1.
     rbind (remove_expiration r db1) (\<lambda>db2.
     rbind (remove_live_quote_index r db2) (\<lambda>db3.
     rbind (append_audit now (SigningCommitted (res_id r) commitment)
         (write_reservation (r\<lparr>res_state := StCommitted intent\<rparr>) db3)) (\<lambda>db4.
     rbind (intent_to_job ops intent (res_id r)) (\<lambda>job.
     commit_ok db4 (NewlyCommitted job)))))))))))"

definition commit_body ::
    "store_ops \<Rightarrow> ReservationAccess \<Rightarrow> fixed_id option \<Rightarrow> bytes \<Rightarrow> TransactionFee \<Rightarrow> unix_millis \<Rightarrow> Database \<Rightarrow>
     CommitOutcome txn" where
  "commit_body ops access expected payload fee now db =
     rbind (require_authorized_reservation ops db access) (\<lambda>r.
     rbind (ensure (case expected of
           None \<Rightarrow> True
         | Some commitment \<Rightarrow> res_quote r \<noteq> None \<and> res_quote_commitment r = commitment)
         (ValidatedIntentBindingMismatch (res_id r))) (\<lambda>_.
     case res_state r of
       StCommitted intent \<Rightarrow>
         rbind (check_same_intent ops r intent payload fee) (\<lambda>_.
         rbind (intent_to_job ops intent (res_id r)) (\<lambda>job.
         commit_ok db (AlreadyCommitted job)))
     | StSigned intent artifact \<Rightarrow>
         rbind (check_same_intent ops r intent payload fee) (\<lambda>proposed.
         rbind (artifact_to_domain ops artifact (res_id r) proposed) (\<lambda>signed.
         commit_ok db (AlreadySigned signed)))
     | StReleased _ _ \<Rightarrow> Err (ReservationAlreadyReleased (res_id r))
     | StReserved \<Rightarrow>
         if now \<ge> res_accept_before r
         then rbind (release_reserved r ReasonExpired now db) (\<lambda>(db', _).
           commit_err db' (ReservationDeadlineElapsed (res_accept_before r) now))
         else commit_reserved ops r payload fee now db))"

definition commit_before_sign_inner ::
    "store_ops \<Rightarrow> commit_result \<Rightarrow> commit_result \<Rightarrow> unix_millis \<Rightarrow> ReservationAccess \<Rightarrow> fixed_id option \<Rightarrow> bytes \<Rightarrow>
     TransactionFee \<Rightarrow> ReservationBook \<Rightarrow> (ProviderError, CommitOutcome) result \<times> ReservationBook" where
  "commit_before_sign_inner ops observed committed now access expected payload fee book =
     (case validate_settlement_bytes payload of
        Inl e \<Rightarrow> (Err e, book)
      | Inr _ \<Rightarrow> run_timed observed committed now (commit_body ops access expected payload fee) book)"

definition commit_validated_before_sign ::
    "store_ops \<Rightarrow> commit_result \<Rightarrow> commit_result \<Rightarrow> unix_millis \<Rightarrow> ProviderIdentity \<Rightarrow> ReservationAccess \<Rightarrow> fixed_id \<Rightarrow>
     bytes \<Rightarrow> TransactionFee \<Rightarrow> ReservationBook \<Rightarrow> (ProviderError, CommitOutcome) result \<times> ReservationBook" where
  "commit_validated_before_sign ops observed committed now expected_provider access expected_commitment
       payload fee book =
     (if book_identity book \<noteq> expected_provider
      then (Err (ValidatedIntentBindingMismatch (access_reservation_id access)), book)
      else commit_before_sign_inner ops observed committed now access (Some expected_commitment) payload fee book)"


section \<open>Signed artifacts\<close>

datatype ExactSigningState = Pending SigningJob | ExactSigned SignedArtifact

record SignedOutcome =
  outcome_artifact :: SignedArtifact
  outcome_recorded :: bool

definition ensure_exact_signing_job :: "SigningJob \<Rightarrow> SigningJob \<Rightarrow> (ProviderError, unit) result" where
  "ensure_exact_signing_job durable expected =
     ensure (durable = expected) (SigningJobBindingMismatch (job_reservation_id expected))"

definition ensure_committed_allocations ::
    "Database \<Rightarrow> StoredReservation \<Rightarrow> fixed_id \<Rightarrow> (ProviderError, unit) result" where
  "ensure_committed_allocations db r commitment =
     rfold (\<lambda>p _. ensure (tbl_get (allocations_tbl db) (outpoint_key p) =
       Some (AllocCommitted (res_id r) commitment)) CorruptState) (res_outpoints r) ()"

definition ensure_state_allocations :: "Database \<Rightarrow> StoredReservation \<Rightarrow> (ProviderError, unit) result" where
  "ensure_state_allocations db r = (case res_state r of
       StCommitted intent \<Rightarrow> ensure_committed_allocations db r (intent_commitment intent)
     | StSigned intent _ \<Rightarrow> ensure_committed_allocations db r (intent_commitment intent)
     | _ \<Rightarrow> Ok ())"

definition signing_state_in ::
    "store_ops \<Rightarrow> SigningJob \<Rightarrow> Database \<Rightarrow> (ProviderError, ExactSigningState) result" where
  "signing_state_in ops expected db =
     rbind (require_reservation ops db (job_reservation_id expected)
         (ReservationNotFound (job_reservation_id expected))) (\<lambda>r.
     rbind (ensure_state_allocations db r) (\<lambda>_.
     case res_state r of
       StCommitted intent \<Rightarrow>
         rbind (intent_to_job ops intent (res_id r)) (\<lambda>durable.
         rbind (ensure_exact_signing_job durable expected) (\<lambda>_.
         Ok (Pending durable)))
     | StSigned intent artifact \<Rightarrow>
         rbind (intent_to_job ops intent (res_id r)) (\<lambda>durable.
         rbind (ensure_exact_signing_job durable expected) (\<lambda>_.
         rbind (artifact_to_domain ops artifact (res_id r) (job_commitment durable)) (\<lambda>signed.
         Ok (ExactSigned signed))))
     | StReserved \<Rightarrow> Err (SigningIntentNotCommitted (job_reservation_id expected))
     | StReleased _ _ \<Rightarrow> Err (ReservationAlreadyReleased (job_reservation_id expected))))"

definition signing_state_for ::
    "store_ops \<Rightarrow> SigningJob \<Rightarrow> ReservationBook \<Rightarrow> (ProviderError, ExactSigningState) result" where
  "signing_state_for ops expected = run_read (signing_state_in ops expected)"

definition replay_artifact_in ::
    "store_ops \<Rightarrow> SignedArtifact \<Rightarrow> Database \<Rightarrow> (ProviderError, SignedOutcome) result" where
  "replay_artifact_in ops expected db =
     rbind (require_reservation ops db (signed_reservation_id expected)
         (ReservationNotFound (signed_reservation_id expected))) (\<lambda>r.
     case res_state r of
       StSigned intent artifact \<Rightarrow>
         rbind (ensure_committed_allocations db r (intent_commitment intent)) (\<lambda>_.
         rbind (artifact_to_domain ops artifact (res_id r) (intent_commitment intent)) (\<lambda>actual.
         rbind (ensure (actual = expected) (SignedArtifactBindingMismatch (signed_reservation_id expected))) (\<lambda>_.
         Ok \<lparr>outcome_artifact = actual, outcome_recorded = False\<rparr>)))
     | StReleased _ _ \<Rightarrow> Err (ReservationAlreadyReleased (signed_reservation_id expected))
     | _ \<Rightarrow> Err (SigningIntentNotCommitted (signed_reservation_id expected)))"

definition replay_signed_artifact ::
    "store_ops \<Rightarrow> SignedArtifact \<Rightarrow> ReservationBook \<Rightarrow> (ProviderError, SignedOutcome) result" where
  "replay_signed_artifact ops expected = run_read (replay_artifact_in ops expected)"


definition check_expected_job ::
    "store_ops \<Rightarrow> StoredReservation \<Rightarrow> StoredSigningIntent \<Rightarrow> SigningJob option \<Rightarrow> (ProviderError, unit) result" where
  "check_expected_job ops r intent expected_job = (case expected_job of
       None \<Rightarrow> Ok ()
     | Some expected \<Rightarrow>
         rbind (intent_to_job ops intent (res_id r)) (\<lambda>durable. ensure_exact_signing_job durable expected))"

definition store_artifact ::
    "store_ops \<Rightarrow> StoredReservation \<Rightarrow> StoredSigningIntent \<Rightarrow> fixed_id \<Rightarrow> bytes \<Rightarrow> unix_millis \<Rightarrow> Database \<Rightarrow>
     SignedOutcome txn" where
  "store_artifact ops r intent expected_commitment signed_bs now db =
     (let digest = signed_artifact_digest ops expected_commitment signed_bs;
          stored = \<lparr>artifact_digest = digest, artifact_bytes = signed_bs, artifact_signed_at = now\<rparr> in
      rbind (artifact_to_domain ops stored (res_id r) expected_commitment) (\<lambda>artifact.
      rbind (append_audit now (SignedArtifactStored (res_id r) digest)
          (write_reservation (r\<lparr>res_state := StSigned intent stored\<rparr>) db)) (\<lambda>db'.
      commit_ok db' \<lparr>outcome_artifact = artifact, outcome_recorded = True\<rparr>)))"

definition record_signed_body ::
    "store_ops \<Rightarrow> fixed_id \<Rightarrow> fixed_id \<Rightarrow> SigningJob option \<Rightarrow> bytes \<Rightarrow> bool \<Rightarrow> unix_millis \<Rightarrow> Database \<Rightarrow>
     SignedOutcome txn" where
  "record_signed_body ops reservation_id expected_commitment expected_job signed_bs replay_winner now db =
     rbind (require_reservation ops db reservation_id (ReservationNotFound reservation_id)) (\<lambda>r.
     rbind (ensure_state_allocations db r) (\<lambda>_.
     case res_state r of
       StReserved \<Rightarrow> Err (SigningIntentNotCommitted reservation_id)
     | StReleased _ _ \<Rightarrow> Err (ReservationAlreadyReleased reservation_id)
     | StSigned intent artifact \<Rightarrow>
         rbind (check_expected_job ops r intent expected_job) (\<lambda>_.
         rbind (ensure (intent_commitment intent = expected_commitment)
             (SigningCommitmentMismatch reservation_id (intent_commitment intent) expected_commitment)) (\<lambda>_.
         rbind (ensure (artifact_bytes artifact = signed_bs \<or> replay_winner)
             (DifferentSignedArtifact reservation_id)) (\<lambda>_.
         rbind (artifact_to_domain ops artifact reservation_id expected_commitment) (\<lambda>signed.
         commit_ok db \<lparr>outcome_artifact = signed, outcome_recorded = False\<rparr>))))
     | StCommitted intent \<Rightarrow>
         rbind (check_expected_job ops r intent expected_job) (\<lambda>_.
         rbind (ensure (intent_commitment intent = expected_commitment)
             (SigningCommitmentMismatch reservation_id (intent_commitment intent) expected_commitment)) (\<lambda>_.
         store_artifact ops r intent expected_commitment signed_bs now db))))"

definition record_signed_inner ::
    "store_ops \<Rightarrow> commit_result \<Rightarrow> commit_result \<Rightarrow> unix_millis \<Rightarrow> fixed_id \<Rightarrow> fixed_id \<Rightarrow> SigningJob option \<Rightarrow> bytes \<Rightarrow>
     bool \<Rightarrow> ReservationBook \<Rightarrow> (ProviderError, SignedOutcome) result \<times> ReservationBook" where
  "record_signed_inner ops observed committed now reservation_id expected_commitment expected_job signed_bs
       replay_winner book =
     (case validate_settlement_bytes signed_bs of
        Inl e \<Rightarrow> (Err e, book)
      | Inr _ \<Rightarrow>
          let write = run_timed observed committed now
                (record_signed_body ops reservation_id expected_commitment expected_job signed_bs replay_winner) book in
          if \<not> replay_winner then write
          else (case expected_job of
              None \<Rightarrow> (Err CorruptState, book)
            | Some job \<Rightarrow>
                (case signing_state_for ops job book of
                   Inl e \<Rightarrow> (Err e, book)
                 | Inr (ExactSigned artifact) \<Rightarrow> (replay_signed_artifact ops artifact book, book)
                 | Inr (Pending _) \<Rightarrow> write)))"

definition record_finalized_pset ::
    "store_ops \<Rightarrow> commit_result \<Rightarrow> commit_result \<Rightarrow> unix_millis \<Rightarrow> SigningJob \<Rightarrow> bytes \<Rightarrow> ReservationBook \<Rightarrow>
     (ProviderError, SignedOutcome) result \<times> ReservationBook" where
  "record_finalized_pset ops observed committed now job candidate book =
     record_signed_inner ops observed committed now (job_reservation_id job) (job_commitment job) (Some job)
       candidate True book"


section \<open>Reads\<close>

definition reservation ::
    "store_ops \<Rightarrow> fixed_id \<Rightarrow> ReservationBook \<Rightarrow> (ProviderError, ReservationView option) result" where
  "reservation ops reservation_id = run_read (\<lambda>db.
     rbind (read_reservation ops db reservation_id) (\<lambda>found. case found of
         None \<Rightarrow> Ok None
       | Some r \<Rightarrow> rbind (reservation_to_view ops r) (\<lambda>view. Ok (Some view))))"

definition recovery_action_of ::
    "store_ops \<Rightarrow> StoredReservation \<Rightarrow> (ProviderError, RecoveryAction list) result" where
  "recovery_action_of ops r =
     rbind (reservation_validate ops r) (\<lambda>_.
     case res_state r of
       StCommitted intent \<Rightarrow>
         rbind (intent_to_job ops intent (res_id r)) (\<lambda>job. Ok [SignCommittedExact job])
     | StSigned intent artifact \<Rightarrow>
         rbind (artifact_to_domain ops artifact (res_id r) (intent_commitment intent)) (\<lambda>signed.
         Ok [ReplaySignedExact signed])
     | _ \<Rightarrow> Ok [])"

definition recovery_actions ::
    "store_ops \<Rightarrow> ReservationBook \<Rightarrow> (ProviderError, RecoveryAction list) result" where
  "recovery_actions ops = run_read (\<lambda>db.
     rbind (rmap (\<lambda>e. recovery_action_of ops (snd e)) (reservations_tbl db)) (\<lambda>actions.
     Ok (concat actions)))"

definition audit_log :: "ReservationBook \<Rightarrow> (ProviderError, StoredAuditEntry list) result" where
  "audit_log = run_read (\<lambda>db.
     rmap (\<lambda>(sequence, entry). rbind (ensure (entry_sequence entry = sequence) CorruptState) (\<lambda>_. Ok entry))
       (audit_tbl db))"

definition last_observed_time :: "ReservationBook \<Rightarrow> (ProviderError, unix_millis option) result" where
  "last_observed_time = run_read (\<lambda>db. case meta_last_time db of
       None \<Rightarrow> Ok None
     | Some bs \<Rightarrow> rbind (ok_or (decode_u64 bs) CorruptTimeHighWatermark) (\<lambda>t. Ok (Some t)))"

definition SCHEMA_VERSION_KEY :: string where
  "SCHEMA_VERSION_KEY = ''schema_version''"

definition PROVIDER_IDENTITY_KEY :: string where
  "PROVIDER_IDENTITY_KEY = ''provider_identity''"

definition schema_version :: "ReservationBook \<Rightarrow> (ProviderError, u32) result" where
  "schema_version = run_read (\<lambda>db.
     rbind (ok_or (meta_schema db) (MissingMetadata SCHEMA_VERSION_KEY)) (\<lambda>bs.
     ok_or (decode_u32 bs) CorruptSchemaVersion))"


section \<open>Settlement context\<close>

datatype SettlementContextState = CtxReserved | CtxCommitted SigningJob | CtxSigned SigningJob

record SettlementContext =
  ctx_provider :: ProviderIdentity
  ctx_access :: ReservationAccess
  ctx_quote :: FirmQuote
  ctx_receive_recovery :: DestinationRecovery
  ctx_change_recovery :: "DestinationRecovery option"
  ctx_targets :: "SigningTarget list"
  ctx_state :: SettlementContextState

definition change_recovery_of :: "StoredFirmQuote \<Rightarrow> (ProviderError, DestinationRecovery option) result" where
  "change_recovery_of q = (case (sfq_change_internal_key q, sfq_change_wallet_locator q) of
       (Some key, Some locator) \<Rightarrow>
         Ok (Some \<lparr>recovery_internal_key = key, recovery_wallet_locator = locator\<rparr>)
     | (None, None) \<Rightarrow> Ok None
     | _ \<Rightarrow> Err CorruptState)"

definition context_target ::
    "store_ops \<Rightarrow> Database \<Rightarrow> OutPoint \<Rightarrow> (ProviderError, SigningTarget) result" where
  "context_target ops db p = rbind (signing_target_for ops db p) (target_to_domain ops)"

definition context_state ::
    "store_ops \<Rightarrow> StoredReservation \<Rightarrow> (ProviderError, SettlementContextState) result" where
  "context_state ops r = (case res_state r of
       StReserved \<Rightarrow> Ok CtxReserved
     | StReleased _ _ \<Rightarrow> Err (ReservationAlreadyReleased (res_id r))
     | StCommitted intent \<Rightarrow> rbind (intent_to_job ops intent (res_id r)) (\<lambda>job. Ok (CtxCommitted job))
     | StSigned intent artifact \<Rightarrow>
         rbind (intent_to_job ops intent (res_id r)) (\<lambda>job.
         rbind (artifact_to_domain ops artifact (res_id r) (job_commitment job)) (\<lambda>_.
         Ok (CtxSigned job))))"

definition settlement_context ::
    "store_ops \<Rightarrow> ReservationAccess \<Rightarrow> ReservationBook \<Rightarrow> (ProviderError, SettlementContext) result" where
  "settlement_context ops access book = run_read (\<lambda>db.
     rbind (require_authorized_reservation ops db access) (\<lambda>r.
     rbind (ok_or (res_quote r) CorruptState) (\<lambda>stored.
     rbind (stored_quote_to_domain ops stored (book_identity book) r) (\<lambda>quote.
     rbind (change_recovery_of stored) (\<lambda>change.
     rbind (rmap (context_target ops db) (res_outpoints r)) (\<lambda>targets.
     rbind (context_state ops r) (\<lambda>state.
     Ok \<lparr>ctx_provider = book_identity book, ctx_access = access, ctx_quote = quote,
       ctx_receive_recovery = \<lparr>recovery_internal_key = sfq_receive_internal_key stored,
         recovery_wallet_locator = sfq_receive_wallet_locator stored\<rparr>,
       ctx_change_recovery = change, ctx_targets = targets, ctx_state = state\<rparr>))))))) book"

end
