(* ===== verification/Rfq_Integrity.thy ===== *)
theory Rfq_Integrity
  imports Rfq_Store
begin

text \<open>
  Opening the reservation book (\<open>initialize_schema\<close>) and the integrity check it runs over every
  table before the store answers anything (\<open>validate_store_integrity\<close>,
  \<open>validate_audit_integrity\<close> of \<open>store.rs\<close>).
\<close>

section \<open>Reservation times\<close>

definition validate_commit_time :: "StoredReservation \<Rightarrow> u64 \<Rightarrow> u64 \<Rightarrow> (ProviderError, unit) result" where
  "validate_commit_time r committed_at high =
     ensure (committed_at \<ge> res_created_at r \<and> committed_at < res_accept_before r \<and> committed_at \<le> high)
       CorruptState"

definition validate_reservation_times ::
    "StoredReservation \<Rightarrow> u64 option \<Rightarrow> (ProviderError, unit) result" where
  "validate_reservation_times r last_time =
     rbind (ok_or last_time CorruptState) (\<lambda>high.
     rbind (ensure (res_created_at r \<le> high) CorruptState) (\<lambda>_.
     case res_state r of
       StReserved \<Rightarrow> Ok ()
     | StReleased reason at \<Rightarrow>
         rbind (ensure (at \<ge> res_created_at r \<and> at \<le> high) CorruptState) (\<lambda>_.
         ensure (case reason of
             ReasonExpired \<Rightarrow> at \<ge> res_accept_before r
           | _ \<Rightarrow> at < res_accept_before r) CorruptState)
     | StCommitted intent \<Rightarrow> validate_commit_time r (intent_committed_at intent) high
     | StSigned intent artifact \<Rightarrow>
         rbind (validate_commit_time r (intent_committed_at intent) high) (\<lambda>_.
         ensure (artifact_signed_at artifact \<ge> intent_committed_at intent \<and> artifact_signed_at artifact \<le> high)
           CorruptState)))"


section \<open>Tables one by one\<close>

definition check_inventory_entry ::
    "store_ops \<Rightarrow> bytes \<times> StoredInventoryItem \<Rightarrow> unit \<Rightarrow> (ProviderError, unit) result" where
  "check_inventory_entry ops e _ =
     rbind (decode_table_key 36 (fst e)) (\<lambda>key.
     rbind (stored_inventory_to_domain ops (snd e)) (\<lambda>domain.
     ensure (key = outpoint_key (item_outpoint domain)) CorruptState))"

definition check_durable_input ::
    "store_ops \<Rightarrow> StoredFirmQuote \<Rightarrow> (bytes, StoredInventoryItem) table \<Rightarrow> QuotedProviderInput \<Rightarrow> u64 \<Rightarrow>
     (ProviderError, u64) result" where
  "check_durable_input ops quote items inp acc =
     rbind (ok_or (tbl_get items (outpoint_key (qinput_outpoint inp))) CorruptState) (\<lambda>item.
     rbind (ensure (item_asset item = sfq_selected_asset quote \<and> item_binding item = qinput_binding inp)
         CorruptState) (\<lambda>_.
     rbind (stored_inventory_to_domain ops item) (\<lambda>domain.
     rbind (ensure (recompute_inventory_binding ops domain (qinput_witness_utxo inp) = qinput_binding inp)
         CorruptState) (\<lambda>_.
     ok_or (checked_add acc (item_amount item)) CorruptState))))"

definition check_reservation_quote ::
    "store_ops \<Rightarrow> ProviderIdentity \<Rightarrow> (bytes, StoredInventoryItem) table \<Rightarrow> StoredReservation \<Rightarrow>
     (ProviderError, unit) result" where
  "check_reservation_quote ops identity items r = (case res_quote r of
       None \<Rightarrow> Ok ()
     | Some quote \<Rightarrow>
         rbind (stored_quote_to_domain ops quote identity r) (\<lambda>domain.
         rbind (rfold (check_durable_input ops quote items)
             (contribution_inputs (quote_contribution_of domain)) 0) (\<lambda>amount.
         ensure (amount = sfq_selected_amount quote) CorruptState)))"

definition check_reservation_entry ::
    "store_ops \<Rightarrow> ProviderIdentity \<Rightarrow> (bytes, StoredInventoryItem) table \<Rightarrow> u64 option \<Rightarrow>
     bytes \<times> StoredReservation \<Rightarrow> unit \<Rightarrow> (ProviderError, unit) result" where
  "check_reservation_entry ops identity items last_time e _ =
     (let r = snd e in
      rbind (decode_table_key 32 (fst e)) (\<lambda>key.
      rbind (ensure (key = res_id r) CorruptState) (\<lambda>_.
      rbind (reservation_validate ops r) (\<lambda>_.
      rbind (ensure (policy_asset (res_fee_policy r) = identity_policy_asset identity) CorruptState) (\<lambda>_.
      rbind (stored_request_digest ops identity r) (\<lambda>expected.
      rbind (ensure (res_request_digest r = expected) CorruptState) (\<lambda>_.
      rbind (validate_reservation_times r last_time) (\<lambda>_.
      check_reservation_quote ops identity items r))))))))"

definition check_index_entry :: "nat \<Rightarrow> bytes \<times> bytes \<Rightarrow> unit \<Rightarrow> (ProviderError, unit) result" where
  "check_index_entry n e _ =
     rbind (decode_table_key n (fst e)) (\<lambda>_. ensure (snd e = []) CorruptState)"

definition check_key_length :: "nat \<Rightarrow> bytes \<times> 'v \<Rightarrow> unit \<Rightarrow> (ProviderError, unit) result" where
  "check_key_length n e _ = rbind (decode_table_key n (fst e)) (\<lambda>_. Ok ())"


section \<open>Relations between tables\<close>

definition allocation_owner :: "StoredAllocation \<Rightarrow> fixed_id" where
  "allocation_owner a = (case a of AllocReserved i \<Rightarrow> i | AllocCommitted i _ \<Rightarrow> i)"

definition check_owned_outpoint ::
    "Database \<Rightarrow> StoredReservation \<Rightarrow> nat \<times> OutPoint \<Rightarrow> unit \<Rightarrow> (ProviderError, unit) result" where
  "check_owned_outpoint db r e _ =
     (let key = outpoint_key (snd e); allocation = tbl_get (allocations_tbl db) key in
      rbind (ok_or (tbl_get (inventory_tbl db) key) CorruptState) (\<lambda>item.
      let committed = (\<lambda>intent.
            rbind (ensure (list_get (intent_targets intent) (fst e) = Some (target_from_inventory item))
              CorruptState) (\<lambda>_.
            ensure (allocation = Some (AllocCommitted (res_id r) (intent_commitment intent))) CorruptState)) in
      case res_state r of
        StReserved \<Rightarrow> ensure (allocation = Some (AllocReserved (res_id r))) CorruptState
      | StCommitted intent \<Rightarrow> committed intent
      | StSigned intent _ \<Rightarrow> committed intent
      | StReleased _ _ \<Rightarrow>
          ensure (case allocation of None \<Rightarrow> True | Some a \<Rightarrow> allocation_owner a \<noteq> res_id r) CorruptState))"

definition check_reservation_links ::
    "Database \<Rightarrow> bytes \<times> StoredReservation \<Rightarrow> unit \<Rightarrow> (ProviderError, unit) result" where
  "check_reservation_links db e _ =
     (let r = snd e;
          has_expiration = (tbl_get (expirations_tbl db)
            (expiration_key (res_accept_before r) (res_id r)) \<noteq> None);
          has_live_quote = (tbl_get (live_quotes_tbl db)
            (live_quote_key (res_accept_before r) (res_owner r) (res_id r)) \<noteq> None) in
      rbind (ok_or (tbl_get (request_keys_tbl db) (request_key (res_owner r) (res_idempotency_key r)))
          CorruptState) (\<lambda>binding.
      rbind (ensure (binding_reservation_id binding = res_id r
          \<and> binding_semantic_request_digest binding = res_semantic_request_digest r
          \<and> binding_request_digest binding = res_request_digest r) CorruptState) (\<lambda>_.
      rbind (if res_state r = StReserved
          then ensure (has_expiration \<and> has_live_quote = (res_quote r \<noteq> None)) CorruptState
          else ensure (\<not> has_expiration \<and> \<not> has_live_quote) CorruptState) (\<lambda>_.
      rfold (check_owned_outpoint db r) (enumerate 0 (res_outpoints r)) ()))))"

definition check_binding ::
    "Database \<Rightarrow> bytes \<times> StoredRequestBinding \<Rightarrow> unit \<Rightarrow> (ProviderError, unit) result" where
  "check_binding db e _ =
     (let binding = snd e in
      rbind (ok_or (tbl_get (reservations_tbl db) (binding_reservation_id binding)) CorruptState) (\<lambda>r.
      ensure (fst e = request_key (res_owner r) (res_idempotency_key r)
        \<and> binding_semantic_request_digest binding = res_semantic_request_digest r
        \<and> binding_request_digest binding = res_request_digest r) CorruptState))"

text \<open>\<open>binary_search\<close> succeeds on the strictly sorted outpoints exactly on their members.\<close>

definition check_allocation ::
    "Database \<Rightarrow> bytes \<times> StoredAllocation \<Rightarrow> unit \<Rightarrow> (ProviderError, unit) result" where
  "check_allocation db e _ =
     rbind (ok_or (tbl_get (inventory_tbl db) (fst e)) CorruptState) (\<lambda>item.
     rbind (ok_or (tbl_get (reservations_tbl db) (allocation_owner (snd e))) CorruptState) (\<lambda>r.
     rbind (ensure (item_outpoint item \<in> set (res_outpoints r)) CorruptState) (\<lambda>_.
     ensure (case (res_state r, snd e) of
         (StReserved, AllocReserved _) \<Rightarrow> True
       | (StCommitted intent, AllocCommitted _ commitment) \<Rightarrow> intent_commitment intent = commitment
       | (StSigned intent _, AllocCommitted _ commitment) \<Rightarrow> intent_commitment intent = commitment
       | _ \<Rightarrow> False) CorruptState)))"

definition check_expiration ::
    "Database \<Rightarrow> bytes \<times> bytes \<Rightarrow> unit \<Rightarrow> (ProviderError, unit) result" where
  "check_expiration db e _ =
     rbind (decode_expiration_key (fst e)) (\<lambda>(deadline, reservation_id).
     rbind (ok_or (tbl_get (reservations_tbl db) reservation_id) CorruptState) (\<lambda>r.
     ensure (res_state r = StReserved \<and> res_accept_before r = deadline) CorruptState))"

definition check_live_quote ::
    "Database \<Rightarrow> bytes \<times> bytes \<Rightarrow> unit \<Rightarrow> (ProviderError, unit) result" where
  "check_live_quote db e _ =
     (let deadline = u64_from_be (take 8 (fst e)); owner = take 32 (drop 8 (fst e)); i = drop 40 (fst e) in
      rbind (ok_or (tbl_get (reservations_tbl db) i) CorruptState) (\<lambda>r.
      ensure (deadline = res_accept_before r \<and> owner = res_owner r \<and> res_quote r \<noteq> None
        \<and> res_state r = StReserved) CorruptState))"



section \<open>Audit log\<close>

record audit_scan =
  scan_sequence :: u64
  scan_time :: "u64 option"
  scan_imported :: "bytes set"
  scan_created :: "fixed_id set"
  scan_released :: "fixed_id set"
  scan_committed :: "fixed_id set"
  scan_signed :: "fixed_id set"

definition initial_scan :: audit_scan where
  "initial_scan = \<lparr>scan_sequence = 0, scan_time = None, scan_imported = {}, scan_created = {},
     scan_released = {}, scan_committed = {}, scan_signed = {}\<rparr>"

definition matches_released :: "StoredReservation \<Rightarrow> ReleaseReason \<Rightarrow> u64 \<Rightarrow> bool" where
  "matches_released r reason at = (case res_state r of
       StReleased reason' at' \<Rightarrow> reason' = reason \<and> at' = at | _ \<Rightarrow> False)"

definition matches_committed :: "StoredReservation \<Rightarrow> fixed_id \<Rightarrow> u64 \<Rightarrow> bool" where
  "matches_committed r commitment at = (case res_state r of
       StCommitted intent \<Rightarrow> intent_commitment intent = commitment \<and> intent_committed_at intent = at
     | StSigned intent _ \<Rightarrow> intent_commitment intent = commitment \<and> intent_committed_at intent = at
     | _ \<Rightarrow> False)"

definition matches_signed :: "StoredReservation \<Rightarrow> fixed_id \<Rightarrow> u64 \<Rightarrow> bool" where
  "matches_signed r digest at = (case res_state r of
       StSigned _ artifact \<Rightarrow> artifact_digest artifact = digest \<and> artifact_signed_at artifact = at
     | _ \<Rightarrow> False)"

definition check_event ::
    "Database \<Rightarrow> u64 \<Rightarrow> StoredAuditEvent \<Rightarrow> audit_scan \<Rightarrow> (ProviderError, audit_scan) result" where
  "check_event db at event scan = (case event of
       InventoryImported p \<Rightarrow>
         let key = outpoint_key p in
         rbind (ensure (tbl_get (inventory_tbl db) key \<noteq> None \<and> key \<notin> scan_imported scan) CorruptState) (\<lambda>_.
         Ok (scan\<lparr>scan_imported := insert key (scan_imported scan)\<rparr>))
     | ReservationCreated i outpoints \<Rightarrow>
         rbind (ok_or (tbl_get (reservations_tbl db) i) CorruptState) (\<lambda>r.
         rbind (ensure (at = res_created_at r \<and> outpoints = res_outpoints r \<and> i \<notin> scan_created scan)
           CorruptState) (\<lambda>_.
         Ok (scan\<lparr>scan_created := insert i (scan_created scan)\<rparr>)))
     | ReservationReleased i reason \<Rightarrow>
         rbind (ok_or (tbl_get (reservations_tbl db) i) CorruptState) (\<lambda>r.
         rbind (ensure (matches_released r reason at \<and> i \<notin> scan_released scan) CorruptState) (\<lambda>_.
         Ok (scan\<lparr>scan_released := insert i (scan_released scan)\<rparr>)))
     | SigningCommitted i commitment \<Rightarrow>
         rbind (ok_or (tbl_get (reservations_tbl db) i) CorruptState) (\<lambda>r.
         rbind (ensure (matches_committed r commitment at \<and> i \<notin> scan_committed scan) CorruptState) (\<lambda>_.
         Ok (scan\<lparr>scan_committed := insert i (scan_committed scan)\<rparr>)))
     | SignedArtifactStored i digest \<Rightarrow>
         rbind (ok_or (tbl_get (reservations_tbl db) i) CorruptState) (\<lambda>r.
         rbind (ensure (matches_signed r digest at \<and> i \<notin> scan_signed scan) CorruptState) (\<lambda>_.
         Ok (scan\<lparr>scan_signed := insert i (scan_signed scan)\<rparr>))))"

definition check_audit_entry ::
    "Database \<Rightarrow> u64 option \<Rightarrow> u64 \<times> StoredAuditEntry \<Rightarrow> audit_scan \<Rightarrow> (ProviderError, audit_scan) result" where
  "check_audit_entry db last_time e scan =
     (let (sequence, entry) = e in
      rbind (ok_or (checked_add (scan_sequence scan) 1) AuditSequenceOverflow) (\<lambda>expected.
      rbind (ensure (sequence = expected) CorruptState) (\<lambda>_.
      rbind (ensure (entry_sequence entry = sequence) CorruptState) (\<lambda>_.
      rbind (ensure (case scan_time scan of None \<Rightarrow> True | Some previous \<Rightarrow> entry_at entry \<ge> previous)
          CorruptState) (\<lambda>_.
      rbind (ok_or last_time CorruptState) (\<lambda>high.
      rbind (ensure (entry_at entry \<le> high) CorruptState) (\<lambda>_.
      rbind (check_event db (entry_at entry) (entry_event entry) scan) (\<lambda>scan'.
      Ok (scan'\<lparr>scan_sequence := sequence, scan_time := Some (entry_at entry)\<rparr>)))))))))"

definition audit_shape_is_valid :: "audit_scan \<Rightarrow> fixed_id \<Rightarrow> StoredReservation \<Rightarrow> bool" where
  "audit_shape_is_valid scan i r =
     (let released = (i \<in> scan_released scan); committed = (i \<in> scan_committed scan);
          signed = (i \<in> scan_signed scan) in
      case res_state r of
        StReserved \<Rightarrow> \<not> released \<and> \<not> committed \<and> \<not> signed
      | StReleased _ _ \<Rightarrow> released \<and> \<not> committed \<and> \<not> signed
      | StCommitted _ \<Rightarrow> \<not> released \<and> committed \<and> \<not> signed
      | StSigned _ _ \<Rightarrow> \<not> released \<and> committed \<and> signed)"

definition validate_audit_integrity ::
    "u64 \<Rightarrow> u64 option \<Rightarrow> Database \<Rightarrow> (ProviderError, unit) result" where
  "validate_audit_integrity declared last_time db =
     rbind (rfold (check_audit_entry db last_time) (audit_tbl db) initial_scan) (\<lambda>scan.
     rbind (ensure (scan_sequence scan = declared) CorruptState) (\<lambda>_.
     rbind (rfold (\<lambda>e _. ensure (fst e \<in> scan_imported scan) CorruptState) (inventory_tbl db) ()) (\<lambda>_.
     rfold (\<lambda>e _.
       rbind (ensure (fst e \<in> scan_created scan) CorruptState) (\<lambda>_.
       ensure (audit_shape_is_valid scan (fst e) (snd e)) CorruptState)) (reservations_tbl db) ())))"


section \<open>The whole store\<close>

definition validate_store_integrity ::
    "store_ops \<Rightarrow> ProviderIdentity \<Rightarrow> Database \<Rightarrow> (ProviderError, unit) result" where
  "validate_store_integrity ops identity db =
     rbind (ok_or (meta_audit_sequence db) (MissingMetadata AUDIT_SEQUENCE_KEY)) (\<lambda>audit_bytes.
     rbind (ok_or (decode_u64 audit_bytes) CorruptAuditSequence) (\<lambda>audit_sequence.
     rbind (case meta_last_time db of
         None \<Rightarrow> Ok None
       | Some bs \<Rightarrow> rbind (ok_or (decode_u64 bs) CorruptTimeHighWatermark) (\<lambda>t. Ok (Some t))) (\<lambda>last_time.
     rbind (allocation_revision db) (\<lambda>_.
     rbind (rfold (check_inventory_entry ops) (inventory_tbl db) ()) (\<lambda>_.
     rbind (rfold (check_reservation_entry ops identity (inventory_tbl db) last_time) (reservations_tbl db) ()) (\<lambda>_.
     rbind (rfold (check_key_length 64) (request_keys_tbl db) ()) (\<lambda>_.
     rbind (rfold (check_key_length 36) (allocations_tbl db) ()) (\<lambda>_.
     rbind (rfold (check_index_entry 40) (expirations_tbl db) ()) (\<lambda>_.
     rbind (rfold (check_index_entry 72) (live_quotes_tbl db) ()) (\<lambda>_.
     rbind (rfold (check_reservation_links db) (reservations_tbl db) ()) (\<lambda>_.
     rbind (rfold (check_binding db) (request_keys_tbl db) ()) (\<lambda>_.
     rbind (rfold (check_allocation db) (allocations_tbl db) ()) (\<lambda>_.
     rbind (rfold (check_expiration db) (expirations_tbl db) ()) (\<lambda>_.
     rbind (rfold (check_live_quote db) (live_quotes_tbl db) ()) (\<lambda>_.
     validate_audit_integrity audit_sequence last_time db)))))))))))))))"


section \<open>Opening the book\<close>

definition empty_database :: Database where
  "empty_database = \<lparr>meta_schema = None, meta_identity = None, meta_last_time = None,
     meta_audit_sequence = None, meta_allocation_revision = None, inventory_tbl = [],
     allocations_tbl = [], reservations_tbl = [], request_keys_tbl = [], expirations_tbl = [],
     live_quotes_tbl = [], audit_tbl = []\<rparr>"

definition provider_tables_are_nonempty :: "Database \<Rightarrow> bool" where
  "provider_tables_are_nonempty db \<longleftrightarrow> db \<noteq> empty_database"

definition initialize_schema_body ::
    "store_ops \<Rightarrow> ProviderIdentity \<Rightarrow> Database \<Rightarrow> unit txn" where
  "initialize_schema_body ops identity db =
     rbind (case meta_schema db of
         Some bs \<Rightarrow>
           rbind (ok_or (decode_u32 bs) CorruptSchemaVersion) (\<lambda>actual.
           rbind (ensure (actual = SCHEMA_VERSION) (SchemaMismatch SCHEMA_VERSION actual)) (\<lambda>_.
           rbind (ok_or (meta_identity db) (MissingMetadata PROVIDER_IDENTITY_KEY)) (\<lambda>stored.
           rbind (ensure (stored = identity) (ProviderIdentityMismatch stored identity)) (\<lambda>_.
           rbind (ensure (meta_audit_sequence db \<noteq> None) (MissingMetadata AUDIT_SEQUENCE_KEY)) (\<lambda>_.
           rbind (ensure (meta_allocation_revision db \<noteq> None) (MissingMetadata ALLOCATION_REVISION_KEY)) (\<lambda>_.
           Ok db))))))
       | None \<Rightarrow>
           rbind (ensure (\<not> provider_tables_are_nonempty db) CorruptState) (\<lambda>_.
           Ok (db\<lparr>meta_schema := Some (u32_be SCHEMA_VERSION), meta_identity := Some identity,
             meta_audit_sequence := Some (u64_be 0), meta_allocation_revision := Some (u64_be 0)\<rparr>))) (\<lambda>db'.
     rbind (validate_store_integrity ops identity db') (\<lambda>_.
     commit_ok db' ()))"

definition open_book ::
    "store_ops \<Rightarrow> commit_result \<Rightarrow> ProviderIdentity \<Rightarrow> Database \<Rightarrow>
     (ProviderError, unit) result \<times> ReservationBook" where
  "open_book ops committed identity db =
     (let book = \<lparr>database = db, book_identity = identity, poisoned = False\<rparr> in
      case initialize_schema_body ops identity db of
        Inl e \<Rightarrow> (Err e, book)
      | Inr (db', r) \<Rightarrow>
          (case commit_write committed db' book of
             (Inl e, book') \<Rightarrow> (Err e, book')
           | (Inr _, book') \<Rightarrow> (r, book')))"

end
