(* ===== verification/Rfq_Store_Inv.thy ===== *)
theory Rfq_Store_Inv
  imports Rfq_Integrity
begin

text \<open>
  The invariant of the reservation store, stated over the tables, and the proof that a database
  that satisfies it passes the integrity check of \<open>validate_store_integrity\<close>.
\<close>

named_theorems store_simps \<open>fields and lookups of a database\<close>

section \<open>The invariant\<close>

abbreviation inventory_at :: "Database \<Rightarrow> bytes \<Rightarrow> StoredInventoryItem option" where
  "inventory_at db \<equiv> tbl_get (inventory_tbl db)"

abbreviation reservation_at :: "Database \<Rightarrow> fixed_id \<Rightarrow> StoredReservation option" where
  "reservation_at db \<equiv> tbl_get (reservations_tbl db)"

abbreviation allocation_at :: "Database \<Rightarrow> bytes \<Rightarrow> StoredAllocation option" where
  "allocation_at db \<equiv> tbl_get (allocations_tbl db)"

abbreviation res_keys :: "StoredReservation \<Rightarrow> bytes set" where
  "res_keys r \<equiv> outpoint_key ` set (res_outpoints r)"

definition high_watermark :: "Database \<Rightarrow> u64 option" where
  "high_watermark db = Option.bind (meta_last_time db) decode_u64"

fun state_intent :: "StoredReservationState \<Rightarrow> StoredSigningIntent option" where
  "state_intent (StCommitted intent) = Some intent"
| "state_intent (StSigned intent _) = Some intent"
| "state_intent _ = None"

fun state_allocation :: "fixed_id \<Rightarrow> StoredReservationState \<Rightarrow> StoredAllocation option" where
  "state_allocation i StReserved = Some (AllocReserved i)"
| "state_allocation i (StReleased _ _) = None"
| "state_allocation i (StCommitted intent) = Some (AllocCommitted i (intent_commitment intent))"
| "state_allocation i (StSigned intent _) = Some (AllocCommitted i (intent_commitment intent))"

abbreviation expected_allocation :: "StoredReservation \<Rightarrow> StoredAllocation option" where
  "expected_allocation r \<equiv> state_allocation (res_id r) (res_state r)"

fun state_history :: "fixed_id \<Rightarrow> StoredReservationState \<Rightarrow> (u64 \<times> StoredAuditEvent) list" where
  "state_history i StReserved = []"
| "state_history i (StReleased reason at) = [(at, ReservationReleased i reason)]"
| "state_history i (StCommitted intent) =
     [(intent_committed_at intent, SigningCommitted i (intent_commitment intent))]"
| "state_history i (StSigned intent artifact) =
     [(intent_committed_at intent, SigningCommitted i (intent_commitment intent)),
      (artifact_signed_at artifact, SignedArtifactStored i (artifact_digest artifact))]"

definition expected_history :: "StoredReservation \<Rightarrow> (u64 \<times> StoredAuditEvent) list" where
  "expected_history r =
     (res_created_at r, ReservationCreated (res_id r) (res_outpoints r)) # state_history (res_id r) (res_state r)"

fun event_reservation :: "StoredAuditEvent \<Rightarrow> fixed_id option" where
  "event_reservation (InventoryImported _) = None"
| "event_reservation (ReservationCreated i _) = Some i"
| "event_reservation (ReservationReleased i _) = Some i"
| "event_reservation (SigningCommitted i _) = Some i"
| "event_reservation (SignedArtifactStored i _) = Some i"

fun event_import :: "StoredAuditEvent \<Rightarrow> bytes option" where
  "event_import (InventoryImported p) = Some (outpoint_key p)"
| "event_import _ = None"

definition history_of :: "fixed_id \<Rightarrow> (u64 \<times> StoredAuditEvent) list \<Rightarrow> (u64 \<times> StoredAuditEvent) list" where
  "history_of i log = filter (\<lambda>e. event_reservation (snd e) = Some i) log"

definition imports_of :: "bytes \<Rightarrow> (u64 \<times> StoredAuditEvent) list \<Rightarrow> (u64 \<times> StoredAuditEvent) list" where
  "imports_of k log = filter (\<lambda>e. event_import (snd e) = Some k) log"

fun numbered_from :: "nat \<Rightarrow> (u64 \<times> StoredAuditEvent) list \<Rightarrow> (u64, StoredAuditEntry) table" where
  "numbered_from n [] = []"
| "numbered_from n ((at, event) # log) =
     (of_nat n, \<lparr>entry_sequence = of_nat n, entry_at = at, entry_event = event\<rparr>) # numbered_from (Suc n) log"

definition inventory_ok :: "store_ops \<Rightarrow> Database \<Rightarrow> bool" where
  "inventory_ok ops db \<longleftrightarrow> (\<forall>k item. inventory_at db k = Some item \<longrightarrow>
     length k = 36 \<and> k = outpoint_key (item_outpoint item) \<and> stored_inventory_to_domain ops item = Ok item)"

definition reservation_ok :: "store_ops \<Rightarrow> ProviderIdentity \<Rightarrow> Database \<Rightarrow> StoredReservation \<Rightarrow> bool" where
  "reservation_ok ops identity db r \<longleftrightarrow>
     length (res_id r) = 32 \<and> length (res_owner r) = 32 \<and> length (res_idempotency_key r) = 32 \<and>
     reservation_validate ops r = Ok () \<and>
     policy_asset (res_fee_policy r) = identity_policy_asset identity \<and>
     stored_request_digest ops identity r = Ok (res_request_digest r) \<and>
     validate_reservation_times r (high_watermark db) = Ok () \<and>
     check_reservation_quote ops identity (inventory_tbl db) r = Ok () \<and>
     tbl_get (request_keys_tbl db) (request_key (res_owner r) (res_idempotency_key r)) = Some (binding_of r) \<and>
     (\<forall>k \<in> res_keys r. inventory_at db k \<noteq> None \<and>
        (expected_allocation r \<noteq> None \<longrightarrow> allocation_at db k = expected_allocation r)) \<and>
     (\<forall>intent. state_intent (res_state r) = Some intent \<longrightarrow>
        intent_targets intent =
          map (\<lambda>p. target_from_inventory (the (inventory_at db (outpoint_key p)))) (res_outpoints r))"

definition reservations_ok :: "store_ops \<Rightarrow> ProviderIdentity \<Rightarrow> Database \<Rightarrow> bool" where
  "reservations_ok ops identity db \<longleftrightarrow>
     (\<forall>i r. reservation_at db i = Some r \<longrightarrow> i = res_id r \<and> reservation_ok ops identity db r)"

definition bindings_ok :: "Database \<Rightarrow> bool" where
  "bindings_ok db \<longleftrightarrow> (\<forall>k b. tbl_get (request_keys_tbl db) k = Some b \<longrightarrow>
     (\<exists>r. reservation_at db (binding_reservation_id b) = Some r \<and> b = binding_of r \<and>
        k = request_key (res_owner r) (res_idempotency_key r)))"

definition allocations_ok :: "Database \<Rightarrow> bool" where
  "allocations_ok db \<longleftrightarrow> (\<forall>k a. allocation_at db k = Some a \<longrightarrow>
     (\<exists>r. reservation_at db (allocation_owner a) = Some r \<and> k \<in> res_keys r \<and> expected_allocation r = Some a))"

definition expirations_ok :: "Database \<Rightarrow> bool" where
  "expirations_ok db \<longleftrightarrow> (\<forall>k v. tbl_get (expirations_tbl db) k = Some v \<longleftrightarrow>
     v = [] \<and> (\<exists>r. reservation_at db (res_id r) = Some r \<and> res_state r = StReserved \<and>
       k = expiration_key (res_accept_before r) (res_id r)))"

definition live_quotes_ok :: "Database \<Rightarrow> bool" where
  "live_quotes_ok db \<longleftrightarrow> (\<forall>k v. tbl_get (live_quotes_tbl db) k = Some v \<longleftrightarrow>
     v = [] \<and> (\<exists>r. reservation_at db (res_id r) = Some r \<and> res_state r = StReserved \<and> res_quote r \<noteq> None \<and>
       k = live_quote_key (res_accept_before r) (res_owner r) (res_id r)))"

definition log_ok :: "Database \<Rightarrow> (u64 \<times> StoredAuditEvent) list \<Rightarrow> bool" where
  "log_ok db log \<longleftrightarrow>
     audit_tbl db = numbered_from 1 log \<and> length log < 2 ^ 64 \<and>
     meta_audit_sequence db = Some (u64_be (of_nat (length log))) \<and>
     sorted (map fst log) \<and>
     (\<forall>e \<in> set log. \<exists>h. high_watermark db = Some h \<and> fst e \<le> h) \<and>
     (\<forall>i. history_of i log = (case reservation_at db i of None \<Rightarrow> [] | Some r \<Rightarrow> expected_history r)) \<and>
     (\<forall>k. length (imports_of k log) = (if inventory_at db k = None then 0 else 1))"

definition audit_ok :: "Database \<Rightarrow> bool" where
  "audit_ok db \<longleftrightarrow> (\<exists>log. log_ok db log)"

definition meta_ok :: "ProviderIdentity \<Rightarrow> Database \<Rightarrow> bool" where
  "meta_ok identity db \<longleftrightarrow>
     meta_schema db = Some (u32_be SCHEMA_VERSION) \<and> meta_identity db = Some identity \<and>
     (\<exists>n. meta_allocation_revision db = Some (u64_be n)) \<and>
     (\<forall>bs. meta_last_time db = Some bs \<longrightarrow> (\<exists>t. bs = u64_be t))"

definition tables_ok :: "Database \<Rightarrow> bool" where
  "tables_ok db \<longleftrightarrow>
     tbl_ok (inventory_tbl db) \<and> tbl_ok (allocations_tbl db) \<and> tbl_ok (reservations_tbl db) \<and>
     tbl_ok (request_keys_tbl db) \<and> tbl_ok (expirations_tbl db) \<and> tbl_ok (live_quotes_tbl db)"

definition store_ok :: "store_ops \<Rightarrow> ProviderIdentity \<Rightarrow> Database \<Rightarrow> bool" where
  "store_ok ops identity db \<longleftrightarrow>
     meta_ok identity db \<and> tables_ok db \<and> inventory_ok ops db \<and> reservations_ok ops identity db \<and>
     bindings_ok db \<and> allocations_ok db \<and> expirations_ok db \<and> live_quotes_ok db \<and> audit_ok db"


section \<open>Keys\<close>

lemma decode_u64_be [simp]: "decode_u64 (u64_be w) = Some w"
  by (simp add: decode_u64_def)

lemma decode_u32_be [simp]: "decode_u32 (u32_be w) = Some w"
  by (simp add: decode_u32_def)

lemma outpoint_key_inject [simp]: "outpoint_key p = outpoint_key q \<longleftrightarrow> p = q"
  by (auto simp: outpoint_key_def OutPoint.expand)

lemma expiration_key_inject [simp]: "expiration_key d i = expiration_key d' i' \<longleftrightarrow> d = d' \<and> i = i'"
  by (simp add: expiration_key_def)

lemma live_quote_key_inject:
  "length o1 = length o2 \<Longrightarrow>
   live_quote_key d o1 i = live_quote_key d' o2 i' \<longleftrightarrow> d = d' \<and> o1 = o2 \<and> i = i'"
  by (simp add: live_quote_key_def)

lemma request_key_inject:
  "length o1 = length o2 \<Longrightarrow> request_key o1 k1 = request_key o2 k2 \<longleftrightarrow> o1 = o2 \<and> k1 = k2"
  by (simp add: request_key_def)

lemma decode_expiration_key_key [simp]:
  "length i = 32 \<Longrightarrow> decode_expiration_key (expiration_key d i) = Ok (d, i)"
  by (simp add: decode_expiration_key_def expiration_key_def)

lemma decode_live_quote_key_key [simp]:
  "length o' = 32 \<Longrightarrow> length i = 32 \<Longrightarrow> decode_live_quote_key (live_quote_key d o' i) = Ok (d, o', i)"
  by (simp add: decode_live_quote_key_def live_quote_key_def decode_table_key_def)

lemma stored_inventory_same:
  "stored_inventory_to_domain ops item = Ok d \<Longrightarrow> d = item"
  by (auto simp: stored_inventory_to_domain_def corrupt_def result_simps wallet_key_locator_new_def
      inventory_item_new_def split: if_splits)

lemma stored_fee_policy_same: "stored_fee_policy_to_domain p = Ok d \<Longrightarrow> d = p"
  by (auto simp: stored_fee_policy_to_domain_def corrupt_def result_simps fee_policy_new_def split: if_splits)

lemma stored_fee_same: "stored_fee_to_domain f = Ok d \<Longrightarrow> d = f"
  by (auto simp: stored_fee_to_domain_def corrupt_def result_simps transaction_fee_new_def Let_def split: if_splits)

lemma target_same: "target_to_domain ops t = Ok d \<Longrightarrow> d = t"
  by (auto simp: target_to_domain_def corrupt_def result_simps wallet_key_locator_new_def split: if_splits)



section \<open>The audit scan\<close>

lemma rfold_unit: "rfold f xs () = Ok () \<longleftrightarrow> (\<forall>x \<in> set xs. f x () = Ok ())"
  by (induction xs) (auto simp: rbind_eq_Ok)

lemma rfold_tbl:
  fixes t :: "('k::linorder \<times> 'v) list"
  shows "tbl_ok t \<Longrightarrow>
    rfold f t () = Ok () \<longleftrightarrow> (\<forall>k v. tbl_get t k = Some v \<longrightarrow> f (k, v) () = Ok ())"
  by (auto simp: rfold_unit tbl_entries_get)

lemma only_once:
  assumes "length (filter P (xs @ e # ys)) \<le> 1" "P e" "x \<in> set xs"
  shows "\<not> P x"
proof
  assume "P x"
  then have "filter P xs \<noteq> []" using assms(3) by (auto simp: filter_empty_conv)
  then show False using assms(1,2) by (cases "filter P xs") auto
qed

definition scan_of :: "(u64 \<times> StoredAuditEvent) list \<Rightarrow> audit_scan" where
  "scan_of log = \<lparr>scan_sequence = of_nat (length log),
     scan_time = (if log = [] then None else Some (fst (last log))),
     scan_imported = {k. \<exists>at p. (at, InventoryImported p) \<in> set log \<and> k = outpoint_key p},
     scan_created = {i. \<exists>at ps. (at, ReservationCreated i ps) \<in> set log},
     scan_released = {i. \<exists>at reason. (at, ReservationReleased i reason) \<in> set log},
     scan_committed = {i. \<exists>at c. (at, SigningCommitted i c) \<in> set log},
     scan_signed = {i. \<exists>at d. (at, SignedArtifactStored i d) \<in> set log}\<rparr>"

lemma scan_of_snoc [simp]:
  "scan_of (log @ [(at, InventoryImported p)]) = (scan_of log)
     \<lparr>scan_imported := insert (outpoint_key p) (scan_imported (scan_of log)),
      scan_sequence := of_nat (Suc (length log)), scan_time := Some at\<rparr>"
  "scan_of (log @ [(at, ReservationCreated i ps)]) = (scan_of log)
     \<lparr>scan_created := insert i (scan_created (scan_of log)),
      scan_sequence := of_nat (Suc (length log)), scan_time := Some at\<rparr>"
  "scan_of (log @ [(at, ReservationReleased i reason)]) = (scan_of log)
     \<lparr>scan_released := insert i (scan_released (scan_of log)),
      scan_sequence := of_nat (Suc (length log)), scan_time := Some at\<rparr>"
  "scan_of (log @ [(at, SigningCommitted i c)]) = (scan_of log)
     \<lparr>scan_committed := insert i (scan_committed (scan_of log)),
      scan_sequence := of_nat (Suc (length log)), scan_time := Some at\<rparr>"
  "scan_of (log @ [(at, SignedArtifactStored i d)]) = (scan_of log)
     \<lparr>scan_signed := insert i (scan_signed (scan_of log)),
      scan_sequence := of_nat (Suc (length log)), scan_time := Some at\<rparr>"
  by (auto simp: scan_of_def)

lemma scan_sequence_of [simp]: "scan_sequence (scan_of log) = of_nat (length log)"
  by (simp add: scan_of_def)

lemma log_history:
  "log_ok db log \<Longrightarrow> history_of i log = (case reservation_at db i of None \<Rightarrow> [] | Some r \<Rightarrow> expected_history r)"
  by (simp add: log_ok_def)

lemma log_imports:
  "log_ok db log \<Longrightarrow> length (imports_of k log) = (if inventory_at db k = None then 0 else 1)"
  by (simp add: log_ok_def)

fun event_kind :: "StoredAuditEvent \<Rightarrow> nat" where
  "event_kind (InventoryImported _) = 0"
| "event_kind (ReservationCreated _ _) = 1"
| "event_kind (ReservationReleased _ _) = 2"
| "event_kind (SigningCommitted _ _) = 3"
| "event_kind (SignedArtifactStored _ _) = 4"

lemma expected_history_once:
  "length (filter (\<lambda>e. event_kind (snd e) = n) (expected_history r)) \<le> 1"
  by (cases "res_state r") (simp_all add: expected_history_def)

lemma history_member:
  assumes "log_ok db log" "e \<in> set log" "event_reservation (snd e) = Some i"
  obtains r where "reservation_at db i = Some r" "e \<in> set (expected_history r)"
proof -
  have "e \<in> set (history_of i log)" using assms(2,3) by (simp add: history_of_def)
  then show thesis using log_history [OF assms(1), of i] that by (cases "reservation_at db i") simp_all
qed

lemma history_once:
  assumes "log_ok db (done @ e # rest)" "event_reservation (snd e) = Some i"
    and "e' \<in> set done" "event_reservation (snd e') = Some i"
  shows "event_kind (snd e') \<noteq> event_kind (snd e)"
proof -
  have "length (filter (\<lambda>x. event_kind (snd x) = event_kind (snd e)) (history_of i (done @ e # rest))) \<le> 1"
    using log_history [OF assms(1), of i] expected_history_once
    by (cases "reservation_at db i") simp_all
  from only_once [OF this [unfolded history_of_def filter_filter] _ assms(3)]
  show ?thesis using assms(2,4) by blast
qed

lemma import_once:
  assumes "log_ok db (done @ (at, InventoryImported p) # rest)" "(at', InventoryImported p') \<in> set done"
  shows "p' \<noteq> p"
proof -
  have "length (imports_of (outpoint_key p) (done @ (at, InventoryImported p) # rest)) \<le> 1"
    using log_imports [OF assms(1)] by simp
  from only_once [OF this [unfolded imports_of_def] _ assms(2)] show ?thesis by auto
qed

lemma import_recorded:
  assumes "log_ok db log" "(at, InventoryImported p) \<in> set log"
  shows "inventory_at db (outpoint_key p) \<noteq> None"
proof -
  have "(at, InventoryImported p) \<in> set (imports_of (outpoint_key p) log)"
    using assms(2) by (simp add: imports_of_def)
  then have "imports_of (outpoint_key p) log \<noteq> []" by (metis empty_iff list.set(1))
  then show ?thesis using log_imports [OF assms(1), of "outpoint_key p"] by (auto split: if_splits)
qed

lemma check_event_ok:
  assumes log: "log_ok db (done @ (at, ev) # rest)"
  shows "rbind (check_event db at ev (scan_of done)) (\<lambda>scan.
      Ok (scan\<lparr>scan_sequence := of_nat (Suc (length done)), scan_time := Some at\<rparr>)) =
    Ok (scan_of (done @ [(at, ev)]))"
proof (cases "event_reservation ev")
  case None
  then obtain p where "ev = InventoryImported p" by (cases ev) simp_all
  moreover from this have "outpoint_key p \<notin> scan_imported (scan_of done)"
    using import_once [of db "done" at p rest] log by (auto simp: scan_of_def)
  ultimately show ?thesis
    using import_recorded [OF log, of at p] by (simp add: check_event_def)
next
  case (Some i)
  from history_member [OF log, of "(at, ev)" i] Some
  obtain r where r: "reservation_at db i = Some r" "(at, ev) \<in> set (expected_history r)" by auto
  have "event_kind (snd e') \<noteq> event_kind ev"
    if "e' \<in> set done" "event_reservation (snd e') = Some i" for e'
    using history_once [OF log _ that] Some by simp
  then have "i \<notin> scan_created (scan_of done) \<or> event_kind ev \<noteq> 1"
    "i \<notin> scan_released (scan_of done) \<or> event_kind ev \<noteq> 2"
    "i \<notin> scan_committed (scan_of done) \<or> event_kind ev \<noteq> 3"
    "i \<notin> scan_signed (scan_of done) \<or> event_kind ev \<noteq> 4"
    by (force simp: scan_of_def)+
  then show ?thesis
    using r Some
    by (cases ev; cases "res_state r")
      (auto simp: check_event_def expected_history_def matches_released_def matches_committed_def
        matches_signed_def)
qed

lemma unat_of_nat_u64: "n < 2 ^ 64 \<Longrightarrow> unat (of_nat n :: u64) = n"
  by (simp add: unat_of_nat take_bit_nat_eq_self)

lemma check_log_ok:
  assumes "log_ok db (done @ rest)"
  shows "rfold (check_audit_entry db (high_watermark db)) (numbered_from (Suc (length done)) rest) (scan_of done) =
    Ok (scan_of (done @ rest))"
  using assms
proof (induction rest arbitrary: "done")
  case (Cons e rest)
  obtain at ev where e: "e = (at, ev)" by (cases e)
  have log: "log_ok db (done @ (at, ev) # rest)" using Cons.prems e by simp
  then obtain high where high: "high_watermark db = Some high" "at \<le> high"
    unfolding log_ok_def by force
  have "length (done @ (at, ev) # rest) < 2 ^ 64" using log unfolding log_ok_def by blast
  then have "checked_add (of_nat (length done) :: u64) 1 = Some (of_nat (Suc (length done)))"
    using unat_of_nat_u64 [of "length done"] unat_of_nat_u64 [of "Suc (length done)"]
    unfolding checked_add_eq_Some by simp
  moreover have "case scan_time (scan_of done) of None \<Rightarrow> True | Some t \<Rightarrow> t \<le> at"
    using log unfolding log_ok_def by (auto simp: scan_of_def sorted_append)
  ultimately have "check_audit_entry db (high_watermark db)
      (of_nat (Suc (length done)), \<lparr>entry_sequence = of_nat (Suc (length done)), entry_at = at, entry_event = ev\<rparr>)
      (scan_of done) = Ok (scan_of (done @ [(at, ev)]))"
    using high check_event_ok [OF log] 
    by (cases "scan_time (scan_of done)") (simp_all add: check_audit_entry_def)
  then show ?case using Cons.IH [of "done @ [(at, ev)]"] Cons.prems e by simp
qed simp


lemma history_entries:
  assumes "log_ok db log" "reservation_at db i = Some r"
  shows "e \<in> set (expected_history r) \<longleftrightarrow> e \<in> set log \<and> event_reservation (snd e) = Some i"
proof -
  have "expected_history r = history_of i log" using log_history [OF assms(1), of i] assms(2) by simp
  then show ?thesis by (auto simp: history_of_def)
qed

lemma audit_integrity:
  assumes audit: "audit_ok db" and res: "reservations_ok ops identity db" and tables: "tables_ok db"
    and "meta_audit_sequence db = Some bs" "decode_u64 bs = Some declared"
  shows "validate_audit_integrity declared (high_watermark db) db = Ok ()"
proof -
  from audit obtain log where log: "log_ok db log" by (auto simp: audit_ok_def)
  then have numbered: "audit_tbl db = numbered_from 1 log" and declared: "declared = of_nat (length log)"
    using assms(4,5) by (simp_all add: log_ok_def)
  have scan: "rfold (check_audit_entry db (high_watermark db)) (audit_tbl db) initial_scan = Ok (scan_of log)"
    using check_log_ok [of db "[]" log] log numbered by (simp add: scan_of_def [of "[]"] initial_scan_def)
  have imported: "k \<in> scan_imported (scan_of log)" if "inventory_at db k = Some item" for k item
  proof -
    have "imports_of k log \<noteq> []" using log_imports [OF log, of k] that by auto
    then obtain at ev where "(at, ev) \<in> set log" "event_import ev = Some k"
      by (auto simp: imports_of_def filter_empty_conv)
    then show ?thesis by (cases ev) (auto simp: scan_of_def)
  qed
  have shape: "i \<in> scan_created (scan_of log) \<and> audit_shape_is_valid (scan_of log) i r"
    if r: "reservation_at db i = Some r" for i r
  proof -
    have i: "res_id r = i" using res r by (simp add: reservations_ok_def)
    have entries: "(at, ReservationCreated i ps) \<in> set log \<longleftrightarrow> (at, ReservationCreated i ps) \<in> set (expected_history r)"
      "(at, ReservationReleased i reason) \<in> set log \<longleftrightarrow> (at, ReservationReleased i reason) \<in> set (expected_history r)"
      "(at, SigningCommitted i c) \<in> set log \<longleftrightarrow> (at, SigningCommitted i c) \<in> set (expected_history r)"
      "(at, SignedArtifactStored i c) \<in> set log \<longleftrightarrow> (at, SignedArtifactStored i c) \<in> set (expected_history r)"
      for at ps reason c
      by (simp_all add: history_entries [OF log r])
    show ?thesis
      using i by (cases "res_state r")
        (simp_all add: scan_of_def audit_shape_is_valid_def entries expected_history_def)
  qed
  have "rfold (\<lambda>e _. ensure (fst e \<in> scan_imported (scan_of log)) CorruptState) (inventory_tbl db) () = Ok ()"
    using tables imported by (simp add: rfold_tbl tables_ok_def)
  moreover have "rfold (\<lambda>e _. rbind (ensure (fst e \<in> scan_created (scan_of log)) CorruptState) (\<lambda>_.
      ensure (audit_shape_is_valid (scan_of log) (fst e) (snd e)) CorruptState)) (reservations_tbl db) () = Ok ()"
    using tables shape by (simp add: rfold_tbl tables_ok_def)
  ultimately show ?thesis
    unfolding validate_audit_integrity_def scan using declared by simp
qed


section \<open>The integrity check\<close>

lemma meta_time_read:
  assumes "meta_ok identity db"
  shows "(case meta_last_time db of None \<Rightarrow> Ok None
    | Some bs \<Rightarrow> rbind (ok_or (decode_u64 bs) CorruptTimeHighWatermark) (\<lambda>t. Ok (Some t))) =
    Ok (high_watermark db)"
  using assms by (cases "meta_last_time db") (auto simp: meta_ok_def high_watermark_def)

lemma check_inventory_entry_ok:
  "inventory_ok ops db \<Longrightarrow> inventory_at db k = Some item \<Longrightarrow> check_inventory_entry ops (k, item) () = Ok ()"
  by (simp add: check_inventory_entry_def inventory_ok_def decode_table_key_def)

lemma reservation_ids:
  "reservations_ok ops identity db \<Longrightarrow> reservation_at db i = Some r \<Longrightarrow>
     res_id r = i \<and> reservation_ok ops identity db r"
  by (simp add: reservations_ok_def)

lemma check_reservation_entry_ok:
  "reservations_ok ops identity db \<Longrightarrow> reservation_at db i = Some r \<Longrightarrow>
   check_reservation_entry ops identity (inventory_tbl db) (high_watermark db) (i, r) () = Ok ()"
  by (drule (1) reservation_ids)
    (clarsimp simp: check_reservation_entry_def reservation_ok_def decode_table_key_def)

lemma check_owned_outpoint_ok:
  assumes "reservation_ok ops identity db r" "allocations_ok db" "reservation_at db (res_id r) = Some r"
    and "j < length (res_outpoints r)"
  shows "check_owned_outpoint db r (j, res_outpoints r ! j) () = Ok ()"
proof -
  let ?k = "outpoint_key (res_outpoints r ! j)"
  have "?k \<in> res_keys r" using assms(4) by simp
  then obtain item where item: "inventory_at db ?k = Some item"
    and alloc: "expected_allocation r \<noteq> None \<Longrightarrow> allocation_at db ?k = expected_allocation r"
    using assms(1) by (auto simp: reservation_ok_def)
  have target: "list_get (intent_targets intent) j = Some (target_from_inventory item)"
    if "state_intent (res_state r) = Some intent" for intent
    using assms(1,4) that item by (simp add: reservation_ok_def list_get_def)
  have released: "allocation_owner a \<noteq> res_id r" if "expected_allocation r = None" "allocation_at db ?k = Some a" for a
    using assms(2,3) that unfolding allocations_ok_def by (metis option.distinct(1) option.inject)
  show ?thesis
    using item alloc target released
    by (cases "res_state r")
      (auto simp: check_owned_outpoint_def Let_def result_simps split: option.split)
qed

lemma reservation_indexed:
  assumes "expirations_ok db" "live_quotes_ok db" "reservations_ok ops identity db"
    and "reservation_at db (res_id r) = Some r"
  shows "tbl_get (expirations_tbl db) (expiration_key (res_accept_before r) (res_id r)) \<noteq> None \<longleftrightarrow>
      res_state r = StReserved"
    "tbl_get (live_quotes_tbl db) (live_quote_key (res_accept_before r) (res_owner r) (res_id r)) \<noteq> None \<longleftrightarrow>
      res_state r = StReserved \<and> res_quote r \<noteq> None"
proof -
  have owner: "length (res_owner r') = 32" if "reservation_at db (res_id r') = Some r'" for r'
    using reservation_ids [OF assms(3) that] by (simp add: reservation_ok_def)
  have same: "r' = r" if "reservation_at db (res_id r') = Some r'" "res_id r = res_id r'" for r'
    using that assms(4) by (metis option.inject)
  have live: "r' = r" if "reservation_at db (res_id r') = Some r'"
      "live_quote_key (res_accept_before r) (res_owner r) (res_id r) =
       live_quote_key (res_accept_before r') (res_owner r') (res_id r')" for r'
    using that(2) owner [OF that(1)] owner [OF assms(4)]
    by (intro same [OF that(1)]) (simp add: live_quote_key_inject)
  show "tbl_get (expirations_tbl db) (expiration_key (res_accept_before r) (res_id r)) \<noteq> None \<longleftrightarrow>
      res_state r = StReserved"
  proof
    assume "tbl_get (expirations_tbl db) (expiration_key (res_accept_before r) (res_id r)) \<noteq> None"
    then obtain r' where r': "reservation_at db (res_id r') = Some r'" "res_state r' = StReserved"
      "expiration_key (res_accept_before r) (res_id r) = expiration_key (res_accept_before r') (res_id r')"
      using assms(1) unfolding expirations_ok_def by blast
    then have "r' = r" by (intro same) simp_all
    then show "res_state r = StReserved" using r'(2) by simp
  next
    assume "res_state r = StReserved"
    then have "tbl_get (expirations_tbl db) (expiration_key (res_accept_before r) (res_id r)) = Some []"
      using assms(1,4) unfolding expirations_ok_def by blast
    then show "tbl_get (expirations_tbl db) (expiration_key (res_accept_before r) (res_id r)) \<noteq> None" by simp
  qed
  show "tbl_get (live_quotes_tbl db) (live_quote_key (res_accept_before r) (res_owner r) (res_id r)) \<noteq> None \<longleftrightarrow>
      res_state r = StReserved \<and> res_quote r \<noteq> None"
  proof
    assume "tbl_get (live_quotes_tbl db) (live_quote_key (res_accept_before r) (res_owner r) (res_id r)) \<noteq> None"
    then obtain r' where r': "reservation_at db (res_id r') = Some r'" "res_state r' = StReserved"
      "res_quote r' \<noteq> None"
      "live_quote_key (res_accept_before r) (res_owner r) (res_id r) =
       live_quote_key (res_accept_before r') (res_owner r') (res_id r')"
      using assms(2) unfolding live_quotes_ok_def by blast
    from live [OF r'(1,4)] show "res_state r = StReserved \<and> res_quote r \<noteq> None" using r'(2,3) by simp
  next
    assume "res_state r = StReserved \<and> res_quote r \<noteq> None"
    then have "tbl_get (live_quotes_tbl db) (live_quote_key (res_accept_before r) (res_owner r) (res_id r)) = Some []"
      using assms(2,4) unfolding live_quotes_ok_def by blast
    then show "tbl_get (live_quotes_tbl db) (live_quote_key (res_accept_before r) (res_owner r) (res_id r)) \<noteq> None"
      by simp
  qed
qed

lemma check_reservation_links_ok:
  assumes "reservations_ok ops identity db" "allocations_ok db" "expirations_ok db" "live_quotes_ok db"
    and r: "reservation_at db i = Some r"
  shows "check_reservation_links db (i, r) () = Ok ()"
proof -
  from reservation_ids [OF assms(1) r] have r': "reservation_at db (res_id r) = Some r"
    and ok: "reservation_ok ops identity db r" using r by simp_all
  have "rfold (check_owned_outpoint db r) (enumerate 0 (res_outpoints r)) () = Ok ()"
    using check_owned_outpoint_ok [OF ok assms(2) r']
    by (auto simp: rfold_unit in_set_enumerate_eq)
  then show ?thesis
    using reservation_indexed [OF assms(3,4,1) r'] ok
    by (auto simp: check_reservation_links_def Let_def reservation_ok_def binding_of_def)
qed

lemma check_binding_ok:
  assumes "bindings_ok db" "tbl_get (request_keys_tbl db) k = Some b"
  shows "check_binding db (k, b) () = Ok ()"
proof -
  from assms obtain r where "reservation_at db (binding_reservation_id b) = Some r" "b = binding_of r"
    "k = request_key (res_owner r) (res_idempotency_key r)"
    unfolding bindings_ok_def by blast
  then show ?thesis by (simp add: check_binding_def binding_of_def)
qed

lemma check_allocation_ok:
  assumes "reservations_ok ops identity db" "inventory_ok ops db" "allocations_ok db"
    and "allocation_at db k = Some a"
  shows "check_allocation db (k, a) () = Ok ()" "length k = 36"
proof -
  from assms(3,4) obtain r where r: "reservation_at db (allocation_owner a) = Some r" "k \<in> res_keys r"
    "expected_allocation r = Some a"
    unfolding allocations_ok_def by blast
  with reservation_ids [OF assms(1) r(1)] obtain item where item: "inventory_at db k = Some item"
    unfolding reservation_ok_def by blast
  with assms(2) have k: "k = outpoint_key (item_outpoint item)" "length k = 36"
    by (simp_all add: inventory_ok_def)
  then have "item_outpoint item \<in> set (res_outpoints r)" using r(2) by auto
  then show "check_allocation db (k, a) () = Ok ()"
    using item r by (cases "res_state r") (auto simp: check_allocation_def)
  show "length k = 36" by (rule k(2))
qed

lemma check_expiration_ok:
  assumes "reservations_ok ops identity db" "expirations_ok db" "tbl_get (expirations_tbl db) k = Some v"
  shows "check_expiration db (k, v) () = Ok ()" "check_index_entry 40 (k, v) () = Ok ()"
proof -
  from assms(2,3) obtain r where r: "reservation_at db (res_id r) = Some r" "res_state r = StReserved"
    "k = expiration_key (res_accept_before r) (res_id r)" "v = []"
    unfolding expirations_ok_def by blast
  with reservation_ids [OF assms(1) r(1)] have len: "length (res_id r) = 32" by (simp add: reservation_ok_def)
  show "check_expiration db (k, v) () = Ok ()"
    using r len by (simp add: check_expiration_def)
  show "check_index_entry 40 (k, v) () = Ok ()"
    using r len by (simp add: check_index_entry_def decode_table_key_def expiration_key_def)
qed

lemma check_live_quote_ok:
  assumes "reservations_ok ops identity db" "live_quotes_ok db" "tbl_get (live_quotes_tbl db) k = Some v"
  shows "check_live_quote db (k, v) () = Ok ()" "check_index_entry 72 (k, v) () = Ok ()"
proof -
  from assms(2,3) obtain r where r: "reservation_at db (res_id r) = Some r" "res_state r = StReserved"
    "res_quote r \<noteq> None" "k = live_quote_key (res_accept_before r) (res_owner r) (res_id r)" "v = []"
    unfolding live_quotes_ok_def by blast
  with reservation_ids [OF assms(1) r(1)] have len: "length (res_id r) = 32" "length (res_owner r) = 32"
    by (simp_all add: reservation_ok_def)
  show "check_live_quote db (k, v) () = Ok ()"
    using r len by (simp add: check_live_quote_def Let_def live_quote_key_def)
  show "check_index_entry 72 (k, v) () = Ok ()"
    using r len by (simp add: check_index_entry_def decode_table_key_def live_quote_key_def)
qed

lemma request_key_length:
  assumes "reservations_ok ops identity db" "bindings_ok db" "tbl_get (request_keys_tbl db) k = Some b"
  shows "check_key_length 64 (k, b) () = Ok ()"
proof -
  from assms(2,3) obtain r where r: "reservation_at db (binding_reservation_id b) = Some r"
    "k = request_key (res_owner r) (res_idempotency_key r)"
    unfolding bindings_ok_def by blast
  with reservation_ids [OF assms(1) r(1)] show ?thesis
    by (simp add: reservation_ok_def request_key_def check_key_length_def decode_table_key_def)
qed

theorem store_ok_passes:
  assumes "store_ok ops identity db"
  shows "validate_store_integrity ops identity db = Ok ()"
proof -
  have parts: "meta_ok identity db" "inventory_ok ops db" "reservations_ok ops identity db" "bindings_ok db"
    "allocations_ok db" "expirations_ok db" "live_quotes_ok db" "audit_ok db" "tables_ok db"
    using assms by (simp_all add: store_ok_def)
  note [simp] = rfold_tbl
  have tables: "tbl_ok (inventory_tbl db)" "tbl_ok (allocations_tbl db)" "tbl_ok (reservations_tbl db)"
    "tbl_ok (request_keys_tbl db)" "tbl_ok (expirations_tbl db)" "tbl_ok (live_quotes_tbl db)"
    using parts(9) by (simp_all add: tables_ok_def)
  obtain n where n: "meta_audit_sequence db = Some (u64_be n)"
    using parts(8) by (auto simp: audit_ok_def log_ok_def)
  obtain rev where "allocation_revision db = Ok rev"
    using parts(1) by (auto simp: meta_ok_def allocation_revision_def)
  moreover have "rfold (check_inventory_entry ops) (inventory_tbl db) () = Ok ()"
    using tables check_inventory_entry_ok [OF parts(2)] by simp
  moreover have "rfold (check_reservation_entry ops identity (inventory_tbl db) (high_watermark db))
      (reservations_tbl db) () = Ok ()"
    using tables check_reservation_entry_ok [OF parts(3)] by simp
  moreover have "rfold (check_key_length 64) (request_keys_tbl db) () = Ok ()"
    using tables request_key_length [OF parts(3,4)] by simp
  moreover have "rfold (check_key_length 36) (allocations_tbl db) () = Ok ()"
    using tables check_allocation_ok(2) [OF parts(3,2,5)] by (simp add: check_key_length_def decode_table_key_def)
  moreover have "rfold (check_index_entry 40) (expirations_tbl db) () = Ok ()"
    using tables check_expiration_ok(2) [OF parts(3,6)] by simp
  moreover have "rfold (check_index_entry 72) (live_quotes_tbl db) () = Ok ()"
    using tables check_live_quote_ok(2) [OF parts(3,7)] by simp
  moreover have "rfold (check_reservation_links db) (reservations_tbl db) () = Ok ()"
    using tables check_reservation_links_ok [OF parts(3,5,6,7)] by simp
  moreover have "rfold (check_binding db) (request_keys_tbl db) () = Ok ()"
    using tables check_binding_ok [OF parts(4)] by simp
  moreover have "rfold (check_allocation db) (allocations_tbl db) () = Ok ()"
    using tables check_allocation_ok(1) [OF parts(3,2,5)] by simp
  moreover have "rfold (check_expiration db) (expirations_tbl db) () = Ok ()"
    using tables check_expiration_ok(1) [OF parts(3,6)] by simp
  moreover have "rfold (check_live_quote db) (live_quotes_tbl db) () = Ok ()"
    using tables check_live_quote_ok(1) [OF parts(3,7)] by simp
  ultimately show ?thesis
    unfolding validate_store_integrity_def
    using n meta_time_read [OF parts(1)] audit_integrity [OF parts(8,3,9) n, of n] by simp
qed

end
