(* ===== verification/Rfq_Store_Steps.thy ===== *)
theory Rfq_Store_Steps
  imports Rfq_Store_Inv
begin

text \<open>
  Every write of the reservation store preserves the store invariant.  A change of one reservation
  (release, signing commitment, signed artifact) is a \<open>reservation_transition\<close>; creation, import
  and the clock observation are the other elementary writes.
\<close>

section \<open>The audit log grows at its end\<close>

lemma numbered_from_snoc:
  "numbered_from n (log @ [(at, ev)]) =
     numbered_from n log @ [(of_nat (n + length log),
       \<lparr>entry_sequence = of_nat (n + length log), entry_at = at, entry_event = ev\<rparr>)]"
  by (induction n log rule: numbered_from.induct) simp_all

lemma tbl_insert_last:
  "\<forall>k \<in> fst ` set t. k < k' \<Longrightarrow> tbl_insert k' v t = t @ [(k', v)]"
  by (induction t) auto

lemma numbered_from_keys: "k \<in> fst ` set (numbered_from n log) \<Longrightarrow> \<exists>j < length log. k = of_nat (n + j)"
proof (induction n log rule: numbered_from.induct)
  case (2 n at ev log)
  then consider "k = of_nat n" | j where "j < length log" "k = of_nat (Suc n + j)" by auto
  then show ?case
  proof cases
    case 2
    then show ?thesis by (intro exI [of _ "Suc j"]) simp
  qed force
qed simp

definition log_at :: "Database \<Rightarrow> (u64 \<times> StoredAuditEvent) list \<Rightarrow> bool" where
  "log_at db log \<longleftrightarrow>
     audit_tbl db = numbered_from 1 log \<and> length log < 2 ^ 64 \<and>
     meta_audit_sequence db = Some (u64_be (of_nat (length log)))"

lemma append_audit_Ok:
  assumes "log_at db log" "append_audit at ev db = Ok db'"
  shows "log_at db' (log @ [(at, ev)])"
    "db' = db\<lparr>meta_audit_sequence := meta_audit_sequence db', audit_tbl := audit_tbl db'\<rparr>"
proof -
  let ?n = "length log"
  from assms obtain next' where n: "checked_add (of_nat ?n :: u64) 1 = Some next'"
    and db': "db' = db\<lparr>meta_audit_sequence := Some (u64_be next'),
      audit_tbl := tbl_insert next' \<lparr>entry_sequence = next', entry_at = at, entry_event = ev\<rparr> (audit_tbl db)\<rparr>"
    by (auto simp: append_audit_def log_at_def result_simps)
  have len: "?n < 2 ^ 64" using assms(1) by (simp add: log_at_def)
  have unat_next: "unat next' = ?n + 1" using n unat_of_nat_u64 [OF len] by (simp add: checked_simps)
  then have bound: "Suc ?n < 2 ^ 64" using unat_less_pow [of next'] by simp
  have next': "next' = of_nat (Suc ?n)"
    using unat_next unat_of_nat_u64 [OF bound] by (simp add: word_unat_eq_iff)
  have "k < next'" if "k \<in> fst ` set (numbered_from 1 log)" for k
  proof -
    from numbered_from_keys [OF that] obtain j where j: "j < ?n" "k = of_nat (1 + j)" by blast
    then have "unat k = 1 + j" using bound unat_of_nat_u64 [of "1 + j"] by simp
    then show ?thesis using j unat_next by (simp add: word_less_nat_alt)
  qed
  then have "audit_tbl db' = numbered_from 1 (log @ [(at, ev)])"
    using db' assms(1) next' by (simp add: log_at_def tbl_insert_last numbered_from_snoc)
  then show "log_at db' (log @ [(at, ev)])"
    using db' bound next' by (simp add: log_at_def)
  show "db' = db\<lparr>meta_audit_sequence := meta_audit_sequence db', audit_tbl := audit_tbl db'\<rparr>"
    using db' by simp
qed

lemma log_ok_at: "log_ok db log \<Longrightarrow> log_at db log"
  by (simp add: log_ok_def log_at_def)

lemma log_ok_snoc:
  assumes log: "log_ok db log" and at: "log_at db' (log @ [(now, ev)])"
    and time: "high_watermark db = Some now" "high_watermark db' = Some now"
    and history: "\<And>i. (case reservation_at db' i of None \<Rightarrow> [] | Some r \<Rightarrow> expected_history r) =
      (case reservation_at db i of None \<Rightarrow> [] | Some r \<Rightarrow> expected_history r) @
      (if event_reservation ev = Some i then [(now, ev)] else [])"
    and imported: "\<And>k. (if inventory_at db' k = None then 0 else 1 :: nat) =
      (if inventory_at db k = None then 0 else 1) + (if event_import ev = Some k then 1 else 0)"
  shows "log_ok db' (log @ [(now, ev)])"
proof -
  have times: "\<forall>e \<in> set log. fst e \<le> now" "sorted (map fst log)"
    using log time(1) unfolding log_ok_def by auto
  have "history_of i (log @ [(now, ev)]) =
      (case reservation_at db' i of None \<Rightarrow> [] | Some r \<Rightarrow> expected_history r)" for i
    unfolding history using log_history [OF log, of i] by (simp add: history_of_def)
  moreover have "length (imports_of k (log @ [(now, ev)])) = (if inventory_at db' k = None then 0 else 1)" for k
    unfolding imported using log_imports [OF log, of k] by (simp add: imports_of_def)
  moreover have "sorted (map fst (log @ [(now, ev)]))"
    using times by (auto simp: sorted_append)
  moreover have "\<forall>e \<in> set (log @ [(now, ev)]). \<exists>h. high_watermark db' = Some h \<and> fst e \<le> h"
    using times(1) time(2) by auto
  ultimately show ?thesis
    using at unfolding log_ok_def log_at_def by blast
qed


section \<open>Moving one reservation\<close>

definition reservation_transition ::
    "Database \<Rightarrow> StoredReservation \<Rightarrow> StoredReservationState \<Rightarrow> u64 \<Rightarrow> StoredAuditEvent \<Rightarrow> Database \<Rightarrow> bool" where
  "reservation_transition db r s now ev db' \<longleftrightarrow>
     meta_schema db' = meta_schema db \<and> meta_identity db' = meta_identity db \<and>
     meta_last_time db' = meta_last_time db \<and> (\<exists>n. meta_allocation_revision db' = Some (u64_be n)) \<and>
     inventory_tbl db' = inventory_tbl db \<and> request_keys_tbl db' = request_keys_tbl db \<and>
     reservations_tbl db' = tbl_insert (res_id r) (r\<lparr>res_state := s\<rparr>) (reservations_tbl db) \<and>
     tbl_ok (allocations_tbl db') \<and> tbl_ok (expirations_tbl db') \<and> tbl_ok (live_quotes_tbl db') \<and>
     (\<forall>k. allocation_at db' k =
        (if k \<in> res_keys r then state_allocation (res_id r) s else allocation_at db k)) \<and>
     (\<forall>k. tbl_get (expirations_tbl db') k =
        (if k = expiration_key (res_accept_before r) (res_id r) then None else tbl_get (expirations_tbl db) k)) \<and>
     (\<forall>k. tbl_get (live_quotes_tbl db') k =
        (if k = live_quote_key (res_accept_before r) (res_owner r) (res_id r) then None
         else tbl_get (live_quotes_tbl db) k)) \<and>
     (\<forall>log. log_ok db log \<longrightarrow> log_at db' (log @ [(now, ev)]))"

lemma transition_fields:
  assumes "reservation_transition db r s now ev db'"
  shows "inventory_tbl db' = inventory_tbl db" "request_keys_tbl db' = request_keys_tbl db"
    "high_watermark db' = high_watermark db"
    "reservation_at db' i = (if i = res_id r then Some (r\<lparr>res_state := s\<rparr>) else reservation_at db i)"
    "allocation_at db' k = (if k \<in> res_keys r then state_allocation (res_id r) s else allocation_at db k)"
  using assms by (simp_all add: reservation_transition_def high_watermark_def)

text \<open>Two reservations that hold an output are the same one.\<close>

lemma held_unique:
  assumes "reservations_ok ops identity db"
    and "reservation_at db i = Some r" "expected_allocation r \<noteq> None"
    and "reservation_at db j = Some r'" "expected_allocation r' \<noteq> None"
    and "k \<in> res_keys r" "k \<in> res_keys r'"
  shows "i = j"
proof -
  have "allocation_at db k = expected_allocation r" "allocation_at db k = expected_allocation r'"
    using reservation_ids [OF assms(1,2)] reservation_ids [OF assms(1,4)] assms(3,5-7)
    unfolding reservation_ok_def by blast+
  moreover have "\<exists>a. state_allocation j s = Some a \<and> allocation_owner a = j" if "state_allocation j s \<noteq> None" for j s
    using that by (cases s) (auto simp: allocation_owner_def)
  ultimately have "res_id r = res_id r'"
    using assms(3,5) by (metis option.inject)
  then show ?thesis
    using reservation_ids [OF assms(1,2)] reservation_ids [OF assms(1,4)] by simp
qed

lemma transition_allocations_ok:
  assumes t: "reservation_transition db r s now ev db'"
    and res: "reservations_ok ops identity db" and alloc: "allocations_ok db"
    and r: "reservation_at db (res_id r) = Some r"
  shows "allocations_ok db'"
  unfolding allocations_ok_def
proof (intro allI impI)
  fix k a
  assume a: "allocation_at db' k = Some a"
  show "\<exists>r'. reservation_at db' (allocation_owner a) = Some r' \<and> k \<in> res_keys r' \<and> expected_allocation r' = Some a"
  proof (cases "k \<in> res_keys r")
    case True
    then have "state_allocation (res_id r) s = Some a" using a transition_fields(5) [OF t] by simp
    moreover from this have "allocation_owner a = res_id r" by (cases s) (auto simp: allocation_owner_def)
    ultimately show ?thesis using True transition_fields(4) [OF t] by simp
  next
    case False
    then have "allocation_at db k = Some a" using a transition_fields(5) [OF t] by simp
    with alloc obtain r' where r': "reservation_at db (allocation_owner a) = Some r'" "k \<in> res_keys r'"
      "expected_allocation r' = Some a"
      unfolding allocations_ok_def by blast
    then have "allocation_owner a \<noteq> res_id r" using False r by auto
    then show ?thesis using r' transition_fields(4) [OF t] by simp
  qed
qed


lemma check_reservation_quote_state [simp]:
  "check_reservation_quote ops identity items (r\<lparr>res_state := s\<rparr>) = check_reservation_quote ops identity items r"
  by (cases "res_quote r") (simp_all add: check_reservation_quote_def)

lemma transition_reservation_ok:
  assumes t: "reservation_transition db r s now ev db'"
    and res: "reservations_ok ops identity db"
    and r: "reservation_at db (res_id r) = Some r" and held: "expected_allocation r \<noteq> None"
    and valid: "reservation_validate ops (r\<lparr>res_state := s\<rparr>) = Ok ()"
    and times: "validate_reservation_times (r\<lparr>res_state := s\<rparr>) (high_watermark db) = Ok ()"
    and targets: "\<And>intent. state_intent s = Some intent \<Longrightarrow> intent_targets intent =
      map (\<lambda>p. target_from_inventory (the (inventory_at db (outpoint_key p)))) (res_outpoints r)"
  shows "reservations_ok ops identity db'"
  unfolding reservations_ok_def
proof (intro allI impI)
  fix i r'
  assume r': "reservation_at db' i = Some r'"
  show "i = res_id r' \<and> reservation_ok ops identity db' r'"
  proof (cases "i = res_id r")
    case True
    then have eq: "r' = r\<lparr>res_state := s\<rparr>" using r' transition_fields(4) [OF t] by simp
    show ?thesis
      using reservation_ids [OF res r] True valid times targets
      unfolding eq reservation_ok_def transition_fields [OF t] binding_of_def
      by simp
  next
    case False
    then have old: "reservation_at db i = Some r'" using r' transition_fields(4) [OF t] by simp
    have "allocation_at db' k = allocation_at db k" if "k \<in> res_keys r'" "expected_allocation r' \<noteq> None" for k
      using held_unique [OF res old that(2) r held that(1)] False transition_fields(5) [OF t] by auto
    then show ?thesis
      using reservation_ids [OF res old, THEN conjunct1] reservation_ids [OF res old, THEN conjunct2]
      unfolding reservation_ok_def transition_fields(1-3) [OF t] by simp
  qed
qed

lemma transition_bindings_ok:
  assumes t: "reservation_transition db r s now ev db'" and "bindings_ok db"
    and r: "reservation_at db (res_id r) = Some r"
  shows "bindings_ok db'"
  unfolding bindings_ok_def
proof (intro allI impI)
  fix k b
  assume "tbl_get (request_keys_tbl db') k = Some b"
  then have "tbl_get (request_keys_tbl db) k = Some b" by (simp add: transition_fields(2) [OF t])
  then obtain r' where r': "reservation_at db (binding_reservation_id b) = Some r'" "b = binding_of r'"
    "k = request_key (res_owner r') (res_idempotency_key r')"
    using assms(2) unfolding bindings_ok_def by blast
  show "\<exists>r'. reservation_at db' (binding_reservation_id b) = Some r' \<and> b = binding_of r' \<and>
      k = request_key (res_owner r') (res_idempotency_key r')"
  proof (cases "binding_reservation_id b = res_id r")
    case True
    then have "r' = r" using r r'(1) by simp
    then show ?thesis using True r' transition_fields(4) [OF t] by (simp add: binding_of_def)
  qed (use r' transition_fields(4) [OF t] in auto)
qed

lemma reserved_elsewhere:
  assumes t: "reservation_transition db r s now ev db'" and s: "s \<noteq> StReserved"
  shows "reservation_at db' (res_id r') = Some r' \<and> res_state r' = StReserved \<longleftrightarrow>
    res_id r' \<noteq> res_id r \<and> reservation_at db (res_id r') = Some r' \<and> res_state r' = StReserved"
  using transition_fields(4) [OF t, of "res_id r'"] s by auto

lemma same_id:
  assumes "reservation_at db (res_id r) = Some r" "reservation_at db (res_id r') = Some r'" "res_id r' = res_id r"
  shows "r' = r"
  using assms(1,2) unfolding assms(3) by simp

lemma transition_expirations_ok:
  assumes t: "reservation_transition db r s now ev db'" and s: "s \<noteq> StReserved"
    and exp: "expirations_ok db" and r: "reservation_at db (res_id r) = Some r"
  shows "expirations_ok db'"
  unfolding expirations_ok_def
proof (intro allI)
  fix k v
  let ?key = "\<lambda>r. expiration_key (res_accept_before r) (res_id r)"
  have get: "tbl_get (expirations_tbl db') k = (if k = ?key r then None else tbl_get (expirations_tbl db) k)"
    using t by (simp add: reservation_transition_def)
  have other: "res_id r' \<noteq> res_id r \<longleftrightarrow> ?key r' \<noteq> ?key r" if "reservation_at db (res_id r') = Some r'" for r'
    using same_id [OF r that] by (metis expiration_key_inject)
  have old: "tbl_get (expirations_tbl db) k = Some v \<longleftrightarrow> v = [] \<and> (\<exists>r'. reservation_at db (res_id r') = Some r' \<and>
      res_state r' = StReserved \<and> k = ?key r')"
    using exp unfolding expirations_ok_def by blast
  show "tbl_get (expirations_tbl db') k = Some v \<longleftrightarrow> v = [] \<and> (\<exists>r'. reservation_at db' (res_id r') = Some r' \<and>
      res_state r' = StReserved \<and> k = ?key r')"
    unfolding get conj_assoc [symmetric] reserved_elsewhere [OF t s]
    using old other by (metis option.distinct(1))
qed


lemma transition_live_quotes_ok:
  assumes t: "reservation_transition db r s now ev db'" and s: "s \<noteq> StReserved"
    and live: "live_quotes_ok db" and res: "reservations_ok ops identity db"
    and r: "reservation_at db (res_id r) = Some r"
  shows "live_quotes_ok db'"
  unfolding live_quotes_ok_def
proof (intro allI)
  fix k v
  let ?key = "\<lambda>r. live_quote_key (res_accept_before r) (res_owner r) (res_id r)"
  have get: "tbl_get (live_quotes_tbl db') k = (if k = ?key r then None else tbl_get (live_quotes_tbl db) k)"
    using t by (simp add: reservation_transition_def)
  have owner: "length (res_owner r') = 32" if "reservation_at db (res_id r') = Some r'" for r'
    using reservation_ids [OF res that] by (simp add: reservation_ok_def)
  have other: "res_id r' \<noteq> res_id r \<longleftrightarrow> ?key r' \<noteq> ?key r" if "reservation_at db (res_id r') = Some r'" for r'
    using same_id [OF r that] owner [OF that] owner [OF r] by (metis live_quote_key_inject)
  have old: "tbl_get (live_quotes_tbl db) k = Some v \<longleftrightarrow> v = [] \<and> (\<exists>r'. reservation_at db (res_id r') = Some r' \<and>
      res_state r' = StReserved \<and> res_quote r' \<noteq> None \<and> k = ?key r')"
    using live unfolding live_quotes_ok_def by blast
  show "tbl_get (live_quotes_tbl db') k = Some v \<longleftrightarrow> v = [] \<and> (\<exists>r'. reservation_at db' (res_id r') = Some r' \<and>
      res_state r' = StReserved \<and> res_quote r' \<noteq> None \<and> k = ?key r')"
    unfolding get conj_assoc [symmetric] reserved_elsewhere [OF t s]
    using old other by (metis option.distinct(1))
qed

lemma transition_audit_ok:
  assumes t: "reservation_transition db r s now ev db'" and audit: "audit_ok db"
    and r: "reservation_at db (res_id r) = Some r" and now: "high_watermark db = Some now"
    and ev: "event_reservation ev = Some (res_id r)"
    and history: "state_history (res_id r) s = state_history (res_id r) (res_state r) @ [(now, ev)]"
  shows "audit_ok db'"
proof -
  from audit obtain log where log: "log_ok db log" by (auto simp: audit_ok_def)
  have "log_ok db' (log @ [(now, ev)])"
  proof (rule log_ok_snoc [OF log _ now])
    show "log_at db' (log @ [(now, ev)])" using t log by (simp add: reservation_transition_def)
    show "high_watermark db' = Some now" by (simp add: transition_fields [OF t] now)
    show "(case reservation_at db' i of None \<Rightarrow> [] | Some r \<Rightarrow> expected_history r) =
      (case reservation_at db i of None \<Rightarrow> [] | Some r \<Rightarrow> expected_history r) @
      (if event_reservation ev = Some i then [(now, ev)] else [])" for i
      using r ev history by (cases "i = res_id r") (simp_all add: transition_fields(4) [OF t] expected_history_def)
    have "event_import ev = None" using ev by (cases ev) simp_all
    then show "(if inventory_at db' k = None then 0 else 1 :: nat) =
      (if inventory_at db k = None then 0 else 1) + (if event_import ev = Some k then 1 else 0)" for k
      by (simp add: transition_fields(1) [OF t])
  qed
  then show ?thesis by (auto simp: audit_ok_def)
qed

theorem transition_store_ok:
  assumes t: "reservation_transition db r s now ev db'" and ok: "store_ok ops identity db"
    and r: "reservation_at db (res_id r) = Some r" and held: "expected_allocation r \<noteq> None"
    and now: "high_watermark db = Some now" and ev: "event_reservation ev = Some (res_id r)"
    and history: "state_history (res_id r) s = state_history (res_id r) (res_state r) @ [(now, ev)]"
    and valid: "reservation_validate ops (r\<lparr>res_state := s\<rparr>) = Ok ()"
    and times: "validate_reservation_times (r\<lparr>res_state := s\<rparr>) (Some now) = Ok ()"
    and targets: "\<And>intent. state_intent s = Some intent \<Longrightarrow> intent_targets intent =
      map (\<lambda>p. target_from_inventory (the (inventory_at db (outpoint_key p)))) (res_outpoints r)"
  shows "store_ok ops identity db'"
proof -
  note parts = ok [unfolded store_ok_def]
  have s: "s \<noteq> StReserved" using history by auto
  have "meta_ok identity db'" "tables_ok db'"
    using parts t unfolding meta_ok_def tables_ok_def reservation_transition_def by simp_all
  moreover have "inventory_ok ops db'"
    using parts by (simp add: inventory_ok_def transition_fields(1) [OF t])
  moreover have "reservations_ok ops identity db'"
    using parts times by (intro transition_reservation_ok [OF t _ r held valid _ targets]) (simp_all add: now)
  moreover have "bindings_ok db'" "allocations_ok db'" "expirations_ok db'" "live_quotes_ok db'" "audit_ok db'"
    using parts transition_bindings_ok [OF t _ r] transition_allocations_ok [OF t _ _ r]
      transition_expirations_ok [OF t s _ r] transition_live_quotes_ok [OF t s _ _ r]
      transition_audit_ok [OF t _ r now ev history] by blast+
  ultimately show ?thesis by (simp add: store_ok_def)
qed

end
