(* ===== verification/Rfq_Store_Ops.thy ===== *)
theory Rfq_Store_Ops
  imports Rfq_Store_Steps
begin

text \<open>
  The bodies of the write transactions of the reservation book preserve the store invariant:
  release, signing commitment, signed artifact, import, expiry, replay and reservation.
\<close>

section \<open>Allocation writes\<close>

lemma allocation_at_remove [simp]:
  "allocation_at (remove_allocations ps db) k = (if k \<in> outpoint_key ` set ps then None else allocation_at db k)"
  by (induction ps arbitrary: db) (auto simp: remove_allocations_def)

lemma remove_allocations_tbl_ok [simp]:
  "tbl_ok (allocations_tbl db) \<Longrightarrow> tbl_ok (allocations_tbl (remove_allocations ps db))"
  by (induction ps arbitrary: db) (simp_all add: remove_allocations_def)

lemma allocation_at_set [simp]:
  "allocation_at (set_allocations a ps db) k = (if k \<in> outpoint_key ` set ps then Some a else allocation_at db k)"
  by (induction ps arbitrary: db) (auto simp: set_allocations_def)

lemma set_allocations_tbl_ok [simp]:
  "tbl_ok (allocations_tbl db) \<Longrightarrow> tbl_ok (allocations_tbl (set_allocations a ps db))"
  by (induction ps arbitrary: db) (simp_all add: set_allocations_def)

lemma allocation_writes_keep [simp]:
  "meta_schema (set_allocations a ps db) = meta_schema db"
  "meta_identity (set_allocations a ps db) = meta_identity db"
  "meta_last_time (set_allocations a ps db) = meta_last_time db"
  "meta_audit_sequence (set_allocations a ps db) = meta_audit_sequence db"
  "meta_allocation_revision (set_allocations a ps db) = meta_allocation_revision db"
  "inventory_tbl (set_allocations a ps db) = inventory_tbl db"
  "reservations_tbl (set_allocations a ps db) = reservations_tbl db"
  "request_keys_tbl (set_allocations a ps db) = request_keys_tbl db"
  "expirations_tbl (set_allocations a ps db) = expirations_tbl db"
  "live_quotes_tbl (set_allocations a ps db) = live_quotes_tbl db"
  "audit_tbl (set_allocations a ps db) = audit_tbl db"
  "meta_schema (remove_allocations ps db) = meta_schema db"
  "meta_identity (remove_allocations ps db) = meta_identity db"
  "meta_last_time (remove_allocations ps db) = meta_last_time db"
  "meta_audit_sequence (remove_allocations ps db) = meta_audit_sequence db"
  "meta_allocation_revision (remove_allocations ps db) = meta_allocation_revision db"
  "inventory_tbl (remove_allocations ps db) = inventory_tbl db"
  "reservations_tbl (remove_allocations ps db) = reservations_tbl db"
  "request_keys_tbl (remove_allocations ps db) = request_keys_tbl db"
  "expirations_tbl (remove_allocations ps db) = expirations_tbl db"
  "live_quotes_tbl (remove_allocations ps db) = live_quotes_tbl db"
  "audit_tbl (remove_allocations ps db) = audit_tbl db"
  by (induction ps arbitrary: db) (simp_all add: set_allocations_def remove_allocations_def)

lemma advance_revision_Ok:
  "advance_allocation_revision db = Ok db' \<Longrightarrow> \<exists>n. db' = db\<lparr>meta_allocation_revision := Some (u64_be n)\<rparr>"
  by (auto simp: advance_allocation_revision_def result_simps)


section \<open>Release\<close>

lemma store_ok_parts:
  assumes "store_ok ops identity db"
  shows "meta_ok identity db" "tables_ok db" "inventory_ok ops db" "reservations_ok ops identity db"
    "bindings_ok db" "allocations_ok db" "expirations_ok db" "live_quotes_ok db" "audit_ok db"
  using assms by (simp_all add: store_ok_def)

text \<open>Leaving the reserved state: the indexes of the reservation go, its allocations become \<open>a\<close>.\<close>

lemma leave_reserved_transition:
  assumes ok: "tables_ok db"
    and db0: "db0 = remove_allocations (res_outpoints r) db \<and> state_allocation (res_id r) s = None \<or>
      (\<exists>a. db0 = set_allocations a (res_outpoints r) db \<and> state_allocation (res_id r) s = Some a)"
    and "advance_allocation_revision db0 = Ok db1" "remove_expiration r db1 = Ok db2"
    and "remove_live_quote_index r db2 = Ok db3"
    and append: "append_audit now ev (write_reservation (r\<lparr>res_state := s\<rparr>) db3) = Ok db4"
  shows "reservation_transition db r s now ev db4"
proof -
  from assms(3-5) obtain n where db3: "db3 = db0\<lparr>meta_allocation_revision := Some (u64_be n),
      expirations_tbl := tbl_remove (expiration_key (res_accept_before r) (res_id r)) (expirations_tbl db0),
      live_quotes_tbl := tbl_remove (live_quote_key (res_accept_before r) (res_owner r) (res_id r)) (live_quotes_tbl db0)\<rparr>"
    by (auto dest!: advance_revision_Ok simp: remove_expiration_def remove_live_quote_index_def Let_def result_simps)
  let ?w = "write_reservation (r\<lparr>res_state := s\<rparr>) db3"
  from append obtain seq entries where db4: "db4 = ?w\<lparr>meta_audit_sequence := seq, audit_tbl := entries\<rparr>"
    by (auto simp: append_audit_def result_simps)
  have same: "audit_tbl ?w = audit_tbl db" "meta_audit_sequence ?w = meta_audit_sequence db"
    using db0 by (auto simp: write_reservation_def db3)
  have log: "log_at db4 (log @ [(now, ev)])" if "log_ok db log" for log
    using append_audit_Ok(1) [OF _ append, of log] log_ok_at [OF that] same by (simp add: log_at_def)
  have alloc: "allocation_at db0 k = (if k \<in> res_keys r then state_allocation (res_id r) s else allocation_at db k)" for k
    using db0 by auto
  have "tbl_ok (allocations_tbl db0)" using ok db0 by (auto simp: tables_ok_def)
  moreover have "inventory_tbl db0 = inventory_tbl db" "request_keys_tbl db0 = request_keys_tbl db"
    "meta_schema db0 = meta_schema db" "meta_identity db0 = meta_identity db"
    "meta_last_time db0 = meta_last_time db" "reservations_tbl db0 = reservations_tbl db"
    "expirations_tbl db0 = expirations_tbl db" "live_quotes_tbl db0 = live_quotes_tbl db"
    using db0 by auto
  ultimately show ?thesis
    using log alloc ok unfolding reservation_transition_def db4 write_reservation_def db3 tables_ok_def by simp
qed

lemma corrupt_eq_Ok [result_simps]: "corrupt m = Ok v \<longleftrightarrow> m = Ok v"
  by (simp add: corrupt_def result_simps)

lemma codec_eq_Ok [result_simps]: "codec x = Ok v \<longleftrightarrow> x = Some v"
  by (simp add: codec_def result_simps)

definition release_reason_ok :: "StoredReservation \<Rightarrow> ReleaseReason \<Rightarrow> u64 \<Rightarrow> bool" where
  "release_reason_ok r reason now \<longleftrightarrow> (reason = ReasonExpired \<longleftrightarrow> res_accept_before r \<le> now)"

lemma release_reserved_transition:
  assumes ok: "store_ok ops identity db" and rel: "release_reserved r reason now db = Ok (db', r')"
  shows "res_state r = StReserved" "r' = r\<lparr>res_state := StReleased reason now\<rparr>"
    "reservation_transition db r (StReleased reason now) now (ReservationReleased (res_id r) reason) db'"
proof -
  from rel obtain db1 db2 db3 where steps: "res_state r = StReserved"
    "advance_allocation_revision (remove_allocations (res_outpoints r) db) = Ok db1"
    "remove_expiration r db1 = Ok db2" "remove_live_quote_index r db2 = Ok db3"
    "append_audit now (ReservationReleased (res_id r) reason)
      (write_reservation (r\<lparr>res_state := StReleased reason now\<rparr>) db3) = Ok db'"
    "r' = r\<lparr>res_state := StReleased reason now\<rparr>"
    by (auto simp: release_reserved_def result_simps Let_def)
  then show "res_state r = StReserved" "r' = r\<lparr>res_state := StReleased reason now\<rparr>" by simp_all
  show "reservation_transition db r (StReleased reason now) now (ReservationReleased (res_id r) reason) db'"
    by (rule leave_reserved_transition [OF store_ok_parts(2) [OF ok] _ steps(2-5)]) simp
qed

lemma release_reserved_ok:
  assumes ok: "store_ok ops identity db" and r: "reservation_at db (res_id r) = Some r"
    and now: "high_watermark db = Some now" and reason: "release_reason_ok r reason now"
    and rel: "release_reserved r reason now db = Ok (db', r')"
  shows "store_ok ops identity db'"
proof -
  note t = release_reserved_transition [OF ok rel]
  have rok: "reservation_ok ops identity db r"
    using reservation_ids [OF store_ok_parts(4) [OF ok] r] by simp
  have created: "res_created_at r \<le> now"
    using rok t(1) now by (simp add: reservation_ok_def validate_reservation_times_def result_simps)
  show ?thesis
  proof (rule transition_store_ok [OF t(3) ok r _ now])
    show "reservation_validate ops (r\<lparr>res_state := StReleased reason now\<rparr>) = Ok ()"
      using rok t(1) by (simp add: reservation_ok_def reservation_validate_def)
    show "validate_reservation_times (r\<lparr>res_state := StReleased reason now\<rparr>) (Some now) = Ok ()"
      using created reason
      by (cases reason) (simp_all add: validate_reservation_times_def release_reason_ok_def not_le)
  qed (simp_all add: t(1))
qed

text \<open>On a sound store a release can only fail because a counter is exhausted.\<close>

definition counter_overflow :: "ProviderError \<Rightarrow> bool" where
  "counter_overflow e \<longleftrightarrow> e = AllocationRevisionOverflow \<or> e = AuditSequenceOverflow"

lemma advance_revision_Err:
  assumes "meta_allocation_revision db = Some (u64_be n)" "advance_allocation_revision db = Err e"
  shows "counter_overflow e"
  using assms by (auto simp: advance_allocation_revision_def allocation_revision_def counter_overflow_def
      rbind_eq_Err ok_or_eq_Err)

lemma append_audit_Err:
  assumes "meta_audit_sequence db = Some (u64_be n)" "append_audit now ev db = Err e"
  shows "counter_overflow e"
  using assms by (auto simp: append_audit_def counter_overflow_def rbind_eq_Err ok_or_eq_Err)

lemma check_reserved_allocations_ok:
  assumes "store_ok ops identity db" "reservation_at db (res_id r) = Some r" "res_state r = StReserved"
  shows "check_reserved_allocations r db = Ok ()"
  using reservation_ids [OF store_ok_parts(4) [OF assms(1)] assms(2)] assms(3)
  by (simp add: check_reserved_allocations_def rfold_unit reservation_ok_def)

lemma store_counters:
  assumes "store_ok ops identity db"
  obtains n m where "meta_allocation_revision db = Some (u64_be n)" "meta_audit_sequence db = Some (u64_be m)"
  using assms unfolding store_ok_def meta_ok_def audit_ok_def log_ok_def by blast

lemma release_reserved_Err:
  assumes ok: "store_ok ops identity db" and r: "reservation_at db (res_id r) = Some r"
    and reserved: "res_state r = StReserved" and err: "release_reserved r reason now db = Err e"
  shows "counter_overflow e"
proof -
  obtain n m where counters: "meta_allocation_revision db = Some (u64_be n)" "meta_audit_sequence db = Some (u64_be m)"
    by (rule store_counters [OF ok])
  note index = reservation_indexed [OF store_ok_parts(7,8,4) [OF ok] r]
  show ?thesis
  proof (cases "advance_allocation_revision (remove_allocations (res_outpoints r) db)")
    case (Inl e')
    then have "e = e'"
      using err reserved check_reserved_allocations_ok [OF ok r reserved] by (simp add: release_reserved_def)
    then show ?thesis using advance_revision_Err [OF _ Inl] counters by simp
  next
    case (Inr db1)
    from advance_revision_Ok [OF Inr] obtain k
      where db1: "db1 = (remove_allocations (res_outpoints r) db)\<lparr>meta_allocation_revision := Some (u64_be k)\<rparr>" by blast
    obtain db3 where "append_audit now (ReservationReleased (res_id r) reason)
        (write_reservation (r\<lparr>res_state := StReleased reason now\<rparr>) db3) = Err e" "meta_audit_sequence db3 = Some (u64_be m)"
      using err reserved check_reserved_allocations_ok [OF ok r reserved] Inr index counters
      by (auto simp: release_reserved_def remove_expiration_def remove_live_quote_index_def db1 Let_def rbind_eq_Err)
    then show ?thesis by (elim append_audit_Err [rotated]) (simp add: write_reservation_def)
  qed
qed


section \<open>Signing commitment\<close>

lemma inventory_outpoint:
  assumes "inventory_ok ops db" "inventory_at db (outpoint_key p) = Some item"
  shows "item_outpoint item = p"
proof -
  have "outpoint_key p = outpoint_key (item_outpoint item)" using assms unfolding inventory_ok_def by blast
  then show ?thesis by simp
qed

lemma signing_target_for_ok:
  assumes "inventory_ok ops db" "signing_target_for ops db p = Ok t"
  shows "t = target_from_inventory (the (inventory_at db (outpoint_key p)))" "target_outpoint t = p"
proof -
  from assms(2) obtain item where item: "inventory_at db (outpoint_key p) = Some item" "t = target_from_inventory item"
    by (auto simp: signing_target_for_def result_simps)
  then show "t = target_from_inventory (the (inventory_at db (outpoint_key p)))" by simp
  show "target_outpoint t = p" using inventory_outpoint [OF assms(1) item(1)] item(2) by (simp add: target_from_inventory_def)
qed

lemma signing_targets_ok:
  assumes "inventory_ok ops db" "signing_targets_for_reservation ops db r = Ok targets"
  shows "targets = map (\<lambda>p. target_from_inventory (the (inventory_at db (outpoint_key p)))) (res_outpoints r)"
    "map target_outpoint targets = res_outpoints r"
proof -
  have "list_all2 (\<lambda>p t. signing_target_for ops db p = Ok t) (res_outpoints r) targets"
    using assms(2) by (simp add: signing_targets_for_reservation_def rmap_eq_Ok)
  then have "targets = map (\<lambda>p. target_from_inventory (the (inventory_at db (outpoint_key p)))) (res_outpoints r) \<and>
      map target_outpoint targets = res_outpoints r"
    by (induction rule: list_all2_induct) (use signing_target_for_ok [OF assms(1)] in auto)
  then show "targets = map (\<lambda>p. target_from_inventory (the (inventory_at db (outpoint_key p)))) (res_outpoints r)"
    "map target_outpoint targets = res_outpoints r" by blast+
qed

lemma commit_reserved_transition:
  assumes ok: "store_ok ops identity db" and run: "commit_reserved ops r payload fee now db = Ok (db', res)"
  obtains targets commitment job where
    "fee_policy_validate (res_fee_policy r) fee = Ok ()"
    "signing_targets_for_reservation ops db r = Ok targets"
    "signing_commitment ops r payload fee targets = Ok commitment"
    "intent_to_job ops \<lparr>intent_commitment = commitment, intent_pre_sign_payload = payload, intent_fee = fee,
       intent_committed_at = now, intent_targets = targets\<rparr> (res_id r) = Ok job"
    "res = Ok (NewlyCommitted job)"
    "reservation_transition db r (StCommitted \<lparr>intent_commitment = commitment, intent_pre_sign_payload = payload,
       intent_fee = fee, intent_committed_at = now, intent_targets = targets\<rparr>) now
       (SigningCommitted (res_id r) commitment) db'"
proof -
  from run obtain policy targets commitment db1 db2 db3 job
    where policy: "stored_fee_policy_to_domain (res_fee_policy r) = Ok policy"
    "fee_policy_validate policy fee = Ok ()"
    and pre: "signing_targets_for_reservation ops db r = Ok targets"
    "signing_commitment ops r payload fee targets = Ok commitment"
    and steps: "advance_allocation_revision
      (set_allocations (AllocCommitted (res_id r) commitment) (res_outpoints r) db) = Ok db1"
    "remove_expiration r db1 = Ok db2" "remove_live_quote_index r db2 = Ok db3"
    "append_audit now (SigningCommitted (res_id r) commitment)
      (write_reservation (r\<lparr>res_state := StCommitted \<lparr>intent_commitment = commitment, intent_pre_sign_payload = payload,
        intent_fee = fee, intent_committed_at = now, intent_targets = targets\<rparr>\<rparr>) db3) = Ok db'"
    and job: "intent_to_job ops \<lparr>intent_commitment = commitment, intent_pre_sign_payload = payload, intent_fee = fee,
       intent_committed_at = now, intent_targets = targets\<rparr> (res_id r) = Ok job" "res = Ok (NewlyCommitted job)"
    by (auto simp: commit_reserved_def result_simps Let_def)
  have "policy = res_fee_policy r" by (rule stored_fee_policy_same [OF policy(1)])
  then show thesis
    using policy(2) leave_reserved_transition [OF store_ok_parts(2) [OF ok] _ steps]
    by (intro that [OF _ pre job]) simp_all
qed

lemma commit_reserved_ok:
  assumes ok: "store_ok ops identity db" and r: "reservation_at db (res_id r) = Some r"
    and reserved: "res_state r = StReserved"
    and now: "high_watermark db = Some now" "now < res_accept_before r"
    and run: "commit_reserved ops r payload fee now db = Ok (db', res)"
  shows "store_ok ops identity db'"
proof -
  obtain targets commitment job where
    fee: "fee_policy_validate (res_fee_policy r) fee = Ok ()"
    and targets: "signing_targets_for_reservation ops db r = Ok targets"
    and commitment: "signing_commitment ops r payload fee targets = Ok commitment"
    and job: "intent_to_job ops \<lparr>intent_commitment = commitment, intent_pre_sign_payload = payload, intent_fee = fee,
       intent_committed_at = now, intent_targets = targets\<rparr> (res_id r) = Ok job"
    and t: "reservation_transition db r (StCommitted \<lparr>intent_commitment = commitment, intent_pre_sign_payload = payload,
       intent_fee = fee, intent_committed_at = now, intent_targets = targets\<rparr>) now
       (SigningCommitted (res_id r) commitment) db'"
    by (rule commit_reserved_transition [OF ok run])
  let ?intent = "\<lparr>intent_commitment = commitment, intent_pre_sign_payload = payload, intent_fee = fee,
       intent_committed_at = now, intent_targets = targets\<rparr>"
  have rok: "reservation_ok ops identity db r"
    using reservation_ids [OF store_ok_parts(4) [OF ok] r] by simp
  obtain policy where policy: "stored_fee_policy_to_domain (res_fee_policy r) = Ok policy"
    using rok by (auto simp: reservation_ok_def reservation_validate_def result_simps)
  have same: "policy = res_fee_policy r" by (rule stored_fee_policy_same [OF policy])
  from job obtain fee' targets' where parts: "validate_settlement_bytes payload = Ok ()"
    "stored_fee_to_domain fee = Ok fee'" "rmap (target_to_domain ops) targets = Ok targets'"
    by (auto simp: intent_to_job_def result_simps)
  have "fee' = fee" by (rule stored_fee_same [OF parts(2)])
  then have intent: "validate_intent ops r policy ?intent = Ok ()"
    using parts fee signing_targets_ok(2) [OF store_ok_parts(3) [OF ok] targets] commitment
    by (simp add: validate_intent_def same corrupt_def)
  show ?thesis
  proof (rule transition_store_ok [OF t ok r _ now(1)])
    show "reservation_validate ops (r\<lparr>res_state := StCommitted ?intent\<rparr>) = Ok ()"
      using rok reserved intent policy by (simp add: reservation_ok_def reservation_validate_def result_simps)
    show "validate_reservation_times (r\<lparr>res_state := StCommitted ?intent\<rparr>) (Some now) = Ok ()"
      using rok reserved now by (simp add: reservation_ok_def validate_reservation_times_def validate_commit_time_def result_simps)
    show "intent_targets intent = map (\<lambda>p. target_from_inventory (the (inventory_at db (outpoint_key p)))) (res_outpoints r)"
      if "state_intent (StCommitted ?intent) = Some intent" for intent
      using that signing_targets_ok(1) [OF store_ok_parts(3) [OF ok] targets] by auto
  qed (simp_all add: reserved)
qed


section \<open>Signed artifact\<close>

lemma store_artifact_transition:
  assumes ok: "store_ok ops identity db" and r: "reservation_at db (res_id r) = Some r"
    and committed: "res_state r = StCommitted intent" "intent_commitment intent = commitment"
    and run: "store_artifact ops r intent commitment bs now db = Ok (db', res)"
  obtains artifact where
    "artifact_to_domain ops \<lparr>artifact_digest = signed_artifact_digest ops commitment bs, artifact_bytes = bs,
       artifact_signed_at = now\<rparr> (res_id r) commitment = Ok artifact"
    "res = Ok \<lparr>outcome_artifact = artifact, outcome_recorded = True\<rparr>"
    "reservation_transition db r (StSigned intent \<lparr>artifact_digest = signed_artifact_digest ops commitment bs,
       artifact_bytes = bs, artifact_signed_at = now\<rparr>) now
       (SignedArtifactStored (res_id r) (signed_artifact_digest ops commitment bs)) db'"
proof -
  let ?stored = "\<lparr>artifact_digest = signed_artifact_digest ops commitment bs, artifact_bytes = bs, artifact_signed_at = now\<rparr>"
  let ?s = "StSigned intent ?stored"
  let ?w = "write_reservation (r\<lparr>res_state := ?s\<rparr>) db"
  from run obtain artifact where artifact: "artifact_to_domain ops ?stored (res_id r) commitment = Ok artifact"
    "res = Ok \<lparr>outcome_artifact = artifact, outcome_recorded = True\<rparr>"
    and append: "append_audit now (SignedArtifactStored (res_id r) (signed_artifact_digest ops commitment bs)) ?w = Ok db'"
    by (auto simp: store_artifact_def result_simps Let_def)
  from append obtain seq entries where db': "db' = ?w\<lparr>meta_audit_sequence := seq, audit_tbl := entries\<rparr>"
    by (auto simp: append_audit_def result_simps)
  have log: "log_at db' (log @ [(now, SignedArtifactStored (res_id r) (signed_artifact_digest ops commitment bs))])"
    if "log_ok db log" for log
    using append_audit_Ok(1) [OF _ append, of log] log_ok_at [OF that] by (simp add: log_at_def write_reservation_def)
  have alloc: "allocation_at db k = Some (AllocCommitted (res_id r) commitment)" if "k \<in> res_keys r" for k
    using reservation_ids [OF store_ok_parts(4) [OF ok] r] that committed by (auto simp: reservation_ok_def)
  have index: "tbl_get (expirations_tbl db) (expiration_key (res_accept_before r) (res_id r)) = None"
    "tbl_get (live_quotes_tbl db) (live_quote_key (res_accept_before r) (res_owner r) (res_id r)) = None"
    using reservation_indexed [OF store_ok_parts(7,8,4) [OF ok] r] committed by simp_all
  show thesis
  proof (rule that [OF artifact])
    show "reservation_transition db r ?s now
       (SignedArtifactStored (res_id r) (signed_artifact_digest ops commitment bs)) db'"
      using log alloc index committed store_ok_parts(1,2) [OF ok]
      unfolding reservation_transition_def db' write_reservation_def meta_ok_def tables_ok_def by simp
  qed
qed

lemma store_artifact_ok:
  assumes ok: "store_ok ops identity db" and r: "reservation_at db (res_id r) = Some r"
    and committed: "res_state r = StCommitted intent" "intent_commitment intent = commitment"
    and now: "high_watermark db = Some now"
    and run: "store_artifact ops r intent commitment bs now db = Ok (db', res)"
  shows "store_ok ops identity db'"
proof -
  let ?stored = "\<lparr>artifact_digest = signed_artifact_digest ops commitment bs, artifact_bytes = bs, artifact_signed_at = now\<rparr>"
  obtain artifact where artifact: "artifact_to_domain ops ?stored (res_id r) commitment = Ok artifact"
    and t: "reservation_transition db r (StSigned intent ?stored) now
       (SignedArtifactStored (res_id r) (signed_artifact_digest ops commitment bs)) db'"
    by (rule store_artifact_transition [OF ok r committed run])
  have rok: "reservation_ok ops identity db r"
    using reservation_ids [OF store_ok_parts(4) [OF ok] r] by simp
  have times: "validate_reservation_times r (Some now) = Ok ()" using rok now by (simp add: reservation_ok_def)
  show ?thesis
  proof (rule transition_store_ok [OF t ok r _ now])
    show "reservation_validate ops (r\<lparr>res_state := StSigned intent ?stored\<rparr>) = Ok ()"
      using rok committed artifact by (auto simp: reservation_ok_def reservation_validate_def result_simps)
    show "validate_reservation_times (r\<lparr>res_state := StSigned intent ?stored\<rparr>) (Some now) = Ok ()"
      using times committed by (simp add: validate_reservation_times_def validate_commit_time_def result_simps)
    show "intent_targets intent' = map (\<lambda>p. target_from_inventory (the (inventory_at db (outpoint_key p)))) (res_outpoints r)"
      if "state_intent (StSigned intent ?stored) = Some intent'" for intent'
      using that rok committed by (simp add: reservation_ok_def)
  qed (simp_all add: committed)
qed

end
