(* ===== verification/Rfq_Store_Create.thy ===== *)
theory Rfq_Store_Create
  imports Rfq_Store_Ops
begin

text \<open>
  The writes that add to the reservation store preserve its invariant: the clock observation, the
  import of inventory and the creation of a reservation.
\<close>

section \<open>Clock\<close>

lemma reservation_times_later:
  assumes "validate_reservation_times r (Some h) = Ok ()" "h \<le> h'"
  shows "validate_reservation_times r (Some h') = Ok ()"
  using assms by (cases "res_state r")
    (auto simp: validate_reservation_times_def validate_commit_time_def result_simps)

lemma observe_time_Ok:
  assumes "meta_ok identity db" "observe_time db now = Ok db'"
  shows "db' = db\<lparr>meta_last_time := Some (u64_be now)\<rparr>" "high_watermark db' = Some now"
    "\<And>h. high_watermark db = Some h \<Longrightarrow> h \<le> now"
  using assms by (auto simp: observe_time_def meta_ok_def high_watermark_def result_simps split: option.splits)

lemma observe_time_ok:
  assumes ok: "store_ok ops identity db" and obs: "observe_time db now = Ok db'"
  shows "store_ok ops identity db'"
proof -
  note db' = observe_time_Ok [OF store_ok_parts(1) [OF ok] obs]
  have times: "validate_reservation_times r (Some now) = Ok ()"
    if "validate_reservation_times r (high_watermark db) = Ok ()" for r
    using that db'(3) reservation_times_later
    by (cases "high_watermark db") (simp_all add: validate_reservation_times_def [of _ None])
  have "reservation_ok ops identity db' r" if "reservation_ok ops identity db r" for r
    using that times unfolding reservation_ok_def db'(2) by (simp add: db'(1))
  then have "reservations_ok ops identity db'"
    using store_ok_parts(4) [OF ok] by (simp add: reservations_ok_def db'(1))
  moreover from store_ok_parts(9) [OF ok] obtain log where log: "log_ok db log" by (auto simp: audit_ok_def)
  have "\<forall>e \<in> set log. \<exists>h. high_watermark db' = Some h \<and> fst e \<le> h"
    using log db'(3) unfolding log_ok_def db'(2) by force
  then have "log_ok db' log"
    using log unfolding log_ok_def by (simp add: db'(1))
  ultimately show ?thesis
    using ok unfolding store_ok_def audit_ok_def
    by (auto simp: db'(1) meta_ok_def tables_ok_def inventory_ok_def bindings_ok_def allocations_ok_def
        expirations_ok_def live_quotes_ok_def)
qed

section \<open>Import\<close>

lemma rfold_mono:
  assumes "rfold f xs s = Ok s'" "\<And>x a b. f x a = Ok b \<Longrightarrow> g x a = Ok b"
  shows "rfold g xs s = Ok s'"
  using assms(1)
proof (induction xs arbitrary: s)
  case (Cons x xs)
  then show ?case by (cases "f x s") (auto simp: assms(2))
qed simp

lemma check_reservation_quote_mono:
  assumes "check_reservation_quote ops identity items r = Ok ()"
    and "\<And>k item. tbl_get items k = Some item \<Longrightarrow> tbl_get items' k = Some item"
  shows "check_reservation_quote ops identity items' r = Ok ()"
proof (cases "res_quote r")
  case (Some quote)
  with assms(1) obtain domain amount where "stored_quote_to_domain ops quote identity r = Ok domain"
    "rfold (check_durable_input ops quote items) (contribution_inputs (quote_contribution_of domain)) 0 = Ok amount"
    "amount = sfq_selected_amount quote"
    by (auto simp: check_reservation_quote_def result_simps)
  moreover from this(2) have "rfold (check_durable_input ops quote items')
      (contribution_inputs (quote_contribution_of domain)) 0 = Ok amount"
    by (rule rfold_mono) (auto simp: check_durable_input_def result_simps dest: assms(2))
  ultimately show ?thesis using Some by (simp add: check_reservation_quote_def)
qed (simp add: check_reservation_quote_def)

definition importable :: "store_ops \<Rightarrow> InventoryItem \<Rightarrow> bool" where
  "importable ops item \<longleftrightarrow>
     length (outpoint_key (item_outpoint item)) = 36 \<and> stored_inventory_to_domain ops item = Ok item"

lemma import_one_ok:
  assumes ok: "store_ok ops identity db" and now: "high_watermark db = Some now"
    and item: "importable ops item" and new: "inventory_at db (outpoint_key (item_outpoint item)) = None"
    and run: "import_one now (outpoint_key (item_outpoint item), item) db = Ok db'"
  shows "store_ok ops identity db'" "high_watermark db' = Some now"
    "inventory_at db' k = (if k = outpoint_key (item_outpoint item) then Some item else inventory_at db k)"
proof -
  let ?k = "outpoint_key (item_outpoint item)"
  let ?w = "db\<lparr>inventory_tbl := tbl_insert ?k item (inventory_tbl db)\<rparr>"
  have append: "append_audit now (InventoryImported (item_outpoint item)) ?w = Ok db'"
    using run by (simp add: import_one_def)
  then obtain seq entries where db': "db' = ?w\<lparr>meta_audit_sequence := seq, audit_tbl := entries\<rparr>"
    by (auto simp: append_audit_def result_simps)
  from store_ok_parts(9) [OF ok] obtain log where log: "log_ok db log" by (auto simp: audit_ok_def)
  show time: "high_watermark db' = Some now" using now by (simp add: db' high_watermark_def)
  show get: "inventory_at db' k = (if k = ?k then Some item else inventory_at db k)" for k by (simp add: db')
  have "log_ok db' (log @ [(now, InventoryImported (item_outpoint item))])"
    using append_audit_Ok(1) [OF _ append, of log] log_ok_at [OF log] new
    by (intro log_ok_snoc [OF log _ now time]) (auto simp: log_at_def get, simp add: db')
  moreover have "reservation_ok ops identity db' r" if "reservation_ok ops identity db r" for r
  proof -
    have old: "inventory_at db' k = inventory_at db k" if "k \<in> res_keys r" for k
      using \<open>reservation_ok ops identity db r\<close> that new unfolding reservation_ok_def get by auto
    then have "map (\<lambda>p. target_from_inventory (the (inventory_at db' (outpoint_key p)))) (res_outpoints r) =
        map (\<lambda>p. target_from_inventory (the (inventory_at db (outpoint_key p)))) (res_outpoints r)" by simp
    moreover have "check_reservation_quote ops identity (inventory_tbl db') r = Ok ()"
      using \<open>reservation_ok ops identity db r\<close> new unfolding reservation_ok_def
      by (elim conjE check_reservation_quote_mono) (auto simp: get)
    moreover have "\<forall>k \<in> res_keys r. inventory_at db' k \<noteq> None \<and>
        (expected_allocation r \<noteq> None \<longrightarrow> allocation_at db' k = expected_allocation r)"
      using \<open>reservation_ok ops identity db r\<close> old unfolding reservation_ok_def by (simp add: db')
    ultimately show ?thesis
      using \<open>reservation_ok ops identity db r\<close> time now unfolding reservation_ok_def by (simp add: db')
  qed
  then have "reservations_ok ops identity db'"
    using store_ok_parts(4) [OF ok] by (simp add: reservations_ok_def db')
  moreover have "inventory_ok ops db'"
    using store_ok_parts(3) [OF ok] item by (auto simp: inventory_ok_def get importable_def)
  ultimately show "store_ok ops identity db'"
    using ok unfolding store_ok_def audit_ok_def
    by (auto simp: db' meta_ok_def tables_ok_def bindings_ok_def allocations_ok_def
        expirations_ok_def live_quotes_ok_def)
qed

lemma first_duplicate_None: "first_duplicate ps seen = None \<longleftrightarrow> distinct ps \<and> set ps \<inter> seen = {}"
  by (induction ps arbitrary: seen) auto

lemma plan_import_result:
  "rfold (plan_import db) items acc = Ok pending \<Longrightarrow>
   pending = acc @ map (\<lambda>i. (outpoint_key (item_outpoint i), i))
     (filter (\<lambda>i. inventory_at db (outpoint_key (item_outpoint i)) = None) items)"
proof (induction items arbitrary: acc)
  case (Cons item items)
  then obtain acc' where one: "plan_import db item acc = Ok acc'" and rest: "rfold (plan_import db) items acc' = Ok pending"
    by (auto simp: result_simps)
  show ?case
    using one Cons.IH [OF rest]
    by (cases "inventory_at db (outpoint_key (item_outpoint item))")
      (auto simp: plan_import_def Let_def split: if_splits)
qed simp

lemma import_all_ok:
  assumes "store_ok ops identity db" "high_watermark db = Some now" "list_all (importable ops) items"
    and "distinct (map item_outpoint items)"
    and "\<forall>i \<in> set items. inventory_at db (outpoint_key (item_outpoint i)) = None"
    and "rfold (import_one now) (map (\<lambda>i. (outpoint_key (item_outpoint i), i)) items) db = Ok db'"
  shows "store_ok ops identity db' \<and> high_watermark db' = Some now"
  using assms
proof (induction items arbitrary: db)
  case (Cons item items)
  from Cons.prems(6) obtain db1 where
    one: "import_one now (outpoint_key (item_outpoint item), item) db = Ok db1"
    and rest: "rfold (import_one now) (map (\<lambda>i. (outpoint_key (item_outpoint i), i)) items) db1 = Ok db'"
    by (auto simp: result_simps)
  have head: "importable ops item" "inventory_at db (outpoint_key (item_outpoint item)) = None"
    using Cons.prems(3,5) by simp_all
  note step = import_one_ok [OF Cons.prems(1,2) head one]
  have "\<forall>i \<in> set items. inventory_at db1 (outpoint_key (item_outpoint i)) = None"
    using Cons.prems(4,5) unfolding step(3) by (auto simp: image_iff)
  then show ?case using Cons.IH [OF step(1,2) _ _ _ rest] Cons.prems(3,4) by simp
qed simp

lemma import_body_ok:
  assumes ok: "store_ok ops identity db" "high_watermark db = Some now" and "list_all (importable ops) items"
    and "first_duplicate (map item_outpoint items) {} = None" and run: "import_body items now db = Ok (db', res)"
  shows "store_ok ops identity db'"
proof -
  let ?new = "filter (\<lambda>i. inventory_at db (outpoint_key (item_outpoint i)) = None) items"
  from run obtain pending where plan: "rfold (plan_import db) items [] = Ok pending"
    and fold: "rfold (import_one now) pending db = Ok db'"
    by (auto simp: import_body_def result_simps)
  have "pending = map (\<lambda>i. (outpoint_key (item_outpoint i), i)) ?new"
    using plan_import_result [OF plan] by simp
  then have fold': "rfold (import_one now) (map (\<lambda>i. (outpoint_key (item_outpoint i), i)) ?new) db = Ok db'"
    using fold by simp
  have "distinct (map item_outpoint ?new)"
    using assms(4) by (simp add: first_duplicate_None distinct_map_filter)
  moreover have "list_all (importable ops) ?new" using assms(3) by (simp add: list_all_iff)
  moreover have "\<forall>i \<in> set ?new. inventory_at db (outpoint_key (item_outpoint i)) = None" by simp
  ultimately show ?thesis using import_all_ok [OF ok _ _ _ fold'] by blast
qed


section \<open>Creation\<close>

definition reservation_creation :: "Database \<Rightarrow> StoredReservation \<Rightarrow> Database \<Rightarrow> bool" where
  "reservation_creation db r db' \<longleftrightarrow>
     meta_schema db' = meta_schema db \<and> meta_identity db' = meta_identity db \<and>
     meta_last_time db' = meta_last_time db \<and> (\<exists>n. meta_allocation_revision db' = Some (u64_be n)) \<and>
     inventory_tbl db' = inventory_tbl db \<and>
     request_keys_tbl db' =
       tbl_insert (request_key (res_owner r) (res_idempotency_key r)) (binding_of r) (request_keys_tbl db) \<and>
     reservations_tbl db' = tbl_insert (res_id r) r (reservations_tbl db) \<and>
     expirations_tbl db' = tbl_insert (expiration_key (res_accept_before r) (res_id r)) [] (expirations_tbl db) \<and>
     live_quotes_tbl db' =
       tbl_insert (live_quote_key (res_accept_before r) (res_owner r) (res_id r)) [] (live_quotes_tbl db) \<and>
     tbl_ok (allocations_tbl db') \<and>
     (\<forall>k. allocation_at db' k = (if k \<in> res_keys r then Some (AllocReserved (res_id r)) else allocation_at db k)) \<and>
     (\<forall>log. log_ok db log \<longrightarrow>
        log_at db' (log @ [(res_created_at r, ReservationCreated (res_id r) (res_outpoints r))]))"

lemma persist_creation:
  assumes ok: "tables_ok db" and run: "persist_new_reservation r db = Ok db'"
  shows "reservation_creation db r db'"
proof -
  let ?ev = "ReservationCreated (res_id r) (res_outpoints r)"
  from run obtain n db6 where append: "append_audit (res_created_at r) ?ev db6 = Ok db'"
    and db6: "db6 = (set_allocations (AllocReserved (res_id r)) (res_outpoints r)
      (db\<lparr>reservations_tbl := tbl_insert (res_id r) r (reservations_tbl db),
        request_keys_tbl :=
          tbl_insert (request_key (res_owner r) (res_idempotency_key r)) (binding_of r) (request_keys_tbl db)\<rparr>))
      \<lparr>meta_allocation_revision := Some (u64_be n),
       expirations_tbl := tbl_insert (expiration_key (res_accept_before r) (res_id r)) [] (expirations_tbl db),
       live_quotes_tbl :=
         tbl_insert (live_quote_key (res_accept_before r) (res_owner r) (res_id r)) [] (live_quotes_tbl db)\<rparr>"
    by (auto dest!: advance_revision_Ok simp: persist_new_reservation_def write_reservation_def Let_def result_simps)
  from append obtain seq entries where db': "db' = db6\<lparr>meta_audit_sequence := seq, audit_tbl := entries\<rparr>"
    by (auto simp: append_audit_def result_simps)
  have log: "log_at db' (log @ [(res_created_at r, ?ev)])" if "log_ok db log" for log
    using append_audit_Ok(1) [OF _ append, of log] log_ok_at [OF that] by (simp add: log_at_def db6)
  show ?thesis
    using log ok unfolding reservation_creation_def tables_ok_def by (simp add: db' db6)
qed

lemma creation_fields:
  assumes "reservation_creation db r db'"
  shows "inventory_tbl db' = inventory_tbl db" "high_watermark db' = high_watermark db"
    "reservation_at db' i = (if i = res_id r then Some r else reservation_at db i)"
    "tbl_get (request_keys_tbl db') k =
      (if k = request_key (res_owner r) (res_idempotency_key r) then Some (binding_of r)
       else tbl_get (request_keys_tbl db) k)"
    "allocation_at db' k = (if k \<in> res_keys r then Some (AllocReserved (res_id r)) else allocation_at db k)"
    "tbl_get (expirations_tbl db') k =
      (if k = expiration_key (res_accept_before r) (res_id r) then Some [] else tbl_get (expirations_tbl db) k)"
    "tbl_get (live_quotes_tbl db') k =
      (if k = live_quote_key (res_accept_before r) (res_owner r) (res_id r) then Some []
       else tbl_get (live_quotes_tbl db) k)"
  using assms by (simp_all add: reservation_creation_def high_watermark_def)


lemma creation_reservations_ok:
  assumes c: "reservation_creation db r db'" and res: "reservations_ok ops identity db"
    and alloc: "\<forall>k \<in> res_keys r. allocation_at db k = None"
    and key: "tbl_get (request_keys_tbl db) (request_key (res_owner r) (res_idempotency_key r)) = None"
    and new: "reservation_ok ops identity db' r"
  shows "reservations_ok ops identity db'"
  unfolding reservations_ok_def
proof (intro allI impI)
  fix i r'
  assume r': "reservation_at db' i = Some r'"
  show "i = res_id r' \<and> reservation_ok ops identity db' r'"
  proof (cases "i = res_id r")
    case False
    then have old: "reservation_at db i = Some r'" using r' creation_fields(3) [OF c] by simp
    have ok: "reservation_ok ops identity db r'" and id: "res_id r' = i" using reservation_ids [OF res old] by simp_all
    have "request_key (res_owner r') (res_idempotency_key r') \<noteq> request_key (res_owner r) (res_idempotency_key r)"
      using ok key by (auto simp: reservation_ok_def)
    moreover have "allocation_at db' k = allocation_at db k" if "k \<in> res_keys r'" "expected_allocation r' \<noteq> None" for k
      using ok that alloc creation_fields(5) [OF c] by (auto simp: reservation_ok_def)
    ultimately show ?thesis
      using ok id unfolding reservation_ok_def creation_fields(1,2,4) [OF c] by simp
  qed (use r' new creation_fields(3) [OF c] in auto)
qed

lemma creation_bindings_ok:
  assumes c: "reservation_creation db r db'" and "bindings_ok db" and fresh: "reservation_at db (res_id r) = None"
  shows "bindings_ok db'"
  unfolding bindings_ok_def
proof (intro allI impI)
  fix k b
  assume b: "tbl_get (request_keys_tbl db') k = Some b"
  show "\<exists>r'. reservation_at db' (binding_reservation_id b) = Some r' \<and> b = binding_of r' \<and>
      k = request_key (res_owner r') (res_idempotency_key r')"
  proof (cases "k = request_key (res_owner r) (res_idempotency_key r)")
    case True
    then show ?thesis using b creation_fields(3,4) [OF c] by (auto simp: binding_of_def)
  next
    case False
    then have "tbl_get (request_keys_tbl db) k = Some b" using b creation_fields(4) [OF c] by simp
    then obtain r' where r': "reservation_at db (binding_reservation_id b) = Some r'" "b = binding_of r'"
      "k = request_key (res_owner r') (res_idempotency_key r')"
      using assms(2) unfolding bindings_ok_def by blast
    then show ?thesis using fresh creation_fields(3) [OF c] by auto
  qed
qed

lemma creation_allocations_ok:
  assumes c: "reservation_creation db r db'" and "allocations_ok db" and fresh: "reservation_at db (res_id r) = None"
    and reserved: "res_state r = StReserved"
  shows "allocations_ok db'"
  unfolding allocations_ok_def
proof (intro allI impI)
  fix k a
  assume a: "allocation_at db' k = Some a"
  show "\<exists>r'. reservation_at db' (allocation_owner a) = Some r' \<and> k \<in> res_keys r' \<and> expected_allocation r' = Some a"
  proof (cases "k \<in> res_keys r")
    case True
    then show ?thesis using a reserved creation_fields(3,5) [OF c] by (auto simp: allocation_owner_def)
  next
    case False
    then have "allocation_at db k = Some a" using a creation_fields(5) [OF c] by simp
    then obtain r' where r': "reservation_at db (allocation_owner a) = Some r'" "k \<in> res_keys r'"
      "expected_allocation r' = Some a"
      using assms(2) unfolding allocations_ok_def by blast
    then have "allocation_owner a \<noteq> res_id r" using fresh by auto
    then show ?thesis using r' creation_fields(3) [OF c] by simp
  qed
qed

lemma created_reserved:
  assumes c: "reservation_creation db r db'" and fresh: "reservation_at db (res_id r) = None"
    and reserved: "res_state r = StReserved"
  shows "reservation_at db' (res_id r') = Some r' \<and> res_state r' = StReserved \<longleftrightarrow>
    r' = r \<or> res_id r' \<noteq> res_id r \<and> reservation_at db (res_id r') = Some r' \<and> res_state r' = StReserved"
  using creation_fields(3) [OF c, of "res_id r'"] fresh reserved by auto

lemma creation_expirations_ok:
  assumes c: "reservation_creation db r db'" and exp: "expirations_ok db"
    and fresh: "reservation_at db (res_id r) = None" and reserved: "res_state r = StReserved"
  shows "expirations_ok db'"
  unfolding expirations_ok_def
proof (intro allI)
  fix k v
  let ?key = "\<lambda>r. expiration_key (res_accept_before r) (res_id r)"
  have old: "tbl_get (expirations_tbl db) k = Some v \<longleftrightarrow> v = [] \<and> (\<exists>r'. reservation_at db (res_id r') = Some r' \<and>
      res_state r' = StReserved \<and> k = ?key r')"
    using exp unfolding expirations_ok_def by blast
  have other: "?key r' \<noteq> ?key r" if "res_id r' \<noteq> res_id r" for r' using that by simp
  have id: "res_id r' \<noteq> res_id r" if "reservation_at db (res_id r') = Some r'" for r' using that fresh by auto
  show "tbl_get (expirations_tbl db') k = Some v \<longleftrightarrow> v = [] \<and> (\<exists>r'. reservation_at db' (res_id r') = Some r' \<and>
      res_state r' = StReserved \<and> k = ?key r')"
    unfolding creation_fields(6) [OF c] conj_assoc [symmetric] created_reserved [OF c fresh reserved]
    using old other id by (cases "k = ?key r") (simp_all, blast+)
qed


lemma creation_live_quotes_ok:
  assumes c: "reservation_creation db r db'" and live: "live_quotes_ok db" and res: "reservations_ok ops identity db"
    and fresh: "reservation_at db (res_id r) = None" and reserved: "res_state r = StReserved"
    and r: "res_quote r \<noteq> None" "length (res_owner r) = 32"
  shows "live_quotes_ok db'"
  unfolding live_quotes_ok_def
proof (intro allI)
  fix k v
  let ?key = "\<lambda>r. live_quote_key (res_accept_before r) (res_owner r) (res_id r)"
  have old: "tbl_get (live_quotes_tbl db) k = Some v \<longleftrightarrow> v = [] \<and> (\<exists>r'. reservation_at db (res_id r') = Some r' \<and>
      res_state r' = StReserved \<and> res_quote r' \<noteq> None \<and> k = ?key r')"
    using live unfolding live_quotes_ok_def by blast
  have other: "?key r' \<noteq> ?key r" if "reservation_at db (res_id r') = Some r'" "res_id r' \<noteq> res_id r" for r'
    using that(2) reservation_ids [OF res that(1)] r(2) by (simp add: live_quote_key_inject reservation_ok_def)
  have id: "res_id r' \<noteq> res_id r" if "reservation_at db (res_id r') = Some r'" for r' using that fresh by auto
  show "tbl_get (live_quotes_tbl db') k = Some v \<longleftrightarrow> v = [] \<and> (\<exists>r'. reservation_at db' (res_id r') = Some r' \<and>
      res_state r' = StReserved \<and> res_quote r' \<noteq> None \<and> k = ?key r')"
    unfolding creation_fields(7) [OF c] conj_assoc [symmetric] created_reserved [OF c fresh reserved]
    using old other id r(1) by (cases "k = ?key r") (simp_all, blast+)
qed

lemma creation_audit_ok:
  assumes c: "reservation_creation db r db'" and audit: "audit_ok db"
    and fresh: "reservation_at db (res_id r) = None" and reserved: "res_state r = StReserved"
    and now: "high_watermark db = Some (res_created_at r)"
  shows "audit_ok db'"
proof -
  from audit obtain log where log: "log_ok db log" by (auto simp: audit_ok_def)
  have "log_ok db' (log @ [(res_created_at r, ReservationCreated (res_id r) (res_outpoints r))])"
  proof (rule log_ok_snoc [OF log _ now])
    show "(case reservation_at db' i of None \<Rightarrow> [] | Some r \<Rightarrow> expected_history r) =
      (case reservation_at db i of None \<Rightarrow> [] | Some r \<Rightarrow> expected_history r) @
      (if event_reservation (ReservationCreated (res_id r) (res_outpoints r)) = Some i
       then [(res_created_at r, ReservationCreated (res_id r) (res_outpoints r))] else [])" for i
      using fresh reserved by (cases "i = res_id r") (simp_all add: creation_fields(3) [OF c] expected_history_def)
  qed (use c log now creation_fields [OF c] in \<open>simp_all add: reservation_creation_def\<close>)
  then show ?thesis by (auto simp: audit_ok_def)
qed

theorem creation_store_ok:
  assumes c: "reservation_creation db r db'" and ok: "store_ok ops identity db"
    and fresh: "reservation_at db (res_id r) = None"
    and key: "tbl_get (request_keys_tbl db) (request_key (res_owner r) (res_idempotency_key r)) = None"
    and outs: "\<forall>k \<in> res_keys r. inventory_at db k \<noteq> None \<and> allocation_at db k = None"
    and reserved: "res_state r = StReserved" and quote: "res_quote r \<noteq> None"
    and now: "high_watermark db = Some (res_created_at r)"
    and lengths: "length (res_id r) = 32" "length (res_owner r) = 32" "length (res_idempotency_key r) = 32"
    and valid: "reservation_validate ops r = Ok ()" "policy_asset (res_fee_policy r) = identity_policy_asset identity"
      "stored_request_digest ops identity r = Ok (res_request_digest r)"
      "check_reservation_quote ops identity (inventory_tbl db) r = Ok ()"
  shows "store_ok ops identity db'"
proof -
  note parts = store_ok_parts [OF ok]
  have "reservation_ok ops identity db' r"
    using lengths valid outs reserved now unfolding reservation_ok_def creation_fields [OF c]
    by (simp add: validate_reservation_times_def)
  then have "reservations_ok ops identity db'"
    using outs by (intro creation_reservations_ok [OF c parts(4) _ key]) simp_all
  moreover have "meta_ok identity db'" "tables_ok db'"
    using parts(1,2) c unfolding meta_ok_def tables_ok_def reservation_creation_def by simp_all
  moreover have "inventory_ok ops db'"
    using parts(3) by (simp add: inventory_ok_def creation_fields(1) [OF c])
  ultimately show ?thesis
    using creation_bindings_ok [OF c parts(5) fresh] creation_allocations_ok [OF c parts(6) fresh reserved]
      creation_expirations_ok [OF c parts(7) fresh reserved] creation_audit_ok [OF c parts(9) fresh reserved now]
      creation_live_quotes_ok [OF c parts(8,4) fresh reserved quote lengths(2)]
    by (simp add: store_ok_def)
qed


section \<open>Reservation of a firm quote\<close>

lemma plan_fields:
  assumes "plan_with_request_digest owner key digest commitment outpoints accept_before policy = Ok plan"
  shows "plan_owner plan = owner" "plan_idempotency_key plan = key" "plan_request_digest plan = digest"
    "plan_quote_commitment plan = commitment" "plan_accept_before plan = accept_before"
    "plan_fee_policy plan = policy" "set (plan_outpoints plan) = set outpoints"
  using assms by (auto simp: plan_with_request_digest_def Let_def split: if_splits option.splits)

lemma selected_input_durable:
  assumes "validate_selected_input ops quote db inp acc = Ok acc'"
  shows "check_durable_input ops quote (inventory_tbl db) inp acc = Ok acc'"
  using assms by (auto simp: validate_selected_input_def check_durable_input_def result_simps)

text \<open>The persisted form of a finalized quote reads back as that quote.\<close>

lemma stored_quote_roundtrip:
  assumes q: "finalize_quote (quote_ops_of ops) identity owner key digest i draft now accept_before policy = Some quote"
    and policy: "stored_fee_policy_to_domain policy = Ok policy"
  shows "stored_quote_to_domain ops (stored_quote_from_domain quote draft) identity
      (new_reservation i owner key digest quote draft plan request_digest now accept_before policy) =
    rbind (stored_quote_validate ops (stored_quote_from_domain quote draft) identity
      (new_reservation i owner key digest quote draft plan request_digest now accept_before policy) quote) (\<lambda>_. Ok quote)"
proof -
  note f = finalize_quote_fields [OF q]
  have same: "\<lparr>quote_reservation_id = i, quote_provider = identity, quote_request = draft_request draft,
      quote_execution = draft_execution draft, quote_pricing = draft_pricing draft,
      quote_snapshot = draft_snapshot draft, quote_contribution_of = draft_contribution draft,
      quote_created_at = now, quote_accept_before = accept_before, quote_fee_policy = policy,
      quote_recovery_commitment = quote_recovery_commitment quote, quote_commitment = quote_commitment quote\<rparr> = quote"
    using f(1-10) by simp
  have recovery: "\<lparr>recovery_internal_key = recovery_internal_key (draft_receive_recovery draft),
      recovery_wallet_locator = recovery_wallet_locator (draft_receive_recovery draft)\<rparr> = draft_receive_recovery draft"
    by (cases "draft_receive_recovery draft") simp
  let ?r = "new_reservation i owner key digest quote draft plan request_digest now accept_before policy"
  let ?st = "stored_quote_from_domain quote draft"
  have fields: "res_id ?r = i" "res_owner ?r = owner" "res_idempotency_key ?r = key"
    "res_semantic_request_digest ?r = digest" "res_created_at ?r = now" "res_accept_before ?r = accept_before"
    "res_fee_policy ?r = policy" "res_quote_commitment ?r = quote_commitment quote"
    "sfq_request ?st = draft_request draft" "sfq_execution ?st = draft_execution draft"
    "sfq_pricing ?st = draft_pricing draft" "sfq_snapshot ?st = draft_snapshot draft"
    "sfq_contribution ?st = draft_contribution draft"
    "sfq_receive_internal_key ?st = recovery_internal_key (draft_receive_recovery draft)"
    "sfq_receive_wallet_locator ?st = recovery_wallet_locator (draft_receive_recovery draft)"
    "sfq_change_internal_key ?st = map_option recovery_internal_key (draft_change_recovery draft)"
    "sfq_change_wallet_locator ?st = map_option recovery_wallet_locator (draft_change_recovery draft)"
    using f(3-7) by (simp_all add: new_reservation_def stored_quote_from_domain_def)
  show ?thesis
    unfolding stored_quote_to_domain_def fields policy recovery codec_def f(11)
    by (simp add: Let_def same f(12))
qed

lemma reserve_finalized_creates:
  assumes run: "reserve_finalized ops identity owner key digest reservation_id draft policy now accept_before db = Ok (db', res)"
  obtains r outcome where "res = Ok outcome" "persist_new_reservation r db = Ok db'" "reservation_to_view ops r = Ok (outcome_reservation outcome)"
    "outcome_created outcome"
    "res_id r = reservation_id" "res_owner r = owner" "res_idempotency_key r = key" "res_created_at r = now"
    "res_semantic_request_digest r = digest" "res_accept_before r = accept_before"
    "res_state r = StReserved" "res_quote r \<noteq> None" "res_fee_policy r = engine_fee_policy policy"
    "set (res_outpoints r) = set (selected_outpoints draft)"
    "reservation_validate ops r = Ok ()" "stored_request_digest ops identity r = Ok (res_request_digest r)"
    "check_reservation_quote ops identity (inventory_tbl db) r = Ok ()"
    "\<exists>stored. res_quote r = Some stored \<and> stored_quote_to_domain ops stored identity r = Ok (outcome_quote outcome)"
proof -
  from run obtain quote plan request_digest validated amount view where
    final: "finalize_quote (quote_ops_of ops) identity owner key digest reservation_id draft now accept_before
      (engine_fee_policy policy) = Some quote"
    and plan: "plan_with_request_digest owner key digest (quote_commitment quote) (selected_outpoints draft)
      accept_before (engine_fee_policy policy) = Ok plan"
    and digest: "plan_request_digest_of ops identity plan = Ok request_digest"
    and rest: "reservation_validate ops (new_reservation reservation_id owner key digest quote draft plan request_digest now
        accept_before (engine_fee_policy policy)) = Ok ()"
      "stored_quote_to_domain ops (stored_quote_from_domain quote draft) identity
        (new_reservation reservation_id owner key digest quote draft plan request_digest now
          accept_before (engine_fee_policy policy)) = Ok validated"
      "rfold (validate_selected_input ops (stored_quote_from_domain quote draft) db)
        (contribution_inputs (quote_contribution_of validated)) 0 = Ok amount"
      "amount = sfq_selected_amount (stored_quote_from_domain quote draft)"
    and out: "persist_new_reservation (new_reservation reservation_id owner key digest quote draft plan request_digest now
        accept_before (engine_fee_policy policy)) db = Ok db'"
      "reservation_to_view ops (new_reservation reservation_id owner key digest quote draft plan request_digest now
        accept_before (engine_fee_policy policy)) = Ok view"
      "res = Ok \<lparr>outcome_quote = quote, outcome_reservation = view, outcome_created = True\<rparr>"
    by (auto simp: reserve_finalized_def Let_def result_simps new_reservation_def)
  let ?r = "new_reservation reservation_id owner key digest quote draft plan request_digest now
        accept_before (engine_fee_policy policy)"
  have "rfold (check_durable_input ops (stored_quote_from_domain quote draft) (inventory_tbl db))
      (contribution_inputs (quote_contribution_of validated)) 0 = Ok amount"
    using rest(3) by (rule rfold_mono) (rule selected_input_durable)
  then have "check_reservation_quote ops identity (inventory_tbl db) ?r = Ok ()"
    using rest(2,4) unfolding check_reservation_quote_def by (simp add: new_reservation_def)
  moreover have "stored_request_digest ops identity ?r = Ok (res_request_digest ?r)"
    using digest plan_fields [OF plan] unfolding stored_request_digest_def plan_request_digest_of_def
    by (simp add: new_reservation_def)
  moreover have "\<exists>policy'. stored_fee_policy_to_domain (engine_fee_policy policy) = Ok policy'"
    using rest(1) by (auto simp: reservation_validate_def new_reservation_def result_simps)
  then have "stored_fee_policy_to_domain (engine_fee_policy policy) = Ok (engine_fee_policy policy)"
    using stored_fee_policy_same by blast
  from stored_quote_roundtrip [OF final this] rest(2) have "validated = quote" by (auto simp: result_simps)
  then have "\<exists>stored. res_quote ?r = Some stored \<and> stored_quote_to_domain ops stored identity ?r = Ok quote"
    using rest(2) by (simp add: new_reservation_def)
  ultimately show thesis
    using rest(1) out plan_fields(7) [OF plan]
    by (intro that [of "\<lparr>outcome_quote = quote, outcome_reservation = view, outcome_created = True\<rparr>" ?r])
      (simp_all add: new_reservation_def)
qed

end
