(* ===== verification/Rfq_Store_Reach.thy ===== *)
theory Rfq_Store_Reach
  imports Rfq_Store_Create
begin

text \<open>
  The reservation book as a step system: every public write of the store with any clock reading and
  any outcome of its commits, and reopening after a crash or an ambiguous commit.  Every reachable
  database satisfies the store invariant.
\<close>

section \<open>Transaction bodies\<close>

lemma require_reservation_Ok:
  "require_reservation ops db i missing = Ok r \<Longrightarrow> reservation_at db i = Some r \<and> res_id r = i"
  by (auto simp: require_reservation_def read_reservation_def result_simps split: option.splits)

lemma require_authorized_Ok:
  assumes "require_authorized_reservation ops db access = Ok r"
  shows "reservation_at db (res_id r) = Some r" "res_id r = access_reservation_id access" "res_owner r = access_owner access"
  using assms by (auto simp: require_authorized_reservation_def result_simps dest!: require_reservation_Ok)

definition sound_at :: "store_ops \<Rightarrow> ProviderIdentity \<Rightarrow> u64 \<Rightarrow> Database \<Rightarrow> bool" where
  "sound_at ops identity now db \<longleftrightarrow> store_ok ops identity db \<and> high_watermark db = Some now"

lemma release_sound:
  assumes "sound_at ops identity now db" "reservation_at db (res_id r) = Some r"
    and "release_reason_ok r reason now" "release_reserved r reason now db = Ok (db', r')"
  shows "sound_at ops identity now db'"
  using assms release_reserved_ok [OF _ assms(2) _ assms(3,4)]
    transition_fields(3) [OF release_reserved_transition(3) [OF _ assms(4)]]
  by (auto simp: sound_at_def)

lemma expire_one_sound:
  assumes "sound_at ops identity now db" "expire_one ops now due db = Ok db'"
  shows "sound_at ops identity now db'"
proof -
  from assms(2) obtain r r' where found: "require_reservation ops db (snd due) CorruptState = Ok r"
    and r: "res_accept_before r \<le> now" "release_reserved r ReasonExpired now db = Ok (db', r')"
    by (auto simp: expire_one_def result_simps)
  show ?thesis
    using require_reservation_Ok [OF found] release_sound [OF assms(1) _ _ r(2)] r(1)
    by (simp add: release_reason_ok_def)
qed

lemma expire_due_in_write_sound:
  assumes "sound_at ops identity now db" "expire_due_in_write ops now limit db = Ok (db', ids)"
  shows "sound_at ops identity now db'"
proof (cases "limit = 0")
  case False
  with assms(2) obtain due where "rfold (expire_one ops now) due db = Ok db'"
    by (auto simp: expire_due_in_write_def result_simps)
  then show ?thesis using assms(1) expire_one_sound by (rule rfold_invariant)
qed (use assms in \<open>simp add: expire_due_in_write_def\<close>)

lemma replay_request_sound:
  assumes "sound_at ops identity now db"
    and "replay_request ops identity' owner key digest binding now db = Ok (db', outcome)"
  shows "sound_at ops identity now db'"
proof -
  from assms(2) obtain r where "replay_binding_in_write ops binding now db = Ok (db', r)"
    by (auto simp: replay_request_def result_simps)
  then obtain r0 where r0: "require_reservation ops db (binding_reservation_id binding) CorruptState = Ok r0"
    and or: "release_reserved r0 ReasonExpired now db = Ok (db', r) \<and> res_accept_before r0 \<le> now \<or> db' = db"
    by (auto simp: replay_binding_in_write_def result_simps split: if_splits)
  then show ?thesis
    using require_reservation_Ok [OF r0] release_sound [OF assms(1), of r0 ReasonExpired db' r] assms(1)
    by (auto simp: release_reason_ok_def)
qed

lemma preflight_body_Ok:
  assumes "preflight_body ops identity owner key digest policy now db = Ok (db', res)"
  obtains (replay) binding outcome where "read_request_binding db owner key = Some binding"
      "replay_request ops identity owner key digest binding now db = Ok (db', outcome)" "res = Ok (Some outcome)"
    | (admit) ids where "read_request_binding db owner key = None"
      "expire_due_in_write ops now MAX_EXPIRATION_BATCH db = Ok (db', ids)"
      "enforce_live_quote_limits owner policy now db' = Ok ()" "res = Ok None"
    | (limit) ids e where "read_request_binding db owner key = None"
      "expire_due_in_write ops now MAX_EXPIRATION_BATCH db = Ok (db', ids)"
      "enforce_live_quote_limits owner policy now db' = Err e" "is_live_limit e" "res = Err e"
proof (cases "read_request_binding db owner key")
  case None
  with assms obtain db1 ids where e: "expire_due_in_write ops now MAX_EXPIRATION_BATCH db = Ok (db1, ids)"
    by (auto simp: preflight_body_def result_simps)
  show thesis
    using assms None e admit limit by (cases "enforce_live_quote_limits owner policy now db1")
      (auto simp: preflight_body_def split: if_splits)
qed (use assms replay in \<open>auto simp: preflight_body_def result_simps\<close>)

lemma preflight_body_sound:
  assumes "sound_at ops identity now db"
    and "preflight_body ops identity' owner key digest policy now db = Ok (db', res)"
  shows "sound_at ops identity now db'"
  using assms(2)
  by (cases rule: preflight_body_Ok)
    (simp_all add: replay_request_sound [OF assms(1)] expire_due_in_write_sound [OF assms(1)])

lemma replay_body_sound:
  assumes "sound_at ops identity now db"
    and "replay_body ops identity' owner key digest now db = Ok (db', res)"
  shows "sound_at ops identity now db'"
proof (cases "read_request_binding db owner key")
  case (Some binding)
  with assms(2) obtain outcome where "replay_request ops identity' owner key digest binding now db = Ok (db', outcome)"
    by (auto simp: replay_body_def result_simps)
  then show ?thesis by (rule replay_request_sound [OF assms(1)])
qed (use assms in \<open>simp add: replay_body_def\<close>)

lemma expire_due_body_sound:
  assumes "sound_at ops identity now db" "expire_due_body ops limit now db = Ok (db', res)"
  shows "sound_at ops identity now db'"
proof -
  from assms(2) obtain ids where "expire_due_in_write ops now (min limit MAX_EXPIRATION_BATCH) db = Ok (db', ids)"
    by (auto simp: expire_due_body_def result_simps)
  then show ?thesis by (rule expire_due_in_write_sound [OF assms(1)])
qed

lemma cancel_body_sound:
  assumes "sound_at ops identity now db" "cancel_body ops access now db = Ok (db', res)"
  shows "sound_at ops identity now db'"
proof -
  from assms(2) obtain r where r: "require_authorized_reservation ops db access = Ok r"
    by (auto simp: cancel_body_def result_simps)
  show ?thesis
    using assms r require_authorized_Ok [OF r] release_sound [OF assms(1), of r]
    by (cases "res_state r")
      (auto simp: cancel_body_def result_simps release_reason_ok_def Let_def split: if_splits)
qed

lemma reject_body_sound:
  assumes "sound_at ops identity now db" "reject_body ops reservation_id now db = Ok (db', res)"
  shows "sound_at ops identity now db'"
proof -
  from assms(2) obtain r where r: "require_reservation ops db reservation_id (ReservationNotFound reservation_id) = Ok r"
    by (auto simp: reject_body_def result_simps)
  show ?thesis
    using assms r require_reservation_Ok [OF r] release_sound [OF assms(1), of r]
    by (cases "res_state r")
      (auto simp: reject_body_def result_simps release_reason_ok_def Let_def split: if_splits)
qed

lemma commit_body_sound:
  assumes "sound_at ops identity now db" "commit_body ops access expected payload fee now db = Ok (db', res)"
  shows "store_ok ops identity db'"
proof -
  from assms(2) obtain r where r: "require_authorized_reservation ops db access = Ok r"
    by (auto simp: commit_body_def result_simps)
  note r' = require_authorized_Ok [OF r]
  show ?thesis
  proof (cases "res_state r")
    case StReserved
    show ?thesis
    proof (cases "res_accept_before r \<le> now")
      case True
      then obtain r2 where "release_reserved r ReasonExpired now db = Ok (db', r2)"
        using assms(2) r StReserved by (auto simp: commit_body_def result_simps)
      then show ?thesis
        using release_sound [OF assms(1) r'(1)] True by (simp add: sound_at_def release_reason_ok_def)
    next
      case False
      then have "commit_reserved ops r payload fee now db = Ok (db', res)"
        using assms(2) r StReserved by (auto simp: commit_body_def result_simps)
      then show ?thesis
        using commit_reserved_ok [OF _ r'(1) StReserved] assms(1) False by (simp add: sound_at_def not_le)
    qed
  qed (use assms r in \<open>auto simp: commit_body_def result_simps sound_at_def\<close>)
qed

lemma record_signed_body_sound:
  assumes "sound_at ops identity now db"
    and "record_signed_body ops reservation_id commitment job bs replay now db = Ok (db', res)"
  shows "store_ok ops identity db'"
proof -
  from assms(2) obtain r where r: "require_reservation ops db reservation_id (ReservationNotFound reservation_id) = Ok r"
    by (auto simp: record_signed_body_def result_simps)
  note r' = require_reservation_Ok [OF r]
  show ?thesis
  proof (cases "res_state r")
    case (StCommitted intent)
    then have run: "store_artifact ops r intent commitment bs now db = Ok (db', res)" "intent_commitment intent = commitment"
      using assms(2) r by (auto simp: record_signed_body_def result_simps)
    show ?thesis
      using store_artifact_ok [OF _ _ StCommitted run(2) _ run(1)] assms(1) r' by (auto simp: sound_at_def)
  qed (use assms r in \<open>auto simp: record_signed_body_def result_simps sound_at_def\<close>)
qed


text \<open>What the reservation of a new quote has checked when it reaches the finalization.\<close>

lemma selected_outpoints_free:
  assumes "rfold (check_selected_outpoint draft db) (selected_outpoints draft) () = Ok ()"
    and "p \<in> set (selected_outpoints draft)"
  shows "inventory_at db (outpoint_key p) \<noteq> None \<and> allocation_at db (outpoint_key p) = None"
proof -
  have "check_selected_outpoint draft db p () = Ok ()" using assms by (simp add: rfold_unit)
  then show ?thesis by (auto simp: check_selected_outpoint_def result_simps split: option.splits)
qed

lemma reserve_body_Ok:
  assumes "reserve_body ops identity owner key digest draft policy observed_at maximum_age now db = Ok (db', res)"
  obtains (replay) binding outcome where "read_request_binding db owner key = Some binding"
      "replay_request ops identity owner key digest binding now db = Ok (db', outcome)" "res = Ok outcome"
    | (refused) e where "db' = db" "res = Err e"
    | (created) accept_before where "read_request_binding db owner key = None"
      "reservation_at db (derive_reservation_id ops owner key) = None"
      "checked_add now (quote_lifetime_millis policy) = Some accept_before"
      "rfold (check_selected_outpoint draft db) (selected_outpoints draft) () = Ok ()"
      "enforce_live_quote_limits owner policy now db = Ok ()"
      "reserve_finalized ops identity owner key digest (derive_reservation_id ops owner key) draft policy now
        accept_before db = Ok (db', res)"
proof (cases "read_request_binding db owner key")
  case None
  show thesis
  proof (cases "now < observed_at \<or> now - observed_at \<ge> maximum_age")
    case True
    then show thesis using assms None refused by (auto simp: reserve_body_def Let_def split: if_splits)
  next
    case False
    with assms None obtain accept_before where admitted:
      "checked_add now (quote_lifetime_millis policy) = Some accept_before"
      "read_reservation ops db (derive_reservation_id ops owner key) = Ok None"
      "rfold (check_selected_outpoint draft db) (selected_outpoints draft) () = Ok ()"
      "(case enforce_live_quote_limits owner policy now db of
          Inl e \<Rightarrow> if is_live_limit e then commit_err db e else Err e
        | Inr _ \<Rightarrow> reserve_finalized ops identity owner key digest (derive_reservation_id ops owner key) draft policy
            now accept_before db) = Ok (db', res)"
      by (auto simp: reserve_body_def Let_def result_simps)
    moreover have "reservation_at db (derive_reservation_id ops owner key) = None"
      using admitted(2) by (auto simp: read_reservation_def result_simps split: option.splits)
    ultimately show thesis
      using None refused created
      by (cases "enforce_live_quote_limits owner policy now db") (auto split: if_splits)
  qed
qed (use assms replay in \<open>auto simp: reserve_body_def Let_def result_simps\<close>)

definition sha_32 :: "store_ops \<Rightarrow> bool" where
  "sha_32 ops \<longleftrightarrow> (\<forall>bs. length (store_sha ops bs) = 32)"

lemma reserve_body_sound:
  assumes sound: "sound_at ops identity now db" and sha: "sha_32 ops" and len: "length owner = 32" "length key = 32"
    and policy: "policy_asset (engine_fee_policy policy) = identity_policy_asset identity"
    and run: "reserve_body ops identity owner key digest draft policy observed_at maximum_age now db = Ok (db', res)"
  shows "store_ok ops identity db'"
  using run
proof (cases rule: reserve_body_Ok)
  case (created accept_before)
  from created(6) obtain r where persist: "persist_new_reservation r db = Ok db'"
    and r: "res_id r = derive_reservation_id ops owner key" "res_owner r = owner" "res_idempotency_key r = key"
      "res_created_at r = now" "res_state r = StReserved" "res_quote r \<noteq> None"
      "res_fee_policy r = engine_fee_policy policy" "set (res_outpoints r) = set (selected_outpoints draft)"
    and valid: "reservation_validate ops r = Ok ()" "stored_request_digest ops identity r = Ok (res_request_digest r)"
      "check_reservation_quote ops identity (inventory_tbl db) r = Ok ()"
    by (rule reserve_finalized_creates)
  have ok: "store_ok ops identity db" "high_watermark db = Some now" using sound by (simp_all add: sound_at_def)
  have outs: "\<forall>k \<in> res_keys r. inventory_at db k \<noteq> None \<and> allocation_at db k = None"
    using selected_outpoints_free [OF created(4)] r(8) by auto
  have "length (res_id r) = 32" using sha r(1) by (simp add: sha_32_def derive_reservation_id_def)
  then show ?thesis
    using created(1,2) outs r(1-7) ok(2) len policy valid
    by (intro creation_store_ok [OF persist_creation [OF store_ok_parts(2) [OF ok(1)] persist] ok(1)])
      (simp_all add: read_request_binding_def)
qed (use replay_request_sound [OF sound] sound in \<open>auto simp: sound_at_def\<close>)


section \<open>The step system\<close>

text \<open>The database after a timed write: untouched, with the time observed, or with the body's changes.\<close>

lemma run_timed_database:
  assumes run: "run_timed observed committed now body book = (r, book')"
  obtains (refused) e where "book' = book \<or> poisoned book' \<and> database book' = database book" "r = Err e"
    | (observed) db e where "\<not> poisoned book" "observe_time (database book) now = Ok db" "database book' = db" "r = Err e"
    | (committed) db db' res where "\<not> poisoned book" "observe_time (database book) now = Ok db"
      "body now db = Ok (db', res)" "database book' = db'" "r = res \<and> \<not> poisoned book' \<or> r = Err CommitError \<and> poisoned book'"
proof (cases "poisoned book")
  case True
  then show thesis using run refused by (auto simp: run_timed_def ensure_healthy_def)
next
  case healthy: False
  show thesis
  proof (cases "observe_time (database book) now")
    case (Inl e)
    then show thesis using run refused healthy by (auto simp: run_timed_def ensure_healthy_def)
  next
    case (Inr db)
    note obs = observed [OF healthy Inr] and com = committed [OF healthy Inr]
    show thesis
    proof (cases observed)
      case (CommitFailed durable)
      then show thesis
        using run refused obs healthy Inr
        by (cases durable) (auto simp: run_timed_def ensure_healthy_def commit_write_def)
    next
      case Committed
      then show thesis
        using run obs com healthy Inr
        by (cases "body now db"; cases committed)
          (auto simp: run_timed_def ensure_healthy_def commit_write_def split: if_splits)
    qed
  qed
qed

lemma run_timed_identity:
  "run_timed observed committed now body book = (r, book') \<Longrightarrow> book_identity book' = book_identity book"
  by (auto simp: run_timed_def commit_write_def split: sum.splits commit_result.splits prod.splits)

text \<open>The public writes of the book.\<close>

datatype store_call =
    ImportInventory "InventoryItem list"
  | ExpireDue nat
  | PreflightQuote fixed_id fixed_id fixed_id QuoteEnginePolicy
  | ReplayQuote fixed_id fixed_id fixed_id
  | ReserveQuote fixed_id fixed_id fixed_id FirmQuoteDraft QuoteEnginePolicy unix_millis u64
  | CancelReservation ReservationAccess
  | RejectReservation fixed_id
  | CommitSigning ProviderIdentity ReservationAccess fixed_id bytes TransactionFee
  | RecordSigned SigningJob bytes
  | Reopen

text \<open>What the types of the arguments guarantee: 32-byte identifiers and validated inventory items.\<close>

fun call_ok :: "store_ops \<Rightarrow> store_call \<Rightarrow> bool" where
  "call_ok ops (ImportInventory items) \<longleftrightarrow> list_all (importable ops) items"
| "call_ok ops (ReserveQuote owner key _ _ _ _ _) \<longleftrightarrow> length owner = 32 \<and> length key = 32"
| "call_ok ops _ \<longleftrightarrow> True"

text \<open>A book whose opening failed has no usable handle.\<close>

definition reopen :: "store_ops \<Rightarrow> commit_result \<Rightarrow> ReservationBook \<Rightarrow> ReservationBook" where
  "reopen ops committed book = (case open_book ops committed (book_identity book) (database book) of
       (Inr _, book') \<Rightarrow> book'
     | (Inl _, book') \<Rightarrow> book'\<lparr>poisoned := True\<rparr>)"

fun apply_call ::
    "store_ops \<Rightarrow> commit_result \<Rightarrow> commit_result \<Rightarrow> unix_millis \<Rightarrow> store_call \<Rightarrow> ReservationBook \<Rightarrow> ReservationBook" where
  "apply_call ops observed committed now (ImportInventory items) book =
     snd (import_inventory_batch observed committed now items book)"
| "apply_call ops observed committed now (ExpireDue limit) book =
     snd (expire_due ops observed committed now limit book)"
| "apply_call ops observed committed now (PreflightQuote owner key digest policy) book =
     snd (preflight_firm_quote ops observed committed now owner key digest policy book)"
| "apply_call ops observed committed now (ReplayQuote owner key digest) book =
     snd (replay_firm_quote ops observed committed now owner key digest book)"
| "apply_call ops observed committed now (ReserveQuote owner key digest draft policy observed_at maximum_age) book =
     snd (reserve_firm_quote_from_snapshot ops observed committed now owner key digest draft policy observed_at
       maximum_age book)"
| "apply_call ops observed committed now (CancelReservation access) book =
     snd (cancel ops observed committed now access book)"
| "apply_call ops observed committed now (RejectReservation reservation_id) book =
     snd (reject_uncommitted ops observed committed now reservation_id book)"
| "apply_call ops observed committed now (CommitSigning expected access commitment payload fee) book =
     snd (commit_validated_before_sign ops observed committed now expected access commitment payload fee book)"
| "apply_call ops observed committed now (RecordSigned job candidate) book =
     snd (record_finalized_pset ops observed committed now job candidate book)"
| "apply_call ops observed committed now Reopen book = reopen ops committed book"

inductive book_step ::
    "store_ops \<Rightarrow> ReservationBook \<Rightarrow> commit_result \<times> commit_result \<times> unix_millis \<times> store_call \<Rightarrow> ReservationBook \<Rightarrow> bool"
  for ops where
  call: "call_ok ops c \<Longrightarrow>
    book_step ops book (observed, committed, now, c) (apply_call ops observed committed now c book)"

inductive_cases book_stepE [elim]: "book_step ops book l book'"

text \<open>A book that was never opened: an empty database file and no usable handle.\<close>

definition book_init :: "ProviderIdentity \<Rightarrow> ReservationBook \<Rightarrow> bool" where
  "book_init identity book \<longleftrightarrow>
     book = \<lparr>database = empty_database, book_identity = identity, poisoned = True\<rparr>"

text \<open>The database a call's transaction commits.\<close>

definition written :: "'a txn \<Rightarrow> Database option" where
  "written t = (case t of Inl _ \<Rightarrow> None | Inr (db, _) \<Rightarrow> Some db)"

fun call_body :: "store_ops \<Rightarrow> ProviderIdentity \<Rightarrow> store_call \<Rightarrow> unix_millis \<Rightarrow> Database \<Rightarrow> Database option" where
  "call_body ops identity (ImportInventory items) now db =
     (if first_duplicate (map item_outpoint items) {} = None then written (import_body items now db) else None)"
| "call_body ops identity (ExpireDue limit) now db = written (expire_due_body ops limit now db)"
| "call_body ops identity (PreflightQuote owner key digest policy) now db =
     written (preflight_body ops identity owner key digest policy now db)"
| "call_body ops identity (ReplayQuote owner key digest) now db =
     written (replay_body ops identity owner key digest now db)"
| "call_body ops identity (ReserveQuote owner key digest draft policy observed_at maximum_age) now db =
     (if policy_asset (engine_fee_policy policy) = identity_policy_asset identity
      then written (reserve_body ops identity owner key digest draft policy observed_at maximum_age now db) else None)"
| "call_body ops identity (CancelReservation access) now db = written (cancel_body ops access now db)"
| "call_body ops identity (RejectReservation reservation_id) now db = written (reject_body ops reservation_id now db)"
| "call_body ops identity (CommitSigning expected access commitment payload fee) now db =
     written (commit_body ops access (Some commitment) payload fee now db)"
| "call_body ops identity (RecordSigned job candidate) now db =
     written (record_signed_body ops (job_reservation_id job) (job_commitment job) (Some job) candidate True now db)"
| "call_body ops identity Reopen now db = None"

lemma written_Some: "written t = Some db \<longleftrightarrow> (\<exists>res. t = Ok (db, res))"
  by (cases t) (auto simp: written_def)

lemma sound_store: "sound_at ops identity now db \<Longrightarrow> store_ok ops identity db"
  by (simp add: sound_at_def)

lemma call_body_sound:
  assumes "sound_at ops identity now db" "sha_32 ops" "call_ok ops c" "call_body ops identity c now db = Some db'"
  shows "store_ok ops identity db'"
proof (cases c)
  case (ImportInventory items)
  then show ?thesis
    using assms import_body_ok [of ops identity db now items db'] by (auto simp: written_Some sound_at_def split: if_splits)
next
  case (ReserveQuote owner key digest draft policy observed_at maximum_age)
  then show ?thesis
    using assms reserve_body_sound [OF assms(1,2)] by (auto simp: written_Some split: if_splits)
next
  case (CommitSigning expected access commitment payload fee)
  then show ?thesis using assms commit_body_sound [OF assms(1)] by (auto simp: written_Some)
next
  case (RecordSigned job candidate)
  then show ?thesis using assms record_signed_body_sound [OF assms(1)] by (auto simp: written_Some)
next
  case (ExpireDue limit)
  then show ?thesis using assms by (auto simp: written_Some intro!: sound_store expire_due_body_sound [OF assms(1)])
next
  case (PreflightQuote owner key digest policy)
  then show ?thesis using assms by (auto simp: written_Some intro!: sound_store preflight_body_sound [OF assms(1)])
next
  case (ReplayQuote owner key digest)
  then show ?thesis using assms by (auto simp: written_Some intro!: sound_store replay_body_sound [OF assms(1)])
next
  case (CancelReservation access)
  then show ?thesis using assms by (auto simp: written_Some intro!: sound_store cancel_body_sound [OF assms(1)])
next
  case (RejectReservation i)
  then show ?thesis using assms by (auto simp: written_Some intro!: sound_store reject_body_sound [OF assms(1)])
qed (use assms in simp)

text \<open>What one call does to the database.\<close>

definition call_effect ::
    "store_ops \<Rightarrow> unix_millis \<Rightarrow> store_call \<Rightarrow> ReservationBook \<Rightarrow> ReservationBook \<Rightarrow> bool" where
  "call_effect ops now c book book' \<longleftrightarrow>
     database book' = database book \<or>
     \<not> poisoned book \<and> (\<exists>db. observe_time (database book) now = Ok db \<and>
       (database book' = db \<or> call_body ops (book_identity book) c now db = Some (database book')))"

lemma timed_call:
  assumes "\<And>db db' res. body now db = Ok (db', res) \<Longrightarrow> call_body ops (book_identity book) c now db = Some db'"
  shows "call_effect ops now c book (snd (run_timed observed committed now body book))"
proof -
  obtain r book' where run: "run_timed observed committed now body book = (r, book')"
    by (cases "run_timed observed committed now body book")
  then show ?thesis
    unfolding call_effect_def by (cases rule: run_timed_database) (use assms run in auto)
qed

lemma call_effect_refl [simp]: "call_effect ops now c book book"
  by (simp add: call_effect_def)

lemma apply_call_effect:
  assumes "c \<noteq> Reopen"
  shows "call_effect ops now c book (apply_call ops observed committed now c book)"
proof (cases c)
  case (ImportInventory items)
  then show ?thesis
    by (cases "first_duplicate (map item_outpoint items) {}")
      (auto simp: import_inventory_batch_def written_Some intro!: timed_call)
next
  case (RecordSigned job candidate)
  then show ?thesis
    by (auto simp: record_finalized_pset_def record_signed_inner_def Let_def written_Some intro!: timed_call
        split: sum.splits ExactSigningState.splits)
qed (use assms in \<open>auto simp: expire_due_def preflight_firm_quote_def replay_firm_quote_def
    reserve_firm_quote_from_snapshot_def cancel_def reject_uncommitted_def commit_validated_before_sign_def
    commit_before_sign_inner_def written_Some intro!: timed_call split: sum.splits\<close>)

lemma call_effect_sound:
  assumes "call_effect ops now c book book'" "store_ok ops (book_identity book) (database book)"
    and "sha_32 ops" "call_ok ops c"
  shows "store_ok ops (book_identity book) (database book')"
proof -
  have obs: "sound_at ops (book_identity book) now db" if "observe_time (database book) now = Ok db" for db
    using observe_time_ok [OF assms(2) that] observe_time_Ok(2) [OF store_ok_parts(1) [OF assms(2)] that]
    by (simp add: sound_at_def)
  show ?thesis
    using assms(1,2) call_body_sound [OF obs assms(3,4)] sound_store [OF obs] unfolding call_effect_def by metis
qed

lemma apply_call_identity [simp]:
  "book_identity (apply_call ops observed committed now c book) = book_identity book"
proof -
  have timed: "book_identity (snd (run_timed observed committed now body book)) = book_identity book"
    for body :: "unix_millis \<Rightarrow> Database \<Rightarrow> 'a txn"
    by (cases "run_timed observed committed now body book") (simp add: run_timed_identity)
  show ?thesis
    by (cases c)
      (auto simp: timed import_inventory_batch_def expire_due_def preflight_firm_quote_def replay_firm_quote_def
        reserve_firm_quote_from_snapshot_def cancel_def reject_uncommitted_def commit_validated_before_sign_def
        commit_before_sign_inner_def record_finalized_pset_def record_signed_inner_def Let_def reopen_def
        open_book_def commit_write_def
        split: option.splits sum.splits ExactSigningState.splits commit_result.splits)
qed


section \<open>Opening\<close>

definition fresh_database :: "ProviderIdentity \<Rightarrow> Database" where
  "fresh_database identity = empty_database
     \<lparr>meta_schema := Some (u32_be SCHEMA_VERSION), meta_identity := Some identity,
      meta_audit_sequence := Some (u64_be 0), meta_allocation_revision := Some (u64_be 0)\<rparr>"

lemma fresh_store_ok: "store_ok ops identity (fresh_database identity)"
proof -
  have "log_ok (fresh_database identity) []"
    by (simp add: log_ok_def fresh_database_def empty_database_def history_of_def imports_of_def tbl_get_def)
  then show ?thesis
    unfolding store_ok_def audit_ok_def
    by (auto simp: meta_ok_def tables_ok_def inventory_ok_def reservations_ok_def bindings_ok_def allocations_ok_def
        expirations_ok_def live_quotes_ok_def fresh_database_def empty_database_def tbl_get_def)
qed

lemma initialize_store_ok:
  assumes "store_ok ops identity db"
  shows "initialize_schema_body ops identity db = commit_ok db ()"
proof -
  have meta: "meta_schema db = Some (u32_be SCHEMA_VERSION)" "meta_identity db = Some identity"
    using store_ok_parts(1) [OF assms] by (simp_all add: meta_ok_def)
  obtain n m where "meta_allocation_revision db = Some (u64_be n)" "meta_audit_sequence db = Some (u64_be m)"
    by (rule store_counters [OF assms])
  then show ?thesis
    using meta store_ok_passes [OF assms] by (simp add: initialize_schema_body_def)
qed

lemma initialize_empty:
  "initialize_schema_body ops identity empty_database = commit_ok (fresh_database identity) ()"
proof -
  have "meta_schema empty_database = None" by (simp add: empty_database_def)
  then show ?thesis
    using store_ok_passes [OF fresh_store_ok, of ops identity]
    by (simp add: initialize_schema_body_def provider_tables_are_nonempty_def fresh_database_def)
qed

definition book_ok :: "store_ops \<Rightarrow> ReservationBook \<Rightarrow> bool" where
  "book_ok ops book \<longleftrightarrow> store_ok ops (book_identity book) (database book) \<or>
     database book = empty_database \<and> poisoned book"

lemma reopen_ok:
  assumes "book_ok ops book"
  shows "book_ok ops (reopen ops committed book)"
  using assms unfolding book_ok_def
proof (elim disjE conjE)
  assume "store_ok ops (book_identity book) (database book)"
  then show "store_ok ops (book_identity (reopen ops committed book)) (database (reopen ops committed book)) \<or>
      database (reopen ops committed book) = empty_database \<and> poisoned (reopen ops committed book)"
    by (cases committed) (simp_all add: reopen_def open_book_def initialize_store_ok commit_write_def)
next
  assume "database book = empty_database"
  then show "store_ok ops (book_identity (reopen ops committed book)) (database (reopen ops committed book)) \<or>
      database (reopen ops committed book) = empty_database \<and> poisoned (reopen ops committed book)"
    by (cases committed)
      (simp_all add: reopen_def open_book_def initialize_empty commit_write_def fresh_store_ok)
qed

lemma poisoned_refuses:
  assumes "poisoned book" "c \<noteq> Reopen"
  shows "database (apply_call ops observed committed now c book) = database book"
  using apply_call_effect [OF assms(2), of ops now book observed committed] assms(1) by (simp add: call_effect_def)

lemma poisoned_stays:
  assumes "poisoned book" "c \<noteq> Reopen"
  shows "poisoned (apply_call ops observed committed now c book)"
proof -
  have timed: "snd (run_timed observed committed now body book) = book"
    for body :: "unix_millis \<Rightarrow> Database \<Rightarrow> 'a txn"
    using assms(1) by (simp add: run_timed_def ensure_healthy_def)
  show ?thesis
    using assms by (cases c)
      (auto simp: timed import_inventory_batch_def expire_due_def preflight_firm_quote_def replay_firm_quote_def
        reserve_firm_quote_from_snapshot_def cancel_def reject_uncommitted_def commit_validated_before_sign_def
        commit_before_sign_inner_def record_finalized_pset_def record_signed_inner_def Let_def
        split: option.splits sum.splits ExactSigningState.splits)
qed

lemma book_step_ok:
  assumes "sha_32 ops" "book_ok ops book" "book_step ops book l book'"
  shows "book_ok ops book'"
proof -
  from assms(3) obtain c observed committed now
    where c: "call_ok ops c" "book' = apply_call ops observed committed now c book" by blast
  show ?thesis
  proof (cases "c = Reopen")
    case True
    then show ?thesis using c reopen_ok [OF assms(2)] by simp
  next
    case False
    then show ?thesis
      using c assms(2) call_effect_sound [OF apply_call_effect [OF False] _ assms(1)]
        poisoned_refuses [OF _ False] poisoned_stays [OF _ False]
      unfolding book_ok_def by auto
  qed
qed

lemma reachable_book_ok:
  assumes "sha_32 ops" "reachable (book_init identity) (book_step ops) book"
  shows "book_ok ops book \<and> book_identity book = identity"
proof -
  have "invariant_system (book_init identity) (book_step ops) (\<lambda>book. book_ok ops book \<and> book_identity book = identity)"
  proof
    show "book_ok ops s \<and> book_identity s = identity" if "book_init identity s" for s
      using that by (simp add: book_init_def book_ok_def)
    show "book_ok ops s' \<and> book_identity s' = identity"
      if "book_ok ops s \<and> book_identity s = identity" "book_step ops s l s'" for s l s'
      using that book_step_ok [OF assms(1) _ that(2)] by auto
  qed
  then show ?thesis using assms(2) by (rule invariant_system.reachable_inv)
qed

end
