(* ===== verification/Rfq_Coordinator.thy ===== *)
theory Rfq_Coordinator
  imports Effects Rfq_Wallet Rfq_Store_Reach
begin

text \<open>
  The inventory coordinator (\<open>crates/deadcat-rfq-provider/src/inventory.rs\<close>): the latest complete
  wallet scan intersected with durable allocation state, behind one lock.  The world holds the
  reservation book and the coordinator's state; an environment supplies the clock readings and
  the commit outcomes, and the calls of other threads on the shared book, which run before each
  access.
\<close>

section \<open>World\<close>

definition ELIGIBLE_INVENTORY_DOMAIN :: bytes where
  "ELIGIBLE_INVENTORY_DOMAIN = str_bytes ''deadcat/rfq/eligible-inventory/v1''"

record InventoryFreshnessPolicy =
  max_snapshot_age_millis :: u64
  max_inventory_outputs :: nat

datatype InventoryPolicyError = ZeroMaximumSnapshotAge | ZeroMaximumInventoryOutputs

definition freshness_policy_new ::
    "u64 \<Rightarrow> nat \<Rightarrow> (InventoryPolicyError, InventoryFreshnessPolicy) result" where
  "freshness_policy_new age outputs =
     (if age = 0 then Err ZeroMaximumSnapshotAge
      else if outputs = 0 then Err ZeroMaximumInventoryOutputs
      else Ok \<lparr>max_snapshot_age_millis = age, max_inventory_outputs = outputs\<rparr>)"

record EligibilityToken =
  token_generation :: u64
  token_snapshot :: fixed_id
  token_observed_at :: unix_millis

record EligibleInventory =
  eligible_token :: EligibilityToken
  eligible_anchor :: WalletScanAnchor
  eligible_allocation_revision :: u64
  eligible_committed :: fixed_id
  eligible_outputs :: "WalletOwnedOutput list"

record CurrentInventory =
  current_token :: EligibilityToken
  current_anchor :: WalletScanAnchor
  current_outputs :: "WalletOwnedOutput list"

record PublishedSnapshot =
  published_token :: EligibilityToken
  published_anchor :: WalletScanAnchor
  published_outputs :: "WalletOwnedOutput list"

record CoordinatorState =
  generation :: u64
  latest :: "PublishedSnapshot option"

definition coordinator_state_default :: CoordinatorState where
  "coordinator_state_default = \<lparr>generation = 0, latest = None\<rparr>"

record World =
  book :: ReservationBook
  state :: CoordinatorState
  state_lock_poisoned :: bool
  clock_reads :: nat
  book_accesses :: nat
  destinations_issued :: nat

record 'd Environment =
  env_now :: "nat \<Rightarrow> unix_millis"
  env_commit :: "nat \<Rightarrow> commit_result"
  env_others :: "nat \<Rightarrow> (commit_result \<times> commit_result \<times> unix_millis \<times> store_call) list"
  env_destination :: "nat \<Rightarrow> DestinationPurpose \<Rightarrow> ('d, ConfidentialDestination) result"

datatype 's InventoryCoordinatorError =
    SourceError 's
  | CoordinatorProvider ProviderError
  | CoordinatorLockPoisoned
  | IdentityMismatch ProviderIdentity ProviderIdentity
  | SnapshotTooLarge nat nat
  | GenerationOverflow
  | NoPublishedSnapshot
  | SnapshotObservedInFuture unix_millis unix_millis
  | SnapshotStale unix_millis unix_millis u64
  | SnapshotSuperseded EligibilityToken EligibilityToken
  | OutpointNotInEligibleView OutPoint

definition clock_now :: "'d Environment \<Rightarrow> (World, 'e, unix_millis) op" where
  "clock_now env w = (Ok (env_now env (clock_reads w)), w\<lparr>clock_reads := Suc (clock_reads w)\<rparr>)"

text \<open>The calls other threads complete before this access.\<close>

definition others_first :: "store_ops \<Rightarrow> 'd Environment \<Rightarrow> World \<Rightarrow> ReservationBook" where
  "others_first ops env w =
     fold (\<lambda>(observed, committed, now, c). apply_call ops observed committed now c)
       (env_others env (book_accesses w)) (book w)"

definition book_read ::
    "store_ops \<Rightarrow> 'd Environment \<Rightarrow> (ReservationBook \<Rightarrow> (ProviderError, 'a) result) \<Rightarrow> (World, ProviderError, 'a) op" where
  "book_read ops env body w =
     (let shared = others_first ops env w in
      (body shared, w\<lparr>book := shared, book_accesses := Suc (book_accesses w)\<rparr>))"

definition book_write ::
    "store_ops \<Rightarrow> 'd Environment \<Rightarrow>
     (commit_result \<Rightarrow> commit_result \<Rightarrow> ReservationBook \<Rightarrow> (ProviderError, 'a) result \<times> ReservationBook) \<Rightarrow>
     (World, ProviderError, 'a) op" where
  "book_write ops env body w =
     (case body (env_commit env (2 * book_accesses w)) (env_commit env (2 * book_accesses w + 1))
         (others_first ops env w) of
       (r, changed) \<Rightarrow> (r, w\<lparr>book := changed, book_accesses := Suc (book_accesses w)\<rparr>))"

definition lock_state :: "(World, 's InventoryCoordinatorError, unit) op" where
  "lock_state w = (ensure (\<not> state_lock_poisoned w) CoordinatorLockPoisoned, w)"


section \<open>Eligibility\<close>

definition eligible_commitment :: "store_ops \<Rightarrow> WalletOwnedOutput list \<Rightarrow> fixed_id" where
  "eligible_commitment ops outputs =
     store_sha ops (ELIGIBLE_INVENTORY_DOMAIN @ u64_be (of_nat (length outputs)) @
       concat (map (\<lambda>o'. txid (out_outpoint o') @ u32_be (vout (out_outpoint o')) @ item_binding (owned_item o')) outputs))"

text \<open>Collecting pairs into a map keeps the last value of a key.\<close>

definition durable_view :: "InventoryView list \<Rightarrow> OutPoint \<Rightarrow> InventoryView option" where
  "durable_view views = map_of (rev (map (\<lambda>v. (item_outpoint (view_item v), v)) views))"

definition check_eligible ::
    "InventoryView list \<Rightarrow> WalletOwnedOutput \<Rightarrow> WalletOwnedOutput list \<Rightarrow>
     (ProviderError, WalletOwnedOutput list) result" where
  "check_eligible durable out outputs =
     rbind (ok_or (durable_view durable (out_outpoint out)) CorruptState) (\<lambda>view.
     rbind (ensure (view_item view = owned_item out) CorruptState) (\<lambda>_.
     Ok (if view_inventory_state view = Available then outputs @ [out] else outputs)))"

definition eligible_from_snapshot ::
    "store_ops \<Rightarrow> 'd Environment \<Rightarrow> PublishedSnapshot \<Rightarrow>
     (World, 's InventoryCoordinatorError, EligibleInventory) op" where
  "eligible_from_snapshot ops env published =
     op_bind (op_map_err CoordinatorProvider
       (book_read ops env (inventory_state_for ops (map out_outpoint (published_outputs published))))) (\<lambda>(durable, revision).
     op_bind (op_result (map_err CoordinatorProvider
       (rfold (check_eligible durable) (published_outputs published) []))) (\<lambda>outputs.
     op_result (Ok \<lparr>eligible_token = published_token published, eligible_anchor = published_anchor published,
       eligible_allocation_revision = revision, eligible_committed = eligible_commitment ops outputs,
       eligible_outputs = outputs\<rparr>)))"

definition check_fresh ::
    "InventoryFreshnessPolicy \<Rightarrow> PublishedSnapshot \<Rightarrow> unix_millis \<Rightarrow>
     ('s InventoryCoordinatorError, PublishedSnapshot) result" where
  "check_fresh policy published now =
     (let observed_at = token_observed_at (published_token published) in
      if now < observed_at then Err (SnapshotObservedInFuture observed_at now)
      else if now - observed_at \<ge> max_snapshot_age_millis policy
      then Err (SnapshotStale observed_at now (max_snapshot_age_millis policy))
      else Ok published)"

definition require_fresh ::
    "store_ops \<Rightarrow> 'd Environment \<Rightarrow> InventoryFreshnessPolicy \<Rightarrow> unix_millis \<Rightarrow>
     (World, 's InventoryCoordinatorError, PublishedSnapshot) op" where
  "require_fresh ops env policy now =
     op_bind (op_map_err CoordinatorProvider (book_read ops env last_observed_time)) (\<lambda>observed.
     op_bind (op_result (case observed of
         None \<Rightarrow> Ok ()
       | Some previous \<Rightarrow> ensure (\<not> now < previous) (CoordinatorProvider (ClockRegression previous now)))) (\<lambda>_ w.
     op_result (rbind (ok_or (latest (state w)) NoPublishedSnapshot) (\<lambda>published.
       check_fresh policy published now)) w))"


section \<open>Operations\<close>

definition refresh ::
    "store_ops \<Rightarrow> 'd Environment \<Rightarrow> InventoryFreshnessPolicy \<Rightarrow> ('s, InventorySnapshot) result \<Rightarrow>
     (World, 's InventoryCoordinatorError, EligibleInventory) op" where
  "refresh ops env policy source =
     op_bind lock_state (\<lambda>_.
     op_bind (op_result (map_err SourceError source)) (\<lambda>snapshot.
     op_bind (\<lambda>w. (Ok (book_identity (book w)), w\<lparr>state := (state w)\<lparr>latest := None\<rparr>\<rparr>)) (\<lambda>identity.
     op_bind (op_result (ensure (snapshot_identity snapshot = identity)
       (IdentityMismatch identity (snapshot_identity snapshot)))) (\<lambda>_.
     op_bind (op_result (ensure (length (snapshot_outputs snapshot) \<le> max_inventory_outputs policy)
       (SnapshotTooLarge (max_inventory_outputs policy) (length (snapshot_outputs snapshot))))) (\<lambda>_.
     op_bind (\<lambda>w. op_result (ok_or (checked_add (generation (state w)) 1) GenerationOverflow) w) (\<lambda>next_generation.
     op_bind (clock_now env) (\<lambda>now.
     op_bind (op_map_err CoordinatorProvider (book_write ops env (\<lambda>observed committed.
         import_inventory_batch observed committed now (map owned_item (snapshot_outputs snapshot))))) (\<lambda>_.
     let published = \<lparr>published_token = \<lparr>token_generation = next_generation,
             token_snapshot = snapshot_committed snapshot, token_observed_at = now\<rparr>,
           published_anchor = snapshot_anchor snapshot, published_outputs = snapshot_outputs snapshot\<rparr> in
     op_bind (eligible_from_snapshot ops env published) (\<lambda>eligible w.
     (Ok eligible, w\<lparr>state := \<lparr>generation = next_generation, latest = Some published\<rparr>\<rparr>))))))))))"

definition eligible ::
    "store_ops \<Rightarrow> 'd Environment \<Rightarrow> InventoryFreshnessPolicy \<Rightarrow>
     (World, 's InventoryCoordinatorError, EligibleInventory) op" where
  "eligible ops env policy =
     op_bind lock_state (\<lambda>_.
     op_bind (clock_now env) (\<lambda>now.
     op_bind (require_fresh ops env policy now) (\<lambda>published.
     eligible_from_snapshot ops env published)))"

definition current ::
    "store_ops \<Rightarrow> 'd Environment \<Rightarrow> InventoryFreshnessPolicy \<Rightarrow>
     (World, 's InventoryCoordinatorError, CurrentInventory) op" where
  "current ops env policy =
     op_bind lock_state (\<lambda>_.
     op_bind (clock_now env) (\<lambda>now.
     op_bind (require_fresh ops env policy now) (\<lambda>published.
     op_result (Ok \<lparr>current_token = published_token published, current_anchor = published_anchor published,
       current_outputs = published_outputs published\<rparr>))))"

text \<open>The binary search over outputs that a snapshot keeps strictly sorted by outpoint.\<close>

definition current_output :: "CurrentInventory \<Rightarrow> OutPoint \<Rightarrow> WalletOwnedOutput option" where
  "current_output view p = find (\<lambda>o'. out_outpoint o' = p) (current_outputs view)"

definition check_eligible_input ::
    "FirmQuoteDraft \<Rightarrow> EligibleInventory \<Rightarrow> QuotedProviderInput \<Rightarrow> unit \<Rightarrow>
     ('s InventoryCoordinatorError, unit) result" where
  "check_eligible_input draft current_eligible quoted _ =
     rbind (ok_or (find (\<lambda>o'. out_outpoint o' = qinput_outpoint quoted) (eligible_outputs current_eligible))
         (OutpointNotInEligibleView (qinput_outpoint quoted))) (\<lambda>out.
     ensure (item_asset (owned_item out) = draft_selected_asset draft \<and> owned_txout out = qinput_witness_utxo quoted
         \<and> item_binding (owned_item out) = qinput_binding quoted)
       (CoordinatorProvider (FirmQuoteInventoryMismatch (qinput_outpoint quoted))))"

text \<open>The checks between the eligibility recheck and the reservation.\<close>

definition check_draft_snapshot ::
    "FirmQuoteDraft \<Rightarrow> PublishedSnapshot \<Rightarrow> EligibleInventory \<Rightarrow> ('s InventoryCoordinatorError, unit) result" where
  "check_draft_snapshot draft published current_eligible =
     (let evidence = draft_snapshot draft in
      rbind (ensure (evidence_allocation_revision evidence = eligible_allocation_revision current_eligible
          \<and> evidence_eligible_commitment evidence = eligible_committed current_eligible)
        (CoordinatorProvider EligibleInventoryChanged)) (\<lambda>_.
      rbind (ensure (evidence_anchor_hash evidence = scan_block_hash (published_anchor published)
          \<and> evidence_anchor_height evidence = scan_block_height (published_anchor published)
          \<and> evidence_commitment evidence = token_snapshot (published_token published))
        (CoordinatorProvider FirmQuoteSnapshotMismatch)) (\<lambda>_.
      rfold (check_eligible_input draft current_eligible) (contribution_inputs (draft_contribution draft)) ())))"

text \<open>After the replay check: freshness, the same scan, an unchanged view, and the reservation.\<close>

definition reserve_from_latest ::
    "store_ops \<Rightarrow> 'd Environment \<Rightarrow> InventoryFreshnessPolicy \<Rightarrow> EligibleInventory \<Rightarrow> fixed_id \<Rightarrow> fixed_id \<Rightarrow> fixed_id \<Rightarrow>
     FirmQuoteDraft \<Rightarrow> QuoteEnginePolicy \<Rightarrow> (World, 's InventoryCoordinatorError, FirmQuoteOutcome) op" where
  "reserve_from_latest ops env freshness view owner key digest draft policy =
     op_bind (clock_now env) (\<lambda>now.
     op_bind (require_fresh ops env freshness now) (\<lambda>published.
     op_bind (op_result (ensure (published_token published = eligible_token view)
       (SnapshotSuperseded (eligible_token view) (published_token published)))) (\<lambda>_.
     op_bind (eligible_from_snapshot ops env published) (\<lambda>current_eligible.
     op_bind (op_result (check_draft_snapshot draft published current_eligible)) (\<lambda>_.
     op_bind (clock_now env) (\<lambda>reserved_at.
     op_map_err CoordinatorProvider (book_write ops env (\<lambda>observed committed.
       reserve_firm_quote_from_snapshot ops observed committed reserved_at owner key digest draft policy
         (token_observed_at (published_token published)) (max_snapshot_age_millis freshness)))))))))"

definition reserve_firm_quote ::
    "store_ops \<Rightarrow> 'd Environment \<Rightarrow> InventoryFreshnessPolicy \<Rightarrow> EligibleInventory \<Rightarrow> fixed_id \<Rightarrow> fixed_id \<Rightarrow> fixed_id \<Rightarrow>
     FirmQuoteDraft \<Rightarrow> QuoteEnginePolicy \<Rightarrow> (World, 's InventoryCoordinatorError, FirmQuoteOutcome) op" where
  "reserve_firm_quote ops env freshness view owner key digest draft policy =
     op_bind (op_result (map_err (\<lambda>_. CoordinatorProvider FirmQuoteDraftInvalid)
       (draft_validate (script_unspendable (quote_ops_of ops)) draft))) (\<lambda>_.
     op_bind lock_state (\<lambda>_.
     op_bind (clock_now env) (\<lambda>replayed_at.
     op_bind (op_map_err CoordinatorProvider (book_write ops env (\<lambda>observed committed.
         replay_firm_quote ops observed committed replayed_at owner key digest))) (\<lambda>replayed.
     case replayed of
       Some outcome \<Rightarrow> op_result (Ok outcome)
     | None \<Rightarrow> reserve_from_latest ops env freshness view owner key digest draft policy))))"

end
