(* ===== verification/Rfq_Engine.thy ===== *)
theory Rfq_Engine
  imports Rfq_Coordinator
begin

text \<open>
  The quote engine (\<open>QuoteEngine\<close> of \<open>crates/deadcat-rfq-provider/src/quote.rs\<close>): validation and
  replay of a request, the expiry loop, catalogue resolution, pricing, inventory selection,
  destinations, and the reservation of the resulting draft.  The pricing policy and the
  destination source are traits and stay parameters.
\<close>

datatype ('s, 'd, 'p) QuoteEngineError =
    EngineAdmission QuoteAdmissionError
  | EngineProvider ProviderError
  | EngineInventory "'s InventoryCoordinatorError"
  | EnginePricing 'p
  | EngineDestination 'd

record 'p QuoteEngine =
  engine_freshness :: InventoryFreshnessPolicy
  engine_pricing :: "PricingRequest \<Rightarrow> ('p, PricingDecision) result"
  engine_catalog :: "MarketQuoteConfig list"
  engine_policy :: QuoteEnginePolicy

definition quote_engine_new ::
    "ProviderIdentity \<Rightarrow> InventoryFreshnessPolicy \<Rightarrow> (PricingRequest \<Rightarrow> ('p, PricingDecision) result) \<Rightarrow>
     MarketQuoteConfig list \<Rightarrow> QuoteEnginePolicy \<Rightarrow> (QuoteConfigurationError, 'p QuoteEngine) result" where
  "quote_engine_new identity freshness pricing markets policy =
     (if policy_asset (engine_fee_policy policy) \<noteq> identity_policy_asset identity then Err ConfigWrongPolicyAsset
      else rbind (catalog_new identity markets) (\<lambda>catalog.
        Ok \<lparr>engine_freshness = freshness, engine_pricing = pricing, engine_catalog = catalog,
          engine_policy = policy\<rparr>))"


section \<open>Inventory summary\<close>

text \<open>The totals are kept in a map ordered by asset.\<close>

definition add_balance ::
    "BinaryMarketAssets \<Rightarrow> WalletOwnedOutput \<Rightarrow> (asset_id, u64) table \<Rightarrow>
     (QuoteAdmissionError, (asset_id, u64) table) result" where
  "add_balance assets out totals =
     (let asset = item_asset (owned_item out) in
      if \<not> assets_contains assets asset then Ok totals
      else
        rbind (ok_or (checked_add (case tbl_get totals asset of None \<Rightarrow> 0 | Some amount \<Rightarrow> amount)
            (out_amount out)) QuoteAmountOverflow) (\<lambda>amount.
        Ok (tbl_insert asset amount totals)))"

definition inventory_summary ::
    "WalletOwnedOutput list \<Rightarrow> BinaryMarketAssets \<Rightarrow> (QuoteAdmissionError, InventorySummary) result" where
  "inventory_summary outputs assets =
     rbind (rfold (add_balance assets) outputs []) (\<lambda>totals.
     Ok \<lparr>balances = map (\<lambda>(asset, amount). \<lparr>aa_asset = asset, aa_amount = amount\<rparr>) totals\<rparr>)"


section \<open>Firm quotes\<close>

definition pricing_side_of :: "QuoteKind \<Rightarrow> PricingSide" where
  "pricing_side_of kind = (case kind of
       ExactIn inp _ _ \<Rightarrow> SideExactIn inp
     | ExactOut _ _ out \<Rightarrow> SideExactOut out)"

definition fresh_destination ::
    "'d Environment \<Rightarrow> DestinationPurpose \<Rightarrow> (World, 'd, ConfidentialDestination) op" where
  "fresh_destination env purpose w =
     (env_destination env (destinations_issued w) purpose, w\<lparr>destinations_issued := Suc (destinations_issued w)\<rparr>)"

definition reused_destination :: "ConfidentialDestination \<Rightarrow> ConfidentialDestination option \<Rightarrow> bool" where
  "reused_destination receive change = (case change of
       None \<Rightarrow> False
     | Some d \<Rightarrow> dest_script_pubkey d = dest_script_pubkey receive
         \<or> dest_blinding_public_key d = dest_blinding_public_key receive
         \<or> dest_wallet_locator d = dest_wallet_locator receive)"

text \<open>Pricing and selection: the market and pair, the priced execution and the selected outputs.\<close>

definition price_request ::
    "store_ops \<Rightarrow> 'p QuoteEngine \<Rightarrow> FirmQuoteRequest \<Rightarrow> EligibleInventory \<Rightarrow> MarketQuoteConfig \<Rightarrow> PairRule \<Rightarrow>
     (('s, 'd, 'p) QuoteEngineError, PricingDecision \<times> QuoteExecution \<times> WalletOwnedOutput list) result" where
  "price_request ops engine request view market pair =
     (case kind_pair (request_kind request) of (input_asset, output_asset) \<Rightarrow>
     rbind (map_err EngineAdmission (inventory_summary (eligible_outputs view) (config_assets market))) (\<lambda>summary.
     rbind (map_err EnginePricing (engine_pricing engine
       \<lparr>pricing_context = request_context request, pricing_input_asset = input_asset,
        pricing_output_asset = output_asset, pricing_side = pricing_side_of (request_kind request),
        pricing_inventory = summary\<rparr>)) (\<lambda>pricing.
     rbind (map_err EngineAdmission (pricing_validate pricing)) (\<lambda>_.
     rbind (map_err EngineAdmission (calculate_execution (script_unspendable (quote_ops_of ops)) request pricing
         (rule_limits pair))) (\<lambda>execution.
     rbind (map_err EngineAdmission (select_inventory (eligible_outputs view) output_asset
         (aa_amount (execution_output execution)) (rule_limits pair))) (\<lambda>selected.
     Ok (pricing, execution, selected)))))))"

definition selected_change ::
    "WalletOwnedOutput list \<Rightarrow> QuoteExecution \<Rightarrow> (QuoteAdmissionError, u64 \<times> u64) result" where
  "selected_change selected execution =
     rbind (checked_total selected) (\<lambda>selected_amount.
     rbind (ok_or (checked_sub selected_amount (aa_amount (execution_output execution))) QuoteAmountOverflow) (\<lambda>change.
     Ok (selected_amount, change)))"

definition quote_draft ::
    "FirmQuoteRequest \<Rightarrow> EligibleInventory \<Rightarrow> PricingDecision \<Rightarrow> QuoteExecution \<Rightarrow> QuoteContribution \<Rightarrow>
     ConfidentialDestination \<Rightarrow> ConfidentialDestination option \<Rightarrow> asset_id \<Rightarrow> u64 \<Rightarrow> FirmQuoteDraft" where
  "quote_draft request view pricing execution contribution receive change asset amount =
     \<lparr>draft_request = request, draft_execution = execution, draft_pricing = pricing,
      draft_snapshot = \<lparr>evidence_anchor_hash = scan_block_hash (eligible_anchor view),
        evidence_anchor_height = scan_block_height (eligible_anchor view),
        evidence_commitment = token_snapshot (eligible_token view),
        evidence_allocation_revision = eligible_allocation_revision view,
        evidence_eligible_commitment = eligible_committed view\<rparr>,
      draft_contribution = contribution, draft_receive_recovery = recovery_of_destination receive,
      draft_change_recovery = map_option recovery_of_destination change,
      draft_selected_asset = asset, draft_selected_amount = amount\<rparr>"

text \<open>From the eligible inventory to the draft.\<close>

definition build_draft ::
    "store_ops \<Rightarrow> 'd Environment \<Rightarrow> 'p QuoteEngine \<Rightarrow> FirmQuoteRequest \<Rightarrow> MarketQuoteConfig \<Rightarrow> PairRule \<Rightarrow>
     EligibleInventory \<Rightarrow> (World, ('s, 'd, 'p) QuoteEngineError, FirmQuoteDraft) op" where
  "build_draft ops env engine request market pair view =
     op_bind (op_result (price_request ops engine request view market pair)) (\<lambda>(pricing, execution, selected).
     op_bind (op_result (map_err EngineAdmission (selected_change selected execution))) (\<lambda>(selected_amount, change).
     op_bind (op_map_err EngineDestination (fresh_destination env SettlementReceive)) (\<lambda>receive.
     op_bind (if change = 0 then op_result (Ok None)
         else op_bind (op_map_err EngineDestination (fresh_destination env SettlementChange)) (\<lambda>d. op_result (Ok (Some d)))) (\<lambda>change_to.
     op_bind (op_result (ensure (\<not> reused_destination receive change_to)
         (EngineAdmission ReusedProviderDestination))) (\<lambda>_.
     op_bind (op_result (map_err EngineAdmission (quote_contribution selected execution (request_recipient request)
         receive change_to change))) (\<lambda>contribution.
     op_result (Ok (quote_draft request view pricing execution contribution receive change_to
       (snd (kind_pair (request_kind request))) selected_amount))))))))"

definition issue_quote ::
    "store_ops \<Rightarrow> 'd Environment \<Rightarrow> 'p QuoteEngine \<Rightarrow> fixed_id \<Rightarrow> fixed_id \<Rightarrow> fixed_id \<Rightarrow> FirmQuoteRequest \<Rightarrow>
     (World, ('s, 'd, 'p) QuoteEngineError, FirmQuoteOutcome) op" where
  "issue_quote ops env engine owner key digest request =
     (case kind_pair (request_kind request) of (input_asset, output_asset) \<Rightarrow>
     op_bind (op_result (map_err EngineAdmission
       (catalog_resolve (engine_catalog engine) (request_context request) input_asset output_asset))) (\<lambda>(market, pair).
     op_bind (op_map_err EngineInventory (eligible ops env (engine_freshness engine))) (\<lambda>view.
     op_bind (build_draft ops env engine request market pair view) (\<lambda>draft.
     op_map_err EngineInventory
       (reserve_firm_quote ops env (engine_freshness engine) view owner key digest draft (engine_policy engine))))))"

definition expire_batch_of ::
    "store_ops \<Rightarrow> 'd Environment \<Rightarrow> (World, ProviderError, fixed_id list) op" where
  "expire_batch_of ops env =
     op_bind (clock_now env) (\<lambda>now.
     book_write ops env (\<lambda>observed committed. expire_due ops observed committed now MAX_EXPIRATION_BATCH))"

text \<open>The expiry loop: it ends with the first batch that is not full.\<close>

partial_function (option) expire_all ::
    "store_ops \<Rightarrow> 'd Environment \<Rightarrow> World \<Rightarrow> ((ProviderError, unit) result \<times> World) option" where
  "expire_all ops env w =
     (case expire_batch_of ops env w of
        (Inl e, w') \<Rightarrow> Some (Err e, w')
      | (Inr expired, w') \<Rightarrow> if length expired < MAX_EXPIRATION_BATCH then Some (Ok (), w') else expire_all ops env w')"

text \<open>Validation and the preflight, which may replay an earlier quote.\<close>

definition preflight ::
    "store_ops \<Rightarrow> 'd Environment \<Rightarrow> 'p QuoteEngine \<Rightarrow> fixed_id \<Rightarrow> fixed_id \<Rightarrow> FirmQuoteRequest \<Rightarrow>
     (World, ('s, 'd, 'p) QuoteEngineError, fixed_id \<times> FirmQuoteOutcome option) op" where
  "preflight ops env engine owner key request =
     op_bind (op_result (map_err EngineAdmission (request_validate (script_unspendable (quote_ops_of ops)) request))) (\<lambda>_.
     op_bind (\<lambda>w. op_result (map_err EngineProvider (codec (quote_request_digest (quote_ops_of ops)
       (book_identity (book w)) owner key request))) w) (\<lambda>digest.
     op_bind (clock_now env) (\<lambda>now.
     op_bind (op_map_err EngineProvider (book_write ops env (\<lambda>observed committed.
       preflight_firm_quote ops observed committed now owner key digest (engine_policy engine)))) (\<lambda>replayed.
     op_result (Ok (digest, replayed))))))"

definition firm_quote ::
    "store_ops \<Rightarrow> 'd Environment \<Rightarrow> 'p QuoteEngine \<Rightarrow> fixed_id \<Rightarrow> fixed_id \<Rightarrow> FirmQuoteRequest \<Rightarrow> World \<Rightarrow>
     ((('s, 'd, 'p) QuoteEngineError, FirmQuoteOutcome) result \<times> World) option" where
  "firm_quote ops env engine owner key request w =
     (case preflight ops env engine owner key request w of
        (Inl e, w1) \<Rightarrow> Some (Err e, w1)
      | (Inr (digest, Some outcome), w1) \<Rightarrow> Some (Ok outcome, w1)
      | (Inr (digest, None), w1) \<Rightarrow>
          (case expire_all ops env w1 of
             None \<Rightarrow> None
           | Some (Inl e, w2) \<Rightarrow> Some (Err (EngineProvider e), w2)
           | Some (Inr _, w2) \<Rightarrow> Some (issue_quote ops env engine owner key digest request w2)))"

end
