(* ===== verification/Rfq_Store_Progress.thy ===== *)
theory Rfq_Store_Progress
  imports Rfq_Store_Reach
begin

text \<open>
  How a reservation changes over the life of the book: its terms never change, a reserved one is
  released or committed, a committed one keeps its intent and may be signed once, and released and
  signed ones are final.
\<close>

section \<open>Progress of one reservation\<close>

fun state_order :: "StoredReservationState \<Rightarrow> StoredReservationState \<Rightarrow> bool" where
  "state_order StReserved s \<longleftrightarrow> True"
| "state_order (StCommitted intent) s \<longleftrightarrow> state_intent s = Some intent"
| "state_order s s' \<longleftrightarrow> s' = s"

lemma state_order_refl [simp]: "state_order s s"
  by (cases s) simp_all

lemma state_order_trans: "state_order s s' \<Longrightarrow> state_order s' s'' \<Longrightarrow> state_order s s''"
  by (cases s; cases s') auto

definition progresses :: "StoredReservation \<Rightarrow> StoredReservation \<Rightarrow> bool" where
  "progresses r r' \<longleftrightarrow> r' = r\<lparr>res_state := res_state r'\<rparr> \<and> state_order (res_state r) (res_state r')"

lemma progresses_refl [simp]: "progresses r r"
  by (simp add: progresses_def)

lemma progresses_trans: "progresses r r' \<Longrightarrow> progresses r' r'' \<Longrightarrow> progresses r r''"
  unfolding progresses_def
  by (metis StoredReservation.surjective StoredReservation.update_convs(12) state_order_trans)

definition db_progress :: "Database \<Rightarrow> Database \<Rightarrow> bool" where
  "db_progress db db' \<longleftrightarrow> (\<forall>i r. reservation_at db i = Some r \<longrightarrow>
     (\<exists>r'. reservation_at db' i = Some r' \<and> progresses r r'))"

lemma db_progress_same: "reservations_tbl db' = reservations_tbl db \<Longrightarrow> db_progress db db'"
  by (simp add: db_progress_def)

lemma db_progress_refl [simp]: "db_progress db db"
  by (simp add: db_progress_same)

lemma db_progress_trans: "db_progress db db' \<Longrightarrow> db_progress db' db'' \<Longrightarrow> db_progress db db''"
  unfolding db_progress_def by (meson progresses_trans)

lemma transition_progress:
  assumes "reservation_transition db r s now ev db'" "reservation_at db (res_id r) = Some r"
    and "state_order (res_state r) s"
  shows "db_progress db db'"
  unfolding db_progress_def transition_fields(4) [OF assms(1)]
  using assms(2,3) by (auto simp: progresses_def)

lemma creation_progress:
  assumes "reservation_creation db r db'" "reservation_at db (res_id r) = None"
  shows "db_progress db db'"
  unfolding db_progress_def creation_fields(3) [OF assms(1)] using assms(2) by auto

lemma release_progress:
  assumes "store_ok ops identity db" "reservation_at db (res_id r) = Some r" "release_reserved r reason now db = Ok (db', r')"
  shows "db_progress db db'"
  using release_reserved_transition [OF assms(1,3)] assms(2) by (intro transition_progress) auto


section \<open>Progress of the transaction bodies\<close>

lemma expire_fold_progress:
  assumes "sound_at ops identity now db" "rfold (expire_one ops now) due db = Ok db'"
  shows "db_progress db db'"
proof -
  have "sound_at ops identity now db' \<and> db_progress db db'"
  proof (rule rfold_invariant [OF assms(2)])
    fix x a b
    assume a: "sound_at ops identity now a \<and> db_progress db a" and one: "expire_one ops now x a = Ok b"
    from one obtain r r' where found: "require_reservation ops a (snd x) CorruptState = Ok r"
      and rel: "release_reserved r ReasonExpired now a = Ok (b, r')"
      by (auto simp: expire_one_def result_simps)
    have "db_progress a b"
      using release_progress [OF _ _ rel] a require_reservation_Ok [OF found] by (auto simp: sound_at_def)
    then show "sound_at ops identity now b \<and> db_progress db b"
      using a expire_one_sound [OF _ one] db_progress_trans by blast
  qed (use assms(1) in simp)
  then show ?thesis by simp
qed

lemma expire_due_in_write_progress:
  assumes "sound_at ops identity now db" "expire_due_in_write ops now limit db = Ok (db', ids)"
  shows "db_progress db db'"
  using assms expire_fold_progress [OF assms(1)]
  by (auto simp: expire_due_in_write_def result_simps split: if_splits)

lemma replay_request_progress:
  assumes "sound_at ops identity now db"
    and "replay_request ops identity' owner key digest binding now db = Ok (db', outcome)"
  shows "db_progress db db'"
proof -
  from assms(2) obtain r0 r where r0: "require_reservation ops db (binding_reservation_id binding) CorruptState = Ok r0"
    and or: "release_reserved r0 ReasonExpired now db = Ok (db', r) \<or> db' = db"
    by (auto simp: replay_request_def replay_binding_in_write_def result_simps split: if_splits)
  from or show ?thesis
    using require_reservation_Ok [OF r0] release_progress [of ops identity db r0] assms(1)
    by (auto simp: sound_at_def)
qed

lemma import_body_progress:
  assumes "import_body items now db = Ok (db', res)"
  shows "db_progress db db'"
proof -
  from assms obtain pending where fold: "rfold (import_one now) pending db = Ok db'"
    by (auto simp: import_body_def result_simps)
  have "reservations_tbl db' = reservations_tbl db"
    using fold by (rule rfold_invariant) (auto simp: import_one_def append_audit_def result_simps)
  then show ?thesis by (rule db_progress_same)
qed

lemma reserve_body_progress:
  assumes sound: "sound_at ops identity now db"
    and run: "reserve_body ops identity owner key digest draft policy observed_at maximum_age now db = Ok (db', res)"
  shows "db_progress db db'"
  using run
proof (cases rule: reserve_body_Ok)
  case (created accept_before)
  from created(6) obtain r where r: "persist_new_reservation r db = Ok db'" "res_id r = derive_reservation_id ops owner key"
    by (rule reserve_finalized_creates)
  show ?thesis
    using creation_progress [OF persist_creation [OF store_ok_parts(2) [OF sound_store [OF sound]] r(1)]] created(2) r(2)
    by simp
qed (use replay_request_progress [OF sound] in auto)

lemma cancel_body_progress:
  assumes "sound_at ops identity now db" "cancel_body ops access now db = Ok (db', res)"
  shows "db_progress db db'"
proof -
  from assms(2) obtain r where r: "require_authorized_reservation ops db access = Ok r"
    by (auto simp: cancel_body_def result_simps)
  show ?thesis
    using assms r require_authorized_Ok [OF r] release_progress [OF sound_store [OF assms(1)], of r]
    by (cases "res_state r") (auto simp: cancel_body_def result_simps Let_def split: if_splits)
qed

lemma reject_body_progress:
  assumes "sound_at ops identity now db" "reject_body ops reservation_id now db = Ok (db', res)"
  shows "db_progress db db'"
proof -
  from assms(2) obtain r where r: "require_reservation ops db reservation_id (ReservationNotFound reservation_id) = Ok r"
    by (auto simp: reject_body_def result_simps)
  show ?thesis
    using assms r require_reservation_Ok [OF r] release_progress [OF sound_store [OF assms(1)], of r]
    by (cases "res_state r") (auto simp: reject_body_def result_simps Let_def split: if_splits)
qed

lemma commit_body_progress:
  assumes "sound_at ops identity now db" "commit_body ops access expected payload fee now db = Ok (db', res)"
  shows "db_progress db db'"
proof -
  from assms(2) obtain r where r: "require_authorized_reservation ops db access = Ok r"
    by (auto simp: commit_body_def result_simps)
  note r' = require_authorized_Ok [OF r] and ok = sound_store [OF assms(1)]
  show ?thesis
  proof (cases "res_state r")
    case StReserved
    have "(\<exists>r2. release_reserved r ReasonExpired now db = Ok (db', r2)) \<or> commit_reserved ops r payload fee now db = Ok (db', res)"
      using assms(2) r StReserved by (auto simp: commit_body_def result_simps split: if_splits)
    then show ?thesis
    proof (elim disjE exE)
      assume "commit_reserved ops r payload fee now db = Ok (db', res)"
      then obtain intent ev where "reservation_transition db r (StCommitted intent) now ev db'"
        by (rule commit_reserved_transition [OF ok])
      then show ?thesis by (rule transition_progress [OF _ r'(1)]) (simp add: StReserved)
    qed (rule release_progress [OF ok r'(1)])
  qed (use assms r in \<open>auto simp: commit_body_def result_simps\<close>)
qed

lemma record_signed_body_progress:
  assumes "sound_at ops identity now db"
    and "record_signed_body ops reservation_id commitment job bs replay now db = Ok (db', res)"
  shows "db_progress db db'"
proof -
  from assms(2) obtain r where r: "require_reservation ops db reservation_id (ReservationNotFound reservation_id) = Ok r"
    by (auto simp: record_signed_body_def result_simps)
  have r': "reservation_at db (res_id r) = Some r" using require_reservation_Ok [OF r] by auto
  show ?thesis
  proof (cases "res_state r")
    case (StCommitted intent)
    then have run: "store_artifact ops r intent commitment bs now db = Ok (db', res)" "intent_commitment intent = commitment"
      using assms(2) r by (auto simp: record_signed_body_def result_simps)
    obtain artifact ev where "reservation_transition db r (StSigned intent artifact) now ev db'"
      by (rule store_artifact_transition [OF sound_store [OF assms(1)] r' StCommitted run(2,1)])
    then show ?thesis by (rule transition_progress [OF _ r']) (simp add: StCommitted)
  qed (use assms r in \<open>auto simp: record_signed_body_def result_simps\<close>)
qed

lemma call_body_progress:
  assumes "sound_at ops identity now db" "call_body ops identity c now db = Some db'"
  shows "db_progress db db'"
proof (cases c)
  case (PreflightQuote owner key digest policy)
  then obtain res where "preflight_body ops identity owner key digest policy now db = Ok (db', res)"
    using assms(2) by (auto simp: written_Some)
  then show ?thesis
    by (cases rule: preflight_body_Ok)
      (auto intro: replay_request_progress [OF assms(1)] expire_due_in_write_progress [OF assms(1)])
next
  case (ReplayQuote owner key digest)
  then show ?thesis
    using assms(2) replay_request_progress [OF assms(1)]
    by (cases "read_request_binding db owner key") (auto simp: written_Some replay_body_def result_simps)
next
  case (ExpireDue limit)
  then show ?thesis
    using assms(2) expire_due_in_write_progress [OF assms(1)] by (auto simp: written_Some expire_due_body_def result_simps)
next
  case (ImportInventory items)
  then show ?thesis using assms(2) import_body_progress by (auto simp: written_Some split: if_splits)
next
  case (ReserveQuote owner key digest draft policy observed_at maximum_age)
  then show ?thesis using assms(2) reserve_body_progress [OF assms(1)] by (auto simp: written_Some split: if_splits)
qed (use assms(2) cancel_body_progress [OF assms(1)] reject_body_progress [OF assms(1)]
    commit_body_progress [OF assms(1)] record_signed_body_progress [OF assms(1)] in \<open>auto simp: written_Some\<close>)

end
