(* ===== verification/Rfq_Store_Example.thy ===== *)
theory Rfq_Store_Example
  imports Rfq_Store_Progress
begin

text \<open>
  A concrete run of the reservation book: open, import one output, reserve it for a firm quote, and
  commit the signing intent.  The hash, the encodings and the script functions are instantiated by
  constant functions.
\<close>

section \<open>Values\<close>

definition ex_zero :: bytes where
  "ex_zero = replicate 32 0"

definition ex_store_ops :: store_ops where
  "ex_store_ops =
     \<lparr>quote_ops_of = \<lparr>script_unspendable = \<lambda>_. False, rfq_sha256 = \<lambda>_. ex_zero,
        postcard_quote_request = \<lambda>_. Some [], postcard_quote_transcript = \<lambda>_. Some [],
        postcard_recovery_metadata = \<lambda>_. Some [], postcard_static_pricing = \<lambda>_ _. Some []\<rparr>,
      xonly_valid = \<lambda>_. True, p2tr_script = \<lambda>key. key, serialize_outpoint = \<lambda>_. [],
      serialize_txout = \<lambda>_. [], serialize_txout_witness = \<lambda>_. [],
      postcard_fingerprint = \<lambda>_. Some [], postcard_transcript = \<lambda>_. Some []\<rparr>"

definition ex_identity :: ProviderIdentity where
  "ex_identity = \<lparr>provider = ex_zero, genesis_hash = ex_zero, identity_policy_asset = [9]\<rparr>"

definition ex_outpoint :: OutPoint where
  "ex_outpoint = OutPoint (replicate 32 1) 0"

definition ex_item :: InventoryItem where
  "ex_item = \<lparr>item_outpoint = ex_outpoint, item_asset = [4], item_amount = 5, item_wallet_locator = [1],
     item_internal_key = [2], item_binding = ex_zero\<rparr>"

definition ex_fee_policy :: FeePolicy where
  "ex_fee_policy = \<lparr>policy_asset = [9], minimum_sats_per_kvb = 1, minimum_absolute_fee = 0,
     maximum_transaction_weight = 4000, size_metric = RegularVbytes\<rparr>"

definition ex_policy :: QuoteEnginePolicy where
  "ex_policy = \<lparr>quote_lifetime_millis = 100, maximum_live_quotes_per_owner = 4,
     maximum_live_quotes_global = 1024, engine_fee_policy = ex_fee_policy\<rparr>"

definition ex_recipient :: QuoteRecipient where
  "ex_recipient = \<lparr>recipient_script = [1], recipient_blinding_key = [2]\<rparr>"

definition ex_request :: FirmQuoteRequest where
  "ex_request = \<lparr>request_context = \<lparr>context_chain = \<lparr>network = Liquid, chain_genesis_hash = ex_zero\<rparr>,
       context_market = ContractId (OutPoint [] 0), context_policy_asset = [9]\<rparr>,
     request_kind = ExactIn \<lparr>aa_asset = [3], aa_amount = 5\<rparr> [4] 5, request_recipient = ex_recipient,
     maximum_input_asset_venue_fee = 0\<rparr>"

definition ex_execution :: QuoteExecution where
  "ex_execution = \<lparr>execution_input = \<lparr>aa_asset = [3], aa_amount = 5\<rparr>,
     execution_output = \<lparr>aa_asset = [4], aa_amount = 5\<rparr>, execution_venue_fee = 0\<rparr>"

definition ex_pricing :: PricingDecision where
  "ex_pricing = \<lparr>pricing_rate = \<lparr>numerator = 1, denominator = 1\<rparr>, pricing_venue_fee = 0,
     pricing_policy_id = ex_zero, pricing_revision = 1\<rparr>"

definition ex_evidence :: QuoteSnapshotEvidence where
  "ex_evidence = \<lparr>evidence_anchor_hash = ex_zero, evidence_anchor_height = 1, evidence_commitment = ex_zero,
     evidence_allocation_revision = 0, evidence_eligible_commitment = ex_zero\<rparr>"

definition ex_utxo :: TxOut where
  "ex_utxo = \<lparr>out_asset = AssetConfidential [], out_value = ValueConfidential [], out_nonce = NonceConfidential [],
     script_pubkey = [], out_witness = \<lparr>surjection_proof = Some [], rangeproof = Some []\<rparr>\<rparr>"

definition ex_contribution :: QuoteContribution where
  "ex_contribution =
     \<lparr>contribution_inputs = [\<lparr>qinput_id = 1, qinput_outpoint = ex_outpoint, qinput_witness_utxo = ex_utxo,
        qinput_binding = ex_zero\<rparr>],
      contribution_outputs =
        [\<lparr>qoutput_id = 1, qoutput_role = ProviderPayment, qoutput_asset = [3], qoutput_amount = 5,
          qoutput_destination = \<lparr>recipient_script = [7], recipient_blinding_key = [8]\<rparr>,
          qoutput_blinder = TakerPaymentInput\<rparr>,
         \<lparr>qoutput_id = 2, qoutput_role = TakerReceive, qoutput_asset = [4], qoutput_amount = 5,
          qoutput_destination = ex_recipient, qoutput_blinder = ProviderInput 1\<rparr>]\<rparr>"

definition ex_draft :: FirmQuoteDraft where
  "ex_draft = \<lparr>draft_request = ex_request, draft_execution = ex_execution, draft_pricing = ex_pricing,
     draft_snapshot = ex_evidence, draft_contribution = ex_contribution,
     draft_receive_recovery = \<lparr>recovery_internal_key = [7], recovery_wallet_locator = [1]\<rparr>,
     draft_change_recovery = None, draft_selected_asset = [4], draft_selected_amount = 5\<rparr>"

definition ex_quote :: FirmQuote where
  "ex_quote = \<lparr>quote_reservation_id = ex_zero, quote_provider = ex_identity, quote_request = ex_request,
     quote_execution = ex_execution, quote_pricing = ex_pricing, quote_snapshot = ex_evidence,
     quote_contribution_of = ex_contribution, quote_created_at = 2, quote_accept_before = 102,
     quote_fee_policy = ex_fee_policy, quote_recovery_commitment = ex_zero, quote_commitment = ex_zero\<rparr>"

definition ex_reservation :: StoredReservation where
  "ex_reservation = \<lparr>res_id = ex_zero, res_owner = ex_zero, res_idempotency_key = ex_zero,
     res_semantic_request_digest = ex_zero, res_request_digest = ex_zero, res_quote_commitment = ex_zero,
     res_quote = Some (stored_quote_from_domain ex_quote ex_draft), res_outpoints = [ex_outpoint],
     res_created_at = 2, res_accept_before = 102, res_fee_policy = ex_fee_policy, res_state = StReserved\<rparr>"


section \<open>Evaluation\<close>

lemma ex_zero_length [simp]: "length ex_zero = 32"
  by (simp add: ex_zero_def)

lemma ex_sha_32: "sha_32 ex_store_ops"
  by (simp add: sha_32_def ex_store_ops_def)

lemma ex_outpoint_valid [simp]: "invalid_outpoint ex_outpoint = False"
  by (simp add: invalid_outpoint_def outpoint_is_null_def ex_outpoint_def)

lemma ex_item_ok: "stored_inventory_to_domain ex_store_ops ex_item = Ok ex_item"
proof -
  have "[1] \<noteq> replicate 32 (0 :: u8)" by (simp add: numeral_eq_Suc)
  then show ?thesis
    by (simp add: stored_inventory_to_domain_def ex_item_def ex_store_ops_def corrupt_def wallet_key_locator_new_def
        inventory_item_new_def)
qed

lemma ex_importable: "importable ex_store_ops ex_item"
  using ex_item_ok by (simp add: importable_def ex_item_def outpoint_key_def ex_outpoint_def)

lemma ex_fee_policy_ok [simp]: "stored_fee_policy_to_domain ex_fee_policy = Ok ex_fee_policy"
  by (simp add: stored_fee_policy_to_domain_def ex_fee_policy_def fee_policy_new_def corrupt_def)

lemma ex_ops_digest [simp]:
  "domain_digest (store_sha ex_store_ops) domain (Some bs) = Some ex_zero"
  "derive_reservation_id ex_store_ops owner key = ex_zero"
  "recompute_inventory_binding ex_store_ops item utxo = ex_zero"
  "quote_request_digest (quote_ops_of ex_store_ops) identity owner key request = Some ex_zero"
  "recovery_metadata_commitment (quote_ops_of ex_store_ops) identity i receive change locator = Some ex_zero"
  "recompute_quote_commitment (quote_ops_of ex_store_ops) owner key digest quote = Some ex_zero"
  "plan_request_digest_of ex_store_ops identity plan = Ok ex_zero"
  "stored_request_digest ex_store_ops identity r = Ok ex_zero"
  "signing_commitment ex_store_ops r payload fee targets = Ok ex_zero"
  "signed_artifact_digest ex_store_ops commitment bs = ex_zero"
  by (simp_all add: ex_store_ops_def domain_digest_def derive_reservation_id_def recompute_inventory_binding_def
      output_binding_def quote_request_digest_def recovery_metadata_commitment_def recompute_quote_commitment_def
      plan_request_digest_of_def stored_request_digest_def signing_commitment_def signed_artifact_digest_def codec_def)

lemma ex_finalize:
  "finalize_quote (quote_ops_of ex_store_ops) ex_identity ex_zero ex_zero ex_zero ex_zero ex_draft 2 102 ex_fee_policy =
     Some ex_quote"
  by (simp add: finalize_quote_def ex_draft_def ex_quote_def Let_def)
    (simp add: ex_store_ops_def domain_digest_def)

lemma ex_rate [simp]: "rational_rate_new 1 1 = Ok \<lparr>numerator = 1, denominator = 1\<rparr>"
  by (simp add: rational_rate_new_def gcd_u64.simps [of 1 1] gcd_u64.simps [of 1 0] Let_def)

lemma ex_shape: "validate_firm_quote_shape ex_quote = Ok ()"
  by (simp add: validate_firm_quote_shape_def ex_quote_def ex_contribution_def ex_execution_def ex_request_def
      ex_pricing_def ex_recipient_def ex_utxo_def check_quoted_input_def check_quoted_output_def
      confidential_utxo_def try_from_nat_def MAX_RESERVATION_INPUTS_def Let_def)

lemma ex_execution_persisted:
  "check_persisted_execution (stored_quote_from_domain ex_quote ex_draft) = Ok ()"
  by (simp add: check_persisted_execution_def check_persisted_exact_in_def stored_quote_from_domain_def ex_quote_def
      ex_request_def ex_pricing_def ex_execution_def nonzero_sub_def checked_sub_def checked_mul_def try_from_nat_def)

lemma ex_locator [simp]: "wallet_key_locator_new [1] = Ok [1]"
proof -
  have "[1] \<noteq> replicate 32 (0 :: u8)" by (simp add: numeral_eq_Suc)
  then show ?thesis by (simp add: wallet_key_locator_new_def)
qed

lemma ex_quote_persisted:
  "stored_quote_to_domain ex_store_ops (stored_quote_from_domain ex_quote ex_draft) ex_identity ex_reservation = Ok ex_quote"
proof -
  have valid: "stored_quote_validate ex_store_ops (stored_quote_from_domain ex_quote ex_draft) ex_identity ex_reservation ex_quote = Ok ()"
    using ex_execution_persisted ex_shape
    by (simp add: stored_quote_validate_def Let_def)
      (simp add: stored_quote_from_domain_def ex_quote_def ex_draft_def ex_request_def ex_identity_def ex_reservation_def
        ex_contribution_def ex_execution_def ex_pricing_def ex_recipient_def codec_def corrupt_def outpoint_is_null_def
        kind_pair_def checked_sub_def change_outputs_of_def check_change_recovery_def ex_store_ops_def
        MAX_QUOTE_RECIPIENT_SCRIPT_BYTES_def)
  have eq: "ex_reservation = new_reservation ex_zero ex_zero ex_zero ex_zero ex_quote ex_draft
      \<lparr>plan_owner = ex_zero, plan_idempotency_key = ex_zero, plan_request_digest = ex_zero,
       plan_quote_commitment = ex_zero, plan_outpoints = [ex_outpoint], plan_accept_before = 102,
       plan_fee_policy = ex_fee_policy\<rparr> ex_zero 2 102 ex_fee_policy"
    by (simp add: ex_reservation_def new_reservation_def ex_quote_def)
  show ?thesis
    unfolding eq stored_quote_roundtrip [OF ex_finalize ex_fee_policy_ok] valid [unfolded eq] by simp
qed

lemma ex_reservation_valid: "reservation_validate ex_store_ops ex_reservation = Ok ()"
  by (simp add: reservation_validate_def ex_reservation_def MAX_RESERVATION_INPUTS_def)

definition ex_book0 :: ReservationBook where
  "ex_book0 = \<lparr>database = empty_database, book_identity = ex_identity, poisoned = True\<rparr>"

definition ex_db1 :: Database where
  "ex_db1 = fresh_database ex_identity"

definition ex_db2 :: Database where
  "ex_db2 = ex_db1\<lparr>meta_last_time := Some (u64_be 1), meta_audit_sequence := Some (u64_be 1),
     inventory_tbl := [(outpoint_key ex_outpoint, ex_item)],
     audit_tbl := [(1, \<lparr>entry_sequence = 1, entry_at = 1, entry_event = InventoryImported ex_outpoint\<rparr>)]\<rparr>"

definition ex_db3 :: Database where
  "ex_db3 = ex_db2\<lparr>meta_last_time := Some (u64_be 2), meta_audit_sequence := Some (u64_be 2),
     meta_allocation_revision := Some (u64_be 1),
     allocations_tbl := [(outpoint_key ex_outpoint, AllocReserved ex_zero)],
     reservations_tbl := [(ex_zero, ex_reservation)],
     request_keys_tbl := [(request_key ex_zero ex_zero, binding_of ex_reservation)],
     expirations_tbl := [(expiration_key 102 ex_zero, [])],
     live_quotes_tbl := [(live_quote_key 102 ex_zero ex_zero, [])],
     audit_tbl := [(1, \<lparr>entry_sequence = 1, entry_at = 1, entry_event = InventoryImported ex_outpoint\<rparr>),
       (2, \<lparr>entry_sequence = 2, entry_at = 2, entry_event = ReservationCreated ex_zero [ex_outpoint]\<rparr>)]\<rparr>"

abbreviation ex_book :: "Database \<Rightarrow> ReservationBook" where
  "ex_book db \<equiv> \<lparr>database = db, book_identity = ex_identity, poisoned = False\<rparr>"

lemma ex_open: "apply_call ex_store_ops Committed Committed 0 Reopen ex_book0 = ex_book ex_db1"
  by (simp add: reopen_def open_book_def ex_book0_def initialize_empty commit_write_def ex_db1_def)

lemmas ex_db_defs = ex_db2_def ex_db1_def fresh_database_def empty_database_def

lemma ex_import:
  "apply_call ex_store_ops Committed Committed 1 (ImportInventory [ex_item]) (ex_book ex_db1) = ex_book ex_db2"
  by (simp add: import_inventory_batch_def run_timed_def ensure_healthy_def observe_time_def commit_write_def
      import_body_def plan_import_def import_one_def append_audit_def checked_add_def tbl_get_def ex_item_def ex_db_defs)

definition ex_outcome :: FirmQuoteOutcome where
  "ex_outcome = \<lparr>outcome_quote = ex_quote,
     outcome_reservation = \<lparr>view_id = ex_zero, view_owner = ex_zero, view_quote_commitment = ex_zero,
       view_outpoints = [ex_outpoint], view_created_at = 2, view_accept_before = 102,
       view_fee_policy = ex_fee_policy, view_state = StateReserved\<rparr>, outcome_created = True\<rparr>"

definition ex_db2' :: Database where
  "ex_db2' = ex_db2\<lparr>meta_last_time := Some (u64_be 2)\<rparr>"

lemma ex_new:
  "new_reservation ex_zero ex_zero ex_zero ex_zero ex_quote ex_draft
      \<lparr>plan_owner = ex_zero, plan_idempotency_key = ex_zero, plan_request_digest = ex_zero,
       plan_quote_commitment = ex_zero, plan_outpoints = [ex_outpoint], plan_accept_before = 102,
       plan_fee_policy = ex_fee_policy\<rparr> ex_zero 2 102 ex_fee_policy = ex_reservation"
  by (simp add: ex_reservation_def new_reservation_def ex_quote_def)

lemma ex_draft_outpoints [simp]: "selected_outpoints ex_draft = [ex_outpoint]"
  by (simp add: selected_outpoints_def ex_draft_def ex_contribution_def)

lemma ex_plan:
  "plan_with_request_digest ex_zero ex_zero ex_zero ex_zero [ex_outpoint] 102 ex_fee_policy =
     Ok \<lparr>plan_owner = ex_zero, plan_idempotency_key = ex_zero, plan_request_digest = ex_zero,
       plan_quote_commitment = ex_zero, plan_outpoints = [ex_outpoint], plan_accept_before = 102,
       plan_fee_policy = ex_fee_policy\<rparr>"
  by (simp add: plan_with_request_digest_def MAX_RESERVATION_INPUTS_def)

lemma ex_persist: "persist_new_reservation ex_reservation ex_db2' = Ok ex_db3"
  by (simp add: persist_new_reservation_def write_reservation_def set_allocations_def advance_allocation_revision_def
      allocation_revision_def append_audit_def checked_add_def ex_db2'_def ex_db3_def ex_db_defs ex_reservation_def)

lemma ex_input_durable:
  "rfold (validate_selected_input ex_store_ops (stored_quote_from_domain ex_quote ex_draft) ex_db2')
     (contribution_inputs (quote_contribution_of ex_quote)) 0 = Ok 5"
  using ex_item_ok
  by (simp add: ex_quote_def ex_contribution_def validate_selected_input_def ex_db2'_def ex_db2_def tbl_get_def
      stored_quote_from_domain_def ex_draft_def ex_item_def checked_add_def)

lemma ex_reserve_finalized:
  "reserve_finalized ex_store_ops ex_identity ex_zero ex_zero ex_zero ex_zero ex_draft ex_policy 2 102 ex_db2' =
     commit_ok ex_db3 ex_outcome"
proof -
  have commitment: "quote_commitment ex_quote = ex_zero" by (simp add: ex_quote_def)
  have stored: "res_quote ex_reservation = Some (stored_quote_from_domain ex_quote ex_draft)"
    "sfq_selected_amount (stored_quote_from_domain ex_quote ex_draft) = 5"
    by (simp_all add: ex_reservation_def stored_quote_from_domain_def ex_draft_def)
  have view: "reservation_to_view ex_store_ops ex_reservation = Ok (outcome_reservation ex_outcome)"
    using ex_reservation_valid
    by (simp add: reservation_to_view_def ex_outcome_def) (simp add: ex_reservation_def state_view_def)
  have policy: "engine_fee_policy ex_policy = ex_fee_policy" by (simp add: ex_policy_def)
  show ?thesis
    unfolding reserve_finalized_def policy ex_finalize ex_draft_outpoints codec_def
    by (simp add: commitment ex_plan corrupt_def ex_new ex_reservation_valid stored ex_quote_persisted ex_input_durable
        ex_persist view) (simp add: ex_outcome_def)
qed

lemma ex_reserve_result:
  "reserve_firm_quote_from_snapshot ex_store_ops Committed Committed 2 ex_zero ex_zero ex_zero ex_draft ex_policy 1 10
     (ex_book ex_db2) = (Ok ex_outcome, ex_book ex_db3)"
proof -
  have draft: "evidence_allocation_revision (draft_snapshot ex_draft) = 0"
    "rfold (check_selected_outpoint ex_draft ex_db2') (selected_outpoints ex_draft) () = Ok ()"
    by (simp_all add: check_selected_outpoint_def)
      (simp_all add: ex_draft_def ex_evidence_def ex_contribution_def ex_item_def ex_db2'_def ex_db_defs tbl_get_def)
  have db: "read_request_binding ex_db2' ex_zero ex_zero = None" "read_reservation ex_store_ops ex_db2' ex_zero = Ok None"
    "allocation_revision ex_db2' = Ok 0" "enforce_live_quote_limits ex_zero ex_policy 2 ex_db2' = Ok ()"
    "checked_add 2 (quote_lifetime_millis ex_policy) = Some 102"
    by (simp_all add: read_request_binding_def read_reservation_def allocation_revision_def enforce_live_quote_limits_def
        checked_add_def ex_policy_def ex_db2'_def ex_db_defs tbl_get_def)
  have body: "reserve_body ex_store_ops ex_identity ex_zero ex_zero ex_zero ex_draft ex_policy 1 10 2 ex_db2' =
      commit_ok ex_db3 ex_outcome"
    unfolding reserve_body_def db draft codec_def by (simp add: ex_reserve_finalized draft db word_le_nat_alt del: ex_draft_outpoints)
  have obs: "observe_time ex_db2 2 = Ok ex_db2'"
    by (simp add: observe_time_def ex_db2'_def ex_db2_def)
  have "policy_asset (engine_fee_policy ex_policy) = identity_policy_asset ex_identity"
    by (simp add: ex_policy_def ex_fee_policy_def ex_identity_def)
  then show ?thesis
    using body obs
    by (simp add: reserve_firm_quote_from_snapshot_def run_timed_def ensure_healthy_def commit_write_def)
qed


lemma ex_reserve:
  "apply_call ex_store_ops Committed Committed 2 (ReserveQuote ex_zero ex_zero ex_zero ex_draft ex_policy 1 10)
     (ex_book ex_db2) = ex_book ex_db3"
  by (simp add: ex_reserve_result)

text \<open>Committing the signing intent at time 3.\<close>

definition ex_fee :: TransactionFee where
  "ex_fee = \<lparr>fee_policy_asset = [9], fee_amount = 1, fee_weight = 4, regular_vsize = 1, discount_vsize = 1\<rparr>"

definition ex_target :: StoredSigningTarget where
  "ex_target = target_from_inventory ex_item"

definition ex_intent :: StoredSigningIntent where
  "ex_intent = \<lparr>intent_commitment = ex_zero, intent_pre_sign_payload = [1], intent_fee = ex_fee,
     intent_committed_at = 3, intent_targets = [ex_target]\<rparr>"

definition ex_job :: SigningJob where
  "ex_job = \<lparr>job_reservation_id = ex_zero, job_commitment = ex_zero, job_pre_sign_payload = [1],
     job_fee = ex_fee, job_targets = [ex_target]\<rparr>"

definition ex_access :: ReservationAccess where
  "ex_access = \<lparr>access_reservation_id = ex_zero, access_owner = ex_zero\<rparr>"

definition ex_db3' :: Database where
  "ex_db3' = ex_db3\<lparr>meta_last_time := Some (u64_be 3)\<rparr>"

definition ex_db4 :: Database where
  "ex_db4 = ex_db3'\<lparr>meta_audit_sequence := Some (u64_be 3), meta_allocation_revision := Some (u64_be 2),
     allocations_tbl := [(outpoint_key ex_outpoint, AllocCommitted ex_zero ex_zero)],
     reservations_tbl := [(ex_zero, ex_reservation\<lparr>res_state := StCommitted ex_intent\<rparr>)],
     expirations_tbl := [], live_quotes_tbl := [],
     audit_tbl := audit_tbl ex_db3 @
       [(3, \<lparr>entry_sequence = 3, entry_at = 3, entry_event = SigningCommitted ex_zero ex_zero\<rparr>)]\<rparr>"

lemma ex_job_ok: "intent_to_job ex_store_ops ex_intent ex_zero = Ok ex_job"
  by (simp add: intent_to_job_def ex_intent_def ex_job_def validate_settlement_bytes_def MAX_SETTLEMENT_BYTES_def
      stored_fee_to_domain_def transaction_fee_new_def ex_fee_def corrupt_def target_to_domain_def Let_def
      ex_target_def target_from_inventory_def ex_item_def ex_store_ops_def)

lemma ex_fee_ok: "fee_policy_validate ex_fee_policy ex_fee = Ok ()"
  by (simp add: fee_policy_validate_def required_fee_eq ex_fee_policy_def ex_fee_def policy_vsize_def try_from_nat_def)


lemma ex_held [simp]:
  "reservation_at ex_db3' ex_zero = Some ex_reservation" "inventory_at ex_db3' (outpoint_key ex_outpoint) = Some ex_item"
  "allocation_at ex_db3' (outpoint_key ex_outpoint) = Some (AllocReserved ex_zero)"
  "res_id ex_reservation = ex_zero" "res_owner ex_reservation = ex_zero" "res_state ex_reservation = StReserved"
  "res_outpoints ex_reservation = [ex_outpoint]" "res_fee_policy ex_reservation = ex_fee_policy"
  "res_accept_before ex_reservation = 102" "res_quote_commitment ex_reservation = ex_zero"
  "res_quote ex_reservation = Some (stored_quote_from_domain ex_quote ex_draft)" "res_created_at ex_reservation = 2"
  by (simp_all add: ex_db3'_def ex_db3_def ex_db2_def tbl_get_def ex_reservation_def)

lemma ex_commit_body:
  "commit_body ex_store_ops ex_access (Some ex_zero) [1] ex_fee 3 ex_db3' = commit_ok ex_db4 (NewlyCommitted ex_job)"
proof -
  have auth: "require_authorized_reservation ex_store_ops ex_db3' ex_access = Ok ex_reservation"
    using ex_reservation_valid
    by (simp add: require_authorized_reservation_def require_reservation_def read_reservation_def ex_access_def)
  have targets: "signing_targets_for_reservation ex_store_ops ex_db3' ex_reservation = Ok [ex_target]"
    using ex_item_ok by (simp add: signing_targets_for_reservation_def signing_target_for_def ex_target_def)
  have writes: "rbind (advance_allocation_revision (set_allocations (AllocCommitted ex_zero ex_zero) [ex_outpoint] ex_db3')) (\<lambda>db1.
      rbind (remove_expiration ex_reservation db1) (\<lambda>db2.
      rbind (remove_live_quote_index ex_reservation db2) (\<lambda>db3.
      append_audit 3 (SigningCommitted ex_zero ex_zero)
         (write_reservation (ex_reservation\<lparr>res_state := StCommitted ex_intent\<rparr>) db3)))) = Ok ex_db4"
    by (simp add: set_allocations_def advance_allocation_revision_def allocation_revision_def checked_add_def
        remove_expiration_def remove_live_quote_index_def write_reservation_def append_audit_def tbl_get_def
        tbl_remove_def ex_db4_def ex_db3'_def ex_db3_def ex_db_defs Let_def)
  then obtain db1 db2 db3 where
    "advance_allocation_revision (set_allocations (AllocCommitted ex_zero ex_zero) [ex_outpoint] ex_db3') = Ok db1"
    "remove_expiration ex_reservation db1 = Ok db2" "remove_live_quote_index ex_reservation db2 = Ok db3"
    "append_audit 3 (SigningCommitted ex_zero ex_zero)
       (write_reservation (ex_reservation\<lparr>res_state := StCommitted ex_intent\<rparr>) db3) = Ok ex_db4"
    by (auto simp: rbind_eq_Ok)
  then show ?thesis
    by (simp add: commit_body_def auth commit_reserved_def ex_fee_ok targets check_reserved_allocations_def Let_def
        ex_intent_def [symmetric] ex_job_ok)
qed


lemma ex_commit:
  "apply_call ex_store_ops Committed Committed 3 (CommitSigning ex_identity ex_access ex_zero [1] ex_fee) (ex_book ex_db3) =
     ex_book ex_db4"
proof -
  have obs: "observe_time ex_db3 3 = Ok ex_db3'"
    by (simp add: observe_time_def ex_db3'_def ex_db3_def)
  have payload: "validate_settlement_bytes [1] = Ok ()"
    by (simp add: validate_settlement_bytes_def MAX_SETTLEMENT_BYTES_def)
  show ?thesis
    by (simp add: commit_validated_before_sign_def commit_before_sign_inner_def payload run_timed_def
        ensure_healthy_def commit_write_def obs ex_commit_body)
qed

abbreviation ex_reachable :: "ReservationBook \<Rightarrow> bool" where
  "ex_reachable \<equiv> reachable (book_init ex_identity) (book_step ex_store_ops)"

lemma ex_reachable_imported: "ex_reachable (ex_book ex_db2)"
proof -
  have "ex_reachable ex_book0"
    by (rule reachable.intros(1)) (simp add: book_init_def ex_book0_def)
  then have "ex_reachable (ex_book ex_db1)"
    by (rule reachable.intros(2)) (subst ex_open [symmetric], rule book_step.call, simp)
  then show ?thesis
    by (rule reachable.intros(2)) (subst ex_import [symmetric], rule book_step.call, simp add: ex_importable)
qed

lemma ex_reachable_reserved: "ex_reachable (ex_book ex_db3)"
  using ex_reachable_imported
  by (rule reachable.intros(2)) (subst ex_reserve [symmetric], rule book_step.call, simp)

lemma ex_commit_step:
  "book_step ex_store_ops (ex_book ex_db3)
     (Committed, Committed, 3, CommitSigning ex_identity ex_access ex_zero [1] ex_fee) (ex_book ex_db4)"
  by (subst ex_commit [symmetric], rule book_step.call) simp

lemma ex_reachable_committed: "ex_reachable (ex_book ex_db4)"
  using ex_reachable_reserved ex_commit_step by (rule reachable.intros(2))


text \<open>Storing the signed artifact at time 4.\<close>

definition ex_committed :: StoredReservation where
  "ex_committed = ex_reservation\<lparr>res_state := StCommitted ex_intent\<rparr>"

definition ex_artifact :: StoredSignedArtifact where
  "ex_artifact = \<lparr>artifact_digest = ex_zero, artifact_bytes = [2], artifact_signed_at = 4\<rparr>"

definition ex_signed :: SignedArtifact where
  "ex_signed = \<lparr>signed_reservation_id = ex_zero, signed_commitment = ex_zero, signed_digest = ex_zero,
     signed_bytes = [2]\<rparr>"

definition ex_db5 :: Database where
  "ex_db5 = ex_db4\<lparr>meta_last_time := Some (u64_be 4), meta_audit_sequence := Some (u64_be 4),
     reservations_tbl := [(ex_zero, ex_committed\<lparr>res_state := StSigned ex_intent ex_artifact\<rparr>)],
     audit_tbl := audit_tbl ex_db4 @
       [(4, \<lparr>entry_sequence = 4, entry_at = 4, entry_event = SignedArtifactStored ex_zero ex_zero\<rparr>)]\<rparr>"

lemma ex_committed_fields [simp]:
  "reservation_at ex_db4 ex_zero = Some ex_committed" "allocation_at ex_db4 (outpoint_key ex_outpoint) = Some (AllocCommitted ex_zero ex_zero)"
  "res_state ex_committed = StCommitted ex_intent" "res_id ex_committed = ex_zero"
  "res_outpoints ex_committed = [ex_outpoint]" "intent_commitment ex_intent = ex_zero"
  by (simp_all add: ex_db4_def tbl_get_def ex_committed_def ex_intent_def)

lemma ex_committed_valid: "reservation_validate ex_store_ops ex_committed = Ok ()"
proof -
  have "sound_at ex_store_ops ex_identity 3 ex_db3'"
    using reachable_book_ok [OF ex_sha_32 ex_reachable_reserved] observe_time_ok [of ex_store_ops ex_identity ex_db3 3 ex_db3']
    by (auto simp: book_ok_def ex_book0_def observe_time_def ex_db3'_def ex_db3_def sound_at_def high_watermark_def)
  from commit_body_sound [OF this ex_commit_body] have "store_ok ex_store_ops ex_identity ex_db4" .
  then have "reservation_ok ex_store_ops ex_identity ex_db4 ex_committed"
    using reservation_ids [OF store_ok_parts(4)] ex_committed_fields(1) by blast
  then show ?thesis by (simp add: reservation_ok_def)
qed

lemma ex_artifact_ok: "artifact_to_domain ex_store_ops ex_artifact ex_zero ex_zero = Ok ex_signed"
  by (simp add: artifact_to_domain_def ex_artifact_def ex_signed_def validate_settlement_bytes_def
      MAX_SETTLEMENT_BYTES_def corrupt_def)

lemma ex_sign:
  "apply_call ex_store_ops Committed Committed 4 (RecordSigned ex_job [2]) (ex_book ex_db4) = ex_book ex_db5"
proof -
  let ?db = "ex_db4\<lparr>meta_last_time := Some (u64_be 4)\<rparr>"
  have payload: "validate_settlement_bytes [2] = Ok ()"
    by (simp add: validate_settlement_bytes_def MAX_SETTLEMENT_BYTES_def)
  have req: "require_reservation ex_store_ops ex_db4 ex_zero missing = Ok ex_committed"
    "require_reservation ex_store_ops ?db ex_zero missing = Ok ex_committed" for missing
    using ex_committed_valid by (simp_all add: require_reservation_def read_reservation_def)
  have job: "job_reservation_id ex_job = ex_zero" "job_commitment ex_job = ex_zero" by (simp_all add: ex_job_def)
  have pending: "signing_state_for ex_store_ops ex_job (ex_book ex_db4) = Ok (Pending ex_job)"
    by (simp add: signing_state_for_def run_read_def ensure_healthy_def signing_state_in_def job req
        ensure_state_allocations_def ensure_committed_allocations_def ex_job_ok ensure_exact_signing_job_def)
  have stored: "store_artifact ex_store_ops ex_committed ex_intent ex_zero [2] 4 ?db =
      commit_ok ex_db5 \<lparr>outcome_artifact = ex_signed, outcome_recorded = True\<rparr>"
    using ex_artifact_ok
    by (simp add: store_artifact_def Let_def ex_artifact_def [symmetric])
      (simp add: append_audit_def write_reservation_def checked_add_def ex_db5_def ex_db4_def ex_db3'_def ex_db3_def
        ex_committed_def [symmetric])
  have body: "record_signed_body ex_store_ops ex_zero ex_zero (Some ex_job) [2] True 4 ?db =
      commit_ok ex_db5 \<lparr>outcome_artifact = ex_signed, outcome_recorded = True\<rparr>"
    by (simp add: record_signed_body_def req ensure_state_allocations_def ensure_committed_allocations_def
        check_expected_job_def ex_job_ok ensure_exact_signing_job_def stored)
  have obs: "observe_time ex_db4 4 = Ok ?db"
    by (simp add: observe_time_def ex_db4_def ex_db3'_def)
  show ?thesis
    by (simp add: record_finalized_pset_def record_signed_inner_def payload pending Let_def job body obs run_timed_def
        ensure_healthy_def commit_write_def)
qed

lemma ex_sign_step:
  "book_step ex_store_ops (ex_book ex_db4) (Committed, Committed, 4, RecordSigned ex_job [2]) (ex_book ex_db5)"
  by (subst ex_sign [symmetric], rule book_step.call) simp

end
