(* ===== verification/Rfq_Store_Props.thy ===== *)
theory Rfq_Store_Props
  imports Rfq_Store_Example
begin

text \<open>
  What the reservation book promises: it always reopens, every output has at most one live holder,
  a signing commitment is final, cancellation and replay behave as specified.
\<close>

section \<open>Steps and paths\<close>

abbreviation book_path :: "store_ops \<Rightarrow> ReservationBook \<Rightarrow> ReservationBook \<Rightarrow> bool" where
  "book_path ops \<equiv> rtranclp (\<lambda>a b. \<exists>l. book_step ops a l b)"

lemma empty_progress [simp]: "db_progress empty_database db"
  by (simp add: db_progress_def empty_database_def tbl_get_def)

lemma reopen_progress:
  assumes "book_ok ops book"
  shows "db_progress (database book) (database (reopen ops committed book))"
  using assms unfolding book_ok_def
proof (elim disjE conjE)
  assume "store_ok ops (book_identity book) (database book)"
  then have "database (reopen ops committed book) = database book"
    by (cases committed) (simp_all add: reopen_def open_book_def initialize_store_ok commit_write_def)
  then show ?thesis by simp
qed simp

lemma book_step_progress:
  assumes ok: "book_ok ops book" and step: "book_step ops book l book'"
  shows "db_progress (database book) (database book')"
proof -
  from step obtain c observed committed now
    where c: "call_ok ops c" "book' = apply_call ops observed committed now c book" by blast
  show ?thesis
  proof (cases "c = Reopen")
    case True
    then show ?thesis using c reopen_progress [OF ok] by simp
  next
    case False
    then have effect: "call_effect ops now c book book'" using c apply_call_effect by simp
    show ?thesis
    proof (cases "store_ok ops (book_identity book) (database book)")
      case True
      have obs: "sound_at ops (book_identity book) now db" "db_progress (database book) db"
        if "observe_time (database book) now = Ok db" for db
        using observe_time_ok [OF True that] observe_time_Ok [OF store_ok_parts(1) [OF True] that]
        by (simp_all add: sound_at_def db_progress_same)
      from effect show ?thesis
        unfolding call_effect_def
      proof (elim disjE conjE exE)
        fix db
        assume "observe_time (database book) now = Ok db" "call_body ops (book_identity book) c now db = Some (database book')"
        then show ?thesis using obs call_body_progress db_progress_trans by blast
      qed (use obs(2) in auto)
    next
      case False
      then show ?thesis using ok by (simp add: book_ok_def)
    qed
  qed
qed

lemma book_path_progress:
  assumes "book_path ops book book'" "sha_32 ops" "book_ok ops book"
  shows "book_ok ops book' \<and> book_identity book' = book_identity book \<and> db_progress (database book) (database book')"
  using assms(1)
proof induction
  case (step b c)
  then obtain l where l: "book_step ops b l c" by blast
  have "book_identity c = book_identity b" using l by auto
  then show ?case
    using step.IH book_step_ok [OF assms(2) _ l] book_step_progress [OF _ l] db_progress_trans by metis
qed (simp add: assms(3))


section \<open>Promises\<close>

text \<open>C24. Whatever calls were made, at whatever clock readings and with whatever outcomes of the
  database commits, including ambiguous failures and crashes between the two commits of an
  operation, the database on disk always passes the integrity check: opening it succeeds and gives
  a usable book.\<close>

theorem store_always_reopens:
  assumes "sha_32 ops" "reachable (book_init identity) (book_step ops) book"
  shows "\<exists>book'. open_book ops Committed identity (database book) = (Ok (), book') \<and> \<not> poisoned book'"
  using reachable_book_ok [OF assms] unfolding book_ok_def
proof (elim conjE disjE)
  assume "store_ok ops (book_identity book) (database book)" "book_identity book = identity"
  then show ?thesis by (simp add: open_book_def initialize_store_ok commit_write_def)
next
  assume "database book = empty_database"
  then show ?thesis by (simp add: open_book_def initialize_empty commit_write_def)
qed

theorem store_always_reopens_witness:
  "\<exists>book'. open_book ex_store_ops Committed ex_identity ex_db4 = (Ok (), book') \<and> \<not> poisoned book'"
  using store_always_reopens [OF ex_sha_32 ex_reachable_committed] by simp

text \<open>C25. In every reachable book an output is held by at most one reservation that is not
  released: no output is ever promised to two takers.\<close>

theorem one_live_holder:
  assumes "sha_32 ops" "reachable (book_init identity) (book_step ops) book"
  shows "Uniq (\<lambda>i. \<exists>r. tbl_get (reservations_tbl (database book)) i = Some r \<and> p \<in> set (res_outpoints r) \<and>
    (case res_state r of StReleased _ _ \<Rightarrow> False | _ \<Rightarrow> True))"
proof (rule Uniq_I, elim exE conjE)
  fix i j r r'
  assume r: "reservation_at (database book) i = Some r" "p \<in> set (res_outpoints r)"
      "case res_state r of StReleased _ _ \<Rightarrow> False | _ \<Rightarrow> True"
    and r': "reservation_at (database book) j = Some r'" "p \<in> set (res_outpoints r')"
      "case res_state r' of StReleased _ _ \<Rightarrow> False | _ \<Rightarrow> True"
  have "store_ok ops (book_identity book) (database book)"
    using reachable_book_ok [OF assms] r(1) by (auto simp: book_ok_def empty_database_def tbl_get_def)
  moreover have "expected_allocation r \<noteq> None" "expected_allocation r' \<noteq> None"
    using r(3) r'(3) by (cases "res_state r"; cases "res_state r'"; simp)+
  ultimately show "i = j"
    using held_unique [OF store_ok_parts(4) r(1) _ r'(1), where k = "outpoint_key p"] r(2) r'(2) by blast
qed

theorem one_live_holder_witness:
  "Uniq (\<lambda>i. \<exists>r. tbl_get (reservations_tbl ex_db3) i = Some r \<and> ex_outpoint \<in> set (res_outpoints r) \<and>
    (case res_state r of StReleased _ _ \<Rightarrow> False | _ \<Rightarrow> True))"
  using one_live_holder [OF ex_sha_32 ex_reachable_reserved, of ex_outpoint] by simp

text \<open>C26. Once a signing intent is durable it stays: along every continuation the reservation keeps
  its terms and that very intent, a stored signed artifact never changes, and the outputs stay
  permanently allocated to it.\<close>

theorem signing_intent_final:
  assumes "sha_32 ops" "reachable (book_init identity) (book_step ops) book" "book_path ops book book'"
    and r: "tbl_get (reservations_tbl (database book)) i = Some r" and intent: "state_intent (res_state r) = Some intent"
  shows "\<exists>s. tbl_get (reservations_tbl (database book')) i = Some (r\<lparr>res_state := s\<rparr>) \<and>
      (s = res_state r \<or> res_state r = StCommitted intent \<and> (\<exists>artifact. s = StSigned intent artifact)) \<and>
      (\<forall>p \<in> set (res_outpoints r). tbl_get (allocations_tbl (database book')) (outpoint_key p) =
        Some (AllocCommitted i (intent_commitment intent)))"
proof -
  have ok: "book_ok ops book" using reachable_book_ok [OF assms(1,2)] by simp
  note path = book_path_progress [OF assms(3,1) ok]
  from path r obtain r' where r': "reservation_at (database book') i = Some r'" "progresses r r'"
    unfolding db_progress_def by blast
  then have eq: "r' = r\<lparr>res_state := res_state r'\<rparr>" and order: "state_order (res_state r) (res_state r')"
    by (simp_all add: progresses_def)
  have keep: "res_state r' = res_state r \<or> res_state r = StCommitted intent \<and> (\<exists>artifact. res_state r' = StSigned intent artifact)"
    using order intent by (cases "res_state r"; cases "res_state r'") auto
  have sound: "store_ok ops (book_identity book') (database book')"
    using path r'(1) by (auto simp: book_ok_def empty_database_def tbl_get_def)
  have id: "res_id r' = i" and rok: "reservation_ok ops (book_identity book') (database book') r'"
    using reservation_ids [OF store_ok_parts(4) [OF sound] r'(1)] by simp_all
  have "expected_allocation r' = Some (AllocCommitted i (intent_commitment intent))"
    using keep intent id by (cases "res_state r") auto
  moreover have "res_outpoints r' = res_outpoints r" by (subst eq) simp
  ultimately have "\<forall>p \<in> set (res_outpoints r). allocation_at (database book') (outpoint_key p) =
      Some (AllocCommitted i (intent_commitment intent))"
    using rok unfolding reservation_ok_def by simp
  then show ?thesis using r'(1) keep eq by metis
qed

theorem signing_intent_final_witness:
  "\<exists>s. tbl_get (reservations_tbl ex_db5) ex_zero = Some (ex_committed\<lparr>res_state := s\<rparr>) \<and>
      (s = StCommitted ex_intent \<or> (\<exists>artifact. s = StSigned ex_intent artifact)) \<and>
      (\<forall>p \<in> {ex_outpoint}. tbl_get (allocations_tbl ex_db5) (outpoint_key p) = Some (AllocCommitted ex_zero ex_zero))"
proof -
  have path: "book_path ex_store_ops (ex_book ex_db4) (ex_book ex_db5)"
    using ex_sign_step by (intro r_into_rtranclp exI)
  show ?thesis
    using signing_intent_final [OF ex_sha_32 ex_reachable_committed path, of ex_zero ex_committed ex_intent] by simp
qed



section \<open>Cancellation\<close>

lemma reachable_observed:
  assumes "sha_32 ops" "reachable (book_init identity) (book_step ops) book" "\<not> poisoned book"
    and "observe_time (database book) now = Ok db"
  shows "sound_at ops identity now db" "reservations_tbl db = reservations_tbl (database book)"
proof -
  have ok: "store_ok ops identity (database book)"
    using reachable_book_ok [OF assms(1,2)] assms(3) by (auto simp: book_ok_def)
  show "sound_at ops identity now db" "reservations_tbl db = reservations_tbl (database book)"
    using observe_time_ok [OF ok assms(4)] observe_time_Ok [OF store_ok_parts(1) [OF ok] assms(4)]
    by (simp_all add: sound_at_def)
qed

lemma sound_last_time:
  assumes "sound_at ops identity now db"
  shows "meta_last_time db = Some (u64_be now)"
  using store_ok_parts(1) [OF sound_store [OF assms]] assms
  by (cases "meta_last_time db") (auto simp: sound_at_def high_watermark_def meta_ok_def)

lemma run_timed_committed:
  assumes "\<not> poisoned book" "observe_time (database book) now = Ok db"
  shows "run_timed Committed Committed now body book = (case body now db of
      Inl e \<Rightarrow> (Err e, book\<lparr>database := db\<rparr>)
    | Inr (db', r) \<Rightarrow> (r, book\<lparr>database := db'\<rparr>))"
  using assms by (simp add: run_timed_def ensure_healthy_def commit_write_def split: sum.split)

lemma read_reservation_found:
  assumes "store_ok ops identity db" "reservation_at db i = Some r"
  shows "read_reservation ops db i = Ok (Some r)"
  using reservation_ids [OF store_ok_parts(4) [OF assms(1)] assms(2)] assms(2)
  by (simp add: read_reservation_def reservation_ok_def)

lemma require_authorized_found:
  assumes "store_ok ops identity db"
  shows "require_authorized_reservation ops db access = (case reservation_at db (access_reservation_id access) of
      None \<Rightarrow> Err (ReservationNotFound (access_reservation_id access))
    | Some r \<Rightarrow> if res_owner r = access_owner access then Ok r
        else Err (ReservationOwnerMismatch (access_reservation_id access)))"
proof (cases "reservation_at db (access_reservation_id access)")
  case None
  then show ?thesis
    by (simp add: require_authorized_reservation_def require_reservation_def read_reservation_def)
next
  case (Some r)
  then show ?thesis
    using read_reservation_found [OF assms Some]
    by (simp add: require_authorized_reservation_def require_reservation_def)
qed

text \<open>C29. Cancelling on a reachable book has exactly these outcomes: an unknown reservation and a
  foreign owner are refused, a reserved one is released (as expired once its deadline has passed)
  and all its outputs become available, a repeated cancellation is a no-op, and a committed or
  signed one is past the point of no return.  Only an exhausted 64-bit counter can interfere; the
  store never reports corruption.\<close>

theorem cancel_outcomes:
  assumes reach: "sha_32 ops" "reachable (book_init identity) (book_step ops) book" "\<not> poisoned book"
    and obs: "observe_time (database book) now = Ok db"
  shows "case tbl_get (reservations_tbl (database book)) (access_reservation_id access) of
      None \<Rightarrow> cancel ops Committed Committed now access book =
        (Err (ReservationNotFound (access_reservation_id access)), book\<lparr>database := db\<rparr>)
    | Some r \<Rightarrow>
        if res_owner r \<noteq> access_owner access
        then cancel ops Committed Committed now access book =
          (Err (ReservationOwnerMismatch (access_reservation_id access)), book\<lparr>database := db\<rparr>)
        else (case res_state r of
            StReserved \<Rightarrow>
              (\<exists>db'. cancel ops Committed Committed now access book = (Ok True, book\<lparr>database := db'\<rparr>) \<and>
                 tbl_get (reservations_tbl db') (res_id r) = Some (r\<lparr>res_state :=
                   StReleased (if res_accept_before r \<le> now then ReasonExpired else ClientCancelled) now\<rparr>) \<and>
                 (\<forall>p. inventory_state_at db' (outpoint_key p) =
                   (if p \<in> set (res_outpoints r) then Available else inventory_state_at db (outpoint_key p)))) \<or>
              (\<exists>e. cancel ops Committed Committed now access book = (Err e, book\<lparr>database := db\<rparr>) \<and> counter_overflow e)
          | StReleased reason _ \<Rightarrow> cancel ops Committed Committed now access book =
              ((if reason = ClientCancelled then Ok False else Err (ReservationAlreadyReleased (res_id r))),
               book\<lparr>database := db\<rparr>)
          | _ \<Rightarrow> cancel ops Committed Committed now access book =
              (Err (PointOfNoReturn (res_id r)), book\<lparr>database := db\<rparr>))"
proof -
  note sound = reachable_observed [OF reach obs]
  have ok: "store_ok ops identity db" by (rule sound_store [OF sound(1)])
  note run = run_timed_committed [OF reach(3) obs, where body = "cancel_body ops access", folded cancel_def]
  show ?thesis
  proof (cases "reservation_at db (access_reservation_id access)")
    case None
    then show ?thesis
      using sound(2) require_authorized_found [OF ok, of access] by (simp add: run cancel_body_def)
  next
    case (Some r)
    have r: "reservation_at db (res_id r) = Some r"
      using reservation_ids [OF store_ok_parts(4) [OF ok] Some] Some by simp
    let ?reason = "if res_accept_before r \<le> now then ReasonExpired else ClientCancelled"
    show ?thesis
    proof (cases "res_owner r = access_owner access \<and> res_state r = StReserved")
      case True
      then have body: "cancel_body ops access now db = rbind (release_reserved r ?reason now db) (\<lambda>(db', _). commit_ok db' True)"
        using Some require_authorized_found [OF ok, of access] by (simp add: cancel_body_def Let_def)
      show ?thesis
      proof (cases "release_reserved r ?reason now db")
        case (Inl e)
        then have "counter_overflow e" using release_reserved_Err [OF ok r] True by blast
        then show ?thesis using Inl body Some True sound(2) by (auto simp: run)
      next
        case (Inr v)
        then obtain db' r' where v: "release_reserved r ?reason now db = Ok (db', r')" by (cases v) auto
        note t = transition_fields [OF release_reserved_transition(3) [OF ok v]]
        have "cancel ops Committed Committed now access book = (Ok True, book\<lparr>database := db'\<rparr>)"
          using v body by (simp add: run)
        moreover have "reservation_at db' (res_id r) = Some (r\<lparr>res_state := StReleased ?reason now\<rparr>)"
          by (simp add: t(4))
        moreover have "inventory_state_at db' (outpoint_key p) =
            (if p \<in> set (res_outpoints r) then Available else inventory_state_at db (outpoint_key p))" for p
          using t(5) [of "outpoint_key p"] by (auto simp: inventory_state_at_def)
        ultimately show ?thesis using Some True sound(2) by auto
      qed
    next
      case False
      then show ?thesis
        using Some sound(2) require_authorized_found [OF ok, of access]
        by (cases "res_state r") (auto simp: run cancel_body_def)
    qed
  qed
qed

theorem cancel_outcomes_witness:
  "(\<exists>db'. cancel ex_store_ops Committed Committed 3 ex_access (ex_book ex_db3) = (Ok True, ex_book db') \<and>
       tbl_get (reservations_tbl db') ex_zero = Some (ex_reservation\<lparr>res_state := StReleased ClientCancelled 3\<rparr>) \<and>
       (\<forall>p. inventory_state_at db' (outpoint_key p) =
         (if p = ex_outpoint then Available else inventory_state_at ex_db3' (outpoint_key p)))) \<or>
   (\<exists>e. cancel ex_store_ops Committed Committed 3 ex_access (ex_book ex_db3) = (Err e, ex_book ex_db3') \<and> counter_overflow e)"
proof -
  have "observe_time (database (ex_book ex_db3)) 3 = Ok ex_db3'"
    by (simp add: observe_time_def ex_db3'_def ex_db3_def)
  moreover have "reservation_at ex_db3 ex_zero = Some ex_reservation" by (simp add: ex_db3_def tbl_get_def)
  moreover have "\<not> (102 :: u64) \<le> 3" by (simp add: word_le_nat_alt)
  ultimately show ?thesis
    using cancel_outcomes [OF ex_sha_32 ex_reachable_reserved, of 3 ex_db3' ex_access] by (simp add: ex_access_def)
qed


section \<open>Replay\<close>

lemma reservation_view_deadline:
  "reservation_to_view ops r = Ok view \<Longrightarrow> view_accept_before view = res_accept_before r"
  by (auto simp: reservation_to_view_def result_simps)

text \<open>A newly created reservation was finalized on the observed database, with the quotas respected.\<close>

lemma reserve_created:
  assumes reach: "sha_32 ops" "reachable (book_init identity) (book_step ops) book"
    and reserve: "reserve_firm_quote_from_snapshot ops Committed Committed now owner key digest draft policy observed_at
      maximum_age book = (Ok outcome, book')"
    and created: "outcome_created outcome"
  obtains db accept_before where "sound_at ops identity now db" "enforce_live_quote_limits owner policy now db = Ok ()"
    "reserve_finalized ops identity owner key digest (derive_reservation_id ops owner key) draft policy now accept_before db =
       Ok (database book', Ok outcome)"
    "\<not> poisoned book'" "book_identity book' = identity"
proof -
  have identity: "book_identity book = identity" using reachable_book_ok [OF reach] by simp
  from reserve have run: "run_timed Committed Committed now
      (reserve_body ops identity owner key digest draft policy observed_at maximum_age) book = (Ok outcome, book')"
    by (auto simp: reserve_firm_quote_from_snapshot_def identity split: if_splits)
  then obtain db where healthy: "\<not> poisoned book" and obs: "observe_time (database book) now = Ok db"
    and body: "reserve_body ops identity owner key digest draft policy observed_at maximum_age now db = Ok (database book', Ok outcome)"
    and book': "\<not> poisoned book'"
    by (cases rule: run_timed_database) auto
  have identity': "book_identity book' = identity" using run_timed_identity [OF run] identity by simp
  show thesis
    using body
  proof (cases rule: reserve_body_Ok)
    case (created accept_before)
    then show thesis using that reachable_observed(1) [OF reach healthy obs] book' identity' by simp
  qed (use created in \<open>auto simp: replay_request_def to_firm_quote_outcome_def result_simps\<close>)
qed

text \<open>C28. A reservation is replayable: asking again with the same key and digest before the
  deadline returns exactly the quote and the reservation first returned, marked as not newly
  created and without writing anything but the clock, and the same key with another digest is
  refused as an idempotency conflict.\<close>

theorem reserve_then_replay:
  assumes reach: "sha_32 ops" "reachable (book_init identity) (book_step ops) book"
    and reserve: "reserve_firm_quote_from_snapshot ops Committed Committed now owner key digest draft policy observed_at
      maximum_age book = (Ok outcome, book')"
    and created: "outcome_created outcome" and later: "now \<le> now'" "now' < view_accept_before (outcome_reservation outcome)"
  shows "replay_firm_quote ops Committed Committed now' owner key digest' book' =
    ((if digest' = digest then Ok (Some (outcome\<lparr>outcome_created := False\<rparr>)) else Err (IdempotencyConflict owner key)),
     book'\<lparr>database := (database book')\<lparr>meta_last_time := Some (u64_be now')\<rparr>\<rparr>)"
proof -
  obtain db accept_before where sound: "sound_at ops identity now db"
    and final: "reserve_finalized ops identity owner key digest (derive_reservation_id ops owner key)
      draft policy now accept_before db = Ok (database book', Ok outcome)"
    and book': "\<not> poisoned book'" "book_identity book' = identity"
    by (rule reserve_created [OF reach reserve created])
  from final obtain r outcome' where "Ok outcome = (Ok outcome' :: (ProviderError, FirmQuoteOutcome) result)"
    and persist: "persist_new_reservation r db = Ok (database book')"
    and view: "reservation_to_view ops r = Ok (outcome_reservation outcome')"
    and r: "res_owner r = owner" "res_idempotency_key r = key" "res_semantic_request_digest r = digest" "res_state r = StReserved"
    and valid: "reservation_validate ops r = Ok ()"
    and quote: "\<exists>stored. res_quote r = Some stored \<and> stored_quote_to_domain ops stored identity r = Ok (outcome_quote outcome')"
    by (rule reserve_finalized_creates)
  then have same: "outcome' = outcome" by simp
  note c = persist_creation [OF store_ok_parts(2) [OF sound_store [OF sound]] persist]
  let ?db = "(database book')\<lparr>meta_last_time := Some (u64_be now')\<rparr>"
  have time: "meta_last_time (database book') = Some (u64_be now)"
    using c sound_last_time [OF sound] by (simp add: reservation_creation_def)
  have "observe_time (database book') now' = Ok ?db"
    using later(1) by (simp add: observe_time_def time)
  note replay = run_timed_committed [OF book'(1) this, where body = "replay_body ops identity owner key digest'"]
  have accept: "view_accept_before (outcome_reservation outcome) = res_accept_before r"
    using reservation_view_deadline [OF view] same by simp
  have found: "read_request_binding ?db owner key = Some (binding_of r)" "read_reservation ops ?db (res_id r) = Ok (Some r)"
    using creation_fields(3,4) [OF c] r valid by (simp_all add: read_request_binding_def read_reservation_def)
  have pending: "\<not> res_accept_before r \<le> now'" using later(2) accept by simp
  have "to_firm_quote_outcome ops r identity False = Ok (outcome\<lparr>outcome_created := False\<rparr>)"
    using quote view same by (auto simp: to_firm_quote_outcome_def)
  then have "replay_body ops identity owner key digest' now' ?db =
      (if digest' = digest then commit_ok ?db (Some (outcome\<lparr>outcome_created := False\<rparr>)) else Err (IdempotencyConflict owner key))"
    using found r pending
    by (simp add: replay_body_def replay_request_def replay_binding_in_write_def require_reservation_def binding_of_def)
  then show ?thesis using book'(2) by (simp add: replay_firm_quote_def replay)
qed

theorem reserve_then_replay_witness:
  "replay_firm_quote ex_store_ops Committed Committed 50 ex_zero ex_zero ex_zero (ex_book ex_db3) =
     (Ok (Some (ex_outcome\<lparr>outcome_created := False\<rparr>)), ex_book (ex_db3\<lparr>meta_last_time := Some (u64_be 50)\<rparr>))"
  using reserve_then_replay [OF ex_sha_32 ex_reachable_imported ex_reserve_result, of 50 ex_zero]
  by (simp add: ex_outcome_def word_le_nat_alt word_less_nat_alt)


section \<open>Keys\<close>



end
