(* ===== verification/Rfq_Store_Expiry.thy ===== *)
theory Rfq_Store_Expiry
  imports Rfq_Store_Props
begin

text \<open>
  Expiry makes progress.  The expiration index of a reachable book is ordered by deadline, so the
  bounded scan of \<^verbatim>\<open>expire_due_in_write\<close> finds due reservations whenever there are any, and every
  one it finds is released.  Repeating \<^verbatim>\<open>ReservationBook::expire_due\<close> therefore empties the set of
  overdue reservations after a number of calls computed from its size and the batch limit.
\<close>

definition due_reservations :: "Database \<Rightarrow> unix_millis \<Rightarrow> fixed_id set" where
  "due_reservations db now = {i. \<exists>r. reservation_at db i = Some r \<and> res_state r = StReserved \<and> res_accept_before r \<le> now}"

text \<open>Both 64-bit counters can still advance \<open>n\<close> times.\<close>

definition counter_room :: "nat \<Rightarrow> Database \<Rightarrow> bool" where
  "counter_room n db \<longleftrightarrow> (\<exists>a s. meta_allocation_revision db = Some (u64_be a) \<and>
     meta_audit_sequence db = Some (u64_be s) \<and> unat a + n < 2 ^ 64 \<and> unat s + n < 2 ^ 64)"

lemma checked_succ:
  fixes a :: u64
  assumes "unat a + Suc n < 2 ^ 64"
  obtains b where "checked_add a 1 = Some b" "unat b + n < 2 ^ 64"
proof -
  have "checked_add a 1 \<noteq> None" using assms by (simp add: checked_add_def)
  then obtain b where b: "checked_add a 1 = Some b" by blast
  then have "unat b = unat a + 1" using assms by (auto simp: checked_simps)
  then show thesis using that b assms by simp
qed


section \<open>Releasing\<close>

lemma release_reserved_room:
  assumes ok: "store_ok ops identity db" and r: "reservation_at db (res_id r) = Some r"
    and reserved: "res_state r = StReserved" and room: "counter_room (Suc n) db"
  obtains db' r' where "release_reserved r reason now db = Ok (db', r')" "counter_room n db'"
proof -
  obtain a s where counters: "meta_allocation_revision db = Some (u64_be a)" "meta_audit_sequence db = Some (u64_be s)"
    and small: "unat a + Suc n < 2 ^ 64" "unat s + Suc n < 2 ^ 64"
    using room unfolding counter_room_def by blast
  obtain b where b: "checked_add a 1 = Some b" "unat b + n < 2 ^ 64" by (rule checked_succ [OF small(1)])
  obtain t where t: "checked_add s 1 = Some t" "unat t + n < 2 ^ 64" by (rule checked_succ [OF small(2)])
  note index = reservation_indexed [OF store_ok_parts(7,8,4) [OF ok] r]
  have "\<exists>db' r'. release_reserved r reason now db = Ok (db', r') \<and>
      meta_allocation_revision db' = Some (u64_be b) \<and> meta_audit_sequence db' = Some (u64_be t)"
    using check_reserved_allocations_ok [OF ok r reserved] index counters reserved b(1) t(1)
    by (simp add: release_reserved_def advance_allocation_revision_def allocation_revision_def
        remove_expiration_def remove_live_quote_index_def append_audit_def write_reservation_def Let_def)
  then show thesis using that b(2) t(2) unfolding counter_room_def by blast
qed

lemma expire_one_room:
  assumes sound: "sound_at ops identity now db" and room: "counter_room (Suc n) db"
    and r: "reservation_at db i = Some r" "res_state r = StReserved" "res_accept_before r \<le> now"
  obtains db' where "expire_one ops now (res_accept_before r, i) db = Ok db'" "sound_at ops identity now db'"
    "counter_room n db'" "\<And>j. reservation_at db' j =
      (if j = i then Some (r\<lparr>res_state := StReleased ReasonExpired now\<rparr>) else reservation_at db j)"
proof -
  have ok: "store_ok ops identity db" by (rule sound_store [OF sound])
  have id: "res_id r = i" using reservation_ids [OF store_ok_parts(4) [OF ok] r(1)] by simp
  then obtain db' r' where rel: "release_reserved r ReasonExpired now db = Ok (db', r')" "counter_room n db'"
    using release_reserved_room [OF ok _ r(2) room] r(1) by blast
  have one: "expire_one ops now (res_accept_before r, i) db = Ok db'"
    using rel(1) read_reservation_found [OF ok r(1)] r by (simp add: expire_one_def require_reservation_def)
  show thesis
    using that [OF one expire_one_sound [OF sound one] rel(2)] id
      transition_fields(4) [OF release_reserved_transition(3) [OF ok rel(1)]] by simp
qed

text \<open>A batch of due reservations is released completely.\<close>

lemma expire_batch:
  assumes "sound_at ops identity now db" "counter_room n db" "distinct (map snd due)" "length due \<le> n"
    and "\<forall>(t, i) \<in> set due. \<exists>r. reservation_at db i = Some r \<and> res_state r = StReserved \<and>
      res_accept_before r = t \<and> t \<le> now"
  shows "\<exists>db'. rfold (expire_one ops now) due db = Ok db' \<and> sound_at ops identity now db' \<and>
    counter_room (n - length due) db' \<and>
    (\<forall>j. reservation_at db' j = (if j \<in> set (map snd due)
       then map_option (res_state_update (\<lambda>_. StReleased ReasonExpired now)) (reservation_at db j) else reservation_at db j))"
  using assms
proof (induction due arbitrary: db n)
  case (Cons d due)
  obtain t i where d: "d = (t, i)" by (cases d)
  obtain m where n: "n = Suc m" using Cons.prems(4) by (cases n) simp_all
  obtain r where r: "reservation_at db i = Some r" "res_state r = StReserved" "res_accept_before r = t" "t \<le> now"
    using Cons.prems(5) by (auto simp: d)
  have r_due: "res_accept_before r \<le> now" using r by simp
  obtain db1 where one: "expire_one ops now (res_accept_before r, i) db = Ok db1" "sound_at ops identity now db1"
    "counter_room m db1" and at: "\<And>j. reservation_at db1 j =
      (if j = i then Some (r\<lparr>res_state := StReleased ReasonExpired now\<rparr>) else reservation_at db j)"
    using expire_one_room [OF Cons.prems(1) Cons.prems(2) [unfolded n] r(1,2) r_due] by blast
  have fresh: "i \<notin> set (map snd due)" using Cons.prems(3) by (simp add: d)
  have rest: "\<forall>(t, j) \<in> set due. \<exists>r. reservation_at db1 j = Some r \<and> res_state r = StReserved \<and>
      res_accept_before r = t \<and> t \<le> now"
  proof clarify
    fix t j assume e: "(t, j) \<in> set due"
    then have "j \<noteq> i" using fresh by force
    then show "\<exists>r. reservation_at db1 j = Some r \<and> res_state r = StReserved \<and> res_accept_before r = t \<and> t \<le> now"
      using Cons.prems(5) e at [of j] by auto
  qed
  have IH: "distinct (map snd due)" "length due \<le> m" using Cons.prems(3,4) by (simp_all add: n)
  obtain db' where db': "rfold (expire_one ops now) due db1 = Ok db'" "sound_at ops identity now db'"
    "counter_room (m - length due) db'" and at': "\<And>j. reservation_at db' j = (if j \<in> set (map snd due)
       then map_option (res_state_update (\<lambda>_. StReleased ReasonExpired now)) (reservation_at db1 j) else reservation_at db1 j)"
    using Cons.IH [OF one(2,3) IH rest] by blast
  have "reservation_at db' j = (if j \<in> set (map snd (d # due))
      then map_option (res_state_update (\<lambda>_. StReleased ReasonExpired now)) (reservation_at db j) else reservation_at db j)" for j
    using at [of j] at' [of j] r(1) fresh by (auto simp: d)
  moreover have "rfold (expire_one ops now) (d # due) db = Ok db'" using one(1) db'(1) r(3) by (simp add: d)
  ultimately show ?case using db'(2,3) by (intro exI [of _ db']) (simp add: n)
qed simp



section \<open>The scan\<close>

text \<open>On an index ordered by deadline the scan returns the first due entries.\<close>

lemma collect_due_take:
  assumes "\<forall>(k, v) \<in> set entries. decode_expiration_key k = Ok (dec k)"
  shows "collect_due entries now limit = Ok (take limit (takeWhile (\<lambda>d. fst d \<le> now) (map (dec \<circ> fst) entries)))"
  using assms
proof (induction entries now limit rule: collect_due.induct)
  case (2 key v entries now limit)
  obtain t i where d: "dec key = (t, i)" by (cases "dec key")
  show ?case
  proof (cases limit)
    case (Suc n)
    then show ?thesis using 2 by (auto simp: d not_less)
  qed simp
qed simp

lemma takeWhile_sorted_filter:
  fixes xs :: "('a::linorder \<times> 'b) list"
  assumes "sorted (map fst xs)"
  shows "takeWhile (\<lambda>d. fst d \<le> bound) xs = filter (\<lambda>d. fst d \<le> bound) xs"
  using assms
proof (induction xs)
  case (Cons x xs)
  moreover have "filter (\<lambda>d. fst d \<le> bound) xs = []" if "\<not> fst x \<le> bound"
    using Cons.prems that by (auto simp: filter_empty_conv dest: order_trans)
  ultimately show ?case by simp
qed simp

definition index_entry :: "bytes \<Rightarrow> unix_millis \<times> fixed_id" where
  "index_entry key = (u64_from_be (take 8 key), drop 8 key)"

lemma index_entry_key [simp]: "index_entry (expiration_key t i) = (t, i)"
  by (simp add: index_entry_def expiration_key_def)

lemma expiration_index:
  assumes ok: "store_ok ops identity db"
  defines "index \<equiv> map (index_entry \<circ> fst) (expirations_tbl db)"
  shows "\<forall>(k, v) \<in> set (expirations_tbl db). decode_expiration_key k = Ok (index_entry k)"
    "sorted (map fst index)" "distinct (map snd index)"
    "set index = {(t, i). \<exists>r. reservation_at db i = Some r \<and> res_state r = StReserved \<and> res_accept_before r = t}"
proof -
  have tbl: "tbl_ok (expirations_tbl db)" using store_ok_parts(2) [OF ok] by (simp add: tables_ok_def)
  have entry: "(k, v) \<in> set (expirations_tbl db) \<longleftrightarrow> v = [] \<and> (\<exists>r. reservation_at db (res_id r) = Some r \<and>
      res_state r = StReserved \<and> k = expiration_key (res_accept_before r) (res_id r))" for k v
    using store_ok_parts(7) [OF ok] by (simp add: tbl_entries_get [OF tbl] expirations_ok_def)
  have len: "length (res_id r) = 32" if "reservation_at db (res_id r) = Some r" for r
    using reservation_ids [OF store_ok_parts(4) [OF ok] that] by (simp add: reservation_ok_def)
  show decodes: "\<forall>(k, v) \<in> set (expirations_tbl db). decode_expiration_key k = Ok (index_entry k)"
    using entry len by auto
  show set_index: "set index = {(t, i). \<exists>r. reservation_at db i = Some r \<and> res_state r = StReserved \<and> res_accept_before r = t}"
  proof (intro set_eqI iffI)
    fix d assume "d \<in> set index"
    then obtain k v where "(k, v) \<in> set (expirations_tbl db)" "d = index_entry k" by (auto simp: index_def)
    then show "d \<in> {(t, i). \<exists>r. reservation_at db i = Some r \<and> res_state r = StReserved \<and> res_accept_before r = t}"
      using entry by auto
  next
    fix d assume "d \<in> {(t, i). \<exists>r. reservation_at db i = Some r \<and> res_state r = StReserved \<and> res_accept_before r = t}"
    then obtain r where r: "reservation_at db (snd d) = Some r" "res_state r = StReserved" "fst d = res_accept_before r"
      by auto
    then have id: "res_id r = snd d" using reservation_ids [OF store_ok_parts(4) [OF ok]] by blast
    then have "(expiration_key (fst d) (snd d), []) \<in> set (expirations_tbl db)" using r entry by metis
    then show "d \<in> set index" unfolding index_def by (force simp: image_iff)
  qed
  have keys: "sorted_wrt (<) (map fst (expirations_tbl db))" using tbl by (simp add: tbl_ok_def)
  have split: "k = expiration_key (fst (index_entry k)) (snd (index_entry k))" if "k \<in> fst ` set (expirations_tbl db)" for k
    using that entry by auto
  have "sorted_wrt (\<lambda>k k'. fst (index_entry k) \<le> fst (index_entry k')) (map fst (expirations_tbl db))"
  proof (rule sorted_wrt_mono_rel [OF _ keys])
    fix k k' assume "k \<in> set (map fst (expirations_tbl db))" "k' \<in> set (map fst (expirations_tbl db))" "k < k'"
    then have "expiration_key (fst (index_entry k)) (snd (index_entry k)) <
        expiration_key (fst (index_entry k')) (snd (index_entry k'))"
      using split by simp
    then show "fst (index_entry k) \<le> fst (index_entry k')"
      by (auto simp: expiration_key_def append_less_fixed)
  qed
  then show "sorted (map fst index)" by (simp add: index_def sorted_wrt_map)
  have inj: "inj_on (index_entry) (fst ` set (expirations_tbl db))"
    by (rule inj_on_inverseI [where g = "\<lambda>d. expiration_key (fst d) (snd d)"]) (rule split [symmetric])
  have "distinct (map fst (expirations_tbl db))" using keys by (simp add: strict_sorted_iff)
  then have "distinct index" using inj by (simp add: index_def distinct_map comp_inj_on)
  moreover have "inj_on snd (set index)" by (rule inj_onI) (auto simp: set_index)
  ultimately show "distinct (map snd index)" by (simp add: distinct_map)
qed

lemma expire_due_in_write_room:
  assumes sound: "sound_at ops identity now db" and room: "counter_room (card (due_reservations db now)) db" and limit: "0 < limit"
  shows "\<exists>db' ids. expire_due_in_write ops now limit db = Ok (db', ids) \<and> sound_at ops identity now db' \<and>
    due_reservations db' now \<subseteq> due_reservations db now \<and> finite (due_reservations db now) \<and>
    card (due_reservations db' now) = card (due_reservations db now) - limit \<and>
    counter_room (card (due_reservations db' now)) db'"
proof -
  have ok: "store_ok ops identity db" by (rule sound_store [OF sound])
  let ?index = "map (index_entry \<circ> fst) (expirations_tbl db)"
  note index = expiration_index [OF ok]
  define all_due where "all_due = filter (\<lambda>d. fst d \<le> now) ?index"
  let ?due = "take limit all_due"
  have collect: "collect_due (expirations_tbl db) now limit = Ok ?due"
    using collect_due_take [OF index(1)] takeWhile_sorted_filter [OF index(2)] by (simp add: all_due_def)
  have dist: "distinct (map snd all_due)" using index(3) by (simp add: all_due_def distinct_map_filter)
  have all: "snd ` set all_due = due_reservations db now"
    using index(4) by (force simp: all_due_def due_reservations_def)
  have card: "card (due_reservations db now) = length all_due" "finite (due_reservations db now)"
    using distinct_card [OF dist] all by (simp, metis List.finite_set list.set_map)
  have taken: "distinct (map snd ?due)" "length ?due \<le> length all_due"
    using dist by (simp_all flip: take_map)
  have found: "\<forall>(t, i) \<in> set ?due. \<exists>r. reservation_at db i = Some r \<and> res_state r = StReserved \<and>
      res_accept_before r = t \<and> t \<le> now"
    using index(4) by (auto simp: all_due_def dest!: in_set_takeD)
  obtain db' where db': "rfold (expire_one ops now) ?due db = Ok db'" "sound_at ops identity now db'"
    "counter_room (length all_due - length ?due) db'" and at: "\<And>j. reservation_at db' j = (if j \<in> set (map snd ?due)
       then map_option (res_state_update (\<lambda>_. StReleased ReasonExpired now)) (reservation_at db j) else reservation_at db j)"
    using expire_batch [OF sound room [unfolded card] taken found] by blast
  have left: "due_reservations db' now = due_reservations db now - snd ` set ?due"
    by (auto simp: due_reservations_def at split: if_splits)
  have sub: "snd ` set ?due \<subseteq> due_reservations db now" using all by (auto dest: in_set_takeD)
  have "card (snd ` set ?due) = length ?due" using distinct_card [OF taken(1)] by simp
  then have "card (due_reservations db' now) = length all_due - length ?due"
    using card_Diff_subset [OF _ sub] card by (simp add: left)
  then show ?thesis using collect db' limit card left by (simp add: expire_due_in_write_def)
qed



section \<open>Draining\<close>

lemma observe_time_again:
  "sound_at ops identity now db \<Longrightarrow> observe_time db now = Ok db"
  by (simp add: observe_time_def sound_last_time)

lemma due_reservations_cong:
  "reservations_tbl db = reservations_tbl db' \<Longrightarrow> due_reservations db now = due_reservations db' now"
  by (simp add: due_reservations_def)

lemma counter_room_observe:
  assumes "observe_time db now = Ok db'"
  shows "counter_room n db' = counter_room n db"
  using assms by (auto simp: observe_time_def counter_room_def result_simps split: option.splits if_splits)

text \<open>One call shrinks the overdue set by a full batch.\<close>

lemma expire_due_step:
  assumes reach: "sha_32 ops" "reachable (book_init identity) (book_step ops) book" "\<not> poisoned book"
    and obs: "observe_time (database book) now = Ok db" and limit: "0 < limit"
    and room: "counter_room (card (due_reservations (database book) now)) (database book)"
  defines "book' \<equiv> snd (expire_due ops Committed Committed now limit book)"
  shows "reachable (book_init identity) (book_step ops) book'" "\<not> poisoned book'"
    "observe_time (database book') now = Ok (database book')"
    "counter_room (card (due_reservations (database book') now)) (database book')"
    "card (due_reservations (database book') now) =
       card (due_reservations (database book) now) - min limit MAX_EXPIRATION_BATCH"
proof -
  note sound = reachable_observed [OF reach obs]
  have same: "due_reservations db now = due_reservations (database book) now" using sound(2) by (rule due_reservations_cong)
  have room': "counter_room (card (due_reservations db now)) db" using room counter_room_observe [OF obs] same by simp
  have "0 < min limit MAX_EXPIRATION_BATCH" using limit by (simp add: MAX_EXPIRATION_BATCH_def)
  from expire_due_in_write_room [OF sound(1) room' this] obtain db' ids where
    body: "expire_due_in_write ops now (min limit MAX_EXPIRATION_BATCH) db = Ok (db', ids)" "sound_at ops identity now db'"
    and card: "card (due_reservations db' now) = card (due_reservations db now) - min limit MAX_EXPIRATION_BATCH"
    and left: "counter_room (card (due_reservations db' now)) db'" by blast
  have book': "book' = book\<lparr>database := db'\<rparr>"
    using run_timed_committed [OF reach(3) obs, where body = "expire_due_body ops limit"] body(1) limit
    by (simp add: book'_def expire_due_def expire_due_body_def)
  have "book_step ops book (Committed, Committed, now, ExpireDue limit) (apply_call ops Committed Committed now (ExpireDue limit) book)" by (rule book_step.call) simp
  then show "reachable (book_init identity) (book_step ops) book'"
    using reach(2) by (auto simp: book'_def intro: reachable.intros(2))
  show "\<not> poisoned book'" "observe_time (database book') now = Ok (database book')"
    using reach(3) observe_time_again [OF body(2)] by (simp_all add: book')
  show "counter_room (card (due_reservations (database book') now)) (database book')"
    "card (due_reservations (database book') now) =
       card (due_reservations (database book) now) - min limit MAX_EXPIRATION_BATCH"
    using left card same by (simp_all add: book')
qed

lemma due_finite:
  assumes "store_ok ops identity db"
  shows "finite (due_reservations db now)"
proof -
  have "due_reservations db now \<subseteq> fst ` set (reservations_tbl db)"
    by (auto simp: due_reservations_def tbl_get_def dest!: map_of_SomeD intro: image_eqI [rotated])
  then show ?thesis by (rule finite_subset) simp
qed

text \<open>C27. Expiry drains the overdue reservations: on a reachable book whose counters can still
  advance once per overdue reservation, repeating expire_due at the same time leaves none of them
  reserved as soon as the calls, each handling at most the limit and at most one batch, add up to
  their number.\<close>

theorem expire_due_drains:
  assumes "sha_32 ops" "reachable (book_init identity) (book_step ops) book" "\<not> poisoned book"
    and "observe_time (database book) now = Ok db" and "0 < limit"
    and "counter_room (card (due_reservations (database book) now)) (database book)"
    and "card (due_reservations (database book) now) \<le> calls * min limit MAX_EXPIRATION_BATCH"
  shows "due_reservations (database (((\<lambda>b. snd (expire_due ops Committed Committed now limit b)) ^^ calls) book)) now = {}"
  using assms(2-4,6-)
proof (induction calls arbitrary: book db)
  case 0
  have "store_ok ops identity (database book)"
    using reachable_book_ok [OF assms(1) 0(1)] 0(2) by (auto simp: book_ok_def)
  then show ?case using due_finite 0 by simp
next
  case (Suc calls)
  note step = expire_due_step [OF assms(1) Suc.prems(1-3) assms(5) Suc.prems(4)]
  have "card (due_reservations (database (snd (expire_due ops Committed Committed now limit book))) now)
      \<le> calls * min limit MAX_EXPIRATION_BATCH"
    using step(5) Suc.prems(5) by simp
  then show ?case using Suc.IH [OF step(1-4)] by (simp add: funpow_Suc_right del: funpow.simps)
qed

theorem expire_due_drains_witness:
  "due_reservations ex_db3 200 = {ex_zero} \<and>
   due_reservations (database (snd (expire_due ex_store_ops Committed Committed 200 1 (ex_book ex_db3)))) 200 = {}"
proof -
  have due: "due_reservations ex_db3 200 = {ex_zero}"
    by (auto simp: due_reservations_def ex_db3_def tbl_get_def ex_reservation_def word_le_nat_alt)
  have "observe_time (database (ex_book ex_db3)) 200 = Ok (ex_db3\<lparr>meta_last_time := Some (u64_be 200)\<rparr>)"
    by (simp add: observe_time_def ex_db3_def word_le_nat_alt)
  moreover have "counter_room 1 ex_db3" unfolding counter_room_def by (simp add: ex_db3_def)
  ultimately show ?thesis
    using expire_due_drains [OF ex_sha_32 ex_reachable_reserved, of 200 _ 1 1] due
    by (simp add: MAX_EXPIRATION_BATCH_def)
qed

end
