(* ===== verification/Rfq_Store_Limits.thy ===== *)
theory Rfq_Store_Limits
  imports Rfq_Store_Expiry
begin

text \<open>
  The live-quote quotas.  Reservation counts the live-quote index from the first future deadline
  on (\<^verbatim>\<open>enforce_live_quote_limits\<close>), so a reservation it admits leaves at most the configured number of
  live quotes, in total and for the requesting owner.
\<close>

definition live_reservations :: "Database \<Rightarrow> unix_millis \<Rightarrow> fixed_id set \<Rightarrow> fixed_id set" where
  "live_reservations db now owners = {i. \<exists>r. reservation_at db i = Some r \<and> res_state r = StReserved \<and>
     res_quote r \<noteq> None \<and> now < res_accept_before r \<and> res_owner r \<in> owners}"

definition live_entry :: "bytes \<Rightarrow> fixed_id \<times> fixed_id" where
  "live_entry key = (take 32 (drop 8 key), drop 40 key)"

lemma live_entry_key [simp]: "length o' = 32 \<Longrightarrow> live_entry (live_quote_key d o' i) = (o', i)"
  by (simp add: live_entry_def live_quote_key_def)

text \<open>The counting loop stops below both maxima.\<close>

lemma count_live_step:
  assumes "count_live owner policy now (e # entries) g n = Ok ()"
  shows "count_live owner policy now entries (g + 1) (if fst (live_entry (fst e)) = owner then n + 1 else n) = Ok ()"
    "g + 1 < maximum_live_quotes_global policy"
    "fst (live_entry (fst e)) = owner \<Longrightarrow> n + 1 < maximum_live_quotes_per_owner policy"
  using assms
  by (cases e; auto simp: decode_live_quote_key_def decode_table_key_def live_entry_def result_simps split: if_splits)+

lemma count_live_bound:
  assumes "count_live owner policy now entries g n = Ok ()"
  shows "(entries \<noteq> [] \<longrightarrow> g + length entries < maximum_live_quotes_global policy) \<and>
    (filter (\<lambda>e. fst (live_entry (fst e)) = owner) entries \<noteq> [] \<longrightarrow>
      n + length (filter (\<lambda>e. fst (live_entry (fst e)) = owner) entries) < maximum_live_quotes_per_owner policy)"
  using assms
proof (induction entries arbitrary: g n)
  case (Cons e entries)
  note step = count_live_step [OF Cons.prems]
  show ?case
    using Cons.IH [OF step(1)] step(2,3)
    by (cases "entries = []"; cases "filter (\<lambda>e. fst (live_entry (fst e)) = owner) entries = []") auto
qed simp

lemma zero_key_least:
  fixes xs :: bytes
  shows "length xs = n \<Longrightarrow> \<not> xs < replicate n 0"
  by (induction n arbitrary: xs) (auto simp: length_Suc_conv)

lemma dropWhile_keeps: "x \<in> set xs \<Longrightarrow> \<not> P x \<Longrightarrow> x \<in> set (dropWhile P xs)"
  by (induction xs) auto

text \<open>The live reservations with a future deadline are all in the scanned part of the index.\<close>

definition live_scan :: "unix_millis \<Rightarrow> Database \<Rightarrow> (bytes, bytes) table" where
  "live_scan first_deadline db =
     dropWhile (\<lambda>e. fst e < live_quote_key first_deadline (replicate 32 0) (replicate 32 0)) (live_quotes_tbl db)"

lemma live_scan_complete:
  assumes ok: "store_ok ops identity db" and first: "checked_add now 1 = Some first_deadline"
  shows "live_reservations db now owners \<subseteq>
    (\<lambda>e. snd (live_entry (fst e))) ` set (filter (\<lambda>e. fst (live_entry (fst e)) \<in> owners) (live_scan first_deadline db))"
proof
  fix i assume "i \<in> live_reservations db now owners"
  then obtain r where r: "reservation_at db i = Some r" "res_state r = StReserved" "res_quote r \<noteq> None"
    "now < res_accept_before r" "res_owner r \<in> owners" by (auto simp: live_reservations_def)
  have id: "res_id r = i" "length (res_owner r) = 32" "length i = 32"
    using reservation_ids [OF store_ok_parts(4) [OF ok] r(1)] by (auto simp: reservation_ok_def)
  let ?key = "live_quote_key (res_accept_before r) (res_owner r) i"
  have tbl: "tbl_ok (live_quotes_tbl db)" using store_ok_parts(2) [OF ok] by (simp add: tables_ok_def)
  have "tbl_get (live_quotes_tbl db) ?key = Some []"
    using store_ok_parts(8) [OF ok] r id unfolding live_quotes_ok_def by metis
  then have entry: "(?key, []) \<in> set (live_quotes_tbl db)" by (simp add: tbl_entries_get [OF tbl])
  have "unat first_deadline = unat now + 1" using first by (auto simp: checked_simps)
  then have "\<not> res_accept_before r < first_deadline" using r(4) by (simp add: word_less_nat_alt)
  then have "\<not> ?key < live_quote_key first_deadline (replicate 32 0) (replicate 32 0)"
    using zero_key_least [of "res_owner r" 32] zero_key_least [of i 32] id
    by (simp add: live_quote_key_def append_less_fixed)
  then have "(?key, []) \<in> set (live_scan first_deadline db)"
    using entry unfolding live_scan_def by (intro dropWhile_keeps) simp_all
  then show "i \<in> (\<lambda>e. snd (live_entry (fst e))) `
      set (filter (\<lambda>e. fst (live_entry (fst e)) \<in> owners) (live_scan first_deadline db))"
    using r(5) id(2) by (force simp: image_iff)
qed

lemma live_card:
  assumes "store_ok ops identity db" "checked_add now 1 = Some first_deadline"
  shows "card (live_reservations db now owners) \<le>
    length (filter (\<lambda>e. fst (live_entry (fst e)) \<in> owners) (live_scan first_deadline db))"
proof -
  have "card (live_reservations db now owners) \<le>
      card (set (filter (\<lambda>e. fst (live_entry (fst e)) \<in> owners) (live_scan first_deadline db)))"
    by (rule surj_card_le [OF _ live_scan_complete [OF assms]]) simp
  then show ?thesis using card_length order_trans by blast
qed

lemma limits_enforced:
  assumes ok: "store_ok ops identity db" and pass: "enforce_live_quote_limits owner policy now db = Ok ()"
    and pos: "0 < maximum_live_quotes_per_owner policy" "0 < maximum_live_quotes_global policy"
  shows "card (live_reservations db now UNIV) < maximum_live_quotes_global policy"
    "card (live_reservations db now {owner}) < maximum_live_quotes_per_owner policy"
proof -
  have "card (live_reservations db now UNIV) < maximum_live_quotes_global policy \<and>
    card (live_reservations db now {owner}) < maximum_live_quotes_per_owner policy"
  proof (cases "checked_add now 1")
    case None
    then have "\<not> now < t" for t using unat_less_pow [of t] by (simp add: checked_add_def word_less_nat_alt split: if_splits)
    then show ?thesis using pos by (simp add: live_reservations_def)
  next
    case (Some first)
    with pass have "count_live owner policy now (live_scan first db) 0 0 = Ok ()"
      by (simp add: enforce_live_quote_limits_def live_scan_def)
    note bound = count_live_bound [OF this]
    have "length (live_scan first db) < maximum_live_quotes_global policy"
      using bound pos(2) by (cases "live_scan first db = []") simp_all
    moreover have "length (filter (\<lambda>e. fst (live_entry (fst e)) = owner) (live_scan first db)) < maximum_live_quotes_per_owner policy"
      using bound pos(1) by (cases "filter (\<lambda>e. fst (live_entry (fst e)) = owner) (live_scan first db) = []") simp_all
    ultimately show ?thesis
      using live_card [OF ok Some, of UNIV] live_card [OF ok Some, of "{owner}"] by simp
  qed
  then show "card (live_reservations db now UNIV) < maximum_live_quotes_global policy"
    "card (live_reservations db now {owner}) < maximum_live_quotes_per_owner policy" by simp_all
qed

lemma live_finite: "finite (live_reservations db now owners)"
proof -
  have "live_reservations db now owners \<subseteq> fst ` set (reservations_tbl db)"
    by (auto simp: live_reservations_def tbl_get_def dest!: map_of_SomeD intro: image_eqI [rotated])
  then show ?thesis by (rule finite_subset) simp
qed

text \<open>C30. Quotas hold at creation: when a reservation is newly created, the live firm quotes of the
  book, the new one included, number at most the policy's global maximum, and those of the
  requesting owner at most the per-owner maximum.\<close>

theorem live_quotes_bounded:
  assumes reach: "sha_32 ops" "reachable (book_init identity) (book_step ops) book"
    and pos: "0 < maximum_live_quotes_per_owner policy" "0 < maximum_live_quotes_global policy"
    and reserve: "reserve_firm_quote_from_snapshot ops Committed Committed now owner key digest draft policy observed_at
      maximum_age book = (Ok outcome, book')"
    and created: "outcome_created outcome"
  shows "card (live_reservations (database book') now UNIV) \<le> maximum_live_quotes_global policy \<and>
    card (live_reservations (database book') now {owner}) \<le> maximum_live_quotes_per_owner policy"
proof -
  obtain db accept_before where sound: "sound_at ops identity now db"
    and limits: "enforce_live_quote_limits owner policy now db = Ok ()"
    and final: "reserve_finalized ops identity owner key digest (derive_reservation_id ops owner key)
      draft policy now accept_before db = Ok (database book', Ok outcome)"
    by (rule reserve_created [OF reach reserve created])
  have ok: "store_ok ops identity db" by (rule sound_store [OF sound])
  from final obtain r where persist: "persist_new_reservation r db = Ok (database book')"
    by (rule reserve_finalized_creates)
  note at = creation_fields(3) [OF persist_creation [OF store_ok_parts(2) [OF ok] persist]]
  have sub: "live_reservations (database book') now owners \<subseteq> insert (res_id r) (live_reservations db now owners)" for owners
    by (auto simp: live_reservations_def at split: if_splits)
  have "card (live_reservations (database book') now owners) \<le> Suc (card (live_reservations db now owners))" for owners
    using card_mono [OF finite.insertI [OF live_finite] sub [of owners]] by (simp add: card_insert_if live_finite split: if_splits)
  then show ?thesis
    using limits_enforced [OF ok limits pos] by (auto intro: order_trans [OF _ Suc_leI])
qed

theorem live_quotes_bounded_witness:
  "card (live_reservations ex_db3 2 UNIV) \<le> 1024 \<and> card (live_reservations ex_db3 2 {ex_zero}) \<le> 4"
  using live_quotes_bounded [OF ex_sha_32 ex_reachable_imported _ _ ex_reserve_result]
  by (simp add: ex_policy_def ex_outcome_def)

end
