(* ===== verification/Rfq_Pricing.thy ===== *)
theory Rfq_Pricing
  imports Rfq_Quote
begin

text \<open>
  Correctness of rational pricing: the Euclidean loop computes the greatest common divisor,
  rates are kept in lowest terms, and a calculated execution respects the taker's guards with
  rounding that never costs the provider a unit.
\<close>

declare gcd_u64.simps [simp del]

lemma gcd_u64_eq: "unat (gcd_u64 a b) = gcd (unat a) (unat b)"
proof (induction a b rule: gcd_u64.induct)
  case (1 a b)
  show ?case
  proof (cases "b = 0")
    case True
    then show ?thesis by (simp, subst gcd_u64.simps) simp
  next
    case False
    then show ?thesis
      using 1 by (simp add: gcd_u64.simps [of a b] unat_mod gcd_red_nat [of "unat a" "unat b"])
  qed
qed

lemma lowest_terms_unique:
  assumes "x * d = y * (n :: nat)" "coprime x y" "coprime n d" "0 < n"
  shows "x = n \<and> y = d"
proof -
  have "x dvd n" using assms by (metis coprime_dvd_mult_right_iff dvd_triv_left)
  moreover have "n dvd x" using assms by (metis coprime_dvd_mult_left_iff dvd_triv_right)
  ultimately have "x = n" by (rule dvd_antisym)
  then show ?thesis using assms by simp
qed

text \<open>C20.  A rate is accepted exactly for nonzero terms, and the stored fraction is the one in
  lowest terms with the same value; the Euclidean loop terminates and its divisor is the
  greatest common divisor.\<close>

theorem rational_rate_lowest_terms:
  "rational_rate_new n d = Ok r \<longleftrightarrow>
     n \<noteq> 0 \<and> d \<noteq> 0 \<and> coprime (unat (numerator r)) (unat (denominator r)) \<and>
     unat (numerator r) * unat d = unat n * unat (denominator r) \<and> denominator r \<noteq> 0"
proof
  assume "rational_rate_new n d = Ok r"
  then have nz: "n \<noteq> 0" "d \<noteq> 0" and r: "r = \<lparr>numerator = n div gcd_u64 n d, denominator = d div gcd_u64 n d\<rparr>"
    by (auto simp: rational_rate_new_def Let_def split: if_splits)
  let ?g = "gcd (unat n) (unat d)"
  have pos: "0 < unat n" "0 < unat d" using nz by (simp_all add: unat_gt_0)
  have num: "unat (numerator r) = unat n div ?g" and den: "unat (denominator r) = unat d div ?g"
    by (simp_all add: r unat_div gcd_u64_eq)
  have "unat n div ?g * unat d = unat n * (unat d div ?g)"
    by (simp add: div_mult_swap dvd_div_mult)
  moreover have "0 < unat d div ?g"
    using pos by (simp add: div_greater_zero_iff gcd_le2_nat)
  ultimately show "n \<noteq> 0 \<and> d \<noteq> 0 \<and> coprime (unat (numerator r)) (unat (denominator r)) \<and>
     unat (numerator r) * unat d = unat n * unat (denominator r) \<and> denominator r \<noteq> 0"
    using nz pos num den by (auto simp: div_gcd_coprime unat_gt_0 [symmetric])
next
  assume a: "n \<noteq> 0 \<and> d \<noteq> 0 \<and> coprime (unat (numerator r)) (unat (denominator r)) \<and>
     unat (numerator r) * unat d = unat n * unat (denominator r) \<and> denominator r \<noteq> 0"
  let ?x = "unat (numerator r)" and ?y = "unat (denominator r)"
  define g where "g = unat (gcd_u64 n d)"
  have g: "g = gcd (unat n) (unat d)" by (simp add: g_def gcd_u64_eq)
  have pos: "0 < unat n" "0 < unat d" "0 < ?y" using a by (simp_all add: unat_gt_0)
  then have "0 < g" by (simp add: g)
  have "\<exists>n' d'. unat n = n' * g \<and> unat d = d' * g \<and> coprime n' d'"
    unfolding g by (rule gcd_coprime_exists) (use pos in simp)
  then obtain n' d' where n': "unat n = n' * g" and d': "unat d = d' * g" and cop: "coprime n' d'"
    by blast
  have "?x * d' = ?y * n'" using a n' d' \<open>0 < g\<close> by (simp add: mult_ac)
  moreover have "0 < n'" using pos n' by (cases n') simp_all
  ultimately have "?x = n' \<and> ?y = d'"
    using a cop by (intro lowest_terms_unique) simp_all
  then have "?x = unat (n div gcd_u64 n d)" "?y = unat (d div gcd_u64 n d)"
    using n' d' \<open>0 < g\<close> by (simp_all add: unat_div flip: g_def)
  then have "numerator r = n div gcd_u64 n d" "denominator r = d div gcd_u64 n d"
    by (simp_all add: word_unat_eq_iff)
  then show "rational_rate_new n d = Ok r" using a by (simp add: rational_rate_new_def Let_def)
qed


section \<open>Rounding\<close>

lemma unat_product_128: "unat (ucast (x :: u64) * ucast (y :: u64) :: 128 word) = unat x * unat y"
  using u64_product_fits [of x y] by (simp add: unat_word_ariths)

lemma multiply_divide_floor_Ok:
  "multiply_divide_floor v m d = Ok q \<longleftrightarrow> q \<noteq> 0 \<and> unat q = unat v * unat m div unat d"
  by (auto simp: multiply_divide_floor_def Let_def result_simps checked_simps unat_div unat_product_128)

lemma unat_add_flag:
  assumes "unat (a :: 128 word) + 1 < 2 ^ 128"
  shows "unat (a + (if c then 0 else 1)) = unat a + (if c then 0 else 1)"
  using assms by (simp add: unat_word_ariths)

lemma ceil_div_eq:
  assumes "0 < (d :: nat)"
  shows "n div d + (if n mod d = 0 then 0 else 1) = (n + d - 1) div d"
proof -
  have sum: "n + d - 1 = n mod d + (d - 1) + d * (n div d)"
    using assms mult_div_mod_eq [of d n] by linarith
  have split: "(n + d - 1) div d = n div d + (n mod d + (d - 1)) div d"
    unfolding sum by (rule div_mult_self2) (use assms in simp)
  show ?thesis
  proof (cases "n mod d = 0")
    case True
    then show ?thesis using assms by (simp only: split) simp
  next
    case False
    then have "(n mod d + (d - 1)) div d = 1"
      using assms mod_less_divisor [OF assms, of n] by (intro div_nat_eqI) simp_all
    then show ?thesis using False by (simp only: split) simp
  qed
qed

lemma multiply_divide_ceil_Ok:
  assumes "d \<noteq> 0"
  shows "multiply_divide_ceil v m d = Ok q \<longleftrightarrow>
    q \<noteq> 0 \<and> unat q = (unat v * unat m + unat d - 1) div unat d"
proof -
  let ?p = "ucast v * ucast m :: 128 word" and ?n = "unat v * unat m"
  have d: "0 < unat d" using assms by (simp add: unat_gt_0)
  have q: "unat (?p div ucast d) = ?n div unat d" and
    zero: "?p mod ucast d = 0 \<longleftrightarrow> ?n mod unat d = 0"
    by (simp_all add: word_unat_eq_iff unat_mod unat_div unat_product_128)
  have "?n div unat d + 1 < 2 ^ 128"
    using u64_product_fits [of v m] div_le_dividend [of ?n "unat d"] by linarith
  then have "unat (?p div ucast d + (if ?p mod ucast d = 0 then 0 else 1)) = (?n + unat d - 1) div unat d"
    using q zero d by (simp only: unat_add_flag ceil_div_eq)
  then show ?thesis
    by (auto simp: multiply_divide_ceil_def Let_def result_simps checked_simps)
qed


section \<open>Executions\<close>

text \<open>
  What an execution promises: the fee is within the taker's bound; on the exact side the amount
  is the requested one and on the other side it is the floor (output) or ceiling (input) of the
  exact rational price, within the taker's guard.
\<close>

definition execution_ok :: "FirmQuoteRequest \<Rightarrow> PricingDecision \<Rightarrow> QuoteExecution \<Rightarrow> bool" where
  "execution_ok request pricing x \<longleftrightarrow>
     (let rate = pricing_rate pricing; fee = unat (execution_venue_fee x);
          inp = unat (aa_amount (execution_input x)); out = unat (aa_amount (execution_output x));
          n = unat (numerator rate); d = unat (denominator rate) in
      execution_venue_fee x \<le> maximum_input_asset_venue_fee request \<and>
      kind_pair (request_kind request) = (aa_asset (execution_input x), aa_asset (execution_output x)) \<and>
      0 < out \<and> fee < inp \<and> out * d \<le> (inp - fee) * n \<and>
      (case request_kind request of
         ExactIn i _ minimum_output \<Rightarrow>
           execution_input x = i \<and> unat minimum_output \<le> out \<and> (inp - fee) * n < (out + 1) * d
       | ExactOut _ maximum_input o' \<Rightarrow>
           execution_output x = o' \<and> inp \<le> unat maximum_input \<and> (inp - fee - 1) * n < out * d))"

lemma gcd_u64_1: "gcd_u64 a b = 1 \<longleftrightarrow> coprime (unat a) (unat b)"
  by (simp add: word_unat_eq_iff gcd_u64_eq coprime_iff_gcd_eq_1)

lemma pricing_validate_Ok:
  "pricing_validate p = Ok () \<longleftrightarrow> numerator (pricing_rate p) \<noteq> 0 \<and> denominator (pricing_rate p) \<noteq> 0 \<and>
     coprime (unat (numerator (pricing_rate p))) (unat (denominator (pricing_rate p)))"
  by (auto simp: pricing_validate_def gcd_u64_1)

lemma execution_amounts_floor:
  assumes "execution_amounts (ExactIn i asset lo) p = Ok (inp, out)" and d: "denominator (pricing_rate p) \<noteq> 0"
  shows "inp = i \<and> aa_asset out = asset \<and> lo \<le> aa_amount out \<and> 0 < unat (aa_amount out) \<and>
    unat (pricing_venue_fee p) < unat (aa_amount inp) \<and>
    unat (aa_amount out) = (unat (aa_amount inp) - unat (pricing_venue_fee p)) *
      unat (numerator (pricing_rate p)) div unat (denominator (pricing_rate p))"
  using assms
  by (auto simp: execution_amounts_def Let_def result_simps nonzero_sub_def asset_amount_new_def
      multiply_divide_floor_Ok checked_simps unat_gt_0 split: option.splits if_splits)
    (metis diff_is_0_eq leI unat_eq_zero)

lemma execution_amounts_ceil:
  assumes "execution_amounts (ExactOut asset hi o') p = Ok (inp, out)" and n: "numerator (pricing_rate p) \<noteq> 0"
  shows "out = o' \<and> aa_asset inp = asset \<and> aa_amount inp \<le> hi \<and>
    (\<exists>priced. 0 < priced \<and> unat (aa_amount inp) = priced + unat (pricing_venue_fee p) \<and>
      priced = (unat (aa_amount out) * unat (denominator (pricing_rate p)) +
        unat (numerator (pricing_rate p)) - 1) div unat (numerator (pricing_rate p)))"
  using assms
  by (auto simp: execution_amounts_def Let_def result_simps asset_amount_new_def
      multiply_divide_ceil_Ok [OF n] checked_simps not_less split: if_splits)
    (metis gr0I unat_eq_zero)

lemma floor_bounds:
  assumes "0 < (d :: nat)" "q = m div d"
  shows "q * d \<le> m" "m < (q + 1) * d"
  using assms dividend_less_div_times [of d m] by (simp_all add: algebra_simps)

lemma ceil_bounds:
  assumes "0 < (d :: nat)" "q = (m + d - 1) div d" "0 < q"
  shows "m \<le> q * d" "(q - 1) * d < m"
proof -
  have lo: "q * d \<le> m + d - 1" and hi: "m + d - 1 < (q + 1) * d"
    using floor_bounds [OF assms(1,2)] by simp_all
  have "(q - 1) * d + d = q * d" using assms(3) by (cases q) simp_all
  then show "m \<le> q * d" "(q - 1) * d < m" using lo hi assms(1) by simp_all
qed

lemma request_validate_Ok:
  "request_validate u r = Ok () \<Longrightarrow>
     (case kind_bounds (request_kind r) of (i, ib, out, ob) \<Rightarrow> i \<noteq> out \<and> ib \<noteq> 0 \<and> ob \<noteq> 0)"
  by (auto simp: request_validate_def kind_validate_def result_simps split: prod.splits if_splits)

text \<open>C21.  Whatever decision the pricing policy returns, a calculated execution stays within the
  taker's fee bound and economic guard, uses the requested pair, is inside the configured ranges,
  and rounds by less than one unit in the provider's favour: an exact-input quote pays the floor of
  the exact price and an exact-output quote charges the ceiling.\<close>

theorem execution_within_guards:
  assumes "calculate_execution unspendable request pricing limits = Ok x"
  shows "execution_ok request pricing x \<and>
    range_contains (limits_input limits) (aa_amount (execution_input x)) \<and>
    range_contains (limits_output limits) (aa_amount (execution_output x))"
proof -
  from assms obtain inp out where amounts: "execution_amounts (request_kind request) pricing = Ok (inp, out)"
    and x: "x = \<lparr>execution_input = inp, execution_output = out, execution_venue_fee = pricing_venue_fee pricing\<rparr>"
    and valid: "request_validate unspendable request = Ok ()" "pricing_validate pricing = Ok ()"
    and fee: "pricing_venue_fee pricing \<le> maximum_input_asset_venue_fee request"
    and ranges: "range_contains (limits_input limits) (aa_amount inp)"
      "range_contains (limits_output limits) (aa_amount out)"
    by (auto simp: calculate_execution_def result_simps not_less)
  have n: "numerator (pricing_rate pricing) \<noteq> 0" and d: "denominator (pricing_rate pricing) \<noteq> 0"
    using valid(2) by (simp_all add: pricing_validate_Ok)
  then have pos: "0 < unat (numerator (pricing_rate pricing))" "0 < unat (denominator (pricing_rate pricing))"
    by (simp_all add: unat_gt_0)
  have "execution_ok request pricing x"
  proof (cases "request_kind request")
    case (ExactIn i asset lo)
    note facts = execution_amounts_floor [OF amounts [unfolded ExactIn] d]
    then have out: "unat (aa_amount out) = (unat (aa_amount inp) - unat (pricing_venue_fee pricing)) *
        unat (numerator (pricing_rate pricing)) div unat (denominator (pricing_rate pricing))"
      and rest: "inp = i" "aa_asset out = asset" "lo \<le> aa_amount out" "0 < unat (aa_amount out)"
        "unat (pricing_venue_fee pricing) < unat (aa_amount inp)" by blast+
    show ?thesis
      using fee rest floor_bounds [OF pos(2) out] by (simp add: execution_ok_def Let_def x ExactIn kind_pair_def word_le_nat_alt)
  next
    case (ExactOut asset hi o')
    note facts = execution_amounts_ceil [OF amounts [unfolded ExactOut] n]
    then obtain priced where priced: "0 < priced" "unat (aa_amount inp) = priced + unat (pricing_venue_fee pricing)"
      "priced = (unat (aa_amount out) * unat (denominator (pricing_rate pricing)) +
        unat (numerator (pricing_rate pricing)) - 1) div unat (numerator (pricing_rate pricing))" by blast
    from facts have rest: "out = o'" "aa_asset inp = asset" "aa_amount inp \<le> hi" by blast+
    have "0 < unat (aa_amount out)"
      using request_validate_Ok [OF valid(1)] facts by (simp add: ExactOut kind_bounds_def unat_gt_0)
    then show ?thesis
      using fee rest priced(1,2) ceil_bounds [OF pos(1) priced(3,1)]
      by (simp add: execution_ok_def Let_def x ExactOut kind_pair_def word_le_nat_alt)
  qed
  with ranges show ?thesis by (simp add: x)
qed

definition ex_priced_request :: FirmQuoteRequest where
  "ex_priced_request = \<lparr>request_context = \<lparr>context_chain = \<lparr>network = LiquidTestnet, chain_genesis_hash = [1]\<rparr>,
       context_market = ContractId (OutPoint [2] 0), context_policy_asset = [3]\<rparr>,
     request_kind = ExactIn \<lparr>aa_asset = [4], aa_amount = 100\<rparr> [5] 60,
     request_recipient = \<lparr>recipient_script = [0x51], recipient_blinding_key = [6]\<rparr>,
     maximum_input_asset_venue_fee = 3\<rparr>"

definition ex_priced_decision :: PricingDecision where
  "ex_priced_decision = \<lparr>pricing_rate = \<lparr>numerator = 2, denominator = 3\<rparr>, pricing_venue_fee = 2,
     pricing_policy_id = [7], pricing_revision = 1\<rparr>"

definition ex_limits :: PairLimits where
  "ex_limits = launch_default \<lparr>range_minimum = 1, range_maximum = 1000\<rparr>
     \<lparr>range_minimum = 1, range_maximum = 1000\<rparr>"

definition ex_priced_execution :: QuoteExecution where
  "ex_priced_execution = \<lparr>execution_input = \<lparr>aa_asset = [4], aa_amount = 100\<rparr>,
     execution_output = \<lparr>aa_asset = [5], aa_amount = 65\<rparr>, execution_venue_fee = 2\<rparr>"

lemma ex_calculated:
  "calculate_execution (\<lambda>_. False) ex_priced_request ex_priced_decision ex_limits = Ok ex_priced_execution"
proof -
  have "pricing_validate ex_priced_decision = Ok ()"
    by (simp add: pricing_validate_Ok ex_priced_decision_def)
  moreover have "request_validate (\<lambda>_. False) ex_priced_request = Ok ()"
    by (simp add: request_validate_def ex_priced_request_def kind_validate_def kind_bounds_def
        recipient_validate_def MAX_QUOTE_RECIPIENT_SCRIPT_BYTES_def)
  moreover have "multiply_divide_floor 98 2 3 = Ok 65"
    by (simp add: multiply_divide_floor_Ok)
  ultimately show ?thesis
    by (simp add: calculate_execution_def execution_amounts_def nonzero_sub_def checked_sub_def
        asset_amount_new_def ex_priced_request_def ex_priced_decision_def ex_limits_def ex_priced_execution_def
        launch_default_def range_contains_def)
qed

theorem execution_within_guards_witness:
  "execution_ok ex_priced_request ex_priced_decision ex_priced_execution \<and>
   range_contains (limits_output ex_limits) (aa_amount (execution_output ex_priced_execution))"
  using execution_within_guards [OF ex_calculated] by blast

end
