(* ===== verification/Rfq_Selection_Props.thy ===== *)
theory Rfq_Selection_Props
  imports Rfq_Selection "HOL-Library.Sublist"
begin

text \<open>Soundness and completeness of inventory selection.\<close>

section \<open>Extremal sums of subsequences of a descending list\<close>

abbreviation descending :: "nat list \<Rightarrow> bool" where
  "descending xs \<equiv> sorted_wrt (\<ge>) xs"

lemma sum_take_shift:
  "descending (x # xs) \<Longrightarrow> sum_list (take n xs) \<le> sum_list (take n (x # xs))"
proof (cases n)
  case (Suc m)
  assume desc: "descending (x # xs)"
  show ?thesis
  proof (cases "m < length xs")
    case True
    then have "xs ! m \<le> x" using desc by simp
    then show ?thesis using True Suc by (simp add: take_Suc_conv_app_nth)
  qed (simp add: Suc)
qed simp

lemma subseq_sum_upper:
  "subseq ys xs \<Longrightarrow> descending xs \<Longrightarrow> sum_list ys \<le> sum_list (take (length ys) xs)"
proof (induction rule: list_emb.induct)
  case (list_emb_Cons xs ys y)
  have "sum_list xs \<le> sum_list (take (length xs) ys)"
    using list_emb_Cons by simp
  also have "\<dots> \<le> sum_list (take (length xs) (y # ys))"
    by (rule sum_take_shift [OF list_emb_Cons.prems])
  finally show ?case .
qed simp_all

lemma subseq_sum_lower:
  "subseq ys xs \<Longrightarrow> descending xs \<Longrightarrow> sum_list (drop (length xs - length ys) xs) \<le> sum_list ys"
proof (induction rule: list_emb.induct)
  case (list_emb_Cons xs ys y)
  then show ?case using list_emb_length [of "(=)" xs ys] by (simp add: Suc_diff_le)
next
  case (list_emb_Cons2 x y xs ys)
  let ?d = "length ys - length xs"
  have le: "length xs \<le> length ys" using list_emb_Cons2 list_emb_length by auto
  show ?case
  proof (cases ?d)
    case 0
    then have "xs = ys" using list_emb_Cons2.hyps le by (simp add: subseq_same_length)
    then show ?thesis using list_emb_Cons2.hyps by simp
  next
    case (Suc e)
    then have e: "e < length ys" by simp
    then have "ys ! e \<le> y" using list_emb_Cons2.prems by simp
    moreover have "drop e ys = ys ! e # drop (Suc e) ys" using e by (rule Cons_nth_drop_Suc [symmetric])
    moreover have "sum_list (drop (Suc e) ys) \<le> sum_list xs"
      using list_emb_Cons2.IH list_emb_Cons2.prems Suc by simp
    ultimately show ?thesis using list_emb_Cons2.hyps Suc by simp
  qed
qed simp

lemma subseq_mset: "subseq ys xs \<Longrightarrow> mset ys \<subseteq># mset xs"
  by (induction rule: list_emb.induct) (auto intro: subset_mset.order_trans)

lemma mset_subset_subseq:
  "mset ys \<subseteq># mset xs \<Longrightarrow> \<exists>zs. subseq zs xs \<and> mset zs = mset ys"
proof (induction xs arbitrary: ys)
  case (Cons x xs)
  show ?case
  proof (cases "x \<in> set ys")
    case True
    then have "mset (remove1 x ys) \<subseteq># mset xs"
      using Cons.prems by (simp add: subset_eq_diff_conv)
    then obtain zs where "subseq zs xs" "mset zs = mset (remove1 x ys)" using Cons.IH by blast
    then show ?thesis using True by (intro exI [of _ "x # zs"]) simp
  next
    case False
    then have "mset ys \<subseteq># mset xs"
      using Cons.prems by (simp add: inter_add_right1 subset_mset.inf.absorb_iff1)
    then show ?thesis using Cons.IH by (blast intro: list_emb_Cons)
  qed
qed simp


section \<open>The subset search\<close>

abbreviation sorted_outputs :: "WalletOwnedOutput list \<Rightarrow> bool" where
  "sorted_outputs outs \<equiv> sorted_wrt (\<lambda>a b. out_amount b \<le> out_amount a) outs"

lemma descending_amounts: "sorted_outputs outs \<Longrightarrow> descending (map (\<lambda>o'. unat (out_amount o')) outs)"
  by (simp add: sorted_wrt_map word_le_nat_alt)

lemma amount_sum_simps [simp]:
  "amount_sum [] = 0"
  "amount_sum (o' # outs) = unat (out_amount o') + amount_sum outs"
  "amount_sum (outs @ outs') = amount_sum outs + amount_sum outs'"
  by (simp_all add: amount_sum_def)

lemma amount_sum_mset: "mset outs = mset outs' \<Longrightarrow> amount_sum outs = amount_sum outs'"
  unfolding amount_sum_def sum_mset_sum_list [symmetric] mset_map by simp

lemma amount_sum_upper:
  "subseq ys outs \<Longrightarrow> sorted_outputs outs \<Longrightarrow> amount_sum ys \<le> amount_sum (take (length ys) outs)"
  using subseq_sum_upper [OF subseq_map descending_amounts, of ys outs]
  by (simp add: amount_sum_def take_map)

lemma amount_sum_lower:
  "subseq ys outs \<Longrightarrow> sorted_outputs outs \<Longrightarrow> amount_sum (drop (length outs - length ys) outs) \<le> amount_sum ys"
  using subseq_sum_lower [OF subseq_map descending_amounts, of ys outs]
  by (simp add: amount_sum_def drop_map)

declare visit.simps [simp del] visit_loop.simps [simp del]

lemma visit_loop_elim:
  assumes "visit_loop cands required index k acc selected previous nodes = res"
    and "index \<le> length cands - Suc k"
  obtains (same) "previous = Some (out_amount (cands ! index))"
      "visit_loop cands required (Suc index) k acc selected previous nodes = res"
    | (over) "\<forall>s. checked_add acc (out_amount (cands ! index)) = Some s \<longrightarrow> required < s"
      "visit_loop cands required (Suc index) k acc selected (Some (out_amount (cands ! index))) nodes = res"
    | (found) s f rest where "checked_add acc (out_amount (cands ! index)) = Some s"
      "visit cands required (Suc index) k s (selected @ [cands ! index]) nodes = (Some f, rest)"
      "res = (Some f, rest)"
    | (exhausted) nodes' where "res = (None, nodes', True)"
    | (refuted) s nodes' where "checked_add acc (out_amount (cands ! index)) = Some s"
      "visit cands required (Suc index) k s (selected @ [cands ! index]) nodes = (None, nodes', False)"
      "visit_loop cands required (Suc index) k acc selected (Some (out_amount (cands ! index))) nodes' = res"
proof -
  let ?o = "cands ! index"
  note res = assms(1) [unfolded visit_loop.simps [of cands required index]]
  show thesis
  proof (cases "previous = Some (out_amount ?o) \<or> (\<forall>s. checked_add acc (out_amount ?o) = Some s \<longrightarrow> required < s)")
    case True
    then show thesis
      using res assms(2) same over by (cases "checked_add acc (out_amount ?o)") (auto simp: Let_def split: if_splits)
  next
    case False
    then obtain s where s: "previous \<noteq> Some (out_amount ?o)" "checked_add acc (out_amount ?o) = Some s" "s \<le> required"
      by auto
    obtain r n e where v: "visit cands required (Suc index) k s (selected @ [?o]) nodes = (r, n, e)"
      by (metis prod_cases3)
    then show thesis
      using res assms(2) s found [OF s(2)] refuted [OF s(2)] exhausted [of n]
      by (cases r; cases e) (auto simp: Let_def)
  qed
qed

text \<open>A subset of the candidates from \<open>start\<close> on that completes the partial sum.\<close>

definition completes ::
    "WalletOwnedOutput list \<Rightarrow> u64 \<Rightarrow> nat \<Rightarrow> nat \<Rightarrow> u64 \<Rightarrow> WalletOwnedOutput list \<Rightarrow> bool" where
  "completes cands required start slots acc ys \<longleftrightarrow>
     subseq ys (drop start cands) \<and> length ys = slots \<and> unat acc + amount_sum ys = unat required"

lemma completes_Suc:
  assumes "index < length cands"
  shows "completes cands required index (Suc k) acc ys \<longleftrightarrow>
      completes cands required (Suc index) (Suc k) acc ys \<or>
      (\<exists>zs. ys = cands ! index # zs \<and> subseq zs (drop (Suc index) cands) \<and> length zs = k \<and>
         unat acc + unat (out_amount (cands ! index)) + amount_sum zs = unat required)"
proof -
  have drop: "drop index cands = cands ! index # drop (Suc index) cands"
    using assms by (rule Cons_nth_drop_Suc [symmetric])
  show ?thesis
    unfolding completes_def drop
    by (cases ys) (auto simp: subseq_Cons2_iff dest: subseq_Cons')
qed

lemma visit_loop_sound:
  assumes "\<And>start acc selected nodes found rest.
      visit cands required start k acc selected nodes = (Some found, rest) \<Longrightarrow>
      \<exists>ys. found = selected @ ys \<and> completes cands required start k acc ys"
    and "visit_loop cands required index k acc selected previous nodes = (Some found, rest)"
    and "Suc k \<le> length cands"
  shows "\<exists>ys. found = selected @ ys \<and> completes cands required index (Suc k) acc ys"
  using assms(2,3)
proof (induction "length cands - index" arbitrary: index previous nodes rule: less_induct)
  case less
  have bound: "index \<le> length cands - Suc k"
    using less.prems by (subst (asm) visit_loop.simps) (auto split: if_splits)
  then have index: "index < length cands" using less.prems by linarith
  have skip: ?case if "visit_loop cands required (Suc index) k acc selected p n = (Some found, rest)" for p n
    using less.hyps [of "Suc index" p n] that less.prems(2) index
    unfolding completes_Suc [OF index] by (meson diff_less_mono2 lessI)
  from less.prems(1) bound show ?case
  proof (cases rule: visit_loop_elim)
    case (found s f rest')
    with assms(1) [OF found(2)] show ?thesis
      by (auto simp: completes_Suc [OF index] checked_simps) (auto simp: completes_def)
  qed (auto intro: skip)
qed

lemma visit_sound:
  "visit cands required start slots acc selected nodes = (Some found, rest) \<Longrightarrow>
     \<exists>ys. found = selected @ ys \<and> completes cands required start slots acc ys"
proof (induction slots arbitrary: start acc selected nodes found rest)
  case 0
  then show ?case
    by (subst (asm) visit.simps) (auto simp: completes_def split: if_splits)
next
  case (Suc k)
  then show ?case
    by (intro visit_loop_sound [where nodes = "nodes - 1" and previous = None and rest = rest])
      (auto simp: visit.simps [of _ _ _ "Suc k"] Let_def split: if_splits)
qed

lemma visit_loop_complete:
  assumes "\<And>start acc selected nodes nodes' ys.
      visit cands required start k acc selected nodes = (None, nodes', False) \<Longrightarrow>
      \<not> completes cands required start k acc ys"
    and "visit_loop cands required index k acc selected previous nodes = (None, nodes', False)"
    and "\<And>a zs. previous = Some a \<Longrightarrow> subseq zs (drop index cands) \<Longrightarrow> length zs = k \<Longrightarrow>
      unat acc + unat a + amount_sum zs \<noteq> unat required"
  shows "\<not> completes cands required index (Suc k) acc ys"
  using assms(2,3)
proof (induction "length cands - index" arbitrary: index previous nodes rule: less_induct)
  case less
  show ?case
  proof (cases "index < length cands \<and> index \<le> length cands - Suc k")
    case False
    then show ?thesis
      by (auto simp: completes_def dest: list_emb_length)
  next
    case True
    then have index: "index < length cands" and bound: "index \<le> length cands - Suc k" by simp_all
    let ?o = "cands ! index"
    have step: ?thesis
      if "visit_loop cands required (Suc index) k acc selected p n = (None, nodes', False)"
        and "p = Some (out_amount ?o)"
        and "\<And>zs. subseq zs (drop (Suc index) cands) \<Longrightarrow> length zs = k \<Longrightarrow>
          unat acc + unat (out_amount ?o) + amount_sum zs \<noteq> unat required" for p n
      using less.hyps [of "Suc index" p n] that index
      unfolding completes_Suc [OF index] by (metis diff_less_mono2 lessI option.inject)
    from less.prems(1) bound show ?thesis
    proof (cases rule: visit_loop_elim)
      case same
      have "subseq zs (drop index cands)" if "subseq zs (drop (Suc index) cands)" for zs
        using that Cons_nth_drop_Suc [OF index] by (metis list_emb_Cons)
      then show ?thesis using same less.prems(2) [OF same(1)] by (intro step) blast+
    next
      case over
      then have "unat required < unat acc + unat (out_amount ?o)"
        using unat_less_pow [of required]
        by (cases "checked_add acc (out_amount ?o)")
          (auto simp: checked_simps checked_add_eq_None word_less_nat_alt)
      then show ?thesis using over by (intro step) auto
    next
      case (refuted s n)
      then show ?thesis
        using assms(1) [OF refuted(2)] by (intro step) (auto simp: completes_def checked_simps)
    qed simp_all
  qed
qed

lemma visit_complete:
  assumes sorted: "sorted_outputs cands" and pos: "\<forall>o' \<in> set cands. 0 < out_amount o'"
  shows "visit cands required start slots acc selected nodes = (None, nodes', False) \<Longrightarrow>
     \<not> completes cands required start slots acc ys"
proof (induction slots arbitrary: start acc selected nodes nodes' ys)
  case 0
  then show ?case
    by (subst (asm) visit.simps) (auto simp: completes_def word_unat_eq_iff split: if_splits)
next
  case (Suc k)
  show ?case
  proof
    assume c: "completes cands required start (Suc k) acc ys"
    then have ys: "subseq ys (drop start cands)" "length ys = Suc k"
      and eq: "unat acc + amount_sum ys = unat required" by (simp_all add: completes_def)
    have len: "Suc k \<le> length cands - start" using list_emb_length [OF ys(1)] ys(2) by simp
    have sorted': "sorted_outputs (drop start cands)" using sorted by (rule sorted_wrt_drop)
    have upper: "amount_sum ys \<le> amount_sum (take (Suc k) (drop start cands))"
      using amount_sum_upper [OF ys(1) sorted'] ys(2) by simp
    have lower: "amount_sum (drop (length cands - Suc k) cands) \<le> amount_sum ys"
      using amount_sum_lower [OF ys(1) sorted'] ys(2) len by simp
    have "hd ys \<in> set ys" using ys(2) by (cases ys) simp_all
    from list_emb_set [OF ys(1) this] have "hd ys \<in> set cands" by (metis in_set_dropD)
    then have "0 < amount_sum ys" using pos ys(2) by (cases ys) (auto simp: unat_gt_0)
    then have need: "acc < required" "unat (required - acc) = amount_sum ys"
      using eq by (simp_all add: word_less_nat_alt unat_sub word_le_nat_alt)
    have "visit_loop cands required start k acc selected None (nodes - 1) = (None, nodes', False)"
      using Suc.prems len need upper lower
      unfolding visit.simps [of cands required start "Suc k"] Let_def
      by (auto simp: not_le split: if_splits)
    with visit_loop_complete [where k = k and ys = ys, OF Suc.IH this] c show False by simp
  qed
qed

lemma find_subset_sound:
  "find_subset cands required cs nodes = Ok (Some found) \<Longrightarrow>
     \<exists>c \<in> set cs. completes cands required 0 c 0 found"
proof (induction cands required cs nodes rule: find_subset.induct)
  case (2 cands required c cs nodes)
  obtain r n e where v: "visit cands required 0 c 0 [] nodes = (r, n, e)" by (metis prod_cases3)
  show ?case
  proof (cases r)
    case None
    then show ?thesis using 2 v by (auto split: if_splits)
  next
    case (Some f)
    then show ?thesis using "2.prems" v visit_sound [of cands required 0 c 0 "[]" nodes f "(n, e)"] by auto
  qed
qed simp

lemma find_subset_complete:
  assumes "sorted_outputs cands" "\<forall>o' \<in> set cands. 0 < out_amount o'"
  shows "find_subset cands required cs nodes = Ok None \<Longrightarrow> c \<in> set cs \<Longrightarrow>
     \<not> completes cands required 0 c 0 ys"
  using assms
proof (induction cands required cs nodes rule: find_subset.induct)
  case (2 cands required c' cs nodes)
  obtain r n e where v: "visit cands required 0 c' 0 [] nodes = (r, n, e)" by (metis prod_cases3)
  then have "r = None" "\<not> e" "find_subset cands required cs n = Ok None"
    using "2.prems"(1) by (auto split: option.splits if_splits)
  then show ?case
    using "2.IH" [OF v [symmetric]] "2.prems" visit_complete [of cands required 0 c' 0 "[]" nodes n ys] v by auto
qed simp


section \<open>Totals and the greedy prefix\<close>

definition admissible_total :: "nat \<Rightarrow> u64 \<Rightarrow> PairLimits \<Rightarrow> bool" where
  "admissible_total tot required limits \<longleftrightarrow>
     tot = unat required \<or> tot \<ge> unat required + unat (minimum_positive_change limits)"

lemma valid_selected_total_eq:
  "valid_selected_total tot required limits \<longleftrightarrow> admissible_total (unat tot) required limits"
  by (auto simp: valid_selected_total_def admissible_total_def checked_sub_def
      word_le_nat_alt word_unat_eq_iff unat_sub)

lemma checked_total_Ok: "checked_total outs = Ok tot \<Longrightarrow> unat tot = amount_sum outs"
proof -
  have "rfold (\<lambda>o' tot. ok_or (checked_add tot (out_amount o')) QuoteAmountOverflow) outs start = Ok tot \<Longrightarrow>
      unat tot = unat start + amount_sum outs" for start
    by (induction outs arbitrary: start) (auto simp: result_simps checked_simps)
  from this [of 0] show "checked_total outs = Ok tot \<Longrightarrow> unat tot = amount_sum outs"
    by (simp add: checked_total_def)
qed

lemma greedy_sound:
  "greedy outs required limits selected tot = Ok (GreedyFound found) \<Longrightarrow>
   unat tot = amount_sum selected \<Longrightarrow> length selected \<le> maximum_provider_inputs limits \<Longrightarrow>
     \<exists>ys zs. outs = ys @ zs \<and> ys \<noteq> [] \<and> found = sort_key out_outpoint (selected @ ys) \<and>
       length (selected @ ys) \<le> maximum_provider_inputs limits \<and>
       admissible_total (amount_sum (selected @ ys)) required limits"
proof (induction outs required limits selected tot rule: greedy.induct)
  case (2 out outs required limits selected tot)
  then obtain tot' where room: "length selected < maximum_provider_inputs limits"
    and tot': "checked_add tot (out_amount out) = Some tot'"
    by (auto simp: result_simps split: if_splits)
  then have sum: "unat tot' = amount_sum (selected @ [out])"
    using "2.prems" by (simp add: checked_simps)
  show ?case
  proof (cases "valid_selected_total tot' required limits")
    case True
    then show ?thesis
      using "2.prems" room tot' sum
      by (intro exI [of _ "[out]"] exI [of _ outs]) (auto simp: valid_selected_total_eq)
  next
    case False
    then obtain ys zs where "outs = ys @ zs" "found = sort_key out_outpoint ((selected @ [out]) @ ys)"
      "length ((selected @ [out]) @ ys) \<le> maximum_provider_inputs limits"
      "admissible_total (amount_sum ((selected @ [out]) @ ys)) required limits"
      using "2.IH" [of tot'] "2.prems" room tot' sum by auto
    then show ?thesis
      by (intro exI [of _ "out # ys"] exI [of _ zs]) simp
  qed
qed simp

lemma greedy_total:
  "greedy outs required limits selected tot = Ok (GreedyTotal t) \<Longrightarrow>
   unat tot = amount_sum selected \<Longrightarrow> length selected \<le> maximum_provider_inputs limits \<Longrightarrow>
   \<not> admissible_total (unat tot) required limits \<Longrightarrow>
     unat t = amount_sum (selected @ take (maximum_provider_inputs limits - length selected) outs) \<and>
     \<not> admissible_total (unat t) required limits"
proof (induction outs required limits selected tot rule: greedy.induct)
  case (2 out outs required limits selected tot)
  show ?case
  proof (cases "length selected = maximum_provider_inputs limits")
    case False
    then obtain tot' where tot': "checked_add tot (out_amount out) = Some tot'"
      "\<not> valid_selected_total tot' required limits"
      "greedy outs required limits (selected @ [out]) tot' = Ok (GreedyTotal t)"
      using "2.prems" by (auto simp: result_simps split: if_splits)
    then have "unat tot' = amount_sum (selected @ [out])"
      using "2.prems" by (simp add: checked_simps)
    then have "unat t = amount_sum ((selected @ [out]) @
        take (maximum_provider_inputs limits - Suc (length selected)) outs)"
      "\<not> admissible_total (unat t) required limits"
      using "2.IH" [OF False tot'(2,3)] "2.prems"(2,3) tot'(2) False
      by (auto simp: valid_selected_total_eq)
    then show ?thesis using False "2.prems"(3) by (simp add: take_Cons')
  qed (use "2.prems" in simp)
qed simp


section \<open>Selections\<close>

definition admissible_selection ::
    "WalletOwnedOutput list \<Rightarrow> asset_id \<Rightarrow> u64 \<Rightarrow> PairLimits \<Rightarrow> WalletOwnedOutput list \<Rightarrow> bool" where
  "admissible_selection eligible asset required limits sel \<longleftrightarrow>
     sel \<noteq> [] \<and> length sel \<le> maximum_provider_inputs limits \<and>
     mset sel \<subseteq># mset (filter (\<lambda>o'. item_asset (owned_item o') = asset) eligible) \<and>
     admissible_total (amount_sum sel) required limits"

abbreviation candidates_of :: "WalletOwnedOutput list \<Rightarrow> asset_id \<Rightarrow> WalletOwnedOutput list" where
  "candidates_of eligible asset \<equiv>
     sort_key out_outpoint (filter (\<lambda>o'. item_asset (owned_item o') = asset) eligible)"

lemma admissible_selectionI:
  assumes "sel \<noteq> []" "length sel \<le> maximum_provider_inputs limits"
    and "mset sel \<subseteq># mset (candidates_of eligible asset)"
    and "admissible_total (amount_sum sel) required limits"
  shows "admissible_selection eligible asset required limits sel"
  using assms by (simp add: admissible_selection_def)

lemma sorted_sort_descending: "sorted_outputs (sort_descending outs)"
proof -
  have "sorted (map (\<lambda>o'. - uint (out_amount o')) (sort_descending outs))"
    unfolding sort_descending_def by (rule sorted_sort_key)
  then show ?thesis
    by (rule sorted_wrt_mono_rel [rotated, OF sorted_map [THEN iffD1]]) (simp add: word_le_def)
qed

lemma mset_sort_descending [simp]: "mset (sort_descending outs) = mset outs"
  by (simp add: sort_descending_def)

lemma sort_key_Nil [simp]: "sort_key f xs = [] \<longleftrightarrow> xs = []"
  by (metis length_0_conv length_sort)

lemma list_get_mem: "list_get xs i = Some x \<Longrightarrow> x \<in> set xs"
  by (auto simp: list_get_def split: if_splits)

lemma find_SomeD:
  assumes "find P xs = Some x"
  shows "x \<in> set xs" "P x"
  using assms by (auto simp: find_Some_iff)

lemma best_singleton_Some:
  "best_singleton cands required limits = Some o' \<Longrightarrow>
     o' \<in> set cands \<and> valid_selected_total (out_amount o') required limits"
  unfolding best_singleton_def by (drule list_get_mem) simp

lemma select_inventory_cases:
  assumes "select_inventory eligible asset required limits = Ok sel"
  obtains o' where "o' \<in> set (candidates_of eligible asset)" "sel = [o']"
      "valid_selected_total (out_amount o') required limits"
    | "greedy (sort_descending (candidates_of eligible asset)) required limits [] 0 = Ok (GreedyFound sel)"
    | exact where
      "exact_subset_search (filter (\<lambda>o'. out_amount o' \<le> required)
         (sort_descending (candidates_of eligible asset))) required
         (maximum_provider_inputs limits) (selection_search_node_budget limits) = Ok (Some exact)"
      "sel = sort_key out_outpoint exact"
proof -
  let ?C = "candidates_of eligible asset"
  consider (exact) o' where "find (\<lambda>o'. out_amount o' = required) ?C = Some o'" "sel = [o']"
    | (single) o' where "best_singleton ?C required limits = Some o'" "sel = [o']"
    | (greedy) "greedy (sort_descending ?C) required limits [] 0 = Ok (GreedyFound sel)"
    | (search) exact where "exact_subset_search (filter (\<lambda>o'. out_amount o' \<le> required) (sort_descending ?C))
        required (maximum_provider_inputs limits) (selection_search_node_budget limits) = Ok (Some exact)"
        "sel = sort_key out_outpoint exact"
    using assms unfolding select_inventory_def Let_def
    by (auto simp: result_simps split: option.split_asm if_split_asm greedy_result.split_asm)
      (metis greedy_result.exhaust)
  then show thesis
  proof cases
    case exact
    from find_SomeD [OF exact(1)] have "o' \<in> set ?C" "out_amount o' = required" by simp_all
    then show thesis using that(1) exact(2) by (simp add: valid_selected_total_def)
  next
    case single
    then show thesis using that(1) best_singleton_Some by blast
  qed (use that in blast)+
qed

lemma select_inventory_admissible:
  assumes "select_inventory eligible asset required limits = Ok sel"
    and "0 < maximum_provider_inputs limits"
  shows "admissible_selection eligible asset required limits sel \<and> sorted (map out_outpoint sel)"
  using assms(1)
proof (cases rule: select_inventory_cases)
  case (1 o')
  then show ?thesis
    using assms(2) by (auto intro!: admissible_selectionI simp: valid_selected_total_eq)
next
  case 2
  from greedy_sound [OF this] obtain ys zs where ys:
    "sort_descending (candidates_of eligible asset) = ys @ zs" "ys \<noteq> []" "sel = sort_key out_outpoint ys"
    "length ys \<le> maximum_provider_inputs limits" "admissible_total (amount_sum ys) required limits"
    by auto
  have "mset ys \<subseteq># mset (candidates_of eligible asset)"
    using arg_cong [OF ys(1), of mset] by simp
  then show ?thesis
    using ys amount_sum_mset [of sel ys] by (auto intro!: admissible_selectionI)
next
  case (3 exact)
  from find_subset_sound [OF 3(1) [unfolded exact_subset_search_def]]
  obtain c where "c \<in> set [2..<Suc (min (maximum_provider_inputs limits) (length (filter
      (\<lambda>o'. out_amount o' \<le> required) (sort_descending (candidates_of eligible asset)))))]"
    "completes (filter (\<lambda>o'. out_amount o' \<le> required) (sort_descending (candidates_of eligible asset)))
       required 0 c 0 exact" by blast
  then have c: "2 \<le> c" "c \<le> maximum_provider_inputs limits"
    "completes (filter (\<lambda>o'. out_amount o' \<le> required) (sort_descending (candidates_of eligible asset)))
       required 0 c 0 exact" unfolding set_upt atLeastLessThan_iff by linarith+
  then have "subseq exact (filter (\<lambda>o'. out_amount o' \<le> required) (sort_descending (candidates_of eligible asset)))"
    by (simp add: completes_def)
  then have "subseq exact (sort_descending (candidates_of eligible asset))"
    by (rule subseq_order.trans [OF _ subseq_filter_left])
  then have "mset exact \<subseteq># mset (candidates_of eligible asset)"
    by (rule subseq_mset [THEN subset_mset.ord_le_eq_trans]) (rule mset_sort_descending)
  then show ?thesis
    using c 3(2) amount_sum_mset [of sel exact]
    by (auto intro!: admissible_selectionI simp: completes_def admissible_total_def)
qed

text \<open>C22. A selection holds between one and the maximum number of outputs of the requested asset,
  each at most as often as it is eligible, in outpoint order, and its total is the required amount
  or leaves at least the minimum positive change.\<close>

theorem selection_sound:
  assumes "select_inventory eligible asset required limits = Ok sel"
    and "0 < maximum_provider_inputs limits"
  shows "admissible_selection eligible asset required limits sel \<and> sorted (map out_outpoint sel)"
  by (rule select_inventory_admissible [OF assms])

text \<open>Three outputs of 5, 7 and 9; 12 needs the subset search, and 13 has no exact subset.\<close>

definition ex_output :: "nat \<Rightarrow> WalletOwnedOutput" where
  "ex_output n = \<lparr>owned_txout = \<lparr>out_asset = AssetNull, out_value = ValueNull, out_nonce = NonceNull,
       script_pubkey = [], out_witness = default_txout_witness\<rparr>,
     owned_opening = \<lparr>secret_asset = [4], secret_asset_bf = [], secret_value = of_nat n, secret_value_bf = []\<rparr>,
     owned_item = \<lparr>item_outpoint = OutPoint [of_nat n] 0, item_asset = [4], item_amount = of_nat n,
       item_wallet_locator = [], item_internal_key = [], item_binding = []\<rparr>\<rparr>"

definition ex_inventory :: "WalletOwnedOutput list" where
  "ex_inventory = map ex_output [5, 7, 9]"

definition ex_selection_limits :: PairLimits where
  "ex_selection_limits = \<lparr>limits_input = \<lparr>range_minimum = 1, range_maximum = 100\<rparr>,
     limits_output = \<lparr>range_minimum = 1, range_maximum = 100\<rparr>, maximum_provider_inputs = 3,
     minimum_positive_change = 50, selection_search_node_budget = 100\<rparr>"

lemma ex_output_fields [simp]:
  "item_outpoint (owned_item (ex_output n)) = OutPoint [of_nat n] 0"
  "item_asset (owned_item (ex_output n)) = [4]"
  "item_amount (owned_item (ex_output n)) = of_nat n"
  by (simp_all add: ex_output_def)

lemma ex_candidates: "candidates_of ex_inventory [4] = map ex_output [5, 7, 9]"
  by (simp add: ex_inventory_def sort_key_def less_eq_OutPoint_def)

lemma ex_descending: "sort_descending (map ex_output [5, 7, 9]) = map ex_output [9, 7, 5]"
  by (simp add: sort_descending_def sort_key_def less_eq_OutPoint_def)

lemma ex_no_singleton:
  "best_singleton (map ex_output [5, 7, 9]) 12 ex_selection_limits = None"
  "best_singleton (map ex_output [5, 7, 9]) 13 ex_selection_limits = None"
  by (simp_all add: best_singleton_def valid_selected_total_def checked_sub_def list_get_def
      ex_selection_limits_def)

lemma ex_total: "checked_total (map ex_output [5, 7, 9]) = Ok 21"
  by (simp add: checked_total_def checked_add_def ok_or_def)

lemma ex_greedy:
  "greedy (map ex_output [9, 7, 5]) 12 ex_selection_limits [] 0 = Ok (GreedyTotal 21)"
  "greedy (map ex_output [9, 7, 5]) 13 ex_selection_limits [] 0 = Ok (GreedyTotal 21)"
  by (simp_all add: checked_add_def ok_or_def valid_selected_total_def checked_sub_def
      ex_selection_limits_def)

lemma ex_search:
  "exact_subset_search (map ex_output [9, 7, 5]) 12 3 100 = Ok (Some (map ex_output [7, 5]))"
  "exact_subset_search (map ex_output [9, 7, 5]) 13 3 100 = Ok None"
  by (simp_all add: exact_subset_search_def upt_rec visit.simps visit_loop.simps Let_def
      checked_add_def)

lemma ex_selected:
  "select_inventory ex_inventory [4] 12 ex_selection_limits = Ok [ex_output 5, ex_output 7]"
  unfolding select_inventory_def Let_def ex_candidates ex_descending ex_total ex_greedy ex_no_singleton
  using ex_search(1)
  by (simp add: ex_selection_limits_def sort_key_def less_eq_OutPoint_def)

lemma ex_fragmented:
  "select_inventory ex_inventory [4] 13 ex_selection_limits = Err InventoryTooFragmented"
  unfolding select_inventory_def Let_def ex_candidates ex_descending ex_total ex_greedy ex_no_singleton
  using ex_search(2) by (simp add: ex_selection_limits_def)

theorem selection_sound_witness:
  "admissible_selection ex_inventory [4] 12 ex_selection_limits [ex_output 5, ex_output 7] \<and>
   sorted (map out_outpoint [ex_output 5, ex_output 7])"
  by (rule selection_sound [OF ex_selected]) (simp add: ex_selection_limits_def)

lemma exact_subset_search_Err:
  "exact_subset_search cands required m nodes = Err e \<Longrightarrow> e = SelectionSearchBudgetExceeded"
proof -
  have "find_subset cands required cs nodes = Err e \<Longrightarrow> e = SelectionSearchBudgetExceeded" for cs
    by (induction cands required cs nodes rule: find_subset.induct)
      (auto split: prod.splits option.splits if_splits)
  then show "exact_subset_search cands required m nodes = Err e \<Longrightarrow> e = SelectionSearchBudgetExceeded"
    by (simp add: exact_subset_search_def)
qed

lemma checked_total_Err: "checked_total outs = Err e \<Longrightarrow> e = QuoteAmountOverflow"
proof -
  have "rfold (\<lambda>o' tot. ok_or (checked_add tot (out_amount o')) QuoteAmountOverflow) outs start = Err e \<Longrightarrow>
      e = QuoteAmountOverflow" for start
    by (induction outs arbitrary: start) (auto simp: rbind_eq_Err ok_or_def split: option.split_asm)
  then show "checked_total outs = Err e \<Longrightarrow> e = QuoteAmountOverflow" by (simp add: checked_total_def)
qed

lemma greedy_Err:
  "greedy outs required limits selected tot = Err e \<Longrightarrow> e = QuoteAmountOverflow"
  by (induction outs required limits selected tot rule: greedy.induct)
    (auto simp: rbind_eq_Err ok_or_def split: if_split_asm option.split_asm)

lemma select_inventory_failing_step:
  assumes "select_inventory eligible asset required limits = Err e"
    and "e \<noteq> QuoteAmountOverflow" "e \<noteq> SelectionSearchBudgetExceeded"
  shows "(\<exists>tot. checked_total (candidates_of eligible asset) = Ok tot \<and> tot < required) \<or>
    (\<exists>t. greedy (sort_descending (candidates_of eligible asset)) required limits [] 0 = Ok (GreedyTotal t) \<and>
      (t < required \<or>
       exact_subset_search (filter (\<lambda>o'. out_amount o' \<le> required)
         (sort_descending (candidates_of eligible asset))) required
         (maximum_provider_inputs limits) (selection_search_node_budget limits) = Ok None))"
proof -
  let ?C = "candidates_of eligible asset"
  let ?rest = "\<lambda>g. case g of GreedyFound selected \<Rightarrow> Ok selected
    | GreedyTotal t \<Rightarrow> if t < required then Err InventoryTooFragmented else
        rbind (exact_subset_search (filter (\<lambda>o'. out_amount o' \<le> required) (sort_descending ?C)) required
          (maximum_provider_inputs limits) (selection_search_node_budget limits)) (\<lambda>found.
        case found of Some exact \<Rightarrow> Ok (sort_key out_outpoint exact) | None \<Rightarrow> Err InventoryTooFragmented)"
  have "rbind (checked_total ?C) (\<lambda>tot. if tot < required then Err InsufficientInventory
      else rbind (greedy (sort_descending ?C) required limits [] 0) ?rest) = Err e"
    using assms(1) unfolding select_inventory_def Let_def by (auto split: option.split_asm)
  then consider (total) tot where "checked_total ?C = Ok tot" "tot < required"
    | (greedy) g where "greedy (sort_descending ?C) required limits [] 0 = Ok g" "?rest g = Err e"
    using assms(2)
    by (auto simp: rbind_eq_Err split: if_split_asm dest!: checked_total_Err greedy_Err)
  then show ?thesis
  proof cases
    case greedy
    then show ?thesis
      using assms(3)
      by (cases g) (auto simp: rbind_eq_Err split: if_split_asm option.split_asm
        dest!: exact_subset_search_Err)
  qed blast
qed

text \<open>The failures: nothing covers the amount, or the greedy prefix and the search fail.\<close>

lemma select_inventory_failed:
  assumes "select_inventory eligible asset required limits = Err e"
    and "e \<noteq> QuoteAmountOverflow" "e \<noteq> SelectionSearchBudgetExceeded"
  obtains "amount_sum (candidates_of eligible asset) < unat required"
    | t where "greedy (sort_descending (candidates_of eligible asset)) required limits [] 0 = Ok (GreedyTotal t)"
      "t < required"
    | t where "greedy (sort_descending (candidates_of eligible asset)) required limits [] 0 = Ok (GreedyTotal t)"
      "\<forall>o' \<in> set (candidates_of eligible asset). out_amount o' \<noteq> required"
      "exact_subset_search (filter (\<lambda>o'. out_amount o' \<le> required)
         (sort_descending (candidates_of eligible asset))) required
         (maximum_provider_inputs limits) (selection_search_node_budget limits) = Ok None"
proof -
  let ?C = "candidates_of eligible asset" and ?D = "sort_descending (candidates_of eligible asset)"
  have nofind: "find (\<lambda>o'. out_amount o' = required) ?C = None"
    using assms(1) unfolding select_inventory_def Let_def by (auto split: option.split_asm)
  then have no_exact: "\<forall>o' \<in> set ?C. out_amount o' \<noteq> required" by (simp add: find_None_iff)
  consider (total) tot where "checked_total ?C = Ok tot" "tot < required"
    | (fragmented) t where "greedy ?D required limits [] 0 = Ok (GreedyTotal t)" "t < required"
    | (search) t where "greedy ?D required limits [] 0 = Ok (GreedyTotal t)"
      "exact_subset_search (filter (\<lambda>o'. out_amount o' \<le> required) ?D) required
         (maximum_provider_inputs limits) (selection_search_node_budget limits) = Ok None"
    using select_inventory_failing_step [OF assms] nofind by blast
  then show thesis
  proof cases
    case total
    then show thesis using that(1) checked_total_Ok [of ?C] by (simp add: word_less_nat_alt)
  qed (use that no_exact in blast)+
qed

lemma top_amounts_bound:
  assumes "mset sel \<subseteq># mset outs" "length sel \<le> m"
  shows "amount_sum sel \<le> amount_sum (take m (sort_descending outs))"
proof -
  obtain zs where zs: "subseq zs (sort_descending outs)" "mset zs = mset sel"
    using mset_subset_subseq [of sel "sort_descending outs"] assms(1) by auto
  then have len: "length zs \<le> m" using assms(2) by (metis size_mset)
  have "amount_sum sel = amount_sum zs" using zs(2) by (rule amount_sum_mset [symmetric])
  also have "\<dots> \<le> amount_sum (take (length zs) (sort_descending outs))"
    using zs(1) sorted_sort_descending by (rule amount_sum_upper)
  also have "\<dots> \<le> amount_sum (take m (sort_descending outs))"
    using len by (metis amount_sum_simps(3) le_add1 le_add_diff_inverse take_add)
  finally show ?thesis .
qed

lemma exact_search_complete:
  assumes none: "exact_subset_search (filter (\<lambda>o'. out_amount o' \<le> required) (sort_descending outs))
      required m nodes = Ok None"
    and pos: "\<forall>o' \<in> set outs. 0 < out_amount o'"
    and sel: "mset sel \<subseteq># mset outs" "2 \<le> length sel" "length sel \<le> m"
  shows "amount_sum sel \<noteq> unat required"
proof
  let ?F = "filter (\<lambda>o'. out_amount o' \<le> required) (sort_descending outs)"
  assume eq: "amount_sum sel = unat required"
  have small: "out_amount o' \<le> required" if "o' \<in> set sel" for o'
    using eq split_list [OF that] by (auto simp: word_le_nat_alt)
  then have "filter (\<lambda>o'. out_amount o' \<le> required) sel = sel" by (simp add: filter_id_conv)
  moreover have "mset (filter (\<lambda>o'. out_amount o' \<le> required) sel) \<subseteq># mset ?F"
    unfolding mset_filter mset_sort_descending by (rule multiset_filter_mono [OF sel(1)])
  ultimately have "mset sel \<subseteq># mset ?F" by (simp only:)
  then obtain zs where zs: "subseq zs ?F" "mset zs = mset sel" using mset_subset_subseq by blast
  then have len: "length zs = length sel" by (metis size_mset)
  have "length sel \<in> set [2..<Suc (min m (length ?F))]"
    using sel len list_emb_length [OF zs(1)] unfolding set_upt atLeastLessThan_iff by linarith
  moreover have "sorted_outputs ?F" using sorted_sort_descending by (rule sorted_wrt_filter)
  moreover have "\<forall>o' \<in> set ?F. 0 < out_amount o'"
    using pos mset_eq_setD [OF mset_sort_descending, of outs] by simp
  ultimately have "\<not> completes ?F required 0 (length sel) 0 zs"
    using find_subset_complete none unfolding exact_subset_search_def by blast
  then show False using zs len eq amount_sum_mset [OF zs(2)] by (simp add: completes_def)
qed

text \<open>C23. When selection reports insufficient or too fragmented inventory, no admissible selection
  exists: no choice of eligible outputs within the input limit reaches the required amount exactly
  or with the minimum positive change.\<close>

theorem selection_complete:
  assumes "select_inventory eligible asset required limits = Err e"
    and "e \<noteq> QuoteAmountOverflow" "e \<noteq> SelectionSearchBudgetExceeded"
    and "0 < required" and pos: "\<forall>o' \<in> set eligible. 0 < out_amount o'"
  shows "\<not> admissible_selection eligible asset required limits sel"
proof
  let ?C = "candidates_of eligible asset" and ?m = "maximum_provider_inputs limits"
  assume "admissible_selection eligible asset required limits sel"
  then have sel: "sel \<noteq> []" "length sel \<le> ?m" "mset sel \<subseteq># mset ?C"
    "admissible_total (amount_sum sel) required limits"
    by (simp_all add: admissible_selection_def)
  then have covers: "unat required \<le> amount_sum sel" by (auto simp: admissible_total_def)
  have zero: "\<not> admissible_total (unat (0 :: u64)) required limits"
    using \<open>0 < required\<close> by (auto simp: admissible_total_def word_less_nat_alt)
  note bound = top_amounts_bound [OF sel(3,2)] and total = greedy_total [where selected = "[]" and tot = 0]
  from assms(1-3) show False
  proof (cases rule: select_inventory_failed)
    case 1
    have "length sel \<le> length ?C" using size_mset_mono [OF sel(3)] by (simp only: size_mset)
    then have "amount_sum sel \<le> amount_sum (sort_descending ?C)"
      using top_amounts_bound [OF sel(3), of "length ?C"] mset_eq_length [OF mset_sort_descending, of ?C] by simp
    then show False using 1 covers amount_sum_mset [of "sort_descending ?C" ?C] by simp
  next
    case (2 t)
    then show False using total [OF 2(1)] zero bound covers by (simp add: word_less_nat_alt)
  next
    case (3 t)
    have "unat t < unat required + unat (minimum_positive_change limits)"
      using total [OF 3(1)] zero by (auto simp: admissible_total_def)
    then have exact: "amount_sum sel = unat required"
      using sel(4) total [OF 3(1)] zero bound by (auto simp: admissible_total_def)
    show False
    proof (cases "2 \<le> length sel")
      case True
      have "\<forall>o' \<in> set ?C. 0 < out_amount o'" using pos by simp
      then show False using exact_search_complete [OF 3(3) _ sel(3) True sel(2)] exact by blast
    next
      case False
      then obtain o' where "sel = [o']" using sel(1) by (cases sel) (auto simp: not_le Suc_le_eq)
      then show False
        using exact 3(2) sel(3) by (auto simp: word_unat_eq_iff)
    qed
  qed
qed

theorem selection_complete_witness:
  "\<not> admissible_selection ex_inventory [4] 13 ex_selection_limits [ex_output 5, ex_output 9]"
  by (rule selection_complete [OF ex_fragmented])
    (simp_all add: ex_inventory_def ex_output_def)

end
