(* ===== verification/Rfq_Engine_Props.thy ===== *)
theory Rfq_Engine_Props
  imports Rfq_Engine Rfq_Store_Limits Rfq_Pricing Rfq_Selection_Props
begin

text \<open>
  The quote engine over the coordinator and the book.  The expiry loop ends once other threads stop
  interfering; every draft the engine builds is one the coordinator's validation accepts; and a newly
  created quote spends outputs of the latest published wallet scan only, which are reserved for it
  afterwards.
\<close>

section \<open>The expiry loop ends\<close>

lemma tbl_remove_shorter: "tbl_get t k \<noteq> None \<Longrightarrow> length (tbl_remove k t) < length t"
proof -
  assume "tbl_get t k \<noteq> None"
  then obtain v where "(k, v) \<in> set t" by (auto simp: tbl_get_def dest: map_of_SomeD)
  then show ?thesis unfolding tbl_remove_def by (intro length_filter_less) auto
qed

lemma release_shrinks_index:
  assumes "release_reserved r reason now db = Ok (db', r')"
  shows "length (expirations_tbl db') < length (expirations_tbl db)"
proof -
  from assms obtain db1 db2 db3 where steps:
    "advance_allocation_revision (remove_allocations (res_outpoints r) db) = Ok db1"
    "remove_expiration r db1 = Ok db2" "remove_live_quote_index r db2 = Ok db3"
    "append_audit now (ReservationReleased (res_id r) reason)
      (write_reservation (r\<lparr>res_state := StReleased reason now\<rparr>) db3) = Ok db'"
    by (auto simp: release_reserved_def result_simps Let_def)
  have "expirations_tbl db1 = expirations_tbl db" using advance_revision_Ok [OF steps(1)] by auto
  moreover have "expirations_tbl db' = expirations_tbl db2"
    using steps(3,4) by (auto simp: remove_live_quote_index_def append_audit_def write_reservation_def result_simps Let_def)
  moreover have "length (expirations_tbl db2) < length (expirations_tbl db1)"
    using steps(2) by (auto simp: remove_expiration_def result_simps Let_def intro!: tbl_remove_shorter)
  ultimately show ?thesis by simp
qed

lemma expire_fold_shrinks_index:
  "rfold (expire_one ops now) due db = Ok db' \<Longrightarrow>
     length (expirations_tbl db') + length due \<le> length (expirations_tbl db)"
proof (induction due arbitrary: db)
  case (Cons d due)
  then obtain db1 where one: "expire_one ops now d db = Ok db1" "rfold (expire_one ops now) due db1 = Ok db'"
    by (auto simp: rbind_eq_Ok)
  then have "length (expirations_tbl db1) < length (expirations_tbl db)"
    using release_shrinks_index by (auto simp: expire_one_def result_simps)
  then show ?case using Cons.IH [OF one(2)] by simp
qed simp

lemma expire_due_shrinks_index:
  assumes "expire_due ops observed committed now limit b = (Ok ids, b')"
  shows "length (expirations_tbl (database b')) + length ids \<le> length (expirations_tbl (database b))"
proof (cases "limit = 0")
  case False
  then have "run_timed observed committed now (expire_due_body ops limit) b = (Ok ids, b')"
    using assms by (simp add: expire_due_def)
  then obtain db db' where obs: "observe_time (database b) now = Ok db"
    and body: "expire_due_body ops limit now db = Ok (db', Ok ids)" "database b' = db'"
    by (cases rule: run_timed_database) auto
  have "length (expirations_tbl db') + length ids \<le> length (expirations_tbl db)"
    using body(1) expire_fold_shrinks_index
    by (auto simp: expire_due_body_def expire_due_in_write_def result_simps split: if_splits)
  moreover have "expirations_tbl db = expirations_tbl (database b)"
    using obs by (auto simp: observe_time_def result_simps)
  ultimately show ?thesis using body(2) by simp
qed (use assms in \<open>simp add: expire_due_def\<close>)

lemma expire_batch_effect:
  assumes "expire_batch_of ops env w = (Ok ids, w')"
  shows "book_accesses w' = Suc (book_accesses w)"
    "env_others env (book_accesses w) = [] \<Longrightarrow>
       length (expirations_tbl (database (book w'))) + length ids \<le> length (expirations_tbl (database (book w)))"
  using assms expire_due_shrinks_index
  by (auto simp: expire_batch_of_def op_bind_def clock_now_def book_write_def others_first_def split: prod.splits)

lemma expire_all_ends:
  assumes quiet: "\<forall>n \<ge> N. env_others env n = []"
  shows "\<exists>r. expire_all ops env w = Some r"
proof -
  let ?R = "inv_image (less_than <*lex*> less_than)
    (\<lambda>w. (N - book_accesses w, length (expirations_tbl (database (book w)))))"
  have wf: "wf ?R" by (intro wf_inv_image wf_lex_prod wf_less_than)
  show ?thesis
  proof (induction w rule: wf_induct_rule [OF wf])
  case (1 w)
  show ?case
  proof (cases "expire_batch_of ops env w")
    case (Pair r w')
    show ?thesis
    proof (cases r)
      case (Inl e)
      then show ?thesis using Pair by (subst expire_all.simps) simp
    next
      case (Inr ids)
      note effect = expire_batch_effect [OF Pair [unfolded Inr]]
      have "\<exists>r. expire_all ops env w' = Some r" if full: "\<not> length ids < MAX_EXPIRATION_BATCH"
      proof (rule 1)
        have "0 < length ids" using full by (simp add: MAX_EXPIRATION_BATCH_def del: length_greater_0_conv)
        then show "(w', w) \<in> ?R"
          using effect quiet by (cases "N \<le> book_accesses w") (simp_all del: length_greater_0_conv, linarith)
      qed
      then show ?thesis using Pair Inr by (subst expire_all.simps) simp
    qed
  qed
  qed
qed

text \<open>C34. A firm-quote request always returns: whatever other threads do on the shared book, as long
  as they eventually stop, the expiry loop ends and the operation yields a result.\<close>

theorem firm_quote_returns:
  fixes env :: "'d Environment" and engine :: "'p QuoteEngine"
  assumes "\<forall>n \<ge> N. env_others env n = []"
  shows "\<exists>(r :: (('s, 'd, 'p) QuoteEngineError, FirmQuoteOutcome) result) w'.
    firm_quote ops env engine owner key request w = Some (r, w')"
proof -
  obtain r :: "(('s, 'd, 'p) QuoteEngineError, fixed_id \<times> FirmQuoteOutcome option) result" and w1
    where pre: "preflight ops env engine owner key request w = (r, w1)" by force
  obtain p where p: "expire_all ops env w1 = Some p" using expire_all_ends [OF assms] by blast
  show ?thesis
  proof (cases r)
    case (Inr v)
    then show ?thesis
      using pre p by (cases v; cases "snd v"; cases p; cases "fst p") (simp_all add: firm_quote_def)
  qed (use pre in \<open>simp add: firm_quote_def\<close>)
qed


section \<open>Drafts\<close>

lemma quoted_input_Ok:
  "quoted_input e = Ok q \<Longrightarrow> qinput_outpoint q = out_outpoint (snd e) \<and> qinput_witness_utxo q = owned_txout (snd e) \<and>
     qinput_binding q = item_binding (owned_item (snd e)) \<and> check_input_id (fst e, q) () = Ok ()"
  by (auto simp: quoted_input_def check_input_id_def result_simps)

lemma quoted_inputs:
  assumes "rmap quoted_input (enumerate 0 selected) = Ok inputs"
  shows "length inputs = length selected" "rfold check_input_id (enumerate 0 inputs) () = Ok ()"
    "\<And>i. i < length selected \<Longrightarrow> qinput_outpoint (inputs ! i) = out_outpoint (selected ! i) \<and>
       qinput_witness_utxo (inputs ! i) = owned_txout (selected ! i) \<and>
       qinput_binding (inputs ! i) = item_binding (owned_item (selected ! i))"
proof -
  have all: "list_all2 (\<lambda>x y. quoted_input x = Ok y) (enumerate 0 selected) inputs" using assms by (simp add: rmap_eq_Ok)
  then show len: "length inputs = length selected" using list_all2_lengthD by fastforce
  have nth: "quoted_input (i, selected ! i) = Ok (inputs ! i)" if "i < length selected" for i
    using list_all2_nthD [OF all, of i] that by (simp add: nth_enumerate_eq)
  then show "\<And>i. i < length selected \<Longrightarrow> qinput_outpoint (inputs ! i) = out_outpoint (selected ! i) \<and>
       qinput_witness_utxo (inputs ! i) = owned_txout (selected ! i) \<and>
       qinput_binding (inputs ! i) = item_binding (owned_item (selected ! i))"
    using quoted_input_Ok by fastforce
  have "check_input_id (i, inputs ! i) () = Ok ()" if "i < length selected" for i
    using quoted_input_Ok [OF nth [OF that]] by simp
  then show "rfold check_input_id (enumerate 0 inputs) () = Ok ()"
    using len by (auto simp: rfold_unit in_set_enumerate_eq)
qed

lemma execution_output_fields:
  assumes "calculate_execution u request pricing limits = Ok execution"
  shows "request_validate u request = Ok ()" "pricing_validate pricing = Ok ()"
    "aa_asset (execution_output execution) = snd (kind_pair (request_kind request))"
    "aa_amount (execution_output execution) \<noteq> 0"
proof -
  from assms obtain inp out where request: "request_validate u request = Ok ()" and pricing: "pricing_validate pricing = Ok ()"
    and amounts: "execution_amounts (request_kind request) pricing = Ok (inp, out)" and out: "execution_output execution = out"
    by (auto simp: calculate_execution_def result_simps split: if_splits)
  then show "request_validate u request = Ok ()" "pricing_validate pricing = Ok ()" by simp_all
  have "aa_asset out = snd (kind_pair (request_kind request)) \<and> aa_amount out \<noteq> 0"
  proof (cases "request_kind request")
    case (ExactIn i asset lo)
    have d: "denominator (pricing_rate pricing) \<noteq> 0" using pricing by (simp add: pricing_validate_Ok)
    show ?thesis using execution_amounts_floor [OF amounts [unfolded ExactIn] d] ExactIn by (auto simp: kind_pair_def)
  next
    case (ExactOut asset hi o')
    have n: "numerator (pricing_rate pricing) \<noteq> 0" using pricing by (simp add: pricing_validate_Ok)
    show ?thesis
      using execution_amounts_ceil [OF amounts [unfolded ExactOut] n] request_validate_Ok [OF request] ExactOut
      by (simp add: kind_pair_def kind_bounds_def)
  qed
  then show "aa_asset (execution_output execution) = snd (kind_pair (request_kind request))"
    "aa_amount (execution_output execution) \<noteq> 0" using out by simp_all
qed

lemma build_draft_Ok:
  fixes engine :: "'p QuoteEngine"
  assumes "build_draft ops env engine request market pair view w =
    (Ok draft :: (('s, 'd, 'p) QuoteEngineError, FirmQuoteDraft) result, w')"
  obtains pricing execution selected selected_amount change receive change_to contribution where
    "calculate_execution (script_unspendable (quote_ops_of ops)) request pricing (rule_limits pair) = Ok execution"
    "select_inventory (eligible_outputs view) (snd (kind_pair (request_kind request)))
       (aa_amount (execution_output execution)) (rule_limits pair) = Ok selected"
    "checked_total selected = Ok selected_amount"
    "checked_sub selected_amount (aa_amount (execution_output execution)) = Some change"
    "change = 0 \<longleftrightarrow> change_to = None"
    "quote_contribution selected execution (request_recipient request) receive change_to change = Ok contribution"
    "draft = quote_draft request view pricing execution contribution receive change_to
       (snd (kind_pair (request_kind request))) selected_amount"
proof -
  from assms obtain pricing execution selected selected_amount change receive w1 change_to w2 contribution where
    price: "price_request ops engine request view market pair =
      (Ok (pricing, execution, selected) :: (('s, 'd, 'p) QuoteEngineError, _) result)"
    and amounts: "selected_change selected execution = Ok (selected_amount, change)"
    and change: "(if change = 0 then op_result (Ok None)
        else op_bind (op_map_err EngineDestination (fresh_destination env SettlementChange))
          (\<lambda>d. op_result (Ok (Some d)))) w1 = (Ok change_to :: (('s, 'd, 'p) QuoteEngineError, _) result, w2)"
    and rest: "quote_contribution selected execution (request_recipient request) receive change_to change = Ok contribution"
      "draft = quote_draft request view pricing execution contribution receive change_to
         (snd (kind_pair (request_kind request))) selected_amount"
    unfolding build_draft_def op_bind_eq_Ok op_result_eq op_map_err_eq_Ok by (auto simp: op_simps result_simps)
  have none: "change = 0 \<longleftrightarrow> change_to = None"
    using change by (auto simp: op_simps split: if_splits)
  have priced: "calculate_execution (script_unspendable (quote_ops_of ops)) request pricing (rule_limits pair) = Ok execution"
    "select_inventory (eligible_outputs view) (snd (kind_pair (request_kind request)))
       (aa_amount (execution_output execution)) (rule_limits pair) = Ok selected"
    using price by (auto simp: price_request_def result_simps split: prod.splits)
  have totals: "checked_total selected = Ok selected_amount"
    "checked_sub selected_amount (aa_amount (execution_output execution)) = Some change"
    using amounts by (auto simp: selected_change_def result_simps)
  show thesis by (rule that [OF priced totals none rest])
qed

text \<open>C33. The engine only builds drafts that pass the coordinator's validation: with a pair limit
  between one and the maximum number of reservation inputs, the amounts, roles, identifiers,
  blinders and the change of the built contribution are consistent, so no issued quote fails that
  check.\<close>

theorem engine_drafts_valid:
  fixes engine :: "'p QuoteEngine"
  assumes build: "build_draft ops env engine request market pair view w =
      (Ok draft :: (('s, 'd, 'p) QuoteEngineError, FirmQuoteDraft) result, w')"
    and limit: "0 < maximum_provider_inputs (rule_limits pair)" "maximum_provider_inputs (rule_limits pair) \<le> MAX_RESERVATION_INPUTS"
  shows "draft_validate (script_unspendable (quote_ops_of ops)) draft = Ok ()"
proof -
  obtain pricing execution selected selected_amount change receive change_to contribution where
    execution: "calculate_execution (script_unspendable (quote_ops_of ops)) request pricing (rule_limits pair) = Ok execution"
    and selected: "select_inventory (eligible_outputs view) (snd (kind_pair (request_kind request)))
       (aa_amount (execution_output execution)) (rule_limits pair) = Ok selected"
    and change: "checked_sub selected_amount (aa_amount (execution_output execution)) = Some change" "change = 0 \<longleftrightarrow> change_to = None"
    and contribution: "quote_contribution selected execution (request_recipient request) receive change_to change = Ok contribution"
    and draft: "draft = quote_draft request view pricing execution contribution receive change_to
       (snd (kind_pair (request_kind request))) selected_amount"
    by (rule build_draft_Ok [OF build])
  note out = execution_output_fields [OF execution]
  have size: "selected \<noteq> []" "length selected \<le> MAX_RESERVATION_INPUTS"
    using select_inventory_admissible [OF selected limit(1)] limit(2) by (auto simp: admissible_selection_def)
  from contribution obtain inputs where inputs: "rmap quoted_input (enumerate 0 selected) = Ok inputs"
    and parts: "contribution_inputs contribution = inputs"
    by (auto simp: quote_contribution_def Let_def result_simps split: if_splits)
  note ids = quoted_inputs [OF inputs]
  have "inputs \<noteq> []" using ids(1) size(1) by auto
  moreover have "selected_amount \<noteq> 0"
    using change(1) out(4) by (auto simp: checked_simps unat_eq_zero)
  ultimately show ?thesis
    using out change contribution inputs ids(1,2) size
    by (auto simp: draft draft_validate_def quote_draft_def quote_contribution_def Let_def result_simps list_get_eq_Some
        split: if_splits)
qed


section \<open>Created reservations\<close>

lemma run_timed_Ok_committed:
  "run_timed observed committed now body b = (Ok v, b') \<Longrightarrow> observed = Committed \<and> committed = Committed"
  by (cases observed; cases committed) (auto simp: run_timed_def commit_write_def split: sum.splits prod.splits if_splits)

lemma reserve_body_fresh:
  assumes "reserve_body ops identity owner key digest draft policy observed_at maximum_age now db = Ok (db', Ok outcome)"
    and "outcome_created outcome"
  shows "observed_at \<le> now" "now - observed_at < maximum_age"
proof -
  have "read_request_binding db owner key = None"
    using assms by (auto simp: reserve_body_def Let_def replay_request_def to_firm_quote_outcome_def result_simps split: option.splits)
  then show "observed_at \<le> now" "now - observed_at < maximum_age"
    using assms(1) by (auto simp: reserve_body_def Let_def not_le not_less split: if_splits)
qed

lemma finalized_quote:
  assumes "reserve_finalized ops identity owner key digest reservation_id draft policy now accept_before db = Ok (db', Ok outcome)"
  shows "quote_contribution_of (outcome_quote outcome) = draft_contribution draft"
proof -
  from assms have "finalize_quote (quote_ops_of ops) identity owner key digest reservation_id draft now accept_before
      (engine_fee_policy policy) = Some (outcome_quote outcome)"
    by (auto simp: reserve_finalized_def Let_def result_simps)
  then show ?thesis by (rule finalize_quote_fields(7))
qed

lemma reservation_view_fields:
  "reservation_to_view ops r = Ok view \<Longrightarrow> view_id view = res_id r \<and> view_created_at view = res_created_at r"
  by (auto simp: reservation_to_view_def result_simps)

lemma created_reservation:
  assumes reach: "sha_32 ops" "reachable (book_init identity) (book_step ops) b"
    and reserve: "reserve_firm_quote_from_snapshot ops observed committed now owner key digest draft policy observed_at
      maximum_age b = (Ok outcome, b')"
    and created: "outcome_created outcome"
  shows "quote_contribution_of (outcome_quote outcome) = draft_contribution draft"
    "view_created_at (outcome_reservation outcome) = now" "observed_at \<le> now" "now - observed_at < maximum_age"
    "\<And>p. p \<in> set (selected_outpoints draft) \<Longrightarrow>
      inventory_state_at (database b') (outpoint_key p) = InvReserved (view_id (outcome_reservation outcome))"
proof -
  have run: "run_timed observed committed now
      (reserve_body ops (book_identity b) owner key digest draft policy observed_at maximum_age) b = (Ok outcome, b')"
    using reserve by (auto simp: reserve_firm_quote_from_snapshot_def split: if_splits)
  then obtain db0 where "reserve_body ops (book_identity b) owner key digest draft policy observed_at maximum_age now db0 =
      Ok (database b', Ok outcome)"
    by (cases rule: run_timed_database) auto
  from reserve_body_fresh [OF this created] show "observed_at \<le> now" "now - observed_at < maximum_age" .
  have "observed = Committed" "committed = Committed" using run_timed_Ok_committed [OF run] by simp_all
  then obtain db accept_before where sound: "sound_at ops identity now db"
    and final: "reserve_finalized ops identity owner key digest (derive_reservation_id ops owner key)
      draft policy now accept_before db = Ok (database b', Ok outcome)"
    using reserve_created [OF reach _ created] reserve by metis
  show "quote_contribution_of (outcome_quote outcome) = draft_contribution draft" by (rule finalized_quote [OF final])
  from final obtain r outcome' where out: "Ok outcome = (Ok outcome' :: (ProviderError, FirmQuoteOutcome) result)"
    and r: "persist_new_reservation r db = Ok (database b')" "reservation_to_view ops r = Ok (outcome_reservation outcome')"
      "res_created_at r = now" "set (res_outpoints r) = set (selected_outpoints draft)"
    by (rule reserve_finalized_creates)
  have view: "view_id (outcome_reservation outcome) = res_id r" "view_created_at (outcome_reservation outcome) = res_created_at r"
    using reservation_view_fields [OF r(2)] out by simp_all
  then show "view_created_at (outcome_reservation outcome) = now" using r(3) by simp
  show "inventory_state_at (database b') (outpoint_key p) = InvReserved (view_id (outcome_reservation outcome))"
    if "p \<in> set (selected_outpoints draft)" for p
    using creation_fields(5) [OF persist_creation [OF store_ok_parts(2) [OF sound_store [OF sound]] r(1)], of "outpoint_key p"]
      that r(4) view(1) by (auto simp: inventory_state_at_def allocation_view_def)
qed


section \<open>What every step keeps\<close>

definition env_ok :: "store_ops \<Rightarrow> 'd Environment \<Rightarrow> bool" where
  "env_ok ops env \<longleftrightarrow> (\<forall>n. \<forall>(observed, committed, now, c) \<in> set (env_others env n). call_ok ops c)"

text \<open>The book stays reachable and the coordinator's state is not touched.\<close>

definition settled :: "store_ops \<Rightarrow> ProviderIdentity \<Rightarrow> CoordinatorState \<Rightarrow> World \<Rightarrow> bool" where
  "settled ops identity s w \<longleftrightarrow> reachable (book_init identity) (book_step ops) (book w) \<and> state w = s"

lemma reachable_call:
  "reachable (book_init identity) (book_step ops) b \<Longrightarrow> call_ok ops c \<Longrightarrow>
     reachable (book_init identity) (book_step ops) (apply_call ops observed committed now c b)"
  by (rule reachable.intros(2)) (auto intro: book_step.call)

lemma others_reachable:
  assumes "env_ok ops env" "reachable (book_init identity) (book_step ops) (book w)"
  shows "reachable (book_init identity) (book_step ops) (others_first ops env w)"
proof -
  have "reachable (book_init identity) (book_step ops)
      (fold (\<lambda>(observed, committed, now, c). apply_call ops observed committed now c) calls b)"
    if "\<forall>(observed, committed, now, c) \<in> set calls. call_ok ops c" "reachable (book_init identity) (book_step ops) b" for calls b
    using that by (induction calls arbitrary: b) (auto intro: reachable_call)
  then show ?thesis using assms unfolding others_first_def env_ok_def by blast
qed

lemma book_read_keeps:
  assumes "env_ok ops env"
  shows "op_keeps (settled ops identity s) (book_read ops env body)"
  using others_reachable [OF assms] by (auto simp: op_keeps_def settled_def book_read_def Let_def)

lemma book_write_run:
  "book_write ops env body w = (r, w') \<Longrightarrow> \<exists>observed committed. body observed committed (others_first ops env w) = (r, book w')"
  by (auto simp: book_write_def split: prod.splits) blast

lemma book_write_keeps:
  assumes "env_ok ops env" "call_ok ops c"
    and "\<And>observed committed b. snd (body observed committed b) = apply_call ops observed committed now c b"
  shows "op_keeps (settled ops identity s) (book_write ops env body)"
  unfolding op_keeps_def settled_def book_write_def
  using reachable_call [OF others_reachable [OF assms(1)] assms(2)] assms(3)
  by (auto split: prod.splits) (metis snd_conv)

lemma clock_keeps: "op_keeps (settled ops identity s) (clock_now env)"
  by (simp add: op_keeps_def settled_def clock_now_def)

lemma lock_keeps: "op_keeps I lock_state"
  by (simp add: op_keeps_def lock_state_def)

lemma destination_keeps: "op_keeps (settled ops identity s) (fresh_destination env purpose)"
  by (simp add: op_keeps_def settled_def fresh_destination_def)

lemma op_keeps_reader: "op_keeps I (\<lambda>w. op_result (f w) w)"
  by (simp add: op_keeps_def op_result_def)

lemma eligible_from_snapshot_keeps:
  "env_ok ops env \<Longrightarrow> op_keeps (settled ops identity s) (eligible_from_snapshot ops env published)"
  unfolding eligible_from_snapshot_def
  by (intro op_keeps_bind op_keeps_map_err op_keeps_result book_read_keeps) (auto split: prod.split intro!: op_keeps_bind)

lemma require_fresh_keeps:
  "env_ok ops env \<Longrightarrow> op_keeps (settled ops identity s) (require_fresh ops env policy now)"
  unfolding require_fresh_def
  by (intro op_keeps_bind op_keeps_map_err op_keeps_result book_read_keeps op_keeps_reader)

lemma eligible_keeps:
  "env_ok ops env \<Longrightarrow> op_keeps (settled ops identity s) (eligible ops env policy)"
  unfolding eligible_def
  by (intro op_keeps_bind lock_keeps clock_keeps require_fresh_keeps eligible_from_snapshot_keeps)

lemma build_draft_keeps:
  "op_keeps (settled ops identity s) (build_draft ops env engine request market pair view)"
  unfolding build_draft_def
  by (intro op_keeps_bind op_keeps_result op_keeps_map_err destination_keeps)
    (auto intro!: op_keeps_bind destination_keeps split: prod.split)

lemma preflight_keeps:
  assumes "env_ok ops env"
  shows "op_keeps (settled ops identity s) (preflight ops env engine owner key request)"
  unfolding preflight_def
proof (intro op_keeps_bind op_keeps_result op_keeps_map_err op_keeps_reader clock_keeps)
  fix digest now
  show "op_keeps (settled ops identity s) (book_write ops env (\<lambda>observed committed.
      preflight_firm_quote ops observed committed now owner key digest (engine_policy engine)))"
    by (rule book_write_keeps [OF assms, where c = "PreflightQuote owner key digest (engine_policy engine)"]) simp_all
qed

lemma preflight_not_created:
  assumes "preflight ops env engine owner key request w = (r, w')"
  shows "r = Ok (digest, Some outcome) \<Longrightarrow> \<not> outcome_created outcome"
proof -
  assume r: "r = Ok (digest, Some outcome)"
  have "\<not> outcome_created outcome" if run: "preflight_firm_quote ops observed committed t owner key digest policy b = (Ok (Some outcome), b')"
    for observed committed t policy b b'
  proof -
    from run obtain db db' where "preflight_body ops (book_identity b) owner key digest policy t db = Ok (db', Ok (Some outcome))"
      unfolding preflight_firm_quote_def by (cases rule: run_timed_database) auto
    then show ?thesis
      by (cases rule: preflight_body_Ok) (auto simp: replay_request_def to_firm_quote_outcome_def result_simps)
  qed
  moreover obtain t w1 where "book_write ops env (\<lambda>observed committed.
      preflight_firm_quote ops observed committed t owner key digest (engine_policy engine)) w1 = (Ok (Some outcome), w')"
    using assms r by (auto simp: preflight_def op_simps)
  ultimately show "\<not> outcome_created outcome" using book_write_run by blast
qed

lemma expire_batch_keeps:
  assumes "env_ok ops env"
  shows "op_keeps (settled ops identity s) (expire_batch_of ops env)"
  unfolding expire_batch_of_def
  by (intro op_keeps_bind clock_keeps book_write_keeps [OF assms, where c = "ExpireDue MAX_EXPIRATION_BATCH"]) simp_all

lemma expire_all_keeps:
  assumes "env_ok ops env" "expire_all ops env w = Some (r, w')" "settled ops identity s w"
  shows "settled ops identity s w'"
proof -
  have "env_ok ops env \<longrightarrow> settled ops identity s w \<longrightarrow> settled ops identity s (snd (r, w'))"
  proof (rule expire_all.raw_induct [OF _ assms(2), of "\<lambda>ops env w p. env_ok ops env \<longrightarrow> settled ops identity s w \<longrightarrow>
      settled ops identity s (snd p)"])
    fix f ops env w and p :: "(ProviderError, unit) result \<times> World"
    assume IH: "\<And>ops env w p. f ops env w = Some p \<Longrightarrow> env_ok ops env \<longrightarrow> settled ops identity s w \<longrightarrow> settled ops identity s (snd p)"
      and step: "(case expire_batch_of ops env w of (Inl e, w') \<Rightarrow> Some (Err e, w')
        | (Inr expired, w') \<Rightarrow> if length expired < MAX_EXPIRATION_BATCH then Some (Ok (), w') else f ops env w') = Some p"
    show "env_ok ops env \<longrightarrow> settled ops identity s w \<longrightarrow> settled ops identity s (snd p)"
    proof (intro impI)
      assume env: "env_ok ops env" and w: "settled ops identity s w"
      obtain r w1 where batch: "expire_batch_of ops env w = (r, w1)" by force
      then have "settled ops identity s w1" using op_keepsD [OF expire_batch_keeps [OF env] w] by blast
      then show "settled ops identity s (snd p)"
        using step batch IH env by (cases r) (auto split: if_splits)
    qed
  qed
  then show ?thesis using assms by simp
qed


section \<open>Issued quotes are backed\<close>

lemma check_eligible_subset:
  "rfold (check_eligible durable) outs acc = Ok outputs \<Longrightarrow> set outputs \<subseteq> set acc \<union> set outs"
proof (induction outs arbitrary: acc)
  case (Cons out outs)
  then obtain acc' where "check_eligible durable out acc = Ok acc'" "rfold (check_eligible durable) outs acc' = Ok outputs"
    by (auto simp: rbind_eq_Ok)
  moreover have "set acc' \<subseteq> insert out (set acc)"
    using calculation(1) by (auto simp: check_eligible_def result_simps split: if_splits)
  ultimately show ?case using Cons.IH [of acc'] by auto
qed simp

lemma eligible_from_snapshot_subset:
  assumes "eligible_from_snapshot ops env published w = (Ok view, w')"
  shows "set (eligible_outputs view) \<subseteq> set (published_outputs published)"
  using assms check_eligible_subset
  by (fastforce simp: eligible_from_snapshot_def op_simps result_simps split: prod.splits)

lemma require_fresh_Ok:
  assumes "require_fresh ops env policy now w = (Ok published, w')"
  shows "latest (state w') = Some published"
  using assms by (auto simp: require_fresh_def op_simps result_simps check_fresh_def Let_def split: if_splits)

lemma checked_inputs_eligible:
  assumes "check_draft_snapshot draft published view = (Ok () :: ('s InventoryCoordinatorError, unit) result)" "i \<in> set (contribution_inputs (draft_contribution draft))"
  obtains out where "out \<in> set (eligible_outputs view)" "out_outpoint out = qinput_outpoint i"
    "owned_txout out = qinput_witness_utxo i" "item_binding (owned_item out) = qinput_binding i"
    "item_asset (owned_item out) = draft_selected_asset draft"
proof -
  from assms have "check_eligible_input draft view i () = (Ok () :: ('s InventoryCoordinatorError, unit) result)"
    by (auto simp: check_draft_snapshot_def Let_def result_simps rfold_unit)
  then obtain out where found: "find (\<lambda>o'. out_outpoint o' = qinput_outpoint i) (eligible_outputs view) = Some out"
    and fields: "item_asset (owned_item out) = draft_selected_asset draft" "owned_txout out = qinput_witness_utxo i"
    "item_binding (owned_item out) = qinput_binding i"
    by (auto simp: check_eligible_input_def result_simps)
  from find_SomeD [OF found] fields show thesis using that [of out] by simp
qed

lemma reserve_firm_quote_created:
  assumes keep: "env_ok ops env" "settled ops identity s w"
    and run: "reserve_firm_quote ops env freshness view owner key digest draft policy w =
      (Ok outcome :: ('s InventoryCoordinatorError, FirmQuoteOutcome) result, w')"
    and created: "outcome_created outcome"
  obtains published current_eligible w1 w2 where "latest s = Some published"
    "eligible_from_snapshot ops env published w1 = (Ok current_eligible :: ('s InventoryCoordinatorError, _) result, w2)"
    "check_draft_snapshot draft published current_eligible = (Ok () :: ('s InventoryCoordinatorError, unit) result)"
    "\<exists>observed committed now b. reachable (book_init identity) (book_step ops) b \<and>
      reserve_firm_quote_from_snapshot ops observed committed now owner key digest draft policy
        (token_observed_at (published_token published)) (max_snapshot_age_millis freshness) b = (Ok outcome, book w')"
proof -
  have not_replayed: "\<not> outcome_created outcome" if "replay_firm_quote ops observed committed t owner key digest b = (Ok (Some outcome), b')"
    for observed committed t b b' outcome
    using that unfolding replay_firm_quote_def
    by (cases rule: run_timed_database)
      (auto simp: replay_body_def replay_request_def to_firm_quote_outcome_def result_simps split: option.splits)
  from run obtain t w1 replayed w2 where clock: "clock_now env w = (Ok t :: ('s InventoryCoordinatorError, _) result, w1)"
    and replay: "book_write ops env (\<lambda>observed committed. replay_firm_quote ops observed committed t owner key digest) w1 = (Ok replayed, w2)"
    and rest: "(case replayed of Some outcome \<Rightarrow> op_result (Ok outcome)
      | None \<Rightarrow> reserve_from_latest ops env freshness view owner key digest draft policy) w2 =
        (Ok outcome :: ('s InventoryCoordinatorError, FirmQuoteOutcome) result, w')"
    unfolding reserve_firm_quote_def op_bind_eq_Ok op_map_err_eq_Ok by (auto simp: lock_state_def op_simps)
  have keeps: "op_keeps (settled ops identity s)
      (book_write ops env (\<lambda>observed committed. replay_firm_quote ops observed committed t owner key digest))"
    by (rule book_write_keeps [OF keep(1), where c = "ReplayQuote owner key digest"]) simp_all
  have w2: "settled ops identity s w2" by (rule op_keepsD [OF keeps op_keepsD [OF clock_keeps keep(2) clock] replay])
  have "replayed = None"
    using rest created not_replayed book_write_run [OF replay] by (cases replayed) (auto simp: op_simps)
  then have "reserve_from_latest ops env freshness view owner key digest draft policy w2 =
      (Ok outcome :: ('s InventoryCoordinatorError, FirmQuoteOutcome) result, w')" using rest by simp
  then obtain now w3 published w4 current_eligible w5 reserved_at w6 where
    steps: "clock_now env w2 = (Ok now :: ('s InventoryCoordinatorError, _) result, w3)"
      "require_fresh ops env freshness now w3 = (Ok published :: ('s InventoryCoordinatorError, _) result, w4)"
      "eligible_from_snapshot ops env published w4 = (Ok current_eligible :: ('s InventoryCoordinatorError, _) result, w5)"
      "clock_now env w5 = (Ok reserved_at :: ('s InventoryCoordinatorError, _) result, w6)"
    and checked: "check_draft_snapshot draft published current_eligible = (Ok () :: ('s InventoryCoordinatorError, unit) result)"
    and reserve: "book_write ops env (\<lambda>observed committed.
       reserve_firm_quote_from_snapshot ops observed committed reserved_at owner key digest draft policy
         (token_observed_at (published_token published)) (max_snapshot_age_millis freshness)) w6 = (Ok outcome, w')"
    unfolding reserve_from_latest_def op_bind_eq_Ok op_map_err_eq_Ok by (auto simp: op_simps)
  have w4: "settled ops identity s w4"
    by (rule op_keepsD [OF require_fresh_keeps [OF keep(1)] op_keepsD [OF clock_keeps w2 steps(1)] steps(2)])
  have w6: "settled ops identity s w6"
    by (rule op_keepsD [OF clock_keeps op_keepsD [OF eligible_from_snapshot_keeps [OF keep(1)] w4 steps(3)] steps(4)])
  have "latest s = Some published" using require_fresh_Ok [OF steps(2)] w4 by (simp add: settled_def)
  moreover have "reachable (book_init identity) (book_step ops) (others_first ops env w6)"
    using others_reachable [OF keep(1)] w6 by (simp add: settled_def)
  then have "\<exists>observed committed now b. reachable (book_init identity) (book_step ops) b \<and>
      reserve_firm_quote_from_snapshot ops observed committed now owner key digest draft policy
        (token_observed_at (published_token published)) (max_snapshot_age_millis freshness) b = (Ok outcome, book w')"
    using book_write_run [OF reserve] by blast
  ultimately show thesis using that [OF _ steps(3) checked] by simp
qed

lemma firm_quote_created:
  fixes env :: "'d Environment" and engine :: "'p QuoteEngine"
  assumes reach: "reachable (book_init identity) (book_step ops) (book w)" and env: "env_ok ops env"
    and run: "firm_quote ops env engine owner key request w =
      Some (Ok outcome :: (('s, 'd, 'p) QuoteEngineError, FirmQuoteOutcome) result, w')"
    and created: "outcome_created outcome"
  obtains digest draft view w4 where "settled ops identity (state w) w4"
    "reserve_firm_quote ops env (engine_freshness engine) view owner key digest draft (engine_policy engine) w4 =
      (Ok outcome :: ('s InventoryCoordinatorError, FirmQuoteOutcome) result, w')"
proof -
  let ?I = "settled ops identity (state w)"
  have w: "?I w" using reach by (simp add: settled_def)
  obtain r :: "(('s, 'd, 'p) QuoteEngineError, fixed_id \<times> FirmQuoteOutcome option) result" and w1
    where pre: "preflight ops env engine owner key request w = (r, w1)" by force
  have w1: "?I w1" by (rule op_keepsD [OF preflight_keeps [OF env] w pre])
  obtain digest where r: "r = Ok (digest, None)"
    using run pre preflight_not_created [OF pre] created
    by (auto simp: firm_quote_def split: sum.splits option.splits prod.splits)
  then obtain w2 where expired: "expire_all ops env w1 = Some (Ok (), w2)"
    and issue: "issue_quote ops env engine owner key digest request w2 =
      (Ok outcome :: (('s, 'd, 'p) QuoteEngineError, FirmQuoteOutcome) result, w')"
    using run pre by (auto simp: firm_quote_def split: sum.splits option.splits prod.splits)
  have w2: "?I w2" by (rule expire_all_keeps [OF env expired w1])
  from issue obtain market pair view w3 draft w4 where
    steps: "eligible ops env (engine_freshness engine) w2 = (Ok view :: ('s InventoryCoordinatorError, _) result, w3)"
      "build_draft ops env engine request market pair view w3 = (Ok draft :: (('s, 'd, 'p) QuoteEngineError, _) result, w4)"
    and reserve: "reserve_firm_quote ops env (engine_freshness engine) view owner key digest draft (engine_policy engine) w4 =
      (Ok outcome :: ('s InventoryCoordinatorError, FirmQuoteOutcome) result, w')"
    by (auto simp: issue_quote_def op_simps result_simps split: prod.splits)
  have "?I w4"
    by (rule op_keepsD [OF build_draft_keeps op_keepsD [OF eligible_keeps [OF env] w2 steps(1)] steps(2)])
  then show thesis using that reserve by blast
qed

text \<open>C32. Issued quotes are backed by fresh, exclusively reserved inventory: when the engine creates a
  new firm quote, every provider input of the quote is an output of the latest published wallet
  scan with the same transaction output and binding, the scan was observed no later than the
  reservation time and is younger than the maximum age, and afterwards the book holds every such
  output reserved for the new reservation, whatever other threads do on the book meanwhile.\<close>

theorem issued_quote_backed:
  fixes env :: "'d Environment" and engine :: "'p QuoteEngine"
  assumes reach: "sha_32 ops" "reachable (book_init identity) (book_step ops) (book w)" and env: "env_ok ops env"
    and run: "firm_quote ops env engine owner key request w =
      Some (Ok outcome :: (('s, 'd, 'p) QuoteEngineError, FirmQuoteOutcome) result, w')"
    and created: "outcome_created outcome"
  shows "\<exists>published. latest (state w) = Some published \<and>
    (\<forall>i \<in> set (contribution_inputs (quote_contribution_of (outcome_quote outcome))).
      (\<exists>out \<in> set (published_outputs published). out_outpoint out = qinput_outpoint i \<and>
         owned_txout out = qinput_witness_utxo i \<and> item_binding (owned_item out) = qinput_binding i) \<and>
      inventory_state_at (database (book w')) (outpoint_key (qinput_outpoint i)) =
        InvReserved (view_id (outcome_reservation outcome))) \<and>
    token_observed_at (published_token published) \<le> view_created_at (outcome_reservation outcome) \<and>
    view_created_at (outcome_reservation outcome) - token_observed_at (published_token published)
      < max_snapshot_age_millis (engine_freshness engine)"
proof -
  let ?s = "state w"
  obtain digest draft view w4 where w4: "settled ops identity ?s w4"
    and reserve: "reserve_firm_quote ops env (engine_freshness engine) view owner key digest draft (engine_policy engine) w4 =
      (Ok outcome :: ('s InventoryCoordinatorError, FirmQuoteOutcome) result, w')"
    by (rule firm_quote_created [OF reach(2) env run created])
  obtain published current_eligible w1 w2 where published: "latest ?s = Some published"
    and eligible: "eligible_from_snapshot ops env published w1 = (Ok current_eligible :: ('s InventoryCoordinatorError, _) result, w2)"
    and checked: "check_draft_snapshot draft published current_eligible = (Ok () :: ('s InventoryCoordinatorError, unit) result)"
    and "\<exists>observed committed now b. reachable (book_init identity) (book_step ops) b \<and>
      reserve_firm_quote_from_snapshot ops observed committed now owner key digest draft (engine_policy engine)
        (token_observed_at (published_token published)) (max_snapshot_age_millis (engine_freshness engine)) b = (Ok outcome, book w')"
    by (rule reserve_firm_quote_created [OF env w4 reserve created])
  then obtain observed committed now b where b: "reachable (book_init identity) (book_step ops) b"
    "reserve_firm_quote_from_snapshot ops observed committed now owner key digest draft (engine_policy engine)
        (token_observed_at (published_token published)) (max_snapshot_age_millis (engine_freshness engine)) b = (Ok outcome, book w')"
    by blast
  note facts = created_reservation [OF reach(1) b created]
  have "\<exists>out \<in> set (published_outputs published). out_outpoint out = qinput_outpoint i \<and>
      owned_txout out = qinput_witness_utxo i \<and> item_binding (owned_item out) = qinput_binding i"
    if "i \<in> set (contribution_inputs (draft_contribution draft))" for i
    by (rule checked_inputs_eligible [OF checked that]) (use eligible_from_snapshot_subset [OF eligible] in blast)
  moreover have "inventory_state_at (database (book w')) (outpoint_key (qinput_outpoint i)) =
      InvReserved (view_id (outcome_reservation outcome))"
    if "i \<in> set (contribution_inputs (draft_contribution draft))" for i
    by (rule facts(5)) (use that in \<open>simp add: selected_outpoints_def\<close>)
  ultimately show ?thesis using published facts(1-4) by auto
qed


section \<open>A concrete run\<close>

definition ex_owned :: WalletOwnedOutput where
  "ex_owned = \<lparr>owned_txout = ex_utxo,
     owned_opening = \<lparr>secret_asset = [4], secret_asset_bf = [], secret_value = 5, secret_value_bf = []\<rparr>, owned_item = ex_item\<rparr>"

definition ex_published :: PublishedSnapshot where
  "ex_published = \<lparr>published_token = \<lparr>token_generation = 1, token_snapshot = ex_zero, token_observed_at = 1\<rparr>,
     published_anchor = \<lparr>scan_block_hash = ex_zero, scan_block_height = 1\<rparr>, published_outputs = [ex_owned]\<rparr>"

definition ex_view :: EligibleInventory where
  "ex_view = \<lparr>eligible_token = published_token ex_published, eligible_anchor = published_anchor ex_published,
     eligible_allocation_revision = 0, eligible_committed = ex_zero, eligible_outputs = [ex_owned]\<rparr>"

definition ex_freshness :: InventoryFreshnessPolicy where
  "ex_freshness = \<lparr>max_snapshot_age_millis = 10, max_inventory_outputs = 1\<rparr>"

definition ex_rule :: PairRule where
  "ex_rule = \<lparr>rule_input_asset = [3], rule_output_asset = [4],
     rule_limits = launch_default \<lparr>range_minimum = 1, range_maximum = 10\<rparr> \<lparr>range_minimum = 1, range_maximum = 10\<rparr>\<rparr>"

definition ex_market :: MarketQuoteConfig where
  "ex_market = \<lparr>config_context = request_context ex_request,
     config_assets = \<lparr>assets_collateral = [3], assets_yes = [4], assets_no = [5]\<rparr>, config_pairs = [ex_rule]\<rparr>"

definition ex_engine :: "unit QuoteEngine" where
  "ex_engine = \<lparr>engine_freshness = ex_freshness, engine_pricing = \<lambda>_. Ok ex_pricing, engine_catalog = [ex_market],
     engine_policy = ex_policy\<rparr>"

definition ex_engine_env :: "unit Environment" where
  "ex_engine_env = \<lparr>env_now = \<lambda>_. 2, env_commit = \<lambda>_. Committed, env_others = \<lambda>_. [],
     env_destination = \<lambda>_ _. Ok \<lparr>dest_script_pubkey = [7], dest_blinding_public_key = [8], dest_internal_key = [7],
       dest_wallet_locator = [1]\<rparr>\<rparr>"

definition ex_world :: "nat \<Rightarrow> nat \<Rightarrow> nat \<Rightarrow> Database \<Rightarrow> World" where
  "ex_world clock accesses issued db = \<lparr>book = ex_book db, state = \<lparr>generation = 1, latest = Some ex_published\<rparr>,
     state_lock_poisoned = False, clock_reads = clock, book_accesses = accesses, destinations_issued = issued\<rparr>"

lemma ex_clock: "clock_now ex_engine_env (ex_world c a i db) = (Ok 2, ex_world (Suc c) a i db)"
  by (simp add: clock_now_def ex_engine_env_def ex_world_def)

lemma ex_others: "others_first ex_store_ops ex_engine_env (ex_world c a i db) = ex_book db"
  by (simp add: others_first_def ex_engine_env_def ex_world_def)

lemma ex_write:
  "book_write ex_store_ops ex_engine_env body (ex_world c a i db) =
     (case body Committed Committed (ex_book db) of (r, b) \<Rightarrow> (r, (ex_world c (Suc a) i db)\<lparr>book := b\<rparr>))"
  by (simp add: book_write_def ex_others) (simp add: ex_engine_env_def ex_world_def)

lemma ex_read:
  "book_read ex_store_ops ex_engine_env body (ex_world c a i db) = (body (ex_book db), ex_world c (Suc a) i db)"
  by (simp add: book_read_def ex_others Let_def) (simp add: ex_world_def)

lemma ex_world_book: "(ex_world c a i db)\<lparr>book := ex_book db'\<rparr> = ex_world c a i db'"
  by (simp add: ex_world_def)

lemma ex_observed: "observe_time ex_db2 2 = Ok ex_db2'" "observe_time ex_db2' 2 = Ok ex_db2'"
  by (simp_all add: observe_time_def ex_db2'_def ex_db2_def)

lemma ex_timed:
  "observe_time db 2 = Ok ex_db2' \<Longrightarrow> run_timed Committed Committed 2 body (ex_book db) = (case body 2 ex_db2' of
      Inl e \<Rightarrow> (Err e, ex_book ex_db2') | Inr (db', r) \<Rightarrow> (r, ex_book db'))"
  by (simp add: run_timed_def ensure_healthy_def commit_write_def split: sum.split)

lemma ex_expired: "expire_due_in_write ex_store_ops 2 n ex_db2' = Ok (ex_db2', [])"
  by (simp add: expire_due_in_write_def ex_db2'_def ex_db_defs)

lemma ex_unbound: "read_request_binding ex_db2' ex_zero ex_zero = None"
  by (simp add: read_request_binding_def ex_db2'_def ex_db_defs tbl_get_def)

lemma ex_request_valid: "request_validate u ex_request = (if u [1] then Err InvalidDerivedQuote else Ok ())"
  by (simp add: request_validate_def kind_validate_def kind_bounds_def recipient_validate_def ex_request_def ex_recipient_def
      admission_of_model_def MAX_QUOTE_RECIPIENT_SCRIPT_BYTES_def)

lemma ex_spendable [simp]: "script_unspendable (quote_ops_of ex_store_ops) script = False"
  by (simp add: ex_store_ops_def)

lemma ex_preflight:
  "preflight ex_store_ops ex_engine_env ex_engine ex_zero ex_zero ex_request (ex_world 0 0 0 ex_db2) =
     (Ok (ex_zero, None) :: ((unit, unit, unit) QuoteEngineError, _) result, ex_world 1 1 0 ex_db2')"
proof -
  have "enforce_live_quote_limits ex_zero ex_policy 2 ex_db2' = Ok ()"
    by (simp add: enforce_live_quote_limits_def checked_add_def ex_db2'_def ex_db_defs)
  then have "preflight_body ex_store_ops ex_identity ex_zero ex_zero ex_zero ex_policy 2 ex_db2' = commit_ok ex_db2' None"
    by (simp add: preflight_body_def ex_unbound ex_expired)
  then have "preflight_firm_quote ex_store_ops Committed Committed 2 ex_zero ex_zero ex_zero ex_policy (ex_book ex_db2) =
      (Ok None, ex_book ex_db2')"
    by (simp add: preflight_firm_quote_def ex_timed [OF ex_observed(1)])
  then show ?thesis
    by (simp add: preflight_def ex_request_valid codec_def op_bind_def op_map_err_def op_result_def ex_clock ex_write ex_world_book)
      (simp add: ex_engine_def ex_world_book op_result_def)
qed

lemma ex_expire_all: "expire_all ex_store_ops ex_engine_env (ex_world 1 1 0 ex_db2') = Some (Ok (), ex_world 2 2 0 ex_db2')"
proof -
  have "expire_due ex_store_ops Committed Committed 2 MAX_EXPIRATION_BATCH (ex_book ex_db2') = (Ok [], ex_book ex_db2')"
    by (simp add: expire_due_def ex_timed [OF ex_observed(2)] expire_due_body_def ex_expired MAX_EXPIRATION_BATCH_def)
  then show ?thesis
    by (subst expire_all.simps)
      (simp add: expire_batch_of_def op_bind_def ex_clock ex_write ex_world_book MAX_EXPIRATION_BATCH_def numeral_2_eq_2)
qed

lemma ex_fresh: "check_fresh ex_freshness ex_published 2 = Ok ex_published"
  by (simp add: check_fresh_def ex_freshness_def ex_published_def word_le_nat_alt Let_def)

lemma ex_require_fresh:
  "require_fresh ex_store_ops ex_engine_env ex_freshness 2 (ex_world c a i ex_db2') = (Ok ex_published, ex_world c (Suc a) i ex_db2')"
proof -
  have "last_observed_time (ex_book ex_db2') = Ok (Some 2)"
    by (simp add: last_observed_time_def run_read_def ensure_healthy_def ex_db2'_def)
  then show ?thesis
    by (simp add: require_fresh_def op_bind_def op_map_err_def op_result_def ex_read)
      (simp add: ex_world_def ex_fresh)
qed

lemma ex_state_for: "inventory_state_for ex_store_ops [ex_outpoint] (ex_book ex_db2') =
    Ok ([\<lparr>view_item = ex_item, view_inventory_state = Available\<rparr>], 0)"
proof -
  have "tbl_get (inventory_tbl ex_db2') (outpoint_key ex_outpoint) = Some ex_item" "allocation_revision ex_db2' = Ok 0"
    "inventory_state_at ex_db2' (outpoint_key ex_outpoint) = Available"
    by (simp_all add: ex_db2'_def ex_db_defs tbl_get_def allocation_revision_def inventory_state_at_def)
  then show ?thesis
    using ex_item_ok by (simp add: inventory_state_for_def run_read_def ensure_healthy_def lookup_inventory_def ex_item_def)
qed

lemma ex_from_snapshot:
  "eligible_from_snapshot ex_store_ops ex_engine_env ex_published (ex_world c a i ex_db2') = (Ok ex_view, ex_world c (Suc a) i ex_db2')"
proof -
  have outs: "published_outputs ex_published = [ex_owned]" "owned_item ex_owned = ex_item" "item_outpoint ex_item = ex_outpoint"
    by (simp_all add: ex_published_def ex_owned_def ex_item_def)
  have "eligible_commitment ex_store_ops [ex_owned] = ex_zero" by (simp add: eligible_commitment_def ex_store_ops_def)
  moreover have "check_eligible [\<lparr>view_item = ex_item, view_inventory_state = Available\<rparr>] ex_owned [] = Ok [ex_owned]"
    using outs by (simp add: check_eligible_def durable_view_def)
  ultimately show ?thesis
    by (simp add: eligible_from_snapshot_def op_bind_def op_map_err_def op_result_def ex_read outs ex_state_for ex_view_def)
qed

lemma ex_lock: "lock_state (ex_world c a i db) = (Ok (), ex_world c a i db)"
  by (simp add: lock_state_def ex_world_def)

lemma ex_eligible:
  "eligible ex_store_ops ex_engine_env ex_freshness (ex_world c a i ex_db2') = (Ok ex_view, ex_world (Suc c) (Suc (Suc a)) i ex_db2')"
  by (simp add: eligible_def op_bind_def ex_lock ex_clock ex_require_fresh ex_from_snapshot)

lemma ex_resolve:
  "catalog_resolve (engine_catalog ex_engine) (request_context ex_request) [3] [4] = Ok (ex_market, ex_rule)"
  by (simp add: catalog_resolve_def ex_engine_def ex_market_def ex_rule_def)

lemma ex_kind: "kind_pair (request_kind ex_request) = ([3], [4])"
  by (simp add: ex_request_def kind_pair_def)

lemma ex_executed:
  "calculate_execution (script_unspendable (quote_ops_of ex_store_ops)) ex_request ex_pricing (rule_limits ex_rule) = Ok ex_execution"
proof -
  have "execution_amounts (request_kind ex_request) ex_pricing = Ok (execution_input ex_execution, execution_output ex_execution)"
    by (simp add: execution_amounts_def ex_request_def ex_pricing_def ex_execution_def nonzero_sub_def checked_sub_def
        multiply_divide_floor_def checked_mul_def try_from_nat_def asset_amount_new_def)
  moreover have "pricing_validate ex_pricing = Ok ()"
    by (simp add: pricing_validate_def ex_pricing_def)
  ultimately show ?thesis
    by (simp add: calculate_execution_def ex_request_valid)
      (simp add: ex_request_def ex_pricing_def ex_execution_def ex_rule_def launch_default_def range_contains_def word_le_nat_alt)
qed

lemma ex_priced:
  "price_request ex_store_ops ex_engine ex_request ex_view ex_market ex_rule =
     (Ok (ex_pricing, ex_execution, [ex_owned]) :: ((unit, unit, unit) QuoteEngineError, _) result)"
proof -
  have owned: "item_asset (owned_item ex_owned) = [4]" "out_amount ex_owned = 5"
    by (simp_all add: ex_owned_def ex_item_def)
  have view: "eligible_outputs ex_view = [ex_owned]" by (simp add: ex_view_def)
  have "select_inventory [ex_owned] [4] (aa_amount (execution_output ex_execution)) (rule_limits ex_rule) = Ok [ex_owned]"
    by (simp add: select_inventory_def owned ex_execution_def)
  moreover have "inventory_summary [ex_owned] (config_assets ex_market) = Ok \<lparr>balances = [\<lparr>aa_asset = [4], aa_amount = 5\<rparr>]\<rparr>"
    by (simp add: inventory_summary_def add_balance_def owned ex_market_def checked_add_def tbl_get_def assets_contains_def Let_def)
  moreover have "pricing_validate ex_pricing = Ok ()"
    by (simp add: pricing_validate_def ex_pricing_def)
  ultimately show ?thesis
    by (simp add: price_request_def ex_kind view ex_executed) (simp add: ex_engine_def ex_executed)
qed

lemma ex_build:
  "build_draft ex_store_ops ex_engine_env ex_engine ex_request ex_market ex_rule ex_view (ex_world c a i db) =
     (Ok ex_draft :: ((unit, unit, unit) QuoteEngineError, _) result, ex_world c a (Suc i) db)"
proof -
  let ?d = "\<lparr>dest_script_pubkey = [7], dest_blinding_public_key = [8], dest_internal_key = [7], dest_wallet_locator = [1]\<rparr>"
  have dest: "fresh_destination ex_engine_env SettlementReceive (ex_world c a i db) = (Ok ?d, ex_world c a (Suc i) db)"
    by (simp add: fresh_destination_def ex_engine_env_def ex_world_def)
  have change: "selected_change [ex_owned] ex_execution = Ok (5, 0)"
    by (simp add: selected_change_def checked_total_def ex_owned_def ex_item_def ex_execution_def checked_add_def checked_sub_def)
  have contribution: "quote_contribution [ex_owned] ex_execution (request_recipient ex_request) ?d None 0 = Ok ex_contribution"
    by (simp add: quote_contribution_def quoted_input_def ex_owned_def ex_item_def ex_contribution_def ex_execution_def
        ex_request_def recipient_of_destination_def list_get_def try_from_nat_def checked_add_def)
  have "quote_draft ex_request ex_view ex_pricing ex_execution ex_contribution ?d None [4] 5 = ex_draft"
    by (simp add: quote_draft_def ex_draft_def ex_view_def ex_published_def ex_evidence_def recovery_of_destination_def)
  then show ?thesis
    by (simp add: build_draft_def op_bind_def op_result_def op_map_err_def ex_priced change dest reused_destination_def
        contribution ex_kind)
qed

lemma ex_reserve_again:
  "reserve_firm_quote_from_snapshot ex_store_ops Committed Committed 2 ex_zero ex_zero ex_zero ex_draft ex_policy 1 10
     (ex_book ex_db2') = (Ok ex_outcome, ex_book ex_db3)"
  using ex_reserve_result
  by (simp add: reserve_firm_quote_from_snapshot_def ex_timed [OF ex_observed(1)] ex_timed [OF ex_observed(2)] split: if_splits)

lemma ex_not_replayed:
  "replay_firm_quote ex_store_ops Committed Committed 2 ex_zero ex_zero ex_zero (ex_book ex_db2') = (Ok None, ex_book ex_db2')"
  by (simp add: replay_firm_quote_def ex_timed [OF ex_observed(2)] replay_body_def ex_unbound)

lemma ex_draft_checked: "check_draft_snapshot ex_draft ex_published ex_view = Ok ()"
  by (simp add: check_draft_snapshot_def check_eligible_input_def ex_draft_def ex_evidence_def ex_published_def ex_view_def
      ex_contribution_def ex_owned_def ex_item_def)

lemma ex_draft_valid: "draft_validate (script_unspendable (quote_ops_of ex_store_ops)) ex_draft = Ok ()"
  by (simp add: draft_validate_def ex_draft_def ex_request_valid)
    (simp add: pricing_validate_def ex_pricing_def ex_execution_def ex_contribution_def check_input_id_def checked_sub_def
      MAX_RESERVATION_INPUTS_def ex_request_def try_from_nat_def checked_add_def)

lemma ex_reserved:
  "reserve_firm_quote ex_store_ops ex_engine_env ex_freshness ex_view ex_zero ex_zero ex_zero ex_draft ex_policy
     (ex_world c a i ex_db2') =
     (Ok ex_outcome :: (unit InventoryCoordinatorError, _) result, ex_world (Suc (Suc (Suc c))) (Suc (Suc (Suc (Suc a)))) i ex_db3)"
proof -
  have fields: "published_token ex_published = eligible_token ex_view" "token_observed_at (eligible_token ex_view) = 1"
    "max_snapshot_age_millis ex_freshness = 10"
    by (simp_all add: ex_view_def ex_published_def ex_freshness_def)
  show ?thesis
    by (simp add: reserve_firm_quote_def reserve_from_latest_def ex_draft_valid op_bind_def op_map_err_def op_result_def
        ex_lock ex_clock ex_write ex_not_replayed ex_world_book ex_require_fresh ex_from_snapshot ex_draft_checked
        fields ex_reserve_again)
qed

lemma ex_firm_quote:
  "firm_quote ex_store_ops ex_engine_env ex_engine ex_zero ex_zero ex_request (ex_world 0 0 0 ex_db2) =
     Some (Ok ex_outcome :: ((unit, unit, unit) QuoteEngineError, _) result, ex_world 6 8 1 ex_db3)"
proof -
  have engine: "engine_freshness ex_engine = ex_freshness" "engine_policy ex_engine = ex_policy"
    by (simp_all add: ex_engine_def)
  have "issue_quote ex_store_ops ex_engine_env ex_engine ex_zero ex_zero ex_zero ex_request (ex_world 2 2 0 ex_db2') =
     (Ok ex_outcome :: ((unit, unit, unit) QuoteEngineError, _) result, ex_world 6 8 1 ex_db3)"
    by (simp add: issue_quote_def ex_kind op_bind_def op_result_def op_map_err_def ex_resolve engine ex_eligible ex_build
        ex_reserved numeral_eq_Suc)
  then show ?thesis using ex_expire_all by (simp add: firm_quote_def ex_preflight)
qed

lemma ex_env_ok: "env_ok ex_store_ops ex_engine_env"
  by (simp add: env_ok_def ex_engine_env_def)

theorem firm_quote_returns_witness:
  "\<exists>(r :: ((unit, unit, unit) QuoteEngineError, FirmQuoteOutcome) result) w'.
    firm_quote ex_store_ops ex_engine_env ex_engine ex_zero ex_zero ex_request (ex_world 0 0 0 ex_db2) = Some (r, w')"
  by (rule firm_quote_returns [of 0]) (simp add: ex_engine_env_def)

theorem engine_drafts_valid_witness:
  "draft_validate (script_unspendable (quote_ops_of ex_store_ops)) ex_draft = Ok ()"
  by (rule engine_drafts_valid [OF ex_build])
    (simp_all add: ex_rule_def launch_default_def MAX_RESERVATION_INPUTS_def DEFAULT_MAX_QUOTE_INPUTS_def)

theorem issued_quote_backed_witness:
  "inventory_state_at (database (book (ex_world 6 8 1 ex_db3))) (outpoint_key ex_outpoint) = InvReserved ex_zero"
proof -
  have reach: "ex_reachable (book (ex_world 0 0 0 ex_db2))" using ex_reachable_imported by (simp add: ex_world_def)
  have created: "outcome_created ex_outcome" by (simp add: ex_outcome_def)
  have id: "view_id (outcome_reservation ex_outcome) = ex_zero"
    "contribution_inputs (quote_contribution_of (outcome_quote ex_outcome)) = contribution_inputs ex_contribution"
    by (simp_all add: ex_outcome_def ex_quote_def)
  show ?thesis
    using issued_quote_backed [OF ex_sha_32 reach ex_env_ok ex_firm_quote created]
    by (simp add: id) (auto simp: ex_contribution_def)
qed

end
