(* ===== verification/Node_Types.thy ===== *)
theory Node_Types
  imports Elements_Tx Effects
begin

text \<open>
  The data of the node's canonical store, \<open>crates/deadcat-node/src/store.rs\<close>: contract records
  with their script, asset and outpoint bindings, block and transaction deltas, the rows of every
  table, the undo journal, events and the error type, together with the network policy of
  \<open>activation.rs\<close> and the status enumerations of \<open>deadcat-rpc\<close>.  Text carried by errors is left
  out.
\<close>

section \<open>Enumerations of the RPC schema\<close>

datatype SyncStatus = Starting | Syncing | StatusReady | RescanRequired | BackendUnavailable

datatype RecoveryFamily = FamilyBinaryMarketV1

datatype SnapshotScope = ScopeMarkets | ScopeRecoveryHints "RecoveryFamily option"


section \<open>Network policy\<close>

datatype PolicyAssetError =
    ProductionPolicyAssetMismatch LiquidNetwork asset_id asset_id
  | ElementsRegtestPolicyAssetRequired

text \<open>
  Identifiers are displayed with their bytes reversed; the constants are the internal byte order
  of the hexadecimal literals.
\<close>

definition LIQUID_POLICY_ASSET :: asset_id where
  "LIQUID_POLICY_ASSET = rev [0x6f, 0x02, 0x79, 0xe9, 0xed, 0x04, 0x1c, 0x3d, 0x71, 0x0a, 0x9f, 0x57, 0xd0, 0xc0, 0x29, 0x28,
     0x41, 0x64, 0x60, 0xc4, 0xb7, 0x22, 0xae, 0x34, 0x57, 0xa1, 0x1e, 0xec, 0x38, 0x1c, 0x52, 0x6d]"

definition LIQUID_TESTNET_POLICY_ASSET :: asset_id where
  "LIQUID_TESTNET_POLICY_ASSET = rev [0x14, 0x4c, 0x65, 0x43, 0x44, 0xaa, 0x71, 0x6d, 0x6f, 0x3a, 0xbc, 0xc1, 0xca, 0x90, 0xe5, 0x64,
     0x1e, 0x4e, 0x2a, 0x7f, 0x63, 0x3b, 0xc0, 0x9f, 0xe3, 0xba, 0xf6, 0x45, 0x85, 0x81, 0x9a, 0x49]"

definition production_policy_asset :: "LiquidNetwork \<Rightarrow> asset_id option" where
  "production_policy_asset n = (case n of
       Liquid \<Rightarrow> Some LIQUID_POLICY_ASSET
     | LiquidTestnet \<Rightarrow> Some LIQUID_TESTNET_POLICY_ASSET
     | ElementsRegtest \<Rightarrow> None)"

definition resolve_policy_asset :: "LiquidNetwork \<Rightarrow> asset_id option \<Rightarrow> (PolicyAssetError, asset_id) result" where
  "resolve_policy_asset n supplied = (case production_policy_asset n of
       Some expected \<Rightarrow>
         (case supplied of
            Some actual \<Rightarrow> if actual \<noteq> expected then Err (ProductionPolicyAssetMismatch n expected actual) else Ok expected
          | None \<Rightarrow> Ok expected)
     | None \<Rightarrow> ok_or supplied ElementsRegtestPolicyAssetRequired)"

definition validate_policy_asset :: "LiquidNetwork \<Rightarrow> asset_id \<Rightarrow> (PolicyAssetError, unit) result" where
  "validate_policy_asset n actual = rbind (resolve_policy_asset n (Some actual)) (\<lambda>_. Ok ())"

definition LIQUID_V1_ACTIVATION_HEIGHT :: u32 where
  "LIQUID_V1_ACTIVATION_HEIGHT = 3974391"

definition LIQUID_V1_ACTIVATION_HASH :: bytes where
  "LIQUID_V1_ACTIVATION_HASH = rev [0x70, 0x5d, 0x69, 0x9f, 0xe1, 0xd7, 0xf9, 0x43, 0x38, 0x37, 0xf5, 0xf8, 0xfe, 0xc9, 0x34, 0x7c,
     0x2d, 0x5f, 0x25, 0xae, 0xbe, 0xc5, 0xc7, 0x0c, 0xe8, 0x38, 0xdb, 0x50, 0xdb, 0x89, 0x0c, 0x35]"

definition LIQUID_TESTNET_V1_ACTIVATION_HEIGHT :: u32 where
  "LIQUID_TESTNET_V1_ACTIVATION_HEIGHT = 2529866"

definition LIQUID_TESTNET_V1_ACTIVATION_HASH :: bytes where
  "LIQUID_TESTNET_V1_ACTIVATION_HASH = rev [0x78, 0xfe, 0x3d, 0x5c, 0xe6, 0xa0, 0xdf, 0x49, 0xe7, 0xf4, 0x1a, 0xdf, 0x2e, 0x20, 0xe6, 0x10,
     0xf3, 0x4f, 0x28, 0x13, 0xdf, 0xea, 0xaf, 0x50, 0xbe, 0x86, 0x9a, 0xd0, 0xe3, 0x2f, 0x51, 0x0e]"

definition production_activation_anchor :: "LiquidNetwork \<Rightarrow> ChainAnchor option" where
  "production_activation_anchor n = (case n of
       Liquid \<Rightarrow> Some \<lparr>height = LIQUID_V1_ACTIVATION_HEIGHT, hash = LIQUID_V1_ACTIVATION_HASH\<rparr>
     | LiquidTestnet \<Rightarrow> Some \<lparr>height = LIQUID_TESTNET_V1_ACTIVATION_HEIGHT, hash = LIQUID_TESTNET_V1_ACTIVATION_HASH\<rparr>
     | ElementsRegtest \<Rightarrow> None)"


section \<open>Contracts and deltas\<close>

record NodeChainIdentity =
  identity_network :: LiquidNetwork
  identity_genesis_hash :: bytes
  node_policy_asset :: asset_id

datatype ContractParameters = ParamsBinaryMarket BinaryMarketParams

datatype ContractState = StateBinaryMarket BinaryMarketState

datatype AssetRelationKind =
    RelCollateral | RelYesToken | RelNoToken | RelYesReissuanceToken | RelNoReissuanceToken

definition relation_tag :: "AssetRelationKind \<Rightarrow> u8" where
  "relation_tag k = (case k of RelCollateral \<Rightarrow> 0 | RelYesToken \<Rightarrow> 1 | RelNoToken \<Rightarrow> 2
     | RelYesReissuanceToken \<Rightarrow> 3 | RelNoReissuanceToken \<Rightarrow> 4)"

record ScriptBinding =
  script_role :: u8
  binding_script :: bytes

record AssetBinding =
  binding_asset :: asset_id
  relation :: AssetRelationKind
  asset_role :: u8

record TrackedOutpoint =
  tracked_role :: u8
  tracked_outpoint :: OutPoint

record ContractRecord =
  contract_id :: ContractId
  contract_kind :: ContractKind
  contract_params :: ContractParameters
  creation_position :: ChainPosition
  contract_state :: ContractState
  sync_state :: ContractSyncState
  scripts :: "ScriptBinding list"
  assets :: "AssetBinding list"
  outpoints :: "TrackedOutpoint list"

record TransitionRecord =
  transition_kind :: u16
  transition_payload :: bytes

record StateUpdate =
  updated_contract :: ContractId
  old_contract_state :: ContractState
  new_contract_state :: ContractState
  spent_outpoints :: "OutPoint list"
  new_outpoints :: "TrackedOutpoint list"
  update_transition :: TransitionRecord

record ChainTxDelta =
  delta_position :: ChainPosition
  delta_block_hash :: bytes
  delta_txid :: txid
  delta_raw_tx :: Transaction
  created_contracts :: "ContractRecord list"
  state_updates :: "StateUpdate list"

record RecoveryHintDelta =
  hint_location :: RecoveryHintLocation
  hint_creation_txid :: txid
  hint_family :: RecoveryFamily
  hint_payload :: bytes
  hint_associated :: "ContractId option"

record BlockDelta =
  delta_anchor :: ChainAnchor
  delta_prev_hash :: bytes
  ordered_txids :: "txid list"
  relevant_transactions :: "ChainTxDelta list"
  recovery_hints :: "RecoveryHintDelta list"


section \<open>Rows\<close>

record StoredBlock =
  stored_anchor :: ChainAnchor
  stored_prev_hash :: bytes
  stored_txids :: "txid list"
  stored_digest :: bytes

record StoredTransaction =
  stored_position :: ChainPosition
  stored_block_hash :: bytes
  stored_txid :: txid
  stored_raw_tx :: bytes
  affected_contract_ids :: "ContractId list"

record StoredOutput =
  output_position :: ChainPosition
  output_outpoint :: OutPoint
  output_txout :: TxOut

record StoredOutputRef =
  ref_position :: ChainPosition
  ref_outpoint :: OutPoint

text \<open>A stored hint has the fields of the delta that carried it.\<close>

type_synonym StoredRecoveryHint = RecoveryHintDelta

record StoredHistoryEntry =
  history_position :: ChainPosition
  history_txid :: txid
  history_old_state :: ContractState
  history_new_state :: ContractState
  history_transition :: TransitionRecord

record BackfillProgress =
  progress_contract :: ContractId
  pinned_tip :: ChainAnchor
  next_position :: ChainPosition
  last_applied :: "(ChainAnchor \<times> bytes) option"

record RegistrationEvidence =
  evidence_anchor :: ChainAnchor
  evidence_transaction :: Transaction
  associated_hint :: "RecoveryHintLocation option"

record RegistrationTransactionGroup =
  group_position :: ChainPosition
  group_anchor :: ChainAnchor
  group_txid :: txid
  group_raw_tx :: bytes
  group_output_count :: u32
  existing_contract_ids :: "ContractId list"
  new_contract_ids :: "ContractId list"

record ContractRegistrationResult =
  registered_record :: ContractRecord
  registered_inserted :: bool

record StoreSnapshotMetadata =
  as_of :: ChainAnchor
  snapshot_high_watermark :: EventCursor

record StoreStatusSnapshot =
  indexed_tip :: ChainAnchor
  status_activation :: ChainAnchor
  status_sync :: SyncStatus
  status_high_watermark :: EventCursor

record StoreSnapshotCursor =
  cursor_as_of :: ChainAnchor
  cursor_high_watermark :: EventCursor
  cursor_scope :: SnapshotScope
  after_key :: bytes

record 'a MaterializedPage =
  page_snapshot :: StoreSnapshotMetadata
  page_items :: "'a list"
  page_next :: "StoreSnapshotCursor option"

record AssetRelationRecord =
  related_contract :: ContractId
  related_binding :: AssetBinding

record OutpointOwner =
  owner_contract :: ContractId
  owner_role :: u8

datatype StoredEvent =
    ContractRegistered ContractId
  | TransactionApplied ChainAnchor txid ChainPosition "ContractId list"
  | BackfillApplied ContractId ChainAnchor u32
  | ContractReady ContractId ChainAnchor
  | ChainRolledBack ChainAnchor ChainAnchor "ChainPosition list" "ContractId list"
  | SyncStatusChanged SyncStatus

record StoredEventEnvelope =
  envelope_cursor :: EventCursor
  envelope_event :: StoredEvent

record ContractUndo =
  undo_contract :: ContractId
  contract_before :: "ContractRecord option"

record BackfillProgressUndo =
  undo_progress_contract :: ContractId
  progress_before :: "BackfillProgress option"

record UndoBlock =
  previous_tip :: ChainAnchor
  contract_changes :: "ContractUndo list"
  transaction_positions :: "ChainPosition list"
  output_outpoints :: "OutPoint list"
  history_keys :: "(ContractId \<times> ChainPosition) list"
  recovery_locations :: "RecoveryHintLocation list"
  backfill_progress_changes :: "BackfillProgressUndo list"


section \<open>Results and errors\<close>

record ApplyBlockResult =
  block_applied :: bool
  new_tip :: ChainAnchor
  apply_high_watermark :: EventCursor

datatype RollbackResult =
    Noop ChainAnchor
  | RolledBack ChainAnchor ChainAnchor "ChainPosition list" EventCursor
  | RollbackRebuildRequired ChainAnchor ChainAnchor bytes

record ApplyBackfillResult =
  backfill_applied :: bool
  backfill_through :: ChainAnchor
  ready_contracts :: "ContractId list"
  backfill_high_watermark :: EventCursor

datatype NodeStoreError =
    StoreCommitError
  | StoreCodecError
  | ConsensusDecode
  | MissingOutput OutPoint
  | MissingOutputTransaction ChainPosition
  | CorruptSchemaVersion
  | StoreSchemaMismatch u32 u32
  | MissingMetadata string
  | CorruptMetadata string
  | CorruptIndexKey string
  | NetworkPolicy PolicyAssetError
  | ChainIdentityMismatch NodeChainIdentity NodeChainIdentity
  | ActivationAnchorMismatch ChainAnchor ChainAnchor
  | ActivationNotInitialized
  | IncompleteChainConfiguration
  | TipBeforeActivation ChainAnchor ChainAnchor
  | ActivationAnchorNotCanonical ChainAnchor "ChainAnchor option"
  | TipNotInitialized
  | HeightOverflow
  | PositionOverflow
  | NonContiguousBlock ChainAnchor ChainAnchor bytes
  | ForkConflict u32
  | InvalidBlock
  | InvalidContract
  | InvalidTransition
  | ContractAlreadyExists ContractId
  | InvalidRegistrationEvidence
  | MissingRegistrationTransaction ChainPosition
  | RegistrationTransactionConflict ChainPosition
  | ContractNotFound ContractId
  | StateMismatch ContractId
  | OutpointAlreadyOwned OutPoint ContractId
  | UnaccountedTrackedInput OutPoint ContractId
  | DuplicateHistory ContractId ChainPosition
  | DuplicateRecoveryHint RecoveryHintLocation
  | MissingBackfillProgress ContractId
  | InvalidBackfill
  | BackfillBranchChanged ChainAnchor
  | BackfillPositionMismatch ContractId ChainPosition u32
  | BackfillTransactionConflict ChainPosition
  | TransitionCountOverflow
  | StaleCursor bytes bytes
  | CursorAhead u64 u64
  | InvalidQueryLimit
  | InvalidSnapshotKey nat nat
  | StaleSnapshotCursor StoreSnapshotMetadata StoreSnapshotMetadata
  | SnapshotScopeMismatch SnapshotScope SnapshotScope
  | EventSequenceOverflow
  | RebuildRequired
  | RebuildNotRequired
  | PreActivationContract ChainAnchor
  | InvalidRollbackTarget ChainAnchor ChainAnchor
  | MissingUndo u32
  | AncestorMismatch ChainAnchor ChainAnchor

end
