(* ===== verification/Node_Store.thy ===== *)
theory Node_Store
  imports Node_Types
begin

text \<open>
  The tables of the node's canonical store and the row-level operations of
  \<open>crates/deadcat-node/src/store.rs\<close>: keys, metadata, the event journal, contract rows with their
  four secondary indexes, and the write and read transactions around them.  A table row is the
  decoded record under its byte key; the schema version, event epoch and event sequence are the
  stored bytes.  The hash, the transaction codec and postcard are parameters.
\<close>

record node_ops =
  node_sha256 :: "bytes \<Rightarrow> bytes"
  node_txid :: "Transaction \<Rightarrow> txid"
  serialize_tx :: "Transaction \<Rightarrow> bytes"
  deserialize_tx :: "bytes \<Rightarrow> Transaction option"
  postcard_block_delta :: "BlockDelta \<Rightarrow> bytes option"

record NodeDb =
  meta_schema :: "bytes option"
  meta_epoch :: "bytes option"
  meta_sequence :: "bytes option"
  meta_status :: "SyncStatus option"
  meta_identity :: "NodeChainIdentity option"
  meta_activation :: "ChainAnchor option"
  tip_row :: "ChainAnchor option"
  block_rows :: "(bytes, StoredBlock) table"
  transaction_rows :: "(bytes, StoredTransaction) table"
  output_rows :: "(bytes, StoredOutputRef) table"
  contract_rows :: "(bytes, ContractRecord) table"
  retained_rows :: "(bytes, ContractDeclaration) table"
  owner_rows :: "(bytes, OutpointOwner) table"
  outpoint_rows :: "(bytes, OutPoint) table"
  script_rows :: "(bytes, ScriptBinding) table"
  asset_rows :: "(bytes, AssetBinding) table"
  hint_rows :: "(bytes, StoredRecoveryHint) table"
  history_rows :: "(bytes, StoredHistoryEntry) table"
  progress_rows :: "(bytes, BackfillProgress) table"
  undo_rows :: "(bytes, UndoBlock) table"
  event_rows :: "(bytes, StoredEventEnvelope) table"

definition empty_node_db :: NodeDb where
  "empty_node_db =
     \<lparr>meta_schema = None, meta_epoch = None, meta_sequence = None, meta_status = None, meta_identity = None,
      meta_activation = None, tip_row = None, block_rows = [], transaction_rows = [], output_rows = [],
      contract_rows = [], retained_rows = [], owner_rows = [], outpoint_rows = [], script_rows = [], asset_rows = [],
      hint_rows = [], history_rows = [], progress_rows = [], undo_rows = [], event_rows = []\<rparr>"

definition NODE_SCHEMA_VERSION :: u32 where
  "NODE_SCHEMA_VERSION = 1"

definition UNDO_RETENTION_BLOCKS :: u32 where
  "UNDO_RETENTION_BLOCKS = 2"


section \<open>Keys\<close>

definition height_key :: "u32 \<Rightarrow> bytes" where
  "height_key h = u32_be h"

definition history_key :: "ContractId \<Rightarrow> ChainPosition \<Rightarrow> bytes" where
  "history_key c p = contract_fixed_key c @ position_fixed_key p"

definition recovery_key :: "RecoveryHintLocation \<Rightarrow> bytes" where
  "recovery_key l = position_fixed_key (location_position l) @ u32_be (output_index l)"

definition contract_outpoint_key :: "ContractId \<Rightarrow> u8 \<Rightarrow> bytes" where
  "contract_outpoint_key c role = contract_fixed_key c @ [role]"

definition script_hash :: "node_ops \<Rightarrow> bytes \<Rightarrow> bytes" where
  "script_hash ops script = node_sha256 ops script"

definition script_key :: "node_ops \<Rightarrow> ContractId \<Rightarrow> ScriptBinding \<Rightarrow> bytes" where
  "script_key ops c b = script_hash ops (binding_script b) @ contract_fixed_key c @ [script_role b]"

definition asset_key :: "ContractId \<Rightarrow> AssetBinding \<Rightarrow> bytes" where
  "asset_key c b = binding_asset b @ [relation_tag (relation b)] @ contract_fixed_key c @ [asset_role b]"

definition decode_contract_key :: "bytes \<Rightarrow> (NodeStoreError, ContractId) result" where
  "decode_contract_key bs =
     (if length bs \<noteq> 36 then Err (CorruptIndexKey ''contract_id'')
      else Ok (ContractId (OutPoint (take 32 bs) (u32_from_be (drop 32 bs)))))"

definition decode_u32_meta :: "bytes \<Rightarrow> u32 option" where
  "decode_u32_meta bs = (if length bs = 4 then Some (u32_from_be bs) else None)"

definition decode_u64_meta :: "bytes \<Rightarrow> u64 option" where
  "decode_u64_meta bs = (if length bs = 8 then Some (u64_from_be bs) else None)"

definition delta_digest :: "node_ops \<Rightarrow> BlockDelta \<Rightarrow> (NodeStoreError, bytes) result" where
  "delta_digest ops delta =
     rbind (ok_or (postcard_block_delta ops delta) StoreCodecError) (\<lambda>encoded. Ok (node_sha256 ops encoded))"

text \<open>\<open>sort_by_key\<close> on the fixed key, then \<open>dedup\<close> of adjacent equal elements.\<close>

definition sort_dedup_contracts :: "ContractId list \<Rightarrow> ContractId list" where
  "sort_dedup_contracts cs = remdups_adj (sort_key contract_fixed_key cs)"


section \<open>Metadata and events\<close>

definition event_cursor_from_meta :: "NodeDb \<Rightarrow> (NodeStoreError, EventCursor) result" where
  "event_cursor_from_meta db =
     rbind (ok_or (meta_epoch db) (MissingMetadata ''event_epoch'')) (\<lambda>e.
     rbind (ensure (length e = 16) (CorruptMetadata ''event_epoch'')) (\<lambda>_.
     rbind (ok_or (meta_sequence db) (MissingMetadata ''event_sequence'')) (\<lambda>s.
     rbind (ok_or (decode_u64_meta s) (CorruptMetadata ''event_sequence'')) (\<lambda>n.
     Ok \<lparr>epoch = e, sequence = n\<rparr>))))"

definition append_event :: "StoredEvent \<Rightarrow> NodeDb \<Rightarrow> (NodeStoreError, NodeDb \<times> EventCursor) result" where
  "append_event event db =
     rbind (event_cursor_from_meta db) (\<lambda>current.
     rbind (ok_or (checked_add (sequence current) 1) EventSequenceOverflow) (\<lambda>n.
     let cursor = \<lparr>epoch = epoch current, sequence = n\<rparr> in
     Ok (db\<lparr>event_rows := tbl_insert (cursor_fixed_key cursor) \<lparr>envelope_cursor = cursor, envelope_event = event\<rparr> (event_rows db),
            meta_sequence := Some (u64_be n)\<rparr>, cursor)))"

text \<open>The cursor is dropped by the callers that only append.\<close>

definition push_event :: "StoredEvent \<Rightarrow> NodeDb \<Rightarrow> (NodeStoreError, NodeDb) result" where
  "push_event event db = rbind (append_event event db) (\<lambda>(db', _). Ok db')"

text \<open>\<open>random_epoch\<close> is the argument \<open>fresh_epoch\<close>.\<close>

definition mark_rebuild_required :: "bytes \<Rightarrow> NodeDb \<Rightarrow> (NodeStoreError, NodeDb \<times> bytes) result" where
  "mark_rebuild_required fresh_epoch db =
     (if meta_status db = Some RescanRequired
      then rbind (event_cursor_from_meta db) (\<lambda>high. Ok (db, epoch high))
      else
        rbind (push_event (SyncStatusChanged RescanRequired)
          (db\<lparr>meta_epoch := Some fresh_epoch, meta_sequence := Some (u64_be 0), meta_status := Some RescanRequired\<rparr>)) (\<lambda>db'.
        Ok (db', fresh_epoch)))"


section \<open>Contract rows\<close>

definition contract_is_live :: "ContractState \<Rightarrow> bool" where
  "contract_is_live s = (case s of
       StateBinaryMarket (Trading _) \<Rightarrow> True
     | StateBinaryMarket (ResolvedYes c) \<Rightarrow> c \<noteq> 0
     | StateBinaryMarket (ResolvedNo c) \<Rightarrow> c \<noteq> 0
     | StateBinaryMarket (Expired c) \<Rightarrow> c \<noteq> 0)"

text \<open>Every parameter, state and kind is a binary market, so the variants always agree.\<close>

definition record_validate :: "node_ops \<Rightarrow> ContractRecord \<Rightarrow> (NodeStoreError, unit) result" where
  "record_validate ops r =
     rbind (ensure (distinct (map tracked_role (outpoints r)) \<and> distinct (map tracked_outpoint (outpoints r))) InvalidContract) (\<lambda>_.
     ensure (distinct (map script_role (scripts r)) \<and>
       distinct (map (\<lambda>s. script_hash ops (binding_script s)) (scripts r))) InvalidContract)"

definition read_contract :: "NodeDb \<Rightarrow> ContractId \<Rightarrow> ContractRecord option" where
  "read_contract db c = tbl_get (contract_rows db) (contract_fixed_key c)"

definition insert_tracked :: "ContractId \<Rightarrow> TrackedOutpoint \<Rightarrow> NodeDb \<Rightarrow> (NodeStoreError, NodeDb) result" where
  "insert_tracked c t db =
     (case tbl_get (owner_rows db) (outpoint_fixed_key (tracked_outpoint t)) of
        Some owner \<Rightarrow> Err (OutpointAlreadyOwned (tracked_outpoint t) (owner_contract owner))
      | None \<Rightarrow> Ok (db\<lparr>
          owner_rows := tbl_insert (outpoint_fixed_key (tracked_outpoint t))
            \<lparr>owner_contract = c, owner_role = tracked_role t\<rparr> (owner_rows db),
          outpoint_rows := tbl_insert (contract_outpoint_key c (tracked_role t)) (tracked_outpoint t) (outpoint_rows db)\<rparr>))"

definition insert_contract :: "node_ops \<Rightarrow> ContractRecord \<Rightarrow> NodeDb \<Rightarrow> (NodeStoreError, NodeDb) result" where
  "insert_contract ops r db =
     rbind (record_validate ops r) (\<lambda>_.
     rbind (ensure (read_contract db (contract_id r) = None) (ContractAlreadyExists (contract_id r))) (\<lambda>_.
     rbind (rfold (insert_tracked (contract_id r)) (outpoints r) db) (\<lambda>db1.
     let db2 = (if contract_is_live (contract_state r)
           then db1\<lparr>script_rows := fold (\<lambda>s. tbl_insert (script_key ops (contract_id r) s) s) (scripts r) (script_rows db1)\<rparr>
           else db1);
         db3 = db2\<lparr>asset_rows := fold (\<lambda>a. tbl_insert (asset_key (contract_id r) a) a) (assets r) (asset_rows db2)\<rparr> in
     Ok (db3\<lparr>contract_rows := tbl_insert (contract_fixed_key (contract_id r)) r (contract_rows db3)\<rparr>))))"

definition remove_tracked :: "ContractId \<Rightarrow> TrackedOutpoint \<Rightarrow> NodeDb \<Rightarrow> NodeDb" where
  "remove_tracked c t db = db\<lparr>
     owner_rows := tbl_remove (outpoint_fixed_key (tracked_outpoint t)) (owner_rows db),
     outpoint_rows := tbl_remove (contract_outpoint_key c (tracked_role t)) (outpoint_rows db)\<rparr>"

definition remove_contract :: "node_ops \<Rightarrow> ContractRecord \<Rightarrow> NodeDb \<Rightarrow> NodeDb" where
  "remove_contract ops r db =
     (let db1 = fold (remove_tracked (contract_id r)) (outpoints r) db;
          db2 = (if contract_is_live (contract_state r)
            then db1\<lparr>script_rows := fold (\<lambda>s. tbl_remove (script_key ops (contract_id r) s)) (scripts r) (script_rows db1)\<rparr>
            else db1);
          db3 = db2\<lparr>asset_rows := fold (\<lambda>a. tbl_remove (asset_key (contract_id r) a)) (assets r) (asset_rows db2)\<rparr> in
      db3\<lparr>contract_rows := tbl_remove (contract_fixed_key (contract_id r)) (contract_rows db3)\<rparr>)"

text \<open>A ready contract is synchronized through the snapshot's tip.\<close>

definition normalize_ready_anchor :: "ContractRecord \<Rightarrow> ChainAnchor \<Rightarrow> ContractRecord" where
  "normalize_ready_anchor r tip = (case sync_state r of
       Ready _ \<Rightarrow> r\<lparr>sync_state := Ready tip\<rparr>
     | CatchingUp _ \<Rightarrow> r)"


section \<open>Checkpoints\<close>

definition canonical_anchor :: "NodeDb \<Rightarrow> u32 \<Rightarrow> ChainAnchor option" where
  "canonical_anchor db h = (case tip_row db of
       None \<Rightarrow> None
     | Some tip \<Rightarrow>
         if h > height tip then None
         else if h = height tip then Some tip
         else case tbl_get (block_rows db) (height_key h) of
             Some block \<Rightarrow> Some (stored_anchor block)
           | None \<Rightarrow>
               (case checked_add h 1 of
                  None \<Rightarrow> None
                | Some next \<Rightarrow>
                    map_option (\<lambda>block. \<lparr>height = h, hash = stored_prev_hash block\<rparr>)
                      (tbl_get (block_rows db) (height_key next))))"


section \<open>Write transactions\<close>

text \<open>An error drops the transaction; the outcome of the commit is an input.\<close>

definition run_write ::
    "commit_result \<Rightarrow> (NodeDb \<Rightarrow> (NodeStoreError, NodeDb \<times> 'a) result) \<Rightarrow> NodeDb \<Rightarrow> (NodeStoreError, 'a) result \<times> NodeDb" where
  "run_write outcome body db = (case body db of
       Inl e \<Rightarrow> (Err e, db)
     | Inr (db', r) \<Rightarrow>
         (case outcome of
            Committed \<Rightarrow> (Ok r, db')
          | CommitFailed durable \<Rightarrow> (Err StoreCommitError, if durable then db' else db)))"

definition initialize_schema :: "bytes \<Rightarrow> NodeDb \<Rightarrow> (NodeStoreError, NodeDb \<times> unit) result" where
  "initialize_schema fresh_epoch db =
     rbind (case meta_schema db of
         Some v \<Rightarrow>
           rbind (ok_or (decode_u32_meta v) CorruptSchemaVersion) (\<lambda>actual.
           rbind (ensure (actual = NODE_SCHEMA_VERSION) (StoreSchemaMismatch NODE_SCHEMA_VERSION actual)) (\<lambda>_.
           Ok db))
       | None \<Rightarrow> Ok (db\<lparr>meta_schema := Some (u32_be NODE_SCHEMA_VERSION), meta_epoch := Some fresh_epoch,
           meta_sequence := Some (u64_be 0), meta_status := Some Starting\<rparr>)) (\<lambda>db1.
     rbind (ok_or (meta_epoch db1) (MissingMetadata ''event_epoch'')) (\<lambda>e.
     rbind (ensure (length e = 16) (CorruptMetadata ''event_epoch'')) (\<lambda>_.
     rbind (ok_or (meta_sequence db1) (MissingMetadata ''event_sequence'')) (\<lambda>s.
     rbind (ensure (length s = 8) (CorruptMetadata ''event_sequence'')) (\<lambda>_.
     rbind (ensure (meta_status db1 \<noteq> None) (MissingMetadata ''sync_status'')) (\<lambda>_.
     Ok (db1, ())))))))"

definition initialize_chain ::
    "NodeChainIdentity \<Rightarrow> ChainAnchor \<Rightarrow> NodeDb \<Rightarrow> (NodeStoreError, NodeDb \<times> unit) result" where
  "initialize_chain identity activation db =
     rbind (map_err NetworkPolicy (validate_policy_asset (identity_network identity) (node_policy_asset identity))) (\<lambda>_.
     case (meta_identity db, meta_activation db, tip_row db) of
       (None, None, None) \<Rightarrow>
         Ok (db\<lparr>meta_identity := Some identity, meta_activation := Some activation, tip_row := Some activation\<rparr>, ())
     | (Some actual_identity, Some actual_activation, Some tip) \<Rightarrow>
         rbind (ensure (actual_identity = identity) (ChainIdentityMismatch actual_identity identity)) (\<lambda>_.
         rbind (ensure (actual_activation = activation) (ActivationAnchorMismatch actual_activation activation)) (\<lambda>_.
         rbind (ensure (\<not> height tip < height activation) (TipBeforeActivation tip activation)) (\<lambda>_.
         let canonical = canonical_anchor db (height activation) in
         rbind (ensure (canonical = Some activation) (ActivationAnchorNotCanonical activation canonical)) (\<lambda>_.
         Ok (db, ())))))
     | _ \<Rightarrow> Err IncompleteChainConfiguration)"

definition set_sync_status ::
    "bytes \<Rightarrow> SyncStatus \<Rightarrow> NodeDb \<Rightarrow> (NodeStoreError, NodeDb \<times> EventCursor) result" where
  "set_sync_status fresh_epoch status db =
     rbind (ok_or (meta_status db) (MissingMetadata ''sync_status'')) (\<lambda>current.
     if status = RescanRequired
     then rbind (mark_rebuild_required fresh_epoch db) (\<lambda>(db', _).
       rbind (event_cursor_from_meta db') (\<lambda>cursor. Ok (db', cursor)))
     else if current = RescanRequired then Err RebuildRequired
     else
       rbind (if current \<noteq> status
         then push_event (SyncStatusChanged status) (db\<lparr>meta_status := Some status\<rparr>) else Ok db) (\<lambda>db'.
       rbind (event_cursor_from_meta db') (\<lambda>cursor. Ok (db', cursor))))"

definition clear_chain_tables :: "NodeDb \<Rightarrow> NodeDb" where
  "clear_chain_tables db = db\<lparr>block_rows := [], transaction_rows := [], output_rows := [], contract_rows := [],
     owner_rows := [], outpoint_rows := [], script_rows := [], asset_rows := [], hint_rows := [], history_rows := [],
     progress_rows := [], undo_rows := [], tip_row := None\<rparr>"

definition invalidate_for_rebuild :: "bytes \<Rightarrow> NodeDb \<Rightarrow> (NodeStoreError, NodeDb \<times> bytes) result" where
  "invalidate_for_rebuild fresh_epoch db = mark_rebuild_required fresh_epoch db"

definition reset_for_rebuild :: "NodeDb \<Rightarrow> (NodeStoreError, NodeDb \<times> EventCursor) result" where
  "reset_for_rebuild db =
     rbind (ensure (meta_status db = Some RescanRequired) RebuildNotRequired) (\<lambda>_.
     rbind (ok_or (meta_activation db) (MissingMetadata ''v1_activation_anchor'')) (\<lambda>baseline.
     append_event (SyncStatusChanged Syncing)
       ((clear_chain_tables db)\<lparr>tip_row := Some baseline, meta_status := Some Syncing\<rparr>)))"

end
