(* ===== verification/Node_Chain.thy ===== *)
theory Node_Chain
  imports Node_Store
begin

text \<open>
  Canonical block application and rollback of \<open>crates/deadcat-node/src/store.rs\<close>.  Each operation
  is the body of one write transaction.  A block is applied with an undo journal that records the
  previous contract records and the keys it adds; rollback replays the journals of the newest
  blocks backwards.  Hash sets whose iteration order is unspecified are walked in the order of the
  list they were collected from.
\<close>

section \<open>Block shape\<close>

definition adjacent_all :: "('a \<Rightarrow> 'a \<Rightarrow> bool) \<Rightarrow> 'a list \<Rightarrow> bool" where
  "adjacent_all P xs \<longleftrightarrow> list_all (\<lambda>(x, y). P x y) (zip xs (tl xs))"

definition check_created :: "node_ops \<Rightarrow> ChainTxDelta \<Rightarrow> u32 \<Rightarrow> ContractRecord \<Rightarrow> ContractId list \<Rightarrow> (NodeStoreError, ContractId list) result" where
  "check_created ops delta output_count r seen =
     rbind (ensure (creation_position r = delta_position delta \<and> txid (creation_anchor (contract_id r)) = delta_txid delta
         \<and> contract_id r \<notin> set seen) InvalidBlock) (\<lambda>_.
     rbind (ensure (vout (creation_anchor (contract_id r)) < output_count) InvalidBlock) (\<lambda>_.
     rbind (ensure (\<exists>t \<in> set (outpoints r). tracked_outpoint t = creation_anchor (contract_id r)) InvalidBlock) (\<lambda>_.
     rbind (record_validate ops r) (\<lambda>_.
     Ok (contract_id r # seen)))))"

definition check_update_leg :: "StateUpdate \<Rightarrow> ContractId list \<Rightarrow> (NodeStoreError, ContractId list) result" where
  "check_update_leg u seen =
     rbind (ensure (updated_contract u \<notin> set seen) InvalidBlock) (\<lambda>_. Ok (updated_contract u # seen))"

definition check_block_transaction ::
    "node_ops \<Rightarrow> BlockDelta \<Rightarrow> ChainTxDelta \<Rightarrow> ChainPosition list \<Rightarrow> (NodeStoreError, ChainPosition list) result" where
  "check_block_transaction ops delta t positions =
     rbind (ok_or (try_from_nat (length (tx_output (delta_raw_tx t))) :: u32 option) InvalidBlock) (\<lambda>output_count.
     let index = unat (tx_index (delta_position t)) in
     rbind (ensure (block_height (delta_position t) = height (delta_anchor delta)
         \<and> delta_block_hash t = hash (delta_anchor delta)
         \<and> index < length (ordered_txids delta) \<and> ordered_txids delta ! index = delta_txid t
         \<and> node_txid ops (delta_raw_tx t) = delta_txid t
         \<and> delta_position t \<notin> set positions) InvalidBlock) (\<lambda>_.
     rbind (rfold (check_created ops t output_count) (created_contracts t) []) (\<lambda>created.
     rbind (rfold check_update_leg (state_updates t) created) (\<lambda>_.
     Ok (delta_position t # positions)))))"

definition check_block_hint ::
    "BlockDelta \<Rightarrow> RecoveryHintDelta \<Rightarrow> RecoveryHintLocation list \<Rightarrow> (NodeStoreError, RecoveryHintLocation list) result" where
  "check_block_hint delta h seen =
     (let index = unat (tx_index (location_position (hint_location h))) in
      rbind (ensure (block_height (location_position (hint_location h)) = height (delta_anchor delta)
          \<and> index < length (ordered_txids delta) \<and> ordered_txids delta ! index = hint_creation_txid h
          \<and> hint_location h \<notin> set seen) InvalidBlock) (\<lambda>_.
      Ok (hint_location h # seen)))"

definition validate_block_shape :: "node_ops \<Rightarrow> BlockDelta \<Rightarrow> (NodeStoreError, unit) result" where
  "validate_block_shape ops delta =
     rbind (ensure (ordered_txids delta \<noteq> []) InvalidBlock) (\<lambda>_.
     rbind (ensure (distinct (ordered_txids delta)) InvalidBlock) (\<lambda>_.
     rbind (ensure (adjacent_all (\<lambda>a b. position_less (delta_position a) (delta_position b)) (relevant_transactions delta))
       InvalidBlock) (\<lambda>_.
     rbind (rfold (check_block_transaction ops delta) (relevant_transactions delta) []) (\<lambda>_.
     rbind (ensure (adjacent_all (\<lambda>a b. recovery_key (hint_location a) < recovery_key (hint_location b)) (recovery_hints delta))
       InvalidBlock) (\<lambda>_.
     rbind (rfold (check_block_hint delta) (recovery_hints delta) []) (\<lambda>_.
     Ok ()))))))"


section \<open>Transitions\<close>

text \<open>The map from declared spent outpoints to their contract, in declaration order.\<close>

definition declare_spent ::
    "ContractId \<times> OutPoint \<Rightarrow> (OutPoint \<times> ContractId) list \<Rightarrow> (NodeStoreError, (OutPoint \<times> ContractId) list) result" where
  "declare_spent leg declared =
     rbind (ensure (map_of declared (snd leg) = None) InvalidTransition) (\<lambda>_. Ok (declared @ [(snd leg, fst leg)]))"

definition match_input ::
    "NodeDb \<Rightarrow> OutPoint \<Rightarrow> (OutPoint \<times> ContractId) list \<Rightarrow> (NodeStoreError, (OutPoint \<times> ContractId) list) result" where
  "match_input db p declared =
     (let rest = filter (\<lambda>e. fst e \<noteq> p) declared in
      case (tbl_get (owner_rows db) (outpoint_fixed_key p), map_of declared p) of
        (Some owner, Some c) \<Rightarrow>
          if owner_contract owner = c then Ok rest else Err (UnaccountedTrackedInput p (owner_contract owner))
      | (Some owner, None) \<Rightarrow> Err (UnaccountedTrackedInput p (owner_contract owner))
      | (None, Some _) \<Rightarrow> Err InvalidTransition
      | (None, None) \<Rightarrow> Ok rest)"

definition validate_tracked_inputs :: "ChainTxDelta \<Rightarrow> NodeDb \<Rightarrow> (NodeStoreError, unit) result" where
  "validate_tracked_inputs delta db =
     rbind (rfold declare_spent
       (concat (map (\<lambda>u. map (\<lambda>p. (updated_contract u, p)) (spent_outpoints u)) (state_updates delta))) []) (\<lambda>declared.
     let transaction_inputs = remdups (map previous_output (tx_input (delta_raw_tx delta))) in
     rbind (ensure (\<forall>e \<in> set declared. fst e \<in> set transaction_inputs) InvalidTransition) (\<lambda>_.
     rbind (rfold (match_input db) transaction_inputs declared) (\<lambda>unmatched.
     ensure (unmatched = []) InvalidTransition)))"

definition ensure_all_outpoints_spent :: "ContractRecord \<Rightarrow> StateUpdate \<Rightarrow> (NodeStoreError, unit) result" where
  "ensure_all_outpoints_spent r u =
     ensure (set (map tracked_outpoint (outpoints r)) = set (spent_outpoints u) \<and> distinct (spent_outpoints u))
       InvalidTransition"

definition validate_new_outpoints :: "TrackedOutpoint list \<Rightarrow> txid \<Rightarrow> u32 \<Rightarrow> (NodeStoreError, unit) result" where
  "validate_new_outpoints ts i output_count =
     ensure ((\<forall>t \<in> set ts. txid (tracked_outpoint t) = i \<and> vout (tracked_outpoint t) < output_count)
         \<and> distinct (map tracked_role ts) \<and> distinct (map tracked_outpoint ts)) InvalidTransition"

definition history_entry :: "ChainTxDelta \<Rightarrow> StateUpdate \<Rightarrow> StoredHistoryEntry" where
  "history_entry delta u =
     \<lparr>history_position = delta_position delta, history_txid = delta_txid delta, history_old_state = old_contract_state u,
      history_new_state = new_contract_state u, history_transition = update_transition u\<rparr>"

definition insert_history ::
    "ChainTxDelta \<Rightarrow> StateUpdate \<Rightarrow> NodeDb \<Rightarrow> (NodeStoreError, NodeDb) result" where
  "insert_history delta u db =
     (let key = history_key (updated_contract u) (delta_position delta) in
      rbind (ensure (tbl_get (history_rows db) key = None) (DuplicateHistory (updated_contract u) (delta_position delta))) (\<lambda>_.
      Ok (db\<lparr>history_rows := tbl_insert key (history_entry delta u) (history_rows db)\<rparr>)))"

text \<open>The record after a transition: remove the old row, validate and insert the new one.\<close>

definition replace_state ::
    "node_ops \<Rightarrow> ContractRecord \<Rightarrow> StateUpdate \<Rightarrow> NodeDb \<Rightarrow> (NodeStoreError, NodeDb) result" where
  "replace_state ops before u db =
     (let removed = remove_contract ops before db;
          after = before\<lparr>contract_state := new_contract_state u, outpoints := new_outpoints u\<rparr> in
      rbind (record_validate ops after) (\<lambda>_. insert_contract ops after removed))"


section \<open>Applying a transaction\<close>

abbreviation log_contract :: "ContractUndo \<Rightarrow> UndoBlock \<Rightarrow> UndoBlock" where
  "log_contract c u \<equiv> u\<lparr>contract_changes := contract_changes u @ [c]\<rparr>"

definition create_contract ::
    "node_ops \<Rightarrow> ChainTxDelta \<Rightarrow> u32 \<Rightarrow> ContractRecord \<Rightarrow> NodeDb \<times> UndoBlock \<Rightarrow> (NodeStoreError, NodeDb \<times> UndoBlock) result" where
  "create_contract ops delta output_count r s = (case s of (db, undo) \<Rightarrow>
     rbind (ensure (read_contract db (contract_id r) = None) (ContractAlreadyExists (contract_id r))) (\<lambda>_.
     rbind (validate_new_outpoints (outpoints r) (delta_txid delta) output_count) (\<lambda>_.
     rbind (insert_contract ops r db) (\<lambda>db'.
     Ok (db', log_contract \<lparr>undo_contract = contract_id r, contract_before = None\<rparr> undo)))))"

definition update_contract ::
    "node_ops \<Rightarrow> ChainTxDelta \<Rightarrow> u32 \<Rightarrow> StateUpdate \<Rightarrow> NodeDb \<times> UndoBlock \<Rightarrow> (NodeStoreError, NodeDb \<times> UndoBlock) result" where
  "update_contract ops delta output_count u s = (case s of (db, undo) \<Rightarrow>
     rbind (ok_or (read_contract db (updated_contract u)) (ContractNotFound (updated_contract u))) (\<lambda>before.
     rbind (ensure (contract_state before = old_contract_state u) (StateMismatch (updated_contract u))) (\<lambda>_.
     rbind (ensure_all_outpoints_spent before u) (\<lambda>_.
     rbind (validate_new_outpoints (new_outpoints u) (delta_txid delta) output_count) (\<lambda>_.
     rbind (replace_state ops before u db) (\<lambda>db1.
     rbind (insert_history delta u db1) (\<lambda>db2.
     let undo' = log_contract \<lparr>undo_contract = updated_contract u, contract_before = Some before\<rparr> undo in
     Ok (db2, undo'\<lparr>history_keys := history_keys undo' @ [(updated_contract u, delta_position delta)]\<rparr>))))))))"

definition output_refs :: "ChainTxDelta \<Rightarrow> (NodeStoreError, OutPoint list) result" where
  "output_refs delta = rmap (\<lambda>i. rbind (ok_or (try_from_nat i) InvalidBlock) (\<lambda>v. Ok (OutPoint (delta_txid delta) v)))
     [0..<length (tx_output (delta_raw_tx delta))]"

definition insert_output_ref :: "ChainPosition \<Rightarrow> OutPoint \<Rightarrow> NodeDb \<Rightarrow> NodeDb" where
  "insert_output_ref position p db =
     db\<lparr>output_rows := tbl_insert (outpoint_fixed_key p) \<lparr>ref_position = position, ref_outpoint = p\<rparr> (output_rows db)\<rparr>"

definition delta_transaction :: "node_ops \<Rightarrow> ChainTxDelta \<Rightarrow> ContractId list \<Rightarrow> StoredTransaction" where
  "delta_transaction ops delta affected =
     \<lparr>stored_position = delta_position delta, stored_block_hash = delta_block_hash delta, stored_txid = delta_txid delta,
      stored_raw_tx = serialize_tx ops (delta_raw_tx delta), affected_contract_ids = affected\<rparr>"

definition insert_transaction_row :: "ChainPosition \<Rightarrow> StoredTransaction \<Rightarrow> NodeDb \<Rightarrow> NodeDb" where
  "insert_transaction_row position stored db =
     db\<lparr>transaction_rows := tbl_insert (position_fixed_key position) stored (transaction_rows db)\<rparr>"

definition apply_chain_transaction ::
    "node_ops \<Rightarrow> ChainAnchor \<Rightarrow> ChainTxDelta \<Rightarrow> NodeDb \<times> UndoBlock \<Rightarrow> (NodeStoreError, NodeDb \<times> UndoBlock) result" where
  "apply_chain_transaction ops anchor delta s =
     rbind (validate_tracked_inputs delta (fst s)) (\<lambda>_.
     rbind (ok_or (try_from_nat (length (tx_output (delta_raw_tx delta))) :: u32 option) InvalidBlock) (\<lambda>output_count.
     rbind (rfold (create_contract ops delta output_count) (created_contracts delta) s) (\<lambda>s1.
     rbind (rfold (update_contract ops delta output_count) (state_updates delta) s1) (\<lambda>(db, undo).
     let affected = sort_dedup_contracts (map contract_id (created_contracts delta) @ map updated_contract (state_updates delta));
         db1 = insert_transaction_row (delta_position delta) (delta_transaction ops delta affected) db in
     rbind (output_refs delta) (\<lambda>refs.
     let db2 = fold (insert_output_ref (delta_position delta)) refs db1 in
     rbind (push_event (TransactionApplied anchor (delta_txid delta) (delta_position delta) affected) db2) (\<lambda>db3.
     Ok (db3, undo\<lparr>transaction_positions := transaction_positions undo @ [delta_position delta],
       output_outpoints := output_outpoints undo @ refs\<rparr>)))))))"


section \<open>Applying a block\<close>

definition insert_recovery_hint :: "RecoveryHintDelta \<Rightarrow> NodeDb \<Rightarrow> (NodeStoreError, NodeDb) result" where
  "insert_recovery_hint h db =
     rbind (ensure (tbl_get (hint_rows db) (recovery_key (hint_location h)) = None) (DuplicateRecoveryHint (hint_location h))) (\<lambda>_.
     Ok (db\<lparr>hint_rows := tbl_insert (recovery_key (hint_location h)) h (hint_rows db)\<rparr>))"

definition apply_hint :: "RecoveryHintDelta \<Rightarrow> NodeDb \<times> UndoBlock \<Rightarrow> (NodeStoreError, NodeDb \<times> UndoBlock) result" where
  "apply_hint h s = (case s of (db, undo) \<Rightarrow>
     rbind (insert_recovery_hint h db) (\<lambda>db'.
     Ok (db', undo\<lparr>recovery_locations := recovery_locations undo @ [hint_location h]\<rparr>)))"

definition is_catching_up :: "ContractSyncState \<Rightarrow> bool" where
  "is_catching_up s = (case s of CatchingUp _ \<Rightarrow> True | Ready _ \<Rightarrow> False)"

text \<open>One progress row of \<open>advance_catching_through_canonical_block\<close>.\<close>

definition advance_catching ::
    "node_ops \<Rightarrow> BlockDelta \<Rightarrow> bytes \<Rightarrow> u32 \<Rightarrow> BackfillProgress \<Rightarrow> NodeDb \<times> UndoBlock \<Rightarrow> (NodeStoreError, NodeDb \<times> UndoBlock) result" where
  "advance_catching ops delta digest next_height progress s = (case s of (db, undo) \<Rightarrow>
     let c = progress_contract progress in
     rbind (ok_or (read_contract db c) (ContractNotFound c)) (\<lambda>before.
     if \<not> is_catching_up (sync_state before) then Ok (db, undo)
     else
       let transition_count = length (filter (\<lambda>u. updated_contract u = c)
             (concat (map state_updates (relevant_transactions delta))));
           undo1 = (if transition_count = 0
             then log_contract \<lparr>undo_contract = c, contract_before = Some before\<rparr> undo else undo);
           undo2 = undo1\<lparr>backfill_progress_changes := backfill_progress_changes undo1 @
             [\<lparr>undo_progress_contract = c, progress_before = Some progress\<rparr>]\<rparr> in
       rbind (insert_contract ops (before\<lparr>sync_state := Ready (delta_anchor delta)\<rparr>) (remove_contract ops before db)) (\<lambda>db1.
       let progress' = progress\<lparr>pinned_tip := delta_anchor delta,
             next_position := \<lparr>block_height = next_height, tx_index = 0\<rparr>,
             last_applied := Some (delta_anchor delta, digest)\<rparr>;
           db2 = db1\<lparr>progress_rows := tbl_insert (contract_fixed_key c) progress' (progress_rows db1)\<rparr> in
       rbind (ok_or (try_from_nat transition_count) TransitionCountOverflow) (\<lambda>count.
       rbind (push_event (BackfillApplied c (delta_anchor delta) count) db2) (\<lambda>db3.
       rbind (push_event (ContractReady c (delta_anchor delta)) db3) (\<lambda>db4.
       Ok (db4, undo2)))))))"

definition advance_catching_through_canonical_block ::
    "node_ops \<Rightarrow> BlockDelta \<Rightarrow> bytes \<Rightarrow> NodeDb \<times> UndoBlock \<Rightarrow> (NodeStoreError, NodeDb \<times> UndoBlock) result" where
  "advance_catching_through_canonical_block ops delta digest s =
     (let rows = filter (\<lambda>p. block_height (next_position p) = height (delta_anchor delta)) (map snd (progress_rows (fst s))) in
      if rows = [] then Ok s
      else
        rbind (ok_or (checked_add (height (delta_anchor delta)) 1) HeightOverflow) (\<lambda>next_height.
        rfold (advance_catching ops delta digest next_height) rows s))"

definition saturating_sub_u32 :: "u32 \<Rightarrow> u32 \<Rightarrow> u32" where
  "saturating_sub_u32 a b = (if b \<le> a then a - b else 0)"

definition prune_undo :: "u32 \<Rightarrow> NodeDb \<Rightarrow> (NodeStoreError, NodeDb) result" where
  "prune_undo new_height db =
     (let keep_from = saturating_sub_u32 new_height (UNDO_RETENTION_BLOCKS - 1) in
      rbind (ensure (\<forall>k \<in> set (tbl_keys (undo_rows db)). length k = 4) (CorruptIndexKey ''undo_blocks'')) (\<lambda>_.
      Ok (db\<lparr>undo_rows := fold tbl_remove
        (filter (\<lambda>k. u32_from_be k < keep_from) (tbl_keys (undo_rows db))) (undo_rows db)\<rparr>)))"

definition empty_undo :: "ChainAnchor \<Rightarrow> UndoBlock" where
  "empty_undo tip = \<lparr>previous_tip = tip, contract_changes = [], transaction_positions = [], output_outpoints = [],
     history_keys = [], recovery_locations = [], backfill_progress_changes = []\<rparr>"

text \<open>The mutations of a block: transactions in index order, hints, and catching-up contracts.\<close>

definition apply_block_body ::
    "node_ops \<Rightarrow> BlockDelta \<Rightarrow> bytes \<Rightarrow> ChainAnchor \<Rightarrow> NodeDb \<Rightarrow> (NodeStoreError, NodeDb \<times> UndoBlock) result" where
  "apply_block_body ops delta digest tip db =
     rbind (rfold (apply_chain_transaction ops (delta_anchor delta))
       (sort_key (\<lambda>t. tx_index (delta_position t)) (relevant_transactions delta)) (db, empty_undo tip)) (\<lambda>s1.
     rbind (rfold apply_hint (recovery_hints delta) s1) (\<lambda>s2.
     advance_catching_through_canonical_block ops delta digest s2))"

definition stored_block_of :: "BlockDelta \<Rightarrow> bytes \<Rightarrow> StoredBlock" where
  "stored_block_of delta digest = \<lparr>stored_anchor = delta_anchor delta, stored_prev_hash = delta_prev_hash delta,
     stored_txids = ordered_txids delta, stored_digest = digest\<rparr>"

definition apply_block :: "node_ops \<Rightarrow> BlockDelta \<Rightarrow> NodeDb \<Rightarrow> (NodeStoreError, NodeDb \<times> ApplyBlockResult) result" where
  "apply_block ops delta db =
     rbind (validate_block_shape ops delta) (\<lambda>_.
     rbind (delta_digest ops delta) (\<lambda>digest.
     rbind (ensure (meta_status db \<noteq> Some RescanRequired) RebuildRequired) (\<lambda>_.
     let key = height_key (height (delta_anchor delta)) in
     case tbl_get (block_rows db) key of
       Some existing \<Rightarrow>
         if stored_digest existing = digest \<and> stored_anchor existing = delta_anchor delta
            \<and> stored_prev_hash existing = delta_prev_hash delta
         then rbind (event_cursor_from_meta db) (\<lambda>high.
           Ok (db, \<lparr>block_applied = False, new_tip = delta_anchor delta, apply_high_watermark = high\<rparr>))
         else Err (ForkConflict (height (delta_anchor delta)))
     | None \<Rightarrow>
         rbind (ok_or (tip_row db) TipNotInitialized) (\<lambda>tip.
         rbind (ok_or (checked_add (height tip) 1) HeightOverflow) (\<lambda>next.
         rbind (ensure (height (delta_anchor delta) = next \<and> delta_prev_hash delta = hash tip)
           (NonContiguousBlock tip (delta_anchor delta) (delta_prev_hash delta))) (\<lambda>_.
         rbind (apply_block_body ops delta digest tip db) (\<lambda>(db1, undo).
         let db2 = db1\<lparr>block_rows := tbl_insert key (stored_block_of delta digest) (block_rows db1),
               undo_rows := tbl_insert key undo (undo_rows db1), tip_row := Some (delta_anchor delta)\<rparr> in
         rbind (prune_undo (height (delta_anchor delta)) db2) (\<lambda>db3.
         rbind (event_cursor_from_meta db3) (\<lambda>high.
         Ok (db3, \<lparr>block_applied = True, new_tip = delta_anchor delta, apply_high_watermark = high\<rparr>))))))))))"


section \<open>Rollback\<close>

fun undo_heights :: "nat \<Rightarrow> u32 \<Rightarrow> u32 list" where
  "undo_heights 0 tip = []"
| "undo_heights (Suc n) tip = tip # undo_heights n (tip - 1)"

definition undo_range_available :: "NodeDb \<Rightarrow> u32 \<Rightarrow> u32 \<Rightarrow> bool" where
  "undo_range_available db tip_height ancestor_height \<longleftrightarrow>
     (\<forall>h \<in> set (undo_heights (unat (tip_height - ancestor_height)) tip_height). tbl_get (undo_rows db) (height_key h) \<noteq> None)"

definition revert_contract ::
    "node_ops \<Rightarrow> ContractUndo \<Rightarrow> NodeDb \<times> ContractId list \<Rightarrow> (NodeStoreError, NodeDb \<times> ContractId list) result" where
  "revert_contract ops change s = (case s of (db, affected) \<Rightarrow>
     let (db1, affected1) = (case read_contract db (undo_contract change) of
           Some r \<Rightarrow> (remove_contract ops r db, affected @ [undo_contract change])
         | None \<Rightarrow> (db, affected)) in
     case contract_before change of
       Some before \<Rightarrow> rbind (insert_contract ops before db1) (\<lambda>db2. Ok (db2, affected1))
     | None \<Rightarrow> Ok (db1, affected1))"

definition revert_progress :: "BackfillProgressUndo \<Rightarrow> (bytes, BackfillProgress) table \<Rightarrow> (bytes, BackfillProgress) table" where
  "revert_progress change t =
     (let key = contract_fixed_key (undo_progress_contract change) in
      case progress_before change of
        Some before \<Rightarrow> tbl_insert key before (tbl_remove key t)
      | None \<Rightarrow> tbl_remove key t)"

definition revert_rows :: "UndoBlock \<Rightarrow> u32 \<Rightarrow> NodeDb \<Rightarrow> NodeDb" where
  "revert_rows undo h db = db\<lparr>
     transaction_rows := fold (\<lambda>p. tbl_remove (position_fixed_key p)) (transaction_positions undo) (transaction_rows db),
     output_rows := fold (\<lambda>p. tbl_remove (outpoint_fixed_key p)) (output_outpoints undo) (output_rows db),
     history_rows := fold (\<lambda>(c, p). tbl_remove (history_key c p)) (history_keys undo) (history_rows db),
     hint_rows := fold (\<lambda>l. tbl_remove (recovery_key l)) (recovery_locations undo) (hint_rows db),
     progress_rows := fold revert_progress (rev (backfill_progress_changes undo)) (progress_rows db),
     block_rows := tbl_remove (height_key h) (block_rows db),
     undo_rows := tbl_remove (height_key h) (undo_rows db)\<rparr>"

record RollbackState =
  rb_db :: NodeDb
  rb_tip :: ChainAnchor
  rb_positions :: "ChainPosition list"
  rb_affected :: "ContractId list"

definition revert_block :: "node_ops \<Rightarrow> u32 \<Rightarrow> RollbackState \<Rightarrow> (NodeStoreError, RollbackState) result" where
  "revert_block ops h s =
     rbind (ok_or (tbl_get (undo_rows (rb_db s)) (height_key h)) (MissingUndo h)) (\<lambda>undo.
     rbind (rfold (revert_contract ops) (rev (contract_changes undo)) (rb_db s, rb_affected s)) (\<lambda>(db1, affected).
     Ok \<lparr>rb_db = revert_rows undo h db1, rb_tip = previous_tip undo,
       rb_positions = rb_positions s @ transaction_positions undo, rb_affected = affected\<rparr>))"

definition rollback_to ::
    "node_ops \<Rightarrow> bytes \<Rightarrow> ChainAnchor \<Rightarrow> NodeDb \<Rightarrow> (NodeStoreError, NodeDb \<times> RollbackResult) result" where
  "rollback_to ops fresh_epoch ancestor db =
     rbind (ensure (meta_status db \<noteq> Some RescanRequired) RebuildRequired) (\<lambda>_.
     rbind (ok_or (tip_row db) TipNotInitialized) (\<lambda>old_tip.
     if ancestor = old_tip then Ok (db, Noop old_tip)
     else if height ancestor \<ge> height old_tip then Err (InvalidRollbackTarget old_tip ancestor)
     else if height old_tip - height ancestor > UNDO_RETENTION_BLOCKS
         \<or> \<not> undo_range_available db (height old_tip) (height ancestor)
     then rbind (mark_rebuild_required fresh_epoch db) (\<lambda>(db', e).
       Ok (db', RollbackRebuildRequired old_tip ancestor e))
     else
       rbind (rfold (revert_block ops) (undo_heights (unat (height old_tip - height ancestor)) (height old_tip))
         \<lparr>rb_db = db, rb_tip = old_tip, rb_positions = [], rb_affected = []\<rparr>) (\<lambda>s.
       rbind (ensure (rb_tip s = ancestor) (AncestorMismatch ancestor (rb_tip s))) (\<lambda>_.
       let affected = sort_dedup_contracts (rb_affected s);
           orphaned = sort_key position_fixed_key (rb_positions s) in
       rbind (append_event (ChainRolledBack old_tip ancestor orphaned affected)
         ((rb_db s)\<lparr>tip_row := Some ancestor, meta_status := Some Syncing\<rparr>)) (\<lambda>(db', high).
       Ok (db', RolledBack old_tip ancestor orphaned high))))))"

end
