(* ===== verification/Node_Late.thy ===== *)
theory Node_Late
  imports Node_Chain
begin

text \<open>
  Late registration and historical backfill of \<open>crates/deadcat-node/src/store.rs\<close>: a batch of
  chain-verified contracts is checked completely before the first table changes, their creation
  transactions are merged, and every later block is replayed for them until they reach the indexed
  tip.  Both operations extend the undo journal of a block that is still inside the rollback
  window.
\<close>

section \<open>Registration checks\<close>

definition declaration_from_record :: "ContractRecord \<Rightarrow> ContractDeclaration" where
  "declaration_from_record r = (case contract_params r of ParamsBinaryMarket params \<Rightarrow>
     \<lparr>declared_contract = contract_id r, descriptor = DescriptorBinaryMarketV1 params\<rparr>)"

definition registration_identity_matches :: "ContractRecord \<Rightarrow> ContractRecord \<Rightarrow> bool" where
  "registration_identity_matches existing r \<longleftrightarrow>
     contract_id existing = contract_id r \<and> contract_kind existing = contract_kind r \<and>
     contract_params existing = contract_params r \<and> creation_position existing = creation_position r \<and>
     scripts existing = scripts r \<and> assets existing = assets r"

definition validate_registration_evidence ::
    "ContractRecord \<Rightarrow> txid \<Rightarrow> u32 \<Rightarrow> (NodeStoreError, unit) result" where
  "validate_registration_evidence r i output_count =
     rbind (ensure (i = txid (creation_anchor (contract_id r))) InvalidRegistrationEvidence) (\<lambda>_.
     rbind (ensure (vout (creation_anchor (contract_id r)) < output_count) InvalidRegistrationEvidence) (\<lambda>_.
     rbind (ensure (\<exists>t \<in> set (outpoints r). tracked_outpoint t = creation_anchor (contract_id r)) InvalidRegistrationEvidence) (\<lambda>_.
     ensure (\<forall>t \<in> set (outpoints r). txid (tracked_outpoint t) = i \<and> vout (tracked_outpoint t) < output_count)
       InvalidRegistrationEvidence)))"

definition validate_registration_transaction_position ::
    "NodeDb \<Rightarrow> ChainPosition \<Rightarrow> ChainAnchor \<Rightarrow> txid \<Rightarrow> (NodeStoreError, unit) result" where
  "validate_registration_transaction_position db position anchor i =
     (case tbl_get (block_rows db) (height_key (height anchor)) of
        None \<Rightarrow> Ok ()
      | Some block \<Rightarrow> ensure (stored_anchor block = anchor \<and> list_get (stored_txids block) (unat (tx_index position)) = Some i)
          InvalidRegistrationEvidence)"

text \<open>The maps and lists that the preflight of a batch builds up.\<close>

record RegistrationPreflight =
  reg_existing :: "(ContractId \<times> ContractRecord) list"
  reg_progress :: "(ContractId \<times> BackfillProgress) list"
  reg_owners :: "(OutPoint \<times> ContractId) list"
  reg_claimed_hints :: "RecoveryHintLocation list"
  reg_ambiguous_hints :: "RecoveryHintLocation list"
  reg_groups :: "RegistrationTransactionGroup list"
  reg_txids :: "(txid \<times> ChainPosition) list"

definition empty_preflight :: RegistrationPreflight where
  "empty_preflight = \<lparr>reg_existing = [], reg_progress = [], reg_owners = [], reg_claimed_hints = [],
     reg_ambiguous_hints = [], reg_groups = [], reg_txids = []\<rparr>"

definition join_registration_group ::
    "node_ops \<Rightarrow> NodeDb \<Rightarrow> ContractRecord \<Rightarrow> RegistrationEvidence \<Rightarrow> RegistrationPreflight \<Rightarrow>
     (NodeStoreError, RegistrationPreflight \<times> nat) result" where
  "join_registration_group ops db r evidence pre =
     (case list_position (\<lambda>g. group_position g = creation_position r) (reg_groups pre) of
        Some index \<Rightarrow>
          (let g = reg_groups pre ! index in
           rbind (ensure (group_anchor g = evidence_anchor evidence
               \<and> group_raw_tx g = serialize_tx ops (evidence_transaction evidence))
             (RegistrationTransactionConflict (creation_position r))) (\<lambda>_.
           Ok (pre, index)))
      | None \<Rightarrow>
          (let i = node_txid ops (evidence_transaction evidence) in
           rbind (case map_of (reg_txids pre) i of
               Some previous \<Rightarrow> ensure (previous = creation_position r) (RegistrationTransactionConflict (creation_position r))
             | None \<Rightarrow> Ok ()) (\<lambda>_.
           rbind (ok_or (try_from_nat (length (tx_output (evidence_transaction evidence)))) InvalidRegistrationEvidence) (\<lambda>output_count.
           rbind (validate_registration_transaction_position db (creation_position r) (evidence_anchor evidence) i) (\<lambda>_.
           let g = \<lparr>group_position = creation_position r, group_anchor = evidence_anchor evidence, group_txid = i,
                 group_raw_tx = serialize_tx ops (evidence_transaction evidence), group_output_count = output_count,
                 existing_contract_ids = [], new_contract_ids = []\<rparr> in
           Ok (pre\<lparr>reg_groups := reg_groups pre @ [g], reg_txids := (i, creation_position r) # reg_txids pre\<rparr>,
             length (reg_groups pre)))))))"

definition claim_hint :: "RecoveryHintLocation option \<Rightarrow> RegistrationPreflight \<Rightarrow> RegistrationPreflight" where
  "claim_hint hint pre = (case hint of
       None \<Rightarrow> pre
     | Some l \<Rightarrow>
         if l \<in> set (reg_claimed_hints pre) then pre\<lparr>reg_ambiguous_hints := l # reg_ambiguous_hints pre\<rparr>
         else pre\<lparr>reg_claimed_hints := l # reg_claimed_hints pre\<rparr>)"

definition propose_owner ::
    "NodeDb \<Rightarrow> ContractId \<Rightarrow> TrackedOutpoint \<Rightarrow> RegistrationPreflight \<Rightarrow> (NodeStoreError, RegistrationPreflight) result" where
  "propose_owner db c t pre =
     (case map_of (reg_owners pre) (tracked_outpoint t) of
        Some owner \<Rightarrow> Err (OutpointAlreadyOwned (tracked_outpoint t) owner)
      | None \<Rightarrow>
          (case tbl_get (owner_rows db) (outpoint_fixed_key (tracked_outpoint t)) of
             Some owner \<Rightarrow> Err (OutpointAlreadyOwned (tracked_outpoint t) (owner_contract owner))
           | None \<Rightarrow> Ok (pre\<lparr>reg_owners := (tracked_outpoint t, c) # reg_owners pre\<rparr>)))"

definition update_group ::
    "nat \<Rightarrow> (RegistrationTransactionGroup \<Rightarrow> RegistrationTransactionGroup) \<Rightarrow> RegistrationPreflight \<Rightarrow> RegistrationPreflight" where
  "update_group index f pre = pre\<lparr>reg_groups := (reg_groups pre)[index := f (reg_groups pre ! index)]\<rparr>"

definition plan_new_contract ::
    "NodeDb \<Rightarrow> ChainAnchor \<Rightarrow> ContractRecord \<Rightarrow> nat \<Rightarrow> RegistrationPreflight \<Rightarrow> (NodeStoreError, RegistrationPreflight) result" where
  "plan_new_contract db tip r index pre =
     rbind (rfold (propose_owner db (contract_id r)) (outpoints r) pre) (\<lambda>pre1.
     rbind (ok_or (checked_add (tx_index (creation_position r)) 1) PositionOverflow) (\<lambda>next_index.
     let progress = \<lparr>progress_contract = contract_id r, pinned_tip = tip,
           next_position = \<lparr>block_height = block_height (creation_position r), tx_index = next_index\<rparr>, last_applied = None\<rparr> in
     Ok (update_group index (\<lambda>g. g\<lparr>new_contract_ids := new_contract_ids g @ [contract_id r]\<rparr>)
       (pre1\<lparr>reg_progress := (contract_id r, progress) # reg_progress pre1\<rparr>))))"

definition preflight_registration ::
    "node_ops \<Rightarrow> NodeDb \<Rightarrow> ChainAnchor \<Rightarrow> ContractRecord \<times> RegistrationEvidence \<Rightarrow> RegistrationPreflight \<Rightarrow>
     (NodeStoreError, RegistrationPreflight) result" where
  "preflight_registration ops db tip registration pre = (case registration of (r, evidence) \<Rightarrow>
     let synced = synced_through (sync_state r) in
     rbind (ensure (\<not> block_height (creation_position r) > height tip) InvalidContract) (\<lambda>_.
     rbind (ensure (evidence_anchor evidence = synced \<and> height synced = block_height (creation_position r)
         \<and> canonical_anchor db (height synced) = Some synced) InvalidContract) (\<lambda>_.
     rbind (join_registration_group ops db r evidence pre) (\<lambda>(pre1, index).
     let g = reg_groups pre1 ! index in
     rbind (validate_registration_evidence r (group_txid g) (group_output_count g)) (\<lambda>_.
     let pre2 = claim_hint (associated_hint evidence) pre1 in
     case read_contract db (contract_id r) of
       Some existing \<Rightarrow>
         rbind (ensure (registration_identity_matches existing r) (ContractAlreadyExists (contract_id r))) (\<lambda>_.
         Ok (update_group index (\<lambda>g. g\<lparr>existing_contract_ids := existing_contract_ids g @ [contract_id r]\<rparr>)
           (pre2\<lparr>reg_existing := (contract_id r, normalize_ready_anchor existing tip) # reg_existing pre2\<rparr>)))
     | None \<Rightarrow> plan_new_contract db tip r index pre2)))))"


section \<open>Registration writes\<close>

definition verify_registration_output_ref ::
    "NodeDb \<Rightarrow> ChainPosition \<Rightarrow> OutPoint \<Rightarrow> unit \<Rightarrow> (NodeStoreError, unit) result" where
  "verify_registration_output_ref db position p _ =
     rbind (ok_or (tbl_get (output_rows db) (outpoint_fixed_key p)) (MissingOutput p)) (\<lambda>ref.
     ensure (ref_position ref = position \<and> ref_outpoint ref = p) (RegistrationTransactionConflict position))"

text \<open>The outpoints of a transaction with \<open>n\<close> outputs.\<close>

definition group_outpoints :: "txid \<Rightarrow> u32 \<Rightarrow> OutPoint list" where
  "group_outpoints i n = map (\<lambda>v. OutPoint i (of_nat v)) [0..<unat n]"

definition insert_group_output ::
    "ChainPosition \<Rightarrow> OutPoint \<Rightarrow> NodeDb \<Rightarrow> (NodeStoreError, NodeDb) result" where
  "insert_group_output position p db =
     rbind (ensure (tbl_get (output_rows db) (outpoint_fixed_key p) = None) (RegistrationTransactionConflict position)) (\<lambda>_.
     Ok (insert_output_ref position p db))"

definition merge_registration_transaction_group ::
    "RegistrationTransactionGroup \<Rightarrow> NodeDb \<Rightarrow> (NodeStoreError, NodeDb \<times> bool) result" where
  "merge_registration_transaction_group g db =
     (let position = group_position g; refs = group_outpoints (group_txid g) (group_output_count g) in
      case tbl_get (transaction_rows db) (position_fixed_key position) of
        Some stored \<Rightarrow>
          rbind (ensure (stored_position stored = position \<and> stored_block_hash stored = hash (group_anchor g)
              \<and> stored_txid stored = group_txid g \<and> stored_raw_tx stored = group_raw_tx g)
            (RegistrationTransactionConflict position)) (\<lambda>_.
          rbind (rfold (verify_registration_output_ref db position) refs ()) (\<lambda>_.
          rbind (ensure (\<forall>c \<in> set (existing_contract_ids g). c \<in> set (affected_contract_ids stored))
            (RegistrationTransactionConflict position)) (\<lambda>_.
          if new_contract_ids g = [] then Ok (db, False)
          else Ok (insert_transaction_row position (stored\<lparr>affected_contract_ids :=
              sort_dedup_contracts (affected_contract_ids stored @ new_contract_ids g)\<rparr>) db, False))))
      | None \<Rightarrow>
          rbind (ensure (existing_contract_ids g = []) (MissingRegistrationTransaction position)) (\<lambda>_.
          let stored = \<lparr>stored_position = position, stored_block_hash = hash (group_anchor g), stored_txid = group_txid g,
                stored_raw_tx = group_raw_tx g, affected_contract_ids = sort_dedup_contracts (new_contract_ids g)\<rparr> in
          rbind (rfold (insert_group_output position) refs (insert_transaction_row position stored db)) (\<lambda>db'.
          Ok (db', True))))"

definition merge_groups ::
    "RegistrationTransactionGroup \<Rightarrow> NodeDb \<times> RegistrationTransactionGroup list \<Rightarrow>
     (NodeStoreError, NodeDb \<times> RegistrationTransactionGroup list) result" where
  "merge_groups g s = (case s of (db, inserted) \<Rightarrow>
     rbind (merge_registration_transaction_group g db) (\<lambda>(db', created).
     Ok (db', if created then inserted @ [g] else inserted)))"

text \<open>Extending the undo journal of a block, when that block still has one.\<close>

definition amend_undo :: "u32 \<Rightarrow> (UndoBlock \<Rightarrow> UndoBlock) \<Rightarrow> NodeDb \<Rightarrow> NodeDb" where
  "amend_undo h f db = (case tbl_get (undo_rows db) (height_key h) of
       None \<Rightarrow> db
     | Some undo \<Rightarrow> db\<lparr>undo_rows := tbl_insert (height_key h) (f undo) (undo_rows db)\<rparr>)"

definition insert_registration ::
    "node_ops \<Rightarrow> RegistrationPreflight \<Rightarrow> ContractRecord \<times> RegistrationEvidence \<Rightarrow> NodeDb \<Rightarrow> (NodeStoreError, NodeDb) result" where
  "insert_registration ops pre registration db = (case map_of (reg_progress pre) (contract_id (fst registration)) of
       None \<Rightarrow> Ok db
     | Some progress \<Rightarrow>
         (let r = fst registration in
          rbind (insert_contract ops r db) (\<lambda>db1.
          let db2 = db1\<lparr>progress_rows := tbl_insert (contract_fixed_key (contract_id r)) progress (progress_rows db1)\<rparr>;
              db3 = amend_undo (block_height (creation_position r)) (\<lambda>undo.
                (log_contract \<lparr>undo_contract = contract_id r, contract_before = None\<rparr> undo)
                \<lparr>backfill_progress_changes := backfill_progress_changes undo @
                  [\<lparr>undo_progress_contract = contract_id r, progress_before = None\<rparr>]\<rparr>) db2 in
          push_event (ContractRegistered (contract_id r)) db3)))"

definition log_group :: "RegistrationTransactionGroup \<Rightarrow> NodeDb \<Rightarrow> NodeDb" where
  "log_group g db = amend_undo (block_height (group_position g)) (\<lambda>undo.
     undo\<lparr>transaction_positions := transaction_positions undo @ [group_position g],
       output_outpoints := output_outpoints undo @ group_outpoints (group_txid g) (group_output_count g)\<rparr>) db"

definition associate_registration_hint ::
    "ContractRecord \<Rightarrow> RegistrationEvidence \<Rightarrow> NodeDb \<Rightarrow> NodeDb" where
  "associate_registration_hint r evidence db = (case associated_hint evidence of
       None \<Rightarrow> db
     | Some l \<Rightarrow>
         if location_position l \<noteq> creation_position r
            \<or> unat (output_index l) \<ge> length (tx_output (evidence_transaction evidence)) then db
         else (case tbl_get (hint_rows db) (recovery_key l) of
             None \<Rightarrow> db
           | Some hint \<Rightarrow>
               if hint_location hint = l \<and> hint_creation_txid hint = txid (creation_anchor (contract_id r))
                  \<and> hint_family hint = FamilyBinaryMarketV1 \<and> hint_associated hint = None
               then db\<lparr>hint_rows := tbl_insert (recovery_key l) (hint\<lparr>hint_associated := Some (contract_id r)\<rparr>) (hint_rows db)\<rparr>
               else db))"

definition associate_new_hint ::
    "RegistrationPreflight \<Rightarrow> ContractRecord \<times> RegistrationEvidence \<Rightarrow> NodeDb \<Rightarrow> NodeDb" where
  "associate_new_hint pre registration db = (case registration of (r, evidence) \<Rightarrow>
     if map_of (reg_progress pre) (contract_id r) \<noteq> None
        \<and> (case associated_hint evidence of None \<Rightarrow> True | Some l \<Rightarrow> l \<notin> set (reg_ambiguous_hints pre))
     then associate_registration_hint r evidence db else db)"

definition check_registration ::
    "node_ops \<Rightarrow> ContractRecord \<times> RegistrationEvidence \<Rightarrow> ContractId list \<Rightarrow> (NodeStoreError, ContractId list) result" where
  "check_registration ops registration seen = (let r = fst registration in
     rbind (record_validate ops r) (\<lambda>_.
     rbind (ensure (contract_id r \<notin> set seen) InvalidRegistrationEvidence) (\<lambda>_.
     rbind (ensure (is_catching_up (sync_state r)) InvalidContract) (\<lambda>_.
     Ok (contract_id r # seen)))))"

definition check_retained :: "NodeDb \<Rightarrow> ContractDeclaration \<Rightarrow> unit \<Rightarrow> (NodeStoreError, unit) result" where
  "check_retained db d _ = (case tbl_get (retained_rows db) (contract_fixed_key (declared_contract d)) of
       None \<Rightarrow> Ok ()
     | Some existing \<Rightarrow> ensure (existing = d) InvalidRegistrationEvidence)"

definition retain_declaration :: "ContractDeclaration \<Rightarrow> NodeDb \<Rightarrow> NodeDb" where
  "retain_declaration d db =
     db\<lparr>retained_rows := tbl_insert (contract_fixed_key (declared_contract d)) d (retained_rows db)\<rparr>"

definition registration_result ::
    "RegistrationPreflight \<Rightarrow> ContractRecord \<times> RegistrationEvidence \<Rightarrow> ContractRegistrationResult" where
  "registration_result pre registration = (case map_of (reg_existing pre) (contract_id (fst registration)) of
       None \<Rightarrow> \<lparr>registered_record = fst registration, registered_inserted = True\<rparr>
     | Some r \<Rightarrow> \<lparr>registered_record = r, registered_inserted = False\<rparr>)"

definition register_contracts ::
    "node_ops \<Rightarrow> (ContractRecord \<times> RegistrationEvidence) list \<Rightarrow> NodeDb \<Rightarrow>
     (NodeStoreError, NodeDb \<times> ContractRegistrationResult list) result" where
  "register_contracts ops registrations db =
     rbind (ensure (registrations \<noteq> []) InvalidRegistrationEvidence) (\<lambda>_.
     rbind (rfold (check_registration ops) registrations []) (\<lambda>_.
     let declarations = map (declaration_from_record \<circ> fst) registrations in
     rbind (ensure (meta_status db \<noteq> Some RescanRequired) RebuildRequired) (\<lambda>_.
     rbind (ok_or (meta_activation db) ActivationNotInitialized) (\<lambda>activation.
     rbind (ensure (\<not> (\<exists>e \<in> set registrations. block_height (creation_position (fst e)) \<le> height activation))
       (PreActivationContract activation)) (\<lambda>_.
     rbind (rfold (check_retained db) declarations ()) (\<lambda>_.
     rbind (ok_or (tip_row db) TipNotInitialized) (\<lambda>tip.
     rbind (rfold (preflight_registration ops db tip) registrations empty_preflight) (\<lambda>pre.
     let db1 = fold retain_declaration declarations db in
     rbind (rfold merge_groups (reg_groups pre) (db1, [])) (\<lambda>(db2, inserted).
     rbind (rfold (insert_registration ops pre) registrations db2) (\<lambda>db3.
     let db4 = fold log_group inserted db3;
         db5 = fold (associate_new_hint pre) registrations db4 in
     Ok (db5, map (registration_result pre) registrations)))))))))))"

end
