(* ===== verification/Node_Backfill.thy ===== *)
theory Node_Backfill
  imports Node_Late
begin

text \<open>
  Historical backfill of \<open>crates/deadcat-node/src/store.rs\<close>: one canonical block replayed for the
  catching-up contracts of a batch.  The undo journal of the block is extended when it still has
  one.
\<close>

definition verify_backfill_block :: "BlockDelta \<Rightarrow> NodeDb \<Rightarrow> (NodeStoreError, unit) result" where
  "verify_backfill_block delta db =
     rbind (ensure (canonical_anchor db (height (delta_anchor delta)) = Some (delta_anchor delta))
       (BackfillBranchChanged (delta_anchor delta))) (\<lambda>_.
     case tbl_get (block_rows db) (height_key (height (delta_anchor delta))) of
       None \<Rightarrow> Ok ()
     | Some stored \<Rightarrow> ensure (stored_anchor stored = delta_anchor delta \<and> stored_prev_hash stored = delta_prev_hash delta
           \<and> stored_txids stored = ordered_txids delta) (BackfillBranchChanged (delta_anchor delta)))"

definition check_backfill_update ::
    "(ContractId \<times> ChainPosition) list \<Rightarrow> ContractId list \<Rightarrow> ChainPosition \<Rightarrow> StateUpdate \<Rightarrow> unit \<Rightarrow> (NodeStoreError, unit) result" where
  "check_backfill_update starts targets position u _ =
     rbind (ok_or (map_of starts (updated_contract u)) InvalidBackfill) (\<lambda>start.
     ensure (updated_contract u \<in> set targets \<and> \<not> position_less position start) InvalidBackfill)"

definition check_backfill_transaction ::
    "(ContractId \<times> ChainPosition) list \<Rightarrow> ContractId list \<Rightarrow> ChainTxDelta \<Rightarrow> unit \<Rightarrow> (NodeStoreError, unit) result" where
  "check_backfill_transaction starts targets t _ =
     rbind (ensure (created_contracts t = []) InvalidBackfill) (\<lambda>_.
     rbind (ensure (state_updates t \<noteq> []) InvalidBackfill) (\<lambda>_.
     rfold (check_backfill_update starts targets (delta_position t)) (state_updates t) ()))"

definition validate_backfill_targets ::
    "BlockDelta \<Rightarrow> BackfillProgress list \<Rightarrow> ContractId list \<Rightarrow> (NodeStoreError, unit) result" where
  "validate_backfill_targets delta progress targets =
     rbind (ensure (recovery_hints delta = []) InvalidBackfill) (\<lambda>_.
     let starts = map (\<lambda>p. (progress_contract p, next_position p)) progress in
     rfold (check_backfill_transaction starts targets) (relevant_transactions delta) ())"

text \<open>The state of a backfill: the tables, the journal if any, and the transitions per contract.\<close>

record BackfillState =
  bf_db :: NodeDb
  bf_undo :: "UndoBlock option"
  bf_transitions :: "(ContractId \<times> u32) list"

definition bf_log :: "(UndoBlock \<Rightarrow> UndoBlock) \<Rightarrow> BackfillState \<Rightarrow> BackfillState" where
  "bf_log f s = s\<lparr>bf_undo := map_option f (bf_undo s)\<rparr>"

definition backfill_update ::
    "node_ops \<Rightarrow> ContractId list \<Rightarrow> ChainTxDelta \<Rightarrow> u32 \<Rightarrow> StateUpdate \<Rightarrow> BackfillState \<Rightarrow> (NodeStoreError, BackfillState) result" where
  "backfill_update ops targets delta output_count u s =
     (let c = updated_contract u in
     rbind (ensure (c \<in> set targets) InvalidBackfill) (\<lambda>_.
     rbind (ok_or (read_contract (bf_db s) c) (ContractNotFound c)) (\<lambda>before.
     rbind (ensure (is_catching_up (sync_state before)) InvalidBackfill) (\<lambda>_.
     rbind (ensure (contract_state before = old_contract_state u) (StateMismatch c)) (\<lambda>_.
     rbind (ensure_all_outpoints_spent before u) (\<lambda>_.
     rbind (validate_new_outpoints (new_outpoints u) (delta_txid delta) output_count) (\<lambda>_.
     let s1 = bf_log (log_contract \<lparr>undo_contract = c, contract_before = Some before\<rparr>) s in
     rbind (replace_state ops before u (bf_db s1)) (\<lambda>db1.
     rbind (insert_history delta u db1) (\<lambda>db2.
     let s2 = bf_log (\<lambda>undo. undo\<lparr>history_keys := history_keys undo @ [(c, delta_position delta)]\<rparr>) (s1\<lparr>bf_db := db2\<rparr>);
         previous = (case map_of (bf_transitions s2) c of None \<Rightarrow> 0 | Some n \<Rightarrow> n) in
     rbind (ok_or (checked_add previous 1) TransitionCountOverflow) (\<lambda>count.
     Ok (s2\<lparr>bf_transitions := (c, count) # bf_transitions s2\<rparr>)))))))))))"

definition backfill_output ::
    "ChainTxDelta \<Rightarrow> OutPoint \<Rightarrow> BackfillState \<Rightarrow> (NodeStoreError, BackfillState) result" where
  "backfill_output delta p s =
     rbind (ensure (tbl_get (output_rows (bf_db s)) (outpoint_fixed_key p) = None)
       (BackfillTransactionConflict (delta_position delta))) (\<lambda>_.
     Ok (bf_log (\<lambda>undo. undo\<lparr>output_outpoints := output_outpoints undo @ [p]\<rparr>)
       (s\<lparr>bf_db := insert_output_ref (delta_position delta) p (bf_db s)\<rparr>)))"

definition backfill_transaction_row ::
    "node_ops \<Rightarrow> ChainTxDelta \<Rightarrow> BackfillState \<Rightarrow> (NodeStoreError, BackfillState) result" where
  "backfill_transaction_row ops delta s =
     (let position = delta_position delta; raw = serialize_tx ops (delta_raw_tx delta);
          affected = sort_dedup_contracts (map updated_contract (state_updates delta)) in
      case tbl_get (transaction_rows (bf_db s)) (position_fixed_key position) of
        Some stored \<Rightarrow>
          rbind (ensure (stored_position stored = position \<and> stored_block_hash stored = delta_block_hash delta
              \<and> stored_txid stored = delta_txid delta \<and> stored_raw_tx stored = raw) (BackfillTransactionConflict position)) (\<lambda>_.
          Ok (s\<lparr>bf_db := insert_transaction_row position (stored\<lparr>affected_contract_ids :=
            sort_dedup_contracts (affected_contract_ids stored @ affected)\<rparr>) (bf_db s)\<rparr>))
      | None \<Rightarrow>
          (let s1 = bf_log (\<lambda>undo. undo\<lparr>transaction_positions := transaction_positions undo @ [position]\<rparr>)
                (s\<lparr>bf_db := insert_transaction_row position (delta_transaction ops delta affected) (bf_db s)\<rparr>) in
           rbind (output_refs delta) (\<lambda>refs. rfold (backfill_output delta) refs s1)))"

definition apply_backfill_transaction ::
    "node_ops \<Rightarrow> ContractId list \<Rightarrow> ChainTxDelta \<Rightarrow> BackfillState \<Rightarrow> (NodeStoreError, BackfillState) result" where
  "apply_backfill_transaction ops targets delta s =
     rbind (validate_tracked_inputs delta (bf_db s)) (\<lambda>_.
     rbind (ok_or (try_from_nat (length (tx_output (delta_raw_tx delta))) :: u32 option) InvalidBlock) (\<lambda>output_count.
     rbind (rfold (backfill_update ops targets delta output_count) (state_updates delta) s) (\<lambda>s1.
     backfill_transaction_row ops delta s1)))"

text \<open>
  The closing step for one contract: its synchronization state, cursor and events.  The set of
  changed contracts is the domain of the transition counts.
\<close>

definition advance_backfill ::
    "node_ops \<Rightarrow> BlockDelta \<Rightarrow> bytes \<Rightarrow> ChainAnchor \<Rightarrow> u32 \<Rightarrow> BackfillProgress \<Rightarrow> BackfillState \<times> ContractId list \<Rightarrow>
     (NodeStoreError, BackfillState \<times> ContractId list) result" where
  "advance_backfill ops delta digest tip next_height item st = (case st of (s, ready) \<Rightarrow>
     let c = progress_contract item; anchor = delta_anchor delta in
     rbind (ok_or (read_contract (bf_db s) c) (ContractNotFound c)) (\<lambda>before.
     rbind (ensure (is_catching_up (sync_state before)) InvalidBackfill) (\<lambda>_.
     let s1 = (if map_of (bf_transitions s) c = None
           then bf_log (log_contract \<lparr>undo_contract = c, contract_before = Some before\<rparr>) s else s);
         is_ready = (anchor = tip);
         after = before\<lparr>sync_state := (if is_ready then Ready anchor else CatchingUp anchor)\<rparr> in
     rbind (insert_contract ops after (remove_contract ops before (bf_db s1))) (\<lambda>db1.
     let item1 = item\<lparr>next_position := \<lparr>block_height = next_height, tx_index = 0\<rparr>, last_applied := Some (anchor, digest)\<rparr>;
         item2 = (if pinned_tip item1 = anchor \<and> tip \<noteq> anchor then item1\<lparr>pinned_tip := tip\<rparr> else item1);
         db2 = db1\<lparr>progress_rows := tbl_insert (contract_fixed_key c) item2 (progress_rows db1)\<rparr>;
         count = (case map_of (bf_transitions s) c of None \<Rightarrow> 0 | Some n \<Rightarrow> n) in
     rbind (push_event (BackfillApplied c anchor count) db2) (\<lambda>db3.
     if is_ready
     then rbind (push_event (ContractReady c anchor) db3) (\<lambda>db4. Ok (s1\<lparr>bf_db := db4\<rparr>, ready @ [c]))
     else Ok (s1\<lparr>bf_db := db3\<rparr>, ready))))))"

definition read_progress ::
    "NodeDb \<Rightarrow> ContractId \<Rightarrow> (NodeStoreError, BackfillProgress) result" where
  "read_progress db c = ok_or (tbl_get (progress_rows db) (contract_fixed_key c)) (MissingBackfillProgress c)"

definition check_backfill_position :: "BlockDelta \<Rightarrow> BackfillProgress \<Rightarrow> unit \<Rightarrow> (NodeStoreError, unit) result" where
  "check_backfill_position delta item _ =
     ensure (block_height (next_position item) = height (delta_anchor delta)
         \<and> \<not> height (pinned_tip item) < height (delta_anchor delta))
       (BackfillPositionMismatch (progress_contract item) (next_position item) (height (delta_anchor delta)))"

definition ready_targets :: "NodeDb \<Rightarrow> ContractId list \<Rightarrow> (NodeStoreError, ContractId list) result" where
  "ready_targets db targets =
     rbind (rmap (\<lambda>c. rbind (ok_or (read_contract db c) (ContractNotFound c)) (\<lambda>r. Ok (c, r))) targets) (\<lambda>rows.
     Ok (map fst (filter (\<lambda>e. \<not> is_catching_up (sync_state (snd e))) rows)))"

text \<open>The replay proper, once the block and every cursor are checked.\<close>

definition replay_backfill ::
    "node_ops \<Rightarrow> ContractId list \<Rightarrow> BlockDelta \<Rightarrow> bytes \<Rightarrow> BackfillProgress list \<Rightarrow> NodeDb \<Rightarrow>
     (NodeStoreError, NodeDb \<times> ContractId list) result" where
  "replay_backfill ops targets delta digest progress db =
     (let key = height_key (height (delta_anchor delta));
          undo = map_option (\<lambda>undo. undo\<lparr>backfill_progress_changes := backfill_progress_changes undo @
            map (\<lambda>item. \<lparr>undo_progress_contract = progress_contract item, progress_before = Some item\<rparr>) progress\<rparr>)
            (tbl_get (undo_rows db) key) in
      rbind (rfold (apply_backfill_transaction ops targets) (relevant_transactions delta)
        \<lparr>bf_db = db, bf_undo = undo, bf_transitions = []\<rparr>) (\<lambda>s.
      rbind (ok_or (tip_row (bf_db s)) TipNotInitialized) (\<lambda>tip.
      rbind (ok_or (checked_add (height (delta_anchor delta)) 1) HeightOverflow) (\<lambda>next_height.
      rbind (rfold (advance_backfill ops delta digest tip next_height) progress (s, [])) (\<lambda>(s', ready).
      Ok (case bf_undo s' of
          None \<Rightarrow> bf_db s'
        | Some journal \<Rightarrow> (bf_db s')\<lparr>undo_rows := tbl_insert key journal (undo_rows (bf_db s'))\<rparr>, ready))))))"

definition apply_backfill_block ::
    "node_ops \<Rightarrow> ContractId list \<Rightarrow> BlockDelta \<Rightarrow> NodeDb \<Rightarrow> (NodeStoreError, NodeDb \<times> ApplyBackfillResult) result" where
  "apply_backfill_block ops contract_ids delta db =
     rbind (validate_block_shape ops delta) (\<lambda>_.
     rbind (ensure (contract_ids \<noteq> []) InvalidBackfill) (\<lambda>_.
     let targets = sort_dedup_contracts contract_ids in
     rbind (ensure (length targets = length contract_ids) InvalidBackfill) (\<lambda>_.
     rbind (delta_digest ops delta) (\<lambda>digest.
     rbind (ensure (meta_status db \<noteq> Some RescanRequired) RebuildRequired) (\<lambda>_.
     rbind (verify_backfill_block delta db) (\<lambda>_.
     rbind (rmap (read_progress db) targets) (\<lambda>progress.
     if list_all (\<lambda>item. last_applied item = Some (delta_anchor delta, digest)) progress
     then rbind (event_cursor_from_meta db) (\<lambda>high.
       rbind (ready_targets db targets) (\<lambda>ready.
       Ok (db, \<lparr>backfill_applied = False, backfill_through = delta_anchor delta, ready_contracts = ready,
         backfill_high_watermark = high\<rparr>)))
     else
       rbind (rfold (check_backfill_position delta) progress ()) (\<lambda>_.
       rbind (validate_backfill_targets delta progress targets) (\<lambda>_.
       rbind (replay_backfill ops targets delta digest progress db) (\<lambda>(db', ready).
       rbind (event_cursor_from_meta db') (\<lambda>high.
       Ok (db', \<lparr>backfill_applied = True, backfill_through = delta_anchor delta, ready_contracts = ready,
         backfill_high_watermark = high\<rparr>))))))))))))"

end
