(* ===== verification/Node_Queries.thy ===== *)
theory Node_Queries
  imports Node_Backfill
begin

text \<open>
  The read transactions of \<open>crates/deadcat-node/src/store.rs\<close>: status and snapshot metadata,
  the event journal after a cursor, and the paged or complete listings of contracts, recovery
  hints, asset relations, retained declarations and histories.
\<close>

section \<open>Snapshots and cursors\<close>

definition snapshot_from_read :: "NodeDb \<Rightarrow> (NodeStoreError, StoreSnapshotMetadata) result" where
  "snapshot_from_read db =
     rbind (ok_or (tip_row db) TipNotInitialized) (\<lambda>tip.
     rbind (event_cursor_from_meta db) (\<lambda>high.
     Ok \<lparr>as_of = tip, snapshot_high_watermark = high\<rparr>))"

definition status_snapshot :: "NodeDb \<Rightarrow> (NodeStoreError, StoreStatusSnapshot) result" where
  "status_snapshot db =
     rbind (ok_or (tip_row db) TipNotInitialized) (\<lambda>tip.
     rbind (ok_or (meta_activation db) (MissingMetadata ''v1_activation_anchor'')) (\<lambda>activation.
     rbind (ok_or (meta_status db) (MissingMetadata ''sync_status'')) (\<lambda>status.
     rbind (event_cursor_from_meta db) (\<lambda>high.
     Ok \<lparr>indexed_tip = tip, status_activation = activation, status_sync = status, status_high_watermark = high\<rparr>))))"

definition validate_event_cursor :: "EventCursor option \<Rightarrow> EventCursor \<Rightarrow> (NodeStoreError, u64) result" where
  "validate_event_cursor after high = (case after of
       None \<Rightarrow> Ok 0
     | Some cursor \<Rightarrow>
         if epoch cursor \<noteq> epoch high then Err (StaleCursor (epoch high) (epoch cursor))
         else if sequence cursor > sequence high then Err (CursorAhead (sequence cursor) (sequence high))
         else Ok (sequence cursor))"

definition subscription_snapshot :: "EventCursor option \<Rightarrow> NodeDb \<Rightarrow> (NodeStoreError, StoreStatusSnapshot) result" where
  "subscription_snapshot after db =
     rbind (status_snapshot db) (\<lambda>snapshot.
     rbind (validate_event_cursor after (status_high_watermark snapshot)) (\<lambda>_.
     Ok snapshot))"

text \<open>
  The scan of the event table.  The limit is compared after a push, so a limit of zero never stops
  the loop.
\<close>

fun scan_events ::
    "bytes \<Rightarrow> u64 \<Rightarrow> nat \<Rightarrow> (bytes, StoredEventEnvelope) table \<Rightarrow> StoredEventEnvelope list \<Rightarrow>
     (NodeStoreError, StoredEventEnvelope list) result" where
  "scan_events e after limit [] events = Ok events"
| "scan_events e after limit ((k, v) # rows) events =
     (if length k \<noteq> 24 then Err (CorruptIndexKey ''events'')
      else if take 16 k \<noteq> e \<or> u64_from_be (drop 16 k) \<le> after then scan_events e after limit rows events
      else if length (events @ [v]) = limit then Ok (events @ [v])
      else scan_events e after limit rows (events @ [v]))"

definition events_after :: "EventCursor option \<Rightarrow> nat \<Rightarrow> NodeDb \<Rightarrow> (NodeStoreError, StoredEventEnvelope list) result" where
  "events_after after limit db =
     rbind (event_cursor_from_meta db) (\<lambda>high.
     rbind (validate_event_cursor after high) (\<lambda>after_sequence.
     scan_events (epoch high) after_sequence limit (event_rows db) []))"

definition validate_query_limit :: "nat \<Rightarrow> (NodeStoreError, unit) result" where
  "validate_query_limit limit = ensure (limit \<noteq> 0) InvalidQueryLimit"

definition validate_snapshot_cursor ::
    "StoreSnapshotCursor option \<Rightarrow> StoreSnapshotMetadata \<Rightarrow> SnapshotScope \<Rightarrow> nat \<Rightarrow> (NodeStoreError, unit) result" where
  "validate_snapshot_cursor cursor snapshot scope key_len = (case cursor of
       None \<Rightarrow> Ok ()
     | Some c \<Rightarrow>
         if cursor_as_of c \<noteq> as_of snapshot \<or> cursor_high_watermark c \<noteq> snapshot_high_watermark snapshot
         then Err (StaleSnapshotCursor snapshot
           \<lparr>as_of = cursor_as_of c, snapshot_high_watermark = cursor_high_watermark c\<rparr>)
         else if length (after_key c) \<noteq> key_len then Err (InvalidSnapshotKey key_len (length (after_key c)))
         else if cursor_scope c \<noteq> scope then Err (SnapshotScopeMismatch scope (cursor_scope c))
         else Ok ())"

text \<open>A page is truncated to the limit; the cursor names the last row kept.\<close>

definition materialized_page ::
    "StoreSnapshotMetadata \<Rightarrow> SnapshotScope \<Rightarrow> (bytes \<times> 'a) list \<Rightarrow> nat \<Rightarrow> 'a MaterializedPage" where
  "materialized_page snapshot scope rows limit =
     (let truncated = length rows > limit;
          kept = (if truncated then butlast rows else rows) in
      \<lparr>page_snapshot = snapshot, page_items = map snd kept,
       page_next = (if truncated then Some \<lparr>cursor_as_of = as_of snapshot,
         cursor_high_watermark = snapshot_high_watermark snapshot, cursor_scope = scope, after_key = fst (last kept)\<rparr>
         else None)\<rparr>)"


section \<open>Listings\<close>

text \<open>The scan loop of a page: rows after the cursor that pass, up to one more than the limit.\<close>

fun scan_rows ::
    "(bytes \<Rightarrow> (NodeStoreError, unit) result) \<Rightarrow> bytes option \<Rightarrow> ('a \<Rightarrow> 'b option) \<Rightarrow> nat \<Rightarrow> (bytes, 'a) table \<Rightarrow>
     (bytes \<times> 'b) list \<Rightarrow> (NodeStoreError, (bytes \<times> 'b) list) result" where
  "scan_rows check_key after pass limit [] rows = Ok rows"
| "scan_rows check_key after pass limit ((k, v) # t) rows =
     rbind (check_key k) (\<lambda>_.
     if (case after of None \<Rightarrow> False | Some a \<Rightarrow> k \<le> a) then scan_rows check_key after pass limit t rows
     else case pass v of
         None \<Rightarrow> scan_rows check_key after pass limit t rows
       | Some x \<Rightarrow>
           if length (rows @ [(k, x)]) > limit then Ok (rows @ [(k, x)])
           else scan_rows check_key after pass limit t (rows @ [(k, x)]))"

definition ready_market :: "ChainAnchor \<Rightarrow> ContractRecord \<Rightarrow> ContractRecord option" where
  "ready_market tip r =
     (if contract_kind r = BinaryMarketV1 \<and> \<not> is_catching_up (sync_state r) then Some (normalize_ready_anchor r tip) else None)"

definition ready_markets ::
    "StoreSnapshotCursor option \<Rightarrow> nat \<Rightarrow> NodeDb \<Rightarrow> (NodeStoreError, ContractRecord MaterializedPage) result" where
  "ready_markets cursor limit db =
     rbind (validate_query_limit limit) (\<lambda>_.
     rbind (snapshot_from_read db) (\<lambda>snapshot.
     rbind (validate_snapshot_cursor cursor snapshot ScopeMarkets 36) (\<lambda>_.
     rbind (scan_rows (\<lambda>_. Ok ()) (map_option after_key cursor) (ready_market (as_of snapshot)) limit (contract_rows db) []) (\<lambda>rows.
     Ok (materialized_page snapshot ScopeMarkets rows limit)))))"

definition hint_of_family :: "RecoveryFamily option \<Rightarrow> StoredRecoveryHint \<Rightarrow> StoredRecoveryHint option" where
  "hint_of_family family h = (if (case family of None \<Rightarrow> True | Some f \<Rightarrow> hint_family h = f) then Some h else None)"

definition scan_recovery_hints ::
    "RecoveryFamily option \<Rightarrow> StoreSnapshotCursor option \<Rightarrow> nat \<Rightarrow> NodeDb \<Rightarrow> (NodeStoreError, StoredRecoveryHint MaterializedPage) result" where
  "scan_recovery_hints family cursor limit db =
     rbind (validate_query_limit limit) (\<lambda>_.
     rbind (snapshot_from_read db) (\<lambda>snapshot.
     rbind (validate_snapshot_cursor cursor snapshot (ScopeRecoveryHints family) 12) (\<lambda>_.
     rbind (scan_rows (\<lambda>k. ensure (length k = 12) (CorruptIndexKey ''recovery_hints'')) (map_option after_key cursor)
       (hint_of_family family) limit (hint_rows db) []) (\<lambda>rows.
     Ok (materialized_page snapshot (ScopeRecoveryHints family) rows limit)))))"

definition asset_relation_row ::
    "asset_id \<Rightarrow> bytes \<times> AssetBinding \<Rightarrow> AssetRelationRecord list \<Rightarrow> (NodeStoreError, AssetRelationRecord list) result" where
  "asset_relation_row wanted row found = (case row of (k, binding) \<Rightarrow>
     rbind (ensure (length k = 70) (CorruptIndexKey ''asset_relations'')) (\<lambda>_.
     if take 32 k \<noteq> wanted then Ok found
     else rbind (decode_contract_key (take 36 (drop 33 k))) (\<lambda>c.
       Ok (found @ [\<lparr>related_contract = c, related_binding = binding\<rparr>]))))"

definition asset_relations ::
    "asset_id \<Rightarrow> NodeDb \<Rightarrow> (NodeStoreError, StoreSnapshotMetadata \<times> AssetRelationRecord list) result" where
  "asset_relations wanted db =
     rbind (snapshot_from_read db) (\<lambda>snapshot.
     rbind (rfold (asset_relation_row wanted) (asset_rows db) []) (\<lambda>relations.
     Ok (snapshot, relations)))"

definition contract_snapshot ::
    "ContractId \<Rightarrow> NodeDb \<Rightarrow> (NodeStoreError, StoreSnapshotMetadata \<times> ContractRecord option) result" where
  "contract_snapshot c db =
     rbind (snapshot_from_read db) (\<lambda>snapshot.
     Ok (snapshot, map_option (\<lambda>r. normalize_ready_anchor r (as_of snapshot)) (read_contract db c)))"

definition stored_contract :: "ContractId \<Rightarrow> NodeDb \<Rightarrow> (NodeStoreError, ContractRecord option) result" where
  "stored_contract c db = rbind (contract_snapshot c db) (\<lambda>(_, r). Ok r)"

definition stored_output :: "node_ops \<Rightarrow> OutPoint \<Rightarrow> NodeDb \<Rightarrow> (NodeStoreError, StoredOutput option) result" where
  "stored_output ops p db = (case tbl_get (output_rows db) (outpoint_fixed_key p) of
       None \<Rightarrow> Ok None
     | Some ref \<Rightarrow>
         rbind (ok_or (tbl_get (transaction_rows db) (position_fixed_key (ref_position ref)))
           (MissingOutputTransaction (ref_position ref))) (\<lambda>stored.
         rbind (ok_or (deserialize_tx ops (stored_raw_tx stored)) ConsensusDecode) (\<lambda>tx.
         rbind (ok_or (list_get (tx_output tx) (unat (vout p))) (MissingOutput p)) (\<lambda>out.
         Ok (Some \<lparr>output_position = ref_position ref, output_outpoint = p, output_txout = out\<rparr>)))))"

definition history_row ::
    "ContractId \<Rightarrow> bytes \<times> StoredHistoryEntry \<Rightarrow> StoredHistoryEntry list \<Rightarrow> (NodeStoreError, StoredHistoryEntry list) result" where
  "history_row c row found = (case row of (k, entry) \<Rightarrow>
     rbind (ensure (length k = 44) (CorruptIndexKey ''contract_history'')) (\<lambda>_.
     Ok (if take 36 k = contract_fixed_key c then found @ [entry] else found)))"

definition contract_history :: "ContractId \<Rightarrow> NodeDb \<Rightarrow> (NodeStoreError, StoredHistoryEntry list) result" where
  "contract_history c db = rfold (history_row c) (history_rows db) []"

definition contract_history_snapshot ::
    "ContractId \<Rightarrow> NodeDb \<Rightarrow> (NodeStoreError, StoreSnapshotMetadata \<times> ContractRecord option \<times> StoredHistoryEntry list) result" where
  "contract_history_snapshot c db =
     rbind (contract_snapshot c db) (\<lambda>(snapshot, r).
     rbind (contract_history c db) (\<lambda>history.
     Ok (snapshot, r, history)))"

text \<open>The bounded range scan over the keys of one transaction.\<close>

definition retained_declarations_for_txid :: "txid \<Rightarrow> NodeDb \<Rightarrow> ContractDeclaration list" where
  "retained_declarations_for_txid i db =
     map snd (filter (\<lambda>e. i @ [0, 0, 0, 0] \<le> fst e \<and> fst e \<le> i @ u32_be (- 1)) (retained_rows db))"

definition retained_declarations_for_transactions ::
    "txid list \<Rightarrow> NodeDb \<Rightarrow> (txid \<times> ContractDeclaration list) list" where
  "retained_declarations_for_transactions txids db =
     (if retained_rows db = [] then []
      else filter (\<lambda>e. snd e \<noteq> []) (map (\<lambda>i. (i, retained_declarations_for_txid i db)) txids))"

definition pending_row :: "NodeDb \<Rightarrow> bytes \<times> ContractRecord \<Rightarrow> BackfillProgress list \<Rightarrow> (NodeStoreError, BackfillProgress list) result" where
  "pending_row db row found =
     (if \<not> is_catching_up (sync_state (snd row)) then Ok found
      else rbind (read_progress db (contract_id (snd row))) (\<lambda>item. Ok (found @ [item])))"

definition pending_backfills :: "NodeDb \<Rightarrow> (NodeStoreError, BackfillProgress list) result" where
  "pending_backfills db =
     rbind (rfold (pending_row db) (contract_rows db) []) (\<lambda>pending.
     Ok (sort_key (\<lambda>item. position_fixed_key (next_position item) @ contract_fixed_key (progress_contract item)) pending))"

end
