(* ===== verification/Node_Index.thy ===== *)
theory Node_Index
  imports Node_Queries
begin

text \<open>
  The four secondary indexes of the node's store as exact projections of the contract table.  An
  index is described by the entries a record contributes; the locale \<open>contract_index\<close> states what
  makes insertion and removal of a record keep an index exact, and its interpretations cover the
  owners, outpoints, scripts and assets of the contracts.
\<close>

section \<open>Folding rows into a table\<close>

abbreviation insert_entries :: "(bytes \<times> 'v) list \<Rightarrow> (bytes, 'v) table \<Rightarrow> (bytes, 'v) table" where
  "insert_entries es t \<equiv> fold (\<lambda>(k, v). tbl_insert k v) es t"

abbreviation remove_entries :: "(bytes \<times> 'v) list \<Rightarrow> (bytes, 'v) table \<Rightarrow> (bytes, 'v) table" where
  "remove_entries es t \<equiv> fold (\<lambda>e. tbl_remove (fst e)) es t"

lemma insert_entries_get:
  "tbl_get (insert_entries es t) k = (case map_of (rev es) k of None \<Rightarrow> tbl_get t k | Some v \<Rightarrow> Some v)"
  by (induction es arbitrary: t) (auto simp: map_add_def split: option.splits)

lemma insert_entries_ok: "tbl_ok t \<Longrightarrow> tbl_ok (insert_entries es t)"
  by (induction es arbitrary: t) auto

lemma tbl_remove_all_get:
  "tbl_get (fold (\<lambda>x. tbl_remove (f x)) xs t) k = (if k \<in> f ` set xs then None else tbl_get t k)"
  by (induction xs arbitrary: t) auto

lemma tbl_remove_all_ok: "tbl_ok t \<Longrightarrow> tbl_ok (fold (\<lambda>x. tbl_remove (f x)) xs t)"
  by (induction xs arbitrary: t) auto

lemma tbl_extensional: "tbl_ok t \<Longrightarrow> tbl_ok u \<Longrightarrow> (\<And>k. tbl_get t k = tbl_get u k) \<Longrightarrow> t = u"
  using tbl.entries_extensional by blast


section \<open>Projections\<close>

definition projects :: "('r \<Rightarrow> (bytes \<times> 'v) list) \<Rightarrow> (bytes, 'r) table \<Rightarrow> (bytes, 'v) table \<Rightarrow> bool" where
  "projects entries base index \<longleftrightarrow>
     (\<forall>k v. tbl_get index k = Some v \<longleftrightarrow> (\<exists>b r. tbl_get base b = Some r \<and> (k, v) \<in> set (entries r)))"

text \<open>The widths that the Rust types fix: hashes and asset identifiers have 32 bytes.\<close>

definition typed_record :: "node_ops \<Rightarrow> ContractRecord \<Rightarrow> bool" where
  "typed_record ops r \<longleftrightarrow>
     (\<forall>a \<in> set (assets r). length (binding_asset a) = 32) \<and>
     (\<forall>s \<in> set (scripts r). length (script_hash ops (binding_script s)) = 32)"

definition sound_record :: "node_ops \<Rightarrow> ContractRecord \<Rightarrow> bool" where
  "sound_record ops r \<longleftrightarrow> typed_record ops r \<and> record_validate ops r = Ok ()"

definition keyed_rows :: "node_ops \<Rightarrow> (bytes, ContractRecord) table \<Rightarrow> bool" where
  "keyed_rows ops base \<longleftrightarrow>
     (\<forall>b r. tbl_get base b = Some r \<longrightarrow> b = contract_fixed_key (contract_id r) \<and> sound_record ops r)"

locale contract_index =
  fixes ops :: node_ops
    and entries :: "ContractRecord \<Rightarrow> (bytes \<times> 'v) list"
  assumes one_owner: "sound_record ops r \<Longrightarrow> sound_record ops r' \<Longrightarrow> e \<in> set (entries r) \<Longrightarrow> e \<in> set (entries r') \<Longrightarrow>
      contract_id r = contract_id r'"
    and functional: "sound_record ops r \<Longrightarrow> (k, v) \<in> set (entries r) \<Longrightarrow> (k, v') \<in> set (entries r) \<Longrightarrow> v = v'"
begin

lemma project_insert:
  assumes "projects entries base index" "tbl_get base b = None" "sound_record ops r"
    and fresh: "\<And>e. e \<in> set (entries r) \<Longrightarrow> tbl_get index (fst e) = None"
  shows "projects entries (tbl_insert b r base) (insert_entries (entries r) index)"
proof -
  have new: "map_of (rev (entries r)) k = Some v \<longleftrightarrow> (k, v) \<in> set (entries r)" for k v
  proof
    assume "(k, v) \<in> set (entries r)"
    then obtain v' where "map_of (rev (entries r)) k = Some v'"
      by (metis map_of_eq_None_iff not_None_eq fst_conv image_eqI set_rev)
    moreover from map_of_SomeD [OF this] have "(k, v') \<in> set (entries r)" by simp
    ultimately show "map_of (rev (entries r)) k = Some v"
      using functional [OF assms(3) \<open>(k, v) \<in> set (entries r)\<close>] by simp
  qed (metis map_of_SomeD set_rev)
  have old: "(k, v) \<notin> set (entries r)" if "tbl_get index k \<noteq> None" for k v
    using fresh that by fastforce
  have "tbl_get (insert_entries (entries r) index) k = Some v \<longleftrightarrow> (k, v) \<in> set (entries r) \<or> tbl_get index k = Some v" for k v
    using old [of k] new [of k] functional [OF assms(3), of k] by (auto simp: insert_entries_get split: option.splits)
  then show ?thesis
    using assms(1,2) unfolding projects_def by auto (metis option.discI)+
qed

lemma project_remove:
  assumes "projects entries base index" "keyed_rows ops base" "tbl_get base b = Some r"
  shows "projects entries (tbl_remove b base) (remove_entries (entries r) index)"
proof -
  have sound: "sound_record ops r" using assms(2,3) by (simp add: keyed_rows_def)
  have other: "tbl_get index k = Some v \<and> k \<notin> fst ` set (entries r) \<longleftrightarrow>
      (\<exists>b' r'. b' \<noteq> b \<and> tbl_get base b' = Some r' \<and> (k, v) \<in> set (entries r'))" for k v
  proof (intro iffI conjI)
    assume *: "tbl_get index k = Some v \<and> k \<notin> fst ` set (entries r)"
    then obtain b' r' where "tbl_get base b' = Some r'" "(k, v) \<in> set (entries r')"
      using assms(1) by (auto simp: projects_def)
    moreover then have "b' \<noteq> b" using * assms(3) by force
    ultimately show "\<exists>b' r'. b' \<noteq> b \<and> tbl_get base b' = Some r' \<and> (k, v) \<in> set (entries r')" by blast
  next
    assume "\<exists>b' r'. b' \<noteq> b \<and> tbl_get base b' = Some r' \<and> (k, v) \<in> set (entries r')"
    then obtain b' r' where r': "b' \<noteq> b" "tbl_get base b' = Some r'" "(k, v) \<in> set (entries r')" by blast
    then show here: "tbl_get index k = Some v" using assms(1) by (auto simp: projects_def)
    show "k \<notin> fst ` set (entries r)"
    proof
      assume "k \<in> fst ` set (entries r)"
      then obtain w where w: "(k, w) \<in> set (entries r)" by auto
      then have "tbl_get index k = Some w" using assms(1,3) by (auto simp: projects_def)
      with here w have "(k, v) \<in> set (entries r)" by simp
      then have "contract_id r = contract_id r'"
        using one_owner [OF sound] r' assms(2) by (auto simp: keyed_rows_def)
      then show False using r'(1,2) assms(2,3) unfolding keyed_rows_def by metis
    qed
  qed
  have "tbl_get (remove_entries (entries r) index) k = Some v \<longleftrightarrow> tbl_get index k = Some v \<and> k \<notin> fst ` set (entries r)" for k v
    unfolding tbl_remove_all_get by auto
  with other show ?thesis unfolding projects_def by auto
qed

text \<open>The index is determined by the contract table.\<close>

lemma project_unique:
  assumes "projects entries base index" "projects entries base index'" "tbl_ok index" "tbl_ok index'"
  shows "index = index'"
proof (rule tbl_extensional [OF assms(3,4)])
  fix k
  show "tbl_get index k = tbl_get index' k"
    using assms(1,2) unfolding projects_def by (metis not_Some_eq)
qed

end

text \<open>An index whose key names the contract: no collision between contracts can occur.\<close>

locale keyed_index = contract_index +
  assumes key_owner: "sound_record ops r \<Longrightarrow> sound_record ops r' \<Longrightarrow> (k, v) \<in> set (entries r) \<Longrightarrow> (k, v') \<in> set (entries r') \<Longrightarrow>
      contract_id r = contract_id r'"
begin

lemma fresh_keys:
  assumes "projects entries base index" "keyed_rows ops base" "sound_record ops r"
    and absent: "tbl_get base (contract_fixed_key (contract_id r)) = None"
    and e: "e \<in> set (entries r)"
  shows "tbl_get index (fst e) = None"
proof (rule ccontr)
  assume "tbl_get index (fst e) \<noteq> None"
  then obtain v b r' where r': "tbl_get base b = Some r'" "(fst e, v) \<in> set (entries r')"
    using assms(1) by (auto simp: projects_def)
  then have "contract_id r = contract_id r'"
    using key_owner [OF assms(3), of r' "fst e" "snd e"] e assms(2) by (auto simp: keyed_rows_def)
  then show False using r'(1) assms(2) absent unfolding keyed_rows_def by (metis option.discI)
qed

end



section \<open>The entries of a record\<close>

definition owner_entries :: "ContractRecord \<Rightarrow> (bytes \<times> OutpointOwner) list" where
  "owner_entries r = map (\<lambda>t. (outpoint_fixed_key (tracked_outpoint t),
     \<lparr>owner_contract = contract_id r, owner_role = tracked_role t\<rparr>)) (outpoints r)"

definition outpoint_entries :: "ContractRecord \<Rightarrow> (bytes \<times> OutPoint) list" where
  "outpoint_entries r = map (\<lambda>t. (contract_outpoint_key (contract_id r) (tracked_role t), tracked_outpoint t)) (outpoints r)"

definition script_entries :: "node_ops \<Rightarrow> ContractRecord \<Rightarrow> (bytes \<times> ScriptBinding) list" where
  "script_entries ops r =
     (if contract_is_live (contract_state r) then map (\<lambda>s. (script_key ops (contract_id r) s, s)) (scripts r) else [])"

definition asset_entries :: "ContractRecord \<Rightarrow> (bytes \<times> AssetBinding) list" where
  "asset_entries r = map (\<lambda>a. (asset_key (contract_id r) a, a)) (assets r)"

lemma record_validate_Ok:
  "record_validate ops r = Ok () \<longleftrightarrow>
     distinct (map tracked_role (outpoints r)) \<and> distinct (map tracked_outpoint (outpoints r)) \<and>
     distinct (map script_role (scripts r)) \<and> distinct (map (\<lambda>s. script_hash ops (binding_script s)) (scripts r))"
  by (auto simp: record_validate_def result_simps)

lemma distinct_map_eq: "distinct (map f xs) \<Longrightarrow> x \<in> set xs \<Longrightarrow> y \<in> set xs \<Longrightarrow> f x = f y \<Longrightarrow> x = y"
  by (auto simp: distinct_map inj_on_def)

lemma contract_outpoint_key_inject [simp]:
  "contract_outpoint_key c role = contract_outpoint_key c' role' \<longleftrightarrow> c = c' \<and> role = role'"
  by (simp add: contract_outpoint_key_def)

lemma script_key_inject:
  assumes "length (script_hash ops (binding_script s)) = 32" "length (script_hash ops (binding_script s')) = 32"
  shows "script_key ops c s = script_key ops c' s' \<Longrightarrow> c = c' \<and> script_role s = script_role s'"
  using assms by (auto simp: script_key_def append_eq_append_conv)

lemma relation_tag_inject [simp]: "relation_tag a = relation_tag b \<longleftrightarrow> a = b"
  by (simp add: relation_tag_def split: AssetRelationKind.splits)

lemma asset_key_inject:
  assumes "length (binding_asset a) = 32" "length (binding_asset b) = 32" "asset_key c a = asset_key c' b"
  shows "c = c' \<and> a = b"
  using assms by (cases a; cases b) (auto simp: asset_key_def append_eq_append_conv)

interpretation owners: contract_index ops owner_entries
proof
  fix r r' :: ContractRecord and e
  show "e \<in> set (owner_entries r) \<Longrightarrow> e \<in> set (owner_entries r') \<Longrightarrow> contract_id r = contract_id r'"
    by (auto simp: owner_entries_def)
next
  fix r k v v'
  assume "sound_record ops r" "(k, v) \<in> set (owner_entries r)" "(k, v') \<in> set (owner_entries r)"
  then show "v = v'"
    by (auto simp: sound_record_def record_validate_Ok owner_entries_def dest: distinct_map_eq)
qed

interpretation outs: keyed_index ops outpoint_entries
proof
  fix r k v v'
  assume "sound_record ops r" "(k, v) \<in> set (outpoint_entries r)" "(k, v') \<in> set (outpoint_entries r)"
  then show "v = v'"
    by (auto simp: sound_record_def record_validate_Ok outpoint_entries_def dest: distinct_map_eq)
qed (auto simp: outpoint_entries_def)

interpretation scr: keyed_index ops "script_entries ops"
proof
  fix r k v v'
  assume "sound_record ops r" "(k, v) \<in> set (script_entries ops r)" "(k, v') \<in> set (script_entries ops r)"
  then show "v = v'"
    by (auto simp: sound_record_def typed_record_def record_validate_Ok script_entries_def split: if_splits
        dest!: script_key_inject [rotated 2] dest: distinct_map_eq)
next
  fix r r' k v v'
  assume "sound_record ops r" "sound_record ops r'" "(k, v) \<in> set (script_entries ops r)" "(k, v') \<in> set (script_entries ops r')"
  then show "contract_id r = contract_id r'"
    by (auto simp: sound_record_def typed_record_def script_entries_def split: if_splits dest!: script_key_inject [rotated 2])
next
  fix r r' e
  assume "sound_record ops r" "sound_record ops r'" "e \<in> set (script_entries ops r)" "e \<in> set (script_entries ops r')"
  then show "contract_id r = contract_id r'"
    by (auto simp: sound_record_def typed_record_def script_entries_def split: if_splits dest!: script_key_inject [rotated 2])
qed

interpretation ast: keyed_index ops asset_entries
proof
  fix r k v v'
  assume "sound_record ops r" "(k, v) \<in> set (asset_entries r)" "(k, v') \<in> set (asset_entries r)"
  then show "v = v'"
    by (auto simp: sound_record_def typed_record_def asset_entries_def dest: asset_key_inject [rotated 2])
next
  fix r r' k v v'
  assume "sound_record ops r" "sound_record ops r'" "(k, v) \<in> set (asset_entries r)" "(k, v') \<in> set (asset_entries r')"
  then show "contract_id r = contract_id r'"
    by (auto simp: sound_record_def typed_record_def asset_entries_def dest: asset_key_inject [rotated 2])
next
  fix r r' e
  assume "sound_record ops r" "sound_record ops r'" "e \<in> set (asset_entries r)" "e \<in> set (asset_entries r')"
  then show "contract_id r = contract_id r'"
    by (auto simp: sound_record_def typed_record_def asset_entries_def dest: asset_key_inject [rotated 2])
qed



section \<open>Inserting and removing a record\<close>

text \<open>What \<open>insert_contract\<close> and \<open>remove_contract\<close> do to the five contract tables.\<close>

definition install :: "node_ops \<Rightarrow> ContractRecord \<Rightarrow> NodeDb \<Rightarrow> NodeDb" where
  "install ops r db = db\<lparr>
     contract_rows := tbl_insert (contract_fixed_key (contract_id r)) r (contract_rows db),
     owner_rows := insert_entries (owner_entries r) (owner_rows db),
     outpoint_rows := insert_entries (outpoint_entries r) (outpoint_rows db),
     script_rows := insert_entries (script_entries ops r) (script_rows db),
     asset_rows := insert_entries (asset_entries r) (asset_rows db)\<rparr>"

lemma insert_tracked_free:
  assumes "distinct (map tracked_outpoint ts)"
    and "\<forall>t \<in> set ts. tbl_get (owner_rows db) (outpoint_fixed_key (tracked_outpoint t)) = None"
  shows "rfold (insert_tracked c) ts db = Ok (db\<lparr>
      owner_rows := fold (\<lambda>t. tbl_insert (outpoint_fixed_key (tracked_outpoint t))
        \<lparr>owner_contract = c, owner_role = tracked_role t\<rparr>) ts (owner_rows db),
      outpoint_rows := fold (\<lambda>t. tbl_insert (contract_outpoint_key c (tracked_role t)) (tracked_outpoint t)) ts (outpoint_rows db)\<rparr>)"
  using assms
proof (induction ts arbitrary: db)
  case (Cons t ts)
  have other: "tracked_outpoint t' \<noteq> tracked_outpoint t" if "t' \<in> set ts" for t'
    using that Cons.prems(1) by (metis distinct.simps(2) image_eqI list.set_map list.simps(9))
  have d: "distinct (map tracked_outpoint ts)" using Cons.prems(1) by simp
  show ?case using Cons.IH [OF d] Cons.prems(2) other by (simp add: insert_tracked_def)
qed simp

lemma insert_tracked_taken:
  assumes "t \<in> set ts" "tbl_get (owner_rows db) (outpoint_fixed_key (tracked_outpoint t)) \<noteq> None"
  shows "\<exists>e. rfold (insert_tracked c) ts db = Err e"
  using assms
proof (induction ts arbitrary: db)
  case (Cons t' ts)
  show ?case
  proof (cases "t = t'")
    case False
    then show ?thesis using Cons by (auto simp: insert_tracked_def split: option.split)
  qed (use Cons.prems in \<open>auto simp: insert_tracked_def split: option.split\<close>)
qed simp

lemma insert_contract_Ok:
  "insert_contract ops r db = Ok db' \<longleftrightarrow>
     record_validate ops r = Ok () \<and> read_contract db (contract_id r) = None \<and>
     (\<forall>e \<in> set (owner_entries r). tbl_get (owner_rows db) (fst e) = None) \<and> db' = install ops r db"
proof -
  have folds: "insert_entries (owner_entries r) t = fold (\<lambda>t. tbl_insert (outpoint_fixed_key (tracked_outpoint t))
        \<lparr>owner_contract = contract_id r, owner_role = tracked_role t\<rparr>) (outpoints r) t"
    "insert_entries (outpoint_entries r) t' = fold (\<lambda>t. tbl_insert (contract_outpoint_key (contract_id r) (tracked_role t)) (tracked_outpoint t)) (outpoints r) t'"
    "insert_entries (script_entries ops r) u = (if contract_is_live (contract_state r)
       then fold (\<lambda>s. tbl_insert (script_key ops (contract_id r) s) s) (scripts r) u else u)"
    "insert_entries (asset_entries r) u' = fold (\<lambda>a. tbl_insert (asset_key (contract_id r) a) a) (assets r) u'" for t t' u u'
    by (simp_all add: owner_entries_def outpoint_entries_def script_entries_def asset_entries_def fold_map comp_def)
  have fresh: "(\<forall>e \<in> set (owner_entries r). tbl_get (owner_rows db) (fst e) = None) \<longleftrightarrow>
      (\<forall>t \<in> set (outpoints r). tbl_get (owner_rows db) (outpoint_fixed_key (tracked_outpoint t)) = None)"
    by (simp add: owner_entries_def)
  show ?thesis
  proof (cases "record_validate ops r = Ok ()")
    case True
    then have d: "distinct (map tracked_outpoint (outpoints r))" by (simp add: record_validate_Ok)
    show ?thesis
    proof (cases "\<forall>t \<in> set (outpoints r). tbl_get (owner_rows db) (outpoint_fixed_key (tracked_outpoint t)) = None")
      case free: True
      show ?thesis
        unfolding insert_contract_def True fresh install_def folds
        by (auto simp: ensure_def insert_tracked_free [OF d free] free Let_def)
    next
      case False
      then obtain e where "rfold (insert_tracked (contract_id r)) (outpoints r) db = Err e"
        using insert_tracked_taken by blast
      then show ?thesis using False unfolding insert_contract_def fresh by (simp add: True ensure_def)
    qed
  qed (auto simp: insert_contract_def result_simps)
qed

lemma remove_contract_eq:
  "remove_contract ops r db = db\<lparr>
     contract_rows := tbl_remove (contract_fixed_key (contract_id r)) (contract_rows db),
     owner_rows := remove_entries (owner_entries r) (owner_rows db),
     outpoint_rows := remove_entries (outpoint_entries r) (outpoint_rows db),
     script_rows := remove_entries (script_entries ops r) (script_rows db),
     asset_rows := remove_entries (asset_entries r) (asset_rows db)\<rparr>"
proof -
  have "fold (remove_tracked c) ts db = db\<lparr>
      owner_rows := fold (\<lambda>t. tbl_remove (outpoint_fixed_key (tracked_outpoint t))) ts (owner_rows db),
      outpoint_rows := fold (\<lambda>t. tbl_remove (contract_outpoint_key c (tracked_role t))) ts (outpoint_rows db)\<rparr>" for c ts db
    by (induction ts arbitrary: db) (simp_all add: remove_tracked_def)
  then show ?thesis
    by (simp add: remove_contract_def owner_entries_def outpoint_entries_def script_entries_def asset_entries_def
        fold_map comp_def Let_def)
qed


section \<open>Exact indexes\<close>

definition indexes_ok :: "node_ops \<Rightarrow> NodeDb \<Rightarrow> bool" where
  "indexes_ok ops db \<longleftrightarrow>
     tbl_ok (contract_rows db) \<and> tbl_ok (owner_rows db) \<and> tbl_ok (outpoint_rows db) \<and> tbl_ok (script_rows db) \<and> tbl_ok (asset_rows db) \<and>
     keyed_rows ops (contract_rows db) \<and>
     projects owner_entries (contract_rows db) (owner_rows db) \<and>
     projects outpoint_entries (contract_rows db) (outpoint_rows db) \<and>
     projects (script_entries ops) (contract_rows db) (script_rows db) \<and>
     projects asset_entries (contract_rows db) (asset_rows db)"

text \<open>The five tables the invariant speaks of.\<close>

definition contract_tables where
  "contract_tables db = (contract_rows db, owner_rows db, outpoint_rows db, script_rows db, asset_rows db)"

lemma indexes_ok_cong: "contract_tables db' = contract_tables db \<Longrightarrow> indexes_ok ops db' = indexes_ok ops db"
  by (simp add: indexes_ok_def contract_tables_def)

lemma indexes_okD:
  assumes "indexes_ok ops db"
  shows "tbl_ok (contract_rows db)" "keyed_rows ops (contract_rows db)"
    "projects owner_entries (contract_rows db) (owner_rows db)"
    "projects outpoint_entries (contract_rows db) (outpoint_rows db)"
    "projects (script_entries ops) (contract_rows db) (script_rows db)"
    "projects asset_entries (contract_rows db) (asset_rows db)"
  using assms by (simp_all add: indexes_ok_def)

lemma keyed_rows_insert:
  "keyed_rows ops base \<Longrightarrow> sound_record ops r \<Longrightarrow> keyed_rows ops (tbl_insert (contract_fixed_key (contract_id r)) r base)"
  by (auto simp: keyed_rows_def split: if_splits)

lemma keyed_rows_remove: "keyed_rows ops base \<Longrightarrow> keyed_rows ops (tbl_remove b base)"
  by (auto simp: keyed_rows_def split: if_splits)

lemma insert_indexes:
  assumes ok: "indexes_ok ops db" and typed: "typed_record ops r" and ins: "insert_contract ops r db = Ok db'"
  shows "indexes_ok ops db'"
proof -
  have sound: "sound_record ops r" and db': "db' = install ops r db"
    and absent: "tbl_get (contract_rows db) (contract_fixed_key (contract_id r)) = None"
    and owners: "\<And>e. e \<in> set (owner_entries r) \<Longrightarrow> tbl_get (owner_rows db) (fst e) = None"
    using ins typed by (auto simp: insert_contract_Ok sound_record_def read_contract_def)
  note D = indexes_okD [OF ok]
  note outs = outs.fresh_keys [OF D(4,2) sound absent]
  note scr = scr.fresh_keys [OF D(5,2) sound absent]
  note ast = ast.fresh_keys [OF D(6,2) sound absent]
  show ?thesis
    unfolding indexes_ok_def db'
    using ok owners.project_insert [OF D(3) absent sound owners] outs.project_insert [OF D(4) absent sound outs]
      scr.project_insert [OF D(5) absent sound scr] ast.project_insert [OF D(6) absent sound ast]
      keyed_rows_insert [OF D(2) sound]
    by (simp add: install_def indexes_ok_def insert_entries_ok)
qed

lemma remove_indexes:
  assumes ok: "indexes_ok ops db" and r: "read_contract db c = Some r"
  shows "indexes_ok ops (remove_contract ops r db)"
proof -
  note D = indexes_okD [OF ok]
  have c: "contract_fixed_key c = contract_fixed_key (contract_id r)"
    using r D(2) by (simp add: read_contract_def keyed_rows_def)
  have r': "tbl_get (contract_rows db) (contract_fixed_key (contract_id r)) = Some r"
    using r c by (simp add: read_contract_def)
  show ?thesis
    unfolding indexes_ok_def remove_contract_eq
    using ok owners.project_remove [OF D(3,2) r'] outs.project_remove [OF D(4,2) r']
      scr.project_remove [OF D(5,2) r'] ast.project_remove [OF D(6,2) r'] keyed_rows_remove [OF D(2)]
    by (simp add: indexes_ok_def tbl_remove_all_ok)
qed

text \<open>Two stores with exact indexes and the same contracts have the same five tables.\<close>

lemma indexes_determined:
  assumes "indexes_ok ops db" "indexes_ok ops db'" "contract_rows db = contract_rows db'"
  shows "contract_tables db = contract_tables db'"
proof -
  note D = assms(1) [unfolded indexes_ok_def] assms(2) [unfolded indexes_ok_def]
  have "owner_rows db = owner_rows db'" "outpoint_rows db = outpoint_rows db'"
    "script_rows db = script_rows db'" "asset_rows db = asset_rows db'"
    using D assms(3) owners.project_unique outs.project_unique scr.project_unique ast.project_unique by metis+
  then show ?thesis using assms(3) by (simp add: contract_tables_def)
qed

end
