(* ===== verification/Node_Inv.thy ===== *)
theory Node_Inv
  imports Node_Index
begin

text \<open>
  The operations of the node's store keep its indexes exact.  The undo journals hold the records
  that a rollback puts back, so the invariant covers their contents as well.
\<close>

named_theorems node_frame \<open>tables an operation leaves alone\<close>

section \<open>The invariant\<close>

definition journal_typed :: "node_ops \<Rightarrow> UndoBlock \<Rightarrow> bool" where
  "journal_typed ops undo \<longleftrightarrow> (\<forall>c \<in> set (contract_changes undo). \<forall>r. contract_before c = Some r \<longrightarrow>
     typed_record ops r \<and> contract_id r = undo_contract c)"

definition journals_typed :: "node_ops \<Rightarrow> NodeDb \<Rightarrow> bool" where
  "journals_typed ops db \<longleftrightarrow> (\<forall>k undo. tbl_get (undo_rows db) k = Some undo \<longrightarrow> journal_typed ops undo)"

definition node_inv :: "node_ops \<Rightarrow> NodeDb \<Rightarrow> bool" where
  "node_inv ops db \<longleftrightarrow> indexes_ok ops db \<and> journals_typed ops db"

lemma indexes_ok_frame [simp]:
  "indexes_ok ops (db\<lparr>meta_schema := a\<rparr>) = indexes_ok ops db"
  "indexes_ok ops (db\<lparr>meta_epoch := b\<rparr>) = indexes_ok ops db"
  "indexes_ok ops (db\<lparr>meta_sequence := c\<rparr>) = indexes_ok ops db"
  "indexes_ok ops (db\<lparr>meta_status := d\<rparr>) = indexes_ok ops db"
  "indexes_ok ops (db\<lparr>meta_identity := e\<rparr>) = indexes_ok ops db"
  "indexes_ok ops (db\<lparr>meta_activation := f\<rparr>) = indexes_ok ops db"
  "indexes_ok ops (db\<lparr>tip_row := g\<rparr>) = indexes_ok ops db"
  "indexes_ok ops (db\<lparr>block_rows := h\<rparr>) = indexes_ok ops db"
  "indexes_ok ops (db\<lparr>transaction_rows := i\<rparr>) = indexes_ok ops db"
  "indexes_ok ops (db\<lparr>output_rows := j\<rparr>) = indexes_ok ops db"
  "indexes_ok ops (db\<lparr>retained_rows := k\<rparr>) = indexes_ok ops db"
  "indexes_ok ops (db\<lparr>hint_rows := l\<rparr>) = indexes_ok ops db"
  "indexes_ok ops (db\<lparr>history_rows := m\<rparr>) = indexes_ok ops db"
  "indexes_ok ops (db\<lparr>progress_rows := n\<rparr>) = indexes_ok ops db"
  "indexes_ok ops (db\<lparr>undo_rows := p\<rparr>) = indexes_ok ops db"
  "indexes_ok ops (db\<lparr>event_rows := q\<rparr>) = indexes_ok ops db"
  by (simp_all add: indexes_ok_def)

lemma append_event_shape:
  assumes "append_event ev db = Ok (db', cursor)"
  obtains s es where "db' = db\<lparr>event_rows := es, meta_sequence := s\<rparr>"
proof -
  obtain s es where "db' = db\<lparr>event_rows := es, meta_sequence := s\<rparr>"
    using assms unfolding append_event_def Let_def result_simps by blast
  then show thesis by (rule that)
qed

lemma push_event_shape:
  assumes "push_event ev db = Ok db'"
  obtains s es where "db' = db\<lparr>event_rows := es, meta_sequence := s\<rparr>"
proof -
  obtain cursor where "append_event ev db = Ok (db', cursor)"
    using assms by (auto simp: push_event_def result_simps)
  then show thesis by (rule append_event_shape) (rule that)
qed

lemma push_event_frame [node_frame]:
  assumes "push_event ev db = Ok db'"
  shows "indexes_ok ops db' = indexes_ok ops db" "undo_rows db' = undo_rows db" "contract_rows db' = contract_rows db"
    "tip_row db' = tip_row db" "block_rows db' = block_rows db" "transaction_rows db' = transaction_rows db"
    "output_rows db' = output_rows db" "history_rows db' = history_rows db" "hint_rows db' = hint_rows db"
    "progress_rows db' = progress_rows db" "retained_rows db' = retained_rows db" "meta_activation db' = meta_activation db"
    "meta_status db' = meta_status db" "meta_identity db' = meta_identity db" "contract_tables db' = contract_tables db"
  by (rule push_event_shape [OF assms], simp add: contract_tables_def)+

lemma install_frame [simp]:
  "undo_rows (install ops r db) = undo_rows db" "tip_row (install ops r db) = tip_row db"
  "block_rows (install ops r db) = block_rows db" "transaction_rows (install ops r db) = transaction_rows db"
  "output_rows (install ops r db) = output_rows db" "history_rows (install ops r db) = history_rows db"
  "hint_rows (install ops r db) = hint_rows db" "progress_rows (install ops r db) = progress_rows db"
  "retained_rows (install ops r db) = retained_rows db" "event_rows (install ops r db) = event_rows db"
  "meta_activation (install ops r db) = meta_activation db" "meta_status (install ops r db) = meta_status db"
  "meta_epoch (install ops r db) = meta_epoch db" "meta_sequence (install ops r db) = meta_sequence db"
  "meta_identity (install ops r db) = meta_identity db"
  "contract_rows (install ops r db) = tbl_insert (contract_fixed_key (contract_id r)) r (contract_rows db)"
  by (simp_all add: install_def)

lemma remove_contract_frame [simp]:
  "undo_rows (remove_contract ops r db) = undo_rows db" "tip_row (remove_contract ops r db) = tip_row db"
  "block_rows (remove_contract ops r db) = block_rows db" "transaction_rows (remove_contract ops r db) = transaction_rows db"
  "output_rows (remove_contract ops r db) = output_rows db" "history_rows (remove_contract ops r db) = history_rows db"
  "hint_rows (remove_contract ops r db) = hint_rows db" "progress_rows (remove_contract ops r db) = progress_rows db"
  "retained_rows (remove_contract ops r db) = retained_rows db" "event_rows (remove_contract ops r db) = event_rows db"
  "meta_activation (remove_contract ops r db) = meta_activation db" "meta_status (remove_contract ops r db) = meta_status db"
  "meta_epoch (remove_contract ops r db) = meta_epoch db" "meta_sequence (remove_contract ops r db) = meta_sequence db"
  "meta_identity (remove_contract ops r db) = meta_identity db"
  "contract_rows (remove_contract ops r db) = tbl_remove (contract_fixed_key (contract_id r)) (contract_rows db)"
  by (simp_all add: remove_contract_eq)

lemma read_sound:
  assumes "indexes_ok ops db" "read_contract db c = Some r"
  shows "typed_record ops r \<and> contract_id r = c \<and> record_validate ops r = Ok ()"
proof -
  have "contract_fixed_key c = contract_fixed_key (contract_id r) \<and> sound_record ops r"
    using indexes_okD(2) [OF assms(1)] assms(2) unfolding keyed_rows_def read_contract_def by blast
  then show ?thesis by (auto simp: sound_record_def)
qed

lemma typed_record_same: "scripts r' = scripts r \<Longrightarrow> assets r' = assets r \<Longrightarrow> typed_record ops r' = typed_record ops r"
  by (simp add: typed_record_def)

text \<open>Replacing a record by one with the same scripts and assets.\<close>

lemma swap_indexes:
  assumes "indexes_ok ops db" "read_contract db c = Some before"
    and "insert_contract ops after (remove_contract ops before db) = Ok db'"
    and "scripts after = scripts before" "assets after = assets before"
  shows "indexes_ok ops db'"
proof (rule insert_indexes [OF remove_indexes [OF assms(1,2)] _ assms(3)])
  show "typed_record ops after"
    using read_sound [OF assms(1,2)] typed_record_same [OF assms(4,5)] by simp
qed

lemma insert_undo: "insert_contract ops r db = Ok db' \<Longrightarrow> undo_rows db' = undo_rows db"
  by (simp add: insert_contract_Ok)


section \<open>Applying a block\<close>

definition typed_block :: "node_ops \<Rightarrow> BlockDelta \<Rightarrow> bool" where
  "typed_block ops delta \<longleftrightarrow> (\<forall>t \<in> set (relevant_transactions delta). \<forall>r \<in> set (created_contracts t). typed_record ops r)"

text \<open>The state of a block application: exact indexes and a well-formed journal so far.\<close>

definition applying :: "node_ops \<Rightarrow> (bytes, UndoBlock) table \<Rightarrow> NodeDb \<times> UndoBlock \<Rightarrow> bool" where
  "applying ops undos s \<longleftrightarrow> indexes_ok ops (fst s) \<and> journal_typed ops (snd s) \<and> undo_rows (fst s) = undos"

lemma journal_typed_log:
  "journal_typed ops (log_contract c undo) \<longleftrightarrow>
     journal_typed ops undo \<and> (\<forall>r. contract_before c = Some r \<longrightarrow> typed_record ops r \<and> contract_id r = undo_contract c)"
  by (auto simp: journal_typed_def)

lemma journal_typed_frame [simp]:
  "journal_typed ops (undo\<lparr>transaction_positions := a\<rparr>) = journal_typed ops undo"
  "journal_typed ops (undo\<lparr>output_outpoints := b\<rparr>) = journal_typed ops undo"
  "journal_typed ops (undo\<lparr>history_keys := c\<rparr>) = journal_typed ops undo"
  "journal_typed ops (undo\<lparr>recovery_locations := d\<rparr>) = journal_typed ops undo"
  "journal_typed ops (undo\<lparr>backfill_progress_changes := e\<rparr>) = journal_typed ops undo"
  by (simp_all add: journal_typed_def)

lemma create_applying:
  assumes "applying ops undos s" "typed_record ops r" "create_contract ops delta n r s = Ok s'"
  shows "applying ops undos s'"
proof -
  obtain db undo db' where s: "s = (db, undo)" "insert_contract ops r db = Ok db'"
    and s': "s' = (db', log_contract \<lparr>undo_contract = contract_id r, contract_before = None\<rparr> undo)"
    using assms(3) by (cases s) (auto simp: create_contract_def result_simps)
  have "indexes_ok ops db'" using insert_indexes [OF _ assms(2) s(2)] assms(1) s(1) by (simp add: applying_def)
  then show ?thesis
    using assms(1) s(1) insert_undo [OF s(2)] by (simp add: applying_def s' journal_typed_log)
qed

lemma replace_state_Ok:
  assumes "replace_state ops before u db = Ok db'"
  shows "insert_contract ops (before\<lparr>contract_state := new_contract_state u, outpoints := new_outpoints u\<rparr>)
    (remove_contract ops before db) = Ok db'"
  using assms by (simp add: replace_state_def result_simps Let_def)

lemma insert_history_Ok:
  assumes "insert_history delta u db = Ok db'"
  shows "db' = db\<lparr>history_rows := tbl_insert (history_key (updated_contract u) (delta_position delta)) (history_entry delta u) (history_rows db)\<rparr>"
    "tbl_get (history_rows db) (history_key (updated_contract u) (delta_position delta)) = None"
  using assms by (auto simp: insert_history_def result_simps Let_def)

lemma update_applying:
  assumes "applying ops undos s" "update_contract ops delta n u s = Ok s'"
  shows "applying ops undos s'"
proof -
  obtain db undo before db1 db2 where s: "s = (db, undo)" and before: "read_contract db (updated_contract u) = Some before"
    and rep: "replace_state ops before u db = Ok db1" and hist: "insert_history delta u db1 = Ok db2"
    and s': "s' = (db2, (log_contract \<lparr>undo_contract = updated_contract u, contract_before = Some before\<rparr> undo)
        \<lparr>history_keys := history_keys undo @ [(updated_contract u, delta_position delta)]\<rparr>)"
    using assms(2) by (cases s) (auto simp: update_contract_def result_simps Let_def)
  have db: "indexes_ok ops db" "journal_typed ops undo" "undo_rows db = undos" using assms(1) s by (simp_all add: applying_def)
  have "indexes_ok ops db1" by (rule swap_indexes [OF db(1) before replace_state_Ok [OF rep]]) simp_all
  moreover have "undo_rows db1 = undos" using insert_undo [OF replace_state_Ok [OF rep]] db(3) by simp
  ultimately show ?thesis
    using db(2) read_sound [OF db(1) before] insert_history_Ok(1) [OF hist]
    by (simp add: applying_def s' journal_typed_log)
qed

lemma insert_refs_frame [simp]:
  "indexes_ok ops (fold (insert_output_ref p) refs db) = indexes_ok ops db"
  "undo_rows (fold (insert_output_ref p) refs db) = undo_rows db"
  by (induction refs arbitrary: db) (simp_all add: insert_output_ref_def)

lemma apply_transaction_Ok:
  assumes "apply_chain_transaction ops anchor delta s = Ok s'"
  obtains n s1 db undo refs db3 where
    "validate_tracked_inputs delta (fst s) = Ok ()"
    "rfold (create_contract ops delta n) (created_contracts delta) s = Ok s1"
    "rfold (update_contract ops delta n) (state_updates delta) s1 = Ok (db, undo)"
    "output_refs delta = Ok refs"
    "push_event (TransactionApplied anchor (delta_txid delta) (delta_position delta)
       (sort_dedup_contracts (map contract_id (created_contracts delta) @ map updated_contract (state_updates delta))))
       (fold (insert_output_ref (delta_position delta)) refs (insert_transaction_row (delta_position delta)
         (delta_transaction ops delta (sort_dedup_contracts (map contract_id (created_contracts delta) @
           map updated_contract (state_updates delta)))) db)) = Ok db3"
    "s' = (db3, undo\<lparr>transaction_positions := transaction_positions undo @ [delta_position delta],
       output_outpoints := output_outpoints undo @ refs\<rparr>)"
  using assms that by (auto simp: apply_chain_transaction_def result_simps Let_def)

lemma transaction_applying:
  assumes start: "applying ops undos s" and typed: "\<forall>r \<in> set (created_contracts delta). typed_record ops r"
    and run: "apply_chain_transaction ops anchor delta s = Ok s'"
  shows "applying ops undos s'"
proof (rule apply_transaction_Ok [OF run])
  fix n s1 db undo refs db3
  assume create: "rfold (create_contract ops delta n) (created_contracts delta) s = Ok s1"
    and update: "rfold (update_contract ops delta n) (state_updates delta) s1 = Ok (db, undo)"
    and event: "push_event (TransactionApplied anchor (delta_txid delta) (delta_position delta)
       (sort_dedup_contracts (map contract_id (created_contracts delta) @ map updated_contract (state_updates delta))))
       (fold (insert_output_ref (delta_position delta)) refs (insert_transaction_row (delta_position delta)
         (delta_transaction ops delta (sort_dedup_contracts (map contract_id (created_contracts delta) @
           map updated_contract (state_updates delta)))) db)) = Ok db3"
    and s': "s' = (db3, undo\<lparr>transaction_positions := transaction_positions undo @ [delta_position delta],
       output_outpoints := output_outpoints undo @ refs\<rparr>)"
  have "applying ops undos s1"
    by (rule rfold_invariant [where P = "applying ops undos", OF create start]) (use typed create_applying in blast)
  then have "applying ops undos (db, undo)"
    by (rule rfold_invariant [where P = "applying ops undos", OF update]) (rule update_applying)
  then show ?thesis
    using push_event_frame(1,2) [OF event] by (simp add: applying_def s' insert_transaction_row_def)
qed

lemma hint_applying:
  assumes "applying ops undos s" "apply_hint h s = Ok s'"
  shows "applying ops undos s'"
  using assms by (cases s) (auto simp: apply_hint_def insert_recovery_hint_def applying_def result_simps)

lemma advance_catching_Ok:
  assumes "advance_catching ops delta digest next progress (db, undo) = Ok s'"
  obtains (ready) before where "read_contract db (progress_contract progress) = Some before"
      "\<not> is_catching_up (sync_state before)" "s' = (db, undo)"
  | (advanced) before db1 count db3 db4 where "read_contract db (progress_contract progress) = Some before"
      "is_catching_up (sync_state before)"
      "insert_contract ops (before\<lparr>sync_state := Ready (delta_anchor delta)\<rparr>) (remove_contract ops before db) = Ok db1"
      "push_event (BackfillApplied (progress_contract progress) (delta_anchor delta) count)
        (db1\<lparr>progress_rows := tbl_insert (contract_fixed_key (progress_contract progress))
          (progress\<lparr>pinned_tip := delta_anchor delta, next_position := \<lparr>block_height = next, tx_index = 0\<rparr>,
            last_applied := Some (delta_anchor delta, digest)\<rparr>) (progress_rows db1)\<rparr>) = Ok db3"
      "push_event (ContractReady (progress_contract progress) (delta_anchor delta)) db3 = Ok db4"
      "s' = (db4, (if filter (\<lambda>u. updated_contract u = progress_contract progress)
            (concat (map state_updates (relevant_transactions delta))) = []
          then log_contract \<lparr>undo_contract = progress_contract progress, contract_before = Some before\<rparr> undo else undo)
        \<lparr>backfill_progress_changes := backfill_progress_changes undo @
          [\<lparr>undo_progress_contract = progress_contract progress, progress_before = Some progress\<rparr>]\<rparr>)"
proof -
  obtain before where before: "read_contract db (progress_contract progress) = Some before"
    using assms by (auto simp: advance_catching_def result_simps Let_def)
  show thesis
  proof (cases "is_catching_up (sync_state before)")
    case False
    then show thesis using assms before ready by (simp add: advance_catching_def Let_def)
  next
    case True
    then show thesis
      using assms before advanced by (auto simp: advance_catching_def Let_def result_simps)
  qed
qed

lemma advance_applying:
  assumes "applying ops undos s" "advance_catching ops delta digest next progress s = Ok s'"
  shows "applying ops undos s'"
proof (cases s)
  case (Pair db undo)
  have db: "indexes_ok ops db" "journal_typed ops undo" "undo_rows db = undos" using assms(1) Pair by (simp_all add: applying_def)
  show ?thesis
  proof (rule advance_catching_Ok [OF assms(2) [unfolded Pair]])
    assume "s' = (db, undo)"
    then show ?thesis using assms(1) Pair by simp
  next
    fix before db1 count db3 db4
    assume before: "read_contract db (progress_contract progress) = Some before"
      and ins: "insert_contract ops (before\<lparr>sync_state := Ready (delta_anchor delta)\<rparr>) (remove_contract ops before db) = Ok db1"
      and ev: "push_event (BackfillApplied (progress_contract progress) (delta_anchor delta) count)
        (db1\<lparr>progress_rows := tbl_insert (contract_fixed_key (progress_contract progress))
          (progress\<lparr>pinned_tip := delta_anchor delta, next_position := \<lparr>block_height = next, tx_index = 0\<rparr>,
            last_applied := Some (delta_anchor delta, digest)\<rparr>) (progress_rows db1)\<rparr>) = Ok db3"
        "push_event (ContractReady (progress_contract progress) (delta_anchor delta)) db3 = Ok db4"
      and s': "s' = (db4, (if filter (\<lambda>u. updated_contract u = progress_contract progress)
            (concat (map state_updates (relevant_transactions delta))) = []
          then log_contract \<lparr>undo_contract = progress_contract progress, contract_before = Some before\<rparr> undo else undo)
        \<lparr>backfill_progress_changes := backfill_progress_changes undo @
          [\<lparr>undo_progress_contract = progress_contract progress, progress_before = Some progress\<rparr>]\<rparr>)"
    have "indexes_ok ops db1" by (rule swap_indexes [OF db(1) before ins]) simp_all
    moreover have "undo_rows db1 = undos" using insert_undo [OF ins] db(3) by simp
    ultimately show ?thesis
      using db(2) read_sound [OF db(1) before] push_event_frame(1,2) [OF ev(1)] push_event_frame(1,2) [OF ev(2)]
      by (simp add: applying_def s' journal_typed_log)
  qed
qed

lemma body_applying:
  assumes start: "indexes_ok ops db" and typed: "typed_block ops delta"
    and run: "apply_block_body ops delta digest tip db = Ok s'"
  shows "applying ops (undo_rows db) s'"
proof -
  let ?P = "applying ops (undo_rows db)"
  from run obtain s1 s2 where
    txs: "rfold (apply_chain_transaction ops (delta_anchor delta))
       (sort_key (\<lambda>t. tx_index (delta_position t)) (relevant_transactions delta)) (db, empty_undo tip) = Ok s1"
    and hints: "rfold apply_hint (recovery_hints delta) s1 = Ok s2"
    and advance: "advance_catching_through_canonical_block ops delta digest s2 = Ok s'"
    by (auto simp: apply_block_body_def result_simps)
  have "?P (db, empty_undo tip)" using start by (simp add: applying_def journal_typed_def empty_undo_def)
  then have "?P s1"
    by (rule rfold_invariant [where P = ?P, OF txs]) (use typed transaction_applying in \<open>auto simp: typed_block_def\<close>)
  then have s2: "?P s2" by (rule rfold_invariant [where P = ?P, OF hints]) (rule hint_applying)
  have "?P s'" if rows: "rfold (advance_catching ops delta digest n) rows s2 = Ok s'" for n rows
    using s2 by (rule rfold_invariant [where P = ?P, OF rows]) (rule advance_applying)
  then show ?thesis
    using advance s2 by (simp add: advance_catching_through_canonical_block_def Let_def result_simps split: if_splits) blast
qed

lemma prune_undo_Ok:
  assumes "prune_undo h db = Ok db'"
  shows "db' = db\<lparr>undo_rows := fold tbl_remove
    (filter (\<lambda>k. u32_from_be k < saturating_sub_u32 h (UNDO_RETENTION_BLOCKS - 1)) (tbl_keys (undo_rows db))) (undo_rows db)\<rparr>"
  using assms by (simp add: prune_undo_def result_simps Let_def)

lemma prune_get:
  "tbl_get (fold tbl_remove ks t) k = (if k \<in> set ks then None else tbl_get t k)"
  by (induction ks arbitrary: t) auto

lemma apply_block_Ok:
  assumes "apply_block ops delta db = Ok (db', res)"
  obtains (again) existing where "tbl_get (block_rows db) (height_key (height (delta_anchor delta))) = Some existing" "db' = db"
      "stored_anchor existing = delta_anchor delta" "stored_prev_hash existing = delta_prev_hash delta" "\<not> block_applied res"
  | (applied) digest tip db1 undo where "delta_digest ops delta = Ok digest" "meta_status db \<noteq> Some RescanRequired"
      "tbl_get (block_rows db) (height_key (height (delta_anchor delta))) = None"
      "tip_row db = Some tip" "checked_add (height tip) 1 = Some (height (delta_anchor delta))" "delta_prev_hash delta = hash tip"
      "apply_block_body ops delta digest tip db = Ok (db1, undo)"
      "prune_undo (height (delta_anchor delta)) (db1\<lparr>
         block_rows := tbl_insert (height_key (height (delta_anchor delta))) (stored_block_of delta digest) (block_rows db1),
         undo_rows := tbl_insert (height_key (height (delta_anchor delta))) undo (undo_rows db1),
         tip_row := Some (delta_anchor delta)\<rparr>) = Ok db'" "block_applied res" "validate_block_shape ops delta = Ok ()"
proof (cases "tbl_get (block_rows db) (height_key (height (delta_anchor delta)))")
  case None
  then show thesis using assms applied by (auto simp: apply_block_def result_simps Let_def)
next
  case (Some existing)
  then show thesis using assms again by (auto simp: apply_block_def result_simps Let_def split: if_splits)
qed

lemma apply_block_inv:
  assumes inv: "node_inv ops db" and typed: "typed_block ops delta" and run: "apply_block ops delta db = Ok (db', res)"
  shows "node_inv ops db'"
proof (rule apply_block_Ok [OF run])
  assume "db' = db"
  then show ?thesis using inv by simp
next
  fix digest tip db1 undo
  assume body: "apply_block_body ops delta digest tip db = Ok (db1, undo)"
    and prune: "prune_undo (height (delta_anchor delta)) (db1\<lparr>
         block_rows := tbl_insert (height_key (height (delta_anchor delta))) (stored_block_of delta digest) (block_rows db1),
         undo_rows := tbl_insert (height_key (height (delta_anchor delta))) undo (undo_rows db1),
         tip_row := Some (delta_anchor delta)\<rparr>) = Ok db'"
  have "applying ops (undo_rows db) (db1, undo)"
    using body_applying [OF _ typed body] inv by (simp add: node_inv_def)
  then show ?thesis
    using inv unfolding prune_undo_Ok [OF prune]
    by (auto simp: node_inv_def applying_def journals_typed_def prune_get split: if_splits)
qed

end
