(* ===== verification/Node_Inv_Ops.thy ===== *)
theory Node_Inv_Ops
  imports Node_Inv
begin

text \<open>
  Rollback, late registration, backfill and the status operations keep the indexes exact and the
  journals well formed.
\<close>

section \<open>Rollback\<close>

text \<open>Everything outside the five contract tables.\<close>

definition other_tables :: "NodeDb \<Rightarrow> NodeDb" where
  "other_tables db = db\<lparr>contract_rows := [], owner_rows := [], outpoint_rows := [], script_rows := [], asset_rows := []\<rparr>"

lemma other_tables_contracts [simp]:
  "other_tables (remove_contract ops r db) = other_tables db" "other_tables (install ops r db) = other_tables db"
  by (simp_all add: other_tables_def remove_contract_eq install_def)

lemma other_tables_frame:
  assumes "other_tables db' = other_tables db"
  shows "undo_rows db' = undo_rows db" "transaction_rows db' = transaction_rows db" "output_rows db' = output_rows db"
    "history_rows db' = history_rows db" "hint_rows db' = hint_rows db" "progress_rows db' = progress_rows db"
    "block_rows db' = block_rows db" "tip_row db' = tip_row db" "retained_rows db' = retained_rows db"
    "event_rows db' = event_rows db" "meta_epoch db' = meta_epoch db" "meta_sequence db' = meta_sequence db"
    "meta_status db' = meta_status db" "meta_activation db' = meta_activation db" "meta_identity db' = meta_identity db"
    "meta_schema db' = meta_schema db"
  using arg_cong [OF assms, of undo_rows] arg_cong [OF assms, of transaction_rows] arg_cong [OF assms, of output_rows]
    arg_cong [OF assms, of history_rows] arg_cong [OF assms, of hint_rows] arg_cong [OF assms, of progress_rows]
    arg_cong [OF assms, of block_rows] arg_cong [OF assms, of tip_row] arg_cong [OF assms, of retained_rows]
    arg_cong [OF assms, of event_rows] arg_cong [OF assms, of meta_epoch] arg_cong [OF assms, of meta_sequence]
    arg_cong [OF assms, of meta_status] arg_cong [OF assms, of meta_activation] arg_cong [OF assms, of meta_identity]
    arg_cong [OF assms, of meta_schema]
  by (simp_all add: other_tables_def)

lemma revert_contract_Ok:
  assumes "revert_contract ops change (db, affected) = Ok (db', affected')"
  obtains db1 where
    "db1 = (case read_contract db (undo_contract change) of Some r \<Rightarrow> remove_contract ops r db | None \<Rightarrow> db)"
    "case contract_before change of Some before \<Rightarrow> insert_contract ops before db1 = Ok db' | None \<Rightarrow> db' = db1"
  using assms
  by (cases "read_contract db (undo_contract change)"; cases "contract_before change")
    (auto simp: revert_contract_def result_simps Let_def)

lemma revert_contract_inv:
  assumes ok: "indexes_ok ops db" and typed: "\<forall>r. contract_before change = Some r \<longrightarrow> typed_record ops r"
    and run: "revert_contract ops change (db, affected) = Ok (db', affected')"
  shows "indexes_ok ops db'" "other_tables db' = other_tables db"
proof -
  obtain db1 where db1: "db1 = (case read_contract db (undo_contract change) of Some r \<Rightarrow> remove_contract ops r db | None \<Rightarrow> db)"
    and ins: "case contract_before change of Some before \<Rightarrow> insert_contract ops before db1 = Ok db' | None \<Rightarrow> db' = db1"
    by (rule revert_contract_Ok [OF run])
  have removed: "indexes_ok ops db1" "other_tables db1 = other_tables db"
    using ok remove_indexes [OF ok] by (auto simp: db1 split: option.split)
  show "indexes_ok ops db'"
    using ins removed(1) insert_indexes [OF removed(1)] typed by (cases "contract_before change") auto
  show "other_tables db' = other_tables db"
    using ins removed(2) by (cases "contract_before change") (auto simp: insert_contract_Ok)
qed

lemma revert_contracts_inv:
  assumes "indexes_ok ops db" "\<forall>c \<in> set cs. \<forall>r. contract_before c = Some r \<longrightarrow> typed_record ops r"
    and "rfold (revert_contract ops) cs (db, affected) = Ok (db', affected')"
  shows "indexes_ok ops db' \<and> other_tables db' = other_tables db"
proof -
  have "indexes_ok ops (fst (db', affected')) \<and> other_tables (fst (db', affected')) = other_tables db"
  proof (rule rfold_invariant [where P = "\<lambda>s. indexes_ok ops (fst s) \<and> other_tables (fst s) = other_tables db", OF assms(3)])
    fix c s s' assume c: "c \<in> set cs" "indexes_ok ops (fst s) \<and> other_tables (fst s) = other_tables db" "revert_contract ops c s = Ok s'"
    then have "indexes_ok ops (fst s')" "other_tables (fst s') = other_tables (fst s)"
      using revert_contract_inv [of ops "fst s" c "snd s" "fst s'" "snd s'"] assms(2) by simp_all
    then show "indexes_ok ops (fst s') \<and> other_tables (fst s') = other_tables db" using c(2) by simp
  qed (use assms(1) in simp)
  then show ?thesis by simp
qed

lemma revert_block_Ok:
  assumes "revert_block ops h s = Ok s'"
  obtains undo db1 affected where "tbl_get (undo_rows (rb_db s)) (height_key h) = Some undo"
    "rfold (revert_contract ops) (rev (contract_changes undo)) (rb_db s, rb_affected s) = Ok (db1, affected)"
    "s' = \<lparr>rb_db = revert_rows undo h db1, rb_tip = previous_tip undo,
       rb_positions = rb_positions s @ transaction_positions undo, rb_affected = affected\<rparr>"
  using assms that by (auto simp: revert_block_def result_simps)

lemma revert_block_inv:
  assumes inv: "node_inv ops (rb_db s)" and run: "revert_block ops h s = Ok s'"
  shows "node_inv ops (rb_db s')"
proof (rule revert_block_Ok [OF run])
  fix undo db1 affected
  assume undo: "tbl_get (undo_rows (rb_db s)) (height_key h) = Some undo"
    and fold: "rfold (revert_contract ops) (rev (contract_changes undo)) (rb_db s, rb_affected s) = Ok (db1, affected)"
    and s': "s' = \<lparr>rb_db = revert_rows undo h db1, rb_tip = previous_tip undo,
       rb_positions = rb_positions s @ transaction_positions undo, rb_affected = affected\<rparr>"
  have "\<forall>c \<in> set (rev (contract_changes undo)). \<forall>r. contract_before c = Some r \<longrightarrow> typed_record ops r"
    using inv undo by (auto simp: node_inv_def journals_typed_def journal_typed_def)
  then have db1: "indexes_ok ops db1" "other_tables db1 = other_tables (rb_db s)"
    using revert_contracts_inv [OF _ _ fold] inv by (simp_all add: node_inv_def)
  have "undo_rows db1 = undo_rows (rb_db s)" by (rule other_tables_frame(1) [OF db1(2)])
  then show ?thesis
    using inv db1(1) by (auto simp: node_inv_def s' revert_rows_def journals_typed_def split: if_splits)
qed

lemma append_event_inv:
  assumes "append_event ev db = Ok (db', cursor)"
  shows "node_inv ops db' = node_inv ops db"
  by (rule append_event_shape [OF assms]) (simp add: node_inv_def journals_typed_def)

lemma push_event_inv:
  assumes "push_event ev db = Ok db'"
  shows "node_inv ops db' = node_inv ops db"
  by (rule push_event_shape [OF assms]) (simp add: node_inv_def journals_typed_def)

lemma node_inv_frame [simp]:
  "node_inv ops (db\<lparr>meta_schema := a\<rparr>) = node_inv ops db" "node_inv ops (db\<lparr>meta_epoch := b\<rparr>) = node_inv ops db"
  "node_inv ops (db\<lparr>meta_sequence := c\<rparr>) = node_inv ops db" "node_inv ops (db\<lparr>meta_status := d\<rparr>) = node_inv ops db"
  "node_inv ops (db\<lparr>meta_identity := e\<rparr>) = node_inv ops db" "node_inv ops (db\<lparr>meta_activation := f\<rparr>) = node_inv ops db"
  "node_inv ops (db\<lparr>tip_row := g\<rparr>) = node_inv ops db" "node_inv ops (db\<lparr>transaction_rows := i\<rparr>) = node_inv ops db"
  "node_inv ops (db\<lparr>output_rows := j\<rparr>) = node_inv ops db" "node_inv ops (db\<lparr>retained_rows := k\<rparr>) = node_inv ops db"
  "node_inv ops (db\<lparr>hint_rows := l\<rparr>) = node_inv ops db" "node_inv ops (db\<lparr>progress_rows := n\<rparr>) = node_inv ops db"
  by (simp_all add: node_inv_def journals_typed_def)

lemma mark_rebuild_inv:
  assumes "mark_rebuild_required e db = Ok (db', e')"
  shows "node_inv ops db' = node_inv ops db"
proof (cases "meta_status db = Some RescanRequired")
  case False
  then show ?thesis using assms push_event_inv by (fastforce simp: mark_rebuild_required_def result_simps)
qed (use assms in \<open>auto simp: mark_rebuild_required_def result_simps\<close>)

lemma rollback_Ok:
  assumes "rollback_to ops e ancestor db = Ok (db', res)"
  obtains (noop) tip where "tip_row db = Some tip" "ancestor = tip" "db' = db" "res = Noop tip"
  | (rebuild) tip e' where "tip_row db = Some tip" "mark_rebuild_required e db = Ok (db', e')"
      "res = RollbackRebuildRequired tip ancestor e'"
  | (rolled) tip s high where "tip_row db = Some tip" "height ancestor < height tip" "meta_status db \<noteq> Some RescanRequired"
      "rfold (revert_block ops) (undo_heights (unat (height tip - height ancestor)) (height tip))
         \<lparr>rb_db = db, rb_tip = tip, rb_positions = [], rb_affected = []\<rparr> = Ok s" "rb_tip s = ancestor"
      "append_event (ChainRolledBack tip ancestor (sort_key position_fixed_key (rb_positions s)) (sort_dedup_contracts (rb_affected s)))
         ((rb_db s)\<lparr>tip_row := Some ancestor, meta_status := Some Syncing\<rparr>) = Ok (db', high)"
      "res = RolledBack tip ancestor (sort_key position_fixed_key (rb_positions s)) high"
proof -
  from assms obtain tip where tip: "tip_row db = Some tip" and status: "meta_status db \<noteq> Some RescanRequired"
    and run: "(if ancestor = tip then Ok (db, Noop tip)
     else if height ancestor \<ge> height tip then Err (InvalidRollbackTarget tip ancestor)
     else if height tip - height ancestor > UNDO_RETENTION_BLOCKS \<or> \<not> undo_range_available db (height tip) (height ancestor)
     then rbind (mark_rebuild_required e db) (\<lambda>(db', e). Ok (db', RollbackRebuildRequired tip ancestor e))
     else
       rbind (rfold (revert_block ops) (undo_heights (unat (height tip - height ancestor)) (height tip))
         \<lparr>rb_db = db, rb_tip = tip, rb_positions = [], rb_affected = []\<rparr>) (\<lambda>s.
       rbind (ensure (rb_tip s = ancestor) (AncestorMismatch ancestor (rb_tip s))) (\<lambda>_.
       let affected = sort_dedup_contracts (rb_affected s);
           orphaned = sort_key position_fixed_key (rb_positions s) in
       rbind (append_event (ChainRolledBack tip ancestor orphaned affected)
         ((rb_db s)\<lparr>tip_row := Some ancestor, meta_status := Some Syncing\<rparr>)) (\<lambda>(db', high).
       Ok (db', RolledBack tip ancestor orphaned high))))) = Ok (db', res)"
    unfolding rollback_to_def result_simps by blast
  show thesis
    using run tip status noop rebuild rolled by (auto simp: result_simps Let_def not_le split: if_splits)
qed

lemma rollback_inv:
  assumes inv: "node_inv ops db" and run: "rollback_to ops e ancestor db = Ok (db', res)"
  shows "node_inv ops db'"
proof (rule rollback_Ok [OF run])
  fix tip s high
  assume fold: "rfold (revert_block ops) (undo_heights (unat (height tip - height ancestor)) (height tip))
         \<lparr>rb_db = db, rb_tip = tip, rb_positions = [], rb_affected = []\<rparr> = Ok s"
    and ev: "append_event (ChainRolledBack tip ancestor (sort_key position_fixed_key (rb_positions s)) (sort_dedup_contracts (rb_affected s)))
         ((rb_db s)\<lparr>tip_row := Some ancestor, meta_status := Some Syncing\<rparr>) = Ok (db', high)"
  have "node_inv ops (rb_db s)"
    by (rule rfold_invariant [where P = "\<lambda>s. node_inv ops (rb_db s)", OF fold]) (use inv revert_block_inv in auto)
  then show ?thesis using append_event_inv [OF ev] by simp
qed (use inv mark_rebuild_inv in auto)



section \<open>Late registration\<close>

definition typed_registrations :: "node_ops \<Rightarrow> (ContractRecord \<times> RegistrationEvidence) list \<Rightarrow> bool" where
  "typed_registrations ops registrations \<longleftrightarrow> (\<forall>e \<in> set registrations. typed_record ops (fst e))"

lemma amend_undo_inv:
  assumes "node_inv ops db" "\<And>undo. journal_typed ops undo \<Longrightarrow> journal_typed ops (f undo)"
  shows "node_inv ops (amend_undo h f db)"
  using assms by (auto simp: amend_undo_def node_inv_def journals_typed_def split: option.split)

lemma insert_contract_inv:
  assumes "node_inv ops db" "typed_record ops r" "insert_contract ops r db = Ok db'"
  shows "node_inv ops db'"
  using assms insert_indexes insert_undo [OF assms(3)] by (auto simp: node_inv_def journals_typed_def)

lemma insert_registration_inv:
  assumes inv: "node_inv ops db" and typed: "typed_record ops (fst registration)"
    and run: "insert_registration ops pre registration db = Ok db'"
  shows "node_inv ops db'"
proof (cases "map_of (reg_progress pre) (contract_id (fst registration))")
  case None
  then show ?thesis using inv run by (simp add: insert_registration_def)
next
  case (Some progress)
  let ?r = "fst registration"
  let ?log = "\<lambda>undo. (log_contract \<lparr>undo_contract = contract_id ?r, contract_before = None\<rparr> undo)
      \<lparr>backfill_progress_changes := backfill_progress_changes undo @
        [\<lparr>undo_progress_contract = contract_id ?r, progress_before = None\<rparr>]\<rparr>"
  from run Some obtain db1 where ins: "insert_contract ops ?r db = Ok db1"
    and ev: "push_event (ContractRegistered (contract_id ?r)) (amend_undo (block_height (creation_position ?r)) ?log
      (db1\<lparr>progress_rows := tbl_insert (contract_fixed_key (contract_id ?r)) progress (progress_rows db1)\<rparr>)) = Ok db'"
    by (auto simp: insert_registration_def result_simps Let_def)
  have "journal_typed ops (?log undo)" if "journal_typed ops undo" for undo
    using that by (simp add: journal_typed_log)
  then show ?thesis
    unfolding push_event_inv [OF ev]
    by (intro amend_undo_inv) (use insert_contract_inv [OF inv typed ins] in simp_all)
qed

lemma insert_output_ref_inv [simp]: "node_inv ops (insert_output_ref p q db) = node_inv ops db"
  by (simp add: insert_output_ref_def)

lemma insert_transaction_row_inv [simp]: "node_inv ops (insert_transaction_row p q db) = node_inv ops db"
  by (simp add: insert_transaction_row_def)

lemma merge_group_inv:
  assumes inv: "node_inv ops db" and run: "merge_registration_transaction_group g db = Ok (db', created)"
  shows "node_inv ops db'"
proof (cases "tbl_get (transaction_rows db) (position_fixed_key (group_position g))")
  case None
  then obtain stored where fold: "rfold (insert_group_output (group_position g)) (group_outpoints (group_txid g) (group_output_count g))
      (insert_transaction_row (group_position g) stored db) = Ok db'"
    using run by (auto simp: merge_registration_transaction_group_def result_simps Let_def)
  show ?thesis
    by (rule rfold_invariant [where P = "node_inv ops", OF fold]) (use inv in \<open>auto simp: insert_group_output_def result_simps\<close>)
next
  case (Some stored)
  then show ?thesis
    using run inv by (auto simp: merge_registration_transaction_group_def result_simps Let_def split: if_splits)
qed

lemma merge_groups_inv:
  assumes "node_inv ops db" "rfold merge_groups gs (db, inserted) = Ok (db', inserted')"
  shows "node_inv ops db'"
proof -
  have "node_inv ops (fst (db', inserted'))"
  proof (rule rfold_invariant [where P = "\<lambda>s. node_inv ops (fst s)", OF assms(2)])
    fix g s s' assume "node_inv ops (fst s)" "merge_groups g s = Ok s'"
    then show "node_inv ops (fst s')"
      by (cases s) (auto simp: merge_groups_def result_simps dest: merge_group_inv)
  qed (use assms(1) in simp)
  then show ?thesis by simp
qed

lemma fold_inv: "node_inv ops db \<Longrightarrow> (\<And>x db. node_inv ops db \<Longrightarrow> node_inv ops (f x db)) \<Longrightarrow> node_inv ops (fold f xs db)"
  by (induction xs arbitrary: db) auto

lemma register_contracts_Ok:
  assumes "register_contracts ops registrations db = Ok (db', res)"
  obtains activation tip pre db2 inserted db3 where
    "meta_status db \<noteq> Some RescanRequired" "meta_activation db = Some activation" "tip_row db = Some tip"
    "rfold (preflight_registration ops db tip) registrations empty_preflight = Ok pre"
    "rfold merge_groups (reg_groups pre) (fold retain_declaration (map (declaration_from_record \<circ> fst) registrations) db, []) = Ok (db2, inserted)"
    "rfold (insert_registration ops pre) registrations db2 = Ok db3"
    "db' = fold (associate_new_hint pre) registrations (fold log_group inserted db3)"
  using assms that unfolding register_contracts_def Let_def by (auto simp: result_simps)

lemma register_inv:
  assumes inv: "node_inv ops db" and typed: "typed_registrations ops registrations"
    and run: "register_contracts ops registrations db = Ok (db', res)"
  shows "node_inv ops db'"
proof (rule register_contracts_Ok [OF run])
  fix pre db2 inserted db3
  assume merge: "rfold merge_groups (reg_groups pre) (fold retain_declaration (map (declaration_from_record \<circ> fst) registrations) db, []) = Ok (db2, inserted)"
    and ins: "rfold (insert_registration ops pre) registrations db2 = Ok db3"
    and db': "db' = fold (associate_new_hint pre) registrations (fold log_group inserted db3)"
  have "node_inv ops (fold retain_declaration (map (declaration_from_record \<circ> fst) registrations) db)"
    by (rule fold_inv [OF inv]) (simp add: retain_declaration_def)
  then have "node_inv ops db2" by (rule merge_groups_inv [OF _ merge])
  then have "node_inv ops db3"
    by (rule rfold_invariant [where P = "node_inv ops", OF ins])
      (use typed insert_registration_inv in \<open>auto simp: typed_registrations_def\<close>)
  then have "node_inv ops (fold log_group inserted db3)"
    by (rule fold_inv) (auto simp: log_group_def intro: amend_undo_inv)
  then show ?thesis
    unfolding db' by (rule fold_inv)
      (auto simp: associate_new_hint_def associate_registration_hint_def Let_def split: prod.split option.split)
qed



section \<open>Backfill\<close>

definition replaying :: "node_ops \<Rightarrow> (bytes, UndoBlock) table \<Rightarrow> BackfillState \<Rightarrow> bool" where
  "replaying ops undos s \<longleftrightarrow> indexes_ok ops (bf_db s) \<and> undo_rows (bf_db s) = undos \<and>
     (\<forall>undo. bf_undo s = Some undo \<longrightarrow> journal_typed ops undo)"

lemma bf_log_fields [simp]:
  "bf_db (bf_log f s) = bf_db s" "bf_undo (bf_log f s) = map_option f (bf_undo s)" "bf_transitions (bf_log f s) = bf_transitions s"
  by (simp_all add: bf_log_def)

lemma backfill_update_Ok:
  assumes "backfill_update ops targets delta n u s = Ok s'"
  obtains before db1 db2 where "read_contract (bf_db s) (updated_contract u) = Some before"
    "replace_state ops before u (bf_db s) = Ok db1" "insert_history delta u db1 = Ok db2" "bf_db s' = db2"
    "bf_undo s' = map_option (\<lambda>undo. (log_contract \<lparr>undo_contract = updated_contract u, contract_before = Some before\<rparr> undo)
      \<lparr>history_keys := history_keys undo @ [(updated_contract u, delta_position delta)]\<rparr>) (bf_undo s)"
  using assms by (auto simp: backfill_update_def Let_def result_simps option.map_comp comp_def intro: that)

lemma update_replaying:
  assumes start: "replaying ops undos s" and run: "backfill_update ops targets delta n u s = Ok s'"
  shows "replaying ops undos s'"
proof (rule backfill_update_Ok [OF run])
  fix before db1 db2
  assume before: "read_contract (bf_db s) (updated_contract u) = Some before"
    and rep: "replace_state ops before u (bf_db s) = Ok db1" and hist: "insert_history delta u db1 = Ok db2" "bf_db s' = db2"
    and undo: "bf_undo s' = map_option (\<lambda>undo. (log_contract \<lparr>undo_contract = updated_contract u, contract_before = Some before\<rparr> undo)
      \<lparr>history_keys := history_keys undo @ [(updated_contract u, delta_position delta)]\<rparr>) (bf_undo s)"
  have ok: "indexes_ok ops (bf_db s)" using start by (simp add: replaying_def)
  have "indexes_ok ops db1" by (rule swap_indexes [OF ok before replace_state_Ok [OF rep]]) simp_all
  then show ?thesis
    using start insert_undo [OF replace_state_Ok [OF rep]] insert_history_Ok(1) [OF hist(1)] hist(2) undo read_sound [OF ok before]
    by (auto simp: replaying_def journal_typed_log)
qed

lemma output_replaying:
  assumes "replaying ops undos s" "backfill_output delta p s = Ok s'"
  shows "replaying ops undos s'"
  using assms by (auto simp: backfill_output_def result_simps replaying_def insert_output_ref_def)

lemma row_replaying:
  assumes start: "replaying ops undos s" and run: "backfill_transaction_row ops delta s = Ok s'"
  shows "replaying ops undos s'"
proof (cases "tbl_get (transaction_rows (bf_db s)) (position_fixed_key (delta_position delta))")
  case None
  let ?s = "bf_log (\<lambda>undo. undo\<lparr>transaction_positions := transaction_positions undo @ [delta_position delta]\<rparr>)
    (s\<lparr>bf_db := insert_transaction_row (delta_position delta)
      (delta_transaction ops delta (sort_dedup_contracts (map updated_contract (state_updates delta)))) (bf_db s)\<rparr>)"
  obtain refs where refs: "rfold (backfill_output delta) refs ?s = Ok s'"
    using run None by (auto simp: backfill_transaction_row_def Let_def result_simps)
  have "replaying ops undos ?s" using start by (auto simp: replaying_def insert_transaction_row_def)
  then show ?thesis
    by (rule rfold_invariant [where P = "replaying ops undos", OF refs]) (rule output_replaying)
next
  case (Some stored)
  then show ?thesis
    using run start by (auto simp: backfill_transaction_row_def Let_def result_simps replaying_def insert_transaction_row_def)
qed

lemma transaction_replaying:
  assumes start: "replaying ops undos s" and run: "apply_backfill_transaction ops targets delta s = Ok s'"
  shows "replaying ops undos s'"
proof -
  obtain n s1 where updates: "rfold (backfill_update ops targets delta n) (state_updates delta) s = Ok s1"
    and row: "backfill_transaction_row ops delta s1 = Ok s'"
    using run by (auto simp: apply_backfill_transaction_def result_simps)
  have "replaying ops undos s1"
    using start by (rule rfold_invariant [where P = "replaying ops undos", OF updates]) (rule update_replaying)
  then show ?thesis using row by (rule row_replaying)
qed

lemma advance_backfill_Ok:
  assumes "advance_backfill ops delta digest tip next item (s, ready) = Ok (s', ready')"
  obtains before sync db1 item' count db3 where "read_contract (bf_db s) (progress_contract item) = Some before"
    "insert_contract ops (before\<lparr>sync_state := sync\<rparr>) (remove_contract ops before (bf_db s)) = Ok db1"
    "push_event (BackfillApplied (progress_contract item) (delta_anchor delta) count)
      (db1\<lparr>progress_rows := tbl_insert (contract_fixed_key (progress_contract item)) item' (progress_rows db1)\<rparr>) = Ok db3"
    "progress_contract item' = progress_contract item"
    "bf_db s' = db3 \<or> push_event (ContractReady (progress_contract item) (delta_anchor delta)) db3 = Ok (bf_db s')"
    "bf_undo s' = bf_undo s \<or>
      bf_undo s' = map_option (log_contract \<lparr>undo_contract = progress_contract item, contract_before = Some before\<rparr>) (bf_undo s)"
  using assms
  by (cases "delta_anchor delta = tip"; cases "map_of (bf_transitions s) (progress_contract item) = None")
    (auto simp: advance_backfill_def Let_def result_simps intro: that)

lemma advance_replaying:
  assumes start: "replaying ops undos s" and run: "advance_backfill ops delta digest tip next item (s, ready) = Ok (s', ready')"
  shows "replaying ops undos s'"
proof (rule advance_backfill_Ok [OF run])
  fix before sync db1 item' count db3
  assume before: "read_contract (bf_db s) (progress_contract item) = Some before"
    and ins: "insert_contract ops (before\<lparr>sync_state := sync\<rparr>) (remove_contract ops before (bf_db s)) = Ok db1"
    and ev: "push_event (BackfillApplied (progress_contract item) (delta_anchor delta) count)
      (db1\<lparr>progress_rows := tbl_insert (contract_fixed_key (progress_contract item)) item' (progress_rows db1)\<rparr>) = Ok db3"
    and ev2: "bf_db s' = db3 \<or> push_event (ContractReady (progress_contract item) (delta_anchor delta)) db3 = Ok (bf_db s')"
    and undo: "bf_undo s' = bf_undo s \<or>
      bf_undo s' = map_option (log_contract \<lparr>undo_contract = progress_contract item, contract_before = Some before\<rparr>) (bf_undo s)"
  have ok: "indexes_ok ops (bf_db s)" using start by (simp add: replaying_def)
  have "indexes_ok ops db1" by (rule swap_indexes [OF ok before ins]) simp_all
  moreover have "undo_rows db1 = undos" using insert_undo [OF ins] start by (simp add: replaying_def)
  ultimately have "indexes_ok ops db3" "undo_rows db3 = undos" using push_event_frame(1,2) [OF ev] by simp_all
  then have "indexes_ok ops (bf_db s')" "undo_rows (bf_db s') = undos"
    using ev2 push_event_frame(1,2) by auto
  then show ?thesis
    using undo start read_sound [OF ok before] by (auto simp: replaying_def journal_typed_log)
qed

lemma backfill_Ok:
  assumes "apply_backfill_block ops targets delta db = Ok (db', res)"
  obtains (again) "db' = db" "\<not> backfill_applied res"
  | (replayed) digest progress ready where "meta_status db \<noteq> Some RescanRequired" "validate_block_shape ops delta = Ok ()"
      "verify_backfill_block delta db = Ok ()" "rmap (read_progress db) (sort_dedup_contracts targets) = Ok progress"
      "replay_backfill ops (sort_dedup_contracts targets) delta digest progress db = Ok (db', ready)"
  using assms by (auto simp: apply_backfill_block_def Let_def result_simps split: if_splits intro: again replayed)

lemma backfill_inv:
  assumes inv: "node_inv ops db" and run: "apply_backfill_block ops targets delta db = Ok (db', res)"
  shows "node_inv ops db'"
proof (rule backfill_Ok [OF run])
  fix digest progress ready
  let ?key = "height_key (height (delta_anchor delta))" and ?P = "replaying ops (undo_rows db)"
  let ?undo = "map_option (\<lambda>undo. undo\<lparr>backfill_progress_changes := backfill_progress_changes undo @
      map (\<lambda>item. \<lparr>undo_progress_contract = progress_contract item, progress_before = Some item\<rparr>) progress\<rparr>)
      (tbl_get (undo_rows db) ?key)"
  assume "replay_backfill ops (sort_dedup_contracts targets) delta digest progress db = Ok (db', ready)"
  then obtain s tip n s' where txs: "rfold (apply_backfill_transaction ops (sort_dedup_contracts targets)) (relevant_transactions delta)
        \<lparr>bf_db = db, bf_undo = ?undo, bf_transitions = []\<rparr> = Ok s"
    and adv: "rfold (advance_backfill ops delta digest tip n) progress (s, []) = Ok (s', ready)"
    and db': "db' = (case bf_undo s' of None \<Rightarrow> bf_db s'
      | Some journal \<Rightarrow> (bf_db s')\<lparr>undo_rows := tbl_insert ?key journal (undo_rows (bf_db s'))\<rparr>)"
    by (auto simp: replay_backfill_def Let_def result_simps)
  have "?P \<lparr>bf_db = db, bf_undo = ?undo, bf_transitions = []\<rparr>"
    using inv by (auto simp: replaying_def node_inv_def journals_typed_def)
  then have s: "?P s" by (rule rfold_invariant [where P = ?P, OF txs]) (rule transaction_replaying)
  have "?P (fst (s', ready))"
    by (rule rfold_invariant [where P = "\<lambda>s. ?P (fst s)", OF adv])
      (use s advance_replaying in \<open>auto simp: split_paired_all\<close>)
  then show ?thesis
    using inv by (auto simp: db' replaying_def node_inv_def journals_typed_def split: option.split)
qed (use inv in simp)


section \<open>Opening, status and rebuild\<close>

lemma empty_node_inv: "node_inv ops empty_node_db"
  by (simp add: node_inv_def journals_typed_def indexes_ok_def empty_node_db_def projects_def keyed_rows_def tbl_get_def)

end
