(* ===== verification/Node_Reach.thy ===== *)
theory Node_Reach
  imports Node_Inv_Ops Node_Queries
begin

text \<open>
  The write interface of the node's store as a step system, and the properties of its reachable
  states: exact indexes, and the barrier a store that needs a rebuild puts before every write.
\<close>

section \<open>Calls\<close>

text \<open>The public writing methods of \<open>NodeStore\<close>; drawn epochs are arguments.\<close>

datatype node_call =
    CallOpen bytes
  | CallInitializeChain NodeChainIdentity ChainAnchor
  | CallSetSyncStatus bytes SyncStatus
  | CallRegisterContracts "(ContractRecord \<times> RegistrationEvidence) list"
  | CallApplyBackfillBlock "ContractId list" BlockDelta
  | CallApplyBlock BlockDelta
  | CallRollbackTo bytes ChainAnchor
  | CallInvalidateForRebuild bytes
  | CallResetForRebuild

definition without_value :: "(NodeStoreError, NodeDb \<times> 'a) result \<Rightarrow> (NodeStoreError, NodeDb \<times> unit) result" where
  "without_value r = rbind r (\<lambda>(db, _). Ok (db, ()))"

fun perform :: "node_ops \<Rightarrow> node_call \<Rightarrow> NodeDb \<Rightarrow> (NodeStoreError, NodeDb \<times> unit) result" where
  "perform ops (CallOpen e) db = initialize_schema e db"
| "perform ops (CallInitializeChain identity activation) db = initialize_chain identity activation db"
| "perform ops (CallSetSyncStatus e status) db = without_value (set_sync_status e status db)"
| "perform ops (CallRegisterContracts registrations) db = without_value (register_contracts ops registrations db)"
| "perform ops (CallApplyBackfillBlock contract_ids delta) db = without_value (apply_backfill_block ops contract_ids delta db)"
| "perform ops (CallApplyBlock delta) db = without_value (apply_block ops delta db)"
| "perform ops (CallRollbackTo e ancestor) db = without_value (rollback_to ops e ancestor db)"
| "perform ops (CallInvalidateForRebuild e) db = without_value (invalidate_for_rebuild e db)"
| "perform ops CallResetForRebuild db = without_value (reset_for_rebuild db)"

definition node_after :: "node_ops \<Rightarrow> node_call \<times> commit_result \<Rightarrow> NodeDb \<Rightarrow> NodeDb" where
  "node_after ops l db = snd (run_write (snd l) (perform ops (fst l)) db)"

text \<open>Arguments whose fixed-width fields have the widths of their types.\<close>

fun call_typed :: "node_ops \<Rightarrow> node_call \<Rightarrow> bool" where
  "call_typed ops (CallRegisterContracts registrations) = typed_registrations ops registrations"
| "call_typed ops (CallApplyBlock delta) = typed_block ops delta"
| "call_typed ops _ = True"

text \<open>An opened store: \<open>NodeStore::open\<close> writes the schema before any other call.\<close>

inductive node_opened :: "NodeDb \<Rightarrow> bool" where
  "initialize_schema e empty_node_db = Ok (db, ()) \<Longrightarrow> node_opened db"

inductive node_step :: "node_ops \<Rightarrow> NodeDb \<Rightarrow> node_call \<times> commit_result \<Rightarrow> NodeDb \<Rightarrow> bool"
  for ops where
  "call_typed ops (fst l) \<Longrightarrow> node_step ops db l (node_after ops l db)"

inductive_simps node_step_iff: "node_step ops db l db'"
inductive_simps node_opened_iff: "node_opened db"

lemma without_value_Ok [result_simps]: "without_value r = Ok (db', u) \<longleftrightarrow> (\<exists>x. r = Ok (db', x))"
  by (auto simp: without_value_def result_simps)

lemma node_after_cases:
  obtains (kept) "node_after ops l db = db"
  | (written) db' where "perform ops (fst l) db = Ok (db', ())" "node_after ops l db = db'"
proof (cases "perform ops (fst l) db")
  case (Inl e)
  then show thesis using kept by (simp add: node_after_def run_write_def)
next
  case (Inr r)
  then have "node_after ops l db \<in> {db, fst r}"
    by (auto simp: node_after_def run_write_def split: prod.split commit_result.split)
  then show thesis using kept written Inr by (cases r) auto
qed

lemma initialize_schema_Ok:
  assumes "initialize_schema e db = Ok (db', ())"
  obtains (checked) v where "meta_schema db = Some v" "db' = db"
  | (created) "meta_schema db = None" "length e = 16" "db' = db\<lparr>meta_schema := Some (u32_be NODE_SCHEMA_VERSION), meta_epoch := Some e,
      meta_sequence := Some (u64_be 0), meta_status := Some Starting\<rparr>"
  using assms checked created by (cases "meta_schema db") (auto simp: initialize_schema_def result_simps)

lemma initialize_chain_Ok:
  assumes "initialize_chain identity activation db = Ok (db', ())"
  obtains (checked) tip where "db' = db" "tip_row db = Some tip" "meta_activation db = Some activation"
  | (created) "meta_activation db = None" "tip_row db = None" "db' = db\<lparr>meta_identity := Some identity, meta_activation := Some activation, tip_row := Some activation\<rparr>"
  using assms checked created
  by (auto simp: initialize_chain_def result_simps Let_def split: option.splits)

lemma set_status_Ok:
  assumes "set_sync_status e status db = Ok (db', cursor)"
  obtains (rebuild) e' where "status = RescanRequired" "mark_rebuild_required e db = Ok (db', e')"
  | (changed) "status \<noteq> RescanRequired" "meta_status db \<noteq> Some RescanRequired" "push_event (SyncStatusChanged status) (db\<lparr>meta_status := Some status\<rparr>) = Ok db'"
  | (same) "status \<noteq> RescanRequired" "meta_status db = Some status" "db' = db"
proof (cases "status = RescanRequired")
  case True
  then show thesis using assms by (auto simp: set_sync_status_def result_simps intro: rebuild)
next
  case False
  then show thesis
    using assms by (auto simp: set_sync_status_def result_simps split: if_splits intro: changed same)
qed

lemma reset_Ok:
  assumes "reset_for_rebuild db = Ok (db', cursor)"
  obtains baseline where "meta_status db = Some RescanRequired" "meta_activation db = Some baseline"
    "append_event (SyncStatusChanged Syncing) ((clear_chain_tables db)\<lparr>tip_row := Some baseline, meta_status := Some Syncing\<rparr>) = Ok (db', cursor)"
  using assms that by (auto simp: reset_for_rebuild_def result_simps)

lemma cleared_inv: "node_inv ops (clear_chain_tables db)"
  by (simp add: clear_chain_tables_def node_inv_def journals_typed_def indexes_ok_def projects_def keyed_rows_def tbl_get_def)

lemma perform_inv:
  assumes inv: "node_inv ops db" and typed: "call_typed ops call" and run: "perform ops call db = Ok (db', ())"
  shows "node_inv ops db'"
proof (cases call)
  case (CallOpen e)
  then show ?thesis using inv run by (auto elim: initialize_schema_Ok)
next
  case (CallInitializeChain identity activation)
  then show ?thesis using inv run by (auto elim: initialize_chain_Ok)
next
  case (CallSetSyncStatus e status)
  then obtain cursor where "set_sync_status e status db = Ok (db', cursor)" using run by (auto simp: result_simps)
  then show ?thesis by (cases rule: set_status_Ok) (use inv in \<open>auto simp: mark_rebuild_inv push_event_inv\<close>)
next
  case (CallRegisterContracts registrations)
  then show ?thesis using run typed register_inv [OF inv] by (auto simp: result_simps)
next
  case (CallApplyBackfillBlock contract_ids delta)
  then show ?thesis using run backfill_inv [OF inv] by (auto simp: result_simps)
next
  case (CallApplyBlock delta)
  then show ?thesis using run typed apply_block_inv [OF inv] by (auto simp: result_simps)
next
  case (CallRollbackTo e ancestor)
  then show ?thesis using run rollback_inv [OF inv] by (auto simp: result_simps)
next
  case (CallInvalidateForRebuild e)
  then show ?thesis using run inv mark_rebuild_inv by (auto simp: result_simps invalidate_for_rebuild_def)
next
  case CallResetForRebuild
  then obtain cursor where "reset_for_rebuild db = Ok (db', cursor)" using run by (auto simp: result_simps)
  then show ?thesis by (rule reset_Ok) (simp add: append_event_inv cleared_inv)
qed

interpretation node: invariant_system node_opened "node_step ops" "node_inv ops" for ops
proof (unfold_locales)
  fix db assume "node_opened db"
  then show "node_inv ops db"
    using empty_node_inv [of ops] by (auto simp: node_opened_iff elim: initialize_schema_Ok)
next
  fix db l db' assume "node_inv ops db" "node_step ops db l db'"
  then show "node_inv ops db'"
    by (cases rule: node_after_cases [of ops l db]) (auto simp: node_step_iff intro: perform_inv)
qed



section \<open>Exact indexes\<close>

lemma base_rows:
  assumes "indexes_ok ops db"
  shows "(\<exists>b r. tbl_get (contract_rows db) b = Some r \<and> P r) \<longleftrightarrow> (\<exists>c r. read_contract db c = Some r \<and> P r \<and> contract_id r = c)"
  using indexes_okD(2) [OF assms] unfolding keyed_rows_def read_contract_def by metis

lemma projects_rows:
  assumes "indexes_ok ops db" "projects entries (contract_rows db) index"
  shows "tbl_get index k = Some v \<longleftrightarrow> (\<exists>c r. read_contract db c = Some r \<and> (k, v) \<in> set (entries r) \<and> contract_id r = c)"
  using assms(2) base_rows [OF assms(1), of "\<lambda>r. (k, v) \<in> set (entries r)"] unfolding projects_def by simp


section \<open>The rebuild barrier\<close>

text \<open>A store that has been opened keeps its schema row and its status.\<close>

definition node_open :: "NodeDb \<Rightarrow> bool" where
  "node_open db \<longleftrightarrow> meta_schema db \<noteq> None"

lemma barrier_perform:
  assumes "node_open db" "meta_status db = Some RescanRequired" "tip_row db \<noteq> None" "call \<noteq> CallResetForRebuild"
    and "perform ops call db = Ok (db', ())"
  shows "db' = db"
proof (cases call)
  case (CallOpen e)
  then show ?thesis using assms by (auto simp: node_open_def elim: initialize_schema_Ok)
next
  case (CallInitializeChain identity activation)
  then show ?thesis using assms by (auto elim: initialize_chain_Ok)
next
  case (CallSetSyncStatus e status)
  then obtain cursor where "set_sync_status e status db = Ok (db', cursor)" using assms by (auto simp: result_simps)
  then show ?thesis by (cases rule: set_status_Ok) (use assms in \<open>auto simp: mark_rebuild_required_def result_simps\<close>)
next
  case (CallRegisterContracts registrations)
  then show ?thesis using assms by (auto simp: result_simps elim!: register_contracts_Ok)
next
  case (CallApplyBackfillBlock contract_ids delta)
  then obtain r where "apply_backfill_block ops contract_ids delta db = Ok (db', r)" using assms by (auto simp: result_simps)
  then show ?thesis by (cases rule: backfill_Ok) (use assms in auto)
next
  case (CallApplyBlock delta)
  then obtain r where "apply_block ops delta db = Ok (db', r)" using assms by (auto simp: result_simps)
  then show ?thesis by (cases rule: apply_block_Ok) (use assms in auto)
next
  case (CallRollbackTo e ancestor)
  then show ?thesis using assms by (auto simp: result_simps rollback_to_def)
next
  case (CallInvalidateForRebuild e)
  then show ?thesis using assms by (auto simp: result_simps invalidate_for_rebuild_def mark_rebuild_required_def)
qed (use assms in simp)

text \<open>A sequence of calls, each with the outcome of its commit.\<close>

definition node_run :: "node_ops \<Rightarrow> (node_call \<times> commit_result) list \<Rightarrow> NodeDb \<Rightarrow> NodeDb" where
  "node_run ops ls db = fold (node_after ops) ls db"

lemma reset_clears:
  assumes "reset_for_rebuild db = Ok (db', cursor)"
  shows "tip_row db' = meta_activation db" "meta_activation db' = meta_activation db" "meta_status db' = Some Syncing"
    "block_rows db' = []" "transaction_rows db' = []" "output_rows db' = []" "contract_tables db' = ([], [], [], [], [])"
    "hint_rows db' = []" "history_rows db' = []" "progress_rows db' = []" "undo_rows db' = []"
    "retained_rows db' = retained_rows db" "meta_identity db' = meta_identity db"
proof -
  obtain baseline where base: "meta_activation db = Some baseline" and ev: "append_event (SyncStatusChanged Syncing)
      ((clear_chain_tables db)\<lparr>tip_row := Some baseline, meta_status := Some Syncing\<rparr>) = Ok (db', cursor)"
    by (rule reset_Ok [OF assms])
  obtain s es where "db' = (clear_chain_tables db)\<lparr>tip_row := Some baseline, meta_status := Some Syncing\<rparr>
      \<lparr>event_rows := es, meta_sequence := s\<rparr>"
    by (rule append_event_shape [OF ev])
  then show "tip_row db' = meta_activation db" "meta_activation db' = meta_activation db" "meta_status db' = Some Syncing"
    "block_rows db' = []" "transaction_rows db' = []" "output_rows db' = []" "contract_tables db' = ([], [], [], [], [])"
    "hint_rows db' = []" "history_rows db' = []" "progress_rows db' = []" "undo_rows db' = []"
    "retained_rows db' = retained_rows db" "meta_identity db' = meta_identity db"
    using base by (simp_all add: clear_chain_tables_def contract_tables_def)
qed

lemma barrier_run:
  assumes "node_open db" "meta_status db = Some RescanRequired" "tip_row db \<noteq> None" "CallResetForRebuild \<notin> fst ` set ls"
  shows "node_run ops ls db = db"
  using assms(4)
proof (induction ls)
  case (Cons l ls)
  then have "node_after ops l db = db"
    by (cases rule: node_after_cases [of ops l db]) (use barrier_perform [OF assms(1-3)] in \<open>metis image_eqI list.set_intros(1)\<close>)+
  then show ?case using Cons by (simp add: node_run_def)
qed (simp add: node_run_def)

end
