(* ===== verification/Node_Example.thy ===== *)
theory Node_Example
  imports Node_Reach
begin

text \<open>
  A concrete store: one market is created in the first block after the activation anchor and
  spent in the second.  The crates' functions are instantiated with constant ones.
\<close>

definition nx_node_ops :: node_ops where
  "nx_node_ops = \<lparr>node_sha256 = (\<lambda>_. replicate 32 0), node_txid = (\<lambda>tx. [ucast (tx_version tx)]), serialize_tx = (\<lambda>_. []),
     deserialize_tx = (\<lambda>_. None), postcard_block_delta = (\<lambda>delta. Some (hash (delta_anchor delta)))\<rparr>"

definition nx_anchor :: "u32 \<Rightarrow> ChainAnchor" where
  "nx_anchor n = \<lparr>height = 100 + n, hash = [ucast n]\<rparr>"

definition nx_tx_out :: TxOut where
  "nx_tx_out = \<lparr>out_asset = AssetNull, out_value = ValueNull, out_nonce = NonceNull, script_pubkey = [], out_witness = default_txout_witness\<rparr>"

definition nx_tx_in :: "OutPoint \<Rightarrow> TxIn" where
  "nx_tx_in p = \<lparr>previous_output = p, is_pegin = False, script_sig = [], input_sequence = 0,
     asset_issuance = \<lparr>asset_blinding_nonce = [], asset_entropy = [], issuance_value = ValueNull, inflation_keys = ValueNull\<rparr>,
     script_witness = []\<rparr>"

definition nx_tx :: "u32 \<Rightarrow> OutPoint list \<Rightarrow> Transaction" where
  "nx_tx n spent = \<lparr>tx_version = n, lock_time = LockBlocks 0, tx_input = map nx_tx_in spent, tx_output = [nx_tx_out]\<rparr>"

definition nx_market :: ContractId where
  "nx_market = ContractId (OutPoint [1] 0)"

definition nx_position :: "u32 \<Rightarrow> ChainPosition" where
  "nx_position n = \<lparr>block_height = 100 + n, tx_index = 0\<rparr>"

definition nx_state :: "u64 \<Rightarrow> ContractState" where
  "nx_state n = StateBinaryMarket (Trading n)"

definition nx_outpoints :: "u8 \<Rightarrow> TrackedOutpoint list" where
  "nx_outpoints n = [\<lparr>tracked_role = 0, tracked_outpoint = OutPoint [n] 0\<rparr>]"

definition nx_contract :: ContractRecord where
  "nx_contract = \<lparr>contract_id = nx_market, contract_kind = BinaryMarketV1,
     contract_params = ParamsBinaryMarket \<lparr>oracle_public_key = [], collateral_asset_id = [], yes_token_asset_id = [],
       no_token_asset_id = [], yes_reissuance_token_id = [], no_reissuance_token_id = [], base_payout = 1, expiry_height = 1\<rparr>,
     creation_position = nx_position 1, contract_state = nx_state 0, sync_state = Ready (nx_anchor 1),
     scripts = [\<lparr>script_role = 0, binding_script = [7]\<rparr>],
     assets = [\<lparr>binding_asset = replicate 32 5, relation = RelCollateral, asset_role = 0\<rparr>], outpoints = nx_outpoints 1\<rparr>"

definition nx_update :: StateUpdate where
  "nx_update = \<lparr>updated_contract = nx_market, old_contract_state = nx_state 0, new_contract_state = nx_state 3,
     spent_outpoints = [OutPoint [1] 0], new_outpoints = nx_outpoints 2,
     update_transition = \<lparr>transition_kind = 1, transition_payload = []\<rparr>\<rparr>"

definition nx_delta :: "u32 \<Rightarrow> ContractRecord list \<Rightarrow> StateUpdate list \<Rightarrow> BlockDelta" where
  "nx_delta n created updates = \<lparr>delta_anchor = nx_anchor n, delta_prev_hash = hash (nx_anchor (n - 1)), ordered_txids = [[ucast n]],
     relevant_transactions = [\<lparr>delta_position = nx_position n, delta_block_hash = hash (nx_anchor n), delta_txid = [ucast n],
       delta_raw_tx = nx_tx n (concat (map spent_outpoints updates)), created_contracts = created, state_updates = updates\<rparr>],
     recovery_hints = []\<rparr>"

definition nx_create :: BlockDelta where
  "nx_create = nx_delta 1 [nx_contract] []"

definition nx_spend :: BlockDelta where
  "nx_spend = nx_delta 2 [] [nx_update]"

definition nx_epoch :: "u8 \<Rightarrow> bytes" where
  "nx_epoch n = replicate 16 n"

definition nx_fresh_db :: NodeDb where
  "nx_fresh_db = empty_node_db\<lparr>meta_schema := Some (u32_be NODE_SCHEMA_VERSION), meta_epoch := Some (nx_epoch 1),
     meta_sequence := Some (u64_be 0), meta_status := Some Starting\<rparr>"

definition nx_identity :: NodeChainIdentity where
  "nx_identity = \<lparr>identity_network = ElementsRegtest, identity_genesis_hash = [9], node_policy_asset = [8]\<rparr>"

definition nx_started_db :: NodeDb where
  "nx_started_db = nx_fresh_db\<lparr>meta_identity := Some nx_identity, meta_activation := Some (nx_anchor 0), tip_row := Some (nx_anchor 0)\<rparr>"

definition nx_undo :: UndoBlock where
  "nx_undo = (empty_undo (nx_anchor 0))\<lparr>contract_changes := [\<lparr>undo_contract = nx_market, contract_before = None\<rparr>],
     transaction_positions := [nx_position 1], output_outpoints := [OutPoint [1] 0]\<rparr>"

definition nx_cursor :: "u64 \<Rightarrow> EventCursor" where
  "nx_cursor n = \<lparr>epoch = nx_epoch 1, sequence = n\<rparr>"

definition nx_created_db :: NodeDb where
  "nx_created_db = nx_started_db\<lparr>meta_sequence := Some (u64_be 1), tip_row := Some (nx_anchor 1),
     block_rows := [(height_key 101, stored_block_of nx_create (replicate 32 0))],
     transaction_rows := [(position_fixed_key (nx_position 1),
       delta_transaction nx_node_ops (hd (relevant_transactions nx_create)) [nx_market])],
     output_rows := [(outpoint_fixed_key (OutPoint [1] 0), \<lparr>ref_position = nx_position 1, ref_outpoint = OutPoint [1] 0\<rparr>)],
     contract_rows := [(contract_fixed_key nx_market, nx_contract)],
     owner_rows := [(outpoint_fixed_key (OutPoint [1] 0), \<lparr>owner_contract = nx_market, owner_role = 0\<rparr>)],
     outpoint_rows := [(contract_outpoint_key nx_market 0, OutPoint [1] 0)],
     script_rows := [(script_key nx_node_ops nx_market \<lparr>script_role = 0, binding_script = [7]\<rparr>, \<lparr>script_role = 0, binding_script = [7]\<rparr>)],
     asset_rows := [(asset_key nx_market \<lparr>binding_asset = replicate 32 5, relation = RelCollateral, asset_role = 0\<rparr>,
       \<lparr>binding_asset = replicate 32 5, relation = RelCollateral, asset_role = 0\<rparr>)],
     undo_rows := [(height_key 101, nx_undo)],
     event_rows := [(cursor_fixed_key (nx_cursor 1), \<lparr>envelope_cursor = nx_cursor 1,
       envelope_event = TransactionApplied (nx_anchor 1) [1] (nx_position 1) [nx_market]\<rparr>)]\<rparr>"

lemmas nx_block_defs = nx_create_def nx_spend_def nx_delta_def nx_anchor_def nx_position_def nx_tx_def nx_tx_in_def nx_contract_def
  nx_update_def nx_outpoints_def nx_market_def nx_state_def nx_node_ops_def

lemmas nx_db_defs = nx_fresh_db_def nx_started_db_def nx_created_db_def nx_identity_def nx_undo_def nx_cursor_def nx_epoch_def
  empty_node_db_def empty_undo_def

lemma nx_create_shape: "validate_block_shape nx_node_ops nx_create = Ok ()"
  by (simp add: nx_block_defs validate_block_shape_def adjacent_all_def check_block_transaction_def check_created_def
    record_validate_def check_block_hint_def try_from_nat_def Let_def)

lemma nx_spend_shape: "validate_block_shape nx_node_ops nx_spend = Ok ()"
  by (simp add: nx_block_defs validate_block_shape_def adjacent_all_def check_block_transaction_def check_created_def
    record_validate_def check_block_hint_def check_update_leg_def try_from_nat_def Let_def)

lemma nx_open: "initialize_schema (nx_epoch 1) empty_node_db = Ok (nx_fresh_db, ())"
  by (simp add: initialize_schema_def nx_db_defs)

lemma nx_start: "initialize_chain nx_identity (nx_anchor 0) nx_fresh_db = Ok (nx_started_db, ())"
  by (simp add: initialize_chain_def nx_db_defs validate_policy_asset_def resolve_policy_asset_def production_policy_asset_def)

lemmas apply_block_defs = apply_block_def delta_digest_def apply_block_body_def apply_chain_transaction_def validate_tracked_inputs_def
  try_from_nat_def create_contract_def read_contract_def validate_new_outpoints_def insert_contract_def record_validate_def
  insert_tracked_def Let_def tbl_get_def output_refs_def push_event_def append_event_def event_cursor_from_meta_def
  decode_u64_meta_def checked_add_def insert_output_ref_def insert_transaction_row_def contract_is_live_def
  advance_catching_through_canonical_block_def prune_undo_def tbl_keys_def height_key_def saturating_sub_u32_def
  UNDO_RETENTION_BLOCKS_def sort_dedup_contracts_def declare_spent_def match_input_def update_contract_def
  ensure_all_outpoints_spent_def replace_state_def remove_contract_def remove_tracked_def insert_history_def tbl_remove_def

lemma nx_created:
  "apply_block nx_node_ops nx_create nx_started_db =
     Ok (nx_created_db, \<lparr>block_applied = True, new_tip = nx_anchor 1, apply_high_watermark = nx_cursor 1\<rparr>)"
  by (simp add: apply_block_def nx_create_shape) (simp add: apply_block_defs nx_db_defs nx_block_defs)


lemma nx_spent:
  obtains db res where "apply_block nx_node_ops nx_spend nx_created_db = Ok (db, res)" "block_applied res" "tip_row db = Some (nx_anchor 2)"
    "apply_high_watermark res = nx_cursor 2" "map_option contract_state (read_contract db nx_market) = Some (nx_state 3)"
proof -
  have "\<exists>db res. apply_block nx_node_ops nx_spend nx_created_db = Ok (db, res) \<and> block_applied res \<and> tip_row db = Some (nx_anchor 2) \<and>
      apply_high_watermark res = nx_cursor 2 \<and> map_option contract_state (read_contract db nx_market) = Some (nx_state 3)"
    by (simp add: apply_block_def nx_spend_shape)
      (simp add: apply_block_defs nx_db_defs nx_block_defs cursor_fixed_key_def)
  then show thesis using that by blast
qed

section \<open>Runs\<close>

lemma nx_opened: "node_opened nx_fresh_db"
  unfolding node_opened_iff using nx_open by blast

lemma node_step_call:
  assumes "call_typed ops call" "perform ops call db = Ok (db', ())"
  shows "node_step ops db (call, Committed) db'"
  using assms by (simp add: node_step_iff node_after_def run_write_def)

lemma nx_started_reachable: "reachable node_opened (node_step nx_node_ops) nx_started_db"
proof (rule reachable_step)
  show "reachable node_opened (node_step nx_node_ops) nx_fresh_db" by (rule reachable_init) (rule nx_opened)
  show "node_step nx_node_ops nx_fresh_db (CallInitializeChain nx_identity (nx_anchor 0), Committed) nx_started_db"
    by (rule node_step_call) (simp_all add: nx_start)
qed

lemma nx_create_typed: "typed_block nx_node_ops nx_create"
  by (simp add: typed_block_def typed_record_def script_hash_def nx_block_defs)

lemma nx_created_reachable: "reachable node_opened (node_step nx_node_ops) nx_created_db"
proof (rule reachable_step)
  show "reachable node_opened (node_step nx_node_ops) nx_started_db" by (rule nx_started_reachable)
  show "node_step nx_node_ops nx_started_db (CallApplyBlock nx_create, Committed) nx_created_db"
    by (rule node_step_call) (simp_all add: nx_created without_value_def nx_create_typed)
qed

lemma nx_read: "read_contract nx_created_db nx_market = Some nx_contract"
  by (simp add: read_contract_def nx_created_db_def tbl_get_def)

definition nx_rescan_db :: NodeDb where
  "nx_rescan_db = nx_created_db\<lparr>meta_status := Some RescanRequired\<rparr>"

end
