(* ===== verification/Node_Journal.thy ===== *)
theory Node_Journal
  imports Node_Reach
begin

text \<open>
  What an undo journal is good for: the tables a block touched, less the journal, are the tables
  before the block.  Plain tables change at listed keys only; contract rows are replaced one at a
  time, and the journal of replacements can be replayed backwards.
\<close>

section \<open>Tables changed at listed keys\<close>

definition touched :: "(bytes, 'v) table \<Rightarrow> bytes set \<Rightarrow> (bytes, 'v) table \<Rightarrow> bool" where
  "touched t0 ks t \<longleftrightarrow> tbl_ok t \<and> (\<forall>k. k \<notin> ks \<longrightarrow> tbl_get t k = tbl_get t0 k)"

lemma touched_refl: "tbl_ok t \<Longrightarrow> touched t {} t"
  by (simp add: touched_def)

lemma touched_insert: "touched t0 ks t \<Longrightarrow> touched t0 (insert k ks) (tbl_insert k v t)"
  by (auto simp: touched_def)

lemma touched_revert:
  assumes "tbl_ok t0" "touched t0 (set ks) t" "\<forall>k \<in> set ks. tbl_get t0 k = None"
  shows "fold tbl_remove ks t = t0"
proof (rule tbl_extensional)
  show "tbl_ok (fold tbl_remove ks t)" using assms(2) tbl_remove_all_ok [of t "\<lambda>k. k" ks] by (simp add: touched_def)
  show "tbl_get (fold tbl_remove ks t) k = tbl_get t0 k" for k
    using assms(2,3) by (auto simp: prune_get touched_def)
qed (rule assms(1))


section \<open>Contract journals\<close>

text \<open>The records agree up to their synchronization state.\<close>

definition same_contract :: "ContractRecord option \<Rightarrow> ContractRecord option \<Rightarrow> bool" where
  "same_contract x y \<longleftrightarrow> map_option (\<lambda>r. r\<lparr>sync_state := CatchingUp undefined\<rparr>) x = map_option (\<lambda>r. r\<lparr>sync_state := CatchingUp undefined\<rparr>) y"

inductive journal :: "node_ops \<Rightarrow> NodeDb \<Rightarrow> ContractUndo list \<Rightarrow> NodeDb \<Rightarrow> bool" for ops db0 where
  journal_start: "contract_tables db = contract_tables db0 \<Longrightarrow> journal ops db0 [] db"
| journal_create: "journal ops db0 cs db \<Longrightarrow> typed_record ops r \<Longrightarrow> insert_contract ops r db = Ok db1 \<Longrightarrow> contract_tables db' = contract_tables db1 \<Longrightarrow>
    journal ops db0 (cs @ [\<lparr>undo_contract = contract_id r, contract_before = None\<rparr>]) db'"
| journal_replace: "journal ops db0 cs db \<Longrightarrow> read_contract db c = Some before \<Longrightarrow> contract_id after = c \<Longrightarrow>
    scripts after = scripts before \<Longrightarrow> assets after = assets before \<Longrightarrow>
    insert_contract ops after (remove_contract ops before db) = Ok db1 \<Longrightarrow> contract_tables db' = contract_tables db1 \<Longrightarrow>
    journal ops db0 (cs @ [\<lparr>undo_contract = c, contract_before = Some before\<rparr>]) db'"
| journal_touch: "journal ops db0 cs db \<Longrightarrow> c \<in> undo_contract ` set cs \<Longrightarrow> read_contract db c = Some before \<Longrightarrow>
    insert_contract ops (before\<lparr>sync_state := s\<rparr>) (remove_contract ops before db) = Ok db1 \<Longrightarrow>
    contract_tables db' = contract_tables db1 \<Longrightarrow> journal ops db0 cs db'"

text \<open>A store that may differ from another in the synchronization state of logged contracts.\<close>

definition nearly :: "ContractId set \<Rightarrow> NodeDb \<Rightarrow> NodeDb \<Rightarrow> bool" where
  "nearly cs db d \<longleftrightarrow> (\<forall>c. same_contract (read_contract d c) (read_contract db c) \<and>
     (c \<notin> cs \<longrightarrow> read_contract d c = read_contract db c))"

lemma read_tables: "contract_tables db' = contract_tables db \<Longrightarrow> read_contract db' = read_contract db"
  by (rule ext) (simp add: contract_tables_def read_contract_def)

lemma read_install [simp]: "read_contract (install ops r db) c = (if c = contract_id r then Some r else read_contract db c)"
  by (simp add: read_contract_def)

lemma read_remove [simp]: "read_contract (remove_contract ops r db) c = (if c = contract_id r then None else read_contract db c)"
  by (simp add: read_contract_def)

lemma same_contract_simps [simp]:
  "same_contract x x" "same_contract None y \<longleftrightarrow> y = None" "same_contract x None \<longleftrightarrow> x = None"
  "same_contract (Some (r\<lparr>sync_state := s\<rparr>)) (Some r)" "same_contract (Some r) (Some (r\<lparr>sync_state := s\<rparr>))"
  by (auto simp: same_contract_def)

lemma same_contract_trans: "same_contract x y \<Longrightarrow> same_contract y z \<Longrightarrow> same_contract x z"
  by (simp add: same_contract_def)

lemma same_contract_fields:
  assumes "same_contract (Some r) (Some r')"
  shows "outpoints r = outpoints r'" "contract_id r = contract_id r'"
proof -
  have eq: "r\<lparr>sync_state := CatchingUp undefined\<rparr> = r'\<lparr>sync_state := CatchingUp undefined\<rparr>"
    using assms by (simp add: same_contract_def)
  show "outpoints r = outpoints r'" "contract_id r = contract_id r'"
    using arg_cong [OF eq, of outpoints] arg_cong [OF eq, of contract_id] by simp_all
qed

lemma journal_indexes: "journal ops db0 cs db \<Longrightarrow> indexes_ok ops db0 \<Longrightarrow> indexes_ok ops db"
proof (induction rule: journal.induct)
  case (journal_start db)
  then show ?case using indexes_ok_cong by blast
next
  case (journal_create cs db r db1 db')
  then show ?case using insert_indexes indexes_ok_cong by blast
next
  case (journal_replace cs db c before after db1 db')
  then show ?case using swap_indexes indexes_ok_cong by blast
next
  case (journal_touch cs db c before s db1 db')
  have "indexes_ok ops db1"
    by (rule swap_indexes [OF journal_touch.IH [OF journal_touch.prems] journal_touch.hyps(3,4)]) simp_all
  then show ?case using indexes_ok_cong [OF journal_touch.hyps(5)] by blast
qed

text \<open>One owner per outpoint.\<close>

lemma owner_unique:
  assumes ok: "indexes_ok ops db" and "read_contract db c = Some r" "read_contract db c' = Some r'"
    and "t \<in> set (outpoints r)" "t' \<in> set (outpoints r')" "tracked_outpoint t = tracked_outpoint t'"
  shows "c = c'"
proof -
  note p = projects_rows [OF ok indexes_okD(3) [OF ok]]
  have "tbl_get (owner_rows db) (outpoint_fixed_key (tracked_outpoint t)) = Some \<lparr>owner_contract = c, owner_role = tracked_role t\<rparr>"
    unfolding p using assms(2,4) read_sound [OF ok assms(2)] by (auto simp: owner_entries_def)
  moreover have "tbl_get (owner_rows db) (outpoint_fixed_key (tracked_outpoint t)) = Some \<lparr>owner_contract = c', owner_role = tracked_role t'\<rparr>"
    unfolding p using assms(3,5,6) read_sound [OF ok assms(3)] by (auto simp: owner_entries_def)
  ultimately show ?thesis by simp
qed


lemma revert_removes:
  assumes "indexes_ok ops d" "read_contract d c = Some r"
  shows "revert_contract ops \<lparr>undo_contract = c, contract_before = None\<rparr> (d, affected) = Ok (remove_contract ops r d, affected @ [c])"
  using assms by (simp add: revert_contract_def)

lemma revert_replaces:
  assumes "read_contract d c = Some r" "insert_contract ops before (remove_contract ops r d) = Ok d'"
  shows "revert_contract ops \<lparr>undo_contract = c, contract_before = Some before\<rparr> (d, affected) = Ok (d', affected @ [c])"
  using assms by (simp add: revert_contract_def)

lemma nearly_some:
  assumes "nearly cs db d" "read_contract db c = Some r"
  obtains r' where "read_contract d c = Some r'" "same_contract (Some r') (Some r)"
proof -
  have "same_contract (read_contract d c) (Some r)" using assms unfolding nearly_def by metis
  then show thesis using that by (cases "read_contract d c") auto
qed

text \<open>The record logged before a replacement fits back once its successor is removed.\<close>

lemma reinsert:
  assumes ok: "indexes_ok ops db" and ok_d: "indexes_ok ops d"
    and before: "read_contract db c = Some before" and r: "read_contract d c = Some r"
    and others: "\<And>c'. c' \<noteq> c \<Longrightarrow> same_contract (read_contract d c') (read_contract db c')"
  shows "insert_contract ops before (remove_contract ops r d) = Ok (install ops before (remove_contract ops r d))"
proof -
  let ?d = "remove_contract ops r d"
  have id: "contract_id before = c" "contract_id r = c" "record_validate ops before = Ok ()"
    using read_sound [OF ok before] read_sound [OF ok_d r] by auto
  have ok': "indexes_ok ops ?d" by (rule remove_indexes [OF ok_d r])
  have "tbl_get (owner_rows ?d) (fst e) = None" if e: "e \<in> set (owner_entries before)" for e
  proof (rule ccontr)
    assume "tbl_get (owner_rows ?d) (fst e) \<noteq> None"
    then obtain owner where "tbl_get (owner_rows ?d) (fst e) = Some owner" by blast
    then obtain c' r' where r': "read_contract ?d c' = Some r'" "(fst e, owner) \<in> set (owner_entries r')"
      unfolding projects_rows [OF ok' indexes_okD(3) [OF ok']] by blast
    then have c': "c' \<noteq> c" "read_contract d c' = Some r'" using id(2) by (auto split: if_splits)
    obtain r'' where r'': "read_contract db c' = Some r''" "same_contract (Some r') (Some r'')"
      using others [OF c'(1)] c'(2) by (cases "read_contract db c'") auto
    obtain t t' where "t \<in> set (outpoints before)" "t' \<in> set (outpoints r'')" "tracked_outpoint t = tracked_outpoint t'"
      using e r'(2) same_contract_fields(1) [OF r''(2)] by (auto simp: owner_entries_def)
    then show False using owner_unique [OF ok before r''(1)] c'(1) by blast
  qed
  then show ?thesis using id by (auto simp: insert_contract_Ok)
qed

lemma contract_rows_determined:
  assumes "indexes_ok ops db" "indexes_ok ops d" "\<And>c. read_contract d c = read_contract db c"
  shows "contract_tables d = contract_tables db"
proof (rule indexes_determined [OF assms(2,1)])
  have keys: "tbl_get (contract_rows x) k = Some r \<Longrightarrow> \<exists>c. k = contract_fixed_key c" if "indexes_ok ops x" for x k r
    using indexes_okD(2) [OF that] unfolding keyed_rows_def by blast
  show "contract_rows d = contract_rows db"
  proof (rule tbl_extensional [OF indexes_okD(1) [OF assms(2)] indexes_okD(1) [OF assms(1)]])
    fix k
    show "tbl_get (contract_rows d) k = tbl_get (contract_rows db) k"
    proof (cases "\<exists>c. k = contract_fixed_key c")
      case True
      then show ?thesis using assms(3) by (auto simp: read_contract_def)
    next
      case False
      then show ?thesis using keys [OF assms(1)] keys [OF assms(2)] by (metis not_None_eq)
    qed
  qed
qed

definition reverts :: "node_ops \<Rightarrow> ContractUndo list \<Rightarrow> NodeDb \<Rightarrow> NodeDb \<Rightarrow> bool" where
  "reverts ops cs d db0 \<longleftrightarrow> (\<forall>affected. \<exists>d' affected'. rfold (revert_contract ops) cs (d, affected) = Ok (d', affected') \<and>
     contract_tables d' = contract_tables db0 \<and> other_tables d' = other_tables d)"

lemma reverts_step:
  assumes "\<And>affected. revert_contract ops c (d, affected) = Ok (d1, affected @ [undo_contract c])" "other_tables d1 = other_tables d"
    and "reverts ops cs d1 db0"
  shows "reverts ops (c # cs) d db0"
  unfolding reverts_def
proof
  fix affected
  obtain d' affected' where "rfold (revert_contract ops) cs (d1, affected @ [undo_contract c]) = Ok (d', affected')"
    "contract_tables d' = contract_tables db0" "other_tables d' = other_tables d1"
    using assms(3) unfolding reverts_def by blast
  then show "\<exists>d' affected'. rfold (revert_contract ops) (c # cs) (d, affected) = Ok (d', affected') \<and>
      contract_tables d' = contract_tables db0 \<and> other_tables d' = other_tables d"
    using assms(1,2) by simp
qed

lemma journal_reverts:
  assumes "journal ops db0 cs db" "indexes_ok ops db0" "indexes_ok ops d" "nearly (undo_contract ` set cs) db d"
  shows "reverts ops (rev cs) d db0"
  using assms
proof (induction arbitrary: d rule: journal.induct)
  case (journal_start db)
  then have "contract_tables d = contract_tables db0"
    using read_tables [OF journal_start.hyps] by (intro contract_rows_determined) (auto simp: nearly_def)
  then show ?case by (simp add: reverts_def)
next
  case (journal_create cs db r db1 db')
  have absent: "read_contract db (contract_id r) = None"
    using journal_create.hyps(3) by (simp add: insert_contract_Ok)
  have db': "read_contract db' c = (if c = contract_id r then Some r else read_contract db c)" for c
    using journal_create.hyps(3) read_tables [OF journal_create.hyps(4)] by (auto simp: insert_contract_Ok)
  obtain r' where r': "read_contract d (contract_id r) = Some r'" using nearly_some journal_create.prems(3) db' by metis
  have id: "contract_id r' = contract_id r" using read_sound [OF journal_create.prems(2) r'] by simp
  have "nearly (undo_contract ` set cs) db (remove_contract ops r' d)"
    using journal_create.prems(3) absent unfolding nearly_def db' by (auto simp: id split: if_splits)
  then have "reverts ops (rev cs) (remove_contract ops r' d) db0"
    by (rule journal_create.IH [OF journal_create.prems(1) remove_indexes [OF journal_create.prems(2) r']])
  then show ?case
    using revert_removes [OF journal_create.prems(2) r'] by (auto intro: reverts_step)
next
  case (journal_replace cs db c before after db1 db')
  have ok: "indexes_ok ops db" by (rule journal_indexes [OF journal_replace.hyps(1) journal_replace.prems(1)])
  have id: "contract_id before = c" using read_sound [OF ok journal_replace.hyps(2)] by simp
  have db': "read_contract db' c' = (if c' = c then Some after else read_contract db c')" for c'
    using journal_replace.hyps(3,6) id read_tables [OF journal_replace.hyps(7)] by (auto simp: insert_contract_Ok)
  obtain r' where r': "read_contract d c = Some r'" using nearly_some journal_replace.prems(3) db' by metis
  have id': "contract_id r' = c" using read_sound [OF journal_replace.prems(2) r'] by simp
  have others: "same_contract (read_contract d c') (read_contract db c')" if "c' \<noteq> c" for c'
    using journal_replace.prems(3) that unfolding nearly_def db' by metis
  let ?d = "install ops before (remove_contract ops r' d)"
  have ins: "insert_contract ops before (remove_contract ops r' d) = Ok ?d"
    by (rule reinsert [OF ok journal_replace.prems(2) journal_replace.hyps(2) r' others])
  have "indexes_ok ops ?d"
    using insert_indexes [OF remove_indexes [OF journal_replace.prems(2) r'] _ ins] read_sound [OF ok journal_replace.hyps(2)] by simp
  moreover have "nearly (undo_contract ` set cs) db ?d"
    using journal_replace.prems(3) journal_replace.hyps(2) unfolding nearly_def db' by (auto simp: id id' split: if_splits)
  ultimately have "reverts ops (rev cs) ?d db0"
    by (intro journal_replace.IH [OF journal_replace.prems(1)])
  then show ?case
    using revert_replaces [OF r' ins] by (auto intro: reverts_step)
next
  case (journal_touch cs db c before s db1 db')
  have ok: "indexes_ok ops db" by (rule journal_indexes [OF journal_touch.hyps(1) journal_touch.prems(1)])
  have id: "contract_id before = c" using read_sound [OF ok journal_touch.hyps(3)] by simp
  have db': "read_contract db' c' = (if c' = c then Some (before\<lparr>sync_state := s\<rparr>) else read_contract db c')" for c'
    using journal_touch.hyps(4) id read_tables [OF journal_touch.hyps(5)] by (auto simp: insert_contract_Ok)
  have near: "same_contract (read_contract d c') (read_contract db' c')"
    "c' \<notin> undo_contract ` set cs \<Longrightarrow> read_contract d c' = read_contract db' c'" for c'
    using journal_touch.prems(3) unfolding nearly_def by blast+
  have "same_contract (read_contract d c) (read_contract db c)"
    using near(1) [of c] journal_touch.hyps(3) same_contract_trans [OF _ same_contract_simps(4)] unfolding db' by auto
  then have "nearly (undo_contract ` set cs) db d"
    unfolding nearly_def using near journal_touch.hyps(2) db' by (metis (full_types))
  then show ?case by (rule journal_touch.IH [OF journal_touch.prems(1,2)])
qed

end
