(* ===== verification/Node_Undo.thy ===== *)
theory Node_Undo
  imports Node_Journal
begin

text \<open>
  A block's mutations can be undone from the journal it writes: every table is what it was before
  the block, extended by the keys the journal lists or changed at contracts whose old record it
  holds.
\<close>

section \<open>The state of a block application\<close>

definition progress_logged :: "(bytes, BackfillProgress) table \<Rightarrow> BackfillProgressUndo list \<Rightarrow> (bytes, BackfillProgress) table \<Rightarrow> bool" where
  "progress_logged t0 cs t \<longleftrightarrow> tbl_ok t \<and> fold revert_progress (rev cs) t = t0"

lemma progress_logged_insert:
  assumes "progress_logged t0 cs t" "tbl_get t (contract_fixed_key c) = Some before"
  shows "progress_logged t0 (cs @ [\<lparr>undo_progress_contract = c, progress_before = Some before\<rparr>]) (tbl_insert (contract_fixed_key c) p t)"
proof -
  let ?k = "contract_fixed_key c"
  have ok: "tbl_ok t" using assms(1) by (simp add: progress_logged_def)
  have "tbl_insert ?k before (tbl_remove ?k (tbl_insert ?k p t)) = t"
    by (rule tbl_extensional) (use ok assms(2) in auto)
  then show ?thesis using assms(1) by (simp add: progress_logged_def revert_progress_def)
qed

text \<open>The tables the journal lists keys of, all at the height of the block.\<close>

definition rows_logged :: "NodeDb \<Rightarrow> BlockDelta \<Rightarrow> NodeDb \<Rightarrow> UndoBlock \<Rightarrow> bool" where
  "rows_logged db0 delta db undo \<longleftrightarrow>
     touched (transaction_rows db0) (position_fixed_key ` set (transaction_positions undo)) (transaction_rows db) \<and>
     touched (output_rows db0) (outpoint_fixed_key ` set (output_outpoints undo)) (output_rows db) \<and>
     touched (history_rows db0) ((\<lambda>(c, p). history_key c p) ` set (history_keys undo)) (history_rows db) \<and>
     touched (hint_rows db0) (recovery_key ` set (recovery_locations undo)) (hint_rows db) \<and>
     (\<forall>p \<in> set (transaction_positions undo). block_height p = height (delta_anchor delta)) \<and>
     (\<forall>e \<in> set (history_keys undo). block_height (snd e) = height (delta_anchor delta)) \<and>
     (\<forall>l \<in> set (recovery_locations undo). block_height (location_position l) = height (delta_anchor delta)) \<and>
     (\<forall>q \<in> set (output_outpoints undo). txid q \<in> delta_txid ` set (relevant_transactions delta))"

definition kept_tables where
  "kept_tables db = (block_rows db, undo_rows db, tip_row db, meta_activation db, meta_status db, meta_identity db, retained_rows db)"

definition undoable :: "node_ops \<Rightarrow> NodeDb \<Rightarrow> BlockDelta \<Rightarrow> ChainAnchor \<Rightarrow> NodeDb \<times> UndoBlock \<Rightarrow> bool" where
  "undoable ops db0 delta tip s \<longleftrightarrow> journal ops db0 (contract_changes (snd s)) (fst s) \<and> rows_logged db0 delta (fst s) (snd s) \<and>
     progress_logged (progress_rows db0) (backfill_progress_changes (snd s)) (progress_rows (fst s)) \<and>
     kept_tables (fst s) = kept_tables db0 \<and> previous_tip (snd s) = tip"

text \<open>Tables that exist in the order the codec gives them.\<close>

definition plain_ok :: "NodeDb \<Rightarrow> bool" where
  "plain_ok db \<longleftrightarrow> tbl_ok (transaction_rows db) \<and> tbl_ok (output_rows db) \<and> tbl_ok (history_rows db) \<and> tbl_ok (hint_rows db) \<and>
     tbl_ok (progress_rows db) \<and> tbl_ok (block_rows db) \<and> tbl_ok (undo_rows db)"

lemma undoable_start: "plain_ok db \<Longrightarrow> undoable ops db delta tip (db, empty_undo tip)"
  by (simp add: undoable_def rows_logged_def progress_logged_def touched_refl empty_undo_def plain_ok_def journal_start)


section \<open>Transactions\<close>

lemma create_undoable:
  assumes "undoable ops db0 blk tip s" "typed_record ops r" "create_contract ops delta n r s = Ok s'"
  shows "undoable ops db0 blk tip s'"
proof -
  obtain db undo where s: "s = (db, undo)" by (cases s)
  have ins: "insert_contract ops r db = Ok (install ops r db)"
    and s': "s' = (install ops r db, log_contract \<lparr>undo_contract = contract_id r, contract_before = None\<rparr> undo)"
    using assms(3) s by (auto simp: create_contract_def result_simps insert_contract_Ok)
  have j: "journal ops db0 (contract_changes undo) db" using assms(1) s by (simp add: undoable_def)
  have "journal ops db0 (contract_changes undo @ [\<lparr>undo_contract = contract_id r, contract_before = None\<rparr>]) (install ops r db)"
    by (rule journal_create [OF j assms(2) ins refl])
  then show ?thesis using assms(1) s by (simp add: s' undoable_def rows_logged_def kept_tables_def)
qed

lemma update_Ok:
  assumes "update_contract ops delta n u (db, undo) = Ok s'"
  obtains before where "read_contract db (updated_contract u) = Some before"
    "insert_contract ops (before\<lparr>contract_state := new_contract_state u, outpoints := new_outpoints u\<rparr>) (remove_contract ops before db) =
      Ok (install ops (before\<lparr>contract_state := new_contract_state u, outpoints := new_outpoints u\<rparr>) (remove_contract ops before db))"
    "tbl_get (history_rows db) (history_key (updated_contract u) (delta_position delta)) = None"
    "fst s' = (install ops (before\<lparr>contract_state := new_contract_state u, outpoints := new_outpoints u\<rparr>) (remove_contract ops before db))
       \<lparr>history_rows := tbl_insert (history_key (updated_contract u) (delta_position delta)) (history_entry delta u) (history_rows db)\<rparr>"
    "snd s' = (log_contract \<lparr>undo_contract = updated_contract u, contract_before = Some before\<rparr> undo)
       \<lparr>history_keys := history_keys undo @ [(updated_contract u, delta_position delta)]\<rparr>"
proof -
  obtain before db1 db2 where 1: "read_contract db (updated_contract u) = Some before"
    and rep: "replace_state ops before u db = Ok db1" and hist: "insert_history delta u db1 = Ok db2"
    and s': "fst s' = db2" "snd s' = (log_contract \<lparr>undo_contract = updated_contract u, contract_before = Some before\<rparr> undo)
       \<lparr>history_keys := history_keys undo @ [(updated_contract u, delta_position delta)]\<rparr>"
    using assms by (auto simp: update_contract_def result_simps Let_def)
  note ins = replace_state_Ok [OF rep]
  have db1: "db1 = install ops (before\<lparr>contract_state := new_contract_state u, outpoints := new_outpoints u\<rparr>) (remove_contract ops before db)"
    using ins by (simp add: insert_contract_Ok)
  show thesis
    by (rule that [OF 1]) (use ins db1 insert_history_Ok [OF hist] s' in simp_all)
qed

lemma update_undoable:
  assumes "undoable ops db0 blk tip s" "block_height (delta_position delta) = height (delta_anchor blk)" "indexes_ok ops db0" "update_contract ops delta n u s = Ok s'"
  shows "undoable ops db0 blk tip s'"
proof -
  obtain db undo where s: "s = (db, undo)" by (cases s)
  show ?thesis
  proof (rule update_Ok [OF assms(4) [unfolded s]])
    fix before :: ContractRecord
    let ?after = "before\<lparr>contract_state := new_contract_state u, outpoints := new_outpoints u\<rparr>"
    let ?k = "history_key (updated_contract u) (delta_position delta)"
    assume before: "read_contract db (updated_contract u) = Some before"
      and ins: "insert_contract ops ?after (remove_contract ops before db) = Ok (install ops ?after (remove_contract ops before db))"
      and absent: "tbl_get (history_rows db) ?k = None"
      and db': "fst s' = (install ops ?after (remove_contract ops before db))
         \<lparr>history_rows := tbl_insert ?k (history_entry delta u) (history_rows db)\<rparr>"
      and undo': "snd s' = (log_contract \<lparr>undo_contract = updated_contract u, contract_before = Some before\<rparr> undo)
         \<lparr>history_keys := history_keys undo @ [(updated_contract u, delta_position delta)]\<rparr>"
    have j: "journal ops db0 (contract_changes undo) db" and
      g: "touched (history_rows db0) ((\<lambda>(c, p). history_key c p) ` set (history_keys undo)) (history_rows db)"
      using assms(1) s by (simp_all add: undoable_def rows_logged_def)
    have id: "contract_id ?after = updated_contract u"
      using read_sound [OF journal_indexes [OF j assms(3)] before] by simp
    have "journal ops db0 (contract_changes undo @ [\<lparr>undo_contract = updated_contract u, contract_before = Some before\<rparr>]) (fst s')"
      by (rule journal_replace [OF j before id _ _ ins]) (simp_all add: db' contract_tables_def)
    moreover note touched_insert [OF g, of "history_key (updated_contract u) (delta_position delta)" "history_entry delta u"]
    ultimately show ?thesis
      using assms(1,2) s by (simp add: undoable_def rows_logged_def kept_tables_def db' undo')
  qed
qed


lemma insert_refs_fields [simp]:
  "transaction_rows (fold (insert_output_ref p) refs db) = transaction_rows db"
  "history_rows (fold (insert_output_ref p) refs db) = history_rows db" "hint_rows (fold (insert_output_ref p) refs db) = hint_rows db"
  "progress_rows (fold (insert_output_ref p) refs db) = progress_rows db"
  "kept_tables (fold (insert_output_ref p) refs db) = kept_tables db"
  "contract_tables (fold (insert_output_ref p) refs db) = contract_tables db"
  by (induction refs arbitrary: db) (simp_all add: insert_output_ref_def kept_tables_def contract_tables_def)

lemma insert_transaction_row_fields [simp]:
  "output_rows (insert_transaction_row p r db) = output_rows db" "history_rows (insert_transaction_row p r db) = history_rows db"
  "hint_rows (insert_transaction_row p r db) = hint_rows db" "progress_rows (insert_transaction_row p r db) = progress_rows db"
  "kept_tables (insert_transaction_row p r db) = kept_tables db" "contract_tables (insert_transaction_row p r db) = contract_tables db"
  "transaction_rows (insert_transaction_row p r db) = tbl_insert (position_fixed_key p) r (transaction_rows db)"
  by (simp_all add: insert_transaction_row_def kept_tables_def contract_tables_def)

lemma insert_refs_touched:
  assumes "touched t0 ks (output_rows db)"
  shows "touched t0 (ks \<union> outpoint_fixed_key ` set refs) (output_rows (fold (insert_output_ref p) refs db))"
  using assms
proof (induction refs arbitrary: db ks)
  case (Cons q refs)
  have "touched t0 (insert (outpoint_fixed_key q) ks) (output_rows (insert_output_ref p q db))"
    using touched_insert [OF Cons.prems(1)] by (simp add: insert_output_ref_def)
  from Cons.IH [OF this] show ?case by simp
qed simp

lemma push_event_kept:
  assumes "push_event ev db = Ok db'"
  shows "kept_tables db' = kept_tables db" "contract_tables db' = contract_tables db" "transaction_rows db' = transaction_rows db"
    "output_rows db' = output_rows db" "history_rows db' = history_rows db" "hint_rows db' = hint_rows db"
    "progress_rows db' = progress_rows db"
  using push_event_frame [OF assms] by (simp_all add: kept_tables_def)

lemma journal_frame: "journal ops db0 cs db \<Longrightarrow> contract_tables db' = contract_tables db \<Longrightarrow> journal ops db0 cs db'"
  by (induction rule: journal.induct) (auto intro: journal.intros)

lemma output_refs_txid: "output_refs delta = Ok refs \<Longrightarrow> q \<in> set refs \<Longrightarrow> \<exists>v. q = OutPoint (delta_txid delta) v"
  by (simp add: output_refs_def rmap_eq_Ok list_all2_conv_all_nth result_simps in_set_conv_nth) metis

lemma transaction_undoable:
  assumes start: "undoable ops db0 blk tip s" and typed: "\<forall>r \<in> set (created_contracts delta). typed_record ops r"
    and h: "block_height (delta_position delta) = height (delta_anchor blk)" and ok: "indexes_ok ops db0" and member: "delta \<in> set (relevant_transactions blk)"
    and run: "apply_chain_transaction ops anchor delta s = Ok s'"
  shows "undoable ops db0 blk tip s'"
proof (rule apply_transaction_Ok [OF run])
  fix n s1 db undo refs db3
  let ?row = "delta_transaction ops delta (sort_dedup_contracts (map contract_id (created_contracts delta) @ map updated_contract (state_updates delta)))"
  let ?p = "delta_position delta"
  assume create: "rfold (create_contract ops delta n) (created_contracts delta) s = Ok s1"
    and update: "rfold (update_contract ops delta n) (state_updates delta) s1 = Ok (db, undo)"
    and refs: "output_refs delta = Ok refs"
    and event: "push_event (TransactionApplied anchor (delta_txid delta) ?p
       (sort_dedup_contracts (map contract_id (created_contracts delta) @ map updated_contract (state_updates delta))))
       (fold (insert_output_ref ?p) refs (insert_transaction_row ?p ?row db)) = Ok db3"
    and s': "s' = (db3, undo\<lparr>transaction_positions := transaction_positions undo @ [?p], output_outpoints := output_outpoints undo @ refs\<rparr>)"
  let ?P = "undoable ops db0 blk tip"
  have "?P s1" by (rule rfold_invariant [where P = ?P, OF create start]) (use typed create_undoable in blast)
  then have u: "?P (db, undo)"
    by (rule rfold_invariant [where P = ?P, OF update]) (use update_undoable h ok in blast)
  then have g: "touched (transaction_rows db0) (position_fixed_key ` set (transaction_positions undo)) (transaction_rows db)"
    "touched (output_rows db0) (outpoint_fixed_key ` set (output_outpoints undo)) (output_rows (insert_transaction_row ?p ?row db))"
    by (simp_all add: undoable_def rows_logged_def)
  have "\<forall>q \<in> set refs. txid q \<in> delta_txid ` set (relevant_transactions blk)"
    using output_refs_txid [OF refs] member by fastforce
  moreover have "touched (output_rows db0) (outpoint_fixed_key ` set (output_outpoints undo) \<union> outpoint_fixed_key ` set refs) (output_rows db3)"
    using insert_refs_touched [OF g(2)] push_event_kept(4) [OF event] by simp
  moreover have "touched (transaction_rows db0) (insert (position_fixed_key ?p) (position_fixed_key ` set (transaction_positions undo))) (transaction_rows db3)"
    using touched_insert [OF g(1)] push_event_kept(3) [OF event] by simp
  moreover have "journal ops db0 (contract_changes undo) db3"
    using u push_event_kept(2) [OF event] by (simp add: undoable_def journal_frame [of ops db0 _ db])
  ultimately show ?thesis
    using u h push_event_kept [OF event]
    by (auto simp: undoable_def rows_logged_def s' image_Un)
qed

lemma hint_undoable:
  assumes "undoable ops db0 blk tip s" "block_height (location_position (hint_location hint)) = height (delta_anchor blk)" "apply_hint hint s = Ok s'"
  shows "undoable ops db0 blk tip s'"
proof -
  obtain db undo where s: "s = (db, undo)" by (cases s)
  have s': "s' = (db\<lparr>hint_rows := tbl_insert (recovery_key (hint_location hint)) hint (hint_rows db)\<rparr>,
      undo\<lparr>recovery_locations := recovery_locations undo @ [hint_location hint]\<rparr>)"
    using assms(3) s by (auto simp: apply_hint_def insert_recovery_hint_def result_simps)
  have g: "touched (hint_rows db0) (recovery_key ` set (recovery_locations undo)) (hint_rows db)"
    and j: "journal ops db0 (contract_changes undo) db"
    using assms(1) s by (simp_all add: undoable_def rows_logged_def)
  have "journal ops db0 (contract_changes undo) (fst s')"
    by (rule journal_frame [OF j]) (simp add: s' contract_tables_def)
  moreover note touched_insert [OF g, of "recovery_key (hint_location hint)" hint]
  ultimately show ?thesis
    using assms(1,2) s by (simp add: undoable_def rows_logged_def kept_tables_def s')
qed



section \<open>Logged contracts\<close>

lemma filter_nonempty: "filter P xs \<noteq> [] \<Longrightarrow> \<exists>x \<in> set xs. P x"
  by (induction xs) (auto split: if_splits)

lemma rfold_Cons_Ok:
  assumes "rfold f (x # xs) s = Ok s'"
  obtains s1 where "f x s = Ok s1" "rfold f xs s1 = Ok s'"
  using assms by (auto simp: result_simps)

lemma rfold_collect:
  assumes "rfold f xs s = Ok s'" "\<And>x s s'. x \<in> set xs \<Longrightarrow> f x s = Ok s' \<Longrightarrow> A s \<union> B x \<subseteq> A s'"
  shows "A s \<union> (\<Union>x \<in> set xs. B x) \<subseteq> A s'"
  using assms
proof (induction xs arbitrary: s)
  case (Cons x xs)
  then obtain s1 where s1: "f x s = Ok s1" "rfold f xs s1 = Ok s'" by (auto simp: result_simps)
  have "A s1 \<union> (\<Union>x \<in> set xs. B x) \<subseteq> A s'" using Cons.IH [OF s1(2)] Cons.prems(2) by (meson list.set_intros(2))
  moreover have "A s \<union> B x \<subseteq> A s1" using Cons.prems(2) [OF _ s1(1)] by simp
  ultimately show ?case by auto
qed simp

abbreviation logged_ids :: "NodeDb \<times> UndoBlock \<Rightarrow> ContractId set" where
  "logged_ids s \<equiv> undo_contract ` set (contract_changes (snd s))"

lemma update_logs: "update_contract ops delta n u s = Ok s' \<Longrightarrow> logged_ids s \<union> {updated_contract u} \<subseteq> logged_ids s'"
  by (cases s) (auto simp: update_contract_def result_simps Let_def)

lemma create_logs: "create_contract ops delta n r s = Ok s' \<Longrightarrow> logged_ids s \<union> {contract_id r} \<subseteq> logged_ids s'"
  by (cases s) (auto simp: create_contract_def result_simps)

lemma transaction_logs:
  assumes "apply_chain_transaction ops anchor delta s = Ok s'"
  shows "logged_ids s \<union> updated_contract ` set (state_updates delta) \<subseteq> logged_ids s'"
proof (rule apply_transaction_Ok [OF assms])
  fix n s1 db undo refs db3
  assume create: "rfold (create_contract ops delta n) (created_contracts delta) s = Ok s1"
    and update: "rfold (update_contract ops delta n) (state_updates delta) s1 = Ok (db, undo)"
    and s': "s' = (db3, undo\<lparr>transaction_positions := transaction_positions undo @ [delta_position delta], output_outpoints := output_outpoints undo @ refs\<rparr>)"
  have "logged_ids s \<union> (\<Union>r \<in> set (created_contracts delta). {contract_id r}) \<subseteq> logged_ids s1"
    by (rule rfold_collect [where A = logged_ids, OF create]) (rule create_logs)
  moreover have "logged_ids s1 \<union> (\<Union>u \<in> set (state_updates delta). {updated_contract u}) \<subseteq> logged_ids (db, undo)"
    by (rule rfold_collect [where A = logged_ids, OF update]) (rule update_logs)
  moreover have "logged_ids s' = logged_ids (db, undo)" by (simp add: s')
  ultimately show ?thesis by blast
qed

lemma hint_logs: "apply_hint hint s = Ok s' \<Longrightarrow> logged_ids s' = logged_ids s"
  by (cases s) (auto simp: apply_hint_def result_simps)


section \<open>Catching-up contracts\<close>

text \<open>A progress row is current when the table still holds it.\<close>

definition current_row :: "NodeDb \<times> UndoBlock \<Rightarrow> BackfillProgress \<Rightarrow> bool" where
  "current_row s p \<longleftrightarrow> tbl_get (progress_rows (fst s)) (contract_fixed_key (progress_contract p)) = Some p"

lemma advance_undoable:
  assumes start: "undoable ops db0 blk tip s" and ok: "indexes_ok ops db0" and current: "current_row s p"
    and logged: "filter (\<lambda>u. updated_contract u = progress_contract p) (concat (map state_updates (relevant_transactions delta))) \<noteq> [] \<Longrightarrow>
      progress_contract p \<in> logged_ids s"
    and run: "advance_catching ops delta digest next p s = Ok s'"
  shows "undoable ops db0 blk tip s' \<and> logged_ids s \<subseteq> logged_ids s' \<and>
    (\<forall>q. progress_contract q \<noteq> progress_contract p \<longrightarrow> current_row s q \<longrightarrow> current_row s' q)"
proof -
  let ?c = "progress_contract p"
  obtain db undo where s: "s = (db, undo)" by (cases s)
  show ?thesis
  proof (rule advance_catching_Ok [OF run [unfolded s]])
    assume "s' = (db, undo)"
    then show ?thesis using start s by simp
  next
    fix before db1 count db3 db4
    let ?log = "if filter (\<lambda>u. updated_contract u = ?c) (concat (map state_updates (relevant_transactions delta))) = []
        then log_contract \<lparr>undo_contract = ?c, contract_before = Some before\<rparr> undo else undo"
    let ?p = "p\<lparr>pinned_tip := delta_anchor delta, next_position := \<lparr>block_height = next, tx_index = 0\<rparr>,
            last_applied := Some (delta_anchor delta, digest)\<rparr>"
    assume before: "read_contract db ?c = Some before"
      and ins: "insert_contract ops (before\<lparr>sync_state := Ready (delta_anchor delta)\<rparr>) (remove_contract ops before db) = Ok db1"
      and ev: "push_event (BackfillApplied ?c (delta_anchor delta) count)
        (db1\<lparr>progress_rows := tbl_insert (contract_fixed_key ?c) ?p (progress_rows db1)\<rparr>) = Ok db3"
        "push_event (ContractReady ?c (delta_anchor delta)) db3 = Ok db4"
      and s': "s' = (db4, ?log\<lparr>backfill_progress_changes := backfill_progress_changes undo @
          [\<lparr>undo_progress_contract = ?c, progress_before = Some p\<rparr>]\<rparr>)"
    have j: "journal ops db0 (contract_changes undo) db" using start s by (simp add: undoable_def)
    have db1: "db1 = install ops (before\<lparr>sync_state := Ready (delta_anchor delta)\<rparr>) (remove_contract ops before db)"
      using ins by (simp add: insert_contract_Ok)
    note kept = push_event_kept [OF ev(1)] push_event_kept [OF ev(2)]
    have tables: "contract_tables db4 = contract_tables db1" using kept by (simp add: contract_tables_def)
    have id: "contract_id before = ?c" using read_sound [OF journal_indexes [OF j ok] before] by simp
    have "journal ops db0 (contract_changes ?log) db4"
    proof (cases "filter (\<lambda>u. updated_contract u = ?c) (concat (map state_updates (relevant_transactions delta))) = []")
      case True
      then show ?thesis using journal_replace [OF j before _ _ _ ins tables] id by simp
    next
      case False
      then show ?thesis using journal_touch [OF j _ before ins tables] logged s by simp
    qed
    moreover have "progress_logged (progress_rows db0) (backfill_progress_changes undo @ [\<lparr>undo_progress_contract = ?c, progress_before = Some p\<rparr>])
        (progress_rows db4)"
      using progress_logged_insert [of "progress_rows db0" "backfill_progress_changes undo" "progress_rows db" ?c p ?p] start current kept s
      by (simp add: undoable_def current_row_def db1)
    moreover have "rows_logged db0 blk db4 undo" "kept_tables db4 = kept_tables db0"
      using start kept s by (simp_all add: undoable_def rows_logged_def db1 kept_tables_def)
    moreover have "progress_rows db4 = tbl_insert (contract_fixed_key ?c) ?p (progress_rows db)" using kept by (simp add: db1)
    ultimately show ?thesis
      using start s by (auto simp: undoable_def s' rows_logged_def current_row_def)
  qed
qed


lemma create_progress: "create_contract ops delta n r s = Ok s' \<Longrightarrow> progress_rows (fst s') = progress_rows (fst s)"
  by (cases s) (auto simp: create_contract_def result_simps insert_contract_Ok)

lemma update_progress:
  assumes "update_contract ops delta n u s = Ok s'"
  shows "progress_rows (fst s') = progress_rows (fst s)"
proof -
  obtain db undo where s: "s = (db, undo)" by (cases s)
  show ?thesis by (rule update_Ok [OF assms [unfolded s]]) (simp add: s)
qed

lemma transaction_progress:
  assumes "apply_chain_transaction ops anchor delta s = Ok s'"
  shows "progress_rows (fst s') = progress_rows (fst s)"
proof (rule apply_transaction_Ok [OF assms])
  fix n s1 db undo refs db3
  let ?P = "\<lambda>x. progress_rows (fst x) = progress_rows (fst s)"
  assume create: "rfold (create_contract ops delta n) (created_contracts delta) s = Ok s1"
    and update: "rfold (update_contract ops delta n) (state_updates delta) s1 = Ok (db, undo)"
    and event: "push_event (TransactionApplied anchor (delta_txid delta) (delta_position delta)
       (sort_dedup_contracts (map contract_id (created_contracts delta) @ map updated_contract (state_updates delta))))
       (fold (insert_output_ref (delta_position delta)) refs (insert_transaction_row (delta_position delta)
         (delta_transaction ops delta (sort_dedup_contracts (map contract_id (created_contracts delta) @
           map updated_contract (state_updates delta)))) db)) = Ok db3"
    and s': "s' = (db3, undo\<lparr>transaction_positions := transaction_positions undo @ [delta_position delta], output_outpoints := output_outpoints undo @ refs\<rparr>)"
  have "?P s1" by (rule rfold_invariant [where P = ?P, OF create refl]) (use create_progress in metis)
  then have "?P (db, undo)" by (rule rfold_invariant [where P = ?P, OF update]) (use update_progress in metis)
  then show ?thesis using push_event_kept(7) [OF event] by (simp add: s')
qed

lemma hint_progress: "apply_hint hint s = Ok s' \<Longrightarrow> progress_rows (fst s') = progress_rows (fst s)"
  by (cases s) (auto simp: apply_hint_def insert_recovery_hint_def result_simps)

lemma advance_rows_undoable:
  assumes "undoable ops db0 blk tip s" "indexes_ok ops db0" "\<forall>p \<in> set rows. current_row s p" "distinct (map progress_contract rows)"
    and "updated_contract ` set (concat (map state_updates (relevant_transactions delta))) \<subseteq> logged_ids s"
    and "rfold (advance_catching ops delta digest next) rows s = Ok s'"
  shows "undoable ops db0 blk tip s'"
  using assms
proof (induction rows arbitrary: s)
  case (Cons p rows)
  obtain s1 where s1: "advance_catching ops delta digest next p s = Ok s1" "rfold (advance_catching ops delta digest next) rows s1 = Ok s'"
    by (rule rfold_Cons_Ok [OF Cons.prems(6)])
  have logged: "progress_contract p \<in> logged_ids s"
    if nonempty: "filter (\<lambda>u. updated_contract u = progress_contract p) (concat (map state_updates (relevant_transactions delta))) \<noteq> []"
  proof -
    obtain u where u: "u \<in> set (concat (map state_updates (relevant_transactions delta)))" "updated_contract u = progress_contract p"
      using filter_nonempty [OF nonempty] by blast
    have "updated_contract u \<in> logged_ids s" by (rule subsetD [OF Cons.prems(5)]) (rule imageI [OF u(1)])
    then show ?thesis by (simp only: u(2))
  qed
  have step: "undoable ops db0 blk tip s1" "logged_ids s \<subseteq> logged_ids s1"
    "\<forall>q. progress_contract q \<noteq> progress_contract p \<longrightarrow> current_row s q \<longrightarrow> current_row s1 q"
    using advance_undoable [OF Cons.prems(1,2) _ logged s1(1)] Cons.prems(3) by simp_all
  have "\<forall>q \<in> set rows. current_row s1 q"
  proof
    fix q assume q: "q \<in> set rows"
    have "progress_contract q \<noteq> progress_contract p" using Cons.prems(4) imageI [OF q, of progress_contract] by auto
    then show "current_row s1 q" using step(3) Cons.prems(3) q by simp
  qed
  then show ?case using Cons.IH [OF step(1) Cons.prems(2) _ _ _ s1(2)] step(2) Cons.prems(4,5) by simp
qed simp

definition progress_keyed :: "NodeDb \<Rightarrow> bool" where
  "progress_keyed db \<longleftrightarrow> (\<forall>k p. tbl_get (progress_rows db) k = Some p \<longrightarrow> k = contract_fixed_key (progress_contract p))"

lemma progress_rows_current:
  assumes "tbl_ok t" "\<And>k p. tbl_get t k = Some p \<Longrightarrow> k = contract_fixed_key (progress_contract p)"
  shows "distinct (map progress_contract (filter P (map snd t)))"
    "\<And>p. p \<in> set (map snd t) \<Longrightarrow> tbl_get t (contract_fixed_key (progress_contract p)) = Some p"
proof -
  have keyed: "e \<in> set t \<Longrightarrow> fst e = contract_fixed_key (progress_contract (snd e))" for e
    using assms tbl_entries_get by (metis prod.collapse)
  then have keys: "map contract_fixed_key (map progress_contract (map snd t)) = map fst t" by simp
  have "distinct (map fst t)" using assms(1) by (simp add: tbl_ok_def strict_sorted_iff)
  then have "distinct (map contract_fixed_key (map progress_contract (map snd t)))" unfolding keys .
  then have "distinct (map progress_contract (map snd t))" unfolding distinct_map [of contract_fixed_key] by blast
  then show "distinct (map progress_contract (filter P (map snd t)))" using distinct_map_filter by blast
  fix p assume "p \<in> set (map snd t)"
  then obtain e where "e \<in> set t" "p = snd e" by auto
  then show "tbl_get t (contract_fixed_key (progress_contract p)) = Some p"
    using keyed assms(1) tbl_entries_get by (metis prod.collapse)
qed

text \<open>The rows of a well-shaped block are at its height.\<close>

definition block_at_height :: "BlockDelta \<Rightarrow> bool" where
  "block_at_height delta \<longleftrightarrow> (\<forall>t \<in> set (relevant_transactions delta). block_height (delta_position t) = height (delta_anchor delta)) \<and>
     (\<forall>l \<in> set (recovery_hints delta). block_height (location_position (hint_location l)) = height (delta_anchor delta))"

lemma body_undoable:
  assumes ok: "indexes_ok ops db" "plain_ok db" "progress_keyed db" and typed: "typed_block ops delta"
    and at: "block_at_height delta"
    and run: "apply_block_body ops delta digest tip db = Ok s'"
  shows "undoable ops db delta tip s'"
proof -
  let ?txs = "sort_key (\<lambda>t. tx_index (delta_position t)) (relevant_transactions delta)"
  let ?U = "undoable ops db delta tip" and ?R = "\<lambda>x. progress_rows (fst x) = progress_rows db"
  from run obtain s1 s2 where
    txs: "rfold (apply_chain_transaction ops (delta_anchor delta)) ?txs (db, empty_undo tip) = Ok s1"
    and hints: "rfold apply_hint (recovery_hints delta) s1 = Ok s2"
    and advance: "advance_catching_through_canonical_block ops delta digest s2 = Ok s'"
    by (auto simp: apply_block_body_def result_simps)
  have "?U s1"
  proof (rule rfold_invariant [where P = ?U, OF txs])
    fix t s s'
    assume t: "t \<in> set ?txs" and u: "?U s" and run: "apply_chain_transaction ops (delta_anchor delta) t s = Ok s'"
    have t: "t \<in> set (relevant_transactions delta)" using t by simp
    show "?U s'"
    proof (rule transaction_undoable [OF u _ _ ok(1) t run])
      show "\<forall>r \<in> set (created_contracts t). typed_record ops r" using typed t unfolding typed_block_def by blast
      show "block_height (delta_position t) = height (delta_anchor delta)" using at t unfolding block_at_height_def by blast
    qed
  qed (rule undoable_start [OF ok(2)])
  then have u2: "?U s2"
    by (rule rfold_invariant [where P = ?U, OF hints]) (use at hint_undoable in \<open>auto simp: block_at_height_def\<close>)
  have "?R s1" by (rule rfold_invariant [where P = ?R, OF txs]) (use transaction_progress in \<open>auto\<close>)
  then have r2: "?R s2" by (rule rfold_invariant [where P = ?R, OF hints]) (use hint_progress in \<open>auto\<close>)
  have "logged_ids (db, empty_undo tip) \<union> (\<Union>t \<in> set ?txs. updated_contract ` set (state_updates t)) \<subseteq> logged_ids s1"
    by (rule rfold_collect [where A = logged_ids, OF txs]) (rule transaction_logs)
  moreover have "logged_ids s1 \<union> (\<Union>l \<in> set (recovery_hints delta). {}) \<subseteq> logged_ids s2"
    by (rule rfold_collect [where A = logged_ids, OF hints]) (use hint_logs in blast)
  moreover have "updated_contract ` set (concat (map state_updates (relevant_transactions delta))) =
      (\<Union>t \<in> set ?txs. updated_contract ` set (state_updates t))" by (simp add: image_UN)
  ultimately have logged: "updated_contract ` set (concat (map state_updates (relevant_transactions delta))) \<subseteq> logged_ids s2"
    by (metis (no_types, lifting) le_sup_iff subset_trans)
  let ?rows = "filter (\<lambda>p. block_height (next_position p) = height (delta_anchor delta)) (map snd (progress_rows db))"
  have rows: "distinct (map progress_contract ?rows)" "\<forall>p \<in> set ?rows. current_row s2 p"
    using progress_rows_current [of "progress_rows db"] ok(2,3) r2 by (auto simp: progress_keyed_def plain_ok_def current_row_def)
  have "?U s'" if "rfold (advance_catching ops delta digest n) ?rows s2 = Ok s'" for n
    by (rule advance_rows_undoable [OF u2 ok(1) rows(2,1) logged that])
  then show ?thesis
    using advance u2 by (simp add: advance_catching_through_canonical_block_def Let_def result_simps r2 split: if_splits) blast
qed


lemma rfold_all:
  assumes "rfold f xs s = Ok s'" "\<And>x s s'. f x s = Ok s' \<Longrightarrow> P x"
  shows "\<forall>x \<in> set xs. P x"
  using assms(1)
proof (induction xs arbitrary: s)
  case (Cons x xs)
  obtain s1 where "f x s = Ok s1" "rfold f xs s1 = Ok s'" by (rule rfold_Cons_Ok [OF Cons.prems])
  then show ?case using assms(2) Cons.IH by auto
qed simp

lemma shape_at_height:
  assumes "validate_block_shape ops delta = Ok ()"
  shows "block_at_height delta"
proof -
  obtain ps ls where txs: "rfold (check_block_transaction ops delta) (relevant_transactions delta) [] = Ok ps"
    and hints: "rfold (check_block_hint delta) (recovery_hints delta) [] = Ok ls"
    using assms by (auto simp: validate_block_shape_def result_simps)
  have "\<forall>t \<in> set (relevant_transactions delta). block_height (delta_position t) = height (delta_anchor delta)"
    by (rule rfold_all [OF txs]) (auto simp: check_block_transaction_def result_simps Let_def)
  moreover have "\<forall>l \<in> set (recovery_hints delta). block_height (location_position (hint_location l)) = height (delta_anchor delta)"
    by (rule rfold_all [OF hints]) (auto simp: check_block_hint_def result_simps Let_def)
  ultimately show ?thesis by (simp add: block_at_height_def)
qed


section \<open>Reverting a block\<close>

text \<open>The tables derived from the chain, apart from the checkpoints.\<close>

definition chain_view where
  "chain_view db = (contract_tables db, transaction_rows db, output_rows db, history_rows db, hint_rows db, progress_rows db)"

text \<open>None of the rows the journal lists was there before.\<close>

definition unlisted :: "UndoBlock \<Rightarrow> NodeDb \<Rightarrow> bool" where
  "unlisted undo db \<longleftrightarrow>
     (\<forall>p \<in> set (transaction_positions undo). tbl_get (transaction_rows db) (position_fixed_key p) = None) \<and>
     (\<forall>q \<in> set (output_outpoints undo). tbl_get (output_rows db) (outpoint_fixed_key q) = None) \<and>
     (\<forall>e \<in> set (history_keys undo). tbl_get (history_rows db) (history_key (fst e) (snd e)) = None) \<and>
     (\<forall>l \<in> set (recovery_locations undo). tbl_get (hint_rows db) (recovery_key l) = None)"

lemma touched_revert_map:
  assumes "tbl_ok t0" "touched t0 (f ` set xs) t" "\<forall>x \<in> set xs. tbl_get t0 (f x) = None"
  shows "fold (\<lambda>x. tbl_remove (f x)) xs t = t0"
  using touched_revert [of t0 "map f xs" t] assms by (simp add: fold_map comp_def)

lemma rows_reverted:
  assumes "plain_ok db0" "rows_logged db0 delta db undo" "unlisted undo db0"
  shows "fold (\<lambda>p. tbl_remove (position_fixed_key p)) (transaction_positions undo) (transaction_rows db) = transaction_rows db0"
    "fold (\<lambda>p. tbl_remove (outpoint_fixed_key p)) (output_outpoints undo) (output_rows db) = output_rows db0"
    "fold (\<lambda>(c, p). tbl_remove (history_key c p)) (history_keys undo) (history_rows db) = history_rows db0"
    "fold (\<lambda>l. tbl_remove (recovery_key l)) (recovery_locations undo) (hint_rows db) = hint_rows db0"
proof -
  have ok: "tbl_ok (transaction_rows db0)" "tbl_ok (output_rows db0)" "tbl_ok (history_rows db0)" "tbl_ok (hint_rows db0)"
    using assms(1) by (simp_all add: plain_ok_def)
  have t: "touched (transaction_rows db0) (position_fixed_key ` set (transaction_positions undo)) (transaction_rows db)"
    "touched (output_rows db0) (outpoint_fixed_key ` set (output_outpoints undo)) (output_rows db)"
    "touched (history_rows db0) ((\<lambda>(c, p). history_key c p) ` set (history_keys undo)) (history_rows db)"
    "touched (hint_rows db0) (recovery_key ` set (recovery_locations undo)) (hint_rows db)"
    using assms(2) unfolding rows_logged_def by blast+
  note absent = assms(3) [unfolded unlisted_def]
  show "fold (\<lambda>p. tbl_remove (position_fixed_key p)) (transaction_positions undo) (transaction_rows db) = transaction_rows db0"
    by (rule touched_revert_map [OF ok(1) t(1)]) (use absent in blast)
  show "fold (\<lambda>p. tbl_remove (outpoint_fixed_key p)) (output_outpoints undo) (output_rows db) = output_rows db0"
    by (rule touched_revert_map [OF ok(2) t(2)]) (use absent in blast)
  have "fold (\<lambda>e. tbl_remove ((\<lambda>(c, p). history_key c p) e)) (history_keys undo) (history_rows db) = history_rows db0"
    by (rule touched_revert_map [OF ok(3) t(3)]) (use absent in \<open>simp add: case_prod_beta\<close>)
  then show "fold (\<lambda>(c, p). tbl_remove (history_key c p)) (history_keys undo) (history_rows db) = history_rows db0"
    by (simp add: case_prod_unfold)
  show "fold (\<lambda>l. tbl_remove (recovery_key l)) (recovery_locations undo) (hint_rows db) = hint_rows db0"
    by (rule touched_revert_map [OF ok(4) t(4)]) (use absent in blast)
qed

lemma chain_view_rows:
  assumes "chain_view d = chain_view db"
  shows "contract_tables d = contract_tables db" "transaction_rows d = transaction_rows db" "output_rows d = output_rows db"
    "history_rows d = history_rows db" "hint_rows d = hint_rows db" "progress_rows d = progress_rows db"
  using assms by (simp_all add: chain_view_def)

lemma revert_undoable:
  assumes ok: "indexes_ok ops db0" "plain_ok db0" and undoable: "undoable ops db0 delta tip (db, undo)" and new: "unlisted undo db0"
    and view: "chain_view (rb_db s) = chain_view db" and row: "tbl_get (undo_rows (rb_db s)) (height_key h) = Some undo"
  obtains s' where "revert_block ops h s = Ok s'" "chain_view (rb_db s') = chain_view db0" "rb_tip s' = tip"
    "block_rows (rb_db s') = tbl_remove (height_key h) (block_rows (rb_db s))"
    "undo_rows (rb_db s') = tbl_remove (height_key h) (undo_rows (rb_db s))"
    "event_rows (rb_db s') = event_rows (rb_db s)" "meta_epoch (rb_db s') = meta_epoch (rb_db s)"
    "meta_sequence (rb_db s') = meta_sequence (rb_db s)" "retained_rows (rb_db s') = retained_rows (rb_db s)"
    "meta_activation (rb_db s') = meta_activation (rb_db s)"
proof -
  note rows = chain_view_rows [OF view]
  have u: "journal ops db0 (contract_changes undo) db" "rows_logged db0 delta db undo" "previous_tip undo = tip"
    "progress_logged (progress_rows db0) (backfill_progress_changes undo) (progress_rows db)"
    using undoable by (simp_all add: undoable_def)
  have "indexes_ok ops (rb_db s)" using journal_indexes [OF u(1) ok(1)] indexes_ok_cong [OF rows(1)] by simp
  then have "reverts ops (rev (contract_changes undo)) (rb_db s) db0"
    by (rule journal_reverts [OF u(1) ok(1)]) (simp add: nearly_def read_tables [OF rows(1)])
  then obtain d affected where fold: "rfold (revert_contract ops) (rev (contract_changes undo)) (rb_db s, rb_affected s) = Ok (d, affected)"
    and d: "contract_tables d = contract_tables db0" "other_tables d = other_tables (rb_db s)"
    unfolding reverts_def by blast
  note frame = other_tables_frame [OF d(2)]
  let ?s = "\<lparr>rb_db = revert_rows undo h d, rb_tip = previous_tip undo, rb_positions = rb_positions s @ transaction_positions undo, rb_affected = affected\<rparr>"
  have run: "revert_block ops h s = Ok ?s" using row fold by (simp add: revert_block_def)
  have "chain_view (rb_db ?s) = chain_view db0"
    using rows_reverted [OF ok(2) u(2) new] u(4) d(1)
    by (simp add: chain_view_def revert_rows_def frame rows contract_tables_def progress_logged_def)
  then show thesis by (rule that [OF run]) (simp_all add: u(3) revert_rows_def frame)
qed

end
