(* ===== verification/Node_Dated.thy ===== *)
theory Node_Dated
  imports Node_Undo
begin

text \<open>
  The shape of the indexed chain: checkpoints form one hash chain from the activation anchor to the
  tip, journals belong to its newest blocks, and no row of a transaction, a transition or a hint
  lies above the tip or outside the journal of its block.
\<close>

section \<open>The chain of checkpoints\<close>

definition anchor_at :: "NodeDb \<Rightarrow> u32 \<Rightarrow> ChainAnchor option" where
  "anchor_at db h = (case meta_activation db of
       None \<Rightarrow> None
     | Some a \<Rightarrow> if h = height a then Some a else map_option stored_anchor (tbl_get (block_rows db) (height_key h)))"

definition chain_from :: "NodeDb \<Rightarrow> ChainAnchor \<Rightarrow> ChainAnchor \<Rightarrow> bool" where
  "chain_from db a t \<longleftrightarrow> height a \<le> height t \<and> anchor_at db (height t) = Some t \<and>
     (\<forall>k b. tbl_get (block_rows db) k = Some b \<longrightarrow> (\<exists>h. k = height_key h \<and> height a < h \<and> h \<le> height t \<and> height (stored_anchor b) = h)) \<and>
     (\<forall>h. height a < h \<longrightarrow> h \<le> height t \<longrightarrow>
        (\<exists>b p. tbl_get (block_rows db) (height_key h) = Some b \<and> anchor_at db (h - 1) = Some p \<and> stored_prev_hash b = hash p)) \<and>
     (\<forall>k u. tbl_get (undo_rows db) k = Some u \<longrightarrow>
        (\<exists>h. k = height_key h \<and> height a < h \<and> h \<le> height t \<and> anchor_at db (h - 1) = Some (previous_tip u)))"

definition linked :: "NodeDb \<Rightarrow> bool" where
  "linked db \<longleftrightarrow> (case (meta_activation db, tip_row db) of
       (None, None) \<Rightarrow> block_rows db = [] \<and> undo_rows db = []
     | (Some a, Some t) \<Rightarrow> chain_from db a t
     | _ \<Rightarrow> False)"

lemma height_key_inject [simp]: "height_key h = height_key h' \<longleftrightarrow> h = h'"
  by (simp add: height_key_def)

lemma next_height:
  assumes "checked_add (t :: u32) 1 = Some h"
  shows "t < h" "h - 1 = t" "x \<le> h \<longleftrightarrow> x \<le> t \<or> x = h" "h = t + 1"
proof -
  have h: "unat h = unat t + 1" using assms by (simp add: checked_simps)
  show "t < h" "x \<le> h \<longleftrightarrow> x \<le> t \<or> x = h" using h by (auto simp: word_less_nat_alt word_le_nat_alt word_unat_eq_iff)
  have "unat (t + 1) = unat t + 1" using h unat_less_pow [of h] by (simp add: unat_word_ariths)
  then show "h = t + 1" using h by (simp add: word_unat_eq_iff)
  then show "h - 1 = t" by simp
qed

lemma below_height:
  assumes "(a :: u32) < h"
  shows "h - 1 < h" "a \<le> h - 1" "x \<le> h - 1 \<longleftrightarrow> x < h" "a < h - 1 + 1"
proof -
  have "h \<noteq> 0" using assms by auto
  then have h: "unat (h - 1) = unat h - 1" by (rule unat_minus_one)
  show "h - 1 < h" "a \<le> h - 1" "x \<le> h - 1 \<longleftrightarrow> x < h" "a < h - 1 + 1"
    using assms h by (auto simp: word_less_nat_alt word_le_nat_alt)
qed

lemma chain_fromD:
  assumes "chain_from db a t"
  shows "height a \<le> height t" "anchor_at db (height t) = Some t"
    "\<And>k b. tbl_get (block_rows db) k = Some b \<Longrightarrow> \<exists>h. k = height_key h \<and> height a < h \<and> h \<le> height t \<and> height (stored_anchor b) = h"
    "\<And>h. height a < h \<Longrightarrow> h \<le> height t \<Longrightarrow>
       \<exists>b p. tbl_get (block_rows db) (height_key h) = Some b \<and> anchor_at db (h - 1) = Some p \<and> stored_prev_hash b = hash p"
    "\<And>k u. tbl_get (undo_rows db) k = Some u \<Longrightarrow>
       \<exists>h. k = height_key h \<and> height a < h \<and> h \<le> height t \<and> anchor_at db (h - 1) = Some (previous_tip u)"
  using assms unfolding chain_from_def by blast+

lemma chain_fromI:
  assumes "height a \<le> height t" "anchor_at db (height t) = Some t"
    "\<And>k b. tbl_get (block_rows db) k = Some b \<Longrightarrow> \<exists>h. k = height_key h \<and> height a < h \<and> h \<le> height t \<and> height (stored_anchor b) = h"
    "\<And>h. height a < h \<Longrightarrow> h \<le> height t \<Longrightarrow>
       \<exists>b p. tbl_get (block_rows db) (height_key h) = Some b \<and> anchor_at db (h - 1) = Some p \<and> stored_prev_hash b = hash p"
    "\<And>k u. tbl_get (undo_rows db) k = Some u \<Longrightarrow>
       \<exists>h. k = height_key h \<and> height a < h \<and> h \<le> height t \<and> anchor_at db (h - 1) = Some (previous_tip u)"
  shows "chain_from db a t"
  using assms unfolding chain_from_def by simp

lemma linked_chain: "linked db \<Longrightarrow> tip_row db = Some t \<Longrightarrow> \<exists>a. meta_activation db = Some a \<and> chain_from db a t"
  by (auto simp: linked_def split: option.splits)

lemma linkedI: "meta_activation db = Some a \<Longrightarrow> tip_row db = Some t \<Longrightarrow> chain_from db a t \<Longrightarrow> linked db"
  by (simp add: linked_def)

lemma chain_anchor_height:
  assumes "meta_activation db = Some a" "chain_from db a t" "anchor_at db h = Some p"
  shows "height p = h"
proof (cases "h = height a")
  case True
  then show ?thesis using assms(1,3) by (simp add: anchor_at_def)
next
  case False
  then obtain b where "tbl_get (block_rows db) (height_key h) = Some b" "p = stored_anchor b"
    using assms(1,3) by (auto simp: anchor_at_def)
  then show ?thesis using chain_fromD(3) [OF assms(2), of "height_key h" b] by auto
qed

text \<open>Extending and shortening the chain.\<close>

lemma linked_extend:
  assumes linked: "linked db" and tip: "tip_row db = Some t" and succ: "checked_add (height t) 1 = Some (height t')"
    and db': "meta_activation db' = meta_activation db" "tip_row db' = Some t'"
      "block_rows db' = tbl_insert (height_key (height t')) b (block_rows db)" "stored_anchor b = t'" "stored_prev_hash b = hash t"
    and undo: "\<And>k u. tbl_get (undo_rows db') k = Some u \<Longrightarrow>
      tbl_get (undo_rows db) k = Some u \<or> k = height_key (height t') \<and> previous_tip u = t"
  shows "linked db'"
proof -
  obtain a where act: "meta_activation db = Some a" and c: "chain_from db a t" using linked_chain [OF linked tip] by blast
  note a = act chain_fromD(1,2) [OF c] and blocks = chain_fromD(3) [OF c] and links = chain_fromD(4) [OF c] and undos = chain_fromD(5) [OF c]
  note n = next_height [OF succ]
  have at: "anchor_at db' h = anchor_at db h" if "h \<le> height t" for h
    using that n(1) by (auto simp: anchor_at_def db' split: option.split)
  have above: "height a < height t'" using a(2) n(1) by simp
  have below: "h - 1 \<le> height t" if "height a < h" "h \<le> height t" for h using below_height(1) [OF that(1)] that(2) by simp
  have "chain_from db' a t'"
  proof (rule chain_fromI)
    show "height a \<le> height t'" using above by simp
    show "anchor_at db' (height t') = Some t'" using above by (auto simp: anchor_at_def db' a(1))
    show "\<exists>h. k = height_key h \<and> height a < h \<and> h \<le> height t' \<and> height (stored_anchor x) = h"
      if "tbl_get (block_rows db') k = Some x" for k x
    proof (cases "k = height_key (height t')")
      case True
      then have "x = b" using that by (simp add: db')
      then show ?thesis using True above by (simp add: db')
    next
      case False
      then have "tbl_get (block_rows db) k = Some x" using that by (simp add: db')
      then show ?thesis using blocks [of k x] n(1) by (meson less_imp_le order_trans)
    qed
    show "\<exists>b p. tbl_get (block_rows db') (height_key h) = Some b \<and> anchor_at db' (h - 1) = Some p \<and> stored_prev_hash b = hash p"
      if "height a < h" "h \<le> height t'" for h
    proof (cases "h = height t'")
      case True
      then show ?thesis using a(3) n(2) at by (simp add: db')
    next
      case False
      then have h: "h \<le> height t" using n(3) that(2) by simp
      then show ?thesis using links [OF that(1) h] at [OF below [OF that(1) h]] False by (simp add: db')
    qed
    show "\<exists>h. k = height_key h \<and> height a < h \<and> h \<le> height t' \<and> anchor_at db' (h - 1) = Some (previous_tip u)"
      if "tbl_get (undo_rows db') k = Some u" for k u
      using undo [OF that]
    proof
      assume "tbl_get (undo_rows db) k = Some u"
      then obtain h where h: "k = height_key h" "height a < h" "h \<le> height t" "anchor_at db (h - 1) = Some (previous_tip u)"
        using undos by blast
      then show ?thesis using at [OF below [OF h(2,3)]] n(3) by auto
    next
      assume "k = height_key (height t') \<and> previous_tip u = t"
      then show ?thesis using above n(2) at a(3) by auto
    qed
  qed
  then show ?thesis using linkedI [of db' a t'] a(1) db'(1,2) by simp
qed


lemma linked_shorten:
  assumes linked: "linked db" and tip: "tip_row db = Some t" and row: "tbl_get (undo_rows db) (height_key (height t)) = Some u"
    and db': "meta_activation db' = meta_activation db" "tip_row db' = Some (previous_tip u)"
      "block_rows db' = tbl_remove (height_key (height t)) (block_rows db)"
      "undo_rows db' = tbl_remove (height_key (height t)) (undo_rows db)"
  shows "linked db'" "height (previous_tip u) = height t - 1" "height t - 1 < height t"
proof -
  obtain a where a: "meta_activation db = Some a" and c: "chain_from db a t" using linked_chain [OF linked tip] by blast
  note blocks = chain_fromD(3) [OF c] and links = chain_fromD(4) [OF c] and undos = chain_fromD(5) [OF c]
  have at_t: "height a < height t" "anchor_at db (height t - 1) = Some (previous_tip u)" using undos [OF row] by auto
  note b = below_height [OF at_t(1)]
  show h: "height (previous_tip u) = height t - 1" by (rule chain_anchor_height [OF a c at_t(2)])
  show "height t - 1 < height t" by (rule b(1))
  have at: "anchor_at db' x = anchor_at db x" if "x < height t" for x
    using that by (auto simp: anchor_at_def db' split: option.split)
  have "chain_from db' a (previous_tip u)"
  proof (rule chain_fromI)
    show "height a \<le> height (previous_tip u)" using b(2) h by simp
    show "anchor_at db' (height (previous_tip u)) = Some (previous_tip u)" using at [OF b(1)] at_t(2) h by simp
    show "\<exists>x. k = height_key x \<and> height a < x \<and> x \<le> height (previous_tip u) \<and> height (stored_anchor y) = x"
      if "tbl_get (block_rows db') k = Some y" for k y
    proof -
      have ne: "k \<noteq> height_key (height t)" "tbl_get (block_rows db) k = Some y" using that by (auto simp: db' split: if_splits)
      from blocks [OF ne(2)] ne(1) show ?thesis unfolding h b(3) by (metis order_le_less)
    qed
    show "\<exists>y p. tbl_get (block_rows db') (height_key x) = Some y \<and> anchor_at db' (x - 1) = Some p \<and> stored_prev_hash y = hash p"
      if "height a < x" "x \<le> height (previous_tip u)" for x
    proof -
      have x: "x < height t" using that(2) unfolding h b(3) .
      have "x - 1 < height t" using below_height(1) [OF that(1)] x by (rule order.strict_trans)
      then show ?thesis using links [OF that(1)] x at by (auto simp: db')
    qed
    show "\<exists>x. k = height_key x \<and> height a < x \<and> x \<le> height (previous_tip u) \<and> anchor_at db' (x - 1) = Some (previous_tip v)"
      if "tbl_get (undo_rows db') k = Some v" for k v
    proof -
      have ne: "k \<noteq> height_key (height t)" "tbl_get (undo_rows db) k = Some v" using that by (auto simp: db' split: if_splits)
      obtain x where x: "k = height_key x" "height a < x" "x \<le> height t" "anchor_at db (x - 1) = Some (previous_tip v)"
        using undos [OF ne(2)] by blast
      have lt: "x < height t" using x(1,3) ne(1) by auto
      then have "x - 1 < height t" using below_height(1) [OF x(2)] by (rule order.strict_trans [rotated])
      then show ?thesis using x lt at unfolding h b(3) by auto
    qed
  qed
  then show "linked db'" using linkedI [of db' a "previous_tip u"] a db'(1,2) by simp
qed

lemma linked_undo:
  assumes "linked db" "meta_activation db' = meta_activation db" "tip_row db' = tip_row db" "block_rows db' = block_rows db"
    and undo: "\<And>k u'. tbl_get (undo_rows db') k = Some u' \<Longrightarrow> \<exists>u. tbl_get (undo_rows db) k = Some u \<and> previous_tip u' = previous_tip u"
    and empty: "undo_rows db = [] \<Longrightarrow> undo_rows db' = []"
  shows "linked db'"
proof -
  have at: "anchor_at db' = anchor_at db" by (rule ext) (simp only: anchor_at_def assms(2,4))
  have "chain_from db' a t" if c: "chain_from db a t" for a t
  proof -
    have "\<exists>h. k = height_key h \<and> height a < h \<and> h \<le> height t \<and> anchor_at db (h - 1) = Some (previous_tip u')"
      if "tbl_get (undo_rows db') k = Some u'" for k u'
      using undo [OF that] chain_fromD(5) [OF c] by metis
    then show ?thesis using c unfolding chain_from_def at assms(4) by blast
  qed
  then show ?thesis
    using assms(1) empty unfolding linked_def assms(2-4) by (auto split: option.splits)
qed



section \<open>Dated rows\<close>

text \<open>
  Rows that carry a height: none lies above the tip, and the journal of its block, while it is
  kept, lists it.
\<close>

definition dated :: "(bytes \<Rightarrow> u32) \<Rightarrow> (UndoBlock \<Rightarrow> bytes set) \<Rightarrow> bytes set \<Rightarrow> NodeDb \<Rightarrow> bool" where
  "dated height_at listed ks db \<longleftrightarrow> (\<forall>k \<in> ks. (\<exists>t. tip_row db = Some t \<and> height_at k \<le> height t) \<and>
     (\<forall>u. tbl_get (undo_rows db) (height_key (height_at k)) = Some u \<longrightarrow> k \<in> listed u))"

lemma dated_extend:
  assumes "dated at listed ks db" "tip_row db = Some t" "tip_row db' = Some t'" "height t < height t'" "ks' \<subseteq> ks \<union> listed u"
    "\<forall>k \<in> listed u. at k = height t'"
    "\<And>k v. tbl_get (undo_rows db') k = Some v \<Longrightarrow> if k = height_key (height t') then v = u else tbl_get (undo_rows db) k = Some v"
  shows "dated at listed ks' db'"
  unfolding dated_def
proof (intro ballI conjI allI impI)
  fix k assume "k \<in> ks'"
  then consider "k \<in> listed u" | "k \<in> ks" "at k \<le> height t" using assms(1,2,5) unfolding dated_def by auto
  note cases = this
  show "\<exists>x. tip_row db' = Some x \<and> at k \<le> height x" using cases assms(3,4,6) by cases auto
  fix v assume v: "tbl_get (undo_rows db') (height_key (at k)) = Some v"
  show "k \<in> listed v"
  proof (cases "at k = height t'")
    case True
    then have "v = u" using assms(7) [OF v] by simp
    moreover have "k \<in> listed u" using cases True assms(4) by cases auto
    ultimately show ?thesis by simp
  next
    case False
    then have "tbl_get (undo_rows db) (height_key (at k)) = Some v" using assms(7) [OF v] by simp
    moreover have "k \<in> ks" using cases False assms(6) by cases auto
    ultimately show ?thesis using assms(1) unfolding dated_def by blast
  qed
qed

lemma dated_shorten:
  assumes "dated at listed ks db" "tip_row db = Some t" "tbl_get (undo_rows db) (height_key (height t)) = Some u"
    "tip_row db' = Some t'" "height t' = height t - 1" "height t - 1 < height t" "ks' \<subseteq> ks - listed u"
    "undo_rows db' = tbl_remove (height_key (height t)) (undo_rows db)"
  shows "dated at listed ks' db'"
  unfolding dated_def
proof (intro ballI conjI allI impI)
  fix k assume "k \<in> ks'"
  then have k: "k \<in> ks" "k \<notin> listed u" using assms(7) by auto
  have "at k \<noteq> height t" using k assms(1,3) unfolding dated_def by metis
  moreover have "at k \<le> height t" using k(1) assms(1,2) unfolding dated_def by fastforce
  ultimately have "at k \<le> height t'"
    using assms(5,6) below_height(3) by (metis order_le_less word_le_sub1 word_less_sub1 linorder_not_le)
  then show "\<exists>x. tip_row db' = Some x \<and> at k \<le> height x" using assms(4) by simp
  show "k \<in> listed v" if "tbl_get (undo_rows db') (height_key (at k)) = Some v" for v
    using that k(1) assms(1,8) unfolding dated_def by (auto split: if_splits)
qed

lemma dated_amend:
  assumes "dated at listed ks db" "tip_row db = Some t" "tip_row db' = Some t" "ks' \<subseteq> ks \<union> N" "\<forall>k \<in> N. at k \<le> height t"
    "\<And>k v. tbl_get (undo_rows db') k = Some v \<Longrightarrow> \<exists>u. tbl_get (undo_rows db) k = Some u \<and> listed u \<subseteq> listed v"
    "\<And>k v. k \<in> N \<Longrightarrow> tbl_get (undo_rows db') (height_key (at k)) = Some v \<Longrightarrow> k \<in> listed v"
  shows "dated at listed ks' db'"
  unfolding dated_def
proof (intro ballI conjI allI impI)
  fix k assume "k \<in> ks'"
  then consider "k \<in> N" | "k \<in> ks" "at k \<le> height t" using assms(1,2,4) unfolding dated_def by auto
  note cases = this
  show "\<exists>x. tip_row db' = Some x \<and> at k \<le> height x" using cases assms(3,5) by cases auto
  fix v assume v: "tbl_get (undo_rows db') (height_key (at k)) = Some v"
  show "k \<in> listed v"
    using cases
  proof cases
    case 1
    then show ?thesis using assms(7) v by blast
  next
    case 2
    obtain u where "tbl_get (undo_rows db) (height_key (at k)) = Some u" "listed u \<subseteq> listed v" using assms(6) [OF v] by blast
    then show ?thesis using 2(1) assms(1) unfolding dated_def by blast
  qed
qed

end
