(* ===== verification/Node_Chain_Inv.thy ===== *)
theory Node_Chain_Inv
  imports Node_Dated
begin

text \<open>
  The invariant of the chain tables, and that applying and rolling back blocks keep it.
\<close>

section \<open>The invariant\<close>

definition tbl_dom :: "(bytes, 'v) table \<Rightarrow> bytes set" where
  "tbl_dom t = {k. tbl_get t k \<noteq> None}"

definition position_height :: "bytes \<Rightarrow> u32" where
  "position_height k = u32_from_be (take 4 k)"

definition history_height :: "bytes \<Rightarrow> u32" where
  "history_height k = u32_from_be (take 4 (drop (length k - 8) k))"

definition listed_positions :: "UndoBlock \<Rightarrow> bytes set" where
  "listed_positions u = position_fixed_key ` set (transaction_positions u)"

definition listed_history :: "UndoBlock \<Rightarrow> bytes set" where
  "listed_history u = (\<lambda>(c, p). history_key c p) ` set (history_keys u)"

definition listed_hints :: "UndoBlock \<Rightarrow> bytes set" where
  "listed_hints u = recovery_key ` set (recovery_locations u)"

lemmas listed_defs = listed_positions_def listed_history_def listed_hints_def

lemma length_position_key [simp]: "length (position_fixed_key p) = 8"
  by (simp add: position_fixed_key_def)

lemma row_heights [simp]:
  "position_height (position_fixed_key p) = block_height p"
  "position_height (recovery_key l) = block_height (location_position l)"
  "history_height (history_key c p) = block_height p"
  by (simp_all add: position_height_def history_height_def history_key_def recovery_key_def position_fixed_key_def)

definition progress_undo_ok :: "UndoBlock \<Rightarrow> bool" where
  "progress_undo_ok u \<longleftrightarrow> (\<forall>c \<in> set (backfill_progress_changes u). \<forall>p. progress_before c = Some p \<longrightarrow> progress_contract p = undo_progress_contract c)"

definition chain_inv :: "NodeDb \<Rightarrow> bool" where
  "chain_inv db \<longleftrightarrow> plain_ok db \<and> linked db \<and> progress_keyed db \<and>
     (\<forall>k u. tbl_get (undo_rows db) k = Some u \<longrightarrow> progress_undo_ok u) \<and>
     dated position_height listed_positions (tbl_dom (transaction_rows db)) db \<and>
     dated history_height listed_history (tbl_dom (history_rows db)) db \<and>
     dated position_height listed_hints (tbl_dom (hint_rows db)) db"

lemma chain_invD:
  assumes "chain_inv db"
  shows "plain_ok db" "linked db" "progress_keyed db" "\<And>k u. tbl_get (undo_rows db) k = Some u \<Longrightarrow> progress_undo_ok u"
    "dated position_height listed_positions (tbl_dom (transaction_rows db)) db"
    "dated history_height listed_history (tbl_dom (history_rows db)) db"
    "dated position_height listed_hints (tbl_dom (hint_rows db)) db"
  using assms unfolding chain_inv_def by blast+

definition chain_part where
  "chain_part db = (meta_activation db, tip_row db, block_rows db, undo_rows db, transaction_rows db, output_rows db,
     history_rows db, hint_rows db, progress_rows db)"

lemma chain_inv_cong:
  assumes "chain_part db' = chain_part db"
  shows "chain_inv db' = chain_inv db"
proof -
  have eq: "meta_activation db' = meta_activation db" "tip_row db' = tip_row db" "block_rows db' = block_rows db"
    "undo_rows db' = undo_rows db" "transaction_rows db' = transaction_rows db" "output_rows db' = output_rows db"
    "history_rows db' = history_rows db" "hint_rows db' = hint_rows db" "progress_rows db' = progress_rows db"
    using assms by (simp_all add: chain_part_def)
  have "anchor_at db' = anchor_at db" by (rule ext) (simp only: anchor_at_def eq)
  then show ?thesis
    by (simp only: chain_inv_def plain_ok_def linked_def chain_from_def progress_keyed_def dated_def eq)
qed

lemma touched_dom: "touched t0 ks t \<Longrightarrow> tbl_dom t \<subseteq> tbl_dom t0 \<union> ks"
  by (auto simp: touched_def tbl_dom_def)


section \<open>Applying a block\<close>

lemma advance_progress_undo:
  assumes "progress_undo_ok (snd s)" "advance_catching ops delta digest n p s = Ok s'"
  shows "progress_undo_ok (snd s')"
proof -
  obtain db undo where s: "s = (db, undo)" by (cases s)
  show ?thesis
    by (rule advance_catching_Ok [OF assms(2) [unfolded s]]) (use assms(1) s in \<open>auto simp: progress_undo_ok_def\<close>)
qed

lemma transaction_progress_undo:
  assumes "progress_undo_ok (snd s)" "apply_chain_transaction ops anchor delta s = Ok s'"
  shows "progress_undo_ok (snd s')"
proof (rule apply_transaction_Ok [OF assms(2)])
  fix n s1 db undo refs db3
  let ?P = "\<lambda>x. progress_undo_ok (snd x)"
  assume create: "rfold (create_contract ops delta n) (created_contracts delta) s = Ok s1"
    and update: "rfold (update_contract ops delta n) (state_updates delta) s1 = Ok (db, undo)"
    and s': "s' = (db3, undo\<lparr>transaction_positions := transaction_positions undo @ [delta_position delta], output_outpoints := output_outpoints undo @ refs\<rparr>)"
  have "?P s1"
    by (rule rfold_invariant [where P = ?P, OF create]) (use assms(1) in \<open>auto simp: create_contract_def result_simps progress_undo_ok_def\<close>)
  then have "?P (db, undo)"
    by (rule rfold_invariant [where P = ?P, OF update]) (auto simp: update_contract_def result_simps Let_def progress_undo_ok_def)
  then show ?thesis by (simp add: s' progress_undo_ok_def)
qed

lemma body_progress_undo:
  assumes "apply_block_body ops delta digest tip db = Ok s'"
  shows "progress_undo_ok (snd s')"
proof -
  let ?P = "\<lambda>x. progress_undo_ok (snd x)"
  from assms obtain s1 s2 where
    txs: "rfold (apply_chain_transaction ops (delta_anchor delta))
       (sort_key (\<lambda>t. tx_index (delta_position t)) (relevant_transactions delta)) (db, empty_undo tip) = Ok s1"
    and hints: "rfold apply_hint (recovery_hints delta) s1 = Ok s2"
    and advance: "advance_catching_through_canonical_block ops delta digest s2 = Ok s'"
    by (auto simp: apply_block_body_def result_simps)
  have "?P (db, empty_undo tip)" by (simp add: progress_undo_ok_def empty_undo_def)
  then have "?P s1" by (rule rfold_invariant [where P = ?P, OF txs]) (rule transaction_progress_undo)
  then have s2: "?P s2"
    by (rule rfold_invariant [where P = ?P, OF hints]) (auto simp: apply_hint_def result_simps progress_undo_ok_def)
  have "?P s'" if rows: "rfold (advance_catching ops delta digest n) rows s2 = Ok s'" for n rows
    using s2 by (rule rfold_invariant [where P = ?P, OF rows]) (rule advance_progress_undo)
  then show ?thesis
    using advance s2 by (simp add: advance_catching_through_canonical_block_def Let_def result_simps split: if_splits) blast
qed


lemma advance_progress_keyed:
  assumes "progress_keyed (fst s)" "advance_catching ops delta digest n p s = Ok s'"
  shows "progress_keyed (fst s')"
proof -
  obtain db undo where s: "s = (db, undo)" by (cases s)
  show ?thesis
  proof (rule advance_catching_Ok [OF assms(2) [unfolded s]])
    assume "s' = (db, undo)"
    then show ?thesis using assms(1) s by simp
  next
    fix before db1 count db3 db4
    let ?p = "p\<lparr>pinned_tip := delta_anchor delta, next_position := \<lparr>block_height = n, tx_index = 0\<rparr>,
            last_applied := Some (delta_anchor delta, digest)\<rparr>"
    assume ins: "insert_contract ops (before\<lparr>sync_state := Ready (delta_anchor delta)\<rparr>) (remove_contract ops before db) = Ok db1"
      and ev: "push_event (BackfillApplied (progress_contract p) (delta_anchor delta) count)
        (db1\<lparr>progress_rows := tbl_insert (contract_fixed_key (progress_contract p)) ?p (progress_rows db1)\<rparr>) = Ok db3"
        "push_event (ContractReady (progress_contract p) (delta_anchor delta)) db3 = Ok db4"
      and s': "s' = (db4, (if filter (\<lambda>u. updated_contract u = progress_contract p)
            (concat (map state_updates (relevant_transactions delta))) = []
          then log_contract \<lparr>undo_contract = progress_contract p, contract_before = Some before\<rparr> undo else undo)
        \<lparr>backfill_progress_changes := backfill_progress_changes undo @
          [\<lparr>undo_progress_contract = progress_contract p, progress_before = Some p\<rparr>]\<rparr>)"
    have "progress_rows db1 = progress_rows db" using ins by (simp add: insert_contract_Ok)
    then have "progress_rows db4 = tbl_insert (contract_fixed_key (progress_contract p)) ?p (progress_rows db)"
      using push_event_kept(7) [OF ev(1)] push_event_kept(7) [OF ev(2)] by simp
    then show ?thesis using assms(1) by (simp add: s' s progress_keyed_def)
  qed
qed

lemma body_progress_keyed:
  assumes "apply_block_body ops delta digest tip db = Ok (db', undo)" "progress_keyed db"
  shows "progress_keyed db'"
proof -
  let ?R = "\<lambda>x. progress_rows (fst x) = progress_rows db" and ?P = "\<lambda>x. progress_keyed (fst x)"
  from assms(1) obtain s1 s2 where
    txs: "rfold (apply_chain_transaction ops (delta_anchor delta))
       (sort_key (\<lambda>t. tx_index (delta_position t)) (relevant_transactions delta)) (db, empty_undo tip) = Ok s1"
    and hints: "rfold apply_hint (recovery_hints delta) s1 = Ok s2"
    and advance: "advance_catching_through_canonical_block ops delta digest s2 = Ok (db', undo)"
    by (auto simp: apply_block_body_def result_simps)
  have "?R s1" by (rule rfold_invariant [where P = ?R, OF txs]) (use transaction_progress in auto)
  then have "?R s2" by (rule rfold_invariant [where P = ?R, OF hints]) (use hint_progress in auto)
  then have s2: "?P s2" using assms(2) by (simp add: progress_keyed_def)
  have "?P (db', undo)" if rows: "rfold (advance_catching ops delta digest n) rows s2 = Ok (db', undo)" for n rows
    using s2 by (rule rfold_invariant [where P = ?P, OF rows]) (rule advance_progress_keyed)
  then have "?P (db', undo)"
    using advance s2 by (simp add: advance_catching_through_canonical_block_def Let_def result_simps split: if_splits) blast
  then show ?thesis by simp
qed

lemma fold_remove_ok: "tbl_ok t \<Longrightarrow> tbl_ok (fold tbl_remove ks t)"
  using tbl_remove_all_ok [of t "\<lambda>k. k" ks] by simp

text \<open>What an applied block leaves behind.\<close>

lemma applied_block:
  assumes node: "node_inv ops db" and inv: "chain_inv db" and typed: "typed_block ops delta"
    and run: "apply_block ops delta db = Ok (db', res)" and new: "block_applied res"
  obtains tip digest db1 undo where "tip_row db = Some tip" "checked_add (height tip) 1 = Some (height (delta_anchor delta))"
    "delta_prev_hash delta = hash tip" "undoable ops db delta tip (db1, undo)" "progress_undo_ok undo" "progress_keyed db1"
    "chain_view db' = chain_view db1" "kept_tables db1 = kept_tables db"
    "block_rows db' = tbl_insert (height_key (height (delta_anchor delta))) (stored_block_of delta digest) (block_rows db)"
    "tip_row db' = Some (delta_anchor delta)" "meta_activation db' = meta_activation db" "meta_status db' = meta_status db"
    "undo_rows db' = fold tbl_remove (filter (\<lambda>k. u32_from_be k < saturating_sub_u32 (height (delta_anchor delta)) (UNDO_RETENTION_BLOCKS - 1))
      (tbl_keys (tbl_insert (height_key (height (delta_anchor delta))) undo (undo_rows db))))
      (tbl_insert (height_key (height (delta_anchor delta))) undo (undo_rows db))"
    "meta_status db \<noteq> Some RescanRequired" "retained_rows db' = retained_rows db"
proof (rule apply_block_Ok [OF run])
  assume "\<not> block_applied res"
  then show thesis using new by simp
next
  fix digest tip db1 undo
  assume facts: "meta_status db \<noteq> Some RescanRequired" "tip_row db = Some tip" "checked_add (height tip) 1 = Some (height (delta_anchor delta))"
      "delta_prev_hash delta = hash tip"
    and body: "apply_block_body ops delta digest tip db = Ok (db1, undo)" and shape: "validate_block_shape ops delta = Ok ()"
    and prune: "prune_undo (height (delta_anchor delta)) (db1\<lparr>
         block_rows := tbl_insert (height_key (height (delta_anchor delta))) (stored_block_of delta digest) (block_rows db1),
         undo_rows := tbl_insert (height_key (height (delta_anchor delta))) undo (undo_rows db1),
         tip_row := Some (delta_anchor delta)\<rparr>) = Ok db'"
  have u: "undoable ops db delta tip (db1, undo)"
    by (rule body_undoable [OF _ chain_invD(1,3) [OF inv] typed shape_at_height [OF shape] body])
      (use node in \<open>simp add: node_inv_def\<close>)
  have k: "kept_tables db1 = kept_tables db" using u by (simp add: undoable_def)
  then have k': "block_rows db1 = block_rows db" "undo_rows db1 = undo_rows db" "meta_activation db1 = meta_activation db"
    "meta_status db1 = meta_status db" "retained_rows db1 = retained_rows db" by (simp_all add: kept_tables_def)
  show thesis
    by (rule that [OF facts(2-4) u _ _ _ k, of digest])
      (use body_progress_undo [OF body] body_progress_keyed [OF body chain_invD(3) [OF inv]] facts(1) in \<open>simp_all add: prune_undo_Ok [OF prune] chain_view_def contract_tables_def k'\<close>)
qed

lemma pruned_get:
  assumes "tbl_get (fold tbl_remove ks (tbl_insert k u t)) x = Some v"
  shows "if x = k then v = u else tbl_get t x = Some v"
  using assms by (auto simp: prune_get split: if_splits)

lemma apply_chain_inv:
  assumes node: "node_inv ops db" and inv: "chain_inv db" and typed: "typed_block ops delta"
    and run: "apply_block ops delta db = Ok (db', res)"
  shows "chain_inv db'"
proof (cases "block_applied res")
  case False
  then have "db' = db" by (cases rule: apply_block_Ok [OF run]) auto
  then show ?thesis using inv by simp
next
  case True
  show ?thesis
  proof (rule applied_block [OF node inv typed run True])
    fix tip digest db1 undo
    let ?h = "height (delta_anchor delta)"
    assume tip: "tip_row db = Some tip" and succ: "checked_add (height tip) 1 = Some ?h" and prev: "delta_prev_hash delta = hash tip"
      and u: "undoable ops db delta tip (db1, undo)" and pu: "progress_undo_ok undo" and keyed1: "progress_keyed db1" and view: "chain_view db' = chain_view db1"
      and blocks: "block_rows db' = tbl_insert (height_key ?h) (stored_block_of delta digest) (block_rows db)"
      and tip': "tip_row db' = Some (delta_anchor delta)" and act: "meta_activation db' = meta_activation db"
      and undos: "undo_rows db' = fold tbl_remove (filter (\<lambda>k. u32_from_be k < saturating_sub_u32 ?h (UNDO_RETENTION_BLOCKS - 1))
          (tbl_keys (tbl_insert (height_key ?h) undo (undo_rows db)))) (tbl_insert (height_key ?h) undo (undo_rows db))"
    note D = chain_invD [OF inv] and rows = chain_view_rows [OF view]
    have logged: "rows_logged db delta db1 undo" and pt: "previous_tip undo = tip"
      and prog: "progress_logged (progress_rows db) (backfill_progress_changes undo) (progress_rows db1)"
      using u by (simp_all add: undoable_def)
    note L = logged [unfolded rows_logged_def]
    have get: "if k = height_key ?h then v = undo else tbl_get (undo_rows db) k = Some v" if "tbl_get (undo_rows db') k = Some v" for k v
      using that unfolding undos by (rule pruned_get)
    have get2: "tbl_get (undo_rows db) k = Some v \<or> k = height_key ?h \<and> previous_tip v = tip" if "tbl_get (undo_rows db') k = Some v" for k v
      using get [OF that] pt by (simp split: if_splits)
    have plain: "plain_ok db'"
      using D(1) L prog by (simp add: plain_ok_def rows blocks undos touched_def progress_logged_def fold_remove_ok)
    have linked: "linked db'"
      by (rule linked_extend [OF D(2) tip succ act tip' blocks])
        (use prev get2 in \<open>simp_all add: stored_block_of_def\<close>)
    have keyed: "progress_keyed db'" using keyed1 rows(6) by (simp add: progress_keyed_def)
    have lt: "height tip < ?h" by (rule next_height(1) [OF succ])
    note ext = dated_extend [OF _ tip tip' lt _ _ get]
    have T: "touched (transaction_rows db) (listed_positions undo) (transaction_rows db')"
      "touched (history_rows db) (listed_history undo) (history_rows db')" "touched (hint_rows db) (listed_hints undo) (hint_rows db')"
      using L by (simp_all add: rows listed_defs)
    have H: "\<forall>k \<in> listed_positions undo. position_height k = ?h" "\<forall>k \<in> listed_history undo. history_height k = ?h"
      "\<forall>k \<in> listed_hints undo. position_height k = ?h"
      using L by (auto simp: listed_defs)
    have "dated position_height listed_positions (tbl_dom (transaction_rows db')) db'"
      by (rule ext [OF D(5) touched_dom [OF T(1)] H(1)])
    moreover have "dated history_height listed_history (tbl_dom (history_rows db')) db'"
      by (rule ext [OF D(6) touched_dom [OF T(2)] H(2)])
    moreover have "dated position_height listed_hints (tbl_dom (hint_rows db')) db'"
      by (rule ext [OF D(7) touched_dom [OF T(3)] H(3)])
    moreover have "progress_undo_ok v" if "tbl_get (undo_rows db') k = Some v" for k v
      using get [OF that] pu D(4) by (auto split: if_splits)
    ultimately show ?thesis using plain linked keyed unfolding chain_inv_def by blast
  qed
qed



section \<open>Rolling back\<close>

lemma revert_contract_other:
  assumes "revert_contract ops c s = Ok s'"
  shows "other_tables (fst s') = other_tables (fst s)"
proof (rule revert_contract_Ok [of ops c "fst s" "snd s" "fst s'" "snd s'"])
  show "revert_contract ops c (fst s, snd s) = Ok (fst s', snd s')" using assms by simp
  fix db1
  assume db1: "db1 = (case read_contract (fst s) (undo_contract c) of Some r \<Rightarrow> remove_contract ops r (fst s) | None \<Rightarrow> fst s)"
    and ins: "case contract_before c of Some before \<Rightarrow> insert_contract ops before db1 = Ok (fst s') | None \<Rightarrow> fst s' = db1"
  have "other_tables db1 = other_tables (fst s)" by (simp add: db1 split: option.split)
  then show ?thesis using ins by (cases "contract_before c") (auto simp: insert_contract_Ok)
qed

lemma revert_contracts_other:
  assumes "rfold (revert_contract ops) cs s = Ok s'"
  shows "other_tables (fst s') = other_tables (fst s)"
  by (rule rfold_invariant [where P = "\<lambda>x. other_tables (fst x) = other_tables (fst s)", OF assms]) (use revert_contract_other in metis)+

definition keyed_progress :: "(bytes, BackfillProgress) table \<Rightarrow> bool" where
  "keyed_progress t \<longleftrightarrow> tbl_ok t \<and> (\<forall>k p. tbl_get t k = Some p \<longrightarrow> k = contract_fixed_key (progress_contract p))"

lemma revert_progress_keyed:
  assumes "keyed_progress t" "\<forall>c \<in> set cs. \<forall>p. progress_before c = Some p \<longrightarrow> progress_contract p = undo_progress_contract c"
  shows "keyed_progress (fold revert_progress cs t)"
  using assms
proof (induction cs arbitrary: t)
  case (Cons c cs)
  have "keyed_progress (revert_progress c t)"
    using Cons.prems by (cases "progress_before c") (auto simp: keyed_progress_def revert_progress_def Let_def split: if_splits)
  then show ?case using Cons.IH Cons.prems(2) by simp
qed simp

lemma removed_dom: "tbl_dom (fold (\<lambda>x. tbl_remove (f x)) xs t) = tbl_dom t - f ` set xs"
  by (induction xs arbitrary: t) (auto simp: tbl_dom_def)

lemma removed_ok: "tbl_ok t \<Longrightarrow> tbl_ok (fold (\<lambda>x. tbl_remove (f x)) xs t)"
  by (rule tbl_remove_all_ok)

abbreviation rb_state :: "RollbackState \<Rightarrow> NodeDb" where
  "rb_state s \<equiv> (rb_db s)\<lparr>tip_row := Some (rb_tip s)\<rparr>"

lemma revert_chain_inv:
  assumes inv: "chain_inv (rb_state s)" and run: "revert_block ops (height (rb_tip s)) s = Ok s'"
  shows "chain_inv (rb_state s')" "height (rb_tip s') = height (rb_tip s) - 1"
proof -
  let ?h = "height (rb_tip s)" and ?db = "rb_state s"
  obtain undo db1 affected where row: "tbl_get (undo_rows (rb_db s)) (height_key ?h) = Some undo"
    and fold: "rfold (revert_contract ops) (rev (contract_changes undo)) (rb_db s, rb_affected s) = Ok (db1, affected)"
    and s': "s' = \<lparr>rb_db = revert_rows undo ?h db1, rb_tip = previous_tip undo,
       rb_positions = rb_positions s @ transaction_positions undo, rb_affected = affected\<rparr>"
    by (rule revert_block_Ok [OF run])
  have "other_tables db1 = other_tables (rb_db s)" using revert_contracts_other [OF fold] by simp
  note frame = other_tables_frame [OF this]
  have f: "meta_activation (rb_state s') = meta_activation ?db" "tip_row (rb_state s') = Some (previous_tip undo)"
    "block_rows (rb_state s') = tbl_remove (height_key ?h) (block_rows ?db)" "undo_rows (rb_state s') = tbl_remove (height_key ?h) (undo_rows ?db)"
    "transaction_rows (rb_state s') = fold (\<lambda>p. tbl_remove (position_fixed_key p)) (transaction_positions undo) (transaction_rows ?db)"
    "output_rows (rb_state s') = fold (\<lambda>p. tbl_remove (outpoint_fixed_key p)) (output_outpoints undo) (output_rows ?db)"
    "history_rows (rb_state s') = fold (\<lambda>e. tbl_remove ((\<lambda>(c, p). history_key c p) e)) (history_keys undo) (history_rows ?db)"
    "hint_rows (rb_state s') = fold (\<lambda>l. tbl_remove (recovery_key l)) (recovery_locations undo) (hint_rows ?db)"
    "progress_rows (rb_state s') = fold revert_progress (rev (backfill_progress_changes undo)) (progress_rows ?db)"
    by (simp_all add: s' revert_rows_def frame case_prod_unfold)
  have tip: "tip_row ?db = Some (rb_tip s)" and row': "tbl_get (undo_rows ?db) (height_key ?h) = Some undo" using row by simp_all
  note D = chain_invD [OF inv]
  note short = linked_shorten [OF D(2) tip row' f(1-4)]
  show h: "height (rb_tip s') = ?h - 1" using short(2) by (simp add: s')
  note sh = dated_shorten [OF _ tip row' f(2) short(2,3) _ f(4)]
  have "keyed_progress (progress_rows (rb_state s'))"
    unfolding f(9) by (rule revert_progress_keyed)
      (use D(1,3) D(4) [OF row'] in \<open>auto simp: keyed_progress_def plain_ok_def progress_keyed_def progress_undo_ok_def\<close>)
  then have prog: "tbl_ok (progress_rows (rb_state s'))" "progress_keyed (rb_state s')"
    by (simp_all add: keyed_progress_def progress_keyed_def)
  have "plain_ok (rb_state s')"
    using D(1) prog(1) unfolding plain_ok_def f(3-8) by (simp add: removed_ok)
  moreover have "progress_undo_ok u" if "tbl_get (undo_rows (rb_state s')) k = Some u" for k u
    using that D(4) unfolding f(4) by (auto split: if_splits)
  moreover have "dated position_height listed_positions (tbl_dom (transaction_rows (rb_state s'))) (rb_state s')"
    by (rule sh [OF D(5)]) (simp add: f(5) removed_dom listed_defs)
  moreover have "dated history_height listed_history (tbl_dom (history_rows (rb_state s'))) (rb_state s')"
    by (rule sh [OF D(6)]) (unfold f(7) removed_dom listed_defs, blast)
  moreover have "dated position_height listed_hints (tbl_dom (hint_rows (rb_state s'))) (rb_state s')"
    by (rule sh [OF D(7)]) (simp add: f(8) removed_dom listed_defs)
  ultimately show "chain_inv (rb_state s')" using short(1) prog(2) unfolding chain_inv_def by blast
qed

lemma revert_blocks_chain_inv:
  assumes "chain_inv (rb_state s)" "rfold (revert_block ops) (undo_heights n (height (rb_tip s))) s = Ok s'"
  shows "chain_inv (rb_state s')"
  using assms
proof (induction n arbitrary: s)
  case (Suc n)
  obtain s1 where s1: "revert_block ops (height (rb_tip s)) s = Ok s1" "rfold (revert_block ops) (undo_heights n (height (rb_tip s) - 1)) s1 = Ok s'"
    using Suc.prems(2) by (auto simp: result_simps)
  note r = revert_chain_inv [OF Suc.prems(1) s1(1)]
  show ?case by (rule Suc.IH [OF r(1)]) (use s1(2) r(2) in simp)
qed simp

lemma mark_rebuild_chain:
  assumes "mark_rebuild_required e db = Ok (db', e')"
  shows "chain_part db' = chain_part db"
proof (cases "meta_status db = Some RescanRequired")
  case True
  then show ?thesis using assms by (auto simp: mark_rebuild_required_def result_simps)
next
  case False
  then have ev: "push_event (SyncStatusChanged RescanRequired)
      (db\<lparr>meta_epoch := Some e, meta_sequence := Some (u64_be 0), meta_status := Some RescanRequired\<rparr>) = Ok db'"
    using assms by (auto simp: mark_rebuild_required_def result_simps)
  show ?thesis using push_event_frame [OF ev] by (simp add: chain_part_def)
qed

lemma rollback_chain_inv:
  assumes inv: "chain_inv db" and run: "rollback_to ops e ancestor db = Ok (db', res)"
  shows "chain_inv db'"
proof (rule rollback_Ok [OF run])
  assume "db' = db"
  then show ?thesis using inv by simp
next
  fix tip e' assume "mark_rebuild_required e db = Ok (db', e')"
  then show ?thesis using inv chain_inv_cong [OF mark_rebuild_chain] by blast
next
  fix tip s high
  assume tip: "tip_row db = Some tip"
    and fold: "rfold (revert_block ops) (undo_heights (unat (height tip - height ancestor)) (height tip))
      \<lparr>rb_db = db, rb_tip = tip, rb_positions = [], rb_affected = []\<rparr> = Ok s"
    and at: "rb_tip s = ancestor"
    and ev: "append_event (ChainRolledBack tip ancestor (sort_key position_fixed_key (rb_positions s)) (sort_dedup_contracts (rb_affected s)))
      ((rb_db s)\<lparr>tip_row := Some ancestor, meta_status := Some Syncing\<rparr>) = Ok (db', high)"
  have "chain_inv (rb_state s)"
    by (rule revert_blocks_chain_inv [of "\<lparr>rb_db = db, rb_tip = tip, rb_positions = [], rb_affected = []\<rparr>"])
      (use inv tip fold chain_inv_cong [of "db\<lparr>tip_row := Some tip\<rparr>" db] in \<open>simp_all add: chain_part_def\<close>)
  moreover have "chain_part db' = chain_part (rb_state s)"
    by (rule append_event_shape [OF ev]) (simp add: chain_part_def at)
  ultimately show ?thesis using chain_inv_cong by blast
qed

end
