(* ===== verification/Node_Chain_Ops.thy ===== *)
theory Node_Chain_Ops
  imports Node_Chain_Inv Node_Reach
begin

text \<open>
  Late registration and backfill keep the invariant of the chain tables, and with them every call
  of the store's write interface.
\<close>

section \<open>Amending stored blocks\<close>

definition wider :: "UndoBlock \<Rightarrow> UndoBlock \<Rightarrow> bool" where
  "wider u v \<longleftrightarrow> previous_tip v = previous_tip u \<and> listed_positions u \<subseteq> listed_positions v \<and>
     listed_history u \<subseteq> listed_history v \<and> listed_hints u \<subseteq> listed_hints v \<and> (progress_undo_ok u \<longrightarrow> progress_undo_ok v)"

lemma wider_refl [simp]: "wider u u"
  by (simp add: wider_def)

lemma wider_trans: "wider u v \<Longrightarrow> wider v w \<Longrightarrow> wider u w"
  unfolding wider_def by (simp, blast)

definition widened :: "(bytes, UndoBlock) table \<Rightarrow> (bytes, UndoBlock) table \<Rightarrow> bool" where
  "widened t t' \<longleftrightarrow> (\<forall>k v. tbl_get t' k = Some v \<longrightarrow> (\<exists>u. tbl_get t k = Some u \<and> wider u v)) \<and> (t = [] \<longrightarrow> t' = []) \<and> (tbl_ok t \<longrightarrow> tbl_ok t')"

lemma widened_refl [simp]: "widened t t"
  by (auto simp: widened_def intro: exI)

lemma widened_trans: "widened t t' \<Longrightarrow> widened t' t'' \<Longrightarrow> widened t t''"
  unfolding widened_def by (meson wider_trans)

lemma widened_insert:
  assumes "tbl_get t k = Some u" "wider u v"
  shows "widened t (tbl_insert k v t)"
proof -
  have "t \<noteq> []" using assms(1) by (auto simp: tbl_get_def)
  then show ?thesis using assms by (auto simp: widened_def intro: wider_refl)
qed

text \<open>The rows that a call adds below the tip, and the journals it extends.\<close>

definition amends :: "ChainPosition set \<Rightarrow> (ContractId \<times> ChainPosition) set \<Rightarrow> NodeDb \<Rightarrow> NodeDb \<Rightarrow> bool" where
  "amends T H db db' \<longleftrightarrow> meta_activation db' = meta_activation db \<and> tip_row db' = tip_row db \<and> block_rows db' = block_rows db \<and>
     widened (undo_rows db) (undo_rows db') \<and> (plain_ok db \<longrightarrow> plain_ok db') \<and> (progress_keyed db \<longrightarrow> progress_keyed db') \<and>
     tbl_dom (transaction_rows db') \<subseteq> tbl_dom (transaction_rows db) \<union> position_fixed_key ` T \<and>
     tbl_dom (history_rows db') \<subseteq> tbl_dom (history_rows db) \<union> (\<lambda>(c, p). history_key c p) ` H \<and>
     tbl_dom (hint_rows db') \<subseteq> tbl_dom (hint_rows db)"

lemma amends_refl [simp]: "amends T H db db"
  by (simp add: amends_def)

lemma amends_trans:
  assumes "amends T H a b" "amends T H b c"
  shows "amends T H a c"
  using assms unfolding amends_def by (auto intro: widened_trans)

lemma amends_mono:
  assumes "amends T H a b" "T \<subseteq> T'"
  shows "amends T' H a b"
  using assms unfolding amends_def by blast

lemma amends_chain_inv:
  assumes inv: "chain_inv db" and tip: "tip_row db = Some t" and amends: "amends T H db db'"
    and T: "\<And>p. p \<in> T \<Longrightarrow> block_height p \<le> height t"
      "\<And>p v. p \<in> T \<Longrightarrow> tbl_get (undo_rows db') (height_key (block_height p)) = Some v \<Longrightarrow> p \<in> set (transaction_positions v)"
    and H: "\<And>e. e \<in> H \<Longrightarrow> block_height (snd e) \<le> height t"
      "\<And>e v. e \<in> H \<Longrightarrow> tbl_get (undo_rows db') (height_key (block_height (snd e))) = Some v \<Longrightarrow> e \<in> set (history_keys v)"
  shows "chain_inv db'"
proof -
  note A = amends [unfolded amends_def] and D = chain_invD [OF inv]
  have kept: "meta_activation db' = meta_activation db" "tip_row db' = tip_row db" "block_rows db' = block_rows db"
    and undos: "widened (undo_rows db) (undo_rows db')" and part: "plain_ok db'" "progress_keyed db'"
    and dom: "tbl_dom (transaction_rows db') \<subseteq> tbl_dom (transaction_rows db) \<union> position_fixed_key ` T"
      "tbl_dom (history_rows db') \<subseteq> tbl_dom (history_rows db) \<union> (\<lambda>(c, p). history_key c p) ` H"
      "tbl_dom (hint_rows db') \<subseteq> tbl_dom (hint_rows db) \<union> {}"
    using A D(1,3) by blast+
  have tip': "tip_row db' = Some t" using kept tip by simp
  have wide: "\<exists>u. tbl_get (undo_rows db) k = Some u \<and> wider u v" if "tbl_get (undo_rows db') k = Some v" for k v
    using undos that unfolding widened_def by blast
  have lists: "\<exists>u. tbl_get (undo_rows db) k = Some u \<and> listed_positions u \<subseteq> listed_positions v"
    "\<exists>u. tbl_get (undo_rows db) k = Some u \<and> listed_history u \<subseteq> listed_history v"
    "\<exists>u. tbl_get (undo_rows db) k = Some u \<and> listed_hints u \<subseteq> listed_hints v"
    "\<exists>u. tbl_get (undo_rows db) k = Some u \<and> previous_tip v = previous_tip u" "progress_undo_ok v"
    if "tbl_get (undo_rows db') k = Some v" for k v
    using wide [OF that] D(4) unfolding wider_def by blast+
  have "linked db'"
    by (rule linked_undo [OF D(2) kept lists(4)]) (use undos in \<open>simp_all add: widened_def\<close>)
  moreover have "dated position_height listed_positions (tbl_dom (transaction_rows db')) db'"
    by (rule dated_amend [OF D(5) tip tip' dom(1) _ lists(1)]) (use T in \<open>auto simp: listed_positions_def\<close>)
  moreover have "dated history_height listed_history (tbl_dom (history_rows db')) db'"
    by (rule dated_amend [OF D(6) tip tip' dom(2) _ lists(2)]) (use H in \<open>force simp: listed_history_def\<close>)+
  moreover have "dated position_height listed_hints (tbl_dom (hint_rows db')) db'"
    by (rule dated_amend [OF D(7) tip tip' dom(3) _ lists(3)]) simp_all
  ultimately show ?thesis using part lists(5) unfolding chain_inv_def by blast
qed



section \<open>Late registration\<close>

definition planned :: "ChainAnchor \<Rightarrow> RegistrationPreflight \<Rightarrow> bool" where
  "planned tip pre \<longleftrightarrow> (\<forall>g \<in> set (reg_groups pre). block_height (group_position g) \<le> height tip) \<and>
     (\<forall>e \<in> set (reg_progress pre). progress_contract (snd e) = fst e)"

lemma planned_update:
  assumes "planned tip pre" "\<And>g. group_position (f g) = group_position g"
  shows "planned tip (update_group i f pre)"
proof (cases "i < length (reg_groups pre)")
  case True
  then show ?thesis
    using assms nth_mem [OF True] by (fastforce simp: planned_def update_group_def dest: subsetD [OF set_update_subset_insert])
qed (use assms(1) in \<open>simp add: planned_def update_group_def list_update_beyond\<close>)

lemma planned_owners:
  assumes "rfold (propose_owner db c) ts pre = Ok pre'" "planned tip pre"
  shows "planned tip pre'"
  by (rule rfold_invariant [where P = "planned tip", OF assms])
    (auto simp: propose_owner_def planned_def split: option.splits)

lemma planned_join:
  assumes "join_registration_group ops db r evidence pre = Ok (pre', i)" "planned tip pre" "block_height (creation_position r) \<le> height tip"
  shows "planned tip pre'"
proof (cases "list_position (\<lambda>g. group_position g = creation_position r) (reg_groups pre)")
  case None
  then obtain i n where "pre' = pre\<lparr>reg_groups := reg_groups pre @ [\<lparr>group_position = creation_position r,
      group_anchor = evidence_anchor evidence, group_txid = i, group_raw_tx = serialize_tx ops (evidence_transaction evidence),
      group_output_count = n, existing_contract_ids = [], new_contract_ids = []\<rparr>], reg_txids := (i, creation_position r) # reg_txids pre\<rparr>"
    using assms(1) by (auto simp: join_registration_group_def Let_def result_simps)
  then show ?thesis using assms(2,3) by (simp add: planned_def)
next
  case (Some index)
  then show ?thesis using assms(1,2) by (auto simp: join_registration_group_def Let_def result_simps)
qed

lemma planned_preflight:
  assumes "preflight_registration ops db tip registration pre = Ok pre'" "planned tip pre"
  shows "planned tip pre'"
proof -
  obtain r evidence where reg: "registration = (r, evidence)" by (cases registration)
  from assms(1) obtain pre1 i where le: "block_height (creation_position r) \<le> height tip"
    and join: "join_registration_group ops db r evidence pre = Ok (pre1, i)"
    and plan: "(case read_contract db (contract_id r) of
       Some existing \<Rightarrow>
         rbind (ensure (registration_identity_matches existing r) (ContractAlreadyExists (contract_id r))) (\<lambda>_.
         Ok (update_group i (\<lambda>g. g\<lparr>existing_contract_ids := existing_contract_ids g @ [contract_id r]\<rparr>)
           ((claim_hint (associated_hint evidence) pre1)\<lparr>reg_existing := (contract_id r, normalize_ready_anchor existing tip)
             # reg_existing (claim_hint (associated_hint evidence) pre1)\<rparr>)))
     | None \<Rightarrow> plan_new_contract db tip r i (claim_hint (associated_hint evidence) pre1)) = Ok pre'"
    unfolding reg preflight_registration_def Let_def by (auto simp: result_simps not_less)
  have "planned tip pre1" by (rule planned_join [OF join assms(2) le])
  then have hint: "planned tip (claim_hint h pre1)" for h by (simp add: claim_hint_def planned_def split: option.split)
  show ?thesis
  proof (cases "read_contract db (contract_id r)")
    case None
    then obtain pre2 n where "rfold (propose_owner db (contract_id r)) (outpoints r) (claim_hint (associated_hint evidence) pre1) = Ok pre2"
      and pre': "pre' = update_group i (\<lambda>g. g\<lparr>new_contract_ids := new_contract_ids g @ [contract_id r]\<rparr>)
        (pre2\<lparr>reg_progress := (contract_id r, \<lparr>progress_contract = contract_id r, pinned_tip = tip,
           next_position = \<lparr>block_height = block_height (creation_position r), tx_index = n\<rparr>, last_applied = None\<rparr>) # reg_progress pre2\<rparr>)"
      using plan by (auto simp: plan_new_contract_def Let_def result_simps)
    then have "planned tip pre2" using hint planned_owners by blast
    then show ?thesis unfolding pre' by (intro planned_update) (simp_all add: planned_def)
  next
    case (Some existing)
    then show ?thesis using plan hint [of "associated_hint evidence"]
      by (auto simp: result_simps planned_def intro!: planned_update [unfolded planned_def])
  qed
qed



text \<open>The writes.\<close>

lemma amends_cong:
  assumes "chain_part db' = chain_part db"
  shows "amends T H db db'"
proof -
  have eq: "meta_activation db' = meta_activation db" "tip_row db' = tip_row db" "block_rows db' = block_rows db"
    "undo_rows db' = undo_rows db" "transaction_rows db' = transaction_rows db" "output_rows db' = output_rows db"
    "history_rows db' = history_rows db" "hint_rows db' = hint_rows db" "progress_rows db' = progress_rows db"
    using assms by (simp_all add: chain_part_def)
  show ?thesis by (simp add: amends_def plain_ok_def progress_keyed_def eq)
qed

lemma amends_output: "amends T H db (insert_output_ref p q db)"
  by (simp add: amends_def insert_output_ref_def plain_ok_def progress_keyed_def)

lemma dom_insert [simp]: "tbl_dom (tbl_insert k v t) = insert k (tbl_dom t)"
  by (auto simp: tbl_dom_def)

lemma amends_transaction:
  assumes "tbl_get (transaction_rows db) (position_fixed_key p) \<noteq> None \<or> p \<in> T"
  shows "amends T H db (insert_transaction_row p row db)"
  using assms by (auto simp: amends_def insert_transaction_row_def plain_ok_def progress_keyed_def tbl_dom_def)

lemma amends_progress:
  assumes "progress_contract p = c"
  shows "amends T H db (db\<lparr>progress_rows := tbl_insert (contract_fixed_key c) p (progress_rows db)\<rparr>)"
  using assms by (auto simp: amends_def plain_ok_def progress_keyed_def)

lemma amends_undo:
  assumes "\<And>u. wider u (f u)"
  shows "amends T H db (amend_undo h f db)"
proof (cases "tbl_get (undo_rows db) (height_key h)")
  case None
  then show ?thesis by (simp add: amend_undo_def)
next
  case (Some u)
  show ?thesis
    using widened_insert [OF Some assms] by (simp add: amend_undo_def Some amends_def plain_ok_def progress_keyed_def)
qed

lemma amends_event: "push_event ev db = Ok db' \<Longrightarrow> amends T H db db'"
  by (rule push_event_shape) (auto intro!: amends_cong simp: chain_part_def)

lemma amends_contract: "insert_contract ops r db = Ok db' \<Longrightarrow> amends T H db db'"
  by (rule amends_cong) (simp add: insert_contract_Ok chain_part_def)

lemma amends_remove: "amends T H db (remove_contract ops r db)"
  by (rule amends_cong) (simp add: chain_part_def)

lemma merge_amends:
  assumes "merge_registration_transaction_group g db = Ok (db', created)"
  shows "amends (if created then {group_position g} else {}) {} db db'"
proof (cases "tbl_get (transaction_rows db) (position_fixed_key (group_position g))")
  case None
  then obtain row refs where refs: "rfold (insert_group_output (group_position g)) refs (insert_transaction_row (group_position g) row db) = Ok db'"
    and created: created
    using assms by (auto simp: merge_registration_transaction_group_def Let_def result_simps)
  have "amends {group_position g} {} db (insert_transaction_row (group_position g) row db)" by (rule amends_transaction) simp
  then have "amends {group_position g} {} db db'"
    by (rule rfold_invariant [where P = "amends {group_position g} {} db", OF refs])
      (auto simp: insert_group_output_def result_simps intro: amends_trans amends_output)
  then show ?thesis using created by simp
next
  case (Some row)
  then show ?thesis
    using assms by (auto simp: merge_registration_transaction_group_def Let_def result_simps split: if_splits intro: amends_transaction)
qed

lemma merge_groups_amends:
  assumes "rfold merge_groups gs (db, []) = Ok (db', inserted)"
  shows "amends (group_position ` set inserted) {} db db'" "set inserted \<subseteq> set gs"
proof -
  let ?P = "\<lambda>x. amends (group_position ` set (snd x)) {} db (fst x) \<and> set (snd x) \<subseteq> set gs"
  have "?P (db', inserted)"
  proof (rule rfold_invariant [where P = ?P, OF assms])
    show "?P (db, [])" by simp
    fix g s s' assume g: "g \<in> set gs" "?P s" and run: "merge_groups g s = Ok s'"
    obtain a gs1 where s: "s = (a, gs1)" by (cases s)
    obtain b created where b: "merge_registration_transaction_group g a = Ok (b, created)"
      and s': "s' = (b, if created then gs1 @ [g] else gs1)"
      using run by (auto simp: merge_groups_def s result_simps)
    let ?T = "group_position ` set (snd s')"
    have "amends ?T {} db a" using g(2) by (auto simp: s s' intro: amends_mono)
    moreover have "amends ?T {} a b" by (rule amends_mono [OF merge_amends [OF b]]) (simp add: s')
    ultimately show "?P s'" using g by (auto simp: s s' intro: amends_trans)
  qed
  then show "amends (group_position ` set inserted) {} db db'" "set inserted \<subseteq> set gs" by simp_all
qed

lemma insert_registration_amends:
  assumes run: "insert_registration ops pre registration db = Ok db'" and plan: "planned tip pre"
  shows "amends T H db db'"
proof (cases "map_of (reg_progress pre) (contract_id (fst registration))")
  case None
  then show ?thesis using run by (simp add: insert_registration_def)
next
  case (Some p)
  let ?c = "contract_id (fst registration)"
  let ?f = "\<lambda>undo. (log_contract \<lparr>undo_contract = ?c, contract_before = None\<rparr> undo)
     \<lparr>backfill_progress_changes := backfill_progress_changes undo @ [\<lparr>undo_progress_contract = ?c, progress_before = None\<rparr>]\<rparr>"
  have p: "progress_contract p = ?c" using plan map_of_SomeD [OF Some] by (auto simp: planned_def)
  obtain db1 h where ins: "insert_contract ops (fst registration) db = Ok db1"
    and ev: "push_event (ContractRegistered ?c) (amend_undo h ?f (db1\<lparr>progress_rows := tbl_insert (contract_fixed_key ?c) p (progress_rows db1)\<rparr>)) = Ok db'"
    using run Some by (auto simp: insert_registration_def result_simps Let_def)
  have "wider u (?f u)" for u by (auto simp: wider_def listed_defs progress_undo_ok_def)
  then show ?thesis
    by (rule amends_trans [OF amends_contract [OF ins] amends_trans [OF amends_progress [OF p] amends_trans [OF amends_undo amends_event [OF ev]]]])
qed

lemma log_group_amends: "amends T H db (log_group g db)"
  unfolding log_group_def by (rule amends_undo) (auto simp: wider_def listed_defs progress_undo_ok_def)

lemma log_group_lists:
  assumes "tbl_get (undo_rows (log_group g db)) k = Some v"
  shows "k = height_key (block_height (group_position g)) \<Longrightarrow> group_position g \<in> set (transaction_positions v)"
    "\<exists>u. tbl_get (undo_rows db) k = Some u \<and> set (transaction_positions u) \<subseteq> set (transaction_positions v)"
  using assms by (auto simp: log_group_def amend_undo_def split: option.splits if_splits)

lemma log_groups_list:
  assumes "g \<in> set gs" "tbl_get (undo_rows (fold log_group gs db)) (height_key (block_height (group_position g))) = Some v"
  shows "group_position g \<in> set (transaction_positions v)"
  using assms
proof (induction gs arbitrary: v rule: rev_induct)
  case (snoc x gs)
  then have v: "tbl_get (undo_rows (log_group x (fold log_group gs db))) (height_key (block_height (group_position g))) = Some v" by simp
  show ?case using log_group_lists [OF v] snoc by auto
qed simp

lemma associate_hint_rows:
  "undo_rows (associate_new_hint pre e db) = undo_rows db" "amends T H db (associate_new_hint pre e db)"
  by (auto simp: associate_new_hint_def associate_registration_hint_def amends_def plain_ok_def progress_keyed_def tbl_dom_def
      split: prod.split option.split)

lemma fold_amends: "(\<And>x db. amends T H db (f x db)) \<Longrightarrow> amends T H db (fold f xs db)"
proof (induction xs arbitrary: db)
  case (Cons x xs)
  then show ?case using amends_trans by simp blast
qed simp

lemma register_chain_inv:
  assumes inv: "chain_inv db" and run: "register_contracts ops registrations db = Ok (db', res)"
  shows "chain_inv db'"
proof (rule register_contracts_Ok [OF run])
  fix tip pre db2 inserted db3
  let ?db1 = "fold retain_declaration (map (declaration_from_record \<circ> fst) registrations) db"
  assume tip: "tip_row db = Some tip" and pre: "rfold (preflight_registration ops db tip) registrations empty_preflight = Ok pre"
    and merge: "rfold merge_groups (reg_groups pre) (?db1, []) = Ok (db2, inserted)"
    and ins: "rfold (insert_registration ops pre) registrations db2 = Ok db3"
    and db': "db' = fold (associate_new_hint pre) registrations (fold log_group inserted db3)"
  let ?A = "amends (group_position ` set inserted) {}"
  have "planned tip empty_preflight" by (simp add: planned_def empty_preflight_def)
  then have "planned tip pre" by (rule rfold_invariant [where P = "planned tip", OF pre]) (rule planned_preflight)
  have "?A db ?db1" by (rule fold_amends) (auto simp: retain_declaration_def chain_part_def intro: amends_cong)
  moreover have "?A ?db1 db2" by (rule merge_groups_amends(1) [OF merge])
  moreover have "?A db2 db3"
    by (rule rfold_invariant [where P = "?A db2", OF ins])
      (use insert_registration_amends [OF _ \<open>planned tip pre\<close>] amends_trans in \<open>auto\<close>)
  moreover have "?A db3 (fold log_group inserted db3)" by (rule fold_amends) (rule log_group_amends)
  moreover have "?A (fold log_group inserted db3) db'" unfolding db' by (rule fold_amends) (rule associate_hint_rows(2))
  ultimately have amended: "?A db db'" by (meson amends_trans)
  have rows: "undo_rows db' = undo_rows (fold log_group inserted db3)"
    unfolding db' by (induction registrations arbitrary: db3 rule: rev_induct) (simp_all add: associate_hint_rows(1))
  show ?thesis
  proof (rule amends_chain_inv [OF inv tip amended])
    fix p assume "p \<in> group_position ` set inserted"
    then obtain g where g: "g \<in> set inserted" "p = group_position g" by blast
    then show "block_height p \<le> height tip" using merge_groups_amends(2) [OF merge] \<open>planned tip pre\<close> by (auto simp: planned_def)
    fix v assume "tbl_get (undo_rows db') (height_key (block_height p)) = Some v"
    then show "p \<in> set (transaction_positions v)" using log_groups_list [OF g(1)] g(2) rows by simp
  qed simp_all
qed



section \<open>Backfill\<close>

text \<open>The store as it would stand if the replay stopped here.\<close>

definition bf_commit :: "bytes \<Rightarrow> BackfillState \<Rightarrow> NodeDb" where
  "bf_commit key s = (case bf_undo s of
       None \<Rightarrow> bf_db s
     | Some undo \<Rightarrow> (bf_db s)\<lparr>undo_rows := tbl_insert key undo (undo_rows (bf_db s))\<rparr>)"

definition replay_inv :: "u32 \<Rightarrow> ChainAnchor \<Rightarrow> BackfillState \<Rightarrow> bool" where
  "replay_inv h t s \<longleftrightarrow> chain_inv (bf_commit (height_key h) s) \<and> tip_row (bf_db s) = Some t \<and> h \<le> height t \<and>
     tbl_ok (undo_rows (bf_db s)) \<and> (bf_undo s = None \<longrightarrow> tbl_get (undo_rows (bf_db s)) (height_key h) = None)"

lemma widened_replace:
  assumes "tbl_ok t" "wider u v"
  shows "widened (tbl_insert k u t) (tbl_insert k v t)"
proof -
  have "tbl_get (tbl_insert k u t) k \<noteq> None" by simp
  then have "tbl_insert k u t \<noteq> []" by (auto simp: tbl_get_def)
  then show ?thesis using assms by (auto simp: widened_def intro: wider_refl)
qed

lemma bf_commit_frame [simp]:
  "meta_activation (bf_commit k s) = meta_activation (bf_db s)" "tip_row (bf_commit k s) = tip_row (bf_db s)"
  "block_rows (bf_commit k s) = block_rows (bf_db s)" "transaction_rows (bf_commit k s) = transaction_rows (bf_db s)"
  "history_rows (bf_commit k s) = history_rows (bf_db s)" "hint_rows (bf_commit k s) = hint_rows (bf_db s)"
  by (simp_all add: bf_commit_def split: option.split)

lemma commit_amends:
  assumes amends: "amends T H (bf_db s) (bf_db s')" and undos: "undo_rows (bf_db s') = undo_rows (bf_db s)" "tbl_ok (undo_rows (bf_db s))"
    and log: "bf_undo s' = map_option f (bf_undo s)" "\<And>u. wider u (f u)"
  shows "amends T H (bf_commit k s) (bf_commit k s')"
proof (cases "bf_undo s")
  case None
  then show ?thesis using amends log by (simp add: bf_commit_def)
next
  case (Some u)
  have "bf_undo s' = Some (f u)" using log(1) Some by simp
  then have c: "bf_commit k s = (bf_db s)\<lparr>undo_rows := tbl_insert k u (undo_rows (bf_db s))\<rparr>"
    "bf_commit k s' = (bf_db s')\<lparr>undo_rows := tbl_insert k (f u) (undo_rows (bf_db s'))\<rparr>"
    by (simp_all add: bf_commit_def Some)
  have "plain_ok (bf_db s)" if "plain_ok (bf_commit k s)" using that undos(2) by (simp add: c plain_ok_def)
  moreover have "plain_ok (bf_commit k s')" if "plain_ok (bf_db s')" using that by (simp add: c plain_ok_def)
  moreover have "progress_keyed (bf_commit k s) = progress_keyed (bf_db s)" "progress_keyed (bf_commit k s') = progress_keyed (bf_db s')"
    by (simp_all add: c progress_keyed_def)
  moreover have "widened (undo_rows (bf_commit k s)) (undo_rows (bf_commit k s'))"
    using widened_replace [OF undos(2) log(2)] by (simp add: c undos(1))
  ultimately show ?thesis using amends unfolding amends_def bf_commit_frame by blast
qed

lemma replay_step:
  assumes inv: "replay_inv h t s" and amends: "amends T H (bf_db s) (bf_db s')" and undos: "undo_rows (bf_db s') = undo_rows (bf_db s)"
    and log: "bf_undo s' = map_option f (bf_undo s)" "\<And>u. wider u (f u)"
    and T: "\<And>p. p \<in> T \<Longrightarrow> block_height p = h \<and> (\<forall>u. p \<in> set (transaction_positions (f u)))"
    and H: "\<And>e. e \<in> H \<Longrightarrow> block_height (snd e) = h \<and> (\<forall>u. e \<in> set (history_keys (f u)))"
  shows "replay_inv h t s'"
proof -
  let ?k = "height_key h"
  note I = inv [unfolded replay_inv_def]
  have c: "amends T H (bf_commit ?k s) (bf_commit ?k s')"
    by (rule commit_amends [OF amends undos _ log]) (use I in blast)
  have tip: "tip_row (bf_commit ?k s) = Some t" using I by simp
  have row: "\<exists>u. v = f u" if "tbl_get (undo_rows (bf_commit ?k s')) ?k = Some v" for v
    using that I by (cases "bf_undo s") (auto simp: bf_commit_def log undos)
  have "chain_inv (bf_commit ?k s')"
  proof (rule amends_chain_inv [OF _ tip c])
    show "chain_inv (bf_commit ?k s)" using I by simp
    show "block_height p \<le> height t" if "p \<in> T" for p using T [OF that] I by simp
    show "block_height (snd e) \<le> height t" if "e \<in> H" for e using H [OF that] I by simp
    show "p \<in> set (transaction_positions v)" if "p \<in> T" "tbl_get (undo_rows (bf_commit ?k s')) (height_key (block_height p)) = Some v" for p v
      using T [OF that(1)] row [of v] that(2) by auto
    show "e \<in> set (history_keys v)" if "e \<in> H" "tbl_get (undo_rows (bf_commit ?k s')) (height_key (block_height (snd e))) = Some v" for e v
      using H [OF that(1)] row [of v] that(2) by auto
  qed
  moreover have "tip_row (bf_db s') = Some t" using amends I by (simp add: amends_def)
  ultimately show ?thesis using I undos log(1) by (simp add: replay_inv_def)
qed

lemma update_replay:
  assumes inv: "replay_inv h t s" and at: "block_height (delta_position delta) = h"
    and run: "backfill_update ops targets delta n u s = Ok s'"
  shows "replay_inv h t s'"
proof (rule backfill_update_Ok [OF run])
  fix before db1 db2
  let ?e = "(updated_contract u, delta_position delta)"
  assume rep: "replace_state ops before u (bf_db s) = Ok db1" and hist: "insert_history delta u db1 = Ok db2" "bf_db s' = db2"
    and undo: "bf_undo s' = map_option (\<lambda>undo. (log_contract \<lparr>undo_contract = updated_contract u, contract_before = Some before\<rparr> undo)
      \<lparr>history_keys := history_keys undo @ [(updated_contract u, delta_position delta)]\<rparr>) (bf_undo s)"
  have "amends {} {?e} db1 db2" using insert_history_Ok(1) [OF hist(1)] by (auto simp: amends_def plain_ok_def progress_keyed_def)
  then have "amends {} {?e} (bf_db s) (bf_db s')"
    unfolding hist(2) by (rule amends_trans [OF amends_trans [OF amends_remove amends_contract [OF replace_state_Ok [OF rep]]]])
  then show ?thesis
    by (rule replay_step [OF inv _ _ undo])
      (use insert_history_Ok(1) [OF hist(1)] hist(2) insert_undo [OF replace_state_Ok [OF rep]] at in
        \<open>auto simp: wider_def listed_defs progress_undo_ok_def\<close>)
qed

lemma row_replay:
  assumes inv: "replay_inv h t s" and at: "block_height (delta_position delta) = h"
    and run: "backfill_transaction_row ops delta s = Ok s'"
  shows "replay_inv h t s'"
proof (cases "tbl_get (transaction_rows (bf_db s)) (position_fixed_key (delta_position delta))")
  case None
  let ?row = "delta_transaction ops delta (sort_dedup_contracts (map updated_contract (state_updates delta)))"
  let ?s = "bf_log (\<lambda>undo. undo\<lparr>transaction_positions := transaction_positions undo @ [delta_position delta]\<rparr>)
    (s\<lparr>bf_db := insert_transaction_row (delta_position delta) ?row (bf_db s)\<rparr>)"
  obtain refs where refs: "rfold (backfill_output delta) refs ?s = Ok s'"
    using run None by (auto simp: backfill_transaction_row_def Let_def result_simps)
  have "amends {delta_position delta} {} (bf_db s) (bf_db ?s)" by (simp add: amends_transaction)
  then have "replay_inv h t ?s"
    by (rule replay_step [OF inv, where f = "\<lambda>undo. undo\<lparr>transaction_positions := transaction_positions undo @ [delta_position delta]\<rparr>"])
      (use at in \<open>auto simp: insert_transaction_row_def wider_def listed_defs progress_undo_ok_def\<close>)
  then show ?thesis
  proof (rule rfold_invariant [where P = "replay_inv h t", OF refs])
    fix p s1 s2 assume s1: "replay_inv h t s1" and run: "backfill_output delta p s1 = Ok s2"
    have s2: "bf_db s2 = insert_output_ref (delta_position delta) p (bf_db s1)"
      "bf_undo s2 = map_option (\<lambda>undo. undo\<lparr>output_outpoints := output_outpoints undo @ [p]\<rparr>) (bf_undo s1)"
      using run by (auto simp: backfill_output_def result_simps)
    show "replay_inv h t s2"
      by (rule replay_step [OF s1 _ _ s2(2), where T = "{}" and H = "{}"])
        (simp_all add: s2(1) amends_output wider_def listed_defs progress_undo_ok_def, simp add: insert_output_ref_def)
  qed
next
  case (Some stored)
  then obtain row where "s' = s\<lparr>bf_db := insert_transaction_row (delta_position delta) row (bf_db s)\<rparr>"
    using run by (auto simp: backfill_transaction_row_def Let_def result_simps)
  then show ?thesis
    by (intro replay_step [OF inv, where T = "{}" and H = "{}" and f = "\<lambda>u. u"])
      (use Some in \<open>simp_all add: amends_transaction option.map_ident\<close>, simp add: insert_transaction_row_def)
qed


lemma transaction_replay:
  assumes inv: "replay_inv h t s" and at: "block_height (delta_position delta) = h"
    and run: "apply_backfill_transaction ops targets delta s = Ok s'"
  shows "replay_inv h t s'"
proof -
  obtain n s1 where updates: "rfold (backfill_update ops targets delta n) (state_updates delta) s = Ok s1"
    and row: "backfill_transaction_row ops delta s1 = Ok s'"
    using run by (auto simp: apply_backfill_transaction_def result_simps)
  have "replay_inv h t s1"
    using inv by (rule rfold_invariant [where P = "replay_inv h t", OF updates]) (rule update_replay [OF _ at])
  then show ?thesis using at row by (rule row_replay)
qed

lemma advance_replay:
  assumes inv: "replay_inv h t s" and run: "advance_backfill ops delta digest tip n item (s, ready) = Ok (s', ready')"
  shows "replay_inv h t s'"
proof (rule advance_backfill_Ok [OF run])
  fix before sync item' count db3 and db1 :: NodeDb
  let ?log = "log_contract \<lparr>undo_contract = progress_contract item, contract_before = Some before\<rparr>"
  let ?db2 = "db1\<lparr>progress_rows := tbl_insert (contract_fixed_key (progress_contract item)) item' (progress_rows db1)\<rparr>"
  assume ins: "insert_contract ops (before\<lparr>sync_state := sync\<rparr>) (remove_contract ops before (bf_db s)) = Ok db1"
    and ev: "push_event (BackfillApplied (progress_contract item) (delta_anchor delta) count) ?db2 = Ok db3"
    and item: "progress_contract item' = progress_contract item"
    and ev2: "bf_db s' = db3 \<or> push_event (ContractReady (progress_contract item) (delta_anchor delta)) db3 = Ok (bf_db s')"
    and undo: "bf_undo s' = bf_undo s \<or> bf_undo s' = map_option ?log (bf_undo s)"
  have "amends {} {} db3 (bf_db s')" "undo_rows (bf_db s') = undo_rows db3"
    using ev2 amends_event push_event_frame(2) by auto
  moreover have "amends {} {} (bf_db s) db3"
    by (rule amends_trans [OF amends_trans [OF amends_remove amends_contract [OF ins]] amends_trans [OF amends_progress [OF item] amends_event [OF ev]]])
  moreover have "undo_rows db3 = undo_rows (bf_db s)" using push_event_frame(2) [OF ev] insert_undo [OF ins] by simp
  ultimately have rows: "amends {} {} (bf_db s) (bf_db s')" "undo_rows (bf_db s') = undo_rows (bf_db s)"
    using amends_trans by auto
  have wide: "wider u (?log u)" for u by (simp add: wider_def listed_defs progress_undo_ok_def)
  from undo show ?thesis
  proof
    assume "bf_undo s' = bf_undo s"
    then show ?thesis by (intro replay_step [OF inv rows, where f = "\<lambda>u. u"]) (simp_all add: option.map_ident)
  next
    assume "bf_undo s' = map_option ?log (bf_undo s)"
    then show ?thesis by (rule replay_step [OF inv rows _ wide]) simp_all
  qed
qed

lemma canonical_below_tip:
  assumes "canonical_anchor db h = Some a"
  shows "\<exists>t. tip_row db = Some t \<and> h \<le> height t"
  using assms by (auto simp: canonical_anchor_def not_less split: option.splits if_splits)

lemma replay_start:
  assumes inv: "chain_inv db" and tip: "tip_row db = Some t" "h \<le> height t"
  shows "replay_inv h t \<lparr>bf_db = db, bf_undo = map_option (\<lambda>undo. undo\<lparr>backfill_progress_changes := backfill_progress_changes undo @
      map (\<lambda>item. \<lparr>undo_progress_contract = progress_contract item, progress_before = Some item\<rparr>) progress\<rparr>)
      (tbl_get (undo_rows db) (height_key h)), bf_transitions = []\<rparr>" (is "replay_inv h t ?s")
proof -
  let ?f = "\<lambda>undo. undo\<lparr>backfill_progress_changes := backfill_progress_changes undo @
      map (\<lambda>item. \<lparr>undo_progress_contract = progress_contract item, progress_before = Some item\<rparr>) progress\<rparr>"
  have commit: "bf_commit (height_key h) ?s = amend_undo h ?f db"
    by (simp add: bf_commit_def amend_undo_def split: option.split)
  have "amends {} {} db (amend_undo h ?f db)"
    by (rule amends_undo) (auto simp: wider_def listed_defs progress_undo_ok_def)
  then have "chain_inv (bf_commit (height_key h) ?s)" unfolding commit by (rule amends_chain_inv [OF inv tip(1)]) simp_all
  then show ?thesis using chain_invD(1) [OF inv] tip by (simp add: replay_inv_def plain_ok_def)
qed

lemma backfill_chain_inv:
  assumes inv: "chain_inv db" and run: "apply_backfill_block ops targets delta db = Ok (db', res)"
  shows "chain_inv db'"
proof (rule backfill_Ok [OF run])
  fix digest progress ready
  let ?h = "height (delta_anchor delta)"
  let ?undo = "map_option (\<lambda>undo. undo\<lparr>backfill_progress_changes := backfill_progress_changes undo @
      map (\<lambda>item. \<lparr>undo_progress_contract = progress_contract item, progress_before = Some item\<rparr>) progress\<rparr>)
      (tbl_get (undo_rows db) (height_key ?h))"
  assume shape: "validate_block_shape ops delta = Ok ()" and verify: "verify_backfill_block delta db = Ok ()"
    and "replay_backfill ops (sort_dedup_contracts targets) delta digest progress db = Ok (db', ready)"
  then obtain s tip n s' where txs: "rfold (apply_backfill_transaction ops (sort_dedup_contracts targets)) (relevant_transactions delta)
        \<lparr>bf_db = db, bf_undo = ?undo, bf_transitions = []\<rparr> = Ok s"
    and adv: "rfold (advance_backfill ops delta digest tip n) progress (s, []) = Ok (s', ready)"
    and db': "db' = bf_commit (height_key ?h) s'"
    by (auto simp: replay_backfill_def Let_def result_simps bf_commit_def)
  obtain t where t: "tip_row db = Some t" "?h \<le> height t"
    using verify canonical_below_tip [of db ?h "delta_anchor delta"] by (auto simp: verify_backfill_block_def result_simps)
  let ?P = "replay_inv ?h t"
  have "?P s"
  proof (rule rfold_invariant [where P = ?P, OF txs replay_start [OF inv t]])
    fix d s1 s2 assume d: "d \<in> set (relevant_transactions delta)" "?P s1"
      "apply_backfill_transaction ops (sort_dedup_contracts targets) d s1 = Ok s2"
    show "?P s2" by (rule transaction_replay [OF d(2) _ d(3)]) (use d(1) shape_at_height [OF shape] in \<open>simp add: block_at_height_def\<close>)
  qed
  then have "?P (fst (s', ready))"
    by (intro rfold_invariant [where P = "\<lambda>s. ?P (fst s)", OF adv]) (use advance_replay in \<open>auto simp: split_paired_all\<close>)
  then show ?thesis by (simp add: replay_inv_def db')
qed (use inv in simp)


section \<open>The write interface\<close>

lemma empty_chain_inv:
  assumes "block_rows db = []" "undo_rows db = []" "transaction_rows db = []" "output_rows db = []" "history_rows db = []"
    "hint_rows db = []" "progress_rows db = []" "tip_row db = meta_activation db"
  shows "chain_inv db"
proof -
  have "linked db"
    by (cases "meta_activation db") (simp_all add: linked_def assms chain_from_def anchor_at_def tbl_get_def not_le)
  then show ?thesis by (simp add: chain_inv_def plain_ok_def progress_keyed_def dated_def assms tbl_dom_def tbl_get_def)
qed

definition linked_inv :: "node_ops \<Rightarrow> NodeDb \<Rightarrow> bool" where
  "linked_inv ops db \<longleftrightarrow> node_inv ops db \<and> chain_inv db"


lemma initialize_chain_inv:
  assumes inv: "chain_inv db" and none: "meta_activation db = None" "tip_row db = None"
  shows "chain_inv (db\<lparr>meta_identity := i, meta_activation := Some a, tip_row := Some a\<rparr>)"
proof -
  let ?db = "db\<lparr>meta_identity := i, meta_activation := Some a, tip_row := Some a\<rparr>"
  note D = chain_invD [OF inv]
  have rows: "block_rows db = []" "undo_rows db = []" using D(2) none by (simp_all add: linked_def)
  have dom: "tbl_dom (transaction_rows db) = {}" "tbl_dom (history_rows db) = {}" "tbl_dom (hint_rows db) = {}"
    using D(5-7) none unfolding dated_def by auto
  have "linked ?db" by (simp add: linked_def chain_from_def anchor_at_def rows tbl_get_def not_le)
  then show ?thesis using D(1,3) by (simp add: chain_inv_def plain_ok_def progress_keyed_def dated_def dom rows tbl_get_def)
qed

lemma perform_chain_inv:
  assumes inv: "node_inv ops db" "chain_inv db" and typed: "call_typed ops call" and run: "perform ops call db = Ok (db', ())"
  shows "chain_inv db'"
proof (cases call)
  case (CallOpen e)
  then show ?thesis
    using inv(2) run by (auto simp: chain_part_def elim!: initialize_schema_Ok intro: iffD2 [OF chain_inv_cong])
next
  case (CallInitializeChain identity activation)
  then show ?thesis using inv(2) run initialize_chain_inv by (auto elim!: initialize_chain_Ok)
next
  case (CallSetSyncStatus e status)
  then obtain cursor where "set_sync_status e status db = Ok (db', cursor)" using run by (auto simp: result_simps)
  then have "chain_part db' = chain_part db"
  proof (cases rule: set_status_Ok)
    case (changed)
    show ?thesis using push_event_frame [OF changed(3)] by (simp add: chain_part_def)
  qed (simp_all add: mark_rebuild_chain)
  then show ?thesis using inv(2) chain_inv_cong by blast
next
  case (CallRegisterContracts registrations)
  then show ?thesis using run register_chain_inv [OF inv(2)] by (auto simp: result_simps)
next
  case (CallApplyBackfillBlock contract_ids delta)
  then show ?thesis using run backfill_chain_inv [OF inv(2)] by (auto simp: result_simps)
next
  case (CallApplyBlock delta)
  then show ?thesis using run typed apply_chain_inv [OF inv] by (auto simp: result_simps)
next
  case (CallRollbackTo e ancestor)
  then show ?thesis using run rollback_chain_inv [OF inv(2)] by (auto simp: result_simps)
next
  case (CallInvalidateForRebuild e)
  then have "chain_part db' = chain_part db"
    using run by (auto simp: result_simps invalidate_for_rebuild_def dest: mark_rebuild_chain)
  then show ?thesis using inv(2) chain_inv_cong by blast
next
  case CallResetForRebuild
  then obtain cursor where "reset_for_rebuild db = Ok (db', cursor)" using run by (auto simp: result_simps)
  then show ?thesis using reset_clears empty_chain_inv by metis
qed

interpretation chain: invariant_system node_opened "node_step ops" "linked_inv ops" for ops
proof (unfold_locales)
  fix db assume opened: "node_opened db"
  then have "chain_inv db"
    by (auto simp: node_opened_iff empty_node_db_def elim!: initialize_schema_Ok intro: empty_chain_inv)
  then show "linked_inv ops db" using node.init_inv [OF opened] by (simp add: linked_inv_def)
next
  fix db l db' assume inv: "linked_inv ops db" and step: "node_step ops db l db'"
  then have "chain_inv db'"
    by (cases rule: node_after_cases [of ops l db]) (auto simp: node_step_iff linked_inv_def intro: perform_chain_inv)
  then show "linked_inv ops db'" using inv step node.step_inv [of ops db l db'] by (simp add: linked_inv_def)
qed

end
