(* ===== verification/Node_Rollback.thy ===== *)
theory Node_Rollback
  imports Node_Chain_Ops
begin

text \<open>
  The canonical chain as the store reads it back, and that rolling back the blocks inside the undo
  window restores the tables they changed.
\<close>

section \<open>Anchors of the chain\<close>

lemma checked_successor: "(h :: u32) < t \<Longrightarrow> \<exists>n. checked_add h 1 = Some n"
  using unat_less_pow [of t] by (simp add: checked_add_def word_less_nat_alt)

lemma next_le: "checked_add (h :: u32) 1 = Some n \<Longrightarrow> n \<le> t \<longleftrightarrow> h < t"
  by (auto simp: checked_simps word_less_nat_alt word_le_nat_alt)

lemma canonical_anchor_at:
  assumes act: "meta_activation db = Some a" and tip: "tip_row db = Some t" and c: "chain_from db a t"
  shows "canonical_anchor db h = anchor_at db h"
proof -
  note D = chain_fromD [OF c]
  have none: "tbl_get (block_rows db) (height_key x) = None" if "x \<le> height a \<or> height t < x" for x
    using that D(3) [of "height_key x"] by (cases "tbl_get (block_rows db) (height_key x)") auto
  consider "h = height t" | "height t < h" | "h < height t" "height a < h" | "h = height a" "h < height t" | "h < height t" "h < height a"
    by (meson linorder_less_linear)
  then show ?thesis
  proof cases
    case 1
    then show ?thesis using tip D(2) by (simp add: canonical_anchor_def)
  next
    case 2
    then show ?thesis using tip act none [of h] D(1) by (auto simp: canonical_anchor_def anchor_at_def)
  next
    case 3
    then obtain b where "tbl_get (block_rows db) (height_key h) = Some b" using D(4) [of h] by (meson less_imp_le)
    then show ?thesis using 3 tip act by (auto simp: canonical_anchor_def anchor_at_def)
  next
    case 4
    then obtain n where n: "checked_add h 1 = Some n" using checked_successor [of h "height t"] by blast
    note s = next_height [OF n]
    have "n \<le> height t" "height a < n" using s(1) 4 by (simp_all add: next_le [OF n])
    then obtain b where "tbl_get (block_rows db) (height_key n) = Some b" "stored_prev_hash b = hash a"
      using D(4) [of n] s(2) 4 act by (auto simp: anchor_at_def)
    then show ?thesis using 4 tip act none [of h] n by (auto simp: canonical_anchor_def anchor_at_def)
  next
    case 5
    then obtain n where n: "checked_add h 1 = Some n" using checked_successor [of h "height t"] by blast
    then have "n \<le> height a" using 5 by (simp add: next_le [OF n])
    then show ?thesis using 5 tip act none [of h] none [of n] n by (auto simp: canonical_anchor_def anchor_at_def)
  qed
qed



section \<open>Extending the chain by blocks\<close>

text \<open>None of the transactions of a block has an output that is already indexed.\<close>

definition fresh_outputs :: "BlockDelta \<Rightarrow> NodeDb \<Rightarrow> bool" where
  "fresh_outputs delta db \<longleftrightarrow> (\<forall>t \<in> set (relevant_transactions delta). \<forall>v.
     tbl_get (output_rows db) (outpoint_fixed_key (OutPoint (delta_txid t) v)) = None)"

inductive extended :: "node_ops \<Rightarrow> NodeDb \<Rightarrow> BlockDelta list \<Rightarrow> NodeDb \<Rightarrow> bool" for ops db where
  none: "extended ops db [] db"
| block: "extended ops db ds db1 \<Longrightarrow> typed_block ops delta \<Longrightarrow> fresh_outputs delta db1 \<Longrightarrow>
    apply_block ops delta db1 = Ok (db2, r) \<Longrightarrow> block_applied r \<Longrightarrow> extended ops db (ds @ [delta]) db2"

lemma apply_block_cursor:
  assumes "apply_block ops delta db = Ok (db', r)"
  shows "event_cursor_from_meta db' = Ok (apply_high_watermark r)"
  using assms by (auto simp: apply_block_def Let_def result_simps split: option.splits if_splits)

lemma extended_inv:
  assumes "extended ops db ds db'" "linked_inv ops db"
  shows "linked_inv ops db'"
  using assms by (induction rule: extended.induct) (auto simp: linked_inv_def intro: apply_block_inv apply_chain_inv)

lemma undo_heights_range:
  assumes "n \<le> unat H"
  shows "h \<in> set (undo_heights n H) \<longleftrightarrow> unat H < unat h + n \<and> h \<le> H"
  using assms
proof (induction n arbitrary: H)
  case (Suc n)
  then have "H \<noteq> 0" by auto
  then have H: "unat (H - 1) = unat H - 1" by (rule unat_minus_one)
  then show ?case using Suc.IH [of "H - 1"] Suc.prems by (auto simp: word_le_nat_alt word_unat_eq_iff)
qed (simp add: word_le_nat_alt)

text \<open>The journal rows that pruning keeps.\<close>

lemma kept_undo:
  assumes "undo_rows db' = fold tbl_remove (filter (\<lambda>k. u32_from_be k < saturating_sub_u32 H (UNDO_RETENTION_BLOCKS - 1))
      (tbl_keys (tbl_insert (height_key H) undo (undo_rows db)))) (tbl_insert (height_key H) undo (undo_rows db))"
    and "unat H < unat h + unat UNDO_RETENTION_BLOCKS"
  shows "tbl_get (undo_rows db') (height_key h) = (if h = H then Some undo else tbl_get (undo_rows db) (height_key h))"
proof -
  have "u32_from_be (height_key h) = h" by (simp add: height_key_def)
  moreover have "saturating_sub_u32 H (UNDO_RETENTION_BLOCKS - 1) \<le> h"
    using assms(2) by (auto simp: saturating_sub_u32_def UNDO_RETENTION_BLOCKS_def word_le_nat_alt unat_sub)
  ultimately show ?thesis by (auto simp: assms(1) prune_get)
qed

lemma applied_unlisted:
  assumes inv: "chain_inv db" and tip: "tip_row db = Some t" "height t < height (delta_anchor delta)"
    and logged: "rows_logged db delta db1 undo" and fresh: "fresh_outputs delta db"
  shows "unlisted undo db"
proof -
  note D = chain_invD [OF inv] and L = logged [unfolded rows_logged_def]
  have above: "k \<notin> ks" if "dated at listed ks db" "at k = height (delta_anchor delta)" for at listed k ks
    using that tip unfolding dated_def by (metis linorder_not_le option.inject)
  have "tbl_get (transaction_rows db) (position_fixed_key p) = None" if "p \<in> set (transaction_positions undo)" for p
    using above [OF D(5), of "position_fixed_key p"] L that by (simp add: tbl_dom_def)
  moreover have "tbl_get (history_rows db) (history_key (fst e) (snd e)) = None" if "e \<in> set (history_keys undo)" for e
    using above [OF D(6), of "history_key (fst e) (snd e)"] L that by (simp add: tbl_dom_def)
  moreover have "tbl_get (hint_rows db) (recovery_key l) = None" if "l \<in> set (recovery_locations undo)" for l
    using above [OF D(7), of "recovery_key l"] L that by (simp add: tbl_dom_def)
  moreover have "tbl_get (output_rows db) (outpoint_fixed_key q) = None" if "q \<in> set (output_outpoints undo)" for q
  proof -
    obtain d where "d \<in> set (relevant_transactions delta)" "txid q = delta_txid d" using L \<open>q \<in> _\<close> by blast
    then show ?thesis using fresh by (cases q) (simp add: fresh_outputs_def)
  qed
  ultimately show ?thesis unfolding unlisted_def by blast
qed


lemma block_step:
  assumes inv: "linked_inv ops db" and typed: "typed_block ops delta" and fresh: "fresh_outputs delta db"
    and run: "apply_block ops delta db = Ok (db', r)" "block_applied r"
  obtains tip db1 undo where "tip_row db = Some tip" "unat (height (delta_anchor delta)) = Suc (unat (height tip))"
    "height (delta_anchor delta) - 1 = height tip" "tip_row db' = Some (delta_anchor delta)"
    "undoable ops db delta tip (db1, undo)" "unlisted undo db" "chain_view db' = chain_view db1"
    "tbl_remove (height_key (height (delta_anchor delta))) (block_rows db') = block_rows db"
    "\<And>h. unat (height (delta_anchor delta)) < unat h + unat UNDO_RETENTION_BLOCKS \<Longrightarrow>
       tbl_get (undo_rows db') (height_key h) = (if h = height (delta_anchor delta) then Some undo else tbl_get (undo_rows db) (height_key h))"
    "meta_status db' \<noteq> Some RescanRequired" "retained_rows db' = retained_rows db"
proof -
  have node: "node_inv ops db" and chain: "chain_inv db" using inv by (simp_all add: linked_inv_def)
  show thesis
  proof (rule applied_block [OF node chain typed run])
    fix tip digest db1 undo
    let ?H = "height (delta_anchor delta)"
    assume tip: "tip_row db = Some tip" and succ: "checked_add (height tip) 1 = Some ?H"
      and u: "undoable ops db delta tip (db1, undo)" and view: "chain_view db' = chain_view db1"
      and blocks: "block_rows db' = tbl_insert (height_key ?H) (stored_block_of delta digest) (block_rows db)"
      and tip': "tip_row db' = Some (delta_anchor delta)" and status: "meta_status db' = meta_status db" "meta_status db \<noteq> Some RescanRequired"
      and undos: "undo_rows db' = fold tbl_remove (filter (\<lambda>k. u32_from_be k < saturating_sub_u32 ?H (UNDO_RETENTION_BLOCKS - 1))
          (tbl_keys (tbl_insert (height_key ?H) undo (undo_rows db)))) (tbl_insert (height_key ?H) undo (undo_rows db))"
      and retained: "retained_rows db' = retained_rows db"
    note n = next_height [OF succ]
    obtain a where a: "chain_from db a tip" using linked_chain [OF chain_invD(2) [OF chain] tip] by blast
    have none: "tbl_get (block_rows db) (height_key ?H) = None"
      using chain_fromD(3) [OF a, of "height_key ?H"] n(1) by (cases "tbl_get (block_rows db) (height_key ?H)") auto
    have "tbl_remove (height_key ?H) (block_rows db') = block_rows db"
      by (rule tbl_extensional) (use chain_invD(1) [OF chain] none in \<open>auto simp: blocks plain_ok_def\<close>)
    moreover have "rows_logged db delta db1 undo" using u by (simp add: undoable_def)
    then have "unlisted undo db" by (rule applied_unlisted [OF chain tip n(1) _ fresh])
    moreover have "unat ?H = Suc (unat (height tip))" using succ by (simp add: checked_simps)
    ultimately show thesis
      using that [OF tip _ n(2) tip' u _ view _ kept_undo [OF undos]] status retained by simp
  qed
qed

text \<open>Reverting the journals of the last blocks, newest first.\<close>

definition rows_agree :: "nat \<Rightarrow> u32 \<Rightarrow> NodeDb \<Rightarrow> NodeDb \<Rightarrow> bool" where
  "rows_agree n H d db \<longleftrightarrow> (\<forall>h \<in> set (undo_heights n H).
     tbl_get (undo_rows d) (height_key h) = tbl_get (undo_rows db) (height_key h) \<and> tbl_get (undo_rows db) (height_key h) \<noteq> None)"

definition reverts_to :: "node_ops \<Rightarrow> NodeDb \<Rightarrow> ChainAnchor \<Rightarrow> nat \<Rightarrow> NodeDb \<Rightarrow> ChainAnchor \<Rightarrow> bool" where
  "reverts_to ops db tip n db' tip' \<longleftrightarrow> (\<forall>s. chain_view (rb_db s) = chain_view db' \<longrightarrow> block_rows (rb_db s) = block_rows db' \<longrightarrow>
     rb_tip s = tip' \<longrightarrow> rows_agree n (height tip') (rb_db s) db' \<longrightarrow>
     (\<exists>s'. rfold (revert_block ops) (undo_heights n (height tip')) s = Ok s' \<and> chain_view (rb_db s') = chain_view db \<and>
       block_rows (rb_db s') = block_rows db \<and> rb_tip s' = tip \<and> meta_epoch (rb_db s') = meta_epoch (rb_db s) \<and>
       meta_sequence (rb_db s') = meta_sequence (rb_db s) \<and> retained_rows (rb_db s') = retained_rows (rb_db s)))"

lemma extended_reverts:
  assumes "extended ops db ds db'" "linked_inv ops db" "tip_row db = Some tip" "length ds \<le> unat UNDO_RETENTION_BLOCKS"
  shows "\<exists>tip'. tip_row db' = Some tip' \<and> unat (height tip') = unat (height tip) + length ds \<and>
    (ds \<noteq> [] \<longrightarrow> tip' = delta_anchor (last ds) \<and> meta_status db' \<noteq> Some RescanRequired) \<and> retained_rows db' = retained_rows db \<and>
    rows_agree (length ds) (height tip') db' db' \<and> reverts_to ops db tip (length ds) db' tip'"
  using assms
proof (induction rule: extended.induct)
  case none
  then show ?case by (simp add: rows_agree_def reverts_to_def)
next
  case (block ds db1 delta db2 r)
  let ?H = "height (delta_anchor delta)" and ?n = "length ds"
  have inv1: "linked_inv ops db1" by (rule extended_inv [OF block.hyps(1) block.prems(1)])
  obtain tip1 where tip1: "tip_row db1 = Some tip1" "unat (height tip1) = unat (height tip) + ?n" "retained_rows db1 = retained_rows db"
    and avail: "rows_agree ?n (height tip1) db1 db1" and undone: "reverts_to ops db tip ?n db1 tip1"
    using block.IH block.prems by auto
  obtain dbb undo where succ: "unat ?H = Suc (unat (height tip1))" "?H - 1 = height tip1" and tip2: "tip_row db2 = Some (delta_anchor delta)"
    and u: "undoable ops db1 delta tip1 (dbb, undo)" "unlisted undo db1" and view: "chain_view db2 = chain_view dbb"
    and blocks: "tbl_remove (height_key ?H) (block_rows db2) = block_rows db1"
    and kept: "\<And>h. unat ?H < unat h + unat UNDO_RETENTION_BLOCKS \<Longrightarrow>
       tbl_get (undo_rows db2) (height_key h) = (if h = ?H then Some undo else tbl_get (undo_rows db1) (height_key h))"
    and status: "meta_status db2 \<noteq> Some RescanRequired" "retained_rows db2 = retained_rows db1"
    by (rule block_step [OF inv1 block.hyps(2-5)]) (use tip1(1) in simp)
  have top: "tbl_get (undo_rows db2) (height_key ?H) = Some undo" using kept [of ?H] by (simp add: UNDO_RETENTION_BLOCKS_def)
  have lower: "h \<noteq> ?H \<and> tbl_get (undo_rows db2) (height_key h) = tbl_get (undo_rows db1) (height_key h)"
    if "h \<in> set (undo_heights ?n (height tip1))" for h
  proof -
    have "unat (height tip1) < unat h + ?n" "h \<le> height tip1" using that undo_heights_range [of ?n "height tip1" h] tip1(2) by simp_all
    then have "unat ?H < unat h + unat UNDO_RETENTION_BLOCKS" "h \<noteq> ?H"
      using succ(1) block.prems(3) by (auto simp: word_le_nat_alt)
    then show ?thesis using kept by simp
  qed
  have "rows_agree (Suc ?n) ?H db2 db2" using top lower avail by (auto simp: rows_agree_def succ(2))
  moreover have "reverts_to ops db tip (Suc ?n) db2 (delta_anchor delta)"
    unfolding reverts_to_def
  proof (intro allI impI)
    fix s :: RollbackState
    assume s: "chain_view (rb_db s) = chain_view db2" "block_rows (rb_db s) = block_rows db2" "rb_tip s = delta_anchor delta"
      and agree: "rows_agree (Suc ?n) ?H (rb_db s) db2"
    have row: "tbl_get (undo_rows (rb_db s)) (height_key ?H) = Some undo" using agree top by (simp add: rows_agree_def)
    have ok: "indexes_ok ops db1" "plain_ok db1" using inv1 by (simp_all add: linked_inv_def node_inv_def chain_inv_def)
    obtain s1 where s1: "revert_block ops ?H s = Ok s1" "chain_view (rb_db s1) = chain_view db1" "rb_tip s1 = tip1"
      "block_rows (rb_db s1) = block_rows db1" "undo_rows (rb_db s1) = tbl_remove (height_key ?H) (undo_rows (rb_db s))"
      "meta_epoch (rb_db s1) = meta_epoch (rb_db s)" "meta_sequence (rb_db s1) = meta_sequence (rb_db s)"
      "retained_rows (rb_db s1) = retained_rows (rb_db s)"
      by (rule revert_undoable [OF ok u s(1) [unfolded view] row]) (use s(2) blocks in simp)
    have "rows_agree ?n (height tip1) (rb_db s1) db1"
      using lower agree avail by (simp add: rows_agree_def s1(5) succ(2))
    then obtain s' where "rfold (revert_block ops) (undo_heights ?n (height tip1)) s1 = Ok s'" "chain_view (rb_db s') = chain_view db"
      "block_rows (rb_db s') = block_rows db" "rb_tip s' = tip" "meta_epoch (rb_db s') = meta_epoch (rb_db s1)"
      "meta_sequence (rb_db s') = meta_sequence (rb_db s1)" "retained_rows (rb_db s') = retained_rows (rb_db s1)"
      using undone s1(2-4) unfolding reverts_to_def by blast
    then show "\<exists>s'. rfold (revert_block ops) (undo_heights (Suc ?n) ?H) s = Ok s' \<and> chain_view (rb_db s') = chain_view db \<and>
       block_rows (rb_db s') = block_rows db \<and> rb_tip s' = tip \<and> meta_epoch (rb_db s') = meta_epoch (rb_db s) \<and>
       meta_sequence (rb_db s') = meta_sequence (rb_db s) \<and> retained_rows (rb_db s') = retained_rows (rb_db s)"
      using s1(1,6-8) succ(2) by simp
  qed
  ultimately show ?case using tip2 status tip1(2,3) succ(1) by simp
qed


lemma extended_rollback:
  assumes run: "extended ops db ds db'" and inv: "linked_inv ops db" and tip: "tip_row db = Some tip"
    and len: "ds \<noteq> []" "length ds \<le> unat UNDO_RETENTION_BLOCKS"
    and cursor: "event_cursor_from_meta db' = Ok cur" "checked_add (sequence cur) 1 = Some n"
  shows "\<exists>db2 ps. rollback_to ops e tip db' = Ok (db2, RolledBack (delta_anchor (last ds)) tip ps \<lparr>epoch = epoch cur, sequence = n\<rparr>) \<and>
    chain_view db2 = chain_view db \<and> block_rows db2 = block_rows db \<and> tip_row db2 = Some tip \<and> meta_status db2 = Some Syncing \<and>
    retained_rows db2 = retained_rows db"
proof -
  let ?tip' = "delta_anchor (last ds)" and ?n = "length ds"
  obtain t where t: "t = ?tip'" "tip_row db' = Some t" "unat (height t) = unat (height tip) + ?n" "meta_status db' \<noteq> Some RescanRequired"
    "retained_rows db' = retained_rows db" and agree: "rows_agree ?n (height t) db' db'" and back1: "reverts_to ops db tip ?n db' t"
    using extended_reverts [OF run inv tip len(2)] len(1) by blast
  have lt: "height tip < height t" "unat (height t - height tip) = ?n"
    using t(3) len(1) by (simp_all add: word_less_nat_alt word_le_nat_alt unat_sub)
  have few: "\<not> height t - height tip > UNDO_RETENTION_BLOCKS" using lt(2) len(2) by (simp add: word_less_nat_alt)
  have range: "undo_range_available db' (height t) (height tip)"
    using agree by (simp add: undo_range_available_def lt(2) rows_agree_def)
  let ?s = "\<lparr>rb_db = db', rb_tip = t, rb_positions = [], rb_affected = []\<rparr>"
  obtain s where s: "rfold (revert_block ops) (undo_heights ?n (height t)) ?s = Ok s" "chain_view (rb_db s) = chain_view db"
    "block_rows (rb_db s) = block_rows db" "rb_tip s = tip" "meta_epoch (rb_db s) = meta_epoch db'" "meta_sequence (rb_db s) = meta_sequence db'"
    "retained_rows (rb_db s) = retained_rows db'"
    using back1 [unfolded reverts_to_def, rule_format, of ?s] agree by auto
  let ?ps = "sort_key position_fixed_key (rb_positions s)"
  let ?d = "(rb_db s)\<lparr>tip_row := Some tip, meta_status := Some Syncing\<rparr>"
  let ?ev = "ChainRolledBack t tip ?ps (sort_dedup_contracts (rb_affected s))"
  have "event_cursor_from_meta ?d = Ok cur" using cursor(1) s(5,6) by (simp add: event_cursor_from_meta_def)
  then have ev: "\<exists>d. append_event ?ev ?d = Ok (d, \<lparr>epoch = epoch cur, sequence = n\<rparr>)" using cursor(2) by (simp add: append_event_def Let_def)
  then obtain d where d: "append_event ?ev ?d = Ok (d, \<lparr>epoch = epoch cur, sequence = n\<rparr>)" by blast
  have "tip \<noteq> t" "\<not> height t \<le> height tip" using lt(1) by auto
  then have run: "rollback_to ops e tip db' = Ok (d, RolledBack t tip ?ps \<lparr>epoch = epoch cur, sequence = n\<rparr>)"
    using t(2,4) few range s(1,4) d by (simp add: rollback_to_def lt(2) Let_def)
  obtain q es where "d = ?d\<lparr>event_rows := es, meta_sequence := q\<rparr>" by (rule append_event_shape [OF d])
  then have "chain_view d = chain_view (rb_db s)" "block_rows d = block_rows (rb_db s)" "tip_row d = Some tip" "meta_status d = Some Syncing"
    "retained_rows d = retained_rows (rb_db s)"
    by (simp_all add: chain_view_def contract_tables_def)
  then show ?thesis using run s t(1,5) by auto
qed

end
