(* ===== verification/Node_Props.thy ===== *)
theory Node_Props
  imports Node_Example Node_Rollback
begin

text \<open>
  The properties of the node's store over every reachable state, each with a witness on the
  concrete store.
\<close>

section \<open>Exact indexes\<close>

text \<open>C35. Exact indexes.  In every store reached by any sequence of calls, failed commits included, the
  owner of an outpoint, the outpoints of a contract, the script index and the asset index are
  exactly what the contract rows say: no row is stale and none is missing, and only live contracts
  have their scripts watched.  Every contract row is valid and stored under its own identifier.
\<close>

theorem node_indexes_exact:
  assumes "reachable node_opened (node_step ops) db"
  shows "(\<forall>k owner. tbl_get (owner_rows db) k = Some owner \<longleftrightarrow> (\<exists>c r t. read_contract db c = Some r \<and> t \<in> set (outpoints r) \<and>
       k = outpoint_fixed_key (tracked_outpoint t) \<and> owner = \<lparr>owner_contract = c, owner_role = tracked_role t\<rparr>))
    \<and> (\<forall>k p. tbl_get (outpoint_rows db) k = Some p \<longleftrightarrow> (\<exists>c r t. read_contract db c = Some r \<and> t \<in> set (outpoints r) \<and>
       k = contract_outpoint_key c (tracked_role t) \<and> p = tracked_outpoint t))
    \<and> (\<forall>k s. tbl_get (script_rows db) k = Some s \<longleftrightarrow> (\<exists>c r. read_contract db c = Some r \<and>
       contract_is_live (contract_state r) \<and> s \<in> set (scripts r) \<and> k = script_key ops c s))
    \<and> (\<forall>k a. tbl_get (asset_rows db) k = Some a \<longleftrightarrow> (\<exists>c r. read_contract db c = Some r \<and> a \<in> set (assets r) \<and> k = asset_key c a))
    \<and> (\<forall>c r. read_contract db c = Some r \<longrightarrow> contract_id r = c \<and> record_validate ops r = Ok ())"
proof -
  have ok: "indexes_ok ops db" using node.reachable_inv [OF assms] by (simp add: node_inv_def)
  note sound = read_sound [OF ok]
  note rows = projects_rows [OF ok]
  have p: "projects owner_entries (contract_rows db) (owner_rows db)" "projects outpoint_entries (contract_rows db) (outpoint_rows db)"
    "projects (script_entries ops) (contract_rows db) (script_rows db)" "projects asset_entries (contract_rows db) (asset_rows db)"
    using ok by (simp_all add: indexes_ok_def)
  show ?thesis
    unfolding rows [OF p(1)] rows [OF p(2)] rows [OF p(3)] rows [OF p(4)]
    by (intro conjI allI) (use sound in \<open>auto simp: owner_entries_def outpoint_entries_def script_entries_def asset_entries_def\<close>)
qed

theorem node_indexes_exact_witness:
  "tbl_get (owner_rows nx_created_db) (outpoint_fixed_key (OutPoint [1] 0)) = Some \<lparr>owner_contract = nx_market, owner_role = 0\<rparr> \<and>
   tbl_get (owner_rows nx_created_db) (outpoint_fixed_key (OutPoint [2] 0)) = None"
proof -
  have rows: "tbl_get (owner_rows nx_created_db) k = Some owner \<longleftrightarrow> (\<exists>c r t. read_contract nx_created_db c = Some r \<and> t \<in> set (outpoints r) \<and>
       k = outpoint_fixed_key (tracked_outpoint t) \<and> owner = \<lparr>owner_contract = c, owner_role = tracked_role t\<rparr>)" for k owner
    using node_indexes_exact [OF nx_created_reachable] by blast
  have "read_contract nx_created_db c = Some r \<longleftrightarrow> c = nx_market \<and> r = nx_contract" for c r
    by (auto simp: read_contract_def nx_created_db_def tbl_get_def)
  then have row: "tbl_get (owner_rows nx_created_db) k = Some owner \<longleftrightarrow>
      k = outpoint_fixed_key (OutPoint [1] 0) \<and> owner = \<lparr>owner_contract = nx_market, owner_role = 0\<rparr>" for k owner
    unfolding rows by (auto simp: nx_contract_def nx_outpoints_def)
  show ?thesis using row by (simp flip: not_Some_eq)
qed


section \<open>The rebuild barrier\<close>




section \<open>The canonical chain\<close>

text \<open>C37. The canonical chain.  In every reachable store whose chain is initialized, the stored blocks are
  exactly those above the activation anchor up to the tip, each names the hash of its predecessor,
  and \<open>canonical_anchor\<close> returns the anchor of every one of them, of the tip, and of the activation
  anchor, which has no block row; heights outside have none.  Each kept undo journal leads back to
  the anchor before its block, and no transaction, history entry or recovery hint lies above the
  tip.
\<close>

theorem canonical_chain:
  assumes "reachable node_opened (node_step ops) db" "meta_activation db = Some a"
  shows "\<exists>tip. tip_row db = Some tip \<and> height a \<le> height tip \<and> canonical_anchor db (height tip) = Some tip \<and>
    (\<forall>h. canonical_anchor db h = (if h = height a then Some a else map_option stored_anchor (tbl_get (block_rows db) (height_key h)))) \<and>
    (\<forall>h. tbl_get (block_rows db) (height_key h) \<noteq> None \<longleftrightarrow> height a < h \<and> h \<le> height tip) \<and>
    (\<forall>h b. tbl_get (block_rows db) (height_key h) = Some b \<longrightarrow>
       height (stored_anchor b) = h \<and> map_option hash (canonical_anchor db (h - 1)) = Some (stored_prev_hash b)) \<and>
    (\<forall>h u. tbl_get (undo_rows db) (height_key h) = Some u \<longrightarrow>
       height a < h \<and> h \<le> height tip \<and> canonical_anchor db (h - 1) = Some (previous_tip u)) \<and>
    (\<forall>p. tbl_get (transaction_rows db) (position_fixed_key p) \<noteq> None \<longrightarrow> block_height p \<le> height tip) \<and>
    (\<forall>c p. tbl_get (history_rows db) (history_key c p) \<noteq> None \<longrightarrow> block_height p \<le> height tip) \<and>
    (\<forall>l. tbl_get (hint_rows db) (recovery_key l) \<noteq> None \<longrightarrow> block_height (location_position l) \<le> height tip)"
proof -
  have inv: "chain_inv db" using chain.reachable_inv [OF assms(1)] by (simp add: linked_inv_def)
  note D = chain_invD [OF inv]
  obtain tip where tip: "tip_row db = Some tip" and c: "chain_from db a tip"
    using D(2) assms(2) by (auto simp: linked_def split: option.splits)
  note C = chain_fromD [OF c] and at = canonical_anchor_at [OF assms(2) tip c]
  have below: "at k \<le> height tip" if "dated at listed ks db" "k \<in> ks" for at listed k ks
    using that tip unfolding dated_def by auto
  have "canonical_anchor db h = (if h = height a then Some a else map_option stored_anchor (tbl_get (block_rows db) (height_key h)))" for h
    unfolding at by (simp add: anchor_at_def assms(2))
  moreover have block: "height (stored_anchor b) = h \<and> height a < h \<and> h \<le> height tip \<and> map_option hash (canonical_anchor db (h - 1)) = Some (stored_prev_hash b)"
    if b: "tbl_get (block_rows db) (height_key h) = Some b" for h b
    using C(3) [OF b] C(4) [of h] b at by auto
  moreover have "tbl_get (block_rows db) (height_key h) \<noteq> None \<longleftrightarrow> height a < h \<and> h \<le> height tip" for h
    using block [of h] C(4) [of h] by auto
  moreover have "height a < h \<and> h \<le> height tip \<and> canonical_anchor db (h - 1) = Some (previous_tip u)"
    if "tbl_get (undo_rows db) (height_key h) = Some u" for h u
    using C(5) [OF that] at by auto
  moreover have "block_height p \<le> height tip" if "tbl_get (transaction_rows db) (position_fixed_key p) \<noteq> None" for p
    using below [OF D(5), of "position_fixed_key p"] that by (simp add: tbl_dom_def)
  moreover have "block_height p \<le> height tip" if "tbl_get (history_rows db) (history_key c p) \<noteq> None" for c p
    using below [OF D(6), of "history_key c p"] that by (simp add: tbl_dom_def)
  moreover have "block_height (location_position l) \<le> height tip" if "tbl_get (hint_rows db) (recovery_key l) \<noteq> None" for l
    using below [OF D(7), of "recovery_key l"] that by (simp add: tbl_dom_def)
  moreover have "canonical_anchor db (height tip) = Some tip" using C(2) at by simp
  ultimately show ?thesis using tip C(1) by blast
qed

theorem canonical_chain_witness:
  "canonical_anchor nx_created_db 100 = Some (nx_anchor 0) \<and> canonical_anchor nx_created_db 101 = Some (nx_anchor 1) \<and>
   canonical_anchor nx_created_db 102 = None"
proof -
  have "canonical_anchor nx_created_db h = (if h = height (nx_anchor 0) then Some (nx_anchor 0)
      else map_option stored_anchor (tbl_get (block_rows nx_created_db) (height_key h)))" for h
    using canonical_chain [OF nx_created_reachable, of "nx_anchor 0"] by (simp add: nx_db_defs)
  then show ?thesis by (simp add: nx_created_db_def nx_create_def nx_delta_def nx_anchor_def tbl_get_def stored_block_of_def height_key_def)
qed


section \<open>Rolling back\<close>




end
