(* ===== verification/Spec2Isabelle.thy ===== *)
theory Spec2Isabelle
  imports Interpreter_Panic Rfq_Engine_Props Node_Props
begin

text \<open>
  A verification development of the Deadcat node: binary prediction markets on Liquid, the covenant
  rules they live by, the interpreter that recognises confirmed spends, the request-for-quote
  provider, and the node's chain-indexed store.  Paths below are relative to
  \<^verbatim>\<open>src/crates\<close>.

  \<^bold>\<open>The program.\<close>  A market is a covenant over a handful of outputs: collateral and two reissuance
  tokens while it trades, collateral alone afterwards.  \<^verbatim>\<open>deadcat-contracts\<close> fixes its economics,
  output layout, blinding schedule and witnesses, and interprets confirmed transactions against
  them.  \<^verbatim>\<open>deadcat-node\<close> feeds blocks to the interpreter and keeps the result in a database that
  can be rolled back, extended backwards for late registrations, and rebuilt.
  \<^verbatim>\<open>deadcat-rfq-provider\<close> quotes prices against its own wallet outputs and reserves them durably
  until a quote expires or is signed.

  \<^bold>\<open>Foundations.\<close>
  \<^item> \<^verbatim>\<open>Prelude\<close>: fallible computations (\<^verbatim>\<open>result\<close>, \<^verbatim>\<open>rbind\<close>, \<^verbatim>\<open>rfold\<close>, \<^verbatim>\<open>rmap\<close>), checked machine
    arithmetic, big-endian codecs, key-ordered tables with the interface \<^verbatim>\<open>ordered_table\<close>, and
    reachability with the interface \<^verbatim>\<open>invariant_system\<close>.
  \<^item> \<^verbatim>\<open>Effects\<close>: stateful fallible operations and the outcome of a redb commit, which may fail after
    the transaction became durable.
  \<^item> \<^verbatim>\<open>Domain_Types\<close> (\<^verbatim>\<open>deadcat-types/src/lib.rs\<close>) and \<^verbatim>\<open>Elements_Tx\<close> (the transaction
    vocabulary of the elements crate).

  \<^bold>\<open>Contracts\<close> (\<^verbatim>\<open>deadcat-contracts/src\<close>).
  \<^item> \<^verbatim>\<open>Market_Layout\<close>, \<^verbatim>\<open>Market_Economics\<close> model \<^verbatim>\<open>binary_market.rs\<close>: slots, storage words, roles,
    layouts, and issue, cancel, resolve, expire and redeem.  The economics refine an unbounded
    specification, conserve collateral, and can always pay every outstanding token.
  \<^item> \<^verbatim>\<open>Market_Compiled\<close> models parameter validation and the slot table of
    \<^verbatim>\<open>binary_market/compiled.rs\<close>; the SimplicityHL compiler is a parameter.
  \<^item> \<^verbatim>\<open>Rt_Schedule\<close> models \<^verbatim>\<open>rt.rs\<close>: the byte-wise scalar routines are arithmetic modulo the group
    order, the public factors balance, and side inference is exact.
  \<^item> \<^verbatim>\<open>Recovery_Codec\<close> models \<^verbatim>\<open>recovery.rs\<close>: both codecs are canonical.
  \<^item> \<^verbatim>\<open>Simplicity_Witness\<close> models \<^verbatim>\<open>finalized_spend.rs\<close> and the witness decoders;
    \<^verbatim>\<open>Market_Interpreter\<close> models \<^verbatim>\<open>interpret.rs\<close> and \<^verbatim>\<open>interpret/binary_market.rs\<close>.
    \<^verbatim>\<open>Interpreter_Props\<close> shows that an accepted spend is one economic step, spends the tracked
    window and leaves a state the next spend can be interpreted from; \<^verbatim>\<open>Interpreter_Panic\<close> that no
    index is out of bounds.  \<^verbatim>\<open>Interpreter_Example\<close> is a concrete market for the witnesses.

  \<^bold>\<open>Request for quote\<close> (\<^verbatim>\<open>deadcat-rfq-provider/src\<close>).
  \<^item> \<^verbatim>\<open>Rfq_Model\<close> (\<^verbatim>\<open>model.rs\<close>), \<^verbatim>\<open>Rfq_Quote\<close>, \<^verbatim>\<open>Rfq_Selection\<close>, \<^verbatim>\<open>Rfq_Commitment\<close> and
    \<^verbatim>\<open>Rfq_Engine\<close> (\<^verbatim>\<open>quote.rs\<close>), \<^verbatim>\<open>Rfq_Wallet\<close> (\<^verbatim>\<open>wallet.rs\<close>), \<^verbatim>\<open>Rfq_Coordinator\<close>
    (\<^verbatim>\<open>inventory.rs\<close>), \<^verbatim>\<open>Rfq_Records\<close>, \<^verbatim>\<open>Rfq_Store\<close> and \<^verbatim>\<open>Rfq_Integrity\<close> (\<^verbatim>\<open>store.rs\<close>).
  \<^item> \<^verbatim>\<open>Rfq_Pricing\<close> and \<^verbatim>\<open>Rfq_Selection_Props\<close> show that prices round in the provider's favour and
    that the bounded subset search is sound and complete.
  \<^item> \<^verbatim>\<open>Rfq_Store_Inv\<close>, \<^verbatim>\<open>Rfq_Store_Create\<close>, \<^verbatim>\<open>Rfq_Store_Ops\<close>, \<^verbatim>\<open>Rfq_Store_Steps\<close>,
    \<^verbatim>\<open>Rfq_Store_Progress\<close> and \<^verbatim>\<open>Rfq_Store_Reach\<close> carry the store invariant through every
    transaction, crash and reopening; \<^verbatim>\<open>Rfq_Store_Props\<close>, \<^verbatim>\<open>Rfq_Store_Limits\<close> and
    \<^verbatim>\<open>Rfq_Store_Expiry\<close> draw from it that the book always reopens, that an output has one holder,
    that a signing intent is final, that quotas hold and that expiry drains.
  \<^item> \<^verbatim>\<open>Rfq_Engine_Props\<close> composes engine, coordinator and store while other threads call the book.
    \<^verbatim>\<open>Rfq_Store_Example\<close> is a concrete book.

  \<^bold>\<open>The node's store\<close> (\<^verbatim>\<open>deadcat-node/src/store.rs\<close>, with the network policy of
  \<^verbatim>\<open>activation.rs\<close>).
  \<^item> \<^verbatim>\<open>Node_Types\<close>: records and errors.  \<^verbatim>\<open>Node_Store\<close>: the tables as one record, keys, events,
    contract rows, opening, chain binding, status, invalidation and reset.  \<^verbatim>\<open>Node_Chain\<close>:
    \<^verbatim>\<open>apply_block\<close> with its undo journal and \<^verbatim>\<open>rollback_to\<close>.  \<^verbatim>\<open>Node_Late\<close>:
    \<^verbatim>\<open>register_contracts\<close>.  \<^verbatim>\<open>Node_Backfill\<close>: \<^verbatim>\<open>apply_backfill_block\<close>.  \<^verbatim>\<open>Node_Queries\<close>:
    events, snapshots, pages and listings.
  \<^item> \<^verbatim>\<open>Node_Index\<close> states what an index is, as the interfaces \<^verbatim>\<open>contract_index\<close> and \<^verbatim>\<open>keyed_index\<close>
    interpreted on the four indexes; \<^verbatim>\<open>Node_Inv\<close> and \<^verbatim>\<open>Node_Inv_Ops\<close> show that every write keeps
    them exact; \<^verbatim>\<open>Node_Reach\<close> is the step system of all writes with their commit outcomes.
  \<^item> \<^verbatim>\<open>Node_Journal\<close> and \<^verbatim>\<open>Node_Undo\<close> show that an undo journal, replayed backwards, gives back the
    tables before the block.
  \<^item> \<^verbatim>\<open>Node_Dated\<close> and \<^verbatim>\<open>Node_Chain_Inv\<close> state the invariant of the chain tables: hash-linked blocks
    from the activation anchor to the tip, and rows that the journal of their block lists.
    \<^verbatim>\<open>Node_Chain_Ops\<close> shows that late registration, backfill and every other write keep it;
    \<^verbatim>\<open>Node_Rollback\<close> derives that a rollback inside the undo window (two blocks) succeeds and
    restores every chain-derived table.
  \<^item> \<^verbatim>\<open>Node_Props\<close> holds the properties, \<^verbatim>\<open>Node_Example\<close> a concrete store.

  \<^bold>\<open>Conventions.\<close>  A struct is a record, an enum a datatype, a machine integer a word of its width;
  a Rust error or panic is a value.  A write transaction is a function from the tables to a new
  database or an error; an error drops it, and the outcome of its commit is an input.  Hashes,
  transaction ids, consensus and postcard encodings, secp256k1, the Simplicity library and the
  wallet and pricing traits are arguments of the definitions.  Random epochs and clock readings are
  arguments as well.  The expiry loop of \<^verbatim>\<open>firm_quote\<close> has no bound of its own and is a
  \<^verbatim>\<open>partial_function\<close>; that it returns is a property.  All other loops are structural or have a
  termination proof; none uses fuel.

  \<^bold>\<open>Not modelled.\<close>
  \<^item> Network and process code: the chain backends \<^verbatim>\<open>deadcat-node/src/chain\<close>, the transports of
    \<^verbatim>\<open>deadcat-iroh\<close>, \<^verbatim>\<open>rpc_handler.rs\<close>, the wire types of \<^verbatim>\<open>deadcat-rpc\<close> beyond the three used by
    the store, and both \<^verbatim>\<open>main.rs\<close>: they move bytes between services.
  \<^item> The asynchronous coordination over those backends: \<^verbatim>\<open>sync.rs\<close>, \<^verbatim>\<open>registration.rs\<close>,
    \<^verbatim>\<open>discovery.rs\<close>, \<^verbatim>\<open>interpreter.rs\<close> and \<^verbatim>\<open>resolve_activation_anchor\<close>.  Their writes are the
    calls of \<^verbatim>\<open>Node_Reach\<close>, whose properties hold for every sequence of them.
  \<^item> Transaction construction on PSETs, blinding and signing: \<^verbatim>\<open>deadcat-client\<close> but for the helper
    the interpreter shares, the PSET finalisation of \<^verbatim>\<open>compiled.rs\<close>, \<^verbatim>\<open>store/settlement.rs\<close> with
    its submodules, and \<^verbatim>\<open>deadcat-rfq-wallet\<close>.  They are mostly calls into elements, secp256k1-zkp
    and LWK, whose code is not in the repository.
  \<^item> The SimplicityHL programs, which need the semantics of that language, and test code.
\<close>

end
